(* ===== verification/Prelude.thy ===== *)
theory Prelude
  imports Main "HOL-Library.List_Lexorder" "HOL-Library.Char_ord" "HOL-Library.Product_Lexorder"
    "HOL-Library.Sublist"
begin

text \<open>
  Shared ground of the development: Python exceptions as values, programs over a durable
  store with the two ambient effects the code uses (uuid4 and the clock), the transaction
  scope of the SQLite connection, Python string helpers, ISO time stamps, and the generic
  lemmas on tables (lists of rows) that the component theories share.
\<close>

section \<open>Exceptions\<close>

text \<open>
  The exception classes of \<open>work_core/errors.py\<close>, \<open>work_core/repository.py\<close>,
  the capability contract and the built-in classes the code raises or meets. An exception
  carries \<open>str(exc)\<close>, the optional \<open>code\<close> attribute and the exception it was
  raised from (\<open>__cause__ or __context__\<close>). A \<open>ServerError\<close> also has its HTTP status, its retryable flag
  and, for a version conflict, the JSON text of the \<open>current\<close> record.
\<close>

datatype exn_class =
    WorkCoreError | WorkNotOpen | InvalidProjection | InvalidProjectionTransition
  | InvalidRef | ProviderUnavailable | CapabilityUnsupported | DispatchFailed
  | DispatchAmbiguous | DispatchRejected | ExecutionStartRejected
  | ExecutionStartIndeterminate | InvalidStartReceipt | ContractViolation | InputFrozen
  | InvalidResourceObservation | FinalizationRequired | FinalizationConflict
  | WorkNotFound | ExecutionNotFound | ConcurrencyConflict
  | ServerError nat bool "string option" | EvidenceInvalid | CapabilityIdInvalid
  | ValueError | TypeError | KeyError | AttributeError | RuntimeError
  | IntegrityError | OtherException string

datatype exn = Exn (exn_cls: exn_class) (exn_msg: string) (exn_code: "string option")
  (exn_cause: "exn option")

abbreviation err :: "exn_class \<Rightarrow> string \<Rightarrow> exn" where
  "err c m \<equiv> Exn c m None None"

text \<open>\<open>type(exc).__name__\<close>\<close>

fun class_name :: "exn_class \<Rightarrow> string" where
  "class_name WorkCoreError = ''WorkCoreError''"
| "class_name WorkNotOpen = ''WorkNotOpen''"
| "class_name InvalidProjection = ''InvalidProjection''"
| "class_name InvalidProjectionTransition = ''InvalidProjectionTransition''"
| "class_name InvalidRef = ''InvalidRef''"
| "class_name ProviderUnavailable = ''ProviderUnavailable''"
| "class_name CapabilityUnsupported = ''CapabilityUnsupported''"
| "class_name DispatchFailed = ''DispatchFailed''"
| "class_name DispatchAmbiguous = ''DispatchAmbiguous''"
| "class_name DispatchRejected = ''DispatchRejected''"
| "class_name ExecutionStartRejected = ''ExecutionStartRejected''"
| "class_name ExecutionStartIndeterminate = ''ExecutionStartIndeterminate''"
| "class_name InvalidStartReceipt = ''InvalidStartReceipt''"
| "class_name ContractViolation = ''ContractViolation''"
| "class_name InputFrozen = ''InputFrozen''"
| "class_name InvalidResourceObservation = ''InvalidResourceObservation''"
| "class_name FinalizationRequired = ''FinalizationRequired''"
| "class_name FinalizationConflict = ''FinalizationConflict''"
| "class_name WorkNotFound = ''WorkNotFound''"
| "class_name ExecutionNotFound = ''ExecutionNotFound''"
| "class_name ConcurrencyConflict = ''ConcurrencyConflict''"
| "class_name (ServerError status retry current) = ''ServerError''"
| "class_name EvidenceInvalid = ''EvidenceInvalid''"
| "class_name CapabilityIdInvalid = ''CapabilityIdInvalid''"
| "class_name ValueError = ''ValueError''"
| "class_name TypeError = ''TypeError''"
| "class_name KeyError = ''KeyError''"
| "class_name AttributeError = ''AttributeError''"
| "class_name RuntimeError = ''RuntimeError''"
| "class_name IntegrityError = ''IntegrityError''"
| "class_name (OtherException n) = n"

text \<open>\<open>", ".join\<close>, which messages use.\<close>

definition join_comma :: "string list \<Rightarrow> string" where
  "join_comma xs = concat (case xs of [] \<Rightarrow> [] | y # ys \<Rightarrow> y # map (\<lambda>z. '', '' @ z) ys)"

section \<open>Time stamps\<close>

text \<open>
  An aware \<open>datetime\<close>: the wall clock in microseconds and the UTC offset in
  microseconds. Python compares instants; SQLite compares the \<open>isoformat()\<close> text,
  whose order is the wall clock first and then the offset suffix (\<open>+\<close> sorts before
  \<open>-\<close>).
\<close>

record datetime =
  dt_wall :: int
  dt_off :: int

definition instant :: "datetime \<Rightarrow> int" where
  "instant t = dt_wall t - dt_off t"

definition iso_key :: "datetime \<Rightarrow> int \<times> bool \<times> int" where
  "iso_key t = (dt_wall t, dt_off t < 0, \<bar>dt_off t\<bar>)"

definition utc_time :: "int \<Rightarrow> datetime" where
  "utc_time i = \<lparr>dt_wall = i, dt_off = 0\<rparr>"

definition local_time :: "(int \<Rightarrow> int) \<Rightarrow> int \<Rightarrow> datetime" where
  "local_time tz i = \<lparr>dt_wall = i + tz i, dt_off = tz i\<rparr>"

lemma instant_utc_time [simp]: "instant (utc_time i) = i"
  by (simp add: instant_def utc_time_def)

lemma instant_local_time [simp]: "instant (local_time tz i) = i"
  by (simp add: instant_def local_time_def)

lemma iso_key_inj: "iso_key s = iso_key t \<longleftrightarrow> s = t"
  by (cases s; cases t) (auto simp: iso_key_def)

text \<open>Among stamps of one fixed offset the text order is the order of the instants.\<close>

lemma iso_key_mono_same_offset:
  "dt_off s = dt_off t \<Longrightarrow> (iso_key s \<le> iso_key t) = (instant s \<le> instant t)"
  by (auto simp: iso_key_def instant_def less_eq_prod_def)

section \<open>Programs over a store\<close>

text \<open>
  A method of the code is a function on the world: the durable store, the supply of
  \<open>uuid4().hex\<close> values and the clock readings still to come (both arbitrary, indexed
  by how many were taken). The result is the raised exception (\<open>Inl\<close>) or the
  returned value (\<open>Inr\<close>), with the world as the method left it.
\<close>

record 'd world =
  store :: 'd
  uuid_src :: "nat \<Rightarrow> string"
  uuid_pos :: nat
  clock_src :: "nat \<Rightarrow> int"
  clock_pos :: nat
  tz_offset :: "int \<Rightarrow> int"

type_synonym ('d, 'a) prog = "'d world \<Rightarrow> (exn + 'a) \<times> 'd world"

definition preturn :: "'a \<Rightarrow> ('d, 'a) prog" where
  "preturn x w = (Inr x, w)"

definition praise :: "exn \<Rightarrow> ('d, 'a) prog" where
  "praise e w = (Inl e, w)"

definition pbind :: "('d, 'a) prog \<Rightarrow> ('a \<Rightarrow> ('d, 'b) prog) \<Rightarrow> ('d, 'b) prog" where
  "pbind m k w = (case m w of (Inl e, w') \<Rightarrow> (Inl e, w') | (Inr x, w') \<Rightarrow> k x w')"

definition pseq :: "('d, 'a) prog \<Rightarrow> ('d, 'b) prog \<Rightarrow> ('d, 'b) prog" where
  "pseq m k = pbind m (\<lambda>_. k)"

definition plift :: "exn + 'a \<Rightarrow> ('d, 'a) prog" where
  "plift r w = (r, w)"

definition raise_if :: "bool \<Rightarrow> exn \<Rightarrow> ('d, unit) prog" where
  "raise_if c e w = (if c then (Inl e, w) else (Inr (), w))"

definition read_store :: "('d \<Rightarrow> 'a) \<Rightarrow> ('d, 'a) prog" where
  "read_store f w = (Inr (f (store w)), w)"

definition write_store :: "('d \<Rightarrow> 'd) \<Rightarrow> ('d, unit) prog" where
  "write_store f w = (Inr (), w\<lparr>store := f (store w)\<rparr>)"

definition fetch_row :: "('d \<Rightarrow> 'r option) \<Rightarrow> exn \<Rightarrow> ('d, 'r) prog" where
  "fetch_row f e w = (case f (store w) of None \<Rightarrow> (Inl e, w) | Some r \<Rightarrow> (Inr r, w))"

text \<open>One SQL statement: it raises, or changes the store and yields its result (the rows of a
  query, \<open>cursor.rowcount\<close>, \<open>cursor.lastrowid\<close>).\<close>

definition exec_sql :: "('d \<Rightarrow> exn + 'a \<times> 'd) \<Rightarrow> ('d, 'a) prog" where
  "exec_sql f w = (case f (store w) of Inl e \<Rightarrow> (Inl e, w) | Inr (x, d) \<Rightarrow> (Inr x, w\<lparr>store := d\<rparr>))"

fun for_each :: "('a \<Rightarrow> ('d, unit) prog) \<Rightarrow> 'a list \<Rightarrow> ('d, unit) prog" where
  "for_each f [] = preturn ()"
| "for_each f (x # xs) = pseq (f x) (for_each f xs)"

fun map_each :: "('a \<Rightarrow> ('d, 'b) prog) \<Rightarrow> 'a list \<Rightarrow> ('d, 'b list) prog" where
  "map_each f [] = preturn []"
| "map_each f (x # xs) = pbind (f x) (\<lambda>y. pbind (map_each f xs) (\<lambda>ys. preturn (y # ys)))"

text \<open>
  \<open>with db.write_lock, conn:\<close> and \<open>Database.transaction\<close>: the body's writes are
  committed when it returns and rolled back when it raises. What was drawn from the clock
  and the id source stays drawn.
\<close>

definition transaction :: "('d, 'a) prog \<Rightarrow> ('d, 'a) prog" where
  "transaction m w = (case m w of
     (Inl e, w') \<Rightarrow> (Inl e, w'\<lparr>store := store w\<rparr>)
   | (Inr x, w') \<Rightarrow> (Inr x, w'))"

text \<open>\<open>try: m except Exception as exc: h(exc)\<close>.\<close>

definition try_catch :: "('d, 'a) prog \<Rightarrow> (exn \<Rightarrow> ('d, 'a) prog) \<Rightarrow> ('d, 'a) prog" where
  "try_catch m h w = (case m w of (Inl e, w') \<Rightarrow> h e w' | (Inr x, w') \<Rightarrow> (Inr x, w'))"

definition uuid4_hex :: "('d, string) prog" where
  "uuid4_hex w = (Inr (uuid_src w (uuid_pos w)), w\<lparr>uuid_pos := Suc (uuid_pos w)\<rparr>)"

definition now_utc :: "('d, datetime) prog" where
  "now_utc w = (Inr (utc_time (clock_src w (clock_pos w))), w\<lparr>clock_pos := Suc (clock_pos w)\<rparr>)"

definition now_local :: "('d, datetime) prog" where
  "now_local w = (Inr (local_time (tz_offset w) (clock_src w (clock_pos w))),
     w\<lparr>clock_pos := Suc (clock_pos w)\<rparr>)"

definition fresh_id :: "string \<Rightarrow> ('d, string) prog" where
  "fresh_id pre = pbind uuid4_hex (\<lambda>h. preturn (pre @ ''_'' @ h))"

subsection \<open>Running a program: inversion of returning runs\<close>

named_theorems run_iffs \<open>what it takes for a program to return\<close>

lemma preturn_Inr [run_iffs]: "preturn x w = (Inr y, w') \<longleftrightarrow> y = x \<and> w' = w"
  by (auto simp: preturn_def)

lemma praise_Inr [run_iffs]: "\<not> praise e w = (Inr y, w')"
  by (simp add: praise_def)

lemma pbind_Inr [run_iffs]:
  "pbind m k w = (Inr y, w') \<longleftrightarrow> (\<exists>x v. m w = (Inr x, v) \<and> k x v = (Inr y, w'))"
  by (auto simp: pbind_def split: prod.splits sum.splits)

lemma pseq_Inr [run_iffs]:
  "pseq m k w = (Inr y, w') \<longleftrightarrow> (\<exists>x v. m w = (Inr x, v) \<and> k v = (Inr y, w'))"
  by (simp add: pseq_def pbind_Inr)

lemma plift_Inr [run_iffs]: "plift r w = (Inr y, w') \<longleftrightarrow> r = Inr y \<and> w' = w"
  by (auto simp: plift_def)

lemma raise_if_Inr [run_iffs]: "raise_if c e w = (Inr y, w') \<longleftrightarrow> \<not> c \<and> w' = w"
  by (auto simp: raise_if_def)

lemma read_store_Inr [run_iffs]:
  "read_store f w = (Inr y, w') \<longleftrightarrow> y = f (store w) \<and> w' = w"
  by (auto simp: read_store_def)

lemma write_store_Inr [run_iffs]:
  "write_store f w = (Inr y, w') \<longleftrightarrow> w' = w\<lparr>store := f (store w)\<rparr>"
  by (auto simp: write_store_def)

lemma fetch_row_Inr [run_iffs]:
  "fetch_row f e w = (Inr r, w') \<longleftrightarrow> f (store w) = Some r \<and> w' = w"
  by (auto simp: fetch_row_def split: option.splits)

lemma exec_sql_Inr [run_iffs]:
  "exec_sql f w = (Inr x, w') \<longleftrightarrow> (\<exists>d. f (store w) = Inr (x, d) \<and> w' = w\<lparr>store := d\<rparr>)"
  by (auto simp: exec_sql_def split: sum.splits)

lemma transaction_Inr [run_iffs]: "transaction m w = (Inr y, w') \<longleftrightarrow> m w = (Inr y, w')"
  by (auto simp: transaction_def split: prod.splits sum.splits)

lemma try_catch_Inr [run_iffs]:
  "try_catch m h w = (Inr y, w') \<longleftrightarrow>
     m w = (Inr y, w') \<or> (\<exists>e v. m w = (Inl e, v) \<and> h e v = (Inr y, w'))"
  by (auto simp: try_catch_def split: prod.splits sum.splits)

lemma uuid4_hex_Inr [run_iffs]:
  "uuid4_hex w = (Inr h, w') \<longleftrightarrow>
     h = uuid_src w (uuid_pos w) \<and> w' = w\<lparr>uuid_pos := Suc (uuid_pos w)\<rparr>"
  by (auto simp: uuid4_hex_def)

lemma now_utc_Inr [run_iffs]:
  "now_utc w = (Inr t, w') \<longleftrightarrow>
     t = utc_time (clock_src w (clock_pos w)) \<and> w' = w\<lparr>clock_pos := Suc (clock_pos w)\<rparr>"
  by (auto simp: now_utc_def)

lemma now_local_Inr [run_iffs]:
  "now_local w = (Inr t, w') \<longleftrightarrow>
     t = local_time (tz_offset w) (clock_src w (clock_pos w)) \<and>
     w' = w\<lparr>clock_pos := Suc (clock_pos w)\<rparr>"
  by (auto simp: now_local_def)

lemma fresh_id_Inr [run_iffs]:
  "fresh_id p w = (Inr i, w') \<longleftrightarrow>
     i = p @ ''_'' @ uuid_src w (uuid_pos w) \<and> w' = w\<lparr>uuid_pos := Suc (uuid_pos w)\<rparr>"
  by (auto simp: fresh_id_def run_iffs)

lemma transaction_Inl:
  "transaction m w = (Inl e, w') \<Longrightarrow> store w' = store w"
  by (auto simp: transaction_def split: prod.splits sum.splits)

subsection \<open>What a program may do to the store\<close>

text \<open>
  \<open>within R m\<close>: whatever \<open>m\<close> does, returning or raising, the store it leaves
  is \<open>R\<close>-related to the store it found. For a reflexive and transitive \<open>R\<close> this
  is closed under all the program combinators; the closure is proved once in the locale
  \<open>evolution\<close> and interpreted on the relations of the components.
\<close>

definition within :: "('d \<Rightarrow> 'd \<Rightarrow> bool) \<Rightarrow> ('d, 'a) prog \<Rightarrow> bool" where
  "within R m \<longleftrightarrow> (\<forall>w. R (store w) (store (snd (m w))))"

lemma withinD: "within R m \<Longrightarrow> m w = (r, w') \<Longrightarrow> R (store w) (store w')"
  by (metis within_def snd_conv)

lemma withinI: "(\<And>w r w'. m w = (r, w') \<Longrightarrow> R (store w) (store w')) \<Longrightarrow> within R m"
  unfolding within_def by (metis prod.collapse)

locale evolution =
  fixes R :: "'d \<Rightarrow> 'd \<Rightarrow> bool"
  assumes R_refl: "R d d"
    and R_trans: "R a b \<Longrightarrow> R b c \<Longrightarrow> R a c"
begin

lemma within_preturn: "within R (preturn x)"
  by (simp add: within_def preturn_def R_refl)

lemma within_praise: "within R (praise e)"
  by (simp add: within_def praise_def R_refl)

lemma within_plift: "within R (plift r)"
  by (simp add: within_def plift_def R_refl)

lemma within_raise_if: "within R (raise_if c e)"
  by (simp add: within_def raise_if_def R_refl)

lemma within_read_store: "within R (read_store f)"
  by (simp add: within_def read_store_def R_refl)

lemma within_fetch_row: "within R (fetch_row f e)"
  by (simp add: within_def fetch_row_def R_refl split: option.splits)

lemma within_exec_sql: "(\<And>d x d'. f d = Inr (x, d') \<Longrightarrow> R d d') \<Longrightarrow> within R (exec_sql f)"
  by (auto simp: within_def exec_sql_def R_refl split: sum.splits)

lemma within_uuid4_hex: "within R uuid4_hex"
  by (simp add: within_def uuid4_hex_def R_refl)

lemma within_now_utc: "within R now_utc"
  by (simp add: within_def now_utc_def R_refl)

lemma within_now_local: "within R now_local"
  by (simp add: within_def now_local_def R_refl)

lemma within_write_store: "(\<And>d. R d (f d)) \<Longrightarrow> within R (write_store f)"
  by (simp add: within_def write_store_def)

lemma within_pbind:
  assumes m: "within R m" and k: "\<And>x. within R (k x)"
  shows "within R (pbind m k)"
proof (rule withinI)
  fix w r w'
  assume run: "pbind m k w = (r, w')"
  obtain q v where mw: "m w = (q, v)" by fastforce
  show "R (store w) (store w')"
  proof (cases q)
    case (Inl e)
    with run mw withinD [OF m mw] show ?thesis by (auto simp: pbind_def)
  next
    case (Inr x)
    with run mw have "k x v = (r, w')" by (simp add: pbind_def)
    from R_trans [OF withinD [OF m mw] withinD [OF k this]] show ?thesis .
  qed
qed

lemma within_pseq: "within R m \<Longrightarrow> within R k \<Longrightarrow> within R (pseq m k)"
  by (simp add: pseq_def within_pbind)

lemma within_fresh_id: "within R (fresh_id p)"
  unfolding fresh_id_def by (rule within_pbind [OF within_uuid4_hex within_preturn])

lemma within_for_each: "(\<And>x. x \<in> set xs \<Longrightarrow> within R (f x)) \<Longrightarrow> within R (for_each f xs)"
  by (induction xs) (auto intro: within_preturn within_pseq)

lemma within_map_each: "(\<And>x. x \<in> set xs \<Longrightarrow> within R (f x)) \<Longrightarrow> within R (map_each f xs)"
  by (induction xs) (auto intro: within_preturn within_pbind)

lemma within_transaction:
  assumes "within R m"
  shows "within R (transaction m)"
  unfolding within_def transaction_def
  using withinD [OF assms] by (auto simp: R_refl split: prod.splits sum.splits)

lemma within_try_catch:
  assumes m: "within R m" and h: "\<And>e. within R (h e)"
  shows "within R (try_catch m h)"
proof (rule withinI)
  fix w r w'
  assume run: "try_catch m h w = (r, w')"
  obtain q v where mw: "m w = (q, v)" by fastforce
  show "R (store w) (store w')"
  proof (cases q)
    case (Inl e)
    with run mw have "h e v = (r, w')" by (simp add: try_catch_def)
    from R_trans [OF withinD [OF m mw] withinD [OF h this]] show ?thesis .
  next
    case (Inr x)
    with run mw withinD [OF m mw] show ?thesis by (auto simp: try_catch_def)
  qed
qed

text \<open>Branching.\<close>

lemma within_if: "(c \<Longrightarrow> within R a) \<Longrightarrow> (\<not> c \<Longrightarrow> within R b) \<Longrightarrow> within R (if c then a else b)"
  by simp

lemma within_case_option:
  "(v = None \<Longrightarrow> within R a) \<Longrightarrow> (\<And>x. v = Some x \<Longrightarrow> within R (f x)) \<Longrightarrow>
     within R (case v of None \<Rightarrow> a | Some x \<Rightarrow> f x)"
  by (cases v) auto

lemma within_case_sum:
  "(\<And>e. v = Inl e \<Longrightarrow> within R (f e)) \<Longrightarrow> (\<And>x. v = Inr x \<Longrightarrow> within R (g x)) \<Longrightarrow>
     within R (case v of Inl e \<Rightarrow> f e | Inr x \<Rightarrow> g x)"
  by (cases v) auto

lemma within_case_prod:
  "(\<And>a b. v = (a, b) \<Longrightarrow> within R (f a b)) \<Longrightarrow> within R (case v of (a, b) \<Rightarrow> f a b)"
  by (cases v) auto

lemmas within_branch = within_if within_case_option within_case_sum within_case_prod

text \<open>A transaction is judged by its returning runs: the others are rolled back.\<close>

lemma within_transactionI:
  assumes "\<And>w x w'. m w = (Inr x, w') \<Longrightarrow> R (store w) (store w')"
  shows "within R (transaction m)"
  unfolding within_def transaction_def
  using assms by (auto simp: R_refl split: prod.splits sum.splits)

lemmas within_basic = within_preturn within_praise within_plift within_raise_if
  within_read_store within_fetch_row within_uuid4_hex within_now_utc within_now_local
  within_fresh_id

lemmas within_intros = within_basic within_pbind within_pseq within_for_each within_map_each
  within_transaction within_try_catch

end

text \<open>A read-only program leaves the store as it is.\<close>

definition read_only :: "('d, 'a) prog \<Rightarrow> bool" where
  "read_only m \<longleftrightarrow> within (=) m"

interpretation same_store: evolution "(=)"
  by unfold_locales auto

text \<open>An invariant of the store is the relation "if it held before, it holds after".\<close>

definition keeps :: "('d \<Rightarrow> bool) \<Rightarrow> 'd \<Rightarrow> 'd \<Rightarrow> bool" where
  "keeps I a b \<longleftrightarrow> (I a \<longrightarrow> I b)"

interpretation keeping: evolution "keeps I" for I
  by unfold_locales (auto simp: keeps_def)

lemma within_keeps_read_only: "read_only m \<Longrightarrow> within (keeps I) m"
  by (auto simp: read_only_def within_def keeps_def)

lemma read_only_store: "read_only m \<Longrightarrow> m w = (r, w') \<Longrightarrow> store w' = store w"
  unfolding read_only_def by (drule (1) withinD) simp

text \<open>A program that raises only with the store as it found it. A transaction is one, and so
  is a program that reads and then runs one.\<close>

definition atomic :: "('d, 'a) prog \<Rightarrow> bool" where
  "atomic m \<longleftrightarrow> (\<forall>w e w'. m w = (Inl e, w') \<longrightarrow> store w' = store w)"

lemma atomicD: "atomic m \<Longrightarrow> m w = (Inl e, w') \<Longrightarrow> store w' = store w"
  by (simp add: atomic_def)

lemma atomic_transaction: "atomic (transaction m)"
  by (auto simp: atomic_def dest: transaction_Inl)

lemma atomic_read_only: "read_only m \<Longrightarrow> atomic m"
  by (auto simp: atomic_def dest: read_only_store)

lemma atomic_pbind:
  assumes "read_only m" and "\<And>x. atomic (k x)"
  shows "atomic (pbind m k)"
  unfolding atomic_def
proof (intro allI impI)
  fix w e w' assume run: "pbind m k w = (Inl e, w')"
  obtain q v where mw: "m w = (q, v)" by fastforce
  have v: "store v = store w" by (rule read_only_store [OF assms(1) mw])
  show "store w' = store w"
  proof (cases q)
    case (Inl f)
    with run mw v show ?thesis by (simp add: pbind_def)
  next
    case (Inr x)
    with run mw have "k x v = (Inl e, w')" by (simp add: pbind_def)
    from atomicD [OF assms(2) this] v show ?thesis by simp
  qed
qed

lemma atomic_pseq: "read_only m \<Longrightarrow> atomic k \<Longrightarrow> atomic (pseq m k)"
  by (simp add: pseq_def atomic_pbind)

lemma read_only_basic:
  "read_only (preturn x)" "read_only (praise e)" "read_only (plift r)" "read_only (raise_if c e)"
  "read_only (read_store f)" "read_only (fetch_row f' e)" "read_only uuid4_hex"
  "read_only now_utc" "read_only now_local" "read_only (fresh_id s)"
  unfolding read_only_def by (rule same_store.within_basic)+

lemmas atomic_intros = atomic_transaction atomic_pbind atomic_pseq read_only_basic
  atomic_read_only [OF read_only_basic(1)] atomic_read_only [OF read_only_basic(2)]

context evolution begin

lemma within_atomic:
  assumes "atomic m" and "\<And>w x w'. m w = (Inr x, w') \<Longrightarrow> R (store w) (store w')"
  shows "within R m"
proof (rule withinI)
  fix w r w' assume run: "m w = (r, w')"
  show "R (store w) (store w')"
  proof (cases r)
    case (Inl e)
    with run atomicD [OF assms(1)] show ?thesis by (simp add: R_refl)
  next
    case (Inr x)
    with run assms(2) show ?thesis by blast
  qed
qed

lemma within_read_only: "read_only m \<Longrightarrow> within R m"
  by (auto simp: read_only_def within_def R_refl)

end

text \<open>
  \<open>leads R d m\<close>: started on the store \<open>d\<close>, \<open>m\<close> leaves an \<open>R\<close>-related store. Where
  \<open>within\<close> forgets what a program has read, \<open>leads\<close> keeps it: the rules push the fact
  a query established into the rest of the program, up to its first write.
\<close>

definition leads :: "('d \<Rightarrow> 'd \<Rightarrow> bool) \<Rightarrow> 'd \<Rightarrow> ('d, 'a) prog \<Rightarrow> bool" where
  "leads R d m \<longleftrightarrow> (\<forall>w. store w = d \<longrightarrow> R d (store (snd (m w))))"

lemma leadsD: "leads R d m \<Longrightarrow> store w = d \<Longrightarrow> m w = (r, w') \<Longrightarrow> R d (store w')"
  unfolding leads_def by (metis snd_conv)

lemma leads_read: "leads R d (k (f d)) \<Longrightarrow> leads R d (pbind (read_store f) k)"
  by (auto simp: leads_def pbind_def read_store_def)

lemma leads_now: "(\<And>t. leads R d (k t)) \<Longrightarrow> leads R d (pbind now_utc k)"
  by (auto simp: leads_def pbind_def now_utc_def)

lemma leads_fresh: "(\<And>i. leads R d (k i)) \<Longrightarrow> leads R d (pbind (fresh_id p) k)"
  by (auto simp: leads_def pbind_def fresh_id_def uuid4_hex_def preturn_def)

context evolution begin

lemma within_leads: "(\<And>d. leads R d m) \<Longrightarrow> within R m"
  by (simp add: within_def leads_def)

lemma leads_within: "within R m \<Longrightarrow> leads R d m"
  by (auto simp: within_def leads_def)

lemma leads_fetch: "(\<And>r. f d = Some r \<Longrightarrow> leads R d (k r)) \<Longrightarrow> leads R d (pbind (fetch_row f e) k)"
  by (auto simp: leads_def pbind_def fetch_row_def R_refl split: option.splits)

lemma leads_fetch_seq: "(\<And>r. f d = Some r \<Longrightarrow> leads R d k) \<Longrightarrow> leads R d (pseq (fetch_row f e) k)"
  unfolding pseq_def by (rule leads_fetch)

lemma leads_raise_if: "(\<not> c \<Longrightarrow> leads R d k) \<Longrightarrow> leads R d (pseq (raise_if c e) k)"
  by (auto simp: leads_def pseq_def pbind_def raise_if_def R_refl)

lemma leads_plift: "(\<And>x. r = Inr x \<Longrightarrow> leads R d (k x)) \<Longrightarrow> leads R d (pbind (plift r) k)"
  by (cases r) (auto simp: leads_def pbind_def plift_def R_refl)

lemma leads_exec:
  assumes "\<And>x d'. f d = Inr (x, d') \<Longrightarrow> R d d'"
  shows "leads R d (exec_sql f)"
  using assms by (auto simp: leads_def exec_sql_def R_refl split: sum.splits)

lemma leads_pbind:
  assumes m: "leads R d m" and k: "\<And>x. within R (k x)"
  shows "leads R d (pbind m k)"
  unfolding leads_def
proof (intro allI impI)
  fix w :: "'d world" assume w: "store w = d"
  obtain q v where mw: "m w = (q, v)" by fastforce
  show "R d (store (snd (pbind m k w)))"
  proof (cases q)
    case (Inl e)
    with mw leadsD [OF m w mw] show ?thesis by (simp add: pbind_def)
  next
    case (Inr x)
    with mw R_trans [OF leadsD [OF m w mw]] k [of x] show ?thesis by (simp add: pbind_def within_def)
  qed
qed

lemma leads_pseq: "leads R d m \<Longrightarrow> within R k \<Longrightarrow> leads R d (pseq m k)"
  by (simp add: pseq_def leads_pbind)

lemma leads_transaction: "leads R d m \<Longrightarrow> leads R d (transaction m)"
  by (auto simp: leads_def transaction_def R_refl split: prod.splits sum.splits dest: leadsD)

lemma leads_if: "(c \<Longrightarrow> leads R d a) \<Longrightarrow> (\<not> c \<Longrightarrow> leads R d b) \<Longrightarrow> leads R d (if c then a else b)"
  by simp

lemma leads_option: "(v = None \<Longrightarrow> leads R d a) \<Longrightarrow> (\<And>x. v = Some x \<Longrightarrow> leads R d (g x)) \<Longrightarrow>
    leads R d (case v of None \<Rightarrow> a | Some x \<Rightarrow> g x)"
  by (cases v) auto

text \<open>A loop whose remaining items \<open>xs\<close> satisfy \<open>J xs\<close> in the current store.\<close>

lemma leads_for_each:
  assumes step: "\<And>x xs d. J (x # xs) d \<Longrightarrow> leads R d (f x)"
    and next_J: "\<And>x xs w w'. J (x # xs) (store w) \<Longrightarrow> f x w = (Inr (), w') \<Longrightarrow> J xs (store w')"
  shows "J xs d \<Longrightarrow> leads R d (for_each f xs)"
proof (induction xs arbitrary: d)
  case Nil
  then show ?case by (simp add: leads_within within_preturn)
next
  case (Cons x xs)
  show ?case unfolding leads_def
  proof (intro allI impI)
    fix w :: "'d world" assume w: "store w = d"
    obtain q v where fx: "f x w = (q, v)" by fastforce
    have one: "R d (store v)" by (rule leadsD [OF step [OF Cons.prems] w fx])
    show "R d (store (snd (for_each f (x # xs) w)))"
    proof (cases q)
      case (Inl e)
      with fx one show ?thesis by (simp add: pseq_def pbind_def)
    next
      case (Inr u)
      with fx next_J Cons.prems w have "J xs (store v)" by auto
      then have "leads R (store v) (for_each f xs)" by (rule Cons.IH)
      then have "R (store v) (store (snd (for_each f xs v)))" by (simp add: leads_def)
      with R_trans [OF one] fx Inr show ?thesis by (simp add: pseq_def pbind_def)
    qed
  qed
qed

lemmas leads_reads = leads_read leads_now leads_fresh leads_fetch leads_fetch_seq leads_raise_if
  leads_plift leads_transaction

end

end
