(* ===== verification/Json_Text.thy ===== *)
theory Json_Text
  imports Prelude
begin

text \<open>
  Python text and JSON as the code uses them: \<open>str.strip\<close>, \<open>repr\<close>, the id
  patterns of \<open>re.fullmatch\<close>, and \<open>json.dumps\<close> with \<open>sort_keys=True\<close> in its
  two forms (compact separators with \<open>ensure_ascii=False\<close>, and the default separators).
  Strings are lists of characters, one per code point (below 256). The main fact is that
  the compact text determines the value up to key order (\<open>json_text_inj\<close>), on which
  every digest comparison of the code rests.
\<close>

section \<open>Strings\<close>

definition code_of :: "char \<Rightarrow> nat" where
  "code_of c = of_char c"

lemma code_of_inj [simp]: "code_of c = code_of d \<longleftrightarrow> c = d"
  by (simp add: code_of_def)

lemma code_of_less: "code_of c < 256"
  by (simp add: code_of_def)

definition py_space :: "char \<Rightarrow> bool" where
  "py_space c \<longleftrightarrow> (let n = code_of c in
     9 \<le> n \<and> n \<le> 13 \<or> 28 \<le> n \<and> n \<le> 32 \<or> n = 133 \<or> n = 160)"

definition py_strip :: "string \<Rightarrow> string" where
  "py_strip s = rev (dropWhile py_space (rev (dropWhile py_space s)))"

definition blank :: "string \<Rightarrow> bool" where
  "blank s \<longleftrightarrow> py_strip s = []"

definition is_upper :: "char \<Rightarrow> bool" where
  "is_upper c \<longleftrightarrow> 65 \<le> code_of c \<and> code_of c \<le> 90"

definition is_lower :: "char \<Rightarrow> bool" where
  "is_lower c \<longleftrightarrow> 97 \<le> code_of c \<and> code_of c \<le> 122"

definition is_digit :: "char \<Rightarrow> bool" where
  "is_digit c \<longleftrightarrow> 48 \<le> code_of c \<and> code_of c \<le> 57"

text \<open>\<open>[a-z0-9][a-z0-9._-]*\<close>\<close>

definition name_start :: "char \<Rightarrow> bool" where
  "name_start c \<longleftrightarrow> is_lower c \<or> is_digit c"

definition name_char :: "char \<Rightarrow> bool" where
  "name_char c \<longleftrightarrow> name_start c \<or> c \<in> set ''._-''"

definition component_id_ok :: "string \<Rightarrow> bool" where
  "component_id_ok s \<longleftrightarrow> (case s of [] \<Rightarrow> False | c # cs \<Rightarrow> name_start c \<and> list_all name_char cs)"

text \<open>\<open>[1-9][0-9]*\<close>\<close>

definition version_ok :: "string \<Rightarrow> bool" where
  "version_ok s \<longleftrightarrow> (case s of [] \<Rightarrow> False
     | c # cs \<Rightarrow> is_digit c \<and> c \<noteq> CHR ''0'' \<and> list_all is_digit cs)"

text \<open>\<open>^[a-z0-9][a-z0-9._-]*@[1-9][0-9]*$\<close>: the name part cannot contain \<open>@\<close>.\<close>

definition contract_id_ok :: "string \<Rightarrow> bool" where
  "contract_id_ok s \<longleftrightarrow>
     (let n = takeWhile (\<lambda>c. c \<noteq> CHR ''@'') s; v = dropWhile (\<lambda>c. c \<noteq> CHR ''@'') s
      in component_id_ok n \<and> v \<noteq> [] \<and> version_ok (tl v))"

text \<open>\<open>[A-Z][A-Z0-9_]{2,127}\<close>\<close>

definition typed_code_ok :: "string \<Rightarrow> bool" where
  "typed_code_ok s \<longleftrightarrow> (case s of [] \<Rightarrow> False
     | c # cs \<Rightarrow> is_upper c \<and> list_all (\<lambda>d. is_upper d \<or> is_digit d \<or> d = CHR ''_'') cs
         \<and> 2 \<le> length cs \<and> length cs \<le> 127)"

lemma py_strip_Nil [simp]: "py_strip [] = []"
  by (simp add: py_strip_def)

lemma length_py_strip: "length (py_strip s) \<le> length s"
  unfolding py_strip_def
  by (metis length_dropWhile_le length_rev order_trans)

lemma py_strip_hd: "py_strip s \<noteq> [] \<Longrightarrow> \<not> py_space (hd (py_strip s))"
proof -
  assume ne: "py_strip s \<noteq> []"
  let ?u = "dropWhile py_space s"
  have pre: "\<exists>zs. ?u = py_strip s @ zs"
    unfolding py_strip_def
    by (metis rev_append rev_rev_ident takeWhile_dropWhile_id)
  then obtain zs where u: "?u = py_strip s @ zs" by blast
  have "?u \<noteq> []" using ne u by (metis append_is_Nil_conv)
  moreover have "hd ?u = hd (py_strip s)" using ne u by (metis hd_append2)
  ultimately have "?u \<noteq> []" and "hd ?u = hd (py_strip s)" .
  from hd_dropWhile [OF this(1)] this(2) show ?thesis by simp
qed

lemma py_strip_last: "py_strip s \<noteq> [] \<Longrightarrow> \<not> py_space (last (py_strip s))"
  unfolding py_strip_def
  by (metis hd_dropWhile hd_rev rev_is_Nil_conv rev_rev_ident)

lemma py_strip_id:
  "s = [] \<or> \<not> py_space (hd s) \<and> \<not> py_space (last s) \<Longrightarrow> py_strip s = s"
proof (cases "s = []")
  case False
  moreover assume "s = [] \<or> \<not> py_space (hd s) \<and> \<not> py_space (last s)"
  ultimately have h: "\<not> py_space (hd s)" and l: "\<not> py_space (last s)" by auto
  have "dropWhile py_space s = s"
    using False h by (cases s) auto
  moreover have "dropWhile py_space (rev s) = rev s"
    using False l by (cases s rule: rev_cases) auto
  ultimately show ?thesis by (simp add: py_strip_def)
qed simp

lemma py_strip_idem [simp]: "py_strip (py_strip s) = py_strip s"
  using py_strip_hd [of s] py_strip_last [of s] by (intro py_strip_id) auto

lemma component_id_ok_not_at: "component_id_ok n \<Longrightarrow> CHR ''@'' \<notin> set n"
proof -
  have "\<not> name_char CHR ''@''"
    by (simp add: name_char_def name_start_def is_lower_def is_digit_def code_of_def)
  moreover have "name_start c \<Longrightarrow> name_char c" for c by (simp add: name_char_def)
  ultimately show "component_id_ok n \<Longrightarrow> CHR ''@'' \<notin> set n"
    by (auto simp: component_id_ok_def list_all_iff split: list.splits)
qed

text \<open>The split at the first \<open>@\<close> accepts exactly the strings the pattern describes.\<close>

lemma split_at_first:
  assumes no: "\<And>n. P n \<Longrightarrow> c \<notin> set n"
  shows "(P (takeWhile (\<lambda>d. d \<noteq> c) s) \<and> dropWhile (\<lambda>d. d \<noteq> c) s \<noteq> [] \<and> Q (tl (dropWhile (\<lambda>d. d \<noteq> c) s)))
    \<longleftrightarrow> (\<exists>n v. s = n @ c # v \<and> P n \<and> Q v)" (is "?L \<longleftrightarrow> ?R")
proof
  let ?n = "takeWhile (\<lambda>d. d \<noteq> c) s" and ?v = "dropWhile (\<lambda>d. d \<noteq> c) s"
  assume L: ?L
  then have "hd ?v = c" using hd_dropWhile [of "\<lambda>d. d \<noteq> c" s] by simp
  then have "?v = c # tl ?v" using L by (cases ?v) simp_all
  then have "s = ?n @ c # tl ?v" using takeWhile_dropWhile_id [of "\<lambda>d. d \<noteq> c" s] by argo
  with L show ?R by blast
next
  assume ?R
  then obtain n v where s: "s = n @ c # v" and n: "P n" and v: "Q v" by blast
  have "takeWhile (\<lambda>d. d \<noteq> c) s = n" "dropWhile (\<lambda>d. d \<noteq> c) s = c # v"
    using no [OF n] s by (auto simp: takeWhile_append dropWhile_append)
  with n v show ?L by simp
qed

lemma contract_id_ok_iff:
  "contract_id_ok s \<longleftrightarrow> (\<exists>n v. s = n @ ''@'' @ v \<and> component_id_ok n \<and> version_ok v)"
  using split_at_first [of component_id_ok, OF component_id_ok_not_at]
  by (simp add: contract_id_ok_def)

section \<open>repr of a string\<close>

definition hex_digit :: "nat \<Rightarrow> char" where
  "hex_digit n = (if n < 10 then char_of (48 + n) else char_of (87 + n))"

definition hex2 :: "nat \<Rightarrow> string" where
  "hex2 n = [hex_digit (n div 16), hex_digit (n mod 16)]"

lemma hex_digit_inj: "m < 16 \<Longrightarrow> n < 16 \<Longrightarrow> hex_digit m = hex_digit n \<Longrightarrow> m = n"
  by (auto simp: hex_digit_def split: if_splits dest: arg_cong [where f = "of_char :: char \<Rightarrow> nat"])

lemma hex2_inj: "m < 256 \<Longrightarrow> n < 256 \<Longrightarrow> hex2 m = hex2 n \<Longrightarrow> m = n"
proof -
  assume b: "m < 256" "n < 256" and eq: "hex2 m = hex2 n"
  then have "m div 16 = n div 16" "m mod 16 = n mod 16"
    by (auto simp: hex2_def intro: hex_digit_inj)
  then show "m = n" by (metis div_mult_mod_eq)
qed

definition repr_char :: "char \<Rightarrow> char \<Rightarrow> string" where
  "repr_char q c =
     (if c = q \<or> c = CHR 0x5C then [CHR 0x5C, c]
      else if code_of c = 10 then [CHR 0x5C, CHR ''n'']
      else if code_of c = 13 then [CHR 0x5C, CHR ''r'']
      else if code_of c = 9 then [CHR 0x5C, CHR ''t'']
      else if code_of c < 32 \<or> 127 \<le> code_of c \<and> code_of c \<le> 160 \<or> code_of c = 173
        then [CHR 0x5C, CHR ''x''] @ hex2 (code_of c)
      else [c])"

definition py_repr :: "string \<Rightarrow> string" where
  "py_repr s =
     (let q = (if CHR 0x27 \<in> set s \<and> CHR 0x22 \<notin> set s then CHR 0x22 else CHR 0x27)
      in [q] @ concat (map (repr_char q) s) @ [q])"

section \<open>JSON values and json.dumps\<close>

datatype json = JNull | JBool bool | JInt int | JStr string
  | JList "json list" | JDict "(string \<times> json) list"

fun show_nat :: "nat \<Rightarrow> string" where
  "show_nat n = (if n < 10 then [char_of (48 + n)]
     else show_nat (n div 10) @ [char_of (48 + n mod 10)])"

declare show_nat.simps [simp del]

definition show_int :: "int \<Rightarrow> string" where
  "show_int i = (if i < 0 then CHR ''-'' # show_nat (nat (- i)) else show_nat (nat i))"

text \<open>
  The escapes of the encoder: the backslash, the double quote, the control characters, and
  with \<open>ensure_ascii\<close> every character outside the printable ASCII range.
\<close>

definition json_char :: "bool \<Rightarrow> char \<Rightarrow> string" where
  "json_char ascii c =
     (if code_of c = 34 \<or> code_of c = 92 then [CHR 0x5C, c]
      else if code_of c = 8 then [CHR 0x5C, CHR ''b'']
      else if code_of c = 9 then [CHR 0x5C, CHR ''t'']
      else if code_of c = 10 then [CHR 0x5C, CHR ''n'']
      else if code_of c = 12 then [CHR 0x5C, CHR ''f'']
      else if code_of c = 13 then [CHR 0x5C, CHR ''r'']
      else if code_of c < 32 \<or> ascii \<and> 127 \<le> code_of c
        then [CHR 0x5C, CHR ''u'', CHR ''0'', CHR ''0''] @ hex2 (code_of c)
      else [c])"

definition json_str :: "bool \<Rightarrow> string \<Rightarrow> string" where
  "json_str ascii s = [CHR 0x22] @ concat (map (json_char ascii) s) @ [CHR 0x22]"

fun json_enc :: "bool \<Rightarrow> string \<Rightarrow> string \<Rightarrow> json \<Rightarrow> string"
  and json_items :: "bool \<Rightarrow> string \<Rightarrow> string \<Rightarrow> json list \<Rightarrow> string"
  and json_members :: "bool \<Rightarrow> string \<Rightarrow> string \<Rightarrow> (string \<times> json) list \<Rightarrow> string" where
  "json_enc a isep ksep JNull = ''null''"
| "json_enc a isep ksep (JBool b) = (if b then ''true'' else ''false'')"
| "json_enc a isep ksep (JInt i) = show_int i"
| "json_enc a isep ksep (JStr s) = json_str a s"
| "json_enc a isep ksep (JList xs) = ''['' @ json_items a isep ksep xs @ '']''"
| "json_enc a isep ksep (JDict kvs) = ''{'' @ json_members a isep ksep kvs @ ''}''"
| "json_items a isep ksep [] = []"
| "json_items a isep ksep (x # xs) = json_enc a isep ksep x @
     (if xs = [] then [] else isep @ json_items a isep ksep xs)"
| "json_members a isep ksep [] = []"
| "json_members a isep ksep ((k, v) # kvs) = json_str a k @ ksep @ json_enc a isep ksep v @
     (if kvs = [] then [] else isep @ json_members a isep ksep kvs)"

text \<open>\<open>sort_keys=True\<close>: the members of every object in key order.\<close>

fun json_sorted :: "json \<Rightarrow> json"
  and json_sorted_list :: "json list \<Rightarrow> json list"
  and json_sorted_members :: "(string \<times> json) list \<Rightarrow> (string \<times> json) list" where
  "json_sorted (JList xs) = JList (json_sorted_list xs)"
| "json_sorted (JDict kvs) = JDict (sort_key fst (json_sorted_members kvs))"
| "json_sorted j = j"
| "json_sorted_list [] = []"
| "json_sorted_list (x # xs) = json_sorted x # json_sorted_list xs"
| "json_sorted_members [] = []"
| "json_sorted_members ((k, v) # kvs) = (k, json_sorted v) # json_sorted_members kvs"

lemma json_sorted_list_map: "json_sorted_list xs = map json_sorted xs"
  by (induction xs) auto

lemma json_sorted_members_map:
  "json_sorted_members kvs = map (\<lambda>(k, v). (k, json_sorted v)) kvs"
  by (induction kvs) auto

text \<open>\<open>json.dumps(v, ensure_ascii=False, sort_keys=True, separators=(",", ":"))\<close>\<close>

definition dumps_compact :: "json \<Rightarrow> string" where
  "dumps_compact j = json_enc False '','' '':'' (json_sorted j)"

text \<open>\<open>json.dumps(v, sort_keys=True)\<close>\<close>

definition dumps_default :: "json \<Rightarrow> string" where
  "dumps_default j = json_enc True '', '' '': '' (json_sorted j)"

section \<open>The compact text determines the value\<close>

subsection \<open>String literals are a prefix code\<close>

lemma json_char_not_Nil [simp]: "json_char a c \<noteq> []"
  by (simp add: json_char_def)

lemma json_char_hd: "hd (json_char a c) \<noteq> CHR 0x22"
  by (auto simp: json_char_def code_of_def)

text \<open>Reading one escaped character back.\<close>

definition unhex :: "char \<Rightarrow> nat" where
  "unhex c = (if code_of c < 58 then code_of c - 48 else code_of c - 87)"

lemma unhex_hex_digit: "n < 16 \<Longrightarrow> unhex (hex_digit n) = n"
  by (simp add: unhex_def hex_digit_def code_of_def)

definition unescape :: "string \<Rightarrow> (nat \<times> string) option" where
  "unescape s = (case s of
     c # d # r \<Rightarrow>
       if code_of c \<noteq> 92 then Some (code_of c, d # r)
       else if d = CHR ''b'' then Some (8, r)
       else if d = CHR ''t'' then Some (9, r)
       else if d = CHR ''n'' then Some (10, r)
       else if d = CHR ''f'' then Some (12, r)
       else if d = CHR ''r'' then Some (13, r)
       else if d = CHR ''u'' then
         (case r of _ # _ # h # l # q \<Rightarrow> Some (16 * unhex h + unhex l, q) | _ \<Rightarrow> None)
       else Some (code_of d, r)
   | [c] \<Rightarrow> Some (code_of c, [])
   | [] \<Rightarrow> None)"

lemma unescape_json_char: "unescape (json_char a c @ u) = Some (code_of c, u)"
proof -
  have h: "16 * unhex (hex_digit (code_of c div 16)) + unhex (hex_digit (code_of c mod 16)) = code_of c"
    using code_of_less [of c] by (simp add: unhex_hex_digit)
  consider "code_of c = 34 \<or> code_of c = 92"
    | "code_of c = 8" | "code_of c = 9" | "code_of c = 10" | "code_of c = 12" | "code_of c = 13"
    | "code_of c \<notin> {8, 9, 10, 12, 13, 34, 92}" "code_of c < 32 \<or> a \<and> 127 \<le> code_of c"
    | "code_of c \<notin> {8, 9, 10, 12, 13, 34, 92}" "\<not> (code_of c < 32 \<or> a \<and> 127 \<le> code_of c)"
    by auto
  then show ?thesis
  proof cases
    case 1
    then have "c \<notin> set ''btnfru''" by (auto simp: code_of_def)
    with 1 show ?thesis by (simp add: json_char_def unescape_def) (simp add: code_of_def)
  next
    case 7
    then show ?thesis using h
      by (simp add: json_char_def unescape_def hex2_def) (simp add: code_of_def)
  next
    case 8
    then show ?thesis by (auto simp: json_char_def unescape_def split: list.splits)
  qed (simp_all add: json_char_def unescape_def, simp_all add: code_of_def)
qed

lemma json_char_prefix: "json_char False c @ u = json_char False d @ v \<Longrightarrow> c = d \<and> u = v"
  by (metis Pair_inject code_of_inj option.inject unescape_json_char)

lemma json_str_body_prefix:
  "concat (map (json_char False) s) @ CHR 0x22 # r = concat (map (json_char False) t) @ CHR 0x22 # r'
   \<Longrightarrow> s = t \<and> r = r'"
proof (induction s arbitrary: t)
  case Nil
  show ?case
  proof (cases t)
    case Nil
    with Nil.prems show ?thesis by simp
  next
    case (Cons d t')
    obtain e es where "json_char False d = e # es" by (cases "json_char False d") auto
    with Nil.prems Cons json_char_hd [of False d] show ?thesis by simp
  qed
next
  case (Cons c s)
  show ?case
  proof (cases t)
    case Nil
    obtain e es where "json_char False c = e # es" by (cases "json_char False c") auto
    with Cons.prems Nil json_char_hd [of False c] show ?thesis by simp
  next
    case (Cons d t')
    with Cons.prems have "json_char False c @ (concat (map (json_char False) s) @ CHR 0x22 # r)
        = json_char False d @ (concat (map (json_char False) t') @ CHR 0x22 # r')"
      by simp
    from json_char_prefix [OF this] Cons.IH \<open>t = d # t'\<close> show ?thesis by blast
  qed
qed

lemma json_str_prefix: "json_str False s @ r = json_str False t @ r' \<Longrightarrow> s = t \<and> r = r'"
  by (rule json_str_body_prefix) (simp add: json_str_def)

subsection \<open>Decimal numbers\<close>

fun read_nat :: "nat \<Rightarrow> string \<Rightarrow> nat" where
  "read_nat a [] = a"
| "read_nat a (c # cs) = read_nat (10 * a + (code_of c - 48)) cs"

lemma read_nat_append: "read_nat a (s @ t) = read_nat (read_nat a s) t"
  by (induction a s rule: read_nat.induct) auto

lemma code_of_digit: "n < 10 \<Longrightarrow> code_of (char_of (48 + n)) = 48 + n"
  by (simp add: code_of_def)

lemma read_show_nat: "read_nat 0 (show_nat n) = n"
proof (induction n rule: show_nat.induct)
  case (1 n)
  then show ?case
    by (subst show_nat.simps) (auto simp: read_nat_append code_of_digit)
qed

lemma show_nat_inj: "show_nat m = show_nat n \<Longrightarrow> m = n"
  by (metis read_show_nat)

lemma show_nat_digits: "c \<in> set (show_nat n) \<Longrightarrow> is_digit c"
proof (induction n rule: show_nat.induct)
  case (1 n)
  then show ?case
    by (subst (asm) (2) show_nat.simps) (auto simp: is_digit_def code_of_digit split: if_splits)
qed

lemma show_nat_not_Nil [simp]: "show_nat n \<noteq> []"
  by (subst show_nat.simps) simp

definition no_digit :: "string \<Rightarrow> bool" where
  "no_digit r \<longleftrightarrow> r = [] \<or> \<not> is_digit (hd r)"

lemma show_nat_prefix:
  assumes "show_nat m @ r = show_nat n @ r'" "no_digit r" "no_digit r'"
  shows "m = n \<and> r = r'"
proof -
  have tw: "no_digit r \<Longrightarrow> takeWhile is_digit (show_nat m @ r) = show_nat m" for m r
    using show_nat_digits [of _ m] by (cases r) (auto simp: no_digit_def takeWhile_append)
  from tw [OF assms(2), of m] tw [OF assms(3), of n] assms(1) have "show_nat m = show_nat n"
    by simp
  then show ?thesis using assms(1) show_nat_inj by auto
qed

lemma show_nat_hd: "is_digit (hd (show_nat n))"
  by (rule show_nat_digits [OF hd_in_set [OF show_nat_not_Nil]])

lemma show_int_prefix:
  assumes "show_int i @ r = show_int j @ r'" "no_digit r" "no_digit r'"
  shows "i = j \<and> r = r'"
proof -
  have minus: "\<not> is_digit CHR ''-''" by (simp add: is_digit_def code_of_def)
  have ne: "show_nat n @ q \<noteq> CHR ''-'' # p" for n q p
    using show_nat_hd [of n] minus by (cases "show_nat n") auto
  have eqs: "(i < 0) = (j < 0)"
  proof (rule ccontr)
    assume "(i < 0) \<noteq> (j < 0)"
    then consider "i < 0" "\<not> j < 0" | "j < 0" "\<not> i < 0" by blast
    then show False
    proof cases
      case 1
      with assms(1) have "show_nat (nat j) @ r' = CHR ''-'' # show_nat (nat (- i)) @ r"
        by (simp add: show_int_def)
      then show False using ne by blast
    next
      case 2
      with assms(1) have "show_nat (nat i) @ r = CHR ''-'' # show_nat (nat (- j)) @ r'"
        by (simp add: show_int_def)
      then show False using ne by blast
    qed
  qed
  show ?thesis
  proof (cases "i < 0")
    case True
    with eqs assms(1) have "show_nat (nat (- i)) @ r = show_nat (nat (- j)) @ r'"
      by (simp add: show_int_def)
    from show_nat_prefix [OF this assms(2,3)] True eqs show ?thesis by linarith
  next
    case False
    with eqs assms(1) have "show_nat (nat i) @ r = show_nat (nat j) @ r'"
      by (simp add: show_int_def)
    from show_nat_prefix [OF this assms(2,3)] False eqs show ?thesis by linarith
  qed
qed

subsection \<open>Values\<close>

text \<open>What may follow a value inside a text: nothing, a separator or a closing bracket.\<close>

definition closes :: "string \<Rightarrow> bool" where
  "closes r \<longleftrightarrow> r = [] \<or> hd r \<in> set '',]}''"

lemma closes_no_digit: "closes r \<Longrightarrow> no_digit r"
  by (auto simp: closes_def no_digit_def is_digit_def code_of_def)

lemma closes_simps [simp]: "closes ('','' @ r)" "closes ('']'' @ r)" "closes (''}'' @ r)"
  by (simp_all add: closes_def)

abbreviation enc :: "json \<Rightarrow> string" where
  "enc \<equiv> json_enc False '','' '':''"

abbreviation enc_items :: "json list \<Rightarrow> string" where
  "enc_items \<equiv> json_items False '','' '':''"

abbreviation enc_members :: "(string \<times> json) list \<Rightarrow> string" where
  "enc_members \<equiv> json_members False '','' '':''"

text \<open>The first character tells the kind of value.\<close>

definition start_of :: "json \<Rightarrow> char set" where
  "start_of j = (case j of JNull \<Rightarrow> {CHR ''n''} | JBool b \<Rightarrow> {if b then CHR ''t'' else CHR ''f''}
     | JInt _ \<Rightarrow> {c. c = CHR ''-'' \<or> is_digit c} | JStr _ \<Rightarrow> {CHR 0x22}
     | JList _ \<Rightarrow> {CHR ''[''} | JDict _ \<Rightarrow> {CHR ''{''})"

lemma enc_start: "\<exists>c cs. enc j = c # cs \<and> c \<in> start_of j"
proof (cases j)
  case (JInt i)
  show ?thesis
  proof (cases "i < 0")
    case False
    with JInt show_nat_hd [of "nat i"] show ?thesis
      by (cases "show_nat (nat i)") (simp_all add: start_of_def show_int_def)
  qed (simp add: JInt start_of_def show_int_def)
qed (auto simp: start_of_def json_str_def)

lemma enc_not_close: "enc j @ q \<noteq> '']'' @ r"
  using enc_start [of j] by (auto simp: start_of_def is_digit_def code_of_def split: json.splits if_splits)

lemma enc_same_start: "enc j @ r = enc j' @ r' \<Longrightarrow> start_of j \<inter> start_of j' \<noteq> {}"
  using enc_start [of j] enc_start [of j'] by auto

definition decodable :: "json \<Rightarrow> bool" where
  "decodable j \<longleftrightarrow> (\<forall>j' r r'. enc j @ r = enc j' @ r' \<longrightarrow> closes r \<longrightarrow> closes r' \<longrightarrow> j = j' \<and> r = r')"

lemma decodableD:
  "decodable j \<Longrightarrow> enc j @ r = enc j' @ r' \<Longrightarrow> closes r \<Longrightarrow> closes r' \<Longrightarrow> j = j' \<and> r = r'"
  by (auto simp: decodable_def)

lemma enc_items_prefix:
  "(\<And>x. x \<in> set xs \<Longrightarrow> decodable x) \<Longrightarrow> enc_items xs @ '']'' @ r = enc_items ys @ '']'' @ r'
   \<Longrightarrow> xs = ys \<and> r = r'"
proof (induction xs arbitrary: ys)
  case Nil
  then show ?case
  proof (cases ys)
    case (Cons y ys')
    with Nil.prems(2) show ?thesis
      using enc_not_close [of y "(if ys' = [] then [] else '','' @ enc_items ys') @ '']'' @ r'" r, symmetric]
      by simp
  qed simp
next
  case (Cons x xs)
  let ?rest = "\<lambda>zs q. (if zs = [] then [] else '','' @ enc_items zs) @ '']'' @ q"
  show ?case
  proof (cases ys)
    case Nil
    with Cons.prems(2) show ?thesis using enc_not_close [of x "?rest xs r" r'] by simp
  next
    case (Cons y ys')
    have cl: "closes (?rest zs q)" for zs q by (simp add: closes_def)
    from Cons.prems(2) Cons have eq: "enc x @ ?rest xs r = enc y @ ?rest ys' r'" by simp
    have "decodable x" using Cons.prems(1) by simp
    from decodableD [OF this eq cl cl] have xy: "x = y" and re: "?rest xs r = ?rest ys' r'" by auto
    show ?thesis
    proof (cases "xs = [] \<or> ys' = []")
      case True
      with re have "xs = []" "ys' = []" "r = r'" by (auto split: if_splits)
      with xy \<open>ys = y # ys'\<close> show ?thesis by simp
    next
      case False
      with re have "enc_items xs @ '']'' @ r = enc_items ys' @ '']'' @ r'" by simp
      from Cons.IH [OF _ this] Cons.prems(1) have "xs = ys' \<and> r = r'" by simp
      with xy \<open>ys = y # ys'\<close> show ?thesis by simp
    qed
  qed
qed

lemma json_str_start: "\<exists>q. json_str False k = CHR 0x22 # q"
  by (simp add: json_str_def)

lemma enc_members_prefix:
  "(\<And>kv. kv \<in> set xs \<Longrightarrow> decodable (snd kv)) \<Longrightarrow>
   enc_members xs @ ''}'' @ r = enc_members ys @ ''}'' @ r' \<Longrightarrow> xs = ys \<and> r = r'"
proof (induction xs arbitrary: ys)
  case Nil
  show ?case
  proof (cases ys)
    case (Cons y ys')
    obtain k v where "y = (k, v)" by fastforce
    with Cons Nil.prems(2) json_str_start [of k] show ?thesis by auto
  qed (use Nil.prems in simp)
next
  case (Cons x xs)
  let ?rest = "\<lambda>zs q. (if zs = [] then [] else '','' @ enc_members zs) @ ''}'' @ q"
  obtain k v where x: "x = (k, v)" by fastforce
  show ?case
  proof (cases ys)
    case Nil
    with Cons.prems(2) x json_str_start [of k] show ?thesis by auto
  next
    case (Cons y ys')
    obtain k' v' where y: "y = (k', v')" by fastforce
    have cl: "closes (?rest zs q)" for zs q by (simp add: closes_def)
    from Cons.prems(2) Cons x y have eq: "json_str False k @ ('':'' @ enc v @ ?rest xs r) =
        json_str False k' @ ('':'' @ enc v' @ ?rest ys' r')" by simp
    from json_str_prefix [OF eq] have kk: "k = k'" and ev: "enc v @ ?rest xs r = enc v' @ ?rest ys' r'"
      by auto
    have "decodable v" using Cons.prems(1) [of x] x by simp
    from decodableD [OF this ev cl cl] have vv: "v = v'" and re: "?rest xs r = ?rest ys' r'" by auto
    show ?thesis
    proof (cases "xs = [] \<or> ys' = []")
      case True
      with re have "xs = []" "ys' = []" "r = r'" by (auto split: if_splits)
      with kk vv x y Cons show ?thesis by simp
    next
      case False
      with re have "enc_members xs @ ''}'' @ r = enc_members ys' @ ''}'' @ r'" by simp
      from Cons.IH [OF _ this] Cons.prems(1) have "xs = ys' \<and> r = r'" by simp
      with kk vv x y Cons show ?thesis by simp
    qed
  qed
qed

lemma decodable_all: "decodable j"
proof (induction j)
  case (JInt i)
  show ?case unfolding decodable_def
  proof (intro allI impI)
    fix j' r r' assume eq: "enc (JInt i) @ r = enc j' @ r'" and c: "closes r" "closes r'"
    from enc_same_start [OF eq] obtain i' where j: "j' = JInt i'"
      by (cases j') (auto simp: start_of_def is_digit_def code_of_def split: if_splits)
    with eq have "show_int i @ r = show_int i' @ r'" by simp
    from show_int_prefix [OF this c [THEN closes_no_digit]] j show "JInt i = j' \<and> r = r'" by simp
  qed
next
  case (JStr s)
  show ?case unfolding decodable_def
  proof (intro allI impI)
    fix j' r r' assume eq: "enc (JStr s) @ r = enc j' @ r'"
    from enc_same_start [OF eq] obtain t where "j' = JStr t"
      by (cases j') (auto simp: start_of_def is_digit_def code_of_def split: if_splits)
    with eq json_str_prefix [of s r t r'] show "JStr s = j' \<and> r = r'" by simp
  qed
next
  case (JList xs)
  show ?case unfolding decodable_def
  proof (intro allI impI)
    fix j' r r' assume eq: "enc (JList xs) @ r = enc j' @ r'"
    from enc_same_start [OF eq] obtain ys where "j' = JList ys"
      by (cases j') (auto simp: start_of_def is_digit_def code_of_def split: if_splits)
    with eq enc_items_prefix [of xs r ys r'] JList.IH show "JList xs = j' \<and> r = r'" by simp
  qed
next
  case (JDict kvs)
  have dec: "decodable (snd kv)" if "kv \<in> set kvs" for kv
    using JDict.IH that by (cases kv) auto
  show ?case unfolding decodable_def
  proof (intro allI impI)
    fix j' r r' assume eq: "enc (JDict kvs) @ r = enc j' @ r'"
    from enc_same_start [OF eq] obtain ys where "j' = JDict ys"
      by (cases j') (auto simp: start_of_def is_digit_def code_of_def split: if_splits)
    with eq enc_members_prefix [of kvs r ys r'] dec show "JDict kvs = j' \<and> r = r'" by simp
  qed
next
  case JNull
  show ?case unfolding decodable_def
  proof (intro allI impI)
    fix j' r r' assume eq: "enc JNull @ r = enc j' @ r'"
    from enc_same_start [OF eq] have "j' = JNull"
      by (cases j') (auto simp: start_of_def is_digit_def code_of_def split: if_splits)
    with eq show "JNull = j' \<and> r = r'" by simp
  qed
next
  case (JBool b)
  show ?case unfolding decodable_def
  proof (intro allI impI)
    fix j' r r' assume eq: "enc (JBool b) @ r = enc j' @ r'"
    from enc_same_start [OF eq] have "j' = JBool b"
      by (cases j') (auto simp: start_of_def is_digit_def code_of_def split: if_splits)
    with eq show "JBool b = j' \<and> r = r'" by simp
  qed
qed

theorem json_text_inj: "enc j = enc j' \<Longrightarrow> j = j'"
  using decodableD [OF decodable_all, of j "[]" j' "[]"] by (simp add: closes_def)

theorem dumps_compact_inj: "dumps_compact j = dumps_compact j' \<longleftrightarrow> json_sorted j = json_sorted j'"
  by (auto simp: dumps_compact_def dest: json_text_inj)

end
