(* ===== verification/Core_Models.thy ===== *)
theory Core_Models
  imports Json_Text
begin

text \<open>
  The value types of the Work Core (\<open>work_core/projection.py\<close>, \<open>models.py\<close>,
  \<open>events.py\<close>, \<open>resource_observations.py\<close>, \<open>finalization.py\<close>). A frozen
  dataclass is a record; its \<open>__post_init__\<close> is the \<open>mk_\<close> function, the only way
  the code builds one, which returns the exception of the first failing check. A Python dict
  of strings is the list of its items in insertion order; \<open>isinstance\<close> checks on
  annotated fields are discharged by the types.
\<close>

type_synonym dict = "(string \<times> string) list"

definition dict_get :: "dict \<Rightarrow> string \<Rightarrow> string option" where
  "dict_get m k = map_of m k"

section \<open>Projection\<close>

datatype phase = Phase_active | Phase_terminal | Phase_unknown

fun phase_value :: "phase \<Rightarrow> string" where
  "phase_value Phase_active = ''active''"
| "phase_value Phase_terminal = ''terminal''"
| "phase_value Phase_unknown = ''unknown''"

datatype outcome = Succeeded | Failed | Cancelled | Abandoned

fun outcome_value :: "outcome \<Rightarrow> string" where
  "outcome_value Succeeded = ''succeeded''"
| "outcome_value Failed = ''failed''"
| "outcome_value Cancelled = ''cancelled''"
| "outcome_value Abandoned = ''abandoned''"

datatype freshness = Observed | Stale | Unreachable

fun freshness_value :: "freshness \<Rightarrow> string" where
  "freshness_value Observed = ''observed''"
| "freshness_value Stale = ''stale''"
| "freshness_value Unreachable = ''unreachable''"

record projection =
  p_phase :: phase
  p_outcome :: "outcome option"
  p_resumable :: "bool option"
  p_freshness :: freshness
  p_observed_at :: datetime

definition mk_projection ::
  "phase \<Rightarrow> outcome option \<Rightarrow> bool option \<Rightarrow> freshness \<Rightarrow> datetime \<Rightarrow> exn + projection" where
  "mk_projection ph oc res fr obs =
    (if ph = Phase_terminal \<and> oc = None
       then Inl (err InvalidProjection ''terminal projection requires an outcome'')
     else if ph \<noteq> Phase_terminal \<and> oc \<noteq> None
       then Inl (err InvalidProjection ''only terminal projection may have an outcome'')
     else if ph = Phase_unknown \<and> oc \<noteq> None
       then Inl (err InvalidProjection ''unknown projection may not claim an outcome'')
     else Inr \<lparr>p_phase = ph, p_outcome = oc, p_resumable = res, p_freshness = fr,
               p_observed_at = obs\<rparr>)"

definition terminal :: "projection \<Rightarrow> bool" where
  "terminal p \<longleftrightarrow> p_phase p = Phase_terminal"

text \<open>Rebuilding a projection from its columns, as every row reader does.\<close>

definition reload_projection :: "projection \<Rightarrow> exn + projection" where
  "reload_projection p =
     mk_projection (p_phase p) (p_outcome p) (p_resumable p) (p_freshness p) (p_observed_at p)"

definition projection_ok :: "projection \<Rightarrow> bool" where
  "projection_ok p \<longleftrightarrow> (p_phase p = Phase_terminal \<longleftrightarrow> p_outcome p \<noteq> None)"

lemma mk_projection_Inr:
  "mk_projection ph oc res fr obs = Inr p \<longleftrightarrow>
     (ph = Phase_terminal \<longleftrightarrow> oc \<noteq> None) \<and>
     p = \<lparr>p_phase = ph, p_outcome = oc, p_resumable = res, p_freshness = fr, p_observed_at = obs\<rparr>"
  by (auto simp: mk_projection_def)

lemma reload_projection_Inr: "reload_projection p = Inr q \<longleftrightarrow> projection_ok p \<and> q = p"
  by (auto simp: reload_projection_def mk_projection_Inr projection_ok_def)

section \<open>Refs, Works and Executions\<close>

datatype work_lifecycle = Open | Completed | Abandoned_work

fun lifecycle_value :: "work_lifecycle \<Rightarrow> string" where
  "lifecycle_value Open = ''open''"
| "lifecycle_value Completed = ''completed''"
| "lifecycle_value Abandoned_work = ''abandoned''"

datatype ref_type = Session_ref | Workflow_ref | Run_ref | Workspace_ref | Artifact_ref

fun ref_type_value :: "ref_type \<Rightarrow> string" where
  "ref_type_value Session_ref = ''SessionRef''"
| "ref_type_value Workflow_ref = ''WorkflowInstanceRef''"
| "ref_type_value Run_ref = ''RunRef''"
| "ref_type_value Workspace_ref = ''WorkspaceRef''"
| "ref_type_value Artifact_ref = ''ArtifactRef''"

lemma ref_type_value_inj [simp]: "ref_type_value a = ref_type_value b \<longleftrightarrow> a = b"
  by (cases a; cases b) simp_all

definition bounded_metadata :: "dict \<Rightarrow> exn + dict" where
  "bounded_metadata m =
    (if 16 < length m then Inl (err InvalidRef ''metadata has more than 16 items'')
     else if list_ex (\<lambda>kv. 64 < length (fst kv) \<or> 256 < length (snd kv)) m
       then Inl (err InvalidRef ''metadata item exceeds bounded size'')
     else Inr m)"

definition bounded :: "dict \<Rightarrow> bool" where
  "bounded m \<longleftrightarrow>
     length m \<le> 16 \<and> list_all (\<lambda>kv. length (fst kv) \<le> 64 \<and> length (snd kv) \<le> 256) m"

lemma bounded_metadata_ok: "bounded m \<Longrightarrow> bounded_metadata m = Inr m"
  by (auto simp: bounded_metadata_def bounded_def list_ex_iff list_all_iff)

lemma bounded_metadata_bad: "\<not> bounded m \<Longrightarrow> \<exists>e. bounded_metadata m = Inl e \<and> exn_cls e = InvalidRef"
  by (auto simp: bounded_metadata_def bounded_def list_ex_iff list_all_iff)

lemma bounded_metadata_Inr [run_iffs]: "bounded_metadata m = Inr m' \<longleftrightarrow> bounded m \<and> m' = m"
  using bounded_metadata_ok [of m] bounded_metadata_bad [of m] by (cases "bounded m") auto

record ref =
  r_type :: ref_type
  r_provider :: string
  r_native :: string
  r_uri :: "string option"
  r_meta :: dict

definition mk_ref :: "ref_type \<Rightarrow> string \<Rightarrow> string \<Rightarrow> string option \<Rightarrow> dict \<Rightarrow> exn + ref" where
  "mk_ref ty prov nat_id uri m =
    (if prov = [] \<or> nat_id = [] then Inl (err InvalidRef ''provider and native_id are required'')
     else case bounded_metadata m of Inl e \<Rightarrow> Inl e
     | Inr m' \<Rightarrow> Inr \<lparr>r_type = ty, r_provider = prov, r_native = nat_id, r_uri = uri, r_meta = m'\<rparr>)"

definition ref_ok :: "ref \<Rightarrow> bool" where
  "ref_ok r \<longleftrightarrow> r_provider r \<noteq> [] \<and> r_native r \<noteq> [] \<and> bounded (r_meta r)"

lemma mk_ref_Inr:
  "mk_ref ty prov nat_id uri m = Inr r \<longleftrightarrow>
     prov \<noteq> [] \<and> nat_id \<noteq> [] \<and> bounded m \<and>
     r = \<lparr>r_type = ty, r_provider = prov, r_native = nat_id, r_uri = uri, r_meta = m\<rparr>"
  using bounded_metadata_ok [of m] bounded_metadata_bad [of m]
  by (cases "bounded m") (auto simp: mk_ref_def)

record work =
  w_id :: string
  w_objective :: string
  w_lifecycle :: work_lifecycle
  w_created :: datetime
  w_updated :: datetime
  w_closure :: "string option"
  w_meta :: dict
  w_version :: int

definition mk_work :: "work \<Rightarrow> exn + work" where
  "mk_work w =
    (if w_id w = [] \<or> w_objective w = []
       then Inl (err ValueError ''work id and objective are required'')
     else case bounded_metadata (w_meta w) of Inl e \<Rightarrow> Inl e | Inr m \<Rightarrow> Inr (w\<lparr>w_meta := m\<rparr>))"

definition work_ok :: "work \<Rightarrow> bool" where
  "work_ok w \<longleftrightarrow> w_id w \<noteq> [] \<and> w_objective w \<noteq> [] \<and> bounded (w_meta w)"

lemma mk_work_Inr: "mk_work w = Inr v \<longleftrightarrow> work_ok w \<and> v = w"
  using bounded_metadata_ok [of "w_meta w"] bounded_metadata_bad [of "w_meta w"]
  by (cases "bounded (w_meta w)") (auto simp: mk_work_def work_ok_def)

record execution =
  x_id :: string
  x_work :: string
  x_provider :: string
  x_projection :: projection
  x_created :: datetime
  x_dispatched :: "datetime option"
  x_started :: "datetime option"
  x_ended :: "datetime option"
  x_provenance :: dict
  x_version :: int

definition mk_execution :: "execution \<Rightarrow> exn + execution" where
  "mk_execution x =
    (if x_id x = [] \<or> x_work x = [] \<or> x_provider x = []
       then Inl (err ValueError ''execution id, work_id and provider_id are required'')
     else case bounded_metadata (x_provenance x) of Inl e \<Rightarrow> Inl e
     | Inr m \<Rightarrow> Inr (x\<lparr>x_provenance := m\<rparr>))"

definition execution_ok :: "execution \<Rightarrow> bool" where
  "execution_ok x \<longleftrightarrow> x_id x \<noteq> [] \<and> x_work x \<noteq> [] \<and> x_provider x \<noteq> [] \<and> bounded (x_provenance x)"

lemma mk_execution_Inr: "mk_execution x = Inr v \<longleftrightarrow> execution_ok x \<and> v = x"
  using bounded_metadata_ok [of "x_provenance x"] bounded_metadata_bad [of "x_provenance x"]
  by (cases "bounded (x_provenance x)") (auto simp: mk_execution_def execution_ok_def)

section \<open>Events\<close>

datatype event_type = Work_created | Work_completed | Work_reopened | Execution_created
  | Dispatch_requested | Dispatch_accepted | Dispatch_failed | Dispatch_ambiguous
  | Native_ref_discovered | Execution_started | Projection_changed | Execution_terminal
  | Ref_attached | Execution_finalized

record core_event =
  e_id :: string
  e_type :: event_type
  e_subject :: string
  e_at :: datetime
  e_data :: dict
  e_key :: "string option"

definition mk_core_event ::
  "string \<Rightarrow> event_type \<Rightarrow> string \<Rightarrow> datetime \<Rightarrow> dict \<Rightarrow> string option \<Rightarrow> exn + core_event" where
  "mk_core_event i ty subj t d k =
    (if i = [] \<or> subj = [] then Inl (err ValueError ''event id and subject_id are required'')
     else case bounded_metadata d of Inl e \<Rightarrow> Inl e
     | Inr d' \<Rightarrow> Inr \<lparr>e_id = i, e_type = ty, e_subject = subj, e_at = t, e_data = d', e_key = k\<rparr>)"

definition event_ok :: "core_event \<Rightarrow> bool" where
  "event_ok e \<longleftrightarrow> e_id e \<noteq> [] \<and> e_subject e \<noteq> [] \<and> bounded (e_data e)"

lemma mk_core_event_Inr [run_iffs]:
  "mk_core_event i ty subj t d k = Inr e \<longleftrightarrow>
     i \<noteq> [] \<and> subj \<noteq> [] \<and> bounded d \<and>
     e = \<lparr>e_id = i, e_type = ty, e_subject = subj, e_at = t, e_data = d, e_key = k\<rparr>"
  using bounded_metadata_ok [of d] bounded_metadata_bad [of d]
  by (cases "bounded d") (auto simp: mk_core_event_def)

definition responsibility_intent_key :: string where
  "responsibility_intent_key = ''responsibility_intent''"

definition normalize_responsibility_intent :: "string \<Rightarrow> exn + string" where
  "normalize_responsibility_intent v =
    (let n = py_strip v in
     if n = [] then Inl (err ValueError ''execution responsibility_intent is required'')
     else if 256 < length n
       then Inl (err ValueError ''execution responsibility_intent exceeds 256 characters'')
     else Inr n)"

lemma normalize_intent_idem:
  "normalize_responsibility_intent v = Inr n \<Longrightarrow> normalize_responsibility_intent n = Inr n"
  by (auto simp: normalize_responsibility_intent_def Let_def split: if_splits)

definition execution_created_event ::
  "string \<Rightarrow> string \<Rightarrow> datetime \<Rightarrow> string \<Rightarrow> string \<Rightarrow> exn + core_event" where
  "execution_created_event evid xid t prov intent =
    (case normalize_responsibility_intent intent of Inl e \<Rightarrow> Inl e
     | Inr n \<Rightarrow> mk_core_event evid Execution_created xid t
         [(''provider'', prov), (responsibility_intent_key, n)] None)"

section \<open>Resource observations\<close>

datatype obs_kind = Projected | Read_back | Consumption_reported

fun obs_kind_value :: "obs_kind \<Rightarrow> string" where
  "obs_kind_value Projected = ''projected''"
| "obs_kind_value Read_back = ''read_back''"
| "obs_kind_value Consumption_reported = ''consumption_reported''"

datatype obs_result = Match | Mismatch | Unknown_result | Unverifiable

fun obs_result_value :: "obs_result \<Rightarrow> string" where
  "obs_result_value Match = ''match''"
| "obs_result_value Mismatch = ''mismatch''"
| "obs_result_value Unknown_result = ''unknown''"
| "obs_result_value Unverifiable = ''unverifiable''"

datatype observer_role = Role_execution_provider | Role_resource_provider | Role_host_observer
  | Role_external_authority

fun observer_role_value :: "observer_role \<Rightarrow> string" where
  "observer_role_value Role_execution_provider = ''execution_provider''"
| "observer_role_value Role_resource_provider = ''resource_provider''"
| "observer_role_value Role_host_observer = ''host_observer''"
| "observer_role_value Role_external_authority = ''external_authority''"

datatype coverage = Complete | Partial | Unknown_coverage

fun coverage_value :: "coverage \<Rightarrow> string" where
  "coverage_value Complete = ''complete''"
| "coverage_value Partial = ''partial''"
| "coverage_value Unknown_coverage = ''unknown''"

record observation =
  o_contract :: string
  o_ref :: ref
  o_kind :: obs_kind
  o_result :: obs_result
  o_role :: observer_role
  o_observer :: string
  o_at :: datetime
  o_coverage :: coverage
  o_evidence :: "ref option"
  o_detail :: "string option"

definition validate_contract_id :: "string \<Rightarrow> exn + unit" where
  "validate_contract_id c =
    (if blank c then Inl (err InvalidResourceObservation ''contract_id is required'')
     else if 256 < length c
       then Inl (err InvalidResourceObservation ''contract_id exceeds bounded length'')
     else if \<not> contract_id_ok c
       then Inl (err InvalidResourceObservation
         (''contract_id must look like vendor.name@1: '' @ py_repr c))
     else Inr ())"

text \<open>\<open>(self.detail or "").strip()\<close>\<close>

definition detail_text :: "string option \<Rightarrow> string" where
  "detail_text d = (case d of None \<Rightarrow> [] | Some s \<Rightarrow> py_strip s)"

definition mk_observation :: "observation \<Rightarrow> exn + observation" where
  "mk_observation ob =
    (case validate_contract_id (o_contract ob) of Inl e \<Rightarrow> Inl e | Inr _ \<Rightarrow>
     if blank (o_observer ob)
       then Inl (err InvalidResourceObservation ''observer_id is required'')
     else if 64 < length (py_strip (o_observer ob))
       then Inl (err InvalidResourceObservation ''observer_id exceeds 64 characters'')
     else if (case o_evidence ob of None \<Rightarrow> False | Some r \<Rightarrow> r_type r \<noteq> Artifact_ref)
       then Inl (err InvalidResourceObservation ''evidence_ref must be an ArtifactRef'')
     else if (case o_detail ob of None \<Rightarrow> False | Some s \<Rightarrow> 256 < length s)
       then Inl (err InvalidResourceObservation ''detail exceeds 256 characters'')
     else if o_coverage ob \<in> {Complete, Partial} \<and> detail_text (o_detail ob) = []
       then Inl (err InvalidResourceObservation
         ''COMPLETE/PARTIAL coverage requires detail describing the observation surface'')
     else Inr ob)"

definition observation_ok :: "observation \<Rightarrow> bool" where
  "observation_ok ob \<longleftrightarrow>
     contract_id_ok (o_contract ob) \<and> length (o_contract ob) \<le> 256 \<and> \<not> blank (o_contract ob) \<and>
     \<not> blank (o_observer ob) \<and> length (py_strip (o_observer ob)) \<le> 64 \<and>
     (\<forall>r. o_evidence ob = Some r \<longrightarrow> r_type r = Artifact_ref) \<and>
     (\<forall>s. o_detail ob = Some s \<longrightarrow> length s \<le> 256) \<and>
     (o_coverage ob \<noteq> Unknown_coverage \<longrightarrow> detail_text (o_detail ob) \<noteq> [])"

lemma mk_observation_Inr: "mk_observation ob = Inr v \<longleftrightarrow> observation_ok ob \<and> v = ob"
  by (cases "o_coverage ob")
     (auto simp: mk_observation_def observation_ok_def validate_contract_id_def not_less
       split: option.splits if_splits)

section \<open>Finalization requests\<close>

record fin_request =
  q_exec :: string
  q_key :: string
  q_projection :: projection
  q_native :: "ref list"
  q_output :: "ref list"
  q_observations :: "observation list"

definition mk_fin_request :: "fin_request \<Rightarrow> exn + fin_request" where
  "mk_fin_request q =
    (if blank (q_exec q) then Inl (err ValueError ''execution_id is required'')
     else if blank (q_key q) then Inl (err ValueError ''finalization idempotency_key is required'')
     else if \<not> terminal (q_projection q)
       then Inl (err FinalizationConflict ''terminal_projection must be Phase.TERMINAL'')
     else Inr q)"

record fin_receipt =
  fc_exec :: string
  fc_key :: string
  fc_digest :: string
  fc_version :: int

end
