(* ===== verification/Core_Registry.thy ===== *)
theory Core_Registry
  imports Core_Models "HOL-Library.AList"
begin

text \<open>
  The extension registry (\<open>work_core/registry.py\<close>): the dispatch-time values exchanged
  with providers, the registration operations with their guards, the staged registration of a
  bundle, and the lookups. Providers are third-party code: a provider is a record of what the
  Core reads from it, its methods functions of what the Core passes. A Python class is
  identified by \<open>t_uid\<close> (the \<open>is\<close> comparison); an instance carries the classes
  it is an instance of, its own class first.
\<close>

section \<open>Descriptors, classes and values\<close>

record descriptor =
  d_id :: string
  d_display :: string
  d_version :: string

definition mk_descriptor :: "string \<Rightarrow> string \<Rightarrow> string \<Rightarrow> exn + descriptor" where
  "mk_descriptor i name ver =
    (if \<not> component_id_ok i then Inl (err ValueError (''invalid provider id: '' @ py_repr i))
     else if blank name then Inl (err ValueError ''provider descriptor display_name is required'')
     else if blank ver then Inl (err ValueError ''provider descriptor version is required'')
     else Inr \<lparr>d_id = i, d_display = name, d_version = ver\<rparr>)"

lemma mk_descriptor_Inr:
  "mk_descriptor i n v = Inr d \<longleftrightarrow>
     component_id_ok i \<and> \<not> blank n \<and> \<not> blank v \<and> d = \<lparr>d_id = i, d_display = n, d_version = v\<rparr>"
  by (auto simp: mk_descriptor_def)

record pytype =
  t_name :: string
  t_uid :: nat
  t_contract :: "string option"
  t_frozen :: bool

record pyvalue =
  v_types :: "pytype list"
  v_data :: string

definition is_instance :: "pyvalue \<Rightarrow> pytype \<Rightarrow> bool" where
  "is_instance v t \<longleftrightarrow> list_ex (\<lambda>u. t_uid u = t_uid t) (v_types v)"

definition type_name :: "pyvalue \<Rightarrow> string" where
  "type_name v = (case v_types v of [] \<Rightarrow> ''object'' | t # _ \<Rightarrow> t_name t)"

section \<open>Values handed to an execution provider\<close>

record resolved_input =
  ri_contract :: string
  ri_ref :: ref
  ri_value :: pyvalue

record start_request =
  sq_exec :: string
  sq_dispatch :: string
  sq_digest :: string
  sq_resolved :: "resolved_input list"

text \<open>\<open>ExecutionStartRequest.inputs\<close>: the values grouped by contract id, in order of
  first appearance.\<close>

definition group_step :: "resolved_input \<Rightarrow> (string \<times> pyvalue list) list \<Rightarrow>
    (string \<times> pyvalue list) list" where
  "group_step it g = AList.update (ri_contract it)
     ((case map_of g (ri_contract it) of None \<Rightarrow> [] | Some vs \<Rightarrow> vs) @ [ri_value it]) g"

definition request_inputs :: "start_request \<Rightarrow> (string \<times> pyvalue list) list" where
  "request_inputs q = fold group_step (sq_resolved q) []"

record preflight_request =
  pq_exec :: string
  pq_dispatch :: string
  pq_digest :: string
  pq_exact :: "(string \<times> ref) list"
  pq_resolved :: "resolved_input list"

datatype resolution_effect = Pure_effect | Idempotent_materialization

fun parse_effect :: "string \<Rightarrow> resolution_effect option" where
  "parse_effect s =
    (if s = ''pure'' then Some Pure_effect
     else if s = ''idempotent_materialization'' then Some Idempotent_materialization
     else None)"

datatype recovery_support = No_recovery | Observe_recovery | Control_recovery

fun recovery_value :: "recovery_support \<Rightarrow> string" where
  "recovery_value No_recovery = ''none''"
| "recovery_value Observe_recovery = ''observe''"
| "recovery_value Control_recovery = ''control''"

definition parse_recovery :: "string \<Rightarrow> recovery_support option" where
  "parse_recovery s =
    (if s = ''none'' then Some No_recovery
     else if s = ''observe'' then Some Observe_recovery
     else if s = ''control'' then Some Control_recovery else None)"

lemma parse_recovery_value [simp]: "parse_recovery (recovery_value r) = Some r"
  by (cases r) (simp_all add: parse_recovery_def)

text \<open>\<open>ExecutionStartReceipt\<close>; \<open>sr_support = None\<close> stands for a value that is
  not a \<open>RecoverySupport\<close>.\<close>

record start_receipt =
  sr_exec :: string
  sr_dispatch :: string
  sr_digest :: string
  sr_support :: "recovery_support option"
  sr_correlation :: "ref option"

text \<open>What \<open>provider.start\<close> returns: a receipt or some other object.\<close>

datatype start_result = Receipt start_receipt | Not_a_receipt

record dispatch_receipt =
  dr_exec :: string
  dr_dispatch :: string
  dr_state :: string
  dr_digest :: "string option"
  dr_support :: "recovery_support option"
  dr_correlation :: "ref option"
  dr_legacy :: "string option"

section \<open>Providers\<close>

text \<open>The \<open>descriptor\<close> attribute of a resource provider: absent (or not callable), a
  method whose value is not a \<open>ProviderDescriptor\<close>, or a proper one.\<close>

datatype descriptor_attr = No_descriptor | Bad_descriptor | Has_descriptor descriptor

record resource_provider =
  rp_descriptor :: descriptor_attr
  rp_supported :: "string list option"
  rp_resolve :: "string \<Rightarrow> ref \<Rightarrow> (string \<times> string) option \<Rightarrow> exn + pyvalue"

text \<open>\<open>preflight_contract_ids\<close>: absent, not a \<open>frozenset[str]\<close>, or the ids.\<close>

datatype preflight_decl = Preflight_absent | Preflight_bad | Preflight_ids "string list"

record exec_provider =
  ep_descriptor :: descriptor
  ep_capabilities :: dict
  ep_limits :: "(string \<times> int \<times> int option) list option"
  ep_preflight_decl :: preflight_decl
  ep_preflight :: "(preflight_request \<Rightarrow> exn + unit) option"
  ep_effect :: "(string \<Rightarrow> exn + string) option"
  ep_start :: "start_request \<Rightarrow> exn + start_result"

section \<open>The registry\<close>

record registry =
  g_providers :: "(string \<times> exec_provider) list"
  g_resource :: "(string \<times> resource_provider) list"
  g_descriptors :: "(string \<times> descriptor) list"
  g_types :: "(string \<times> pytype) list"
  g_root :: "string list"

definition new_registry :: "(string \<times> pytype) list \<Rightarrow> registry" where
  "new_registry builtin =
    \<lparr>g_providers = [], g_resource = [], g_descriptors = [], g_types = builtin, g_root = []\<rparr>"

definition validate_contract_type :: "pytype \<Rightarrow> exn + string \<times> pytype" where
  "validate_contract_type t =
    (case t_contract t of
       None \<Rightarrow> Inl (err ValueError
         ''resource contract must declare a versioned contract_id like vendor.name@1'')
     | Some c \<Rightarrow>
         if \<not> contract_id_ok c then Inl (err ValueError
           ''resource contract must declare a versioned contract_id like vendor.name@1'')
         else if \<not> t_frozen t
           then Inl (err ValueError ''resource contract must be a frozen dataclass'')
         else Inr (c, t))"

lemma validate_contract_type_Inr:
  "validate_contract_type t = Inr (c, u) \<longleftrightarrow>
     u = t \<and> t_contract t = Some c \<and> contract_id_ok c \<and> t_frozen t"
  by (auto simp: validate_contract_type_def split: option.splits)

definition register_root_shared_contract :: "pytype \<Rightarrow> registry \<Rightarrow> exn + registry" where
  "register_root_shared_contract t g =
    (case validate_contract_type t of Inl e \<Rightarrow> Inl e
     | Inr (c, u) \<Rightarrow>
         if (case map_of (g_types g) c of None \<Rightarrow> False | Some v \<Rightarrow> t_uid v \<noteq> t_uid u)
           then Inl (err ValueError (''Root shared contract id collision: '' @ c))
         else Inr (g\<lparr>g_types := AList.update c u (g_types g), g_root := List.insert c (g_root g)\<rparr>))"

definition root_shared_contract_ids :: "registry \<Rightarrow> string list" where
  "root_shared_contract_ids g = g_root g"

definition register_contract :: "pytype \<Rightarrow> registry \<Rightarrow> exn + registry" where
  "register_contract t g =
    (case validate_contract_type t of Inl e \<Rightarrow> Inl e
     | Inr (c, u) \<Rightarrow>
         if c \<in> set (g_root g) then
           (case map_of (g_types g) c of
              None \<Rightarrow> Inl (err KeyError (py_repr c))
            | Some v \<Rightarrow>
                if t_uid v \<noteq> t_uid u then Inl (err ValueError
                  (''contract id is Root-owned shared runtime authority: '' @ c))
                else Inr g)
         else if map_of (g_types g) c \<noteq> None
           then Inl (err ValueError (''resource contract already registered: '' @ c))
         else Inr (g\<lparr>g_types := AList.update c u (g_types g)\<rparr>))"

definition get_contract_type :: "registry \<Rightarrow> string \<Rightarrow> exn + pytype" where
  "get_contract_type g c =
    (case map_of (g_types g) c of
       None \<Rightarrow> Inl (Exn ValueError (''unknown resource contract: '' @ c) None
                (Some (err KeyError (py_repr c))))
     | Some t \<Rightarrow> Inr t)"

definition register_execution_provider :: "exec_provider \<Rightarrow> registry \<Rightarrow> exn + registry" where
  "register_execution_provider p g =
    (let i = d_id (ep_descriptor p) in
     if i = [] then Inl (err ValueError ''provider descriptor id is required'')
     else if map_of (g_providers g) i \<noteq> None
       then Inl (err ValueError (''provider already registered: '' @ i))
     else Inr (g\<lparr>g_providers := AList.update i p (g_providers g)\<rparr>))"

text \<open>The head of \<open>register_resource_provider\<close>: the provider id and the descriptor, for
  the one-argument form (\<open>None\<close>) and for the explicit-id form.\<close>

definition resource_identity ::
  "string option \<Rightarrow> resource_provider \<Rightarrow> exn + string \<times> descriptor" where
  "resource_identity explicit p =
    (case explicit of
       None \<Rightarrow>
         (case rp_descriptor p of
            No_descriptor \<Rightarrow> Inl (err ValueError ''resource provider must expose descriptor()'')
          | Bad_descriptor \<Rightarrow>
              Inl (err ValueError ''resource provider descriptor() returned invalid value'')
          | Has_descriptor d \<Rightarrow> Inr (d_id d, d))
     | Some i \<Rightarrow>
         (case rp_descriptor p of
            No_descriptor \<Rightarrow>
              (case mk_descriptor i i ''legacy'' of Inl e \<Rightarrow> Inl e | Inr d \<Rightarrow> Inr (i, d))
          | Bad_descriptor \<Rightarrow> Inl (err AttributeError (''object has no attribute '' @ py_repr ''id''))
          | Has_descriptor d \<Rightarrow>
              if d_id d \<noteq> i
                then Inl (err ValueError ''resource provider id differs from descriptor id'')
              else Inr (i, d)))"

definition unknown_contracts :: "registry \<Rightarrow> string list \<Rightarrow> string list" where
  "unknown_contracts g cs = filter (\<lambda>c. map_of (g_types g) c = None) cs"

definition register_resource_provider ::
  "string option \<Rightarrow> resource_provider \<Rightarrow> registry \<Rightarrow> exn + registry" where
  "register_resource_provider explicit p g =
    (case resource_identity explicit p of Inl e \<Rightarrow> Inl e
     | Inr (i, d) \<Rightarrow>
         if i = [] then Inl (err ValueError ''resource provider id is required'')
         else (case rp_supported p of
             None \<Rightarrow> Inl (err ValueError ''resource provider must declare supported_contract_ids'')
           | Some cs \<Rightarrow>
               if unknown_contracts g cs \<noteq> [] then Inl (err ValueError
                 (''resource provider declares unknown contracts: ''
                   @ join_comma (sort (remdups (unknown_contracts g cs)))))
               else if map_of (g_resource g) i \<noteq> None
                 then Inl (err ValueError (''resource provider already registered: '' @ i))
               else Inr (g\<lparr>g_resource := AList.update i p (g_resource g),
                           g_descriptors := AList.update i d (g_descriptors g)\<rparr>)))"

text \<open>\<open>for x in xs: step(x)\<close> over a registry, stopping at the first exception.\<close>

fun register_all :: "('a \<Rightarrow> registry \<Rightarrow> exn + registry) \<Rightarrow> 'a list \<Rightarrow> registry \<Rightarrow> exn + registry" where
  "register_all f [] g = Inr g"
| "register_all f (x # xs) g = (case f x g of Inl e \<Rightarrow> Inl e | Inr g' \<Rightarrow> register_all f xs g')"

text \<open>
  \<open>register_components\<close> works on a staged copy and assigns the four dictionaries back at
  the end; the Root-owned ids are not assigned. The result is what was raised and the registry
  object as the call leaves it.
\<close>

definition register_components ::
  "pytype list \<Rightarrow> resource_provider list \<Rightarrow> exec_provider list \<Rightarrow> registry \<Rightarrow>
     exn option \<times> registry" where
  "register_components cs rps eps g =
    (let staged = (case register_all register_contract cs g of Inl e \<Rightarrow> Inl e
       | Inr s1 \<Rightarrow> (case register_all (register_resource_provider None) rps s1 of Inl e \<Rightarrow> Inl e
         | Inr s2 \<Rightarrow> register_all register_execution_provider eps s2))
     in (case staged of Inl e \<Rightarrow> (Some e, g)
         | Inr s \<Rightarrow> (None, g\<lparr>g_providers := g_providers s, g_resource := g_resource s,
                           g_descriptors := g_descriptors s, g_types := g_types s\<rparr>)))"

definition get_resource_provider :: "registry \<Rightarrow> string \<Rightarrow> exn + resource_provider" where
  "get_resource_provider g i =
    (case map_of (g_resource g) i of
       None \<Rightarrow> Inl (Exn ProviderUnavailable (''resource provider unavailable: '' @ i) None
                (Some (err KeyError (py_repr i))))
     | Some p \<Rightarrow> Inr p)"

definition get_provider :: "registry \<Rightarrow> string \<Rightarrow> exn + exec_provider" where
  "get_provider g i =
    (case map_of (g_providers g) i of
       None \<Rightarrow> Inl (Exn ProviderUnavailable (''provider unavailable: '' @ i) None
                (Some (err KeyError (py_repr i))))
     | Some p \<Rightarrow> Inr p)"

definition provider_descriptors :: "registry \<Rightarrow> descriptor list" where
  "provider_descriptors g =
    map (\<lambda>k. ep_descriptor (the (map_of (g_providers g) k))) (sort (map fst (g_providers g)))"

definition resource_descriptors :: "registry \<Rightarrow> descriptor list" where
  "resource_descriptors g =
    map (\<lambda>k. the (map_of (g_descriptors g) k)) (sort (map fst (g_descriptors g)))"

definition require_capability :: "registry \<Rightarrow> string \<Rightarrow> string \<Rightarrow> exn + exec_provider" where
  "require_capability g i op =
    (case get_provider g i of Inl e \<Rightarrow> Inl e
     | Inr p \<Rightarrow>
         if dict_get (ep_capabilities p) op \<notin> {Some ''supported'', Some ''emulated''}
           then Inl (err CapabilityUnsupported (i @ '' does not support '' @ op))
         else Inr p)"

section \<open>Invariant\<close>

text \<open>
  A well-formed registry: dictionary keys are distinct, every contract is stored under the id
  its class declares, every provider under the id of its descriptor, each resource provider
  has its descriptor beside it and supports registered contracts only, and the Root-owned ids
  are registered.
\<close>

definition types_ok :: "(string \<times> pytype) list \<Rightarrow> bool" where
  "types_ok ts \<longleftrightarrow> distinct (map fst ts) \<and>
     list_all (\<lambda>(c, t). t_contract t = Some c \<and> contract_id_ok c \<and> t_frozen t) ts"

definition providers_ok :: "(string \<times> exec_provider) list \<Rightarrow> bool" where
  "providers_ok ps \<longleftrightarrow> distinct (map fst ps) \<and> list_all (\<lambda>(i, p). d_id (ep_descriptor p) = i) ps"

definition supports_only :: "string list \<Rightarrow> resource_provider \<Rightarrow> bool" where
  "supports_only ks p \<longleftrightarrow>
     (case rp_supported p of None \<Rightarrow> False | Some cs \<Rightarrow> list_all (\<lambda>c. c \<in> set ks) cs)"

definition resources_ok ::
  "string list \<Rightarrow> (string \<times> resource_provider) list \<Rightarrow> (string \<times> descriptor) list \<Rightarrow> bool" where
  "resources_ok ks rs ds \<longleftrightarrow> distinct (map fst rs) \<and> map fst rs = map fst ds \<and>
     list_all (\<lambda>(i, d). d_id d = i) ds \<and> list_all (\<lambda>(i, p). supports_only ks p) rs"

definition registry_ok :: "registry \<Rightarrow> bool" where
  "registry_ok g \<longleftrightarrow>
     types_ok (g_types g) \<and> providers_ok (g_providers g) \<and>
     resources_ok (map fst (g_types g)) (g_resource g) (g_descriptors g) \<and>
     set (g_root g) \<subseteq> set (map fst (g_types g))"

text \<open>The binding of a contract id to a class never changes once made, and no provider is
  replaced or dropped.\<close>

definition extends :: "registry \<Rightarrow> registry \<Rightarrow> bool" where
  "extends g g' \<longleftrightarrow>
     (\<forall>c t. map_of (g_types g) c = Some t \<longrightarrow>
        (\<exists>u. map_of (g_types g') c = Some u \<and> t_uid u = t_uid t)) \<and>
     map_of (g_providers g) \<subseteq>\<^sub>m map_of (g_providers g') \<and>
     map_of (g_resource g) \<subseteq>\<^sub>m map_of (g_resource g') \<and>
     map_of (g_descriptors g) \<subseteq>\<^sub>m map_of (g_descriptors g')"

lemma extends_refl [simp]: "extends g g"
  by (simp add: extends_def)

lemma extends_trans: "extends a b \<Longrightarrow> extends b c \<Longrightarrow> extends a c"
  unfolding extends_def by (metis map_le_trans)

lemma update_fresh: "map_of xs k = None \<Longrightarrow> AList.update k v xs = xs @ [(k, v)]"
  by (induction xs) (auto split: if_splits)

lemma map_le_update_fresh:
  "map_of xs k = None \<Longrightarrow> map_of xs \<subseteq>\<^sub>m map_of (AList.update k v xs)"
  by (auto simp: map_le_def update_conv dom_def)

lemma set_update_subset: "set (AList.update k v xs) \<subseteq> insert (k, v) (set xs)"
  by (induction xs) auto

lemma keys_update: "fst ` set (AList.update k v xs) = insert k (fst ` set xs)"
  by (induction xs) auto

section \<open>Registration preserves the invariant and extends the registry\<close>

lemma registry_ok_new:
  assumes "distinct (map fst builtin)"
    and "\<forall>(c, t) \<in> set builtin. t_contract t = Some c \<and> contract_id_ok c \<and> t_frozen t"
  shows "registry_ok (new_registry builtin)"
  using assms
  by (auto simp: registry_ok_def new_registry_def types_ok_def providers_ok_def resources_ok_def
      list_all_iff)

lemma types_ok_update:
  "types_ok ts \<Longrightarrow> t_contract t = Some c \<Longrightarrow> contract_id_ok c \<Longrightarrow> t_frozen t \<Longrightarrow>
     types_ok (AList.update c t ts)"
  using set_update_subset [of c t ts]
  by (fastforce simp: types_ok_def list_all_iff distinct_update)

lemma supports_only_mono:
  "supports_only ks p \<Longrightarrow> set ks \<subseteq> set ks' \<Longrightarrow> supports_only ks' p"
  by (auto simp: supports_only_def list_all_iff split: option.splits)

lemma resources_ok_mono:
  "resources_ok ks rs ds \<Longrightarrow> set ks \<subseteq> set ks' \<Longrightarrow> resources_ok ks' rs ds"
  by (fastforce simp: resources_ok_def list_all_iff elim: supports_only_mono)

lemma resources_ok_add:
  assumes "resources_ok ks rs ds" and "map_of rs i = None" and "d_id d = i" and "supports_only ks p"
  shows "resources_ok ks (AList.update i p rs) (AList.update i d ds)"
proof -
  have "map_of ds i = None"
    using assms(1,2) unfolding resources_ok_def map_of_eq_None_iff by (metis list.set_map)
  with assms show ?thesis
    by (simp add: update_fresh resources_ok_def) (metis list.set_map map_of_eq_None_iff)
qed

lemma providers_ok_add:
  "providers_ok ps \<Longrightarrow> map_of ps (d_id (ep_descriptor p)) = None \<Longrightarrow>
     providers_ok (AList.update (d_id (ep_descriptor p)) p ps)"
  by (simp add: providers_ok_def update_fresh map_of_eq_None_iff)

lemma register_contract_cases:
  assumes "register_contract t g = Inr g'"
  obtains c where "g' = g" "t_contract t = Some c"
    | c where "map_of (g_types g) c = None" "t_contract t = Some c" "contract_id_ok c" "t_frozen t"
        "g' = g\<lparr>g_types := AList.update c t (g_types g)\<rparr>"
proof -
  from assms obtain c where c: "validate_contract_type t = Inr (c, t)"
    by (auto simp: register_contract_def validate_contract_type_Inr split: sum.splits)
  from assms c have "g' = g \<or>
      map_of (g_types g) c = None \<and> g' = g\<lparr>g_types := AList.update c t (g_types g)\<rparr>"
    by (simp add: register_contract_def split: if_splits option.splits)
  with c that show ?thesis by (auto simp: validate_contract_type_Inr)
qed

lemma register_contract_ok:
  assumes r: "register_contract t g = Inr g'" and ok: "registry_ok g"
  shows "registry_ok g' \<and> extends g g'"
  using r
proof (cases rule: register_contract_cases)
  case (2 c)
  with ok have "registry_ok g'"
    by (auto simp: registry_ok_def types_ok_update keys_update elim!: resources_ok_mono)
  moreover from 2 have "extends g g'"
    by (auto simp: extends_def update_conv)
  ultimately show ?thesis ..
qed (use ok in auto)

lemma register_root_shared_ok:
  assumes r: "register_root_shared_contract t g = Inr g'" and ok: "registry_ok g"
  shows "registry_ok g' \<and> extends g g'"
proof -
  from r obtain c where c: "t_contract t = Some c" "contract_id_ok c" "t_frozen t"
    and uid: "\<And>v. map_of (g_types g) c = Some v \<Longrightarrow> t_uid v = t_uid t"
    and g': "g' = g\<lparr>g_types := AList.update c t (g_types g), g_root := List.insert c (g_root g)\<rparr>"
    by (auto simp: register_root_shared_contract_def validate_contract_type_Inr
        split: sum.splits if_splits option.splits)
  have "registry_ok g'"
    using ok c unfolding registry_ok_def g'
    by (auto simp: types_ok_update keys_update elim!: resources_ok_mono)
  moreover have "extends g g'"
    using uid by (auto simp: extends_def g' update_conv)
  ultimately show ?thesis ..
qed

lemma register_execution_provider_ok:
  assumes r: "register_execution_provider p g = Inr g'" and ok: "registry_ok g"
  shows "registry_ok g' \<and> extends g g'"
proof -
  from r have new: "map_of (g_providers g) (d_id (ep_descriptor p)) = None"
    and g': "g' = g\<lparr>g_providers := AList.update (d_id (ep_descriptor p)) p (g_providers g)\<rparr>"
    by (auto simp: register_execution_provider_def Let_def split: if_splits)
  have "registry_ok g'"
    using ok new by (simp add: registry_ok_def g' providers_ok_add)
  moreover have "extends g g'"
    using new by (auto simp: extends_def g' map_le_update_fresh)
  ultimately show ?thesis ..
qed

lemma resource_identity_Inr:
  "resource_identity ex p = Inr (i, d) \<Longrightarrow> d_id d = i"
  by (auto simp: resource_identity_def mk_descriptor_Inr
      split: option.splits descriptor_attr.splits if_splits sum.splits)

lemma unknown_contracts_Nil:
  "unknown_contracts g cs = [] \<longleftrightarrow> set cs \<subseteq> fst ` set (g_types g)"
  by (auto simp: unknown_contracts_def filter_empty_conv map_of_eq_None_iff)

lemma register_resource_provider_ok:
  assumes r: "register_resource_provider ex p g = Inr g'" and ok: "registry_ok g"
  shows "registry_ok g' \<and> extends g g'"
proof -
  from r obtain i d cs where d: "d_id d = i" and cs: "rp_supported p = Some cs"
    and known: "set cs \<subseteq> fst ` set (g_types g)"
    and new: "map_of (g_resource g) i = None"
    and g': "g' = g\<lparr>g_resource := AList.update i p (g_resource g),
                  g_descriptors := AList.update i d (g_descriptors g)\<rparr>"
    by (auto simp: register_resource_provider_def unknown_contracts_Nil
        dest!: resource_identity_Inr split: sum.splits if_splits option.splits)
  from new ok have new': "map_of (g_descriptors g) i = None"
    unfolding registry_ok_def resources_ok_def map_of_eq_None_iff by (metis list.set_map)
  from cs known have "supports_only (map fst (g_types g)) p"
    by (auto simp: supports_only_def list_all_iff)
  with ok d new have "registry_ok g'"
    by (simp add: registry_ok_def g' resources_ok_add)
  moreover have "extends g g'"
    using new new' by (auto simp: extends_def g' map_le_update_fresh)
  ultimately show ?thesis ..
qed

lemma register_all_ok:
  assumes step: "\<And>x h h'. f x h = Inr h' \<Longrightarrow> registry_ok h \<Longrightarrow> registry_ok h' \<and> extends h h'"
  shows "register_all f xs g = Inr g' \<Longrightarrow> registry_ok g \<Longrightarrow> registry_ok g' \<and> extends g g'"
proof (induction xs arbitrary: g)
  case (Cons x xs)
  then obtain h where h: "f x g = Inr h" "register_all f xs h = Inr g'"
    by (auto split: sum.splits)
  with Cons step [OF h(1)] show ?case by (metis extends_trans)
qed simp

lemma register_all_field:
  assumes "\<And>x h h'. f x h = Inr h' \<Longrightarrow> P h' = P h"
  shows "register_all f xs g = Inr g' \<Longrightarrow> P g' = P g"
proof (induction xs arbitrary: g)
  case (Cons x xs)
  then show ?case using assms by (auto split: sum.splits)
qed simp

text \<open>The staged registration assigns everything it staged: nothing of the bundle is lost by
  leaving the Root-owned ids alone.\<close>

lemma staged_root:
  assumes "register_all register_contract cs g = Inr s1"
    and "register_all (register_resource_provider None) rps s1 = Inr s2"
    and "register_all register_execution_provider eps s2 = Inr s"
  shows "g_root s = g_root g"
proof -
  have "g_root s1 = g_root g"
    by (rule register_all_field [where P = g_root, OF _ assms(1)])
       (auto elim!: register_contract_cases)
  moreover have "g_root s2 = g_root s1"
    by (rule register_all_field [where P = g_root, OF _ assms(2)])
       (auto simp: register_resource_provider_def split: sum.splits if_splits option.splits)
  moreover have "g_root s = g_root s2"
    by (rule register_all_field [where P = g_root, OF _ assms(3)])
       (auto simp: register_execution_provider_def Let_def split: if_splits)
  ultimately show ?thesis by simp
qed

lemma register_components_None:
  assumes "register_components cs rps eps g = (None, g')"
  obtains s1 s2 where "register_all register_contract cs g = Inr s1"
    "register_all (register_resource_provider None) rps s1 = Inr s2"
    "register_all register_execution_provider eps s2 = Inr g'"
proof -
  from assms obtain s1 s2 s where s: "register_all register_contract cs g = Inr s1"
      "register_all (register_resource_provider None) rps s1 = Inr s2"
      "register_all register_execution_provider eps s2 = Inr s"
    and g': "g' = g\<lparr>g_providers := g_providers s, g_resource := g_resource s,
                  g_descriptors := g_descriptors s, g_types := g_types s\<rparr>"
    by (auto simp: register_components_def Let_def split: sum.splits)
  from staged_root [OF s] g' have "g' = s" by simp
  with s show ?thesis by (intro that) simp_all
qed

lemma register_components_ok:
  assumes r: "register_components cs rps eps g = (None, g')" and ok: "registry_ok g"
  shows "registry_ok g' \<and> extends g g'"
proof -
  from r obtain s1 s2 where s: "register_all register_contract cs g = Inr s1"
    "register_all (register_resource_provider None) rps s1 = Inr s2"
    "register_all register_execution_provider eps s2 = Inr g'"
    by (rule register_components_None)
  have 1: "registry_ok s1 \<and> extends g s1"
    using register_all_ok [OF register_contract_ok s(1) ok] .
  have 2: "registry_ok s2 \<and> extends s1 s2"
    using register_all_ok [OF register_resource_provider_ok s(2)] 1 by simp
  have "registry_ok g' \<and> extends s2 g'"
    using register_all_ok [OF register_execution_provider_ok s(3)] 2 by simp
  with 1 2 show ?thesis by (metis extends_trans)
qed

lemma register_components_failed:
  "register_components cs rps eps g = (Some e, g') \<Longrightarrow> g' = g"
  by (auto simp: register_components_def Let_def split: sum.splits)

section \<open>Lookups\<close>

lemma get_contract_type_Inr:
  "get_contract_type g c = Inr t \<longleftrightarrow> map_of (g_types g) c = Some t"
  by (auto simp: get_contract_type_def split: option.splits)

lemma get_resource_provider_Inr:
  "get_resource_provider g i = Inr p \<longleftrightarrow> map_of (g_resource g) i = Some p"
  by (auto simp: get_resource_provider_def split: option.splits)

lemma get_provider_Inr: "get_provider g i = Inr p \<longleftrightarrow> map_of (g_providers g) i = Some p"
  by (auto simp: get_provider_def split: option.splits)

lemma get_provider_id:
  "registry_ok g \<Longrightarrow> get_provider g i = Inr p \<Longrightarrow> d_id (ep_descriptor p) = i"
  by (auto simp: get_provider_Inr registry_ok_def providers_ok_def list_all_iff dest!: map_of_SomeD)

lemma supported_registered:
  assumes ok: "registry_ok g" and p: "get_resource_provider g i = Inr p"
    and c: "rp_supported p = Some cs" "c \<in> set cs"
  shows "\<exists>t. get_contract_type g c = Inr t"
proof -
  from p have "(i, p) \<in> set (g_resource g)"
    by (simp add: get_resource_provider_Inr map_of_SomeD)
  with ok c have "c \<in> fst ` set (g_types g)"
    by (fastforce simp: registry_ok_def resources_ok_def supports_only_def list_all_iff)
  then have "map_of (g_types g) c \<noteq> None" by (simp add: map_of_eq_None_iff)
  then show ?thesis by (auto simp: get_contract_type_Inr)
qed

text \<open>Grouping keeps every value, in order, under its contract id.\<close>

lemma group_step_lookup:
  "map_of (group_step it g) c =
     (if c = ri_contract it
      then Some ((case map_of g c of None \<Rightarrow> [] | Some vs \<Rightarrow> vs) @ [ri_value it])
      else map_of g c)"
  by (auto simp: group_step_def update_conv)

lemma fold_group_lookup:
  "map_of (fold group_step items g) c =
     (if filter (\<lambda>it. ri_contract it = c) items = [] then map_of g c
      else Some ((case map_of g c of None \<Rightarrow> [] | Some vs \<Rightarrow> vs)
             @ map ri_value (filter (\<lambda>it. ri_contract it = c) items)))"
proof (induction items arbitrary: g)
  case (Cons it items)
  show ?case
    by (simp add: Cons.IH group_step_lookup)
qed simp

end
