(* ===== verification/Sql_Tables.thy ===== *)
theory Sql_Tables
  imports Prelude
begin

text \<open>
  SQLite tables as lists of rows in rowid order: the statements' errors, the
  \<open>UPDATE\<close> of the matching rows and the generic facts the two databases of the code
  (the Work Core and the session ledger) share.
\<close>

section \<open>Statements\<close>

definition unique_failed :: "string \<Rightarrow> exn" where
  "unique_failed col = err IntegrityError (''UNIQUE constraint failed: '' @ col)"

definition foreign_key_failed :: exn where
  "foreign_key_failed = err IntegrityError ''FOREIGN KEY constraint failed''"

text \<open>\<open>UPDATE t SET f WHERE p\<close>: every matching row is rewritten in place; the result is
  \<open>cursor.rowcount\<close>.\<close>

definition update_where :: "('r \<Rightarrow> bool) \<Rightarrow> ('r \<Rightarrow> 'r) \<Rightarrow> 'r list \<Rightarrow> 'r list" where
  "update_where p f rows = map (\<lambda>r. if p r then f r else r) rows"

definition count_where :: "('r \<Rightarrow> bool) \<Rightarrow> 'r list \<Rightarrow> nat" where
  "count_where p rows = length (filter p rows)"

section \<open>Generic facts on tables\<close>

lemma set_update_where:
  "set (update_where p f rows) = f ` {r \<in> set rows. p r} \<union> {r \<in> set rows. \<not> p r}"
  by (auto simp: update_where_def)

lemma update_where_related:
  assumes "\<And>r. r \<in> set rows \<Longrightarrow> p r \<Longrightarrow> M r (f r)" "\<And>r. M r r" "r \<in> set rows"
  shows "\<exists>r' \<in> set (update_where p f rows). M r r'"
proof
  show "(if p r then f r else r) \<in> set (update_where p f rows)"
    using assms(3) by (auto simp: update_where_def)
  show "M r (if p r then f r else r)" using assms by simp
qed

lemma map_update_where:
  "(\<And>r. p r \<Longrightarrow> k (f r) = k r) \<Longrightarrow> map k (update_where p f rows) = map k rows"
  by (auto simp: update_where_def)

lemma find_update_where:
  assumes "\<And>r. p r \<Longrightarrow> q (f r) = q r"
  shows "find q (update_where p f rows) = map_option (\<lambda>r. if p r then f r else r) (find q rows)"
  using assms by (induction rows) (auto simp: update_where_def)

lemma find_append_row: "find q (rows @ [r]) = (case find q rows of Some s \<Rightarrow> Some s
    | None \<Rightarrow> if q r then Some r else None)"
  by (induction rows) auto

lemma find_keyed:
  "distinct (map k rows) \<Longrightarrow> find (\<lambda>r. k r = a) rows = Some r \<longleftrightarrow> r \<in> set rows \<and> k r = a"
  by (induction rows) auto

lemma count_where_0: "count_where p rows = 0 \<longleftrightarrow> (\<forall>r \<in> set rows. \<not> p r)"
  by (auto simp: count_where_def filter_empty_conv)

end
