(* ===== verification/Core_Tables.thy ===== *)
theory Core_Tables
  imports Core_Registry Sql_Tables
begin

text \<open>
  The Core's tables (\<open>migrations/004, 006, 007, 008, 009\<close>) and the statements the
  repository runs on them. A table is the list of its rows in insertion order; an INSERT
  checks the PRIMARY KEY, UNIQUE and FOREIGN KEY constraints the migrations declare and raises
  \<open>sqlite3.IntegrityError\<close>. A JSON column of string items is the list of the items in the
  key order the encoder writes (\<open>sort_keys=True\<close>), so equal columns are equal lists.
\<close>

definition dump :: "dict \<Rightarrow> dict" where
  "dump m = sort_key fst m"

lemma dump_idem [simp]: "dump (dump m) = dump m"
  by (simp add: dump_def sort_key_id_if_sorted)

lemma bounded_dump [simp]: "bounded (dump m) = bounded m"
  by (simp add: bounded_def dump_def list_all_iff)

lemma dict_get_dump: "distinct (map fst m) \<Longrightarrow> dict_get (dump m) k = dict_get m k"
  unfolding dict_get_def dump_def
  by (rule map_of_inject_set [THEN iffD2, THEN fun_cong])
     (auto simp: distinct_map inj_on_def)

definition dump_ref :: "ref \<Rightarrow> ref" where
  "dump_ref r = r\<lparr>r_meta := dump (r_meta r)\<rparr>"

lemma dump_ref_simps [simp]:
  "r_type (dump_ref r) = r_type r" "r_provider (dump_ref r) = r_provider r"
  "r_native (dump_ref r) = r_native r" "r_uri (dump_ref r) = r_uri r"
  "r_meta (dump_ref r) = dump (r_meta r)" "dump_ref (dump_ref r) = dump_ref r"
  "ref_ok (dump_ref r) = ref_ok r"
  by (simp_all add: dump_ref_def ref_ok_def)

section \<open>Rows\<close>

datatype relation = Native_rel | Input_rel | Output_rel

record ref_row =
  rr_exec :: string
  rr_relation :: relation
  rr_ref :: ref
  rr_created :: datetime
  rr_contract :: "string option"

record dispatch_row =
  dp_id :: string
  dp_exec :: string
  dp_key :: string
  dp_state :: string
  dp_correlation :: "string option"
  dp_digest :: "string option"
  dp_created :: datetime
  dp_updated :: datetime

record obs_row =
  ob_id :: nat
  ob_exec :: string
  ob_obs :: observation
  ob_ref_digest :: string
  ob_digest :: string
  ob_recorded :: datetime

record fin_row =
  f_exec :: string
  f_key :: string
  f_digest :: string
  f_version :: int
  f_created :: datetime

record core_db =
  works :: "work list"
  executions :: "execution list"
  refs :: "ref_row list"
  events :: "core_event list"
  dispatches :: "dispatch_row list"
  observations :: "obs_row list"
  obs_next :: nat
  finalizations :: "fin_row list"

definition empty_db :: core_db where
  "empty_db = \<lparr>works = [], executions = [], refs = [], events = [], dispatches = [],
     observations = [], obs_next = 1, finalizations = []\<rparr>"

section \<open>Lookups\<close>

definition find_work :: "core_db \<Rightarrow> string \<Rightarrow> work option" where
  "find_work d i = find (\<lambda>w. w_id w = i) (works d)"

definition find_exec :: "core_db \<Rightarrow> string \<Rightarrow> execution option" where
  "find_exec d i = find (\<lambda>x. x_id x = i) (executions d)"

definition find_dispatch :: "core_db \<Rightarrow> string \<Rightarrow> dispatch_row option" where
  "find_dispatch d i = find (\<lambda>r. dp_id r = i) (dispatches d)"

definition dispatch_of_exec :: "core_db \<Rightarrow> string \<Rightarrow> dispatch_row option" where
  "dispatch_of_exec d x = find (\<lambda>r. dp_exec r = x) (dispatches d)"

definition dispatch_of_key :: "core_db \<Rightarrow> string \<Rightarrow> dispatch_row option" where
  "dispatch_of_key d k = find (\<lambda>r. dp_key r = k) (dispatches d)"

definition finalization_of_exec :: "core_db \<Rightarrow> string \<Rightarrow> fin_row option" where
  "finalization_of_exec d x = find (\<lambda>r. f_exec r = x) (finalizations d)"

definition finalization_of_key :: "core_db \<Rightarrow> string \<Rightarrow> fin_row option" where
  "finalization_of_key d k = find (\<lambda>r. f_key r = k) (finalizations d)"

definition observation_of_digest :: "core_db \<Rightarrow> string \<Rightarrow> obs_row option" where
  "observation_of_digest d g = find (\<lambda>r. ob_digest r = g) (observations d)"

definition ref_key :: "ref_row \<Rightarrow> string \<times> relation \<times> ref_type \<times> string \<times> string" where
  "ref_key r = (rr_exec r, rr_relation r, r_type (rr_ref r), r_provider (rr_ref r), r_native (rr_ref r))"

text \<open>The frozen-INPUT lookup: relation, contract, type, provider, native id, \<open>uri IS ?\<close>
  and the metadata text.\<close>

definition frozen_input :: "core_db \<Rightarrow> string \<Rightarrow> string \<Rightarrow> ref \<Rightarrow> bool" where
  "frozen_input d x c r \<longleftrightarrow> list_ex (\<lambda>row. rr_exec row = x \<and> rr_relation row = Input_rel \<and>
     rr_contract row = Some c \<and> rr_ref row = dump_ref r) (refs d)"

text \<open>The same without the contract id, as \<open>record_resource_state\<close> asks.\<close>

definition fixed_input :: "core_db \<Rightarrow> string \<Rightarrow> ref \<Rightarrow> bool" where
  "fixed_input d x r \<longleftrightarrow> list_ex (\<lambda>row. rr_exec row = x \<and> rr_relation row = Input_rel \<and>
     rr_ref row = dump_ref r) (refs d)"

section \<open>Statements\<close>

definition insert_work :: "work \<Rightarrow> core_db \<Rightarrow> exn + unit \<times> core_db" where
  "insert_work w d =
    (if find_work d (w_id w) \<noteq> None then Inl (unique_failed ''core_works.id'')
     else Inr ((), d\<lparr>works := works d @ [w\<lparr>w_meta := dump (w_meta w)\<rparr>]\<rparr>))"

definition insert_event :: "core_event \<Rightarrow> core_db \<Rightarrow> exn + unit \<times> core_db" where
  "insert_event e d =
    (if list_ex (\<lambda>f. e_id f = e_id e) (events d) then Inl (unique_failed ''core_events.id'')
     else if e_key e \<noteq> None \<and> list_ex (\<lambda>f. e_key f = e_key e) (events d)
       then Inl (unique_failed ''core_events.idempotency_key'')
     else Inr ((), d\<lparr>events := events d @ [e\<lparr>e_data := dump (e_data e)\<rparr>]\<rparr>))"

text \<open>\<open>INSERT INTO core_executions ... SELECT ... FROM core_works WHERE id = ? AND
  lifecycle = 'open'\<close>: the number of rows inserted.\<close>

definition insert_execution :: "execution \<Rightarrow> core_db \<Rightarrow> exn + nat \<times> core_db" where
  "insert_execution x d =
    (if \<not> list_ex (\<lambda>w. w_id w = x_work x \<and> w_lifecycle w = Open) (works d) then Inr (0, d)
     else if find_exec d (x_id x) \<noteq> None then Inl (unique_failed ''core_executions.id'')
     else Inr (1, d\<lparr>executions := executions d @ [x\<lparr>x_provenance := dump (x_provenance x)\<rparr>]\<rparr>))"

definition insert_ref :: "bool \<Rightarrow> ref_row \<Rightarrow> core_db \<Rightarrow> exn + nat \<times> core_db" where
  "insert_ref or_ignore r d =
    (if list_ex (\<lambda>s. ref_key s = ref_key r) (refs d)
       then (if or_ignore then Inr (0, d) else Inl (unique_failed ''core_execution_refs''))
     else if find_exec d (rr_exec r) = None then Inl foreign_key_failed
     else Inr (1, d\<lparr>refs := refs d @ [r\<lparr>rr_ref := dump_ref (rr_ref r)\<rparr>]\<rparr>))"

definition insert_dispatch :: "dispatch_row \<Rightarrow> core_db \<Rightarrow> exn + unit \<times> core_db" where
  "insert_dispatch r d =
    (if find_dispatch d (dp_id r) \<noteq> None then Inl (unique_failed ''core_dispatches.id'')
     else if dispatch_of_exec d (dp_exec r) \<noteq> None
       then Inl (unique_failed ''core_dispatches.execution_id'')
     else if dispatch_of_key d (dp_key r) \<noteq> None
       then Inl (unique_failed ''core_dispatches.idempotency_key'')
     else if find_exec d (dp_exec r) = None then Inl foreign_key_failed
     else Inr ((), d\<lparr>dispatches := dispatches d @ [r]\<rparr>))"

text \<open>The AUTOINCREMENT row id is \<open>cursor.lastrowid\<close>.\<close>

definition insert_observation ::
  "string \<Rightarrow> observation \<Rightarrow> string \<Rightarrow> string \<Rightarrow> datetime \<Rightarrow> core_db \<Rightarrow> exn + nat \<times> core_db" where
  "insert_observation x ob rd dg t d =
    (if observation_of_digest d dg \<noteq> None
       then Inl (unique_failed ''core_resource_observations.observation_digest'')
     else if find_exec d x = None then Inl foreign_key_failed
     else Inr (obs_next d, d\<lparr>observations := observations d @
       [\<lparr>ob_id = obs_next d, ob_exec = x,
         ob_obs = ob\<lparr>o_ref := dump_ref (o_ref ob), o_observer := py_strip (o_observer ob),
                    o_evidence := map_option dump_ref (o_evidence ob)\<rparr>,
         ob_ref_digest = rd, ob_digest = dg, ob_recorded = t\<rparr>],
       obs_next := Suc (obs_next d)\<rparr>))"

definition insert_finalization :: "fin_row \<Rightarrow> core_db \<Rightarrow> exn + unit \<times> core_db" where
  "insert_finalization r d =
    (if finalization_of_exec d (f_exec r) \<noteq> None
       then Inl (unique_failed ''core_execution_finalizations.execution_id'')
     else if finalization_of_key d (f_key r) \<noteq> None
       then Inl (unique_failed ''core_execution_finalizations.idempotency_key'')
     else if find_exec d (f_exec r) = None then Inl foreign_key_failed
     else Inr ((), d\<lparr>finalizations := finalizations d @ [r]\<rparr>))"

definition update_works :: "(work \<Rightarrow> bool) \<Rightarrow> (work \<Rightarrow> work) \<Rightarrow> core_db \<Rightarrow> exn + nat \<times> core_db" where
  "update_works p f d = Inr (count_where p (works d), d\<lparr>works := update_where p f (works d)\<rparr>)"

definition update_executions ::
  "(execution \<Rightarrow> bool) \<Rightarrow> (execution \<Rightarrow> execution) \<Rightarrow> core_db \<Rightarrow> exn + nat \<times> core_db" where
  "update_executions p f d =
    Inr (count_where p (executions d), d\<lparr>executions := update_where p f (executions d)\<rparr>)"

definition update_dispatches ::
  "(dispatch_row \<Rightarrow> bool) \<Rightarrow> (dispatch_row \<Rightarrow> dispatch_row) \<Rightarrow> core_db \<Rightarrow> exn + nat \<times> core_db" where
  "update_dispatches p f d =
    Inr (count_where p (dispatches d), d\<lparr>dispatches := update_where p f (dispatches d)\<rparr>)"

section \<open>Facts on the lookups\<close>

lemma find_exec_Some: "find_exec d i = Some x \<Longrightarrow> x \<in> set (executions d) \<and> x_id x = i"
  by (auto simp: find_exec_def find_Some_iff)

lemma find_work_Some: "find_work d i = Some w \<Longrightarrow> w \<in> set (works d) \<and> w_id w = i"
  by (auto simp: find_work_def find_Some_iff)

end
