(* ===== verification/Json_Parse.thy ===== *)
theory Json_Parse
  imports Json_Text "HOL-Library.AList"
begin

text \<open>
  \<open>json.loads\<close> on the texts the code reads back, and its round trip with the compact
  encoder. The reader covers the JSON grammar with integers; a number with a fraction or an
  exponent, and a \<open>\u\<close> escape above \<open>00ff\<close>, are outside the string and value
  model and read as malformed. The first argument of the mutually recursive readers is fuel:
  the length of the text is enough, since every call consumes a character.
\<close>

definition json_space :: "char \<Rightarrow> bool" where
  "json_space c \<longleftrightarrow> code_of c \<in> {9, 10, 13, 32}"

definition skip_ws :: "string \<Rightarrow> string" where
  "skip_ws s = dropWhile json_space s"

definition is_hex :: "char \<Rightarrow> bool" where
  "is_hex c \<longleftrightarrow> is_digit c \<or> 97 \<le> code_of c \<and> code_of c \<le> 102 \<or> 65 \<le> code_of c \<and> code_of c \<le> 70"

definition hex_value :: "char \<Rightarrow> nat" where
  "hex_value c = (if code_of c < 58 then code_of c - 48
     else if code_of c < 71 then code_of c - 55 else code_of c - 87)"

text \<open>One character of a string literal.\<close>

definition read_char :: "string \<Rightarrow> (char \<times> string) option" where
  "read_char s = (case s of
     [] \<Rightarrow> None
   | c # cs \<Rightarrow>
       if code_of c < 32 then None
       else if code_of c \<noteq> 92 then Some (c, cs)
       else (case cs of
           [] \<Rightarrow> None
         | e # r \<Rightarrow>
             if code_of e \<in> {34, 92, 47} then Some (e, r)
             else if e = CHR ''b'' then Some (CHR 0x08, r)
             else if e = CHR ''t'' then Some (CHR 0x09, r)
             else if e = CHR ''n'' then Some (CHR 0x0A, r)
             else if e = CHR ''f'' then Some (CHR 0x0C, r)
             else if e = CHR ''r'' then Some (CHR 0x0D, r)
             else if e = CHR ''u'' then
               (case r of
                  z # y # h # l # q \<Rightarrow>
                    if z = CHR ''0'' \<and> y = CHR ''0'' \<and> is_hex h \<and> is_hex l
                      then Some (char_of (16 * hex_value h + hex_value l), q)
                    else None
                | _ \<Rightarrow> None)
             else None))"

fun read_string :: "nat \<Rightarrow> string \<Rightarrow> (string \<times> string) option" where
  "read_string 0 s = None"
| "read_string (Suc n) s = (case s of
     [] \<Rightarrow> None
   | c # cs \<Rightarrow>
       if code_of c = 34 then Some ([], cs)
       else (case read_char s of
           None \<Rightarrow> None
         | Some (x, r) \<Rightarrow> (case read_string n r of None \<Rightarrow> None | Some (xs, q) \<Rightarrow> Some (x # xs, q))))"

definition read_literal :: "string \<Rightarrow> (string \<times> string) option" where
  "read_literal s = read_string (Suc (length s)) s"

definition digits_ok :: "string \<Rightarrow> bool" where
  "digits_ok ds \<longleftrightarrow> ds \<noteq> [] \<and> (hd ds = CHR ''0'' \<longrightarrow> length ds = 1)"

definition read_number :: "string \<Rightarrow> (json \<times> string) option" where
  "read_number s =
    (let neg = (s \<noteq> [] \<and> hd s = CHR ''-''); u = (if neg then tl s else s);
         ds = takeWhile is_digit u; r = dropWhile is_digit u
     in if \<not> digits_ok ds \<or> r \<noteq> [] \<and> hd r \<in> set ''.eE'' then None
        else Some (JInt (if neg then - int (read_nat 0 ds) else int (read_nat 0 ds)), r))"

definition read_word :: "string \<Rightarrow> json \<Rightarrow> string \<Rightarrow> (json \<times> string) option" where
  "read_word w j s = (if take (length w) s = w then Some (j, drop (length w) s) else None)"

text \<open>A Python dict built from the members in order: a repeated key keeps its last value.\<close>

definition members_dict :: "(string \<times> json) list \<Rightarrow> (string \<times> json) list" where
  "members_dict kvs = fold (\<lambda>(k, v) m. AList.update k v m) kvs []"

fun read_value :: "nat \<Rightarrow> string \<Rightarrow> (json \<times> string) option"
  and read_items :: "nat \<Rightarrow> string \<Rightarrow> (json list \<times> string) option"
  and read_members :: "nat \<Rightarrow> string \<Rightarrow> ((string \<times> json) list \<times> string) option" where
  "read_value 0 s = None"
| "read_value (Suc n) s = (case skip_ws s of
     [] \<Rightarrow> None
   | c # cs \<Rightarrow>
       if code_of c = 34 then
         (case read_literal cs of None \<Rightarrow> None | Some (x, r) \<Rightarrow> Some (JStr x, r))
       else if c = CHR ''['' then
         (case skip_ws cs of
            [] \<Rightarrow> None
          | e # r \<Rightarrow> if e = CHR '']'' then Some (JList [], r)
              else (case read_items n (e # r) of None \<Rightarrow> None | Some (xs, q) \<Rightarrow> Some (JList xs, q)))
       else if c = CHR ''{'' then
         (case skip_ws cs of
            [] \<Rightarrow> None
          | e # r \<Rightarrow> if e = CHR ''}'' then Some (JDict [], r)
              else (case read_members n (e # r) of None \<Rightarrow> None
                    | Some (kvs, q) \<Rightarrow> Some (JDict (members_dict kvs), q)))
       else if c = CHR ''n'' then read_word ''null'' JNull (c # cs)
       else if c = CHR ''t'' then read_word ''true'' (JBool True) (c # cs)
       else if c = CHR ''f'' then read_word ''false'' (JBool False) (c # cs)
       else read_number (c # cs))"
| "read_items 0 s = None"
| "read_items (Suc n) s = (case read_value n s of
     None \<Rightarrow> None
   | Some (x, r) \<Rightarrow> (case skip_ws r of
         [] \<Rightarrow> None
       | e # q \<Rightarrow> if e = CHR '']'' then Some ([x], q)
           else if e = CHR '','' then
             (case read_items n q of None \<Rightarrow> None | Some (xs, p) \<Rightarrow> Some (x # xs, p))
           else None))"
| "read_members 0 s = None"
| "read_members (Suc n) s = (case skip_ws s of
     [] \<Rightarrow> None
   | c # cs \<Rightarrow> if code_of c \<noteq> 34 then None
       else (case read_literal cs of
           None \<Rightarrow> None
         | Some (k, r) \<Rightarrow> (case skip_ws r of
               [] \<Rightarrow> None
             | e # q \<Rightarrow> if e \<noteq> CHR '':'' then None
                 else (case read_value n q of
                     None \<Rightarrow> None
                   | Some (v, p) \<Rightarrow> (case skip_ws p of
                         [] \<Rightarrow> None
                       | f # t \<Rightarrow> if f = CHR ''}'' then Some ([(k, v)], t)
                           else if f = CHR '','' then
                             (case read_members n t of None \<Rightarrow> None
                              | Some (kvs, u) \<Rightarrow> Some ((k, v) # kvs, u))
                           else None)))))"

definition json_loads :: "string \<Rightarrow> json option" where
  "json_loads s = (case read_value (Suc (2 * length s)) s of
     None \<Rightarrow> None
   | Some (j, r) \<Rightarrow> if skip_ws r = [] then Some j else None)"

section \<open>Round trip\<close>

lemma hex_value_digit: "n < 16 \<Longrightarrow> hex_value (hex_digit n) = n \<and> is_hex (hex_digit n)"
  by (auto simp: hex_value_def is_hex_def hex_digit_def code_of_def is_digit_def)

lemma char_of_code: "code_of c = n \<Longrightarrow> c = char_of n"
  by (auto simp: code_of_def)

lemma read_char_plain: "32 \<le> code_of c \<Longrightarrow> code_of c \<noteq> 92 \<Longrightarrow> read_char (c # u) = Some (c, u)"
  by (simp add: read_char_def)

lemma read_char_escape:
  "read_char (CHR 0x5C # CHR 0x22 # u) = Some (CHR 0x22, u)"
  "read_char (CHR 0x5C # CHR 0x5C # u) = Some (CHR 0x5C, u)"
  "read_char (CHR 0x5C # CHR ''b'' # u) = Some (CHR 0x08, u)"
  "read_char (CHR 0x5C # CHR ''t'' # u) = Some (CHR 0x09, u)"
  "read_char (CHR 0x5C # CHR ''n'' # u) = Some (CHR 0x0A, u)"
  "read_char (CHR 0x5C # CHR ''f'' # u) = Some (CHR 0x0C, u)"
  "read_char (CHR 0x5C # CHR ''r'' # u) = Some (CHR 0x0D, u)"
  by (simp_all add: read_char_def code_of_def)

lemma read_char_hex:
  "n < 256 \<Longrightarrow>
     read_char (CHR 0x5C # CHR ''u'' # CHR ''0'' # CHR ''0'' # hex2 n @ u) = Some (char_of n, u)"
  by (simp add: read_char_def hex2_def hex_value_digit code_of_def)

lemma read_json_char: "read_char (json_char False c @ u) = Some (c, u)"
proof -
  consider (special) "code_of c \<in> {34, 92, 8, 9, 10, 12, 13}"
    | (control) "code_of c \<notin> {34, 92, 8, 9, 10, 12, 13}" "code_of c < 32"
    | (plain) "code_of c \<notin> {34, 92, 8, 9, 10, 12, 13}" "\<not> code_of c < 32"
    by blast
  then show ?thesis
  proof cases
    case special
    then have "c \<in> {CHR 0x22, CHR 0x5C, CHR 0x08, CHR 0x09, CHR 0x0A, CHR 0x0C, CHR 0x0D}"
      by (auto simp: char_of_eq_iff dest!: char_of_code)
    then show ?thesis by (auto simp: json_char_def code_of_def read_char_escape)
  next
    case control
    then have "json_char False c @ u = CHR 0x5C # CHR ''u'' # CHR ''0'' # CHR ''0'' # hex2 (code_of c) @ u"
      by (simp add: json_char_def)
    also have "read_char \<dots> = Some (char_of (code_of c), u)"
      by (rule read_char_hex [OF code_of_less])
    finally show ?thesis by (simp add: char_of_code [OF refl, symmetric])
  next
    case plain
    then show ?thesis by (simp add: json_char_def read_char_plain)
  qed
qed

lemma json_char_code: "json_char False c = d # ds \<Longrightarrow> code_of d \<noteq> 34"
  by (auto simp: json_char_def code_of_def split: if_splits)

lemma json_char_length: "1 \<le> length (json_char a c)"
  by (simp add: json_char_def)

lemma read_json_body:
  "length (concat (map (json_char False) s)) < n \<Longrightarrow>
     read_string n (concat (map (json_char False) s) @ CHR 0x22 # r) = Some (s, r)"
proof (induction s arbitrary: n)
  case Nil
  then show ?case by (cases n) (auto simp: code_of_def)
next
  case (Cons c s)
  obtain d ds where d: "json_char False c = d # ds" by (cases "json_char False c") auto
  from Cons.prems obtain m where n: "n = Suc m" by (cases n) auto
  from Cons.prems n json_char_length [of False c]
  have "length (concat (map (json_char False) s)) < m" by simp
  from Cons.IH [OF this] read_json_char [of c "concat (map (json_char False) s) @ CHR 0x22 # r"]
    d json_char_code [OF d] n
  show ?case by simp
qed

lemma skip_ws_Cons: "\<not> json_space c \<Longrightarrow> skip_ws (c # cs) = c # cs"
  by (simp add: skip_ws_def)

lemma skip_ws_enc: "skip_ws (enc j @ r) = enc j @ r"
proof -
  obtain c cs where c: "enc j = c # cs" "c \<in> start_of j" using enc_start by blast
  then have "\<not> json_space c"
    by (cases j) (auto simp: start_of_def json_space_def code_of_def is_digit_def split: if_splits)
  with c show ?thesis by (simp add: skip_ws_Cons)
qed

lemma skip_ws_char [simp]:
  "skip_ws (CHR '','' # r) = CHR '','' # r" "skip_ws (CHR '']'' # r) = CHR '']'' # r"
  "skip_ws (CHR ''}'' # r) = CHR ''}'' # r" "skip_ws (CHR '':'' # r) = CHR '':'' # r"
  "skip_ws (CHR 0x22 # r) = CHR 0x22 # r" "skip_ws [] = []"
  by (simp_all add: skip_ws_def json_space_def code_of_def)

text \<open>A JSON value as Python holds it: the keys of every object are distinct.\<close>

fun json_ok :: "json \<Rightarrow> bool" where
  "json_ok (JList xs) = (\<forall>x \<in> set xs. json_ok x)"
| "json_ok (JDict kvs) = (distinct (map fst kvs) \<and> (\<forall>kv \<in> set kvs. json_ok (snd kv)))"
| "json_ok _ = True"

lemma fold_update_distinct:
  "distinct (map fst (acc @ kvs)) \<Longrightarrow> fold (\<lambda>(k, v) m. AList.update k v m) kvs acc = acc @ kvs"
proof (induction kvs arbitrary: acc)
  case (Cons kv kvs)
  obtain k v where kv: "kv = (k, v)" by (cases kv) auto
  with Cons.prems have "k \<notin> fst ` set acc" by auto
  then have "AList.update k v acc = acc @ [(k, v)]"
    by (induction acc) auto
  with Cons kv show ?case by simp
qed simp

lemma members_dict_distinct: "distinct (map fst kvs) \<Longrightarrow> members_dict kvs = kvs"
  unfolding members_dict_def by (subst fold_update_distinct) auto

lemma read_json_string [simp]:
  "read_literal (concat (map (json_char False) s) @ CHR 0x22 # r) = Some (s, r)"
  unfolding read_literal_def by (rule read_json_body) simp

lemma takeWhile_show_nat:
  "no_digit r \<Longrightarrow> takeWhile is_digit (show_nat m @ r) = show_nat m"
  "no_digit r \<Longrightarrow> dropWhile is_digit (show_nat m @ r) = r"
  using show_nat_digits [of _ m]
  by (cases r; auto simp: no_digit_def takeWhile_append dropWhile_append)+

lemma show_nat_leading: "hd (show_nat n) = CHR ''0'' \<Longrightarrow> n = 0"
proof (induction n rule: show_nat.induct)
  case (1 n)
  show ?case
  proof (cases "n < 10")
    case True
    with "1.prems" code_of_digit [of n] show ?thesis
      by (subst (asm) show_nat.simps) (auto simp: code_of_def)
  next
    case False
    with "1.prems" have "hd (show_nat (n div 10)) = CHR ''0''"
      by (subst (asm) show_nat.simps) simp
    with 1 False have "n div 10 = 0" by blast
    with False show ?thesis by simp
  qed
qed

lemma digits_show_nat: "digits_ok (show_nat n)"
  using show_nat_leading [of n] by (auto simp: digits_ok_def show_nat.simps [of 0])

lemma closes_number_end: "closes r \<Longrightarrow> no_digit r \<and> \<not> (r \<noteq> [] \<and> hd r \<in> set ''.eE'')"
  by (auto simp: closes_no_digit) (auto simp: closes_def)

lemma read_number_show:
  assumes "closes r"
  shows "read_number (show_int i @ r) = Some (JInt i, r)"
proof (cases "i < 0")
  case True
  then show ?thesis
    using closes_number_end [OF assms]
    by (simp add: read_number_def show_int_def Let_def takeWhile_show_nat digits_show_nat
        read_show_nat del: dropWhile_eq_Nil_conv)
next
  case False
  have "is_digit (hd (show_nat (nat i)))" by (rule show_nat_hd)
  then have "hd (show_nat (nat i) @ r) \<noteq> CHR ''-''" by (auto simp: is_digit_def code_of_def)
  with False show ?thesis
    using closes_number_end [OF assms]
    by (simp add: read_number_def show_int_def Let_def takeWhile_show_nat digits_show_nat
        read_show_nat del: dropWhile_eq_Nil_conv)
qed

definition readable :: "json \<Rightarrow> bool" where
  "readable j \<longleftrightarrow> (\<forall>n r. closes r \<longrightarrow> 2 * length (enc j) \<le> n \<longrightarrow> read_value n (enc j @ r) = Some (j, r))"

lemma readableD: "readable j \<Longrightarrow> closes r \<Longrightarrow> 2 * length (enc j) \<le> n \<Longrightarrow>
    read_value n (enc j @ r) = Some (j, r)"
  by (simp add: readable_def)

lemma read_items_enc:
  "\<forall>x \<in> set xs. readable x \<Longrightarrow> xs \<noteq> [] \<Longrightarrow> 1 + 2 * length (enc_items xs) \<le> n \<Longrightarrow>
     read_items n (enc_items xs @ CHR '']'' # r) = Some (xs, r)"
proof (induction xs arbitrary: n)
  case (Cons x xs)
  from Cons.prems obtain m where n: "n = Suc m" by (cases n) auto
  show ?case
  proof (cases "xs = []")
    case True
    with Cons.prems n readableD [of x "CHR '']'' # r" m] show ?thesis
      by (simp add: closes_def)
  next
    case False
    with Cons.prems n have "read_items m (enc_items xs @ CHR '']'' # r) = Some (xs, r)"
      by (intro Cons.IH) auto
    with Cons.prems n False readableD [of x "CHR '','' # enc_items xs @ CHR '']'' # r" m]
    show ?thesis by (simp add: closes_def)
  qed
qed simp

lemma read_members_enc:
  "\<forall>kv \<in> set kvs. readable (snd kv) \<Longrightarrow> kvs \<noteq> [] \<Longrightarrow> 1 + 2 * length (enc_members kvs) \<le> n \<Longrightarrow>
     read_members n (enc_members kvs @ CHR ''}'' # r) = Some (kvs, r)"
proof (induction kvs arbitrary: n)
  case (Cons kv kvs)
  obtain k v where kv: "kv = (k, v)" by (cases kv) auto
  from Cons.prems obtain m where n: "n = Suc m" by (cases n) auto
  let ?tail = "if kvs = [] then CHR ''}'' # r else CHR '','' # enc_members kvs @ CHR ''}'' # r"
  have v: "read_value m (enc v @ ?tail) = Some (v, ?tail)"
    using Cons.prems kv n by (intro readableD) (auto simp: closes_def json_str_def)
  have whole: "enc_members (kv # kvs) @ CHR ''}'' # r =
      CHR 0x22 # concat (map (json_char False) k) @ CHR 0x22 # CHR '':'' # enc v @ ?tail"
    by (simp add: kv json_str_def)
  show ?case
  proof (cases "kvs = []")
    case True
    with v show ?thesis
      unfolding whole n by (simp add: code_of_def kv)
  next
    case False
    with Cons.prems n kv have "read_members m (enc_members kvs @ CHR ''}'' # r) = Some (kvs, r)"
      by (intro Cons.IH) (auto simp: json_str_def)
    with False v show ?thesis
      unfolding whole n by (simp add: code_of_def kv)
  qed
qed simp

lemma enc_members_start: "kvs \<noteq> [] \<Longrightarrow> \<exists>cs. enc_members kvs @ r = CHR 0x22 # cs"
  by (cases kvs) (auto simp: json_str_def)

lemma read_value_word:
  "0 < n \<Longrightarrow> read_value n (CHR ''n'' # CHR ''u'' # CHR ''l'' # CHR ''l'' # r) = Some (JNull, r)"
  "0 < n \<Longrightarrow> read_value n (CHR ''t'' # CHR ''r'' # CHR ''u'' # CHR ''e'' # r) = Some (JBool True, r)"
  "0 < n \<Longrightarrow> read_value n (CHR ''f'' # CHR ''a'' # CHR ''l'' # CHR ''s'' # CHR ''e'' # r)
     = Some (JBool False, r)"
  by (cases n; simp add: skip_ws_Cons json_space_def code_of_def read_word_def)+

lemma readable_all: "json_ok j \<Longrightarrow> readable j"
proof (induction j)
  case (JStr s)
  show ?case unfolding readable_def
  proof (intro allI impI)
    fix n r assume "2 * length (enc (JStr s)) \<le> n"
    then obtain m where "n = Suc m" by (cases n) (auto simp: json_str_def)
    then show "read_value n (enc (JStr s) @ r) = Some (JStr s, r)"
      by (simp add: json_str_def code_of_def)
  qed
next
  case (JInt i)
  show ?case unfolding readable_def
  proof (intro allI impI)
    fix n r assume r: "closes r" and "2 * length (enc (JInt i)) \<le> n"
    then obtain m where n: "n = Suc m" by (cases n) (auto simp: show_int_def split: if_splits)
    obtain c cs where c: "enc (JInt i) = c # cs" "c \<in> start_of (JInt i)" using enc_start by blast
    then have "\<not> json_space c" "code_of c \<noteq> 34" "c \<notin> set ''[{ntf''"
      by (auto simp: start_of_def json_space_def is_digit_def code_of_def)
    then have "read_value (Suc m) (c # cs @ r) = read_number (c # cs @ r)"
      by (simp add: skip_ws_Cons)
    with c n read_number_show [OF r, of i]
    show "read_value n (enc (JInt i) @ r) = Some (JInt i, r)" by simp
  qed
next
  case (JList xs)
  show ?case unfolding readable_def
  proof (intro allI impI)
    fix n r assume r: "closes r" and n: "2 * length (enc (JList xs)) \<le> n"
    then obtain m where m: "n = Suc m" by (cases n) auto
    show "read_value n (enc (JList xs) @ r) = Some (JList xs, r)"
    proof (cases xs)
      case Nil
      with m show ?thesis by (simp add: skip_ws_Cons json_space_def code_of_def)
    next
      case (Cons y ys)
      then have first: "skip_ws (enc_items xs @ CHR '']'' # r) = enc_items xs @ CHR '']'' # r"
        using skip_ws_enc [of y] by simp
      obtain c cs where c: "enc y = c # cs" "c \<in> start_of y" using enc_start by blast
      have "c \<noteq> CHR '']''"
        using c by (cases y) (auto simp: start_of_def is_digit_def code_of_def split: if_splits)
      moreover have "read_items m (enc_items xs @ CHR '']'' # r) = Some (xs, r)"
        using JList n m Cons by (intro read_items_enc) auto
      ultimately show ?thesis using m first c Cons
        by (simp add: skip_ws_Cons json_space_def code_of_def)
    qed
  qed
next
  case (JDict kvs)
  show ?case unfolding readable_def
  proof (intro allI impI)
    fix n r assume r: "closes r" and n: "2 * length (enc (JDict kvs)) \<le> n"
    then obtain m where m: "n = Suc m" by (cases n) auto
    show "read_value n (enc (JDict kvs) @ r) = Some (JDict kvs, r)"
    proof (cases "kvs = []")
      case True
      with m show ?thesis by (simp add: skip_ws_Cons json_space_def code_of_def members_dict_def)
    next
      case False
      obtain cs where cs: "enc_members kvs @ CHR ''}'' # r = CHR 0x22 # cs"
        using enc_members_start [OF False] by blast
      have "\<forall>kv \<in> set kvs. readable (snd kv)"
        using JDict by (metis json_ok.simps(2) prod.collapse snds.intros)
      then have "read_members m (enc_members kvs @ CHR ''}'' # r) = Some (kvs, r)"
        using n m False by (intro read_members_enc) auto
      with JDict.prems m cs show ?thesis
        by (simp add: skip_ws_Cons json_space_def code_of_def members_dict_distinct)
    qed
  qed
next
  case JNull
  show ?case unfolding readable_def by (simp add: read_value_word)
next
  case (JBool b)
  show ?case unfolding readable_def by (simp add: read_value_word)
qed

theorem json_loads_enc: "json_ok j \<Longrightarrow> json_loads (enc j) = Some j"
  using readableD [OF readable_all, of j "[]" "Suc (2 * length (enc j))"]
  by (simp add: json_loads_def closes_def)

lemma json_ok_sorted: "json_ok j \<Longrightarrow> json_ok (json_sorted j)"
proof (induction j)
  case (JDict kvs)
  have keys: "map fst (json_sorted_members kvs) = map fst kvs"
    by (simp add: json_sorted_members_map case_prod_beta)
  have "distinct (map fst (sort_key fst (json_sorted_members kvs)))"
    using JDict.prems unfolding keys [symmetric] json_ok.simps
    by (metis distinct_map distinct_sort set_sort)
  with JDict show ?case
    by (auto simp: json_sorted_members_map)
qed (auto simp: json_sorted_list_map)

text \<open>What the compact encoder writes is read back as the value with its keys sorted.\<close>

theorem json_loads_dumps: "json_ok j \<Longrightarrow> json_loads (dumps_compact j) = Some (json_sorted j)"
  by (simp add: dumps_compact_def json_loads_enc json_ok_sorted)

end
