(* ===== verification/Iso_Time.thy ===== *)
theory Iso_Time
  imports Json_Text
begin

text \<open>
  \<open>datetime.isoformat()\<close>: the text the code stores in its time columns and puts into
  digests. The wall clock of a \<open>datetime\<close> counts microseconds from the first instant of
  year 1 of the proleptic Gregorian calendar, the calendar of Python's \<open>datetime\<close>.
\<close>

definition days_before_year :: "nat \<Rightarrow> nat" where
  "days_before_year y = (let z = y - 1 in z * 365 + z div 4 - z div 100 + z div 400)"

definition leap_year :: "nat \<Rightarrow> bool" where
  "leap_year y \<longleftrightarrow> y mod 4 = 0 \<and> (y mod 100 \<noteq> 0 \<or> y mod 400 = 0)"

lemma days_before_year_less:
  assumes "0 < y"
  shows "days_before_year y < days_before_year (Suc y)"
proof -
  obtain z where y: "y = Suc z" using assms by (cases y) auto
  have c: "k div 100 = k div 4 div 25" for k :: nat
    by (simp add: div_mult2_eq [symmetric])
  have mono: "q - q div 25 \<le> r - r div 25" if "q \<le> r" for q r :: nat
    using that by linarith
  have arith: "z * 365 + a - b + e < Suc z * 365 + a' - b' + e'"
    if "a - b \<le> a' - b'" "b \<le> a" "b' \<le> a'" "e \<le> e'" for a b a' b' e e' :: nat
    using that by (simp add: algebra_simps) (use that in linarith)?
  have step: "z div 4 - z div 100 \<le> Suc z div 4 - Suc z div 100"
    unfolding c by (rule mono) (simp add: div_le_mono)
  have "z div 100 \<le> z div 4" "Suc z div 100 \<le> Suc z div 4" "z div 400 \<le> Suc z div 400"
    by (simp_all add: c div_le_mono)
  with step show ?thesis
    unfolding y days_before_year_def Let_def diff_Suc_1 by (intro arith)
qed

text \<open>The year of a day number (day 0 is 1 January of year 1), searched upwards from a lower
  bound.\<close>

function year_from :: "nat \<Rightarrow> nat \<Rightarrow> nat" where
  "year_from y n = (if 0 < y \<and> days_before_year (Suc y) \<le> n then year_from (Suc y) n else y)"
  by pat_completeness auto
termination
  by (relation "measure (\<lambda>(y, n). n - days_before_year y)")
     (auto dest: days_before_year_less)

declare year_from.simps [simp del]

definition year_of :: "nat \<Rightarrow> nat" where
  "year_of n = year_from (Suc (n div 366)) n"

definition month_lengths :: "nat \<Rightarrow> nat list" where
  "month_lengths y = [31, if leap_year y then 29 else 28, 31, 30, 31, 30, 31, 31, 30, 31, 30, 31]"

fun month_day :: "nat list \<Rightarrow> nat \<Rightarrow> nat \<Rightarrow> nat \<times> nat" where
  "month_day [] m d = (m, Suc d)"
| "month_day (l # ls) m d = (if d < l then (m, Suc d) else month_day ls (Suc m) (d - l))"

definition pad :: "nat \<Rightarrow> nat \<Rightarrow> string" where
  "pad w n = replicate (w - length (show_nat n)) CHR ''0'' @ show_nat n"

definition date_text :: "nat \<Rightarrow> string" where
  "date_text n = (let y = year_of n; md = month_day (month_lengths y) 1 (n - days_before_year y)
     in pad 4 y @ ''-'' @ pad 2 (fst md) @ ''-'' @ pad 2 (snd md))"

text \<open>\<open>HH:MM:SS\<close> and the fraction, which is left out when it is zero.\<close>

definition fraction_text :: "nat \<Rightarrow> string" where
  "fraction_text us = (if us = 0 then [] else ''.'' @ pad 6 us)"

definition clock_text :: "nat \<Rightarrow> string" where
  "clock_text us = (let s = us div 1000000 in
     pad 2 (s div 3600) @ '':'' @ pad 2 (s div 60 mod 60) @ '':'' @ pad 2 (s mod 60)
       @ fraction_text (us mod 1000000))"

definition offset_text :: "int \<Rightarrow> string" where
  "offset_text z = (let us = nat \<bar>z\<bar>; s = us div 1000000 in
     (if z < 0 then ''-'' else ''+'') @ pad 2 (s div 3600) @ '':'' @ pad 2 (s div 60 mod 60)
       @ (if us mod 60000000 = 0 then []
          else '':'' @ pad 2 (s mod 60) @ fraction_text (us mod 1000000)))"

definition day_us :: nat where
  "day_us = 86400000000"

definition iso_text :: "datetime \<Rightarrow> string" where
  "iso_text t = (let w = nat (dt_wall t) in
     date_text (w div day_us) @ ''T'' @ clock_text (w mod day_us) @ offset_text (dt_off t))"

end
