(* ===== verification/Core_Repository.thy ===== *)
theory Core_Repository
  imports Core_Tables Json_Parse Iso_Time
begin

text \<open>
  \<open>CoreRepository\<close> (\<open>work_core/repository.py\<close>), method by method. A method that
  opens \<open>with db.write_lock, conn:\<close> is a \<open>transaction\<close> of its statements in the
  order the code runs them; SHA-256 is the parameter \<open>H\<close> of the methods that digest.
  Reads order rows by the ISO text of their time columns, as SQLite does.
\<close>

type_synonym 'a core_prog = "(core_db, 'a) prog"

section \<open>Encodings\<close>

definition str_json :: "string option \<Rightarrow> json" where
  "str_json v = (case v of None \<Rightarrow> JNull | Some s \<Rightarrow> JStr s)"

definition dict_json :: "dict \<Rightarrow> json" where
  "dict_json m = JDict (map (\<lambda>(k, v). (k, JStr v)) m)"

definition ref_json :: "ref \<Rightarrow> json" where
  "ref_json r = JDict
     [(''type'', JStr (ref_type_value (r_type r))), (''provider'', JStr (r_provider r)),
      (''native_id'', JStr (r_native r)), (''uri'', str_json (r_uri r)),
      (''metadata'', dict_json (r_meta r))]"

text \<open>The text of a JSON column: \<open>_dump\<close>.\<close>

definition dump_text :: "dict \<Rightarrow> string" where
  "dump_text m = json_enc False '', '' '': '' (json_sorted (dict_json m))"

definition ref_identity_digest :: "(string \<Rightarrow> string) \<Rightarrow> ref \<Rightarrow> string" where
  "ref_identity_digest H r = ''sha256:'' @ H (dumps_compact (ref_json r))"

definition correlation_prefix :: string where
  "correlation_prefix = ''ref:v1:''"

definition max_correlation_length :: nat where
  "max_correlation_length = 8192"

definition serialize_correlation_ref :: "ref \<Rightarrow> exn + string" where
  "serialize_correlation_ref r =
    (let v = correlation_prefix @ dumps_compact (ref_json r) in
     if max_correlation_length < length v
       then Inl (err ValueError ''encoded Dispatch correlation exceeds bounded storage'')
     else Inr v)"

text \<open>
  Reading the payload back: \<open>payload["k"]\<close> and \<open>payload.get("k")\<close>. A value Python
  treats as false makes the \<open>Ref\<close> constructor raise. Fields that hold a true value of
  another JSON kind than the annotated string are outside the typed model; they are read here
  as a malformed payload.
\<close>

definition json_field :: "json \<Rightarrow> string \<Rightarrow> json option" where
  "json_field j k = (case j of JDict kvs \<Rightarrow> map_of kvs k | _ \<Rightarrow> None)"

definition json_false :: "json \<Rightarrow> bool" where
  "json_false j \<longleftrightarrow> j \<in> {JNull, JBool False, JInt 0, JStr [], JList [], JDict []}"

definition field_text :: "json option \<Rightarrow> string option" where
  "field_text v = (case v of None \<Rightarrow> None
     | Some j \<Rightarrow> if json_false j then Some [] else (case j of JStr s \<Rightarrow> Some s | _ \<Rightarrow> None))"

definition field_uri :: "json option \<Rightarrow> string option option" where
  "field_uri v = (case v of None \<Rightarrow> Some None | Some JNull \<Rightarrow> Some None
     | Some (JStr u) \<Rightarrow> Some (Some u) | _ \<Rightarrow> None)"

definition parse_ref_type :: "string \<Rightarrow> ref_type option" where
  "parse_ref_type s = find (\<lambda>t. ref_type_value t = s)
     [Session_ref, Workflow_ref, Run_ref, Workspace_ref, Artifact_ref]"

fun json_dict :: "(string \<times> json) list \<Rightarrow> dict option" where
  "json_dict [] = Some []"
| "json_dict ((k, v) # kvs) = (case v of
     JStr s \<Rightarrow> (case json_dict kvs of None \<Rightarrow> None | Some m \<Rightarrow> Some ((k, s) # m))
   | _ \<Rightarrow> None)"

text \<open>\<open>Ref(type, provider, native_id, uri, payload.get("metadata") or {})\<close>; \<open>None\<close> is
  an exception the caller catches.\<close>

definition build_ref ::
  "ref_type \<Rightarrow> string \<Rightarrow> string \<Rightarrow> string option \<Rightarrow> json \<Rightarrow> (exn + ref) option" where
  "build_ref ty p n u meta =
    (if json_false meta then Some (mk_ref ty p n u [])
     else (case meta of
       JDict kvs \<Rightarrow>
         if p = [] \<or> n = [] then Some (mk_ref ty p n u [])
         else if 16 < length kvs
           then Some (Inl (err InvalidRef ''metadata has more than 16 items''))
         else (case json_dict kvs of
             None \<Rightarrow> Some (Inl (err InvalidRef ''metadata must be a flat string-to-string map''))
           | Some m \<Rightarrow> Some (mk_ref ty p n u m))
     | _ \<Rightarrow> None))"

definition payload_ref :: "json \<Rightarrow> (exn + ref) option" where
  "payload_ref j =
    (case (case json_field j ''type'' of Some (JStr s) \<Rightarrow> parse_ref_type s | _ \<Rightarrow> None) of
       None \<Rightarrow> None | Some ty \<Rightarrow>
     (case field_text (json_field j ''provider'') of None \<Rightarrow> None | Some p \<Rightarrow>
     (case field_text (json_field j ''native_id'') of None \<Rightarrow> None | Some n \<Rightarrow>
     (case field_uri (json_field j ''uri'') of None \<Rightarrow> None | Some u \<Rightarrow>
      build_ref ty p n u (case json_field j ''metadata'' of None \<Rightarrow> JNull | Some m \<Rightarrow> m)))))"

text \<open>
  \<open>_parse_correlation_ref\<close>: the typed Ref, or the text itself as a legacy locator. The
  handler catches KeyError, TypeError, ValueError and JSONDecodeError; \<open>InvalidRef\<close> is
  none of these and is raised to the caller.
\<close>

definition parse_correlation_ref :: "string option \<Rightarrow> exn + ref option \<times> string option" where
  "parse_correlation_ref v =
    (case v of
       None \<Rightarrow> Inr (None, None)
     | Some s \<Rightarrow>
         if \<not> prefix correlation_prefix s then Inr (None, Some s)
         else (case json_loads (drop (length correlation_prefix) s) of
             None \<Rightarrow> Inr (None, Some s)
           | Some j \<Rightarrow> (case payload_ref j of
               None \<Rightarrow> Inr (None, Some s)
             | Some (Inl e) \<Rightarrow> Inl e
             | Some (Inr r) \<Rightarrow> Inr (Some r, None))))"

definition observation_digest :: "(string \<Rightarrow> string) \<Rightarrow> string \<Rightarrow> observation \<Rightarrow> string" where
  "observation_digest H x ob =
    (let evidence = (case o_evidence ob of None \<Rightarrow> JNull
       | Some r \<Rightarrow> JDict ([(''type'', JStr (ref_type_value (r_type r))),
           (''provider'', JStr (r_provider r)), (''native_id'', JStr (r_native r)),
           (''uri'', str_json (r_uri r))]
           @ (if r_meta r = [] then [] else [(''metadata'', dict_json (r_meta r))])))
     in ''sha256:'' @ H (dumps_compact (JDict
       [(''execution_id'', JStr x), (''contract_id'', JStr (o_contract ob)),
        (''ref'', ref_json (o_ref ob)), (''kind'', JStr (obs_kind_value (o_kind ob))),
        (''result'', JStr (obs_result_value (o_result ob))),
        (''observer_role'', JStr (observer_role_value (o_role ob))),
        (''observer_id'', JStr (py_strip (o_observer ob))),
        (''observed_at'', JStr (iso_text (o_at ob))),
        (''coverage'', JStr (coverage_value (o_coverage ob))),
        (''evidence'', evidence), (''detail'', str_json (o_detail ob))])))"

section \<open>Works\<close>

definition append_event :: "core_event \<Rightarrow> unit core_prog" where
  "append_event e = exec_sql (insert_event e)"

definition get_work :: "string \<Rightarrow> work core_prog" where
  "get_work i = pbind (fetch_row (\<lambda>d. find_work d i) (err WorkNotFound i)) (\<lambda>row. plift (mk_work row))"

definition create_work :: "work \<Rightarrow> core_event \<Rightarrow> work core_prog" where
  "create_work w e =
    pseq (transaction (pseq (exec_sql (insert_work w)) (append_event e)))
      (get_work (w_id w))"

text \<open>\<open>ORDER BY updated_at DESC, id DESC\<close>\<close>

definition list_works :: "work list core_prog" where
  "list_works =
    pbind (read_store (\<lambda>d. rev (sort_key (\<lambda>w. (iso_text (w_updated w), w_id w)) (works d))))
      (map_each (\<lambda>row. plift (mk_work row)))"

definition update_work :: "work \<Rightarrow> int \<Rightarrow> core_event \<Rightarrow> work core_prog" where
  "update_work w expected e =
    pseq (transaction
      (pbind (exec_sql (update_works (\<lambda>r. w_id r = w_id w \<and> w_version r = expected)
          (\<lambda>r. r\<lparr>w_lifecycle := w_lifecycle w, w_closure := w_closure w,
                 w_meta := dump (w_meta w), w_updated := w_updated w,
                 w_version := w_version r + 1\<rparr>))) (\<lambda>rowcount.
       pseq (raise_if (rowcount \<noteq> 1) (err ConcurrencyConflict (''work version changed: '' @ w_id w)))
         (append_event e))))
      (get_work (w_id w))"

section \<open>Executions\<close>

definition load_execution :: "execution \<Rightarrow> exn + execution" where
  "load_execution x = (case reload_projection (x_projection x) of Inl e \<Rightarrow> Inl e
     | Inr p \<Rightarrow> mk_execution (x\<lparr>x_projection := p\<rparr>))"

definition get_execution :: "string \<Rightarrow> execution core_prog" where
  "get_execution i =
    pbind (fetch_row (\<lambda>d. find_exec d i) (err ExecutionNotFound i)) (\<lambda>row. plift (load_execution row))"

definition list_executions :: "string \<Rightarrow> execution list core_prog" where
  "list_executions wid =
    pseq (get_work wid)
    (pbind (read_store (\<lambda>d. sort_key (\<lambda>x. (iso_text (x_created x), x_id x))
        (filter (\<lambda>x. x_work x = wid) (executions d))))
      (map_each (\<lambda>row. plift (load_execution row))))"

definition check_created_event :: "execution \<Rightarrow> core_event \<Rightarrow> unit core_prog" where
  "check_created_event x e =
    (case dict_get (e_data e) responsibility_intent_key of
       None \<Rightarrow> praise (err ValueError ''ExecutionCreated responsibility_intent is required'')
     | Some intent \<Rightarrow>
         pbind (plift (normalize_responsibility_intent intent)) (\<lambda>n.
           raise_if (n \<noteq> intent)
             (err ValueError ''ExecutionCreated responsibility_intent must be normalized'')))"

definition create_execution :: "execution \<Rightarrow> core_event \<Rightarrow> execution core_prog" where
  "create_execution x e =
    pseq (raise_if (e_type e \<noteq> Execution_created)
        (err ValueError ''create_execution requires an ExecutionCreated event''))
    (pseq (raise_if (e_subject e \<noteq> x_id x)
        (err ValueError ''ExecutionCreated subject must match execution id''))
    (pseq (raise_if (dict_get (e_data e) ''provider'' \<noteq> Some (x_provider x))
        (err ValueError ''ExecutionCreated provider must match execution''))
    (pseq (check_created_event x e)
    (pseq (transaction
      (pbind (exec_sql (insert_execution x)) (\<lambda>rowcount.
       if rowcount \<noteq> 1 then
         pbind (fetch_row (\<lambda>d. find_work d (x_work x)) (err WorkNotFound (x_work x))) (\<lambda>row.
           praise (err WorkNotOpen (''work is not open: '' @ x_work x @ '' (''
             @ lifecycle_value (w_lifecycle row) @ '')'')))
       else append_event e)))
      (get_execution (x_id x))))))"

definition load_event :: "core_event \<Rightarrow> exn + core_event" where
  "load_event e = mk_core_event (e_id e) (e_type e) (e_subject e) (e_at e) (e_data e) (e_key e)"

definition sorted_events :: "core_event list \<Rightarrow> core_event list" where
  "sorted_events es = sort_key (\<lambda>e. (iso_text (e_at e), e_id e)) es"

definition list_events :: "string \<Rightarrow> core_event list core_prog" where
  "list_events subj =
    pbind (read_store (\<lambda>d. sorted_events (filter (\<lambda>e. e_subject e = subj) (events d))))
      (map_each (\<lambda>row. plift (load_event row)))"

definition get_execution_responsibility_intent :: "string \<Rightarrow> string option core_prog" where
  "get_execution_responsibility_intent i =
    pseq (get_execution i)
    (pbind (read_store (\<lambda>d. sorted_events
        (filter (\<lambda>e. e_subject e = i \<and> e_type e = Execution_created) (events d)))) (\<lambda>rows.
     preturn (case rows of [] \<Rightarrow> None | e # _ \<Rightarrow> dict_get (e_data e) responsibility_intent_key)))"

definition update_projection :: "execution \<Rightarrow> int \<Rightarrow> core_event \<Rightarrow> execution core_prog" where
  "update_projection x expected e =
    pseq (transaction
      (pbind (exec_sql (update_executions (\<lambda>r. x_id r = x_id x \<and> x_version r = expected)
          (\<lambda>r. r\<lparr>x_projection := x_projection x, x_started := x_started x, x_ended := x_ended x,
                 x_version := x_version r + 1\<rparr>))) (\<lambda>rowcount.
       pseq (raise_if (rowcount \<noteq> 1)
           (err ConcurrencyConflict (''execution version changed: '' @ x_id x)))
         (append_event e))))
      (get_execution (x_id x))"

section \<open>Refs\<close>

definition mk_event :: "string \<Rightarrow> event_type \<Rightarrow> string \<Rightarrow> datetime \<Rightarrow> dict \<Rightarrow> string option \<Rightarrow>
    core_event core_prog" where
  "mk_event i ty subj t dat k = plift (mk_core_event i ty subj t dat k)"

text \<open>\<open>CoreEvent(f"evt_{uuid4().hex}", ...)\<close> appended at once.\<close>

definition append_new_event ::
  "event_type \<Rightarrow> string \<Rightarrow> datetime \<Rightarrow> dict \<Rightarrow> string option \<Rightarrow> unit core_prog" where
  "append_new_event ty subj t dat k =
    pbind (fresh_id ''evt'') (\<lambda>i. pbind (mk_event i ty subj t dat k) append_event)"

definition insert_ref_stmt ::
  "bool \<Rightarrow> string \<Rightarrow> relation \<Rightarrow> ref \<Rightarrow> datetime \<Rightarrow> string option \<Rightarrow> nat core_prog" where
  "insert_ref_stmt or_ignore x rel r t c =
    exec_sql (insert_ref or_ignore
      \<lparr>rr_exec = x, rr_relation = rel, rr_ref = r, rr_created = t, rr_contract = c\<rparr>)"

text \<open>\<open>contract_id or event.data.get("contract_id")\<close>\<close>

definition effective_contract :: "string option \<Rightarrow> core_event \<Rightarrow> string option" where
  "effective_contract c e =
    (if c \<noteq> None \<and> c \<noteq> Some [] then c else dict_get (e_data e) ''contract_id'')"

definition attach_ref ::
  "string \<Rightarrow> relation \<Rightarrow> ref \<Rightarrow> core_event \<Rightarrow> string option \<Rightarrow> unit core_prog" where
  "attach_ref x rel r e contract =
    transaction
    (pbind (fetch_row (\<lambda>d. find_exec d x) (err ExecutionNotFound x)) (\<lambda>_.
     let c = effective_contract contract e in
     pseq (if rel = Input_rel then
         pseq (raise_if (c = None \<or> c = Some []) (err ValueError ''input Ref requires contract_id''))
         (pbind (read_store (\<lambda>d. dispatch_of_exec d x)) (\<lambda>dispatched.
          raise_if (dispatched \<noteq> None)
            (err InputFrozen (''Execution INPUTs are frozen after Dispatch: '' @ x))))
       else preturn ())
     (pbind (insert_ref_stmt True x rel r (e_at e) (if rel = Input_rel then c else None)) (\<lambda>rowcount.
      if rowcount = 1 then append_event e else preturn ()))))"

definition load_ref :: "ref_row \<Rightarrow> exn + ref" where
  "load_ref row = (let r = rr_ref row in mk_ref (r_type r) (r_provider r) (r_native r) (r_uri r) (r_meta r))"

definition list_refs :: "string \<Rightarrow> relation option \<Rightarrow> ref list core_prog" where
  "list_refs x rel =
    pbind (read_store (\<lambda>d. filter (\<lambda>row. rr_exec row = x \<and>
        (case rel of None \<Rightarrow> True | Some rl \<Rightarrow> rr_relation row = rl)) (refs d)))
      (map_each (\<lambda>row. plift (load_ref row)))"

text \<open>\<open>ORDER BY created_at, type, provider, native_id\<close>\<close>

definition input_rows :: "core_db \<Rightarrow> string \<Rightarrow> ref_row list" where
  "input_rows d x = sort_key (\<lambda>row. (iso_text (rr_created row), ref_type_value (r_type (rr_ref row)),
       r_provider (rr_ref row), r_native (rr_ref row)))
     (filter (\<lambda>row. rr_exec row = x \<and> rr_relation row = Input_rel) (refs d))"

definition load_input :: "string \<Rightarrow> ref_row \<Rightarrow> exn + string \<times> ref" where
  "load_input x row =
    (case rr_contract row of
       None \<Rightarrow> Inl (err WorkCoreError (''legacy input association has no contract_id: '' @ x))
     | Some c \<Rightarrow>
         if c = [] then Inl (err WorkCoreError (''legacy input association has no contract_id: '' @ x))
         else (case load_ref row of Inl e \<Rightarrow> Inl e | Inr r \<Rightarrow> Inr (c, r)))"

definition list_input_refs :: "string \<Rightarrow> (string \<times> ref) list core_prog" where
  "list_input_refs x =
    pseq (get_execution x)
    (pbind (read_store (\<lambda>d. input_rows d x)) (map_each (\<lambda>row. plift (load_input x row))))"

section \<open>Dispatches\<close>

text \<open>The body of the loop over the frozen inputs of a Dispatch.\<close>

definition freeze_input :: "string \<Rightarrow> datetime \<Rightarrow> string \<times> ref \<Rightarrow> unit core_prog" where
  "freeze_input x t input =
    (case input of (c, r) \<Rightarrow>
      pseq (raise_if (c = []) (err ValueError ''input Ref requires contract_id''))
        (pbind (insert_ref_stmt False x Input_rel r t (Some c)) (\<lambda>_. preturn ())))"

definition create_dispatch_with_inputs ::
  "string \<Rightarrow> string \<Rightarrow> (string \<times> ref) list \<Rightarrow> string \<Rightarrow> string \<Rightarrow> core_event \<Rightarrow> unit core_prog" where
  "create_dispatch_with_inputs did x inputs digest key e =
    pseq (raise_if (digest = []) (err ValueError ''inputs_digest is required''))
    (transaction
     (pbind (fetch_row (\<lambda>d. find_exec d x) (err ExecutionNotFound x)) (\<lambda>_.
      pbind (read_store (\<lambda>d. dispatch_of_exec d x)) (\<lambda>existing.
      pseq (raise_if (existing \<noteq> None)
          (err DispatchRejected (''Execution already has a Dispatch: '' @ x)))
      (pseq (for_each (freeze_input x (e_at e)) inputs)
      (pseq (exec_sql (insert_dispatch \<lparr>dp_id = did, dp_exec = x, dp_key = key,
          dp_state = ''requested'', dp_correlation = None, dp_digest = Some digest,
          dp_created = e_at e, dp_updated = e_at e\<rparr>))
      (pbind (exec_sql (update_executions (\<lambda>r. x_id r = x)
          (\<lambda>r. r\<lparr>x_dispatched := Some (e_at e), x_version := x_version r + 1\<rparr>))) (\<lambda>_.
       append_event e))))))))"

definition get_dispatch :: "string \<Rightarrow> dispatch_row option core_prog" where
  "get_dispatch did = read_store (\<lambda>d. find_dispatch d did)"

definition get_dispatch_by_key :: "string \<Rightarrow> dispatch_row option core_prog" where
  "get_dispatch_by_key k = read_store (\<lambda>d. dispatch_of_key d k)"

definition get_dispatch_for_execution :: "string \<Rightarrow> dispatch_row option core_prog" where
  "get_dispatch_for_execution x = read_store (\<lambda>d. dispatch_of_exec d x)"

definition nonempty_item :: "string \<Rightarrow> string option \<Rightarrow> dict" where
  "nonempty_item k v = (case v of None \<Rightarrow> [] | Some s \<Rightarrow> if s = [] then [] else [(k, s)])"

definition record_dispatch_terminal ::
  "string \<Rightarrow> string \<Rightarrow> event_type \<Rightarrow> string option \<Rightarrow> string option \<Rightarrow> dict \<Rightarrow>
     dispatch_row option core_prog" where
  "record_dispatch_terminal did state ety correlation error extra =
    pbind now_local (\<lambda>now.
    transaction
    (pbind (fetch_row (\<lambda>d. find_dispatch d did)
        (err DispatchRejected (''dispatch not found: '' @ did))) (\<lambda>row.
     if dp_state row = state then preturn (Some row)
     else if dp_state row \<noteq> ''requested'' then praise (err DispatchRejected
       (''dispatch cannot transition from '' @ dp_state row @ '' to '' @ state @ '': '' @ did))
     else
       pbind (exec_sql (update_dispatches (\<lambda>r. dp_id r = did)
         (\<lambda>r. r\<lparr>dp_state := state,
               dp_correlation := (if correlation = None then dp_correlation r else correlation),
               dp_updated := now\<rparr>))) (\<lambda>_.
       pseq (append_new_event ety (dp_exec row) now
         ([(''dispatch_id'', did)] @ nonempty_item ''provider_correlation_ref'' correlation
           @ nonempty_item ''error'' error @ extra) None)
       (get_dispatch did)))))"

datatype accepted_arg = Typed start_receipt | Legacy string | No_receipt

definition record_dispatch_accepted ::
  "(string \<Rightarrow> string) \<Rightarrow> string \<Rightarrow> accepted_arg \<Rightarrow> dispatch_row option core_prog" where
  "record_dispatch_accepted H did arg =
    (case arg of
       No_receipt \<Rightarrow> record_dispatch_terminal did ''accepted'' Dispatch_accepted None None []
     | Legacy s \<Rightarrow> record_dispatch_terminal did ''accepted'' Dispatch_accepted (Some s) None []
     | Typed rc \<Rightarrow>
         pbind (case sr_correlation rc of None \<Rightarrow> preturn None
                | Some r \<Rightarrow> pbind (plift (serialize_correlation_ref r)) (\<lambda>s. preturn (Some s)))
         (\<lambda>correlation.
         pbind (case sr_support rc of
             None \<Rightarrow> praise (err AttributeError (''object has no attribute '' @ py_repr ''value''))
           | Some s \<Rightarrow> preturn s) (\<lambda>support.
         record_dispatch_terminal did ''accepted'' Dispatch_accepted correlation None
           ([(''recovery_support'', recovery_value support)]
            @ (case sr_correlation rc of None \<Rightarrow> []
               | Some r \<Rightarrow> [(''correlation_identity_digest'', ref_identity_digest H r)])))))"

definition record_dispatch_failed :: "string \<Rightarrow> string \<Rightarrow> dispatch_row option core_prog" where
  "record_dispatch_failed did error =
    pseq (raise_if (blank error) (err ValueError ''dispatch failure error is required''))
      (record_dispatch_terminal did ''failed'' Dispatch_failed None
        (Some (take 256 (py_strip error))) [])"

definition record_dispatch_ambiguous :: "string \<Rightarrow> string \<Rightarrow> dispatch_row option core_prog" where
  "record_dispatch_ambiguous did error =
    pseq (raise_if (blank error) (err ValueError ''dispatch ambiguity error is required''))
    (pbind now_local (\<lambda>now.
     transaction
     (pbind (fetch_row (\<lambda>d. find_dispatch d did)
         (err DispatchRejected (''dispatch not found: '' @ did))) (\<lambda>row.
      pseq (raise_if (dp_state row \<noteq> ''requested'') (err DispatchRejected
          (''dispatch cannot become ambiguous from '' @ dp_state row @ '': '' @ did)))
      (pseq (append_new_event Dispatch_ambiguous (dp_exec row) now
          [(''dispatch_id'', did), (''stage'', ''start''), (''error'', take 256 (py_strip error))] None)
      (pbind (exec_sql (update_dispatches (\<lambda>r. dp_id r = did) (\<lambda>r. r\<lparr>dp_updated := now\<rparr>))) (\<lambda>_.
       get_dispatch did)))))))"

text \<open>The recovery support of an accepted Dispatch, from the first accepted event of the
  ledger that names it.\<close>

definition recorded_support :: "string \<Rightarrow> core_event list \<Rightarrow> recovery_support" where
  "recorded_support did es =
    (case find (\<lambda>e. e_type e = Dispatch_accepted \<and> dict_get (e_data e) ''dispatch_id'' = Some did) es of
       None \<Rightarrow> No_recovery
     | Some e \<Rightarrow>
         (case parse_recovery (case dict_get (e_data e) ''recovery_support'' of
              None \<Rightarrow> recovery_value No_recovery | Some s \<Rightarrow> s) of
            None \<Rightarrow> No_recovery | Some s \<Rightarrow> s))"

definition get_dispatch_receipt :: "string \<Rightarrow> dispatch_receipt core_prog" where
  "get_dispatch_receipt did =
    pbind (fetch_row (\<lambda>d. find_dispatch d did)
        (err DispatchRejected (''dispatch not found: '' @ did))) (\<lambda>row.
    pbind (plift (parse_correlation_ref (dp_correlation row))) (\<lambda>parsed.
    pbind (if dp_state row = ''accepted''
        then pbind (list_events (dp_exec row)) (\<lambda>es. preturn (Some (recorded_support did es)))
        else preturn None) (\<lambda>support.
    preturn \<lparr>dr_exec = dp_exec row, dr_dispatch = dp_id row, dr_state = dp_state row,
      dr_digest = dp_digest row, dr_support = support, dr_correlation = fst parsed,
      dr_legacy = snd parsed\<rparr>)))"

section \<open>Resource states and observations\<close>

definition latest_resource_state ::
  "core_db \<Rightarrow> string \<Rightarrow> ref \<Rightarrow> string \<Rightarrow> string option" where
  "latest_resource_state d x r digest =
    (let rows = rev (sorted_events
           (filter (\<lambda>e. e_subject e = x \<and> e_type e = Projection_changed) (events d)));
         matches = (\<lambda>e. let dat = e_data e in
           dict_get dat ''observation_kind'' = Some ''resource'' \<and>
           (dict_get dat ''ref_identity_digest'' = Some digest \<or>
            dict_get dat ''ref_type'' = Some (ref_type_value (r_type r)) \<and>
            dict_get dat ''ref_provider'' = Some (r_provider r) \<and>
            dict_get dat ''ref_native_id'' = Some (r_native r) \<and>
            dict_get dat ''ref_uri'' = r_uri r \<and>
            dict_get dat ''ref_metadata'' = Some (dump_text (r_meta r))))
     in (case find matches rows of None \<Rightarrow> None | Some e \<Rightarrow> dict_get (e_data e) ''resource_state''))"

definition evidence_items :: "ref option \<Rightarrow> dict" where
  "evidence_items ev = (case ev of None \<Rightarrow> []
     | Some r \<Rightarrow> [(''evidence_type'', ref_type_value (r_type r)),
         (''evidence_provider'', r_provider r), (''evidence_native_id'', r_native r)]
         @ (case r_uri r of None \<Rightarrow> [] | Some u \<Rightarrow> [(''evidence_uri'', u)]))"

text \<open>The transaction of \<open>record_resource_state\<close>, on the stripped state.\<close>

definition commit_resource_state ::
  "(string \<Rightarrow> string) \<Rightarrow> string \<Rightarrow> ref \<Rightarrow> string \<Rightarrow> ref option \<Rightarrow> datetime \<Rightarrow> bool core_prog" where
  "commit_resource_state H x r st ev at =
    transaction
    (pseq (get_execution x)
    (pbind (read_store (\<lambda>d. fixed_input d x r)) (\<lambda>fixed.
    pseq (raise_if (\<not> fixed)
        (err ValueError (''resource observation is not a fixed INPUT Ref: '' @ x)))
    (pbind (read_store (\<lambda>d. latest_resource_state d x r (ref_identity_digest H r))) (\<lambda>latest.
     if latest = Some st then preturn False
     else pseq (append_new_event Projection_changed x at
         ([(''observation_kind'', ''resource''), (''ref_type'', ref_type_value (r_type r)),
           (''ref_provider'', r_provider r), (''ref_native_id'', r_native r),
           (''ref_identity_digest'', ref_identity_digest H r), (''resource_state'', st)]
          @ evidence_items ev) None)
       (preturn True))))))"

definition record_resource_state ::
  "(string \<Rightarrow> string) \<Rightarrow> string \<Rightarrow> ref \<Rightarrow> string \<Rightarrow> ref option \<Rightarrow> datetime option \<Rightarrow> bool core_prog" where
  "record_resource_state H x r state ev occurred =
    pseq (raise_if (blank state) (err ValueError ''resource_state must be a non-empty string''))
    (pseq (raise_if (256 < length (py_strip state))
        (err ValueError ''resource_state exceeds 256 characters''))
    (pseq (raise_if (case ev of None \<Rightarrow> False | Some v \<Rightarrow> r_type v \<noteq> Artifact_ref)
        (err ValueError ''resource evidence must be an ArtifactRef''))
    (pbind (case occurred of None \<Rightarrow> now_local | Some t \<Rightarrow> preturn t)
      (commit_resource_state H x r (py_strip state) ev))))"

definition require_frozen :: "string \<Rightarrow> observation \<Rightarrow> unit core_prog" where
  "require_frozen x ob =
    pbind (read_store (\<lambda>d. frozen_input d x (o_contract ob) (o_ref ob))) (\<lambda>fixed.
      raise_if (\<not> fixed) (err WorkCoreError
        (''resource observation does not address a frozen INPUT association: '' @ x)))"

definition append_observation ::
  "(string \<Rightarrow> string) \<Rightarrow> string \<Rightarrow> datetime \<Rightarrow> observation \<Rightarrow> (nat \<times> bool) core_prog" where
  "append_observation H x now ob =
    (let digest = observation_digest H x ob in
     pbind (read_store (\<lambda>d. observation_of_digest d digest)) (\<lambda>existing.
     case existing of
       Some row \<Rightarrow> preturn (ob_id row, False)
     | None \<Rightarrow> pbind (exec_sql (insert_observation x ob (ref_identity_digest H (o_ref ob)) digest now))
         (\<lambda>i. preturn (i, True))))"

definition record_resource_observations ::
  "(string \<Rightarrow> string) \<Rightarrow> string \<Rightarrow> observation list \<Rightarrow> datetime option \<Rightarrow> (nat \<times> bool) list core_prog" where
  "record_resource_observations H x obs recorded =
    (if obs = [] then preturn []
     else pbind (case recorded of None \<Rightarrow> now_local | Some t \<Rightarrow> preturn t) (\<lambda>now.
       transaction
       (pseq (get_execution x)
       (pseq (for_each (require_frozen x) obs)
       (map_each (append_observation H x now) obs)))))"

definition record_resource_observation ::
  "(string \<Rightarrow> string) \<Rightarrow> string \<Rightarrow> observation \<Rightarrow> datetime option \<Rightarrow> (nat \<times> bool) core_prog" where
  "record_resource_observation H x ob recorded =
    pbind (record_resource_observations H x [ob] recorded) (\<lambda>rs. preturn (hd rs))"

text \<open>Rebuilding the observation of a row, its Refs first.\<close>

definition reload_ref :: "ref \<Rightarrow> exn + ref" where
  "reload_ref r = mk_ref (r_type r) (r_provider r) (r_native r) (r_uri r) (r_meta r)"

definition load_observation :: "observation \<Rightarrow> exn + observation" where
  "load_observation ob =
    (case (case o_evidence ob of None \<Rightarrow> Inr None
           | Some v \<Rightarrow> (case reload_ref v of Inl e \<Rightarrow> Inl e | Inr v' \<Rightarrow> Inr (Some v'))) of
       Inl e \<Rightarrow> Inl e
     | Inr ev \<Rightarrow> (case reload_ref (o_ref ob) of Inl e \<Rightarrow> Inl e
         | Inr r \<Rightarrow> mk_observation (ob\<lparr>o_ref := r, o_evidence := ev\<rparr>)))"

definition list_resource_observations :: "string \<Rightarrow> observation list core_prog" where
  "list_resource_observations x =
    pseq (get_execution x)
    (pbind (read_store (\<lambda>d. sort_key ob_id (filter (\<lambda>row. ob_exec row = x) (observations d))))
      (map_each (\<lambda>row. plift (load_observation (ob_obs row)))))"

definition list_unobserved_inputs :: "(string \<Rightarrow> string) \<Rightarrow> string \<Rightarrow> (string \<times> ref) list core_prog" where
  "list_unobserved_inputs H x =
    pbind (list_input_refs x) (\<lambda>frozen.
    pbind (read_store (\<lambda>d. map ob_ref_digest (filter (\<lambda>row. ob_exec row = x) (observations d))))
      (\<lambda>observed. preturn
        (filter (\<lambda>(c, r). ref_identity_digest H r \<notin> set observed) frozen)))"

section \<open>Atomic finalization\<close>

definition attach_final_ref ::
  "string \<Rightarrow> datetime \<Rightarrow> ref \<times> relation \<times> event_type \<Rightarrow> unit core_prog" where
  "attach_final_ref x t item =
    (case item of (r, rel, ety) \<Rightarrow>
      pbind (insert_ref_stmt True x rel r t None) (\<lambda>rowcount.
        if rowcount = 1
          then append_new_event ety x t [(''type'', ref_type_value (r_type r))] None
        else preturn ()))"

definition final_refs :: "ref list \<Rightarrow> ref list \<Rightarrow> (ref \<times> relation \<times> event_type) list" where
  "final_refs native output =
    map (\<lambda>r. (r, Native_rel, Native_ref_discovered)) native
    @ map (\<lambda>r. (r, Output_rel, Ref_attached)) output"

text \<open>The terminal bundle, once the replay and conflict checks have passed.\<close>

definition commit_bundle ::
  "(string \<Rightarrow> string) \<Rightarrow> string \<Rightarrow> projection \<Rightarrow> ref list \<Rightarrow> ref list \<Rightarrow> observation list \<Rightarrow>
     string \<Rightarrow> string \<Rightarrow> datetime \<Rightarrow> execution \<Rightarrow> fin_receipt core_prog" where
  "commit_bundle H x p native output obs key digest ended row =
    pseq (for_each (attach_final_ref x ended) (final_refs native output))
    (pseq (for_each (require_frozen x) obs)
    (pseq (for_each (\<lambda>ob. pbind (append_observation H x ended ob) (\<lambda>_. preturn ())) obs)
    (pbind (exec_sql (update_executions (\<lambda>r. x_id r = x \<and> x_version r = x_version row)
        (\<lambda>r. r\<lparr>x_projection := p, x_ended := Some ended, x_version := x_version r + 1\<rparr>)))
      (\<lambda>rowcount.
     pseq (raise_if (rowcount \<noteq> 1)
         (err ConcurrencyConflict (''execution version changed: '' @ x)))
     (pseq (append_new_event Execution_terminal x ended
         [(''phase'', phase_value (p_phase p)), (''freshness'', freshness_value (p_freshness p)),
          (''bundle_digest'', digest)] None)
     (pseq (append_new_event Execution_finalized x ended [(''bundle_digest'', digest)] (Some key))
     (pseq (exec_sql (insert_finalization \<lparr>f_exec = x, f_key = key, f_digest = digest,
          f_version = x_version row + 1, f_created = ended\<rparr>))
     (preturn \<lparr>fc_exec = x, fc_key = key, fc_digest = digest,
        fc_version = x_version row + 1\<rparr>))))))))"

definition finalize_execution ::
  "(string \<Rightarrow> string) \<Rightarrow> string \<Rightarrow> projection \<Rightarrow> ref list \<Rightarrow> ref list \<Rightarrow> observation list \<Rightarrow>
     string \<Rightarrow> string \<Rightarrow> datetime \<Rightarrow> fin_receipt core_prog" where
  "finalize_execution H x p native output obs key digest ended =
    transaction
    (pbind (read_store (\<lambda>d. finalization_of_exec d x)) (\<lambda>prior.
     case prior of
       Some row \<Rightarrow>
         if f_key row = key \<and> f_digest row = digest
           then preturn \<lparr>fc_exec = x, fc_key = key, fc_digest = digest, fc_version = f_version row\<rparr>
         else praise (err FinalizationConflict (''Execution already finalized: '' @ x))
     | None \<Rightarrow>
       pbind (read_store (\<lambda>d. finalization_of_key d key)) (\<lambda>owner.
       pseq (raise_if (owner \<noteq> None) (err FinalizationConflict
           ''finalization idempotency key conflicts with another bundle''))
       (pbind (fetch_row (\<lambda>d. find_exec d x) (err ExecutionNotFound x)) (\<lambda>row.
       pseq (raise_if (p_phase (x_projection row) = Phase_terminal)
           (err FinalizationConflict (''Execution is already terminal: '' @ x)))
         (commit_bundle H x p native output obs key digest ended row))))))"

end
