(* ===== verification/Core_Service.thy ===== *)
theory Core_Service
  imports Core_Repository "HOL-Library.Option_ord"
begin

text \<open>
  The application services (\<open>work_core/services.py\<close>): \<open>WorkService\<close> and
  \<open>ExecutionService\<close> over the repository and the registry. The provider calls of a
  Dispatch are functions of what the Core passes to them; a provider that calls back into the
  Core during its own call is not modelled.
\<close>

section \<open>Small helpers\<close>

definition ref_identity ::
  "ref \<Rightarrow> string \<times> string \<times> string \<times> string option \<times> (string \<times> string) list" where
  "ref_identity r =
    (ref_type_value (r_type r), r_provider r, r_native r, r_uri r, sort (r_meta r))"

text \<open>\<open>f"{type(exc).__name__}: {exc}"[:256]\<close>\<close>

definition exn_text :: "exn \<Rightarrow> string" where
  "exn_text e = take 256 (class_name (exn_cls e) @ '': '' @ exn_msg e)"

text \<open>\<open>_dispatch_error_code\<close>: the first typed code on the cause chain, else the whole
  message when it is one.\<close>

fun chain_code :: "exn \<Rightarrow> string option" where
  "chain_code (Exn c m code cause) =
    (if (case code of None \<Rightarrow> False | Some k \<Rightarrow> typed_code_ok k) then code
     else (case cause of None \<Rightarrow> None | Some e \<Rightarrow> chain_code e))"

definition dispatch_error_code :: "exn \<Rightarrow> string option" where
  "dispatch_error_code e =
    (case chain_code e of Some k \<Rightarrow> Some k
     | None \<Rightarrow> (let m = py_strip (exn_msg e) in if typed_code_ok m then Some m else None))"

section \<open>Works\<close>

definition work_service_create :: "string \<Rightarrow> dict \<Rightarrow> work core_prog" where
  "work_service_create objective metadata =
    pbind now_utc (\<lambda>now.
    pbind (fresh_id ''work'') (\<lambda>wid.
    pbind (plift (mk_work \<lparr>w_id = wid, w_objective = objective, w_lifecycle = Open,
        w_created = now, w_updated = now, w_closure = None, w_meta = metadata,
        w_version = 0\<rparr>)) (\<lambda>w.
    pbind (fresh_id ''evt'') (\<lambda>eid.
    pbind (mk_event eid Work_created wid now [(''objective'', objective)] None) (\<lambda>e.
     create_work w e)))))"

definition complete_work :: "string \<Rightarrow> string \<Rightarrow> work core_prog" where
  "complete_work wid reason =
    pbind (get_work wid) (\<lambda>current.
    pbind now_utc (\<lambda>now.
    pbind (plift (mk_work (current\<lparr>w_lifecycle := Completed, w_closure := Some reason,
        w_updated := now\<rparr>))) (\<lambda>next.
    pbind (fresh_id ''evt'') (\<lambda>eid.
    pbind (mk_event eid Work_completed wid now [(''reason'', reason)] None) (\<lambda>e.
     update_work next (w_version current) e)))))"

definition reopen_work :: "string \<Rightarrow> string \<Rightarrow> work core_prog" where
  "reopen_work wid reason =
    pbind (get_work wid) (\<lambda>current.
    pbind now_utc (\<lambda>now.
    pbind (plift (mk_work (current\<lparr>w_lifecycle := Open, w_closure := None,
        w_updated := now\<rparr>))) (\<lambda>next.
    pbind (fresh_id ''evt'') (\<lambda>eid.
    pbind (mk_event eid Work_reopened wid now [(''reason'', reason)] None) (\<lambda>e.
     update_work next (w_version current) e)))))"

section \<open>Creating an Execution\<close>

definition execution_service_create ::
  "string \<Rightarrow> string \<Rightarrow> string \<Rightarrow> dict \<Rightarrow> execution core_prog" where
  "execution_service_create wid prov intent provenance =
    pbind now_utc (\<lambda>now.
    pbind (fresh_id ''exec'') (\<lambda>xid.
    pbind (plift (mk_projection Phase_unknown None None Stale now)) (\<lambda>p.
    pbind (plift (mk_execution \<lparr>x_id = xid, x_work = wid, x_provider = prov, x_projection = p,
        x_created = now, x_dispatched = None, x_started = None, x_ended = None,
        x_provenance = provenance, x_version = 0\<rparr>)) (\<lambda>x.
    pbind (fresh_id ''evt'') (\<lambda>eid.
    pbind (plift (execution_created_event eid xid now prov intent)) (\<lambda>e.
     create_execution x e))))))"

section \<open>Canonical inputs\<close>

text \<open>The Python values an untyped argument may hold, as far as the code tells them apart.\<close>

datatype pyobj = Py_none | Py_str string | Py_ref ref | Py_tuple "pyobj list"
  | Py_list "pyobj list" | Py_other

definition shape_input :: "pyobj \<Rightarrow> exn + string \<times> ref" where
  "shape_input item =
    (case item of
       Py_tuple [c, r] \<Rightarrow>
         (case c of
            Py_str s \<Rightarrow>
              if blank s then Inl (err ContractViolation ''input contract_id is required'')
              else (case r of Py_ref v \<Rightarrow> Inr (s, v)
                    | _ \<Rightarrow> Inl (err ContractViolation ''input must contain a Ref''))
          | _ \<Rightarrow> Inl (err ContractViolation ''input contract_id is required''))
     | _ \<Rightarrow> Inl (err ContractViolation ''each input must be a (contract_id, Ref) tuple''))"

text \<open>The loop: \<open>acc\<close> are the values so far, from which the \<open>seen\<close> dictionary is
  read.\<close>

fun shape_inputs :: "pyobj list \<Rightarrow> (string \<times> ref) list \<Rightarrow> exn + (string \<times> ref) list" where
  "shape_inputs [] acc = Inr acc"
| "shape_inputs (item # items) acc =
    (case shape_input item of Inl e \<Rightarrow> Inl e
     | Inr (c, r) \<Rightarrow>
         (case find (\<lambda>(_, s). ref_identity s = ref_identity r) acc of
            Some (c', _) \<Rightarrow>
              if c' \<noteq> c then Inl (err ContractViolation
                ''one Ref cannot use multiple contract_ids in one Execution'')
              else Inl (err ContractViolation ''duplicate input Ref'')
          | None \<Rightarrow> shape_inputs items (acc @ [(c, r)])))"

definition input_key ::
  "string \<times> ref \<Rightarrow> string \<times> string \<times> string \<times> string \<times> string option \<times> (string \<times> string) list" where
  "input_key i = (fst i, ref_identity (snd i))"

text \<open>
  Two inputs whose keys agree up to the uri, one uri \<open>None\<close> and the other a string: the
  sort compares the two uris and raises. (Which of the two type names the message puts first
  depends on the order the sort compares them in.)
\<close>

definition uri_clash :: "(string \<times> ref) list \<Rightarrow> bool" where
  "uri_clash xs \<longleftrightarrow> list_ex (\<lambda>(c, r). list_ex (\<lambda>(c', r'). c = c' \<and> r_type r = r_type r' \<and>
     r_provider r = r_provider r' \<and> r_native r = r_native r' \<and>
     r_uri r = None \<and> r_uri r' \<noteq> None) xs) xs"

definition canonicalize_input_shape :: "pyobj list \<Rightarrow> exn + (string \<times> ref) list" where
  "canonicalize_input_shape items =
    (case shape_inputs items [] of Inl e \<Rightarrow> Inl e
     | Inr xs \<Rightarrow>
         if uri_clash xs then Inl (err TypeError
           (py_repr ''<'' @ '' not supported between instances of '' @ py_repr ''NoneType'' @ '' and ''
             @ py_repr ''str''))
         else Inr (sort_key input_key xs))"

definition input_json :: "string \<times> ref \<Rightarrow> json" where
  "input_json i = JDict [(''contract_id'', JStr (fst i)),
     (''ref'', ref_json ((snd i)\<lparr>r_meta := sort (r_meta (snd i))\<rparr>))]"

definition inputs_digest :: "(string \<Rightarrow> string) \<Rightarrow> (string \<times> ref) list \<Rightarrow> string" where
  "inputs_digest H inputs = H (dumps_compact (JList (map input_json inputs)))"

section \<open>Checks against the registry and the provider\<close>

fun check_each :: "('a \<Rightarrow> exn + unit) \<Rightarrow> 'a list \<Rightarrow> exn + unit" where
  "check_each f [] = Inr ()"
| "check_each f (x # xs) = (case f x of Inl e \<Rightarrow> Inl e | Inr _ \<Rightarrow> check_each f xs)"

lemma check_each_Inr: "check_each f xs = Inr u \<longleftrightarrow> (\<forall>x \<in> set xs. f x = Inr ())"
  by (induction xs) (auto split: sum.splits)

definition validate_registered_contracts :: "registry \<Rightarrow> (string \<times> ref) list \<Rightarrow> exn + unit" where
  "validate_registered_contracts g =
    check_each (\<lambda>(c, _). case get_contract_type g c of
       Inl e \<Rightarrow> Inl (Exn ContractViolation (''unknown resource contract: '' @ c) None (Some e))
     | Inr _ \<Rightarrow> Inr ())"

definition canonicalize_inputs :: "registry \<Rightarrow> pyobj list \<Rightarrow> exn + (string \<times> ref) list" where
  "canonicalize_inputs g items =
    (case canonicalize_input_shape items of Inl e \<Rightarrow> Inl e
     | Inr xs \<Rightarrow> (case validate_registered_contracts g xs of Inl e \<Rightarrow> Inl e | Inr _ \<Rightarrow> Inr xs))"

definition count_step :: "string \<times> ref \<Rightarrow> (string \<times> int) list \<Rightarrow> (string \<times> int) list" where
  "count_step i m =
    AList.update (fst i) ((case map_of m (fst i) of None \<Rightarrow> 0 | Some n \<Rightarrow> n) + 1) m"

definition input_counts :: "(string \<times> ref) list \<Rightarrow> (string \<times> int) list" where
  "input_counts inputs = fold count_step inputs []"

definition outside :: "int \<Rightarrow> int \<times> int option \<Rightarrow> bool" where
  "outside n lim \<longleftrightarrow> n < fst lim \<or> (case snd lim of None \<Rightarrow> False | Some m \<Rightarrow> m < n)"

definition limit_exceeded :: "string \<Rightarrow> int \<Rightarrow> exn" where
  "limit_exceeded c n = err ContractViolation
    (''contract input count outside provider limit: '' @ c @ '' ('' @ show_int n @ '')'')"

definition validate_input_limits :: "exec_provider \<Rightarrow> (string \<times> ref) list \<Rightarrow> exn + unit" where
  "validate_input_limits p inputs =
    (case ep_limits p of
       None \<Rightarrow> Inl (err ContractViolation
         (''ExecutionProvider '' @ d_id (ep_descriptor p) @ '' must declare input_limits()''))
     | Some limits \<Rightarrow>
         let counts = input_counts inputs in
         (case check_each (\<lambda>(c, n). case map_of limits c of
              None \<Rightarrow> Inl (err ContractViolation
                (''ExecutionProvider does not accept contract: '' @ c))
            | Some lim \<Rightarrow> if outside n lim then Inl (limit_exceeded c n) else Inr ()) counts of
            Inl e \<Rightarrow> Inl e
          | Inr _ \<Rightarrow> check_each (\<lambda>(c, lim).
              let n = (case map_of counts c of None \<Rightarrow> 0 | Some k \<Rightarrow> k) in
              if outside n lim then Inl (limit_exceeded c n) else Inr ()) limits))"

section \<open>Resolving inputs\<close>

definition call_resolve ::
  "resource_provider \<Rightarrow> string \<Rightarrow> ref \<Rightarrow> (string \<times> string) option \<Rightarrow> exn + pyvalue" where
  "call_resolve p c r ctx =
    (case ctx of
       None \<Rightarrow> rp_resolve p c r None
     | Some _ \<Rightarrow> (case rp_resolve p c r ctx of
           Inr v \<Rightarrow> Inr v
         | Inl e \<Rightarrow> if exn_cls e = TypeError \<and> sublist ''context'' (exn_msg e)
             then rp_resolve p c r None else Inl e))"

definition resolve_input ::
  "registry \<Rightarrow> (string \<times> string) option \<Rightarrow> string \<times> ref \<Rightarrow> exn + resolved_input" where
  "resolve_input g ctx input =
    (case input of (c, r) \<Rightarrow>
     (case get_resource_provider g (r_provider r) of Inl e \<Rightarrow> Inl e | Inr p \<Rightarrow>
      if (case rp_supported p of None \<Rightarrow> True | Some cs \<Rightarrow> c \<notin> set cs)
        then Inl (err ContractViolation
          (''resource provider '' @ r_provider r @ '' does not support '' @ c))
      else (case call_resolve p c r ctx of Inl e \<Rightarrow> Inl e | Inr v \<Rightarrow>
        (case get_contract_type g c of
           Inl e \<Rightarrow> Inl (Exn ContractViolation (''unknown resource contract: '' @ c) None (Some e))
         | Inr t \<Rightarrow>
             if \<not> is_instance v t then Inl (err ContractViolation
               (''resource provider returned '' @ type_name v @ '' for '' @ c @ ''; expected ''
                 @ t_name t))
             else Inr \<lparr>ri_contract = c, ri_ref = r, ri_value = v\<rparr>))))"

fun resolve_inputs ::
  "registry \<Rightarrow> (string \<times> string) option \<Rightarrow> (string \<times> ref) list \<Rightarrow> exn + resolved_input list" where
  "resolve_inputs g ctx [] = Inr []"
| "resolve_inputs g ctx (i # is) = (case resolve_input g ctx i of Inl e \<Rightarrow> Inl e
     | Inr x \<Rightarrow> (case resolve_inputs g ctx is of Inl e \<Rightarrow> Inl e | Inr xs \<Rightarrow> Inr (x # xs)))"

definition preflight_contract_ids :: "exec_provider \<Rightarrow> exn + string list" where
  "preflight_contract_ids p =
    (case ep_preflight_decl p of
       Preflight_absent \<Rightarrow> Inr []
     | Preflight_bad \<Rightarrow>
         Inl (err ContractViolation ''preflight_contract_ids() must return frozenset[str]'')
     | Preflight_ids ids \<Rightarrow> Inr ids)"

definition input_effect :: "exec_provider \<Rightarrow> string \<Rightarrow> exn + resolution_effect" where
  "input_effect p c =
    (case ep_effect p of
       None \<Rightarrow> Inr Idempotent_materialization
     | Some f \<Rightarrow> (case f c of Inl e \<Rightarrow> Inl e
         | Inr raw \<Rightarrow> (case parse_effect raw of
             None \<Rightarrow> Inl (err ContractViolation
               (''invalid resolution effect for '' @ c @ '': '' @ py_repr raw))
           | Some ef \<Rightarrow> Inr ef)))"

fun partition_inputs ::
  "exec_provider \<Rightarrow> string list \<Rightarrow> (string \<times> ref) list \<Rightarrow>
     exn + (string \<times> ref) list \<times> (string \<times> ref) list" where
  "partition_inputs p pre [] = Inr ([], [])"
| "partition_inputs p pre (i # is) =
    (case input_effect p (fst i) of Inl e \<Rightarrow> Inl e
     | Inr ef \<Rightarrow>
         if fst i \<in> set pre \<and> ef \<noteq> Pure_effect
           then Inl (err ContractViolation
             (''preflight contract must have pure resolution: '' @ fst i))
         else (case partition_inputs p pre is of Inl e \<Rightarrow> Inl e
             | Inr (early, late) \<Rightarrow>
                 if fst i \<in> set pre then Inr (i # early, late) else Inr (early, i # late)))"

definition run_preflight :: "exec_provider \<Rightarrow> string list \<Rightarrow> preflight_request \<Rightarrow> exn + unit" where
  "run_preflight p pre q =
    (if pre = [] then Inr ()
     else (case ep_preflight p of
         None \<Rightarrow> Inl (err ContractViolation
           ''ExecutionProvider declares preflight inputs but has no preflight()'')
       | Some f \<Rightarrow> f q))"

definition item_key :: "resolved_input \<Rightarrow>
    string \<times> string \<times> string \<times> string \<times> string option \<times> (string \<times> string) list" where
  "item_key it = (ri_contract it, ref_identity (ri_ref it))"

text \<open>The resolved inputs back in canonical order; a later entry of \<open>by_ref\<close> replaces an
  earlier one.\<close>

fun in_order :: "(string \<times> ref) list \<Rightarrow> resolved_input list \<Rightarrow> exn + resolved_input list" where
  "in_order [] items = Inr []"
| "in_order (i # is) items =
    (case find (\<lambda>it. item_key it = input_key i) (rev items) of
       None \<Rightarrow> Inl (err KeyError (fst i))
     | Some it \<Rightarrow> (case in_order is items of Inl e \<Rightarrow> Inl e | Inr xs \<Rightarrow> Inr (it # xs)))"

text \<open>The first \<open>try\<close> block of \<open>dispatch_execution\<close>.\<close>

definition prepare_start ::
  "registry \<Rightarrow> exec_provider \<Rightarrow> string \<Rightarrow> string \<Rightarrow> string \<Rightarrow> (string \<times> ref) list \<Rightarrow>
     exn + start_request" where
  "prepare_start g p x did digest canonical =
    (case preflight_contract_ids p of Inl e \<Rightarrow> Inl e | Inr pre \<Rightarrow>
    (case partition_inputs p pre canonical of Inl e \<Rightarrow> Inl e | Inr (early, late) \<Rightarrow>
    (case resolve_inputs g (Some (x, did)) early of Inl e \<Rightarrow> Inl e | Inr resolved_early \<Rightarrow>
    (case run_preflight p pre \<lparr>pq_exec = x, pq_dispatch = did, pq_digest = digest,
        pq_exact = canonical, pq_resolved = resolved_early\<rparr> of Inl e \<Rightarrow> Inl e | Inr _ \<Rightarrow>
    (case resolve_inputs g (Some (x, did)) late of Inl e \<Rightarrow> Inl e | Inr resolved_late \<Rightarrow>
    (case in_order canonical (resolved_early @ resolved_late) of Inl e \<Rightarrow> Inl e | Inr items \<Rightarrow>
      Inr \<lparr>sq_exec = x, sq_dispatch = did, sq_digest = digest, sq_resolved = items\<rparr>))))))"

definition validate_start_receipt ::
  "exec_provider \<Rightarrow> start_request \<Rightarrow> start_result \<Rightarrow> exn + start_receipt" where
  "validate_start_receipt p q res =
    (case res of
       Not_a_receipt \<Rightarrow>
         Inl (err InvalidStartReceipt ''provider.start() must return ExecutionStartReceipt'')
     | Receipt rc \<Rightarrow>
         if sr_exec rc \<noteq> sq_exec q \<or> sr_dispatch rc \<noteq> sq_dispatch q \<or> sr_digest rc \<noteq> sq_digest q
           then Inl (err InvalidStartReceipt ''start receipt identity does not match request'')
         else if sr_support rc = None
           then Inl (err InvalidStartReceipt ''start receipt recovery_support is invalid'')
         else if sr_support rc \<noteq> Some No_recovery \<and> sr_correlation rc = None
           then Inl (err InvalidStartReceipt ''recoverable receipt requires correlation_ref'')
         else if (case sr_correlation rc of None \<Rightarrow> False
                  | Some r \<Rightarrow> r_provider r \<noteq> d_id (ep_descriptor p))
           then Inl (err InvalidStartReceipt
             ''receipt correlation Ref must belong to ExecutionProvider'')
         else Inr rc)"

text \<open>The second \<open>try\<close> block: \<open>provider.start\<close> and the receipt check.\<close>

definition start_provider :: "exec_provider \<Rightarrow> start_request \<Rightarrow> exn + start_receipt" where
  "start_provider p q = (case ep_start p q of Inl e \<Rightarrow> Inl e
     | Inr res \<Rightarrow> validate_start_receipt p q res)"

section \<open>Dispatch\<close>

definition recorded_dispatch_error :: "string \<Rightarrow> string \<Rightarrow> string option core_prog" where
  "recorded_dispatch_error did x =
    pbind (list_events x) (\<lambda>es. preturn
      (case find (\<lambda>e. e_type e = Dispatch_failed \<and> dict_get (e_data e) ''dispatch_id'' = Some did) es of
         None \<Rightarrow> None | Some e \<Rightarrow> dict_get (e_data e) ''error''))"

definition or_unknown :: "string option \<Rightarrow> string" where
  "or_unknown v = (case v of None \<Rightarrow> ''unknown error'' | Some s \<Rightarrow> if s = [] then ''unknown error'' else s)"

definition replay_dispatch ::
  "string \<Rightarrow> string \<Rightarrow> dispatch_row \<Rightarrow> dispatch_receipt core_prog" where
  "replay_dispatch x digest row =
    pseq (raise_if (dp_exec row \<noteq> x)
        (err DispatchRejected ''dispatch idempotency key belongs to another execution''))
    (pseq (raise_if (dp_digest row \<noteq> Some digest)
        (err DispatchRejected ''dispatch idempotency key was reused with different inputs''))
    (if dp_state row = ''accepted'' then get_dispatch_receipt (dp_id row)
     else if dp_state row = ''failed'' then
       pbind (recorded_dispatch_error (dp_id row) x) (\<lambda>recorded.
         praise (err DispatchFailed (''Dispatch already failed for '' @ x @ '': '' @ or_unknown recorded)))
     else praise (err DispatchAmbiguous (''Dispatch '' @ dp_id row @ '' for '' @ x @ '' is still ''
       @ [CHR 0x27] @ dp_state row @ [CHR 0x27]
       @ ''; whether provider.start produced side effects cannot be proven from Core''))))"

definition fail_dispatch :: "string \<Rightarrow> string \<Rightarrow> exn \<Rightarrow> 'a core_prog" where
  "fail_dispatch x did e =
    pseq (record_dispatch_failed did (exn_text e))
      (praise (Exn DispatchFailed (''Execution Dispatch failed for '' @ x @ '': '' @ exn_text e)
        (dispatch_error_code e) (Some e)))"

definition ambiguous_dispatch :: "string \<Rightarrow> string \<Rightarrow> exn \<Rightarrow> 'a core_prog" where
  "ambiguous_dispatch x did e =
    pseq (record_dispatch_ambiguous did (exn_text e))
      (praise (Exn DispatchAmbiguous
        (''Execution Dispatch is ambiguous for '' @ x @ '': '' @ exn_text e)
        (dispatch_error_code e) (Some e)))"

text \<open>What follows the committed request: prepare, start, record.\<close>

definition run_dispatch ::
  "(string \<Rightarrow> string) \<Rightarrow> registry \<Rightarrow> exec_provider \<Rightarrow> string \<Rightarrow> string \<Rightarrow> string \<Rightarrow>
     (string \<times> ref) list \<Rightarrow> dispatch_receipt core_prog" where
  "run_dispatch H g p x did digest canonical =
    (case prepare_start g p x did digest canonical of
       Inl e \<Rightarrow> fail_dispatch x did e
     | Inr q \<Rightarrow> (case start_provider p q of
         Inl e \<Rightarrow> if exn_cls e = ExecutionStartRejected then fail_dispatch x did e
                else ambiguous_dispatch x did e
       | Inr rc \<Rightarrow> pseq (record_dispatch_accepted H did (Typed rc)) (get_dispatch_receipt did)))"

text \<open>The checks and the committed request of a new Dispatch: the provider and the
  Dispatch id.\<close>

definition request_dispatch ::
  "registry \<Rightarrow> string \<Rightarrow> (string \<times> ref) list \<Rightarrow> string \<Rightarrow> string \<Rightarrow> (exec_provider \<times> string) core_prog" where
  "request_dispatch g x canonical digest key =
    pbind (get_execution x) (\<lambda>execution.
    pbind (plift (get_provider g (x_provider execution))) (\<lambda>p.
    pseq (plift (validate_registered_contracts g canonical))
    (pseq (plift (validate_input_limits p canonical))
    (pbind now_utc (\<lambda>now.
    pbind (fresh_id ''dispatch'') (\<lambda>did.
    pbind (fresh_id ''evt'') (\<lambda>eid.
    pbind (mk_event eid Dispatch_requested x now
        [(''dispatch_id'', did), (''inputs_digest'', digest),
         (''provider'', d_id (ep_descriptor p)),
         (''provider_version'', d_version (ep_descriptor p))] (Some key)) (\<lambda>e.
    pseq (create_dispatch_with_inputs did x canonical digest key e)
      (preturn (p, did))))))))))"

definition dispatch_execution ::
  "(string \<Rightarrow> string) \<Rightarrow> registry \<Rightarrow> string \<Rightarrow> pyobj list \<Rightarrow> string \<Rightarrow> dispatch_receipt core_prog" where
  "dispatch_execution H g x items key =
    pbind (plift (canonicalize_input_shape items)) (\<lambda>canonical.
    pbind (get_dispatch_by_key key) (\<lambda>existing.
    case existing of
      Some row \<Rightarrow> replay_dispatch x (inputs_digest H canonical) row
    | None \<Rightarrow>
        pbind (request_dispatch g x canonical (inputs_digest H canonical) key) (\<lambda>pd.
          run_dispatch H g (fst pd) x (snd pd) (inputs_digest H canonical) canonical)))"

section \<open>Projections\<close>

definition validate_projection_transition ::
  "string \<Rightarrow> projection \<Rightarrow> projection \<Rightarrow> exn + unit" where
  "validate_projection_transition x current incoming =
    (if \<not> terminal current then Inr ()
     else if terminal incoming \<and> p_outcome incoming = p_outcome current then Inr ()
     else Inl (err InvalidProjectionTransition
       (''execution '' @ x @ '' is already terminal (''
         @ (case p_outcome current of None \<Rightarrow> ''unknown'' | Some oc \<Rightarrow> outcome_value oc)
         @ ''); refusing projection '' @ phase_value (p_phase incoming)
         @ (case p_outcome incoming of None \<Rightarrow> [] | Some oc \<Rightarrow> ''/'' @ outcome_value oc))))"

definition same_projection_semantics :: "projection \<Rightarrow> projection \<Rightarrow> bool" where
  "same_projection_semantics l r \<longleftrightarrow>
     p_phase l = p_phase r \<and> p_outcome l = p_outcome r \<and> p_resumable l = p_resumable r \<and>
     p_freshness l = p_freshness r"

definition finalization_required :: "string \<Rightarrow> exn" where
  "finalization_required x = err FinalizationRequired
    (''first terminal observation for '' @ x @ '' requires apply_finalization()'')"

text \<open>The new value of the Execution: the end stamp is written once, with the first terminal
  projection.\<close>

definition changed_execution :: "execution \<Rightarrow> projection \<Rightarrow> datetime \<Rightarrow> execution" where
  "changed_execution current p now = current\<lparr>x_projection := p,
     x_started := (case x_started current of Some t \<Rightarrow> Some t
       | None \<Rightarrow> if p_phase p = Phase_active then Some now else None),
     x_ended := (if terminal p \<and> \<not> terminal (x_projection current) then Some now
       else x_ended current)\<rparr>"

definition write_projection :: "string \<Rightarrow> execution \<Rightarrow> projection \<Rightarrow> execution core_prog" where
  "write_projection x current p =
    pbind now_utc (\<lambda>now.
    pbind (plift (mk_execution (changed_execution current p now))) (\<lambda>changed.
    pbind (fresh_id ''evt'') (\<lambda>eid.
    pbind (mk_event eid (if terminal p then Execution_terminal else Projection_changed) x now
        [(''phase'', phase_value (p_phase p)), (''freshness'', freshness_value (p_freshness p))]
        None) (\<lambda>e.
     update_projection changed (x_version current) e))))"

definition observe_projection :: "string \<Rightarrow> projection \<Rightarrow> execution core_prog" where
  "observe_projection x p =
    pbind (get_execution x) (\<lambda>current.
    pseq (raise_if (\<not> terminal (x_projection current) \<and> terminal p) (finalization_required x))
    (pseq (plift (validate_projection_transition x (x_projection current) p))
    (if instant (p_observed_at p) < instant (p_observed_at (x_projection current))
       then preturn current
     else if same_projection_semantics p (x_projection current) then preturn current
     else write_projection x current p)))"

section \<open>Finalization\<close>

definition projection_json :: "projection \<Rightarrow> json" where
  "projection_json p = JDict
     [(''phase'', JStr (phase_value (p_phase p))),
      (''outcome'', str_json (map_option outcome_value (p_outcome p))),
      (''resumable_now'', case p_resumable p of None \<Rightarrow> JNull | Some b \<Rightarrow> JBool b),
      (''freshness'', JStr (freshness_value (p_freshness p))),
      (''observed_at'', JStr (iso_text (p_observed_at p)))]"

definition finalization_json :: "(string \<Rightarrow> string) \<Rightarrow> fin_request \<Rightarrow> json" where
  "finalization_json H q = JDict
     [(''execution_id'', JStr (q_exec q)), (''projection'', projection_json (q_projection q)),
      (''native_refs'', JList (sort_key dumps_default (map ref_json (q_native q)))),
      (''output_refs'', JList (sort_key dumps_default (map ref_json (q_output q)))),
      (''resource_observations'',
        JList (map JStr (sort (map (observation_digest H (q_exec q)) (q_observations q)))))]"

definition finalization_digest :: "(string \<Rightarrow> string) \<Rightarrow> fin_request \<Rightarrow> string" where
  "finalization_digest H q = ''sha256:'' @ H (dumps_compact (finalization_json H q))"

text \<open>The frozen inputs of the Execution against which typed observations are checked.\<close>

definition addresses_frozen :: "(string \<times> ref) list \<Rightarrow> observation \<Rightarrow> bool" where
  "addresses_frozen frozen ob \<longleftrightarrow>
     list_ex (\<lambda>(c, r). c = o_contract ob \<and> ref_identity r = ref_identity (o_ref ob)) frozen"

definition validated_resource_observations ::
  "string \<Rightarrow> observation list \<Rightarrow> observation list core_prog" where
  "validated_resource_observations x obs =
    pbind (list_input_refs x) (\<lambda>frozen.
    pseq (plift (check_each (\<lambda>ob. if addresses_frozen frozen ob then Inr ()
        else Inl (err ValueError
          (''resource observation does not address a frozen INPUT association: '' @ x))) obs))
      (preturn obs))"

definition apply_finalization :: "(string \<Rightarrow> string) \<Rightarrow> fin_request \<Rightarrow> fin_receipt core_prog" where
  "apply_finalization H q =
    pbind (get_execution (q_exec q)) (\<lambda>execution.
    if terminal (x_projection execution) then
      pbind (case x_ended execution of Some t \<Rightarrow> preturn t | None \<Rightarrow> now_utc) (\<lambda>ended.
        finalize_execution H (q_exec q) (q_projection q) [] [] [] (q_key q)
          (finalization_digest H q) ended)
    else
      pbind (validated_resource_observations (q_exec q) (q_observations q)) (\<lambda>obs.
      pbind now_utc (\<lambda>ended.
        finalize_execution H (q_exec q) (q_projection q) (q_native q) (q_output q) obs (q_key q)
          (finalization_digest H q) ended)))"

section \<open>Observations\<close>

definition fixed_identity_error :: "string \<Rightarrow> exn" where
  "fixed_identity_error x =
    err ValueError (''resource observation is not a fixed INPUT Ref: '' @ x)"

text \<open>One entry of \<open>resource_states\<close>: \<open>(Ref, state[, ArtifactRef])\<close>.\<close>

definition state_items :: "pyobj \<Rightarrow> (pyobj \<times> pyobj \<times> pyobj) option" where
  "state_items item =
    (case (case item of Py_tuple xs \<Rightarrow> xs | Py_list xs \<Rightarrow> xs | _ \<Rightarrow> []) of
       [r, s] \<Rightarrow> Some (r, s, Py_none) | [r, s, ev] \<Rightarrow> Some (r, s, ev) | _ \<Rightarrow> None)"

definition state_evidence :: "pyobj \<Rightarrow> exn + ref option" where
  "state_evidence ev =
    (case ev of
       Py_none \<Rightarrow> Inr None
     | Py_ref v \<Rightarrow> if r_type v \<noteq> Artifact_ref
         then Inl (err ValueError ''resource evidence must be an ArtifactRef'') else Inr (Some v)
     | _ \<Rightarrow> Inl (err ValueError ''resource evidence must be an ArtifactRef''))"

definition state_entry ::
  "string \<Rightarrow> (string \<times> ref) list \<Rightarrow> pyobj \<Rightarrow> exn + ref \<times> string \<times> ref option" where
  "state_entry x frozen item =
    (case state_items item of
       None \<Rightarrow> Inl (err ValueError ''resource_states entries must be (Ref, state[, ArtifactRef])'')
     | Some (Py_ref r, s, ev) \<Rightarrow>
         (case s of
            Py_str st \<Rightarrow>
              if blank st then Inl (err ValueError ''resource_state must be a non-empty string'')
              else if 256 < length (py_strip st)
                then Inl (err ValueError ''resource_state exceeds 256 characters'')
              else (case state_evidence ev of Inl e \<Rightarrow> Inl e
                | Inr evidence \<Rightarrow>
                    if list_ex (\<lambda>(_, f). ref_identity f = ref_identity r) frozen
                      then Inr (r, st, evidence) else Inl (fixed_identity_error x))
          | _ \<Rightarrow> Inl (err ValueError ''resource_state must be a non-empty string''))
     | Some _ \<Rightarrow> Inl (err ValueError ''resource observation requires a Ref''))"

definition validate_resource_states ::
  "string \<Rightarrow> pyobj list \<Rightarrow> (ref \<times> string \<times> ref option) list core_prog" where
  "validate_resource_states x items =
    pbind (list_input_refs x) (\<lambda>frozen. map_each (\<lambda>item. plift (state_entry x frozen item)) items)"

definition attach_observed_ref :: "string \<Rightarrow> relation \<Rightarrow> event_type \<Rightarrow> ref \<Rightarrow> unit core_prog" where
  "attach_observed_ref x rel ety r =
    pbind (fresh_id ''evt'') (\<lambda>eid.
    pbind now_utc (\<lambda>now.
    pbind (mk_event eid ety x now [(''type'', ref_type_value (r_type r))] None) (\<lambda>e.
     attach_ref x rel r e None)))"

definition seal_terminal ::
  "string \<Rightarrow> projection \<Rightarrow> bool \<Rightarrow> execution core_prog" where
  "seal_terminal x p empty_bundle =
    pbind (get_execution x) (\<lambda>current.
    pseq (raise_if (\<not> terminal (x_projection current)) (finalization_required x))
    (pseq (plift (validate_projection_transition x (x_projection current) p))
    (if same_projection_semantics (x_projection current) p \<and> empty_bundle then preturn current
     else praise (err FinalizationConflict
       (''terminal Execution '' @ x @ '' is sealed; use the late evidence API'')))))"

definition apply_observation ::
  "(string \<Rightarrow> string) \<Rightarrow> string \<Rightarrow> projection \<Rightarrow> ref list \<Rightarrow> ref list \<Rightarrow> pyobj list \<Rightarrow>
     observation list \<Rightarrow> execution core_prog" where
  "apply_observation H x p native output states obs =
    (if terminal p then
       seal_terminal x p (native = [] \<and> output = [] \<and> states = [] \<and> obs = [])
     else
       pbind (validate_resource_states x states) (\<lambda>entries.
       pbind (validated_resource_observations x obs) (\<lambda>typed.
       pbind (observe_projection x p) (\<lambda>changed.
       pseq (for_each (attach_observed_ref x Native_rel Native_ref_discovered) native)
       (pseq (for_each (attach_observed_ref x Output_rel Ref_attached) output)
       (pseq (for_each (\<lambda>(r, st, ev). pbind now_utc (\<lambda>now.
           pbind (record_resource_state H x r st ev (Some now)) (\<lambda>_. preturn ()))) entries)
       (pseq (if typed = [] then preturn ()
           else pbind now_utc (\<lambda>now.
             pbind (record_resource_observations H x typed (Some now)) (\<lambda>_. preturn ())))
         (preturn changed))))))))"

definition service_record_observations ::
  "(string \<Rightarrow> string) \<Rightarrow> string \<Rightarrow> observation list \<Rightarrow> (nat \<times> bool) list core_prog" where
  "service_record_observations H x obs =
    pbind (validated_resource_observations x obs) (\<lambda>typed.
    if typed = [] then preturn []
    else pbind now_utc (\<lambda>now. record_resource_observations H x typed (Some now)))"

end
