(* ===== verification/Core_Effects.thy ===== *)
theory Core_Effects
  imports Core_Service
begin

text \<open>
  What the writing methods do to the tables, one lemma per transaction: if it returns, the
  store is the old one with exactly the named rows added or rewritten, and the guards of the
  method held. A method that raises leaves the store as it was; the reading methods always do.
\<close>

section \<open>Reading methods\<close>

named_theorems reads \<open>methods that only read\<close>

lemmas read_intros =
  same_store.within_basic same_store.within_pbind same_store.within_pseq
  same_store.within_map_each same_store.within_for_each same_store.within_branch

lemma read_only_get_work [reads]: "read_only (get_work i)"
  unfolding read_only_def get_work_def by (intro read_intros)

lemma read_only_list_works [reads]: "read_only list_works"
  unfolding read_only_def list_works_def by (intro read_intros)

lemma read_only_get_execution [reads]: "read_only (get_execution i)"
  unfolding read_only_def get_execution_def by (intro read_intros)

lemma read_only_list_executions [reads]: "read_only (list_executions i)"
  unfolding read_only_def list_executions_def
  by (intro read_intros read_only_get_work [unfolded read_only_def])

lemma read_only_list_events [reads]: "read_only (list_events i)"
  unfolding read_only_def list_events_def by (intro read_intros)

lemma read_only_intent [reads]: "read_only (get_execution_responsibility_intent i)"
  unfolding read_only_def get_execution_responsibility_intent_def
  by (intro read_intros read_only_get_execution [unfolded read_only_def])

lemma read_only_list_refs [reads]: "read_only (list_refs i rel)"
  unfolding read_only_def list_refs_def by (intro read_intros)

lemma read_only_list_input_refs [reads]: "read_only (list_input_refs i)"
  unfolding read_only_def list_input_refs_def
  by (intro read_intros read_only_get_execution [unfolded read_only_def])

lemma read_only_get_dispatch [reads]:
  "read_only (get_dispatch i)" "read_only (get_dispatch_by_key k)"
  "read_only (get_dispatch_for_execution x)"
  unfolding read_only_def get_dispatch_def get_dispatch_by_key_def get_dispatch_for_execution_def
  by (intro read_intros)+

lemma read_only_get_dispatch_receipt [reads]: "read_only (get_dispatch_receipt i)"
  unfolding read_only_def get_dispatch_receipt_def
  by (intro read_intros read_only_list_events [unfolded read_only_def])

lemma read_only_list_observations [reads]: "read_only (list_resource_observations x)"
  unfolding read_only_def list_resource_observations_def
  by (intro read_intros read_only_get_execution [unfolded read_only_def])

lemma read_only_unobserved [reads]: "read_only (list_unobserved_inputs H x)"
  unfolding read_only_def list_unobserved_inputs_def
  by (intro read_intros read_only_list_input_refs [unfolded read_only_def])

lemma read_only_validated [reads]: "read_only (validated_resource_observations x obs)"
  unfolding read_only_def validated_resource_observations_def
  by (intro read_intros read_only_list_input_refs [unfolded read_only_def])

lemma read_only_states [reads]: "read_only (validate_resource_states x items)"
  unfolding read_only_def validate_resource_states_def
  by (intro read_intros read_only_list_input_refs [unfolded read_only_def])

lemma read_only_recorded_error [reads]: "read_only (recorded_dispatch_error did x)"
  unfolding read_only_def recorded_dispatch_error_def
  by (intro read_intros read_only_list_events [unfolded read_only_def])

lemma read_only_seal [reads]: "read_only (seal_terminal x p b)"
  unfolding read_only_def seal_terminal_def
  by (intro read_intros read_only_get_execution [unfolded read_only_def])

lemma read_only_replay [reads]: "read_only (replay_dispatch x digest row)"
  unfolding read_only_def replay_dispatch_def
  by (intro read_intros reads [unfolded read_only_def])

section \<open>Statements\<close>

lemma list_ex_key: "list_ex (\<lambda>s. k s = a) xs \<longleftrightarrow> a \<in> k ` set xs"
  by (auto simp: list_ex_iff)

lemma insert_event_Inr [run_iffs]:
  "insert_event e d = Inr (u, d') \<longleftrightarrow>
     e_id e \<notin> e_id ` set (events d) \<and> (e_key e \<noteq> None \<longrightarrow> e_key e \<notin> e_key ` set (events d)) \<and>
     d' = d\<lparr>events := events d @ [e\<lparr>e_data := dump (e_data e)\<rparr>]\<rparr>"
  by (auto simp: insert_event_def list_ex_key)

lemma insert_work_Inr [run_iffs]:
  "insert_work v d = Inr (u, d') \<longleftrightarrow>
     find_work d (w_id v) = None \<and> d' = d\<lparr>works := works d @ [v\<lparr>w_meta := dump (w_meta v)\<rparr>]\<rparr>"
  by (auto simp: insert_work_def)

lemma insert_execution_1:
  "insert_execution x d = Inr (Suc 0, d') \<longleftrightarrow>
     (\<exists>v \<in> set (works d). w_id v = x_work x \<and> w_lifecycle v = Open) \<and>
     find_exec d (x_id x) = None \<and>
     d' = d\<lparr>executions := executions d @ [x\<lparr>x_provenance := dump (x_provenance x)\<rparr>]\<rparr>"
  by (auto simp: insert_execution_def list_ex_iff)

lemma insert_execution_0:
  "insert_execution x d = Inr (n, d') \<Longrightarrow> n \<noteq> Suc 0 \<Longrightarrow> n = 0 \<and> d' = d"
  by (auto simp: insert_execution_def split: if_splits)

lemma insert_ref_Inr:
  "insert_ref ign r d = Inr (n, d') \<longleftrightarrow>
     (if ref_key r \<in> ref_key ` set (refs d) then ign \<and> n = 0 \<and> d' = d
      else find_exec d (rr_exec r) \<noteq> None \<and> n = 1 \<and>
        d' = d\<lparr>refs := refs d @ [r\<lparr>rr_ref := dump_ref (rr_ref r)\<rparr>]\<rparr>)"
  by (auto simp: insert_ref_def list_ex_key)

lemma insert_dispatch_Inr [run_iffs]:
  "insert_dispatch r d = Inr (u, d') \<longleftrightarrow>
     find_dispatch d (dp_id r) = None \<and> dispatch_of_exec d (dp_exec r) = None \<and>
     dispatch_of_key d (dp_key r) = None \<and> find_exec d (dp_exec r) \<noteq> None \<and>
     d' = d\<lparr>dispatches := dispatches d @ [r]\<rparr>"
  by (auto simp: insert_dispatch_def)

lemma insert_finalization_Inr [run_iffs]:
  "insert_finalization r d = Inr (u, d') \<longleftrightarrow>
     finalization_of_exec d (f_exec r) = None \<and> finalization_of_key d (f_key r) = None \<and>
     find_exec d (f_exec r) \<noteq> None \<and> d' = d\<lparr>finalizations := finalizations d @ [r]\<rparr>"
  by (auto simp: insert_finalization_def)

lemma update_works_Inr [run_iffs]:
  "update_works p f d = Inr (n, d') \<longleftrightarrow>
     n = count_where p (works d) \<and> d' = d\<lparr>works := update_where p f (works d)\<rparr>"
  by (auto simp: update_works_def)

lemma update_executions_Inr [run_iffs]:
  "update_executions p f d = Inr (n, d') \<longleftrightarrow>
     n = count_where p (executions d) \<and> d' = d\<lparr>executions := update_where p f (executions d)\<rparr>"
  by (auto simp: update_executions_def)

lemma update_dispatches_Inr [run_iffs]:
  "update_dispatches p f d = Inr (n, d') \<longleftrightarrow>
     n = count_where p (dispatches d) \<and> d' = d\<lparr>dispatches := update_where p f (dispatches d)\<rparr>"
  by (auto simp: update_dispatches_def)

lemma append_event_Inr:
  "append_event e w = (Inr u, w') \<longleftrightarrow>
     (\<exists>d. insert_event e (store w) = Inr ((), d) \<and> w' = w\<lparr>store := d\<rparr>)"
  by (auto simp: append_event_def exec_sql_Inr)

lemma mk_event_Inr [run_iffs]:
  "mk_event i ty subj t dat k w = (Inr e, w') \<longleftrightarrow>
     i \<noteq> [] \<and> subj \<noteq> [] \<and> bounded dat \<and>
     e = \<lparr>e_id = i, e_type = ty, e_subject = subj, e_at = t, e_data = dat, e_key = k\<rparr> \<and> w' = w"
  by (auto simp: mk_event_def run_iffs)

text \<open>A new event: its row and the conditions under which it is appended.\<close>

definition adds_event ::
  "event_type \<Rightarrow> string \<Rightarrow> datetime \<Rightarrow> dict \<Rightarrow> string option \<Rightarrow> core_db \<Rightarrow> core_event \<Rightarrow> bool" where
  "adds_event ty subj t dat k d e \<longleftrightarrow>
     e_type e = ty \<and> e_subject e = subj \<and> e_at e = t \<and> e_data e = dump dat \<and> e_key e = k \<and>
     event_ok e \<and> e_id e \<notin> e_id ` set (events d) \<and>
     (k \<noteq> None \<longrightarrow> k \<notin> e_key ` set (events d))"

lemma append_event_effect:
  assumes "append_event e w = (Inr u, w')" and "event_ok e"
  shows "\<exists>ev. adds_event (e_type e) (e_subject e) (e_at e) (e_data e) (e_key e) (store w) ev \<and>
    store w' = (store w)\<lparr>events := events (store w) @ [ev]\<rparr>"
  using assms
  by (intro exI [of _ "e\<lparr>e_data := dump (e_data e)\<rparr>"])
     (auto simp: append_event_Inr run_iffs adds_event_def event_ok_def)

lemma append_new_event_effect:
  assumes "append_new_event ty subj t dat k w = (Inr u, w')"
  shows "\<exists>ev. adds_event ty subj t dat k (store w) ev \<and>
    store w' = (store w)\<lparr>events := events (store w) @ [ev]\<rparr>"
proof -
  from assms obtain i e v where "append_event e v = (Inr u, w')" and v: "store v = store w"
    and e: "e = \<lparr>e_id = i, e_type = ty, e_subject = subj, e_at = t, e_data = dat, e_key = k\<rparr>"
    and ok: "event_ok e"
    by (auto simp: append_new_event_def run_iffs event_ok_def)
  from append_event_effect [OF this(1) ok] show ?thesis unfolding v by (simp add: e)
qed

section \<open>Works and Executions\<close>

lemma get_work_Inr:
  "get_work i w = (Inr v, w') \<longleftrightarrow> find_work (store w) i = Some v \<and> work_ok v \<and> w' = w"
  by (auto simp: get_work_def run_iffs mk_work_Inr)

lemma load_execution_Inr:
  "load_execution x = Inr y \<longleftrightarrow> projection_ok (x_projection x) \<and> execution_ok x \<and> y = x"
proof (cases "projection_ok (x_projection x)")
  case True
  then have "reload_projection (x_projection x) = Inr (x_projection x)"
    by (simp add: reload_projection_Inr)
  then show ?thesis by (simp add: load_execution_def mk_execution_Inr True)
next
  case False
  then obtain e where "reload_projection (x_projection x) = Inl e"
    by (cases "reload_projection (x_projection x)") (auto simp: reload_projection_Inr)
  with False show ?thesis by (simp add: load_execution_def)
qed

lemma get_execution_Inr:
  "get_execution i w = (Inr x, w') \<longleftrightarrow>
     find_exec (store w) i = Some x \<and> projection_ok (x_projection x) \<and> execution_ok x \<and> w' = w"
  by (auto simp: get_execution_def run_iffs load_execution_Inr)

lemma create_work_effect:
  assumes "create_work v e w = (Inr y, w')" and "event_ok e"
  shows "find_work (store w) (w_id v) = None"
    "\<exists>ev. adds_event (e_type e) (e_subject e) (e_at e) (e_data e) (e_key e) (store w) ev \<and>
     store w' = (store w)\<lparr>works := works (store w) @ [v\<lparr>w_meta := dump (w_meta v)\<rparr>],
       events := events (store w) @ [ev]\<rparr>"
  using assms
  by (auto simp: create_work_def run_iffs get_work_Inr adds_event_def event_ok_def
      dest!: append_event_effect)

lemma adds_event_cong:
  "events d = events d' \<Longrightarrow> adds_event ty subj t dat k d = adds_event ty subj t dat k d'"
  by (simp add: adds_event_def fun_eq_iff)

lemma count_where_1: "count_where p rows = Suc 0 \<Longrightarrow> \<exists>r \<in> set rows. p r"
  using count_where_0 [of p rows] by fastforce

text \<open>The rewriting functions of the UPDATE statements.\<close>

definition work_update :: "work \<Rightarrow> work \<Rightarrow> work" where
  "work_update v = (\<lambda>r. r\<lparr>w_lifecycle := w_lifecycle v, w_closure := w_closure v,
     w_meta := dump (w_meta v), w_updated := w_updated v, w_version := w_version r + 1\<rparr>)"

definition projection_update :: "execution \<Rightarrow> execution \<Rightarrow> execution" where
  "projection_update x = (\<lambda>r. r\<lparr>x_projection := x_projection x, x_started := x_started x,
     x_ended := x_ended x, x_version := x_version r + 1\<rparr>)"

definition final_update :: "projection \<Rightarrow> datetime \<Rightarrow> execution \<Rightarrow> execution" where
  "final_update p t = (\<lambda>r. r\<lparr>x_projection := p, x_ended := Some t, x_version := x_version r + 1\<rparr>)"

definition dispatched_update :: "datetime \<Rightarrow> execution \<Rightarrow> execution" where
  "dispatched_update t = (\<lambda>r. r\<lparr>x_dispatched := Some t, x_version := x_version r + 1\<rparr>)"

definition state_update :: "string \<Rightarrow> string option \<Rightarrow> datetime \<Rightarrow> dispatch_row \<Rightarrow> dispatch_row" where
  "state_update st c t = (\<lambda>r. r\<lparr>dp_state := st,
     dp_correlation := (if c = None then dp_correlation r else c), dp_updated := t\<rparr>)"

lemma update_work_effect:
  assumes "update_work v n e w = (Inr y, w')" and "event_ok e"
  shows "\<exists>r \<in> set (works (store w)). w_id r = w_id v \<and> w_version r = n"
    "\<exists>ev. adds_event (e_type e) (e_subject e) (e_at e) (e_data e) (e_key e) (store w) ev \<and>
     store w' = (store w)\<lparr>
       works := update_where (\<lambda>r. w_id r = w_id v \<and> w_version r = n) (work_update v) (works (store w)),
       events := events (store w) @ [ev]\<rparr>"
  using assms
  by (auto simp: update_work_def run_iffs get_work_Inr adds_event_def event_ok_def work_update_def
      dest!: append_event_effect count_where_1)

lemma create_execution_effect:
  assumes "create_execution x e w = (Inr y, w')" and "event_ok e"
  shows "\<exists>v \<in> set (works (store w)). w_id v = x_work x \<and> w_lifecycle v = Open"
    "find_exec (store w) (x_id x) = None"
    "e_type e = Execution_created \<and> e_subject e = x_id x \<and>
     dict_get (e_data e) ''provider'' = Some (x_provider x)"
    "\<exists>intent. dict_get (e_data e) responsibility_intent_key = Some intent \<and>
       normalize_responsibility_intent intent = Inr intent"
    "\<exists>ev. adds_event (e_type e) (e_subject e) (e_at e) (e_data e) (e_key e) (store w) ev \<and>
     store w' = (store w)\<lparr>
       executions := executions (store w) @ [x\<lparr>x_provenance := dump (x_provenance x)\<rparr>],
       events := events (store w) @ [ev]\<rparr>"
proof -
  from assms obtain v v2 where chk: "check_created_event x e w = (Inr (), w)"
    and g: "e_type e = Execution_created" "e_subject e = x_id x"
      "dict_get (e_data e) ''provider'' = Some (x_provider x)"
    and ins: "insert_execution x (store w) = Inr (Suc 0, v)"
    and app: "append_event e (w\<lparr>store := v\<rparr>) = (Inr (), v2)"
    and w': "w' = v2"
    by (auto simp: create_execution_def run_iffs get_execution_Inr check_created_event_def
        split: if_splits option.splits)
  note i = ins [unfolded insert_execution_1]
  from chk show "\<exists>intent. dict_get (e_data e) responsibility_intent_key = Some intent \<and>
       normalize_responsibility_intent intent = Inr intent"
    by (auto simp: check_created_event_def run_iffs split: option.splits)
  from i show "\<exists>v \<in> set (works (store w)). w_id v = x_work x \<and> w_lifecycle v = Open"
    "find_exec (store w) (x_id x) = None" by blast+
  from g show "e_type e = Execution_created \<and> e_subject e = x_id x \<and>
     dict_get (e_data e) ''provider'' = Some (x_provider x)" by blast
  from append_event_effect [OF app \<open>event_ok e\<close>] i w'
  show "\<exists>ev. adds_event (e_type e) (e_subject e) (e_at e) (e_data e) (e_key e) (store w) ev \<and>
     store w' = (store w)\<lparr>
       executions := executions (store w) @ [x\<lparr>x_provenance := dump (x_provenance x)\<rparr>],
       events := events (store w) @ [ev]\<rparr>"
    by (auto simp: adds_event_def)
qed

lemma update_projection_effect:
  assumes "update_projection x n e w = (Inr y, w')" and "event_ok e"
  shows "\<exists>r \<in> set (executions (store w)). x_id r = x_id x \<and> x_version r = n"
    "\<exists>ev. adds_event (e_type e) (e_subject e) (e_at e) (e_data e) (e_key e) (store w) ev \<and>
     store w' = (store w)\<lparr>
       executions := update_where (\<lambda>r. x_id r = x_id x \<and> x_version r = n) (projection_update x)
         (executions (store w)),
       events := events (store w) @ [ev]\<rparr>"
  using assms
  by (auto simp: update_projection_def run_iffs get_execution_Inr adds_event_def event_ok_def
      projection_update_def dest!: append_event_effect count_where_1)

section \<open>Refs\<close>

definition new_ref_row :: "string \<Rightarrow> relation \<Rightarrow> datetime \<Rightarrow> string option \<Rightarrow> ref \<Rightarrow> ref_row" where
  "new_ref_row x rel t c r =
    \<lparr>rr_exec = x, rr_relation = rel, rr_ref = dump_ref r, rr_created = t, rr_contract = c\<rparr>"

lemma new_ref_row_simps [simp]:
  "rr_exec (new_ref_row x rel t c r) = x" "rr_relation (new_ref_row x rel t c r) = rel"
  "rr_ref (new_ref_row x rel t c r) = dump_ref r" "rr_contract (new_ref_row x rel t c r) = c"
  by (simp_all add: new_ref_row_def)

lemma ref_key_new [simp]:
  "ref_key (new_ref_row x rel t c r) = (x, rel, r_type r, r_provider r, r_native r)"
  by (simp add: ref_key_def new_ref_row_def)

lemma insert_ref_stmt_Inr:
  "insert_ref_stmt ign x rel r t c w = (Inr n, w') \<longleftrightarrow>
     (if (x, rel, r_type r, r_provider r, r_native r) \<in> ref_key ` set (refs (store w))
      then ign \<and> n = 0 \<and> w' = w
      else find_exec (store w) x \<noteq> None \<and> n = 1 \<and>
        w' = w\<lparr>store := (store w)\<lparr>refs := refs (store w) @ [new_ref_row x rel t c r]\<rparr>\<rparr>)"
  by (auto simp: insert_ref_stmt_def run_iffs insert_ref_Inr new_ref_row_def)
     (simp_all add: ref_key_def)

lemma attach_ref_effect:
  assumes "attach_ref x rel r e c w = (Inr u, w')" and "event_ok e"
  shows "find_exec (store w) x \<noteq> None"
    "rel = Input_rel \<Longrightarrow> dispatch_of_exec (store w) x = None \<and>
       effective_contract c e \<notin> {None, Some []}"
    "store w' = store w \<or>
     (x, rel, r_type r, r_provider r, r_native r) \<notin> ref_key ` set (refs (store w)) \<and>
     (\<exists>ev. adds_event (e_type e) (e_subject e) (e_at e) (e_data e) (e_key e) (store w) ev \<and>
      store w' = (store w)\<lparr>refs := refs (store w) @ [new_ref_row x rel (e_at e)
          (if rel = Input_rel then effective_contract c e else None) r],
        events := events (store w) @ [ev]\<rparr>)"
  using assms
  by (auto simp: attach_ref_def run_iffs insert_ref_stmt_Inr Let_def adds_event_def event_ok_def
      split: if_splits dest!: append_event_effect)

text \<open>Freezing the inputs: every row is new, the loop appends them in order.\<close>

definition input_row :: "string \<Rightarrow> datetime \<Rightarrow> string \<times> ref \<Rightarrow> ref_row" where
  "input_row x t i = new_ref_row x Input_rel t (Some (fst i)) (snd i)"

lemma freeze_inputs_effect:
  "for_each (freeze_input x t) inputs w = (Inr u, w') \<Longrightarrow>
     distinct (map ref_key (map (input_row x t) inputs)) \<and>
     ref_key ` set (map (input_row x t) inputs) \<inter> ref_key ` set (refs (store w)) = {} \<and>
     (\<forall>i \<in> set inputs. fst i \<noteq> []) \<and>
     store w' = (store w)\<lparr>refs := refs (store w) @ map (input_row x t) inputs\<rparr>"
proof (induction inputs arbitrary: w)
  case (Cons i inputs)
  obtain c r where i: "i = (c, r)" by (cases i) auto
  from Cons.prems obtain v where head: "freeze_input x t i w = (Inr (), v)"
    and tail: "for_each (freeze_input x t) inputs v = (Inr u, w')"
    by (auto simp: run_iffs)
  from head have c: "c \<noteq> []" and v: "v = w\<lparr>store := (store w)\<lparr>refs := refs (store w) @ [input_row x t i]\<rparr>\<rparr>"
    and new: "ref_key (input_row x t i) \<notin> ref_key ` set (refs (store w))"
    by (auto simp: i freeze_input_def run_iffs insert_ref_stmt_Inr input_row_def split: if_splits)
  from Cons.IH [OF tail] new c show ?case by (auto simp: v i)
qed (auto simp: run_iffs)

section \<open>Dispatches\<close>

definition requested_row :: "string \<Rightarrow> string \<Rightarrow> string \<Rightarrow> string \<Rightarrow> datetime \<Rightarrow> dispatch_row" where
  "requested_row did x key digest t =
    \<lparr>dp_id = did, dp_exec = x, dp_key = key, dp_state = ''requested'', dp_correlation = None,
     dp_digest = Some digest, dp_created = t, dp_updated = t\<rparr>"

lemma create_dispatch_effect:
  assumes "create_dispatch_with_inputs did x inputs digest key e w = (Inr u, w')" and "event_ok e"
  shows "find_exec (store w) x \<noteq> None" "dispatch_of_exec (store w) x = None"
    "find_dispatch (store w) did = None" "dispatch_of_key (store w) key = None"
    "distinct (map ref_key (map (input_row x (e_at e)) inputs))"
    "ref_key ` set (map (input_row x (e_at e)) inputs) \<inter> ref_key ` set (refs (store w)) = {}"
    "\<forall>i \<in> set inputs. fst i \<noteq> []"
    "\<exists>ev. adds_event (e_type e) (e_subject e) (e_at e) (e_data e) (e_key e) (store w) ev \<and>
     store w' = (store w)\<lparr>refs := refs (store w) @ map (input_row x (e_at e)) inputs,
       dispatches := dispatches (store w) @ [requested_row did x key digest (e_at e)],
       executions := update_where (\<lambda>r. x_id r = x) (dispatched_update (e_at e)) (executions (store w)),
       events := events (store w) @ [ev]\<rparr>"
proof -
  from assms(1) obtain v v2 where pre: "find_exec (store w) x \<noteq> None" "dispatch_of_exec (store w) x = None"
    and loop: "for_each (freeze_input x (e_at e)) inputs w = (Inr (), v)"
    and ins: "find_dispatch (store v) did = None" "dispatch_of_key (store v) key = None"
    and app: "append_event e (v\<lparr>store := (store v)\<lparr>
        dispatches := dispatches (store v) @ [requested_row did x key digest (e_at e)],
        executions := update_where (\<lambda>r. x_id r = x) (dispatched_update (e_at e))
          (executions (store v))\<rparr>\<rparr>) = (Inr (), w')"
    by (auto simp: create_dispatch_with_inputs_def run_iffs requested_row_def dispatched_update_def)
  note l = freeze_inputs_effect [OF loop]
  from pre show "find_exec (store w) x \<noteq> None" "dispatch_of_exec (store w) x = None" by blast+
  from ins l show "find_dispatch (store w) did = None" "dispatch_of_key (store w) key = None"
    by (simp_all add: find_dispatch_def dispatch_of_key_def)
  from l show "distinct (map ref_key (map (input_row x (e_at e)) inputs))"
    "ref_key ` set (map (input_row x (e_at e)) inputs) \<inter> ref_key ` set (refs (store w)) = {}"
    "\<forall>i \<in> set inputs. fst i \<noteq> []"
    by blast+
  from append_event_effect [OF app assms(2)] l
  show "\<exists>ev. adds_event (e_type e) (e_subject e) (e_at e) (e_data e) (e_key e) (store w) ev \<and>
     store w' = (store w)\<lparr>refs := refs (store w) @ map (input_row x (e_at e)) inputs,
       dispatches := dispatches (store w) @ [requested_row did x key digest (e_at e)],
       executions := update_where (\<lambda>r. x_id r = x) (dispatched_update (e_at e)) (executions (store w)),
       events := events (store w) @ [ev]\<rparr>"
    by (auto simp: adds_event_def)
qed

text \<open>An accepted or failed record: a replay of the same state writes nothing.\<close>

lemma record_dispatch_terminal_effect:
  assumes "record_dispatch_terminal did st ety c er extra w = (Inr y, w')"
  obtains row where "find_dispatch (store w) did = Some row" "dp_state row = st"
      "y = Some row" "store w' = store w"
  | row t ev where "find_dispatch (store w) did = Some row" "dp_state row = ''requested''" "st \<noteq> ''requested''"
      "adds_event ety (dp_exec row) t ([(''dispatch_id'', did)]
         @ nonempty_item ''provider_correlation_ref'' c @ nonempty_item ''error'' er @ extra) None
         (store w) ev"
      "store w' = (store w)\<lparr>
         dispatches := update_where (\<lambda>r. dp_id r = did) (state_update st c t) (dispatches (store w)),
         events := events (store w) @ [ev]\<rparr>"
      "y = find_dispatch (store w') did"
proof -
  let ?t = "local_time (tz_offset w) (clock_src w (clock_pos w))"
  let ?v = "w\<lparr>clock_pos := Suc (clock_pos w)\<rparr>"
  let ?dat = "[(''dispatch_id'', did)] @ nonempty_item ''provider_correlation_ref'' c
         @ nonempty_item ''error'' er @ extra"
  from assms obtain row where row: "find_dispatch (store w) did = Some row"
    by (auto simp: record_dispatch_terminal_def run_iffs)
  show thesis
  proof (cases "dp_state row = st")
    case True
    with assms row show thesis
      by (intro that(1) [of row]) (auto simp: record_dispatch_terminal_def run_iffs)
  next
    case False
    with assms row have req: "dp_state row = ''requested''"
      by (auto simp: record_dispatch_terminal_def run_iffs split: if_splits)
    with assms row False obtain u v where app: "append_new_event ety (dp_exec row) ?t ?dat None
        (?v\<lparr>store := (store w)\<lparr>dispatches :=
          update_where (\<lambda>r. dp_id r = did) (state_update st c ?t) (dispatches (store w))\<rparr>\<rparr>) = (Inr u, v)"
      and get: "y = find_dispatch (store v) did" "w' = v"
      by (auto simp: record_dispatch_terminal_def run_iffs state_update_def get_dispatch_def)
    from append_new_event_effect [OF app] obtain ev where
      ev: "adds_event ety (dp_exec row) ?t ?dat None (store w) ev"
      and st: "store w' = (store w)\<lparr>
         dispatches := update_where (\<lambda>r. dp_id r = did) (state_update st c ?t) (dispatches (store w)),
         events := events (store w) @ [ev]\<rparr>"
      using get by (auto simp: adds_event_def)
    from False req have "st \<noteq> ''requested''" by auto
    from that(2) [OF row req this ev st] get show thesis by simp
  qed
qed

lemma record_dispatch_ambiguous_effect:
  assumes "record_dispatch_ambiguous did er w = (Inr y, w')"
  obtains row t ev where "find_dispatch (store w) did = Some row" "dp_state row = ''requested''"
    "adds_event Dispatch_ambiguous (dp_exec row) t
       [(''dispatch_id'', did), (''stage'', ''start''), (''error'', take 256 (py_strip er))] None
       (store w) ev"
    "store w' = (store w)\<lparr>
       dispatches := update_where (\<lambda>r. dp_id r = did) (\<lambda>r. r\<lparr>dp_updated := t\<rparr>) (dispatches (store w)),
       events := events (store w) @ [ev]\<rparr>"
proof -
  let ?t = "local_time (tz_offset w) (clock_src w (clock_pos w))"
  from assms obtain row v u where row: "find_dispatch (store w) did = Some row"
    and req: "dp_state row = ''requested''"
    and app: "append_new_event Dispatch_ambiguous (dp_exec row) ?t
       [(''dispatch_id'', did), (''stage'', ''start''), (''error'', take 256 (py_strip er))] None
       (w\<lparr>clock_pos := Suc (clock_pos w)\<rparr>) = (Inr u, v)"
    and w': "store w' = (store v)\<lparr>
       dispatches := update_where (\<lambda>r. dp_id r = did) (\<lambda>r. r\<lparr>dp_updated := ?t\<rparr>) (dispatches (store v))\<rparr>"
    by (auto simp: record_dispatch_ambiguous_def run_iffs get_dispatch_def)
  from append_new_event_effect [OF app] w' show thesis
    by (auto intro!: that [OF row req])
qed

lemma commit_resource_state_effect:
  assumes "commit_resource_state H x r st ev t w = (Inr y, w')"
  shows "if y then fixed_input (store w) x r \<and> find_exec (store w) x \<noteq> None \<and>
      (\<exists>dat e. adds_event Projection_changed x t dat None (store w) e \<and>
        store w' = (store w)\<lparr>events := events (store w) @ [e]\<rparr>)
    else store w' = store w"
  using assms
  by (auto simp: commit_resource_state_def run_iffs get_execution_Inr split: if_splits
      dest!: append_new_event_effect)

lemma record_resource_state_effect:
  assumes "record_resource_state H x r st ev at w = (Inr y, w')"
  shows "if y then fixed_input (store w) x r \<and> find_exec (store w) x \<noteq> None \<and>
      (\<exists>t dat e. adds_event Projection_changed x t dat None (store w) e \<and>
        store w' = (store w)\<lparr>events := events (store w) @ [e]\<rparr>)
    else store w' = store w"
proof -
  have "\<exists>t v. store v = store w \<and> commit_resource_state H x r (py_strip st) ev t v = (Inr y, w')"
  proof (cases at)
    case None
    with assms show ?thesis
      by (intro exI [of _ "local_time (tz_offset w) (clock_src w (clock_pos w))"]
          exI [of _ "w\<lparr>clock_pos := Suc (clock_pos w)\<rparr>"])
        (simp add: record_resource_state_def run_iffs)
  next
    case (Some t)
    with assms show ?thesis
      by (intro exI [of _ t] exI [of _ w]) (simp add: record_resource_state_def run_iffs)
  qed
  then obtain t v where "store v = store w"
    and "commit_resource_state H x r (py_strip st) ev t v = (Inr y, w')" by blast
  with commit_resource_state_effect [of H x r "py_strip st" ev t v y w'] show ?thesis
    by (cases y; simp; blast)
qed

section \<open>Observations\<close>

definition new_obs_row ::
  "(string \<Rightarrow> string) \<Rightarrow> string \<Rightarrow> datetime \<Rightarrow> nat \<Rightarrow> observation \<Rightarrow> obs_row" where
  "new_obs_row H x t i ob =
    \<lparr>ob_id = i, ob_exec = x,
     ob_obs = ob\<lparr>o_ref := dump_ref (o_ref ob), o_observer := py_strip (o_observer ob),
                o_evidence := map_option dump_ref (o_evidence ob)\<rparr>,
     ob_ref_digest = ref_identity_digest H (o_ref ob), ob_digest = observation_digest H x ob,
     ob_recorded = t\<rparr>"

text \<open>Rows appended under consecutive ids, with digests that are new.\<close>

definition appends_observations :: "(string \<Rightarrow> string) \<Rightarrow> string \<Rightarrow> core_db \<Rightarrow> core_db \<Rightarrow> bool" where
  "appends_observations H x d d' \<longleftrightarrow>
     (\<exists>rows. d' = d\<lparr>observations := observations d @ rows, obs_next := obs_next d + length rows\<rparr> \<and>
       (rows \<noteq> [] \<longrightarrow> find_exec d x \<noteq> None) \<and>
       map ob_id rows = [obs_next d..<obs_next d + length rows] \<and>
       distinct (map ob_digest rows) \<and>
       ob_digest ` set rows \<inter> ob_digest ` set (observations d) = {} \<and>
       (\<forall>row \<in> set rows. ob_exec row = x \<and> (\<exists>ob t i. row = new_obs_row H x t i ob)))"

lemma appends_refl: "appends_observations H x d d"
  by (auto simp: appends_observations_def intro!: exI [of _ "[]"])

lemma appends_trans:
  assumes "appends_observations H x a b" "appends_observations H x b c"
  shows "appends_observations H x a c"
proof -
  from assms(1) obtain r1 where
    b: "b = a\<lparr>observations := observations a @ r1, obs_next := obs_next a + length r1\<rparr>"
    and e1: "r1 \<noteq> [] \<longrightarrow> find_exec a x \<noteq> None"
    and p1: "map ob_id r1 = [obs_next a..<obs_next a + length r1]" "distinct (map ob_digest r1)"
       "ob_digest ` set r1 \<inter> ob_digest ` set (observations a) = {}"
       "\<forall>row \<in> set r1. ob_exec row = x \<and> (\<exists>ob t i. row = new_obs_row H x t i ob)"
    unfolding appends_observations_def by blast
  from assms(2) obtain r2 where
    c: "c = b\<lparr>observations := observations b @ r2, obs_next := obs_next b + length r2\<rparr>"
    and e2: "r2 \<noteq> [] \<longrightarrow> find_exec b x \<noteq> None"
    and p2: "map ob_id r2 = [obs_next b..<obs_next b + length r2]" "distinct (map ob_digest r2)"
       "ob_digest ` set r2 \<inter> ob_digest ` set (observations b) = {}"
       "\<forall>row \<in> set r2. ob_exec row = x \<and> (\<exists>ob t i. row = new_obs_row H x t i ob)"
    unfolding appends_observations_def by blast
  have ids: "[obs_next a..<obs_next a + length r1] @ [obs_next a + length r1..<obs_next a + length r1 + length r2]
      = [obs_next a..<obs_next a + length (r1 @ r2)]"
    using upt_add_eq_append [of "obs_next a" "obs_next a + length r1" "length r2"]
    by (simp add: add.assoc)
  show ?thesis
    unfolding appends_observations_def
    using e1 e2 p1 p2 ids
    by (intro exI [of _ "r1 @ r2"]) (auto simp: b c find_exec_def)
qed

interpretation appending: evolution "appends_observations H x" for H x
  by unfold_locales (auto intro: appends_refl appends_trans)

lemma observation_of_digest_None:
  "observation_of_digest d g = None \<longleftrightarrow> g \<notin> ob_digest ` set (observations d)"
  by (auto simp: observation_of_digest_def find_None_iff)

lemma append_observation_within: "within (appends_observations H x) (append_observation H x t ob)"
  unfolding append_observation_def Let_def
proof (intro appending.within_pbind appending.within_basic appending.within_branch
    appending.within_exec_sql)
  fix d :: core_db and i d'
  assume "insert_observation x ob (ref_identity_digest H (o_ref ob)) (observation_digest H x ob) t d
    = Inr (i, d')"
  then have new: "observation_digest H x ob \<notin> ob_digest ` set (observations d)"
    and ex: "find_exec d x \<noteq> None"
    and d': "d' = d\<lparr>observations := observations d @ [new_obs_row H x t (obs_next d) ob],
      obs_next := Suc (obs_next d)\<rparr>"
    by (auto simp: insert_observation_def new_obs_row_def observation_of_digest_None split: if_splits)
  show "appends_observations H x d d'"
    unfolding appends_observations_def
    using new ex by (intro exI [of _ "[new_obs_row H x t (obs_next d) ob]"])
      (auto simp: d' new_obs_row_def)
qed

lemma require_frozen_all:
  "for_each (require_frozen x) obs w = (Inr u, w') \<longleftrightarrow>
     (\<forall>ob \<in> set obs. frozen_input (store w) x (o_contract ob) (o_ref ob)) \<and> w' = w"
  by (induction obs arbitrary: w) (auto simp: run_iffs require_frozen_def)

lemma record_observations_effect:
  assumes "record_resource_observations H x obs at w = (Inr ys, w')"
  shows "appends_observations H x (store w) (store w')"
    "\<forall>ob \<in> set obs. frozen_input (store w) x (o_contract ob) (o_ref ob)"
proof -
  have "obs = [] \<and> w' = w \<or> (\<exists>t v. store v = store w \<and>
      (\<forall>ob \<in> set obs. frozen_input (store w) x (o_contract ob) (o_ref ob)) \<and>
      map_each (append_observation H x t) obs v = (Inr ys, w'))"
    using assms
    by (cases at)
       (fastforce simp: record_resource_observations_def run_iffs require_frozen_all
         get_execution_Inr split: if_splits)+
  moreover have "within (appends_observations H x) (map_each (append_observation H x t) obs)" for t
    by (intro appending.within_map_each append_observation_within)
  ultimately show "appends_observations H x (store w) (store w')"
    "\<forall>ob \<in> set obs. frozen_input (store w) x (o_contract ob) (o_ref ob)"
    by (auto intro: appends_refl) (metis withinD)
qed

section \<open>Finalization\<close>

text \<open>The ref loop of the terminal bundle appends native and output refs of the Execution, one
  discovery event for each.\<close>

definition final_event :: "string \<Rightarrow> datetime \<Rightarrow> core_event \<Rightarrow> bool" where
  "final_event x t e \<longleftrightarrow> e_type e \<in> {Native_ref_discovered, Ref_attached} \<and> e_subject e = x \<and>
     e_at e = t \<and> e_key e = None \<and> event_ok e"

definition fresh_keys :: "('r \<Rightarrow> 'k) \<Rightarrow> 'r list \<Rightarrow> 'r list \<Rightarrow> bool" where
  "fresh_keys k rows old \<longleftrightarrow> distinct (map k rows) \<and> k ` set rows \<inter> k ` set old = {}"

lemma fresh_keys_append:
  "fresh_keys k rs old \<Longrightarrow> fresh_keys k rs' (old @ rs) \<Longrightarrow> fresh_keys k (rs @ rs') old"
  by (auto simp: fresh_keys_def)

lemma fresh_keys_distinct:
  "fresh_keys k rows old \<Longrightarrow> distinct (map k old) \<Longrightarrow> distinct (map k (old @ rows))"
  by (auto simp: fresh_keys_def)

definition attaches_refs :: "string \<Rightarrow> datetime \<Rightarrow> core_db \<Rightarrow> core_db \<Rightarrow> bool" where
  "attaches_refs x t d d' \<longleftrightarrow>
     (\<exists>rs es. d' = d\<lparr>refs := refs d @ rs, events := events d @ es\<rparr> \<and> length rs = length es \<and>
       (\<forall>r \<in> set rs. rr_exec r = x \<and> rr_relation r \<noteq> Input_rel \<and> rr_contract r = None) \<and>
       (rs \<noteq> [] \<longrightarrow> find_exec d x \<noteq> None) \<and>
       fresh_keys ref_key rs (refs d) \<and> (\<forall>e \<in> set es. final_event x t e) \<and>
       fresh_keys e_id es (events d))"

lemma attaches_refl: "attaches_refs x t d d"
  by (auto simp: attaches_refs_def fresh_keys_def intro!: exI [of _ "[]"])

lemma attaches_trans:
  assumes "attaches_refs x t a b" "attaches_refs x t b c"
  shows "attaches_refs x t a c"
proof -
  from assms(1) obtain r1 e1 where
    b: "b = a\<lparr>refs := refs a @ r1, events := events a @ e1\<rparr>" and l1: "length r1 = length e1"
    and p1: "\<forall>r \<in> set r1. rr_exec r = x \<and> rr_relation r \<noteq> Input_rel \<and> rr_contract r = None"
      "r1 \<noteq> [] \<longrightarrow> find_exec a x \<noteq> None" "fresh_keys ref_key r1 (refs a)"
      "\<forall>e \<in> set e1. final_event x t e" "fresh_keys e_id e1 (events a)"
    unfolding attaches_refs_def by blast
  from assms(2) obtain r2 e2 where
    c: "c = b\<lparr>refs := refs b @ r2, events := events b @ e2\<rparr>" and l2: "length r2 = length e2"
    and p2: "\<forall>r \<in> set r2. rr_exec r = x \<and> rr_relation r \<noteq> Input_rel \<and> rr_contract r = None"
      "r2 \<noteq> [] \<longrightarrow> find_exec b x \<noteq> None" "fresh_keys ref_key r2 (refs b)"
      "\<forall>e \<in> set e2. final_event x t e" "fresh_keys e_id e2 (events b)"
    unfolding attaches_refs_def by blast
  have keys: "fresh_keys ref_key (r1 @ r2) (refs a)" "fresh_keys e_id (e1 @ e2) (events a)"
    using p1 p2 by (auto simp: b intro: fresh_keys_append)
  have "c = a\<lparr>refs := refs a @ r1 @ r2, events := events a @ e1 @ e2\<rparr>" by (simp add: b c)
  moreover have "\<forall>r \<in> set (r1 @ r2). rr_exec r = x \<and> rr_relation r \<noteq> Input_rel \<and> rr_contract r = None"
    "\<forall>e \<in> set (e1 @ e2). final_event x t e"
    using p1 p2 by auto
  moreover have "r1 @ r2 \<noteq> [] \<longrightarrow> find_exec a x \<noteq> None"
    using p1(2) p2(2) by (auto simp: b find_exec_def)
  ultimately show ?thesis
    unfolding attaches_refs_def using keys l1 l2 by (metis length_append)
qed

interpretation attaching: evolution "attaches_refs x t" for x t
  by unfold_locales (auto intro: attaches_refl attaches_trans)

lemma attach_final_ref_attaches:
  assumes "attach_final_ref x t (r, rel, ety) w = (Inr u, w')"
    and "rel \<noteq> Input_rel" and "ety \<in> {Native_ref_discovered, Ref_attached}"
  shows "attaches_refs x t (store w) (store w')"
proof -
  from assms(1) consider "w' = w" | "(x, rel, r_type r, r_provider r, r_native r) \<notin> ref_key ` set (refs (store w))"
      "find_exec (store w) x \<noteq> None"
      "append_new_event ety x t [(''type'', ref_type_value (r_type r))] None
        (w\<lparr>store := (store w)\<lparr>refs := refs (store w) @ [new_ref_row x rel t None r]\<rparr>\<rparr>) = (Inr u, w')"
    by (auto simp: attach_final_ref_def run_iffs insert_ref_stmt_Inr split: if_splits)
  then show ?thesis
  proof cases
    case 2
    from append_new_event_effect [OF 2(3)] obtain ev where
      ev: "adds_event ety x t [(''type'', ref_type_value (r_type r))] None (store w) ev"
      and w': "store w' = (store w)\<lparr>refs := refs (store w) @ [new_ref_row x rel t None r],
        events := events (store w) @ [ev]\<rparr>"
      by (auto simp: adds_event_def)
    from 2 ev assms(2,3) show ?thesis
      unfolding attaches_refs_def
      by (intro exI [of _ "[new_ref_row x rel t None r]"] exI [of _ "[ev]"])
         (auto simp: w' adds_event_def final_event_def fresh_keys_def)
  qed (simp add: attaches_refl)
qed

lemma attach_final_refs_effect:
  assumes "for_each (attach_final_ref x t) items w = (Inr u, w')"
    and "\<forall>(r, rel, ety) \<in> set items. rel \<noteq> Input_rel \<and> ety \<in> {Native_ref_discovered, Ref_attached}"
  shows "attaches_refs x t (store w) (store w')"
  using assms
proof (induction items arbitrary: w)
  case (Cons i items)
  obtain r rel ety where i: "i = (r, rel, ety)" by (cases i) auto
  from Cons.prems(1) obtain v where h: "attach_final_ref x t i w = (Inr (), v)"
    and t: "for_each (attach_final_ref x t) items v = (Inr u, w')"
    by (auto simp: run_iffs)
  from h Cons.prems(2) have "attaches_refs x t (store w) (store v)"
    unfolding i by (intro attach_final_ref_attaches) auto
  moreover have "attaches_refs x t (store v) (store w')"
    using Cons.IH [OF t] Cons.prems(2) by simp
  ultimately show ?case by (rule attaches_trans)
qed (auto simp: run_iffs attaches_refl)

lemma final_refs_ok:
  "\<forall>(r, rel, ety) \<in> set (final_refs native output).
     rel \<noteq> Input_rel \<and> ety \<in> {Native_ref_discovered, Ref_attached}"
  by (auto simp: final_refs_def)

definition final_row :: "string \<Rightarrow> string \<Rightarrow> string \<Rightarrow> int \<Rightarrow> datetime \<Rightarrow> fin_row" where
  "final_row x key digest v t =
    \<lparr>f_exec = x, f_key = key, f_digest = digest, f_version = v, f_created = t\<rparr>"

definition commits_bundle ::
  "(string \<Rightarrow> string) \<Rightarrow> string \<Rightarrow> projection \<Rightarrow> string \<Rightarrow> string \<Rightarrow> datetime \<Rightarrow> execution \<Rightarrow>
     core_db \<Rightarrow> core_db \<Rightarrow> core_db \<Rightarrow> core_db \<Rightarrow> core_event \<Rightarrow> core_event \<Rightarrow> bool" where
  "commits_bundle H x p key digest t row d d1 d2 d' e1 e2 \<longleftrightarrow>
     attaches_refs x t d d1 \<and> appends_observations H x d1 d2 \<and>
     adds_event Execution_terminal x t
       [(''phase'', phase_value (p_phase p)), (''freshness'', freshness_value (p_freshness p)),
        (''bundle_digest'', digest)] None d2 e1 \<and>
     adds_event Execution_finalized x t [(''bundle_digest'', digest)] (Some key)
       (d2\<lparr>events := events d2 @ [e1]\<rparr>) e2 \<and>
     finalization_of_exec d2 x = None \<and> finalization_of_key d2 key = None \<and>
     d' = d2\<lparr>executions := update_where (\<lambda>r. x_id r = x \<and> x_version r = x_version row)
         (final_update p t) (executions d2),
       events := events d2 @ [e1, e2],
       finalizations := finalizations d2 @ [final_row x key digest (x_version row + 1) t]\<rparr>"

lemma append_observations_within:
  "within (appends_observations H x)
     (for_each (\<lambda>ob. pbind (append_observation H x t ob) (\<lambda>_. preturn ())) obs)"
  by (intro appending.within_for_each appending.within_pbind append_observation_within
      appending.within_preturn)

lemma commit_bundle_effect:
  assumes run: "commit_bundle H x p native output obs key digest t row w = (Inr rc, w')"
  shows "\<exists>d1 d2 e1 e2. commits_bundle H x p key digest t row (store w) d1 d2 (store w') e1 e2 \<and>
      (\<forall>ob \<in> set obs. frozen_input d1 x (o_contract ob) (o_ref ob))"
    "rc = \<lparr>fc_exec = x, fc_key = key, fc_digest = digest, fc_version = x_version row + 1\<rparr>"
proof -
  let ?dat = "[(''phase'', phase_value (p_phase p)), (''freshness'', freshness_value (p_freshness p)),
        (''bundle_digest'', digest)]"
  let ?upd = "\<lambda>d. d\<lparr>executions := update_where (\<lambda>r. x_id r = x \<and> x_version r = x_version row)
         (final_update p t) (executions d)\<rparr>"
  from run obtain v1 v2 v4 v5 where
    a: "for_each (attach_final_ref x t) (final_refs native output) w = (Inr (), v1)"
    and f: "\<forall>ob \<in> set obs. frozen_input (store v1) x (o_contract ob) (o_ref ob)"
    and o: "for_each (\<lambda>ob. pbind (append_observation H x t ob) (\<lambda>_. preturn ())) obs v1 = (Inr (), v2)"
    and e1: "append_new_event Execution_terminal x t ?dat None (v2\<lparr>store := ?upd (store v2)\<rparr>) = (Inr (), v4)"
    and e2: "append_new_event Execution_finalized x t [(''bundle_digest'', digest)] (Some key) v4 = (Inr (), v5)"
    and fin: "finalization_of_exec (store v5) x = None" "finalization_of_key (store v5) key = None"
    and w': "store w' = (store v5)\<lparr>finalizations := finalizations (store v5) @
        [final_row x key digest (x_version row + 1) t]\<rparr>"
    and rc: "rc = \<lparr>fc_exec = x, fc_key = key, fc_digest = digest, fc_version = x_version row + 1\<rparr>"
    by (auto simp: commit_bundle_def run_iffs require_frozen_all final_update_def final_row_def)
  show "rc = \<lparr>fc_exec = x, fc_key = key, fc_digest = digest, fc_version = x_version row + 1\<rparr>"
    by (fact rc)
  have 1: "attaches_refs x t (store w) (store v1)"
    by (rule attach_final_refs_effect [OF a final_refs_ok])
  have 2: "appends_observations H x (store v1) (store v2)"
    by (rule withinD [OF append_observations_within o])
  from append_new_event_effect [OF e1] obtain ev1 where
    ev1: "adds_event Execution_terminal x t ?dat None (store v2) ev1"
    and v4: "store v4 = (?upd (store v2))\<lparr>events := events (store v2) @ [ev1]\<rparr>"
    by (auto simp: adds_event_def)
  from append_new_event_effect [OF e2] obtain ev2 where
    ev2: "adds_event Execution_finalized x t [(''bundle_digest'', digest)] (Some key)
       ((store v2)\<lparr>events := events (store v2) @ [ev1]\<rparr>) ev2"
    and v5: "store v5 = (?upd (store v2))\<lparr>events := events (store v2) @ [ev1, ev2]\<rparr>"
    by (auto simp: v4 adds_event_def)
  from fin have "finalization_of_exec (store v2) x = None" "finalization_of_key (store v2) key = None"
    by (simp_all add: v5 finalization_of_exec_def finalization_of_key_def)
  with 1 2 ev1 ev2 f
  show "\<exists>d1 d2 e1 e2. commits_bundle H x p key digest t row (store w) d1 d2 (store w') e1 e2 \<and>
      (\<forall>ob \<in> set obs. frozen_input d1 x (o_contract ob) (o_ref ob))"
    unfolding commits_bundle_def
    by (intro exI [of _ "store v1"] exI [of _ "store v2"] exI [of _ ev1] exI [of _ ev2])
       (simp add: w' v5)
qed

lemma finalize_effect:
  assumes run: "finalize_execution H x p native output obs key digest t w = (Inr rc, w')"
  obtains (replay) row where "finalization_of_exec (store w) x = Some row" "f_key row = key"
      "f_digest row = digest" "w' = w"
      "rc = \<lparr>fc_exec = x, fc_key = key, fc_digest = digest, fc_version = f_version row\<rparr>"
  | (commit) row d1 d2 e1 e2 where "finalization_of_exec (store w) x = None"
      "finalization_of_key (store w) key = None" "find_exec (store w) x = Some row"
      "\<not> terminal (x_projection row)"
      "commits_bundle H x p key digest t row (store w) d1 d2 (store w') e1 e2"
      "\<forall>ob \<in> set obs. frozen_input d1 x (o_contract ob) (o_ref ob)"
      "rc = \<lparr>fc_exec = x, fc_key = key, fc_digest = digest, fc_version = x_version row + 1\<rparr>"
proof (cases "finalization_of_exec (store w) x")
  case (Some row)
  with run have "f_key row = key \<and> f_digest row = digest \<and> w' = w \<and>
      rc = \<lparr>fc_exec = x, fc_key = key, fc_digest = digest, fc_version = f_version row\<rparr>"
    by (auto simp: finalize_execution_def run_iffs split: if_splits)
  with Some replay show thesis by blast
next
  case None
  with run obtain row where key: "finalization_of_key (store w) key = None"
    and row: "find_exec (store w) x = Some row" "\<not> terminal (x_projection row)"
    and body: "commit_bundle H x p native output obs key digest t row w = (Inr rc, w')"
    by (auto simp: finalize_execution_def run_iffs terminal_def)
  from commit_bundle_effect [OF body] commit [OF None key row] show thesis by blast
qed

section \<open>Atomicity: what raises has written nothing\<close>

lemma atomic_attach_ref: "atomic (attach_ref x rel r e c)"
  unfolding attach_ref_def by (rule atomic_transaction)

lemma atomic_create_dispatch: "atomic (create_dispatch_with_inputs did x inputs digest key e)"
  unfolding create_dispatch_with_inputs_def by (intro atomic_intros)

lemma atomic_record_terminal: "atomic (record_dispatch_terminal did st ety c er extra)"
  unfolding record_dispatch_terminal_def by (intro atomic_intros)

lemma read_only_case_option:
  "(v = None \<Longrightarrow> read_only a) \<Longrightarrow> (\<And>x. v = Some x \<Longrightarrow> read_only (f x)) \<Longrightarrow>
     read_only (case v of None \<Rightarrow> a | Some x \<Rightarrow> f x)"
  by (cases v) auto

lemma read_only_pbind: "read_only m \<Longrightarrow> (\<And>x. read_only (k x)) \<Longrightarrow> read_only (pbind m k)"
  by (simp add: read_only_def same_store.within_pbind)

lemma atomic_record_accepted: "atomic (record_dispatch_accepted H did arg)"
  unfolding record_dispatch_accepted_def
  by (cases arg) (simp_all, (intro atomic_intros atomic_record_terminal read_only_case_option
      read_only_pbind)+)

lemma atomic_record_failed: "atomic (record_dispatch_failed did er)"
  unfolding record_dispatch_failed_def by (intro atomic_intros atomic_record_terminal)

lemma atomic_record_ambiguous: "atomic (record_dispatch_ambiguous did er)"
  unfolding record_dispatch_ambiguous_def by (intro atomic_intros)

lemma atomic_record_resource_state: "atomic (record_resource_state H x r st ev at)"
  unfolding record_resource_state_def commit_resource_state_def
  by (intro atomic_intros read_only_case_option)

lemma atomic_record_observations: "atomic (record_resource_observations H x obs at)"
  unfolding record_resource_observations_def
  by (cases "obs = []") (simp_all, (intro atomic_intros read_only_case_option)+)

lemma atomic_finalize: "atomic (finalize_execution H x p native output obs key digest t)"
  unfolding finalize_execution_def by (rule atomic_transaction)

end
