(* ===== verification/Core_Invariants.thy ===== *)
theory Core_Invariants
  imports Core_Effects
begin

text \<open>
  What holds of the Core's tables at all times, and how they may evolve. \<open>db_ok\<close> is the
  invariant of a database; \<open>evolves\<close> relates an earlier database to a later one (history
  is sealed); \<open>steps\<close> is both, and every service operation is \<open>within steps\<close>,
  whether it returns or raises.
\<close>

section \<open>Tables that grow\<close>

text \<open>Every old row is still there, in place, \<open>P\<close>-related to what it was; rows may have
  been appended.\<close>

definition grows :: "('r \<Rightarrow> 'r \<Rightarrow> bool) \<Rightarrow> 'r list \<Rightarrow> 'r list \<Rightarrow> bool" where
  "grows P xs ys \<longleftrightarrow> (\<exists>zs us. ys = zs @ us \<and> list_all2 P xs zs)"

lemma grows_append: "(\<And>r. P r r) \<Longrightarrow> grows P xs (xs @ us)"
  unfolding grows_def by (intro exI [of _ xs] exI [of _ us]) (simp add: list_all2_same)

lemma grows_refl: "(\<And>r. P r r) \<Longrightarrow> grows P xs xs"
  using grows_append [of P xs "[]"] by simp

lemma grows_update:
  assumes "\<And>r. P r r" and "\<And>r. r \<in> set xs \<Longrightarrow> p r \<Longrightarrow> P r (f r)"
  shows "grows P xs (update_where p f xs)"
  unfolding grows_def
  by (intro exI [of _ "update_where p f xs"] exI [of _ "[]"])
     (use assms in \<open>simp add: update_where_def list_all2_conv_all_nth\<close>)

lemma grows_trans:
  assumes tr: "\<And>a b c. P a b \<Longrightarrow> P b c \<Longrightarrow> P a c" and 1: "grows P xs ys" and 2: "grows P ys zs"
  shows "grows P xs zs"
proof -
  from 1 obtain as us where ys: "ys = as @ us" and a: "list_all2 P xs as" by (auto simp: grows_def)
  from 2 obtain bs vs where zs: "zs = bs @ vs" and b: "list_all2 P (as @ us) bs"
    unfolding ys by (auto simp: grows_def)
  from b obtain b1 b2 where bs: "bs = b1 @ b2" "list_all2 P as b1"
    by (auto simp: list_all2_append1)
  have "list_all2 P xs b1" by (rule list_all2_trans [OF tr a bs(2)])
  with zs bs show ?thesis by (auto simp: grows_def)
qed

lemma grows_mem: "grows P xs ys \<Longrightarrow> x \<in> set xs \<Longrightarrow> \<exists>y \<in> set ys. P x y"
  by (fastforce simp: grows_def list_all2_conv_all_nth in_set_conv_nth)

section \<open>Invariants of the tables\<close>

definition event_keys :: "core_event list \<Rightarrow> string list" where
  "event_keys es = concat (map (\<lambda>e. case e_key e of None \<Rightarrow> [] | Some k \<Rightarrow> [k]) es)"

definition events_ok :: "core_event list \<Rightarrow> bool" where
  "events_ok es \<longleftrightarrow> distinct (map e_id es) \<and> distinct (event_keys es) \<and> list_all event_ok es"

definition works_ok :: "work list \<Rightarrow> bool" where
  "works_ok ws \<longleftrightarrow> distinct (map w_id ws) \<and> list_all work_ok ws"

definition executions_ok :: "execution list \<Rightarrow> bool" where
  "executions_ok xs \<longleftrightarrow> distinct (map x_id xs) \<and>
     list_all (\<lambda>x. execution_ok x \<and> projection_ok (x_projection x)) xs"

definition refs_ok :: "ref_row list \<Rightarrow> bool" where
  "refs_ok rs \<longleftrightarrow> distinct (map ref_key rs) \<and>
     list_all (\<lambda>r. if rr_relation r = Input_rel then rr_contract r \<notin> {None, Some []}
       else rr_contract r = None) rs"

definition dispatches_ok :: "dispatch_row list \<Rightarrow> bool" where
  "dispatches_ok ds \<longleftrightarrow> distinct (map dp_id ds) \<and> distinct (map dp_exec ds) \<and>
     distinct (map dp_key ds) \<and>
     list_all (\<lambda>r. dp_state r \<in> {''requested'', ''accepted'', ''failed''} \<and> dp_digest r \<noteq> None) ds"

definition observations_ok :: "obs_row list \<Rightarrow> nat \<Rightarrow> bool" where
  "observations_ok os n \<longleftrightarrow> map ob_id os = [1..<n] \<and> 1 \<le> n \<and> distinct (map ob_digest os)"

definition finalizations_ok :: "fin_row list \<Rightarrow> bool" where
  "finalizations_ok fs \<longleftrightarrow> distinct (map f_exec fs) \<and> distinct (map f_key fs)"

text \<open>Foreign keys.\<close>

definition links_ok :: "core_db \<Rightarrow> bool" where
  "links_ok d \<longleftrightarrow>
     x_work ` set (executions d) \<subseteq> w_id ` set (works d) \<and>
     rr_exec ` set (refs d) \<subseteq> x_id ` set (executions d) \<and>
     dp_exec ` set (dispatches d) \<subseteq> x_id ` set (executions d) \<and>
     ob_exec ` set (observations d) \<subseteq> x_id ` set (executions d) \<and>
     f_exec ` set (finalizations d) \<subseteq> x_id ` set (executions d)"

text \<open>An Execution is terminal exactly when its finalization is recorded, and stamped as
  dispatched exactly when its Dispatch is.\<close>

definition seal_ok :: "core_db \<Rightarrow> bool" where
  "seal_ok d \<longleftrightarrow> (\<forall>x \<in> set (executions d).
     (terminal (x_projection x) \<longleftrightarrow> x_id x \<in> f_exec ` set (finalizations d)) \<and>
     (x_dispatched x \<noteq> None \<longleftrightarrow> x_id x \<in> dp_exec ` set (dispatches d)))"

text \<open>How often the ledger says that something happened to a subject.\<close>

definition event_count :: "event_type \<Rightarrow> string \<Rightarrow> core_event list \<Rightarrow> nat" where
  "event_count ty x es = count_where (\<lambda>e. e_type e = ty \<and> e_subject e = x) es"

definition in_state :: "string \<Rightarrow> dispatch_row option \<Rightarrow> nat" where
  "in_state st r = (case r of None \<Rightarrow> 0 | Some row \<Rightarrow> of_bool (dp_state row = st))"

text \<open>The ledger and the tables tell the same story.\<close>

definition ledger_ok :: "core_db \<Rightarrow> bool" where
  "ledger_ok d \<longleftrightarrow> (\<forall>x.
     event_count Execution_created x (events d) = of_bool (find_exec d x \<noteq> None) \<and>
     event_count Dispatch_requested x (events d) = of_bool (dispatch_of_exec d x \<noteq> None) \<and>
     event_count Dispatch_accepted x (events d) = in_state ''accepted'' (dispatch_of_exec d x) \<and>
     event_count Dispatch_failed x (events d) = in_state ''failed'' (dispatch_of_exec d x) \<and>
     event_count Execution_finalized x (events d) = of_bool (finalization_of_exec d x \<noteq> None))"

definition db_ok :: "core_db \<Rightarrow> bool" where
  "db_ok d \<longleftrightarrow> works_ok (works d) \<and> executions_ok (executions d) \<and> refs_ok (refs d) \<and>
     events_ok (events d) \<and> dispatches_ok (dispatches d) \<and>
     observations_ok (observations d) (obs_next d) \<and> finalizations_ok (finalizations d) \<and>
     links_ok d \<and> seal_ok d \<and> ledger_ok d"

lemma db_ok_empty: "db_ok empty_db"
  by (simp add: db_ok_def empty_db_def works_ok_def executions_ok_def refs_ok_def events_ok_def
      dispatches_ok_def observations_ok_def finalizations_ok_def links_ok_def seal_ok_def
      ledger_ok_def event_keys_def event_count_def count_where_def find_exec_def
      dispatch_of_exec_def finalization_of_exec_def in_state_def)

section \<open>Sealed history\<close>

definition work_evolves :: "work \<Rightarrow> work \<Rightarrow> bool" where
  "work_evolves a b \<longleftrightarrow> w_id a = w_id b \<and> w_objective a = w_objective b \<and>
     w_created a = w_created b \<and> w_version a \<le> w_version b \<and> (w_version a = w_version b \<longrightarrow> a = b)"

text \<open>The version of a row changes with every write to it; identity and provenance never
  change; a terminal Execution keeps its outcome, its start and its end.\<close>

definition exec_evolves :: "execution \<Rightarrow> execution \<Rightarrow> bool" where
  "exec_evolves a b \<longleftrightarrow> x_id a = x_id b \<and> x_work a = x_work b \<and> x_provider a = x_provider b \<and>
     x_created a = x_created b \<and> x_provenance a = x_provenance b \<and>
     x_version a \<le> x_version b \<and> (x_version a = x_version b \<longrightarrow> a = b) \<and>
     (terminal (x_projection a) \<longrightarrow> terminal (x_projection b) \<and>
        p_outcome (x_projection a) = p_outcome (x_projection b) \<and>
        x_started a = x_started b \<and> x_ended a = x_ended b)"

definition dispatch_evolves :: "dispatch_row \<Rightarrow> dispatch_row \<Rightarrow> bool" where
  "dispatch_evolves a b \<longleftrightarrow> dp_id a = dp_id b \<and> dp_exec a = dp_exec b \<and> dp_key a = dp_key b \<and>
     dp_digest a = dp_digest b \<and> dp_created a = dp_created b \<and>
     (dp_state a \<noteq> ''requested'' \<longrightarrow> a = b)"

text \<open>No INPUT appears on an Execution once it has a Dispatch.\<close>

definition inputs_frozen :: "core_db \<Rightarrow> core_db \<Rightarrow> bool" where
  "inputs_frozen d d' \<longleftrightarrow> (\<exists>rs. refs d' = refs d @ rs \<and>
     (\<forall>r \<in> set rs. rr_relation r = Input_rel \<longrightarrow> rr_exec r \<notin> dp_exec ` set (dispatches d)))"

definition evolves :: "core_db \<Rightarrow> core_db \<Rightarrow> bool" where
  "evolves d d' \<longleftrightarrow> prefix (events d) (events d') \<and> prefix (observations d) (observations d') \<and>
     prefix (finalizations d) (finalizations d') \<and> inputs_frozen d d' \<and>
     grows work_evolves (works d) (works d') \<and> grows exec_evolves (executions d) (executions d') \<and>
     grows dispatch_evolves (dispatches d) (dispatches d')"

lemma row_evolves_refl [simp]: "work_evolves v v" "exec_evolves x x" "dispatch_evolves r r"
  by (auto simp: work_evolves_def exec_evolves_def dispatch_evolves_def)

lemma work_evolves_trans: "work_evolves a b \<Longrightarrow> work_evolves b c \<Longrightarrow> work_evolves a c"
  by (auto simp: work_evolves_def)

lemma exec_evolves_trans: "exec_evolves a b \<Longrightarrow> exec_evolves b c \<Longrightarrow> exec_evolves a c"
  unfolding exec_evolves_def by (elim conjE, intro conjI) (auto dest: order_antisym)

lemma dispatch_evolves_trans:
  "dispatch_evolves a b \<Longrightarrow> dispatch_evolves b c \<Longrightarrow> dispatch_evolves a c"
  by (auto simp: dispatch_evolves_def)

lemma inputs_frozen_trans:
  assumes "inputs_frozen a b" "inputs_frozen b c"
    and g: "grows dispatch_evolves (dispatches a) (dispatches b)"
  shows "inputs_frozen a c"
proof -
  have "dp_exec ` set (dispatches a) \<subseteq> dp_exec ` set (dispatches b)"
    using grows_mem [OF g] by (force simp: dispatch_evolves_def)
  moreover from assms(1) obtain rs where "refs b = refs a @ rs"
    "\<forall>r \<in> set rs. rr_relation r = Input_rel \<longrightarrow> rr_exec r \<notin> dp_exec ` set (dispatches a)"
    by (auto simp: inputs_frozen_def)
  moreover from assms(2) obtain qs where "refs c = refs b @ qs"
    "\<forall>r \<in> set qs. rr_relation r = Input_rel \<longrightarrow> rr_exec r \<notin> dp_exec ` set (dispatches b)"
    by (auto simp: inputs_frozen_def)
  ultimately show ?thesis
    unfolding inputs_frozen_def by (intro exI [of _ "rs @ qs"]) auto
qed

lemma evolves_refl: "evolves d d"
  by (auto simp: evolves_def inputs_frozen_def intro: grows_refl)

lemma evolves_trans: "evolves a b \<Longrightarrow> evolves b c \<Longrightarrow> evolves a c"
  unfolding evolves_def
  by (meson prefix_order.trans inputs_frozen_trans grows_trans work_evolves_trans
      exec_evolves_trans dispatch_evolves_trans)

definition steps :: "core_db \<Rightarrow> core_db \<Rightarrow> bool" where
  "steps d d' \<longleftrightarrow> (db_ok d \<longrightarrow> db_ok d' \<and> evolves d d')"

interpretation core: evolution steps
  by unfold_locales (auto simp: steps_def evolves_refl intro: evolves_trans)

lemma within_steps_read_only: "read_only m \<Longrightarrow> within steps m"
  by (auto simp: read_only_def within_def core.R_refl)

section \<open>How the statements act on the table invariants\<close>

lemma event_keys_append [simp]:
  "event_keys (es @ [e]) = event_keys es @ (case e_key e of None \<Rightarrow> [] | Some k \<Rightarrow> [k])"
  by (simp add: event_keys_def)

lemma set_event_keys: "k \<in> set (event_keys es) \<longleftrightarrow> Some k \<in> e_key ` set es"
  by (induction es) (auto simp: event_keys_def split: option.splits)

lemma events_ok_add:
  "adds_event ty subj t dat k d e \<Longrightarrow> events_ok (events d) \<Longrightarrow> events_ok (events d @ [e])"
  by (auto simp: events_ok_def adds_event_def set_event_keys split: option.splits)

lemma works_ok_add:
  "works_ok ws \<Longrightarrow> work_ok v \<Longrightarrow> w_id v \<notin> w_id ` set ws \<Longrightarrow>
     works_ok (ws @ [v\<lparr>w_meta := dump (w_meta v)\<rparr>])"
  by (simp add: works_ok_def work_ok_def)

lemma works_ok_update:
  assumes "works_ok ws" "work_ok v"
  shows "works_ok (update_where p (work_update v) ws)"
proof -
  have "map w_id (update_where p (work_update v) ws) = map w_id ws"
    by (rule map_update_where) (simp add: work_update_def)
  with assms show ?thesis
    by (auto simp: works_ok_def list_all_iff set_update_where work_ok_def work_update_def)
qed

lemma executions_ok_add:
  "executions_ok xs \<Longrightarrow> execution_ok x \<Longrightarrow> projection_ok (x_projection x) \<Longrightarrow>
     x_id x \<notin> x_id ` set xs \<Longrightarrow> executions_ok (xs @ [x\<lparr>x_provenance := dump (x_provenance x)\<rparr>])"
  by (simp add: executions_ok_def execution_ok_def)

lemma executions_ok_update:
  assumes "executions_ok xs"
    and "\<And>r. r \<in> set xs \<Longrightarrow> p r \<Longrightarrow>
      x_id (f r) = x_id r \<and> x_work (f r) = x_work r \<and> x_provider (f r) = x_provider r \<and>
      x_provenance (f r) = x_provenance r \<and> projection_ok (x_projection (f r))"
  shows "executions_ok (update_where p f xs)"
proof -
  have "map x_id (update_where p f xs) = map x_id xs"
    using assms(2) by (auto simp: update_where_def)
  with assms show ?thesis
    by (auto simp: executions_ok_def list_all_iff set_update_where execution_ok_def)
qed

lemma event_count_append [simp]:
  "event_count ty x (es @ [e]) = event_count ty x es + of_bool (e_type e = ty \<and> e_subject e = x)"
  by (simp add: event_count_def count_where_def)

lemma find_exec_none: "find_exec d x = None \<longleftrightarrow> x \<notin> x_id ` set (executions d)"
  by (auto simp: find_exec_def find_None_iff)

lemma find_work_none: "find_work d x = None \<longleftrightarrow> x \<notin> w_id ` set (works d)"
  by (auto simp: find_work_def find_None_iff)

lemma find_dispatch_none: "find_dispatch d x = None \<longleftrightarrow> x \<notin> dp_id ` set (dispatches d)"
  by (auto simp: find_dispatch_def find_None_iff)

lemma dispatch_of_exec_none: "dispatch_of_exec d x = None \<longleftrightarrow> x \<notin> dp_exec ` set (dispatches d)"
  by (auto simp: dispatch_of_exec_def find_None_iff)

lemma dispatch_of_key_none: "dispatch_of_key d k = None \<longleftrightarrow> k \<notin> dp_key ` set (dispatches d)"
  by (auto simp: dispatch_of_key_def find_None_iff)

lemma finalization_of_exec_none:
  "finalization_of_exec d x = None \<longleftrightarrow> x \<notin> f_exec ` set (finalizations d)"
  by (auto simp: finalization_of_exec_def find_None_iff)

lemma finalization_of_key_none:
  "finalization_of_key d k = None \<longleftrightarrow> k \<notin> f_key ` set (finalizations d)"
  by (auto simp: finalization_of_key_def find_None_iff)

lemmas find_none = find_exec_none find_work_none find_dispatch_none dispatch_of_exec_none
  dispatch_of_key_none finalization_of_exec_none finalization_of_key_none

text \<open>The ledger formula, as a statement about ids.\<close>

definition state_of :: "dispatch_row list \<Rightarrow> string \<Rightarrow> string option" where
  "state_of ds x = map_option dp_state (find (\<lambda>r. dp_exec r = x) ds)"

definition ledger_fits :: "core_event list \<Rightarrow> string set \<Rightarrow> dispatch_row list \<Rightarrow> string set \<Rightarrow> bool" where
  "ledger_fits es xs ds fs \<longleftrightarrow> (\<forall>x.
     event_count Execution_created x es = of_bool (x \<in> xs) \<and>
     event_count Dispatch_requested x es = of_bool (x \<in> dp_exec ` set ds) \<and>
     event_count Dispatch_accepted x es = of_bool (state_of ds x = Some ''accepted'') \<and>
     event_count Dispatch_failed x es = of_bool (state_of ds x = Some ''failed'') \<and>
     event_count Execution_finalized x es = of_bool (x \<in> fs))"

lemma ledger_ok_alt:
  "ledger_ok d \<longleftrightarrow> ledger_fits (events d) (x_id ` set (executions d)) (dispatches d)
     (f_exec ` set (finalizations d))"
proof -
  have s: "in_state st (dispatch_of_exec d x) = of_bool (state_of (dispatches d) x = Some st)" for st x
    by (auto simp: in_state_def state_of_def dispatch_of_exec_def split: option.splits)
  show ?thesis by (simp add: ledger_ok_def ledger_fits_def s find_none)
qed

text \<open>An event of one of the kinds the ledger formula does not count.\<close>

definition uncounted :: "event_type \<Rightarrow> bool" where
  "uncounted ty \<longleftrightarrow> ty \<notin> {Execution_created, Dispatch_requested, Dispatch_accepted,
     Dispatch_failed, Execution_finalized}"

lemma ledger_fits_uncounted:
  "uncounted (e_type e) \<Longrightarrow> ledger_fits (es @ [e]) xs ds fs = ledger_fits es xs ds fs"
  by (auto simp: ledger_fits_def uncounted_def)

lemma steps_event:
  assumes e: "adds_event ty subj t dat k d e" and ty: "uncounted ty"
  shows "steps d (d\<lparr>events := events d @ [e]\<rparr>)"
  using assms events_ok_add [OF e]
  by (auto simp: steps_def db_ok_def links_ok_def seal_ok_def ledger_ok_alt adds_event_def
      ledger_fits_uncounted evolves_def inputs_frozen_def grows_refl)

section \<open>Every transaction is a step\<close>

lemmas steps_defs = steps_def db_ok_def links_ok_def seal_ok_def ledger_ok_alt
  evolves_def inputs_frozen_def

lemma update_where_keys:
  "(\<And>r. p r \<Longrightarrow> k (f r) = k r) \<Longrightarrow> k ` set (update_where p f rows) = k ` set rows"
  using map_update_where [of p k f rows] by (metis list.set_map)

lemma update_where_keys_on:
  "(\<And>r. r \<in> set rows \<Longrightarrow> p r \<Longrightarrow> k (f r) = k r) \<Longrightarrow>
     k ` set (update_where p f rows) = k ` set rows"
  by (induction rows) (auto simp: update_where_def)

lemma steps_add_work:
  assumes "work_ok v" "find_work d (w_id v) = None"
  shows "steps d (d\<lparr>works := works d @ [v\<lparr>w_meta := dump (w_meta v)\<rparr>]\<rparr>)"
  using assms works_ok_add [of "works d" v]
  by (auto simp: steps_defs find_none grows_refl grows_append)

lemma steps_update_work:
  assumes "work_ok v"
  shows "steps d (d\<lparr>works := update_where p (work_update v) (works d)\<rparr>)"
proof -
  have ids: "w_id ` set (update_where p (work_update v) (works d)) = w_id ` set (works d)"
    by (rule update_where_keys) (simp add: work_update_def)
  have "grows work_evolves (works d) (update_where p (work_update v) (works d))"
    by (rule grows_update) (auto simp: work_update_def work_evolves_def)
  with ids works_ok_update [of "works d" v p] assms show ?thesis
    by (auto simp: steps_defs grows_refl)
qed

lemma steps_create_work:
  assumes "work_ok v" "event_ok e" "uncounted (e_type e)"
  shows "within steps (create_work v e)"
  unfolding create_work_def
proof (intro core.within_pseq core.within_transactionI core.within_read_only reads)
  fix w x w'
  assume "pseq (exec_sql (insert_work v)) (append_event e) w = (Inr x, w')"
  then have new: "find_work (store w) (w_id v) = None"
    and app: "append_event e (w\<lparr>store := (store w)\<lparr>
      works := works (store w) @ [v\<lparr>w_meta := dump (w_meta v)\<rparr>]\<rparr>\<rparr>) = (Inr x, w')"
    by (auto simp: run_iffs)
  from append_event_effect [OF app assms(2)] steps_event [OF _ assms(3)]
  have "steps ((store w)\<lparr>works := works (store w) @ [v\<lparr>w_meta := dump (w_meta v)\<rparr>]\<rparr>) (store w')"
    by fastforce
  with steps_add_work [OF assms(1) new] show "steps (store w) (store w')" by (rule core.R_trans)
qed

lemma steps_update_work_prog:
  assumes "work_ok v" "event_ok e" "uncounted (e_type e)"
  shows "within steps (update_work v n e)"
  unfolding update_work_def
proof (intro core.within_pseq core.within_transactionI core.within_read_only reads)
  fix w :: "core_db world" and x w'
  let ?d = "(store w)\<lparr>works := update_where (\<lambda>r. w_id r = w_id v \<and> w_version r = n)
       (work_update v) (works (store w))\<rparr>"
  assume "pbind (exec_sql (update_works (\<lambda>r. w_id r = w_id v \<and> w_version r = n)
          (\<lambda>r. r\<lparr>w_lifecycle := w_lifecycle v, w_closure := w_closure v,
                 w_meta := dump (w_meta v), w_updated := w_updated v,
                 w_version := w_version r + 1\<rparr>))) (\<lambda>rowcount.
       pseq (raise_if (rowcount \<noteq> 1) (err ConcurrencyConflict (''work version changed: '' @ w_id v)))
         (append_event e)) w = (Inr x, w')"
  then have app: "append_event e (w\<lparr>store := ?d\<rparr>) = (Inr x, w')"
    by (auto simp: run_iffs work_update_def)
  from append_event_effect [OF app assms(2)] steps_event [OF _ assms(3)] have "steps ?d (store w')"
    by fastforce
  with steps_update_work [OF assms(1)] show "steps (store w) (store w')" by (rule core.R_trans)
qed

text \<open>An UPDATE of Executions that keeps identity, dispatch stamp and terminality.\<close>

lemma steps_update_executions:
  assumes f: "\<And>r. r \<in> set (executions d) \<Longrightarrow> p r \<Longrightarrow>
      exec_evolves r (f r) \<and> projection_ok (x_projection (f r)) \<and>
      x_dispatched (f r) = x_dispatched r \<and>
      terminal (x_projection (f r)) = terminal (x_projection r)"
  shows "steps d (d\<lparr>executions := update_where p f (executions d)\<rparr>)"
proof -
  let ?xs = "update_where p f (executions d)"
  have g: "grows exec_evolves (executions d) ?xs"
    by (rule grows_update) (use f in auto)
  have row: "\<exists>s \<in> set (executions d). x_id r = x_id s \<and> x_work r = x_work s \<and>
      x_dispatched r = x_dispatched s \<and> terminal (x_projection r) = terminal (x_projection s)"
    if r: "r \<in> set ?xs" for r
  proof -
    from r consider s where "s \<in> set (executions d)" "p s" "r = f s" | "r \<in> set (executions d)"
      by (auto simp: set_update_where)
    then show ?thesis
    proof cases
      case 1
      with f [OF 1(1,2)] show ?thesis by (intro bexI [of _ s]) (simp_all add: exec_evolves_def)
    qed blast
  qed
  have ids: "x_id ` set ?xs = x_id ` set (executions d)"
    by (rule update_where_keys_on) (use f in \<open>simp add: exec_evolves_def\<close>)
  have ok: "executions_ok (executions d) \<Longrightarrow> executions_ok ?xs"
    by (erule executions_ok_update) (use f in \<open>auto simp: exec_evolves_def\<close>)
  have works: "x_work ` set ?xs \<subseteq> x_work ` set (executions d)"
    using row by fastforce
  have seal: "seal_ok d \<Longrightarrow> seal_ok (d\<lparr>executions := ?xs\<rparr>)"
  proof (unfold seal_ok_def, intro ballI)
    fix r
    assume old: "\<forall>x \<in> set (executions d).
       (terminal (x_projection x) \<longleftrightarrow> x_id x \<in> f_exec ` set (finalizations d)) \<and>
       (x_dispatched x \<noteq> None \<longleftrightarrow> x_id x \<in> dp_exec ` set (dispatches d))"
      and "r \<in> set (executions (d\<lparr>executions := ?xs\<rparr>))"
    then obtain s where "s \<in> set (executions d)" "x_id r = x_id s" "x_dispatched r = x_dispatched s"
      "terminal (x_projection r) = terminal (x_projection s)" using row [of r] by auto
    with bspec [OF old, of s]
    show "(terminal (x_projection r) \<longleftrightarrow> x_id r \<in> f_exec ` set (finalizations (d\<lparr>executions := ?xs\<rparr>))) \<and>
       (x_dispatched r \<noteq> None \<longleftrightarrow> x_id r \<in> dp_exec ` set (dispatches (d\<lparr>executions := ?xs\<rparr>)))"
      by simp
  qed
  from ids works have links: "links_ok d \<Longrightarrow> links_ok (d\<lparr>executions := ?xs\<rparr>)"
    by (simp add: links_ok_def subset_trans [OF works])
  from g ids ok links seal show ?thesis
    by (simp add: steps_def db_ok_def ledger_ok_alt evolves_def inputs_frozen_def grows_refl)
qed

lemma exec_evolves_projection_update:
  assumes "terminal (x_projection r) = terminal (x_projection x)"
    and "terminal (x_projection r) \<Longrightarrow> p_outcome (x_projection r) = p_outcome (x_projection x) \<and>
      x_started r = x_started x \<and> x_ended r = x_ended x"
  shows "exec_evolves r (projection_update x r)"
  using assms by (auto simp: exec_evolves_def projection_update_def)

text \<open>The guard of a projection write: the row under the expected version is terminal exactly
  when the new projection is, and then nothing sealed changes.\<close>

definition projection_write_ok :: "execution \<Rightarrow> int \<Rightarrow> core_db \<Rightarrow> bool" where
  "projection_write_ok x n d \<longleftrightarrow> (\<forall>r \<in> set (executions d). x_id r = x_id x \<and> x_version r = n \<longrightarrow>
     terminal (x_projection r) = terminal (x_projection x) \<and>
     (terminal (x_projection r) \<longrightarrow> p_outcome (x_projection r) = p_outcome (x_projection x) \<and>
        x_started r = x_started x \<and> x_ended r = x_ended x))"

lemma steps_update_projection_body:
  assumes ok: "projection_write_ok x n d" and p: "projection_ok (x_projection x)"
  shows "steps d (d\<lparr>executions := update_where (\<lambda>r. x_id r = x_id x \<and> x_version r = n)
    (projection_update x) (executions d)\<rparr>)"
proof (rule steps_update_executions)
  fix r assume "r \<in> set (executions d)" and "x_id r = x_id x \<and> x_version r = n"
  with ok have g: "terminal (x_projection r) = terminal (x_projection x)"
    "terminal (x_projection r) \<Longrightarrow> p_outcome (x_projection r) = p_outcome (x_projection x) \<and>
      x_started r = x_started x \<and> x_ended r = x_ended x"
    by (auto simp: projection_write_ok_def)
  from exec_evolves_projection_update [OF g] p g(1)
  show "exec_evolves r (projection_update x r) \<and> projection_ok (x_projection (projection_update x r)) \<and>
      x_dispatched (projection_update x r) = x_dispatched r \<and>
      terminal (x_projection (projection_update x r)) = terminal (x_projection r)"
    by (simp add: projection_update_def)
qed

lemma steps_update_projection:
  assumes run: "update_projection x n e w = (r, w')"
    and ok: "projection_write_ok x n (store w)" "projection_ok (x_projection x)"
    and e: "event_ok e" "uncounted (e_type e)"
  shows "steps (store w) (store w')"
proof -
  let ?d = "(store w)\<lparr>executions := update_where (\<lambda>r. x_id r = x_id x \<and> x_version r = n)
    (projection_update x) (executions (store w))\<rparr>"
  let ?body = "pbind (exec_sql (update_executions (\<lambda>r. x_id r = x_id x \<and> x_version r = n)
          (projection_update x))) (\<lambda>rowcount.
       pseq (raise_if (rowcount \<noteq> 1)
           (err ConcurrencyConflict (''execution version changed: '' @ x_id x)))
         (append_event e))"
  have run': "pseq (transaction ?body) (get_execution (x_id x)) w = (r, w')"
    using run by (simp add: update_projection_def projection_update_def)
  obtain q v where body: "transaction ?body w = (q, v)" by fastforce
  have "store w' = store v"
  proof (cases q)
    case (Inl er)
    with run' body show ?thesis by (simp add: pseq_def pbind_def)
  next
    case (Inr y)
    with run' body have "get_execution (x_id x) v = (r, w')" by (simp add: pseq_def pbind_def)
    then show ?thesis by (rule read_only_store [OF read_only_get_execution])
  qed
  moreover have "steps (store w) (store v)"
  proof (cases q)
    case (Inl er)
    with body have "store v = store w" by (auto dest: transaction_Inl)
    then show ?thesis by (simp add: core.R_refl)
  next
    case (Inr y)
    with body have app: "append_event e (w\<lparr>store := ?d\<rparr>) = (Inr (), v)"
      by (auto simp: run_iffs)
    from append_event_effect [OF app e(1)] steps_event [OF _ e(2)] have "steps ?d (store v)"
      by fastforce
    with steps_update_projection_body [OF ok] show ?thesis by (rule core.R_trans)
  qed
  ultimately show ?thesis by simp
qed

lemma ledger_fits_created:
  assumes "ledger_fits es xs ds fs" "e_type e = Execution_created" "e_subject e \<notin> xs"
  shows "ledger_fits (es @ [e]) (insert (e_subject e) xs) ds fs"
  using assms by (auto simp: ledger_fits_def)

lemma steps_add_execution:
  assumes x: "execution_ok x" "projection_ok (x_projection x)" "\<not> terminal (x_projection x)"
      "x_dispatched x = None"
    and w: "x_work x \<in> w_id ` set (works d)" and new: "find_exec d (x_id x) = None"
    and ev: "adds_event Execution_created (x_id x) t dat k d ev"
  shows "steps d (d\<lparr>executions := executions d @ [x\<lparr>x_provenance := dump (x_provenance x)\<rparr>],
    events := events d @ [ev]\<rparr>)"
    (is "steps d ?d'")
  unfolding steps_def
proof (intro impI conjI)
  assume ok: "db_ok d"
  have id: "x_id x \<notin> x_id ` set (executions d)" using new by (simp add: find_none)
  with ok have no: "x_id x \<notin> f_exec ` set (finalizations d)" "x_id x \<notin> dp_exec ` set (dispatches d)"
    by (auto simp: db_ok_def links_ok_def)
  have "executions_ok (executions ?d')"
    using ok x id by (simp add: db_ok_def executions_ok_add)
  moreover have "events_ok (events ?d')"
    using ok events_ok_add [OF ev] by (simp add: db_ok_def)
  moreover have "links_ok ?d'"
    using ok w by (auto simp: db_ok_def links_ok_def)
  moreover have "seal_ok ?d'"
    using ok no x by (simp add: db_ok_def seal_ok_def)
  moreover have "ledger_ok ?d'"
    using ok ledger_fits_created [of "events d" _ _ _ ev] ev id
    by (simp add: db_ok_def ledger_ok_alt adds_event_def)
  ultimately show "db_ok ?d'" using ok by (simp add: db_ok_def)
  show "evolves d ?d'"
    by (simp add: evolves_def inputs_frozen_def grows_refl grows_append)
qed

lemma read_only_check_created: "read_only (check_created_event x e)"
  unfolding check_created_event_def
  by (intro read_only_case_option read_only_pbind read_only_basic)

lemma steps_create_execution_body:
  assumes x: "execution_ok x" "projection_ok (x_projection x)" "\<not> terminal (x_projection x)"
      "x_dispatched x = None"
    and e: "event_ok e" "e_type e = Execution_created" "e_subject e = x_id x"
  shows "within steps (transaction
    (pbind (exec_sql (insert_execution x)) (\<lambda>rowcount.
       if rowcount \<noteq> 1 then
         pbind (fetch_row (\<lambda>d. find_work d (x_work x)) (err WorkNotFound (x_work x))) (\<lambda>row.
           praise (err WorkNotOpen (''work is not open: '' @ x_work x @ '' (''
             @ lifecycle_value (w_lifecycle row) @ '')'')))
       else append_event e)))"
proof (rule core.within_transactionI)
  fix w :: "core_db world" and y w'
  assume run: "pbind (exec_sql (insert_execution x)) (\<lambda>rowcount.
       if rowcount \<noteq> 1 then
         pbind (fetch_row (\<lambda>d. find_work d (x_work x)) (err WorkNotFound (x_work x))) (\<lambda>row.
           praise (err WorkNotOpen (''work is not open: '' @ x_work x @ '' (''
             @ lifecycle_value (w_lifecycle row) @ '')'')))
       else append_event e) w = (Inr y, w')"
  then obtain v where ins: "insert_execution x (store w) = Inr (Suc 0, v)"
    and app: "append_event e (w\<lparr>store := v\<rparr>) = (Inr (), w')"
    by (auto simp: run_iffs split: if_splits)
  note i = ins [unfolded insert_execution_1]
  from append_event_effect [OF app e(1)] i e obtain ev where
    ev: "adds_event Execution_created (x_id x) (e_at e) (e_data e) (e_key e) (store w) ev"
    and w': "store w' = (store w)\<lparr>
      executions := executions (store w) @ [x\<lparr>x_provenance := dump (x_provenance x)\<rparr>],
      events := events (store w) @ [ev]\<rparr>"
    by (auto simp: adds_event_def)
  from i have "x_work x \<in> w_id ` set (works (store w))" "find_exec (store w) (x_id x) = None"
    by force+
  from steps_add_execution [OF x this ev] show "steps (store w) (store w')" by (simp add: w')
qed

lemma steps_create_execution:
  assumes x: "execution_ok x" "projection_ok (x_projection x)" "\<not> terminal (x_projection x)"
      "x_dispatched x = None"
    and e: "event_ok e" "e_type e = Execution_created" "e_subject e = x_id x"
  shows "within steps (create_execution x e)"
  unfolding create_execution_def
  by (intro core.within_pseq core.within_basic core.within_read_only read_only_check_created
      read_only_get_execution steps_create_execution_body assms)

section \<open>Refs and Dispatches\<close>

lemma refs_ok_add:
  "refs_ok rs \<Longrightarrow> fresh_keys ref_key qs rs \<Longrightarrow>
     \<forall>r \<in> set qs. (if rr_relation r = Input_rel then rr_contract r \<notin> {None, Some []}
       else rr_contract r = None) \<Longrightarrow> refs_ok (rs @ qs)"
  by (auto simp: refs_ok_def list_all_iff fresh_keys_def)

lemma steps_add_refs:
  assumes "fresh_keys ref_key qs (refs d)"
    and "\<forall>r \<in> set qs. (if rr_relation r = Input_rel then rr_contract r \<notin> {None, Some []}
       else rr_contract r = None)"
    and "\<forall>r \<in> set qs. rr_exec r \<in> x_id ` set (executions d)"
    and "\<forall>r \<in> set qs. rr_relation r = Input_rel \<longrightarrow> rr_exec r \<notin> dp_exec ` set (dispatches d)"
  shows "steps d (d\<lparr>refs := refs d @ qs\<rparr>)"
proof -
  have "links_ok d \<Longrightarrow> links_ok (d\<lparr>refs := refs d @ qs\<rparr>)"
    using assms(3) by (auto simp: links_ok_def)
  with refs_ok_add [OF _ assms(1,2)] assms(4) show ?thesis
    by (auto simp: steps_def db_ok_def seal_ok_def ledger_ok_alt evolves_def inputs_frozen_def grows_refl)
qed

lemma steps_attach_ref:
  assumes e: "event_ok e" "uncounted (e_type e)"
  shows "within steps (attach_ref x rel r e c)"
proof (rule core.within_atomic [OF atomic_attach_ref])
  fix w u w' assume run: "attach_ref x rel r e c w = (Inr u, w')"
  note eff = attach_ref_effect [OF run e(1)]
  let ?row = "new_ref_row x rel (e_at e) (if rel = Input_rel then effective_contract c e else None) r"
  from eff(3) show "steps (store w) (store w')"
  proof (elim disjE conjE exE)
    assume "store w' = store w" then show ?thesis by (simp add: core.R_refl)
  next
    fix ev
    assume new: "(x, rel, r_type r, r_provider r, r_native r) \<notin> ref_key ` set (refs (store w))"
      and ev: "adds_event (e_type e) (e_subject e) (e_at e) (e_data e) (e_key e) (store w) ev"
      and w': "store w' = (store w)\<lparr>refs := refs (store w) @ [?row], events := events (store w) @ [ev]\<rparr>"
    have "steps (store w) ((store w)\<lparr>refs := refs (store w) @ [?row]\<rparr>)"
      using eff(1,2) new by (intro steps_add_refs) (auto simp: fresh_keys_def find_none)
    moreover have "steps ((store w)\<lparr>refs := refs (store w) @ [?row]\<rparr>) (store w')"
      using steps_event [of "e_type e" "e_subject e" "e_at e" "e_data e" "e_key e"
          "(store w)\<lparr>refs := refs (store w) @ [?row]\<rparr>" ev] ev e(2)
      by (simp add: w' adds_event_def)
    ultimately show ?thesis by (rule core.R_trans)
  qed
qed

lemma state_of_append:
  "state_of (ds @ [r]) x = (if state_of ds x \<noteq> None then state_of ds x
     else if dp_exec r = x then Some (dp_state r) else None)"
  by (auto simp: state_of_def find_append_row split: option.splits)

lemma state_of_none: "state_of ds x = None \<longleftrightarrow> x \<notin> dp_exec ` set ds"
  by (auto simp: state_of_def find_None_iff)

lemma ledger_fits_requested:
  assumes "ledger_fits es xs ds fs" "e_type e = Dispatch_requested" "e_subject e = dp_exec r"
    "dp_exec r \<notin> dp_exec ` set ds" "dp_state r = ''requested''"
  shows "ledger_fits (es @ [e]) xs (ds @ [r]) fs"
proof -
  from assms(4) have none: "state_of ds (dp_exec r) = None" by (simp add: state_of_none)
  with assms show ?thesis by (auto simp: ledger_fits_def state_of_append)
qed

lemma steps_create_dispatch:
  assumes e: "event_ok e" "e_type e = Dispatch_requested" "e_subject e = x"
  shows "within steps (create_dispatch_with_inputs did x inputs digest key e)"
proof (rule core.within_atomic [OF atomic_create_dispatch])
  fix w u w' assume run: "create_dispatch_with_inputs did x inputs digest key e w = (Inr u, w')"
  note eff = create_dispatch_effect [OF run e(1)]
  let ?d = "store w" and ?rows = "map (input_row x (e_at e)) inputs"
  let ?xs = "update_where (\<lambda>r. x_id r = x) (dispatched_update (e_at e)) (executions ?d)"
  from eff(8) obtain ev where
    ev: "adds_event (e_type e) (e_subject e) (e_at e) (e_data e) (e_key e) ?d ev"
    and w': "store w' = ?d\<lparr>refs := refs ?d @ ?rows,
       dispatches := dispatches ?d @ [requested_row did x key digest (e_at e)],
       executions := ?xs, events := events ?d @ [ev]\<rparr>"
    by blast
  have x: "x \<in> x_id ` set (executions ?d)" "x \<notin> dp_exec ` set (dispatches ?d)"
    using eff(1,2) by (auto simp: find_none)
  have 1: "steps ?d (?d\<lparr>refs := refs ?d @ ?rows\<rparr>)"
    using eff(5,6,7) x by (intro steps_add_refs) (auto simp: fresh_keys_def input_row_def)
  let ?d1 = "?d\<lparr>refs := refs ?d @ ?rows\<rparr>"
  have ids: "x_id ` set ?xs = x_id ` set (executions ?d)"
    "x_work ` set ?xs = x_work ` set (executions ?d)"
    by (rule update_where_keys, simp add: dispatched_update_def)+
  have 2: "steps ?d1 (store w')"
    unfolding steps_def
  proof (intro impI conjI)
    assume ok: "db_ok ?d1"
    have "executions_ok ?xs"
      by (rule executions_ok_update)
         (use ok in \<open>auto simp: db_ok_def executions_ok_def list_all_iff dispatched_update_def\<close>)
    moreover have "events_ok (events ?d @ [ev])"
      using ok events_ok_add [OF ev] by (simp add: db_ok_def)
    moreover have "dispatches_ok (dispatches (store w'))"
      using ok eff(2,3,4) by (simp add: w' db_ok_def dispatches_ok_def requested_row_def find_none)
    moreover have "links_ok (store w')"
      using ok ids x by (auto simp: w' db_ok_def links_ok_def requested_row_def)
    moreover have "seal_ok (store w')"
      using ok x by (auto simp: w' db_ok_def seal_ok_def set_update_where dispatched_update_def
          requested_row_def)
    moreover have "ledger_ok (store w')"
      using ok ids x ev e
        ledger_fits_requested [of "events ?d" "x_id ` set (executions ?d)" "dispatches ?d"
          "f_exec ` set (finalizations ?d)" ev "requested_row did x key digest (e_at e)"]
      by (simp add: w' db_ok_def ledger_ok_alt adds_event_def requested_row_def)
    ultimately show "db_ok (store w')" using ok by (simp add: w' db_ok_def)
    have "grows exec_evolves (executions ?d) ?xs"
      by (rule grows_update) (auto simp: exec_evolves_def dispatched_update_def)
    then show "evolves ?d1 (store w')"
      by (simp add: w' evolves_def inputs_frozen_def grows_refl grows_append)
  qed
  from 1 2 show "steps (store w) (store w')" by (rule core.R_trans)
qed

lemma find_dispatch_Some: "find_dispatch d i = Some r \<Longrightarrow> r \<in> set (dispatches d) \<and> dp_id r = i"
  by (auto simp: find_dispatch_def find_Some_iff)

lemma find_update_one:
  "distinct (map k ds) \<Longrightarrow> row \<in> set ds \<Longrightarrow> k (f row) = k row \<Longrightarrow>
     find (\<lambda>r. k r = x) (update_where (\<lambda>r. r = row) f ds) =
       (if x = k row then Some (f row) else find (\<lambda>r. k r = x) ds)"
proof (induction ds)
  case (Cons a ds)
  show ?case
  proof (cases "a = row")
    case True
    with Cons.prems have "row \<notin> set ds" by auto
    then have "update_where (\<lambda>r. r = row) f ds = ds"
      by (auto simp: update_where_def intro: map_idI)
    with True Cons.prems show ?thesis by (simp add: update_where_def)
  next
    case False
    with Cons show ?thesis by (auto simp: update_where_def)
  qed
qed simp

lemma state_of_update:
  assumes ds: "dispatches_ok ds" and row: "row \<in> set ds"
    and f: "dp_exec (f row) = dp_exec row" "dp_state (f row) = st"
  shows "state_of (update_where (\<lambda>r. dp_id r = dp_id row) f ds) x =
    (if x = dp_exec row then Some st else state_of ds x)"
proof -
  have "r = row" if "r \<in> set ds" "dp_id r = dp_id row" for r
    using that ds row by (auto simp: dispatches_ok_def distinct_map inj_on_def)
  then have "update_where (\<lambda>r. dp_id r = dp_id row) f ds = update_where (\<lambda>r. r = row) f ds"
    by (auto simp: update_where_def)
  then show ?thesis
    using find_update_one [of dp_exec ds row f x] assms by (simp add: state_of_def dispatches_ok_def)
qed

text \<open>A rewrite of one Dispatch row that keeps its identity, together with an event that
  the ledger formula expects for the new state.\<close>

lemma steps_dispatch_state:
  assumes row: "find_dispatch d did = Some row" "dp_state row = ''requested''"
    and st: "st = ''accepted'' \<and> ety = Dispatch_accepted \<or> st = ''failed'' \<and> ety = Dispatch_failed"
    and ev: "adds_event ety (dp_exec row) t' dat k d ev"
  shows "steps d (d\<lparr>dispatches := update_where (\<lambda>r. dp_id r = did) (state_update st c t) (dispatches d),
    events := events d @ [ev]\<rparr>)" (is "steps d ?d'")
  unfolding steps_def
proof (intro impI conjI)
  let ?ds = "update_where (\<lambda>r. dp_id r = did) (state_update st c t) (dispatches d)"
  assume ok: "db_ok d"
  then have dok: "dispatches_ok (dispatches d)" by (simp add: db_ok_def)
  from find_dispatch_Some [OF row(1)] have mem: "row \<in> set (dispatches d)" "dp_id row = did" by auto
  have keys: "map dp_id ?ds = map dp_id (dispatches d)" "map dp_exec ?ds = map dp_exec (dispatches d)"
    "map dp_key ?ds = map dp_key (dispatches d)"
    by (rule map_update_where, simp add: state_update_def)+
  then have execs: "dp_exec ` set ?ds = dp_exec ` set (dispatches d)" by (metis list.set_map)
  have "dispatches_ok ?ds"
    using dok keys st by (auto simp: dispatches_ok_def list_all_iff set_update_where state_update_def)
  moreover have "events_ok (events d @ [ev])"
    using ok events_ok_add [OF ev] by (simp add: db_ok_def)
  moreover have "ledger_fits (events d @ [ev]) (x_id ` set (executions d)) ?ds (f_exec ` set (finalizations d))"
  proof -
    have s: "state_of ?ds x = (if x = dp_exec row then Some st else state_of (dispatches d) x)" for x
      using state_of_update [OF dok mem(1), of "state_update st c t" st x] mem(2)
      by (simp add: state_update_def)
    have r: "state_of (dispatches d) (dp_exec row) = Some ''requested''"
      using find_keyed [of dp_exec "dispatches d" "dp_exec row" row] dok mem row(2)
      by (simp add: state_of_def dispatches_ok_def)
    have fits: "ledger_fits (events d) (x_id ` set (executions d)) (dispatches d)
        (f_exec ` set (finalizations d))"
      using ok by (simp add: db_ok_def ledger_ok_alt)
    from st ev fits r show ?thesis
      by (auto simp: ledger_fits_def s execs adds_event_def)
  qed
  moreover have "links_ok ?d'" "seal_ok ?d'"
    using ok execs by (simp_all add: db_ok_def links_ok_def seal_ok_def)
  ultimately show "db_ok ?d'" using ok by (simp add: db_ok_def ledger_ok_alt)
  have "grows dispatch_evolves (dispatches d) ?ds"
  proof (rule grows_update)
    fix r assume "r \<in> set (dispatches d)" "dp_id r = did"
    with mem dok have "r = row" by (auto simp: dispatches_ok_def distinct_map inj_on_def)
    with row(2) show "dispatch_evolves r (state_update st c t r)"
      by (simp add: dispatch_evolves_def state_update_def)
  qed simp
  then show "evolves d ?d'"
    by (simp add: evolves_def inputs_frozen_def grows_refl)
qed

lemma steps_record_terminal:
  assumes st: "st = ''accepted'' \<and> ety = Dispatch_accepted \<or> st = ''failed'' \<and> ety = Dispatch_failed"
  shows "within steps (record_dispatch_terminal did st ety c er extra)"
proof (rule core.within_atomic [OF atomic_record_terminal])
  fix w y w' assume "record_dispatch_terminal did st ety c er extra w = (Inr y, w')"
  then show "steps (store w) (store w')"
    by (cases rule: record_dispatch_terminal_effect)
       (auto simp: core.R_refl intro: steps_dispatch_state [OF _ _ st])
qed

lemma steps_record_failed: "within steps (record_dispatch_failed did er)"
  unfolding record_dispatch_failed_def
  by (intro core.within_intros steps_record_terminal) simp

lemma steps_record_accepted: "within steps (record_dispatch_accepted H did arg)"
  unfolding record_dispatch_accepted_def
  by (cases arg)
     (simp_all, (intro core.within_intros core.within_branch steps_record_terminal; simp)+)

lemma steps_touch_dispatch:
  assumes row: "find_dispatch d did = Some row" "dp_state row = ''requested''"
  shows "steps d (d\<lparr>dispatches := update_where (\<lambda>r. dp_id r = did) (\<lambda>r. r\<lparr>dp_updated := t\<rparr>)
    (dispatches d)\<rparr>)" (is "steps d ?d'")
  unfolding steps_def
proof (intro impI conjI)
  let ?ds = "update_where (\<lambda>r. dp_id r = did) (\<lambda>r. r\<lparr>dp_updated := t\<rparr>) (dispatches d)"
  assume ok: "db_ok d"
  then have dok: "dispatches_ok (dispatches d)" by (simp add: db_ok_def)
  from find_dispatch_Some [OF row(1)] have mem: "row \<in> set (dispatches d)" "dp_id row = did" by auto
  have keys: "map dp_id ?ds = map dp_id (dispatches d)" "map dp_exec ?ds = map dp_exec (dispatches d)"
    "map dp_key ?ds = map dp_key (dispatches d)"
    by (rule map_update_where, simp)+
  then have execs: "dp_exec ` set ?ds = dp_exec ` set (dispatches d)" by (metis list.set_map)
  have "dispatches_ok ?ds"
    using dok keys by (auto simp: dispatches_ok_def list_all_iff set_update_where)
  moreover have "state_of ?ds x = state_of (dispatches d) x" for x
    using state_of_update [OF dok mem(1), of "\<lambda>r. r\<lparr>dp_updated := t\<rparr>" "''requested''" x] mem(2) row(2)
      find_keyed [of dp_exec "dispatches d" "dp_exec row" row] dok mem(1)
    by (auto simp: state_of_def dispatches_ok_def)
  ultimately show "db_ok ?d'"
    using ok execs by (simp add: db_ok_def ledger_ok_alt ledger_fits_def links_ok_def seal_ok_def)
  have "grows dispatch_evolves (dispatches d) ?ds"
  proof (rule grows_update)
    fix r assume "r \<in> set (dispatches d)" "dp_id r = did"
    with mem dok have "r = row" by (auto simp: dispatches_ok_def distinct_map inj_on_def)
    with row(2) show "dispatch_evolves r (r\<lparr>dp_updated := t\<rparr>)" by (simp add: dispatch_evolves_def)
  qed simp
  then show "evolves d ?d'"
    by (simp add: evolves_def inputs_frozen_def grows_refl)
qed

lemma steps_record_ambiguous: "within steps (record_dispatch_ambiguous did er)"
proof (rule core.within_atomic [OF atomic_record_ambiguous])
  fix w y w' assume "record_dispatch_ambiguous did er w = (Inr y, w')"
  then show "steps (store w) (store w')"
  proof (cases rule: record_dispatch_ambiguous_effect)
    case (1 row t ev)
    let ?d1 = "(store w)\<lparr>dispatches :=
      update_where (\<lambda>r. dp_id r = did) (\<lambda>r. r\<lparr>dp_updated := t\<rparr>) (dispatches (store w))\<rparr>"
    from 1(3) have "adds_event Dispatch_ambiguous (dp_exec row) t [(''dispatch_id'', did),
        (''stage'', ''start''), (''error'', take 256 (py_strip er))] None ?d1 ev"
      by (simp add: adds_event_def)
    from steps_event [OF this] 1(4) have "steps ?d1 (store w')" by (simp add: uncounted_def)
    with steps_touch_dispatch [OF 1(1,2)] show ?thesis by (rule core.R_trans)
  qed
qed

section \<open>Resource states, observations and finalization\<close>

lemma steps_record_state: "within steps (record_resource_state H x r st ev at)"
proof (rule core.within_atomic [OF atomic_record_resource_state])
  fix w y w' assume "record_resource_state H x r st ev at w = (Inr y, w')"
  from record_resource_state_effect [OF this] show "steps (store w) (store w')"
    using steps_event [of Projection_changed x _ _ None "store w"]
    by (auto simp: uncounted_def core.R_refl split: if_splits)
qed

lemma steps_appends_observations:
  assumes "appends_observations H x d d'"
  shows "steps d d'"
  unfolding steps_def
proof (intro impI conjI)
  from assms obtain rows where
    d': "d' = d\<lparr>observations := observations d @ rows, obs_next := obs_next d + length rows\<rparr>"
    and ex: "rows \<noteq> [] \<longrightarrow> find_exec d x \<noteq> None"
    and rows: "map ob_id rows = [obs_next d..<obs_next d + length rows]" "distinct (map ob_digest rows)"
       "ob_digest ` set rows \<inter> ob_digest ` set (observations d) = {}"
    and at: "\<forall>row \<in> set rows. ob_exec row = x"
    unfolding appends_observations_def by blast
  assume ok: "db_ok d"
  have "observations_ok (observations d') (obs_next d')"
    using ok rows upt_add_eq_append [of 1 "obs_next d" "length rows"]
    by (auto simp: d' db_ok_def observations_ok_def)
  moreover have "links_ok d'"
    using ok ex at by (cases "rows = []") (auto simp: d' db_ok_def links_ok_def find_none)
  ultimately show "db_ok d'" using ok by (simp add: d' db_ok_def seal_ok_def ledger_ok_alt)
  show "evolves d d'" by (simp add: d' evolves_def inputs_frozen_def grows_refl)
qed

lemma steps_record_observations: "within steps (record_resource_observations H x obs at)"
  by (rule core.within_atomic [OF atomic_record_observations])
     (blast dest: record_observations_effect(1) steps_appends_observations)

lemma events_ok_add_plain:
  "events_ok es \<Longrightarrow> fresh_keys e_id qs es \<Longrightarrow> \<forall>e \<in> set qs. e_key e = None \<and> event_ok e \<Longrightarrow>
     events_ok (es @ qs)"
proof (induction qs arbitrary: es)
  case (Cons q qs)
  then have "events_ok (es @ [q])"
    by (simp add: events_ok_def fresh_keys_def)
  moreover have "fresh_keys e_id qs (es @ [q])" using Cons.prems(2) by (auto simp: fresh_keys_def)
  ultimately show ?case using Cons.IH [of "es @ [q]"] Cons.prems(3) by simp
qed simp

lemma ledger_fits_uncounted_list:
  "\<forall>e \<in> set qs. uncounted (e_type e) \<Longrightarrow> ledger_fits (es @ qs) xs ds fs = ledger_fits es xs ds fs"
proof (induction qs arbitrary: es)
  case (Cons q qs)
  then show ?case
    using Cons.IH [of "es @ [q]"] ledger_fits_uncounted [of q es xs ds fs] by simp
qed simp

lemma steps_attaches_refs:
  assumes "attaches_refs x t d d'"
  shows "steps d d'"
proof -
  from assms obtain rs es where
    d': "d' = d\<lparr>refs := refs d @ rs, events := events d @ es\<rparr>"
    and rs: "\<forall>r \<in> set rs. rr_exec r = x \<and> rr_relation r \<noteq> Input_rel"
      "rs \<noteq> [] \<longrightarrow> find_exec d x \<noteq> None" "fresh_keys ref_key rs (refs d)"
      "\<forall>r \<in> set rs. rr_contract r = None"
    and es: "\<forall>e \<in> set es. final_event x t e" "fresh_keys e_id es (events d)"
    unfolding attaches_refs_def by blast
  have "steps d (d\<lparr>refs := refs d @ rs\<rparr>)"
    using rs by (intro steps_add_refs) (auto simp: find_none)
  moreover have "steps (d\<lparr>refs := refs d @ rs\<rparr>) d'"
  proof -
    have "\<forall>e \<in> set es. uncounted (e_type e)" "\<forall>e \<in> set es. e_key e = None \<and> event_ok e"
      using es(1) by (auto simp: final_event_def uncounted_def)
    with es(2) events_ok_add_plain [of "events d" es] show ?thesis
      by (simp add: d' steps_def db_ok_def links_ok_def seal_ok_def ledger_ok_alt evolves_def
          ledger_fits_uncounted_list inputs_frozen_def grows_refl)
  qed
  ultimately show ?thesis by (rule core.R_trans)
qed

lemma find_exec_row:
  "executions_ok (executions d) \<Longrightarrow> find_exec d x = Some row \<Longrightarrow>
     r \<in> set (executions d) \<Longrightarrow> x_id r = x \<Longrightarrow> r = row"
  by (auto simp: executions_ok_def distinct_map inj_on_def dest: find_exec_Some)

lemma ledger_fits_finalized:
  assumes "ledger_fits es xs ds fs" "e_type e1 = Execution_terminal"
    "e_type e2 = Execution_finalized" "e_subject e2 = x" "x \<notin> fs"
  shows "ledger_fits (es @ [e1, e2]) xs ds (insert x fs)"
proof -
  have "ledger_fits (es @ [e1]) xs ds fs"
    using assms(1,2) by (simp add: ledger_fits_uncounted uncounted_def)
  then have "ledger_fits ((es @ [e1]) @ [e2]) xs ds (insert x fs)"
    using assms(3,4,5) by (auto simp: ledger_fits_def simp del: append_assoc)
  then show ?thesis by simp
qed

text \<open>The committing statements of the bundle: projection, the two events, the receipt.\<close>

lemma steps_seal_execution:
  assumes row: "find_exec d x = Some row" "\<not> terminal (x_projection row)"
    and p: "terminal p" "projection_ok p"
    and e1: "adds_event Execution_terminal x t dat1 None d e1"
    and e2: "adds_event Execution_finalized x t dat2 k (d\<lparr>events := events d @ [e1]\<rparr>) e2"
    and fin: "finalization_of_exec d x = None" "finalization_of_key d key = None"
  shows "steps d (d\<lparr>executions := update_where (\<lambda>r. x_id r = x \<and> x_version r = x_version row)
         (final_update p t) (executions d),
       events := events d @ [e1, e2],
       finalizations := finalizations d @ [final_row x key digest v t]\<rparr>)" (is "steps d ?d'")
  unfolding steps_def
proof (intro impI conjI)
  let ?xs = "update_where (\<lambda>r. x_id r = x \<and> x_version r = x_version row) (final_update p t) (executions d)"
  assume ok: "db_ok d"
  then have xok: "executions_ok (executions d)" by (simp add: db_ok_def)
  note only = find_exec_row [OF xok row(1)]
  have ids: "x_id ` set ?xs = x_id ` set (executions d)" "x_work ` set ?xs = x_work ` set (executions d)"
    by (rule update_where_keys, simp add: final_update_def)+
  have x: "x \<in> x_id ` set (executions d)" using find_exec_Some [OF row(1)] by force
  have "executions_ok ?xs"
    by (rule executions_ok_update [OF xok]) (simp add: final_update_def p(2))
  moreover have "events_ok (events d @ [e1, e2])"
    using ok events_ok_add [OF e1] events_ok_add [OF e2] by (simp add: db_ok_def)
  moreover have "finalizations_ok (finalizations ?d')"
    using ok fin by (simp add: db_ok_def finalizations_ok_def final_row_def find_none)
  moreover have "links_ok ?d'"
    using ok ids x by (simp add: db_ok_def links_ok_def final_row_def)
  moreover have "seal_ok ?d'"
  proof (unfold seal_ok_def, intro ballI)
    fix r assume r: "r \<in> set (executions ?d')"
    have old: "\<forall>s \<in> set (executions d).
       (terminal (x_projection s) \<longleftrightarrow> x_id s \<in> f_exec ` set (finalizations d)) \<and>
       (x_dispatched s \<noteq> None \<longleftrightarrow> x_id s \<in> dp_exec ` set (dispatches d))"
      using ok by (simp add: db_ok_def seal_ok_def)
    from r consider s where "s \<in> set (executions d)" "x_id s = x" "r = final_update p t s"
      | "r \<in> set (executions d)" "x_id r \<noteq> x"
      using only by (fastforce simp: set_update_where)
    then show "(terminal (x_projection r) \<longleftrightarrow> x_id r \<in> f_exec ` set (finalizations ?d')) \<and>
       (x_dispatched r \<noteq> None \<longleftrightarrow> x_id r \<in> dp_exec ` set (dispatches ?d'))"
    proof cases
      case 1
      with bspec [OF old 1(1)] p(1) show ?thesis by (simp add: final_update_def final_row_def)
    next
      case 2
      with bspec [OF old 2(1)] show ?thesis by (simp add: final_row_def)
    qed
  qed
  moreover have "ledger_ok ?d'"
    using ok ids fin e1 e2
      ledger_fits_finalized [of "events d" "x_id ` set (executions d)" "dispatches d"
        "f_exec ` set (finalizations d)" e1 e2 x]
    by (simp add: db_ok_def ledger_ok_alt adds_event_def final_row_def find_none)
  ultimately show "db_ok ?d'" using ok by (simp add: db_ok_def)
  have "grows exec_evolves (executions d) ?xs"
  proof (rule grows_update)
    fix r assume "r \<in> set (executions d)" "x_id r = x \<and> x_version r = x_version row"
    with only have "r = row" by blast
    with row(2) show "exec_evolves r (final_update p t r)"
      by (simp add: exec_evolves_def final_update_def)
  qed simp
  then show "evolves d ?d'"
    by (simp add: evolves_def inputs_frozen_def grows_refl)
qed

lemma steps_commits_bundle:
  assumes c: "commits_bundle H x p key digest t row d d1 d2 d' e1 e2"
    and row: "find_exec d x = Some row" "\<not> terminal (x_projection row)"
    and p: "terminal p" "projection_ok p"
  shows "steps d d'"
proof -
  from c have 1: "attaches_refs x t d d1" and 2: "appends_observations H x d1 d2"
    by (simp_all add: commits_bundle_def)
  have "find_exec d2 x = Some row"
    using 1 2 row(1) by (auto simp: attaches_refs_def appends_observations_def find_exec_def)
  with c row(2) p have "steps d2 d'"
    unfolding commits_bundle_def by (auto intro!: steps_seal_execution)
  with steps_attaches_refs [OF 1] steps_appends_observations [OF 2] show ?thesis
    by (metis core.R_trans)
qed

lemma steps_finalize:
  assumes "terminal p" "projection_ok p"
  shows "within steps (finalize_execution H x p native output obs key digest t)"
proof (rule core.within_atomic [OF atomic_finalize])
  fix w rc w' assume "finalize_execution H x p native output obs key digest t w = (Inr rc, w')"
  then show "steps (store w) (store w')"
  proof (cases rule: finalize_effect)
    case replay
    then show ?thesis by (simp add: core.R_refl)
  next
    case (commit row d1 d2 e1 e2)
    from steps_commits_bundle [OF commit(5,3,4) assms] show ?thesis .
  qed
qed

end
