(* ===== verification/Core_Safety.thy ===== *)
theory Core_Safety
  imports Core_Invariants
begin

text \<open>
  The service operations keep the invariant and seal history, whatever their arguments, their
  providers and the clock do; the states a Core database can reach; and what follows for
  Dispatches and finalizations.
\<close>

section \<open>Programs that depend on what they read\<close>

context evolution begin

lemma within_pbind_known:
  assumes m: "within R m" and Q: "\<And>w x w'. m w = (Inr x, w') \<Longrightarrow> Q x"
    and k: "\<And>x. Q x \<Longrightarrow> within R (k x)"
  shows "within R (pbind m k)"
proof (rule withinI)
  fix w r w'
  assume run: "pbind m k w = (r, w')"
  obtain q v where mw: "m w = (q, v)" by fastforce
  show "R (store w) (store w')"
  proof (cases q)
    case (Inl e)
    with run mw withinD [OF m mw] show ?thesis by (auto simp: pbind_def)
  next
    case (Inr x)
    with run mw have kx: "k x v = (r, w')" by (simp add: pbind_def)
    from Q mw Inr have "within R (k x)" by (blast intro: k)
    from R_trans [OF withinD [OF m mw] withinD [OF this kx]] show ?thesis .
  qed
qed

lemma within_pbind_plift: "(\<And>x. r = Inr x \<Longrightarrow> within R (k x)) \<Longrightarrow> within R (pbind (plift r) k)"
  by (rule within_pbind_known [where Q = "\<lambda>x. r = Inr x"]) (auto simp: run_iffs within_plift)

end

text \<open>\<open>R\<close> from the stores that satisfy \<open>P\<close>.\<close>

definition within_from :: "('d \<Rightarrow> 'd \<Rightarrow> bool) \<Rightarrow> ('d \<Rightarrow> bool) \<Rightarrow> ('d, 'a) prog \<Rightarrow> bool" where
  "within_from R P m \<longleftrightarrow> (\<forall>w. P (store w) \<longrightarrow> R (store w) (store (snd (m w))))"

lemma within_fromI:
  "(\<And>w r w'. P (store w) \<Longrightarrow> m w = (r, w') \<Longrightarrow> R (store w) (store w')) \<Longrightarrow> within_from R P m"
  unfolding within_from_def by (metis prod.collapse)

lemma within_fromD:
  "within_from R P m \<Longrightarrow> P (store w) \<Longrightarrow> m w = (r, w') \<Longrightarrow> R (store w) (store w')"
  unfolding within_from_def by (metis snd_conv)

context evolution begin

lemma from_within: "within R m \<Longrightarrow> within_from R P m"
  by (simp add: within_from_def within_def)

lemma from_pbind:
  assumes m: "read_only m" and Q: "\<And>w x w'. P (store w) \<Longrightarrow> m w = (Inr x, w') \<Longrightarrow> Q x"
    and k: "\<And>x. Q x \<Longrightarrow> within_from R P (k x)"
  shows "within_from R P (pbind m k)"
proof (rule within_fromI)
  fix w r w' assume P: "P (store w)" and run: "pbind m k w = (r, w')"
  obtain q v where mw: "m w = (q, v)" by fastforce
  have v: "store v = store w" by (rule read_only_store [OF m mw])
  show "R (store w) (store w')"
  proof (cases q)
    case (Inl e)
    with run mw v show ?thesis by (auto simp: pbind_def R_refl)
  next
    case (Inr x)
    with run mw have kx: "k x v = (r, w')" by (simp add: pbind_def)
    from Q [OF P] mw Inr have "within_from R P (k x)" by (blast intro: k)
    from within_fromD [OF this _ kx] P v show ?thesis by simp
  qed
qed

lemma from_pseq:
  assumes m: "read_only m" and Q: "\<And>w x w'. P (store w) \<Longrightarrow> m w = (Inr x, w') \<Longrightarrow> Q"
    and k: "Q \<Longrightarrow> within_from R P k"
  shows "within_from R P (pseq m k)"
  unfolding pseq_def by (rule from_pbind [OF m, where Q = "\<lambda>_. Q"]) (rule Q, assumption+, rule k)

lemma from_any: "read_only m \<Longrightarrow> (\<And>x. within_from R P (k x)) \<Longrightarrow> within_from R P (pbind m k)"
  by (rule from_pbind [where Q = "\<lambda>_. True"]) auto

lemma from_plift: "(\<And>x. r = Inr x \<Longrightarrow> within_from R P (k x)) \<Longrightarrow> within_from R P (pbind (plift r) k)"
  by (rule from_pbind [where Q = "\<lambda>x. r = Inr x"]) (auto simp: run_iffs read_only_basic)

lemma from_raise_if: "(\<not> c \<Longrightarrow> within_from R P k) \<Longrightarrow> within_from R P (pseq (raise_if c e) k)"
  by (rule from_pseq [where Q = "\<not> c"]) (auto simp: run_iffs read_only_basic)

lemma from_check: "(r = Inr u \<Longrightarrow> within_from R P k) \<Longrightarrow> within_from R P (pseq (plift (r :: exn + unit)) k)"
  by (rule from_pseq [where Q = "r = Inr u"]) (auto simp: run_iffs read_only_basic)

text \<open>What a program reads first is known to the rest of it.\<close>

lemma within_pbind_read:
  assumes m: "read_only m" and Q: "\<And>w x w'. m w = (Inr x, w') \<Longrightarrow> Q x (store w)"
    and k: "\<And>x. within_from R (Q x) (k x)"
  shows "within R (pbind m k)"
proof (rule withinI)
  fix w r w' assume run: "pbind m k w = (r, w')"
  obtain q v where mw: "m w = (q, v)" by fastforce
  have v: "store v = store w" by (rule read_only_store [OF m mw])
  show "R (store w) (store w')"
  proof (cases q)
    case (Inl e)
    with run mw v show ?thesis by (auto simp: pbind_def R_refl)
  next
    case (Inr x)
    with run mw have kx: "k x v = (r, w')" by (simp add: pbind_def)
    from Q mw Inr v have "Q x (store v)" by simp
    from within_fromD [OF k this kx] v show ?thesis by simp
  qed
qed

end

lemma within_mk_event:
  assumes "\<And>e. event_ok e \<Longrightarrow> e_type e = ty \<Longrightarrow> e_subject e = subj \<Longrightarrow> within steps (k e)"
  shows "within steps (pbind (mk_event i ty subj t dat key) k)"
  by (rule core.within_pbind_known [where Q = "\<lambda>e. event_ok e \<and> e_type e = ty \<and> e_subject e = subj"])
     (use assms in \<open>auto simp: mk_event_def run_iffs event_ok_def core.within_plift\<close>)

lemma within_mk_work:
  "(\<And>v. work_ok v \<Longrightarrow> within steps (k v)) \<Longrightarrow> within steps (pbind (plift (mk_work x)) k)"
  by (rule core.within_pbind_known [where Q = work_ok])
     (auto simp: run_iffs mk_work_Inr core.within_plift)

section \<open>Every service operation is within the steps\<close>

lemmas steps_reads = reads [THEN core.within_read_only]

lemma steps_work_service_create: "within steps (work_service_create objective metadata)"
  unfolding work_service_create_def
  by (intro core.within_pbind core.within_basic within_mk_work within_mk_event steps_create_work)
     (auto simp: uncounted_def)

lemma steps_complete_work: "within steps (complete_work wid reason)"
  unfolding complete_work_def
  by (intro core.within_pbind core.within_basic within_mk_work within_mk_event
      steps_update_work_prog steps_reads) (auto simp: uncounted_def)

lemma steps_reopen_work: "within steps (reopen_work wid reason)"
  unfolding reopen_work_def
  by (intro core.within_pbind core.within_basic within_mk_work within_mk_event
      steps_update_work_prog steps_reads) (auto simp: uncounted_def)

lemma execution_created_event_Inr:
  "execution_created_event i x t prov intent = Inr e \<Longrightarrow>
     event_ok e \<and> e_type e = Execution_created \<and> e_subject e = x"
  by (auto simp: execution_created_event_def run_iffs event_ok_def split: sum.splits)

lemma steps_execution_service_create:
  "within steps (execution_service_create wid prov intent provenance)"
  unfolding execution_service_create_def
proof (rule core.within_pbind [OF core.within_now_utc], rule core.within_pbind [OF core.within_fresh_id],
    rule core.within_pbind_plift, rule core.within_pbind_plift,
    rule core.within_pbind [OF core.within_fresh_id], rule core.within_pbind_plift)
  fix now xid p x eid e
  assume p: "mk_projection Phase_unknown None None Stale now = Inr p"
    and x: "mk_execution \<lparr>x_id = xid, x_work = wid, x_provider = prov, x_projection = p,
        x_created = now, x_dispatched = None, x_started = None, x_ended = None,
        x_provenance = provenance, x_version = 0\<rparr> = Inr x"
    and e: "execution_created_event eid xid now prov intent = Inr e"
  from p have p: "projection_ok p" "\<not> terminal p"
    by (auto simp: mk_projection_Inr projection_ok_def terminal_def)
  from x have "execution_ok x" "x_projection x = p" "x_dispatched x = None" "x_id x = xid"
    by (auto simp: mk_execution_Inr)
  with p execution_created_event_Inr [OF e] show "within steps (create_execution x e)"
    by (intro steps_create_execution) auto
qed

lemma steps_fail_dispatch: "within steps (fail_dispatch x did e)"
  unfolding fail_dispatch_def by (intro core.within_pseq core.within_basic steps_record_failed)

lemma steps_ambiguous_dispatch: "within steps (ambiguous_dispatch x did e)"
  unfolding ambiguous_dispatch_def by (intro core.within_pseq core.within_basic steps_record_ambiguous)

lemma steps_run_dispatch: "within steps (run_dispatch H g p x did digest canonical)"
  unfolding run_dispatch_def
  by (intro core.within_branch core.within_pseq steps_fail_dispatch steps_ambiguous_dispatch
      steps_record_accepted steps_reads)

lemma steps_request_dispatch: "within steps (request_dispatch g x canonical digest key)"
  unfolding request_dispatch_def
  by (intro core.within_pbind core.within_pseq core.within_basic within_mk_event
      steps_create_dispatch steps_reads) auto

lemma steps_dispatch_execution: "within steps (dispatch_execution H g x items key)"
  unfolding dispatch_execution_def
  by (intro core.within_pbind core.within_basic core.within_branch steps_request_dispatch
      steps_run_dispatch steps_reads)

lemma projection_write_ok_current:
  assumes ok: "executions_ok (executions d)" and cur: "find_exec d x = Some current"
    and t: "terminal (x_projection current) = terminal (x_projection y)"
    and s: "terminal (x_projection current) \<Longrightarrow>
      p_outcome (x_projection current) = p_outcome (x_projection y) \<and>
      x_started current = x_started y \<and> x_ended current = x_ended y"
    and id: "x_id y = x"
  shows "projection_write_ok y n d"
  unfolding projection_write_ok_def
  using find_exec_row [OF ok cur] t s id by blast

lemma steps_db_ok: "(db_ok d \<Longrightarrow> steps d d') \<Longrightarrow> steps d d'"
  by (auto simp: steps_def)

lemma steps_write_projection:
  fixes current :: execution
  assumes p: "projection_ok p"
    and t: "terminal (x_projection current) = terminal p"
      "terminal (x_projection current) \<Longrightarrow> p_outcome p = p_outcome (x_projection current)"
    and x: "x_id current = x"
  shows "within_from steps (\<lambda>d. find_exec d x = Some current) (write_projection x current p)"
  unfolding write_projection_def
proof (rule core.from_any [OF read_only_basic(8)], rule core.from_plift,
    rule core.from_any [OF read_only_basic(10)], unfold mk_event_def, rule core.from_plift)
  fix now y eid e
  assume y: "mk_execution (changed_execution current p now) = Inr y"
    and e: "mk_core_event eid (if terminal p then Execution_terminal else Projection_changed) x now
        [(''phase'', phase_value (p_phase p)), (''freshness'', freshness_value (p_freshness p))] None = Inr e"
  from y have y: "y = changed_execution current p now" by (simp add: mk_execution_Inr)
  from e have e: "event_ok e" "uncounted (e_type e)"
    by (auto simp: run_iffs event_ok_def uncounted_def)
  show "within_from steps (\<lambda>d. find_exec d x = Some current) (update_projection y (x_version current) e)"
  proof (rule within_fromI, rule steps_db_ok)
    fix w r w'
    assume cur: "find_exec (store w) x = Some current" and ok: "db_ok (store w)"
      and run: "update_projection y (x_version current) e w = (r, w')"
    have act: "p_phase p \<noteq> Phase_active" if "terminal (x_projection current)"
      using t(1) that by (simp add: terminal_def)
    have "projection_write_ok y (x_version current) (store w)"
      by (rule projection_write_ok_current [of _ x current])
         (use ok cur t x act in \<open>auto simp: db_ok_def y changed_execution_def split: option.splits\<close>)
    from steps_update_projection [OF run this _ e] p show "steps (store w) (store w')"
      by (simp add: y changed_execution_def)
  qed
qed

lemma validate_transition_Inr:
  "validate_projection_transition x cur p = Inr u \<longleftrightarrow>
     (terminal cur \<longrightarrow> terminal p \<and> p_outcome p = p_outcome cur)"
  by (simp add: validate_projection_transition_def)

lemma steps_observe_projection:
  assumes p: "projection_ok p"
  shows "within steps (observe_projection x p)"
  unfolding observe_projection_def
proof (rule core.within_pbind_read [where Q = "\<lambda>current d. find_exec d x = Some current"])
  fix current :: execution
  let ?cur = "x_projection current"
  show "within_from steps (\<lambda>d. find_exec d x = Some current)
    (pseq (raise_if (\<not> terminal ?cur \<and> terminal p) (finalization_required x))
    (pseq (plift (validate_projection_transition x ?cur p))
    (if instant (p_observed_at p) < instant (p_observed_at ?cur) then preturn current
     else if same_projection_semantics p ?cur then preturn current
     else write_projection x current p)))"
  proof (rule core.from_raise_if, rule core.from_check [where u = "()"], goal_cases)
    case 1
    then have t: "terminal ?cur = terminal p" "terminal ?cur \<Longrightarrow> p_outcome p = p_outcome ?cur"
      by (auto simp: validate_transition_Inr)
    show ?case
    proof (cases "x_id current = x")
      case True
      with steps_write_projection [OF p t] show ?thesis
        by (auto intro: core.from_within core.within_preturn)
    next
      case False
      then show ?thesis by (auto simp: within_from_def dest: find_exec_Some)
    qed
  qed
qed (auto simp: get_execution_Inr read_only_get_execution)

lemma steps_apply_finalization:
  assumes "terminal (q_projection q)" "projection_ok (q_projection q)"
  shows "within steps (apply_finalization H q)"
  unfolding apply_finalization_def
  by (intro core.within_pbind core.within_basic core.within_branch steps_finalize assms steps_reads)

lemma steps_apply_observation:
  assumes "projection_ok p"
  shows "within steps (apply_observation H x p native output states obs)"
  unfolding apply_observation_def attach_observed_ref_def
  by (intro core.within_pbind core.within_pseq core.within_basic core.within_branch
      core.within_for_each within_mk_event steps_attach_ref steps_record_state
      steps_record_observations steps_observe_projection assms steps_reads)
     (auto simp: uncounted_def)

lemma steps_service_record: "within steps (service_record_observations H x obs)"
  unfolding service_record_observations_def
  by (intro core.within_pbind core.within_basic core.within_branch steps_record_observations
      steps_reads)

section \<open>Reachable databases\<close>

text \<open>
  The calls a host makes. \<open>Request_dispatch\<close> is a Dispatch whose process stops right
  after the request is committed; \<open>Attach\<close>, \<open>Record_state\<close> and the three
  \<open>Record\<close> calls are the repository methods hosts and recovery call directly.
\<close>

datatype core_op =
    Create_work string dict
  | Complete_work string string
  | Reopen_work string string
  | Create_execution string string string dict
  | Dispatch registry string "pyobj list" string
  | Request_dispatch registry string "pyobj list" string
  | Observe string projection
  | Finalize fin_request
  | Apply_observation string projection "ref list" "ref list" "pyobj list" "observation list"
  | Record_observations string "observation list"
  | Record_state string ref string "ref option" "datetime option"
  | Attach string relation ref core_event "string option"
  | Record_accepted string accepted_arg
  | Record_failed string string
  | Record_ambiguous string string

definition discard :: "'a core_prog \<Rightarrow> unit core_prog" where
  "discard m = pbind m (\<lambda>_. preturn ())"

fun run_op :: "(string \<Rightarrow> string) \<Rightarrow> core_op \<Rightarrow> unit core_prog" where
  "run_op H (Create_work objective metadata) = discard (work_service_create objective metadata)"
| "run_op H (Complete_work i reason) = discard (complete_work i reason)"
| "run_op H (Reopen_work i reason) = discard (reopen_work i reason)"
| "run_op H (Create_execution i prov intent provenance) =
    discard (execution_service_create i prov intent provenance)"
| "run_op H (Dispatch g x items key) = discard (dispatch_execution H g x items key)"
| "run_op H (Request_dispatch g x items key) =
    pbind (plift (canonicalize_input_shape items)) (\<lambda>canonical.
      discard (request_dispatch g x canonical (inputs_digest H canonical) key))"
| "run_op H (Observe x p) = discard (observe_projection x p)"
| "run_op H (Finalize q) = discard (apply_finalization H q)"
| "run_op H (Apply_observation x p native output states obs) =
    discard (apply_observation H x p native output states obs)"
| "run_op H (Record_observations x obs) = discard (service_record_observations H x obs)"
| "run_op H (Record_state x r st ev t) = discard (record_resource_state H x r st ev t)"
| "run_op H (Attach x rel r e c) = attach_ref x rel r e c"
| "run_op H (Record_accepted did arg) = discard (record_dispatch_accepted H did arg)"
| "run_op H (Record_failed did er) = discard (record_dispatch_failed did er)"
| "run_op H (Record_ambiguous did er) = discard (record_dispatch_ambiguous did er)"

text \<open>The arguments are values the constructors accept.\<close>

fun op_ok :: "core_op \<Rightarrow> bool" where
  "op_ok (Observe x p) = projection_ok p"
| "op_ok (Finalize q) = (terminal (q_projection q) \<and> projection_ok (q_projection q))"
| "op_ok (Apply_observation x p native output states obs) = projection_ok p"
| "op_ok (Attach x rel r e c) = (event_ok e \<and> uncounted (e_type e))"
| "op_ok _ = True"

lemma steps_run_op: "op_ok op \<Longrightarrow> within steps (run_op H op)"
  by (cases op)
     (auto simp: discard_def intro!: core.within_pbind core.within_basic steps_work_service_create
       steps_complete_work steps_reopen_work steps_execution_service_create
       steps_dispatch_execution steps_request_dispatch steps_observe_projection
       steps_apply_finalization steps_apply_observation steps_service_record steps_record_state
       steps_attach_ref steps_record_accepted steps_record_failed steps_record_ambiguous)

text \<open>Any sequence of calls, each with its own supply of ids and clock readings.\<close>

inductive core_runs :: "(string \<Rightarrow> string) \<Rightarrow> core_db \<Rightarrow> core_db \<Rightarrow> bool" for H where
  runs_refl: "core_runs H d d"
| runs_step: "core_runs H d (store w) \<Longrightarrow> op_ok op \<Longrightarrow> run_op H op w = (r, w') \<Longrightarrow>
    core_runs H d (store w')"

lemma core_runs_steps: "core_runs H d d' \<Longrightarrow> steps d d'"
proof (induction rule: core_runs.induct)
  case (runs_refl d)
  then show ?case by (rule core.R_refl)
next
  case (runs_step d w op r w')
  from withinD [OF steps_run_op [OF runs_step(2)] runs_step(3)] have "steps (store w) (store w')" .
  with runs_step(4) show ?case by (rule core.R_trans)
qed

lemma core_runs_trans: "core_runs H a b \<Longrightarrow> core_runs H b c \<Longrightarrow> core_runs H a c"
  by (rotate_tac, induction rule: core_runs.induct) (auto intro: runs_step)

lemma reachable_ok: "core_runs H empty_db d \<Longrightarrow> db_ok d"
  using core_runs_steps [of H empty_db d] db_ok_empty by (simp add: steps_def)

lemma reachable_evolves: "core_runs H empty_db d \<Longrightarrow> core_runs H d d' \<Longrightarrow> evolves d d'"
  using core_runs_steps [of H d d'] reachable_ok [of H d] by (simp add: steps_def)

end
