(* ===== verification/Core_Inputs.thy ===== *)
theory Core_Inputs
  imports Core_Service "HOL-Library.Multiset"
begin

text \<open>
  The canonical inputs of a Dispatch: which argument lists are accepted, that the result does
  not depend on the order of the arguments, that the digest determines it, and that the start
  request hands the provider exactly these inputs, resolved and of the registered classes.
\<close>

section \<open>Shaping\<close>

lemma shape_input_Inr:
  "shape_input item = Inr (c, r) \<longleftrightarrow> item = Py_tuple [Py_str c, Py_ref r] \<and> \<not> blank c"
proof (cases item)
  case (Py_tuple xs)
  consider "xs = []" | a where "xs = [a]" | a b where "xs = [a, b]" | a b e zs where "xs = a # b # e # zs"
    by (metis list.exhaust)
  then show ?thesis
  proof cases
    case (3 a b)
    then show ?thesis using Py_tuple by (cases a; cases b) (auto simp: shape_input_def)
  qed (auto simp: Py_tuple shape_input_def)
qed (auto simp: shape_input_def)

definition shaped :: "pyobj list \<Rightarrow> (string \<times> ref) list \<Rightarrow> bool" where
  "shaped items xs \<longleftrightarrow> map shape_input items = map Inr xs \<and> distinct (map (\<lambda>i. ref_identity (snd i)) xs)"

lemma find_identity_None:
  "find (\<lambda>(_, s). ref_identity s = a) acc = None \<longleftrightarrow> a \<notin> (\<lambda>i. ref_identity (snd i)) ` set acc"
  by (induction acc) auto

lemma shape_inputs_Inr:
  "distinct (map (\<lambda>i. ref_identity (snd i)) acc) \<Longrightarrow>
     shape_inputs items acc = Inr ys \<longleftrightarrow>
     (\<exists>xs. ys = acc @ xs \<and> map shape_input items = map Inr xs \<and>
        distinct (map (\<lambda>i. ref_identity (snd i)) (acc @ xs)))"
proof (induction items arbitrary: acc)
  case (Cons item items)
  show ?case
  proof (cases "shape_input item")
    case (Inr cr)
    obtain c r where cr: "cr = (c, r)" by (cases cr) auto
    show ?thesis
    proof (cases "find (\<lambda>(_, s). ref_identity s = ref_identity r) acc")
      case None
      then have new: "ref_identity r \<notin> (\<lambda>i. ref_identity (snd i)) ` set acc"
        by (simp add: find_identity_None)
      with Cons.prems have d: "distinct (map (\<lambda>i. ref_identity (snd i)) (acc @ [(c, r)]))" by auto
      have "shape_inputs (item # items) acc = Inr ys \<longleftrightarrow> shape_inputs items (acc @ [(c, r)]) = Inr ys"
        using Inr None by (simp add: cr)
      also have "\<dots> \<longleftrightarrow> (\<exists>xs. ys = (acc @ [(c, r)]) @ xs \<and> map shape_input items = map Inr xs \<and>
        distinct (map (\<lambda>i. ref_identity (snd i)) ((acc @ [(c, r)]) @ xs)))"
        by (rule Cons.IH [OF d])
      also have "\<dots> \<longleftrightarrow> (\<exists>xs. ys = acc @ xs \<and> map shape_input (item # items) = map Inr xs \<and>
        distinct (map (\<lambda>i. ref_identity (snd i)) (acc @ xs)))"
        using Inr by (auto simp: cr Cons_eq_map_conv)
      finally show ?thesis .
    next
      case (Some cs)
      then have dup: "ref_identity r \<in> (\<lambda>i. ref_identity (snd i)) ` set acc"
        using find_identity_None [of "ref_identity r" acc] by auto
      obtain c' s where "cs = (c', s)" by (cases cs) auto
      with Some Inr dup show ?thesis by (auto simp: cr Cons_eq_map_conv)
    qed
  qed (auto simp: Cons_eq_map_conv)
qed auto

lemma shape_inputs_shaped: "shape_inputs items [] = Inr xs \<longleftrightarrow> shaped items xs"
  using shape_inputs_Inr [of "[]" items xs] by (simp add: shaped_def)

lemma shaped_permuted:
  assumes "shaped items xs" "mset items = mset items'"
  shows "\<exists>ys. shaped items' ys \<and> mset ys = mset xs"
proof -
  have m: "image_mset shape_input (mset items) = image_mset Inr (mset xs)"
    using assms(1) unfolding shaped_def by (metis mset_map)
  then have "mset (map shape_input items') = image_mset Inr (mset xs)"
    by (simp add: assms(2))
  then have "set (map shape_input items') = Inr ` set xs"
    by (metis mset_map set_mset_mset image_mset.compositionality set_image_mset)
  then have all: "\<forall>v \<in> set (map shape_input items'). \<exists>y. v = Inr y"
    by auto
  define ys where "ys = map projr (map shape_input items')"
  have ys: "map shape_input items' = map Inr ys"
    unfolding ys_def using all by (induction items') auto
  have "image_mset (Inr :: _ \<Rightarrow> exn + _) (mset ys) = mset (map shape_input items')" by (simp only: ys mset_map)
  also have "\<dots> = image_mset Inr (mset xs)" by (simp only: mset_map assms(2) [symmetric] m)
  finally have "image_mset (Inr :: _ \<Rightarrow> exn + _) (mset ys) = image_mset Inr (mset xs)" .
  then have "mset ys = mset xs"
    using multiset.inj_map [OF inj_Inr] by (auto dest: injD)
  moreover from this assms(1) have "distinct (map (\<lambda>i. ref_identity (snd i)) ys)"
    by (metis mset_eq_imp_distinct_iff mset_map shaped_def)
  ultimately show ?thesis using ys by (auto simp: shaped_def)
qed

lemma uri_clash_set: "set xs = set ys \<Longrightarrow> uri_clash xs = uri_clash ys"
  by (simp add: uri_clash_def list_ex_iff)

lemma input_key_inj_on:
  "distinct (map (\<lambda>i. ref_identity (snd i)) xs) \<Longrightarrow> inj_on input_key (set xs)"
  by (auto simp: inj_on_def input_key_def distinct_map)

lemma canonicalize_Inr:
  "canonicalize_input_shape items = Inr xs \<longleftrightarrow>
     (\<exists>ys. shaped items ys \<and> \<not> uri_clash ys \<and> xs = sort_key input_key ys)"
  by (auto simp: canonicalize_input_shape_def shape_inputs_shaped [symmetric] split: sum.splits)

section \<open>The canonical form\<close>

text \<open>The order of the arguments does not matter.\<close>

lemma canonicalize_permuted:
  assumes c: "canonicalize_input_shape items = Inr xs" and m: "mset items = mset items'"
  shows "canonicalize_input_shape items' = Inr xs"
proof -
  from c obtain ys where ys: "shaped items ys" "\<not> uri_clash ys" "xs = sort_key input_key ys"
    by (auto simp: canonicalize_Inr)
  from shaped_permuted [OF ys(1) m] obtain zs where zs: "shaped items' zs" "mset zs = mset ys"
    by blast
  have "sort_key input_key zs = sort_key input_key ys"
    using zs ys(1) by (intro sort_key_eq_sort_key) (auto simp: shaped_def intro: input_key_inj_on)
  moreover have "\<not> uri_clash zs"
    using ys(2) uri_clash_set [of zs ys] mset_eq_setD [OF zs(2)] by simp
  ultimately show ?thesis using zs(1) ys(3) by (auto simp: canonicalize_Inr)
qed

text \<open>What the canonical form is: the arguments, sorted, without duplicates.\<close>

lemma canonicalize_content:
  assumes "canonicalize_input_shape items = Inr xs"
  shows "mset (map Inr xs) = image_mset shape_input (mset items)"
    "sorted (map input_key xs)" "distinct (map input_key xs)"
    "distinct (map (\<lambda>i. ref_identity (snd i)) xs)" "\<forall>i \<in> set xs. fst i \<noteq> []"
proof -
  from assms obtain ys where ys: "shaped items ys" "xs = sort_key input_key ys"
    by (auto simp: canonicalize_Inr)
  have "mset (map Inr xs) = mset (map Inr ys)" by (simp add: ys(2))
  also have "\<dots> = mset (map shape_input items)" using ys(1) by (simp only: shaped_def)
  finally show "mset (map Inr xs) = image_mset shape_input (mset items)" by simp
  show "sorted (map input_key xs)" by (simp add: ys(2))
  have "mset xs = mset ys" by (simp add: ys(2))
  then show d: "distinct (map (\<lambda>i. ref_identity (snd i)) xs)"
    using ys(1) by (metis mset_eq_imp_distinct_iff mset_map shaped_def)
  then have "distinct xs" "inj_on input_key (set xs)"
    by (auto simp: distinct_map intro: input_key_inj_on)
  then show "distinct (map input_key xs)" by (simp add: distinct_map)
  show "\<forall>i \<in> set xs. fst i \<noteq> []"
  proof
    fix i assume "i \<in> set xs"
    then have "Inr i \<in> set (map Inr ys :: (exn + _) list)" using ys(2) by simp
    then have "Inr i \<in> set (map shape_input items)" using ys(1) by (simp only: shaped_def)
    then obtain item where "shape_input item = Inr i" by auto
    then show "fst i \<noteq> []" by (cases i) (auto simp: shape_input_Inr blank_def py_strip_def)
  qed
qed

section \<open>The digest of the inputs\<close>

text \<open>The text under the digest determines contract ids and ref identities.\<close>

lemma json_sorted_strings: "json_sorted_members (map (\<lambda>(k, v). (k, JStr v)) m) = map (\<lambda>(k, v). (k, JStr v)) m"
  by (induction m) auto

lemma sort_key_map: "sort_key f (map g xs) = map g (sort_key (f \<circ> g) xs)"
proof -
  have ins: "insort_key f (g x) (map g ys) = map g (insort_key (f \<circ> g) x ys)" for x ys
    by (induction ys) auto
  show ?thesis by (induction xs) (simp_all add: ins del: comp_apply)
qed

lemma json_sorted_dict:
  "json_sorted (dict_json m) = JDict (map (\<lambda>(k, v). (k, JStr v)) (sort_key fst m))"
proof -
  have "fst \<circ> (\<lambda>(k, v). (k, JStr v)) = (fst :: string \<times> string \<Rightarrow> string)" by auto
  then show ?thesis by (simp add: dict_json_def json_sorted_strings sort_key_map)
qed

lemma sort_key_fst_sort:
  assumes "distinct (map fst (m :: dict))"
  shows "sort_key fst m = sort m"
proof (rule sort_key_inj_key_eq)
  show "mset m = mset (sort m)" by simp
  show "inj_on fst (set m)" using assms by (simp add: distinct_map)
  have "sorted (sort m)" by simp
  then show "sorted (map fst (sort m))"
    unfolding sorted_map by (rule sorted_wrt_mono_rel [rotated]) (auto simp: less_eq_prod_def)
qed

text \<open>A Python dict has distinct keys.\<close>

definition ref_dict :: "ref \<Rightarrow> bool" where
  "ref_dict r \<longleftrightarrow> distinct (map fst (r_meta r))"

lemma map_str_inj: "map (\<lambda>(k, v). (k, JStr v)) a = map (\<lambda>(k, v). (k, JStr v)) b \<longleftrightarrow> a = b"
  by (rule inj_map_eq_map) (auto simp: inj_def)

lemma json_sorted_str [simp]: "json_sorted (str_json v) = str_json v"
  by (cases v) (simp_all add: str_json_def)

lemma str_json_inj [simp]: "str_json a = str_json b \<longleftrightarrow> a = b"
  by (cases a; cases b) (simp_all add: str_json_def)

lemma json_sorted_ref:
  "json_sorted (ref_json r) = JDict
     [(''metadata'', JDict (map (\<lambda>(k, v). (k, JStr v)) (sort_key fst (r_meta r)))),
      (''native_id'', JStr (r_native r)), (''provider'', JStr (r_provider r)),
      (''type'', JStr (ref_type_value (r_type r))), (''uri'', str_json (r_uri r))]"
  by (simp add: ref_json_def json_sorted_dict less_char_def)

lemma json_sorted_ref_inj:
  "json_sorted (ref_json r) = json_sorted (ref_json s) \<longleftrightarrow>
     r_type r = r_type s \<and> r_provider r = r_provider s \<and> r_native r = r_native s \<and>
     r_uri r = r_uri s \<and> dump (r_meta r) = dump (r_meta s)"
  by (auto simp: json_sorted_ref map_str_inj dump_def)

lemma ref_identity_eq:
  assumes "ref_dict r" "ref_dict s"
  shows "ref_identity r = ref_identity s \<longleftrightarrow> dump_ref r = dump_ref s"
proof -
  have "sort (r_meta r) = sort (r_meta s) \<longleftrightarrow> dump (r_meta r) = dump (r_meta s)"
    using assms by (simp add: dump_def sort_key_fst_sort ref_dict_def)
  then show ?thesis
    by (cases r; cases s) (auto simp: ref_identity_def dump_ref_def)
qed

lemma json_sorted_input_inj:
  assumes "ref_dict (snd i)" "ref_dict (snd j)"
    and eq: "json_sorted (input_json i) = json_sorted (input_json j)"
  shows "input_key i = input_key j"
proof -
  have s: "json_sorted (input_json i) = JDict [(''contract_id'', JStr (fst i)),
     (''ref'', json_sorted (ref_json ((snd i)\<lparr>r_meta := sort (r_meta (snd i))\<rparr>)))]" for i
    by (simp add: input_json_def less_char_def)
  have d: "dump (sort (r_meta r)) = sort (r_meta r)" if "ref_dict r" for r
  proof -
    have "distinct (map fst (sort (r_meta r)))"
      using that by (metis distinct_map distinct_sort ref_dict_def set_sort)
    then show ?thesis by (simp add: dump_def sort_key_fst_sort sorted_sort_id)
  qed
  from eq show ?thesis
    unfolding s using assms(1,2) by (simp add: json_sorted_ref_inj d input_key_def ref_identity_def)
qed

lemma inputs_digest_inj:
  assumes "inj H" "\<forall>i \<in> set xs. ref_dict (snd i)" "\<forall>i \<in> set ys. ref_dict (snd i)"
    and "inputs_digest H xs = inputs_digest H ys"
  shows "map input_key xs = map input_key ys"
proof -
  from assms(1,4) have "map (json_sorted \<circ> input_json) xs = map (json_sorted \<circ> input_json) ys"
    by (auto simp: inputs_digest_def dumps_compact_inj json_sorted_list_map dest!: injD)
  with assms(2,3) show ?thesis
  proof (induction xs arbitrary: ys)
    case (Cons i xs)
    then obtain j js where ys: "ys = j # js" by (cases ys) auto
    with Cons show ?case by (auto intro: json_sorted_input_inj)
  qed simp
qed

section \<open>The start request\<close>

lemma resolve_inputs_Inr:
  "resolve_inputs g ctx inputs = Inr items \<Longrightarrow>
     map (\<lambda>it. (ri_contract it, ri_ref it)) items = inputs \<and>
     (\<forall>it \<in> set items. \<exists>p t. get_resource_provider g (r_provider (ri_ref it)) = Inr p \<and>
        (\<exists>cs. rp_supported p = Some cs \<and> ri_contract it \<in> set cs) \<and>
        call_resolve p (ri_contract it) (ri_ref it) ctx = Inr (ri_value it) \<and>
        get_contract_type g (ri_contract it) = Inr t \<and> is_instance (ri_value it) t)"
proof (induction inputs arbitrary: items)
  case (Cons i inputs)
  then obtain it its where it: "resolve_input g ctx i = Inr it"
    and its: "resolve_inputs g ctx inputs = Inr its" and items: "items = it # its"
    by (auto split: sum.splits)
  obtain c r where i: "i = (c, r)" by (cases i) auto
  from it i obtain p v t where "get_resource_provider g (r_provider r) = Inr p"
    "\<exists>cs. rp_supported p = Some cs \<and> c \<in> set cs" "call_resolve p c r ctx = Inr v"
    "get_contract_type g c = Inr t" "is_instance v t"
    "it = \<lparr>ri_contract = c, ri_ref = r, ri_value = v\<rparr>"
    by (auto simp: resolve_input_def split: sum.splits option.splits if_splits)
  with Cons.IH [OF its] i show ?case by (auto simp: items)
qed simp

lemma partition_inputs_Inr:
  "partition_inputs p pre inputs = Inr (early, late) \<Longrightarrow>
     early = filter (\<lambda>i. fst i \<in> set pre) inputs \<and> late = filter (\<lambda>i. fst i \<notin> set pre) inputs \<and>
     (\<forall>i \<in> set early. input_effect p (fst i) = Inr Pure_effect)"
  by (induction inputs arbitrary: early late; auto split: sum.splits if_splits prod.splits; blast)

lemma find_SomeD: "find P xs = Some x \<Longrightarrow> x \<in> set xs \<and> P x"
  by (induction xs) (auto split: if_splits)

lemma in_order_Inr:
  assumes "in_order inputs items = Inr out" "distinct (map item_key items)"
    "\<forall>i \<in> set inputs. \<exists>it \<in> set items. (ri_contract it, ri_ref it) = i"
  shows "map (\<lambda>it. (ri_contract it, ri_ref it)) out = inputs \<and> set out \<subseteq> set items"
  using assms(1,3)
proof (induction inputs arbitrary: out)
  case (Cons i inputs)
  from Cons.prems(1) obtain it out' where
    f: "find (\<lambda>it. item_key it = input_key i) (rev items) = Some it"
    and o: "in_order inputs items = Inr out'" and out: "out = it # out'"
    by (auto split: sum.splits option.splits)
  from find_SomeD [OF f] have it: "it \<in> set items" "item_key it = input_key i" by simp_all
  from Cons.prems(2) obtain jt where jt: "jt \<in> set items" "(ri_contract jt, ri_ref jt) = i" by auto
  then have "item_key jt = input_key i" by (auto simp: item_key_def input_key_def)
  with it jt assms(2) have "it = jt" by (auto simp: distinct_map inj_on_def)
  with Cons.IH [OF o] Cons.prems(2) jt it show ?case by (auto simp: out)
qed simp

lemma prepare_start_Inr:
  assumes prep: "prepare_start g p x did digest canonical = Inr q"
    and d: "distinct (map input_key canonical)"
  shows "sq_exec q = x \<and> sq_dispatch q = did \<and> sq_digest q = digest"
    "map (\<lambda>it. (ri_contract it, ri_ref it)) (sq_resolved q) = canonical"
    "\<forall>it \<in> set (sq_resolved q). \<exists>rp t. get_resource_provider g (r_provider (ri_ref it)) = Inr rp \<and>
       call_resolve rp (ri_contract it) (ri_ref it) (Some (x, did)) = Inr (ri_value it) \<and>
       get_contract_type g (ri_contract it) = Inr t \<and> is_instance (ri_value it) t"
proof -
  from prep obtain pre early late re rl items where
    part: "partition_inputs p pre canonical = Inr (early, late)"
    and re: "resolve_inputs g (Some (x, did)) early = Inr re"
    and rl: "resolve_inputs g (Some (x, did)) late = Inr rl"
    and ord: "in_order canonical (re @ rl) = Inr items"
    and q: "q = \<lparr>sq_exec = x, sq_dispatch = did, sq_digest = digest, sq_resolved = items\<rparr>"
    by (auto simp: prepare_start_def split: sum.splits prod.splits)
  note p = partition_inputs_Inr [OF part]
  note e = resolve_inputs_Inr [OF re] and l = resolve_inputs_Inr [OF rl]
  have all: "map (\<lambda>it. (ri_contract it, ri_ref it)) (re @ rl) = early @ late" using e l by simp
  have keys: "map item_key (re @ rl) = map input_key (early @ late)"
    unfolding all [symmetric] by (simp add: item_key_def input_key_def)
  have "distinct (map input_key (early @ late))"
    using d p by (auto simp: distinct_map_filter) (auto simp: distinct_map inj_on_def)
  then have dk: "distinct (map item_key (re @ rl))" by (simp only: keys)
  have "set canonical \<subseteq> set (early @ late)" using p by auto
  then have mem: "\<forall>i \<in> set canonical. \<exists>it \<in> set (re @ rl). (ri_contract it, ri_ref it) = i"
    unfolding all [symmetric] by auto
  note io = in_order_Inr [OF ord dk mem]
  show "sq_exec q = x \<and> sq_dispatch q = did \<and> sq_digest q = digest" by (simp add: q)
  show "map (\<lambda>it. (ri_contract it, ri_ref it)) (sq_resolved q) = canonical" using io by (simp add: q)
  show "\<forall>it \<in> set (sq_resolved q). \<exists>rp t. get_resource_provider g (r_provider (ri_ref it)) = Inr rp \<and>
       call_resolve rp (ri_contract it) (ri_ref it) (Some (x, did)) = Inr (ri_value it) \<and>
       get_contract_type g (ri_contract it) = Inr t \<and> is_instance (ri_value it) t"
    using io e l unfolding q by fastforce
qed

end
