(* ===== verification/Core_Results.thy ===== *)
theory Core_Results
  imports Core_Safety Core_Inputs
begin

text \<open>
  What the invariant and the sealed history give for single calls: rows that persist, calls
  whose outcome is determined by the tables, and the outcome of every branch of a Dispatch and
  of a finalization.
\<close>

section \<open>Returning runs, step by step\<close>

lemma pbindE:
  assumes "pbind m k w = (Inr y, w')"
  obtains x v where "m w = (Inr x, v)" "k x v = (Inr y, w')"
  using assms by (auto simp: pbind_Inr)

lemma pseqE:
  assumes "pseq m k w = (Inr y, w')"
  obtains x v where "m w = (Inr x, v)" "k v = (Inr y, w')"
  using assms by (auto simp: pseq_Inr)

section \<open>Rows persist\<close>

lemma db_okD:
  assumes "db_ok d"
  shows "executions_ok (executions d)" "dispatches_ok (dispatches d)" "events_ok (events d)"
    "finalizations_ok (finalizations d)" "links_ok d" "seal_ok d" "ledger_ok d" "refs_ok (refs d)"
    "works_ok (works d)" "observations_ok (observations d) (obs_next d)"
  using assms by (simp_all add: db_ok_def)

lemma find_prefix: "prefix xs ys \<Longrightarrow> find P xs = Some x \<Longrightarrow> find P ys = Some x"
  by (induction xs arbitrary: ys) (auto simp: prefix_def split: if_splits)

lemma find_exec_iff:
  "executions_ok (executions d) \<Longrightarrow> find_exec d x = Some e \<longleftrightarrow> e \<in> set (executions d) \<and> x_id e = x"
  unfolding find_exec_def executions_ok_def by (rule find_keyed) blast

lemma exec_persists:
  assumes "evolves d d'" "db_ok d'" "find_exec d x = Some e"
  shows "\<exists>e'. find_exec d' x = Some e' \<and> exec_evolves e e'"
proof -
  from assms(1,3) grows_mem obtain e' where "e' \<in> set (executions d')" "exec_evolves e e'"
    unfolding evolves_def by (metis find_exec_Some)
  with find_exec_Some [OF assms(3)] find_exec_iff [OF db_okD(1) [OF assms(2)]] show ?thesis
    by (auto simp: exec_evolves_def)
qed

lemma dispatch_of_key_iff:
  "dispatches_ok (dispatches d) \<Longrightarrow>
     dispatch_of_key d k = Some r \<longleftrightarrow> r \<in> set (dispatches d) \<and> dp_key r = k"
  unfolding dispatch_of_key_def dispatches_ok_def by (rule find_keyed) blast

lemma dispatch_of_exec_iff:
  "dispatches_ok (dispatches d) \<Longrightarrow>
     dispatch_of_exec d x = Some r \<longleftrightarrow> r \<in> set (dispatches d) \<and> dp_exec r = x"
  unfolding dispatch_of_exec_def dispatches_ok_def by (rule find_keyed) blast

lemma find_dispatch_iff:
  "dispatches_ok (dispatches d) \<Longrightarrow>
     find_dispatch d i = Some r \<longleftrightarrow> r \<in> set (dispatches d) \<and> dp_id r = i"
  unfolding find_dispatch_def dispatches_ok_def by (rule find_keyed) blast

lemma dispatch_persists:
  assumes "evolves d d'" "r \<in> set (dispatches d)"
  shows "\<exists>r' \<in> set (dispatches d'). dispatch_evolves r r'"
  using assms grows_mem unfolding evolves_def by metis

lemma finalization_persists:
  "evolves d d' \<Longrightarrow> finalization_of_exec d x = Some r \<Longrightarrow> finalization_of_exec d' x = Some r"
  unfolding evolves_def finalization_of_exec_def by (blast intro: find_prefix)

lemma finalized_terminal:
  assumes ok: "db_ok d" and f: "finalization_of_exec d x = Some r"
  obtains e where "find_exec d x = Some e" "terminal (x_projection e)"
    "projection_ok (x_projection e)" "execution_ok e"
proof -
  from f have x: "x \<in> f_exec ` set (finalizations d)"
    using finalization_of_exec_none [of d x] by auto
  with ok have "x \<in> x_id ` set (executions d)" by (auto simp: db_ok_def links_ok_def)
  then obtain e where e: "e \<in> set (executions d)" "x_id e = x" by auto
  with db_okD(6) [OF ok] x have "terminal (x_projection e)" by (auto simp: seal_ok_def)
  moreover from e db_okD(1) [OF ok] have "projection_ok (x_projection e)" "execution_ok e"
    by (auto simp: executions_ok_def list_all_iff)
  moreover have "find_exec d x = Some e" using e find_exec_iff [OF db_okD(1) [OF ok]] by simp
  ultimately show thesis using that by blast
qed

section \<open>Finalization\<close>

definition recorded :: "fin_request \<Rightarrow> string \<Rightarrow> fin_row \<Rightarrow> bool" where
  "recorded q digest r \<longleftrightarrow> f_exec r = q_exec q \<and> f_key r = q_key q \<and> f_digest r = digest"

definition receipt_of :: "fin_row \<Rightarrow> fin_receipt" where
  "receipt_of r = \<lparr>fc_exec = f_exec r, fc_key = f_key r, fc_digest = f_digest r, fc_version = f_version r\<rparr>"

lemma finalization_of_exec_Some: "finalization_of_exec d x = Some r \<Longrightarrow> f_exec r = x"
  by (simp add: finalization_of_exec_def find_Some_iff) blast

text \<open>On a finalized Execution the call is decided by the recorded row, and writes nothing.\<close>

lemma apply_finalization_replay:
  assumes ok: "db_ok (store w)" and f: "finalization_of_exec (store w) (q_exec q) = Some r"
  obtains w' where "store w' = store w"
    "apply_finalization H q w =
      (if recorded q (finalization_digest H q) r then Inr (receipt_of r)
       else Inl (err FinalizationConflict (''Execution already finalized: '' @ q_exec q)), w')"
proof -
  let ?x = "q_exec q"
  from finalized_terminal [OF ok f] obtain e where e: "find_exec (store w) ?x = Some e"
    "terminal (x_projection e)" "projection_ok (x_projection e)" "execution_ok e" .
  then have get: "get_execution ?x w = (Inr e, w)" by (simp add: get_execution_Inr)
  obtain t w1 where t: "(case x_ended e of Some t \<Rightarrow> preturn t | None \<Rightarrow> now_utc) w = (Inr t, w1)"
    and w1: "store w1 = store w"
    by (cases "x_ended e") (auto simp: preturn_def now_utc_def)
  have "apply_finalization H q w = finalize_execution H ?x (q_projection q) [] [] [] (q_key q)
      (finalization_digest H q) t w1"
    by (simp add: apply_finalization_def pbind_def get e t)
  also have "\<dots> = (if recorded q (finalization_digest H q) r then Inr (receipt_of r)
       else Inl (err FinalizationConflict (''Execution already finalized: '' @ ?x)),
       w1\<lparr>store := store w1\<rparr>)"
    using f finalization_of_exec_Some [OF f] w1
    by (simp add: finalize_execution_def transaction_def pbind_def read_store_def preturn_def
        praise_def recorded_def receipt_of_def)
  finally show thesis using that [of "w1\<lparr>store := store w1\<rparr>"] w1 by simp
qed

text \<open>A returning call leaves the recorded row behind.\<close>

lemma finalize_records:
  assumes "finalize_execution H x p native output obs key digest t w = (Inr rc, w')"
  shows "\<exists>r. finalization_of_exec (store w') x = Some r \<and> f_key r = key \<and> f_digest r = digest \<and>
    rc = receipt_of r"
  using assms
proof (cases rule: finalize_effect)
  case (replay row)
  with finalization_of_exec_Some [OF replay(1)] show ?thesis by (auto simp: receipt_of_def)
next
  case (commit row d1 d2 e1 e2)
  then have "finalization_of_exec d2 x = None"
    and "finalizations (store w') = finalizations d2 @ [final_row x key digest (x_version row + 1) t]"
    by (simp_all add: commits_bundle_def)
  then have "finalization_of_exec (store w') x = Some (final_row x key digest (x_version row + 1) t)"
    by (simp add: finalization_of_exec_def find_append_row final_row_def)
  with commit(7) show ?thesis by (simp add: receipt_of_def final_row_def)
qed

lemma apply_finalization_records:
  assumes "apply_finalization H q w = (Inr rc, w')"
  obtains r where "finalization_of_exec (store w') (q_exec q) = Some r"
    "recorded q (finalization_digest H q) r" "rc = receipt_of r"
proof -
  from assms obtain native outp obs t v where
    "finalize_execution H (q_exec q) (q_projection q) native outp obs (q_key q)
      (finalization_digest H q) t v = (Inr rc, w')"
    by (auto simp: apply_finalization_def run_iffs split: if_splits)
  from finalize_records [OF this] finalization_of_exec_Some that show thesis
    by (fastforce simp: recorded_def)
qed

section \<open>The contents of a committed bundle\<close>

definition key_of_ref :: "string \<Rightarrow> relation \<Rightarrow> ref \<Rightarrow> string \<times> relation \<times> ref_type \<times> string \<times> string" where
  "key_of_ref x rel r = (x, rel, r_type r, r_provider r, r_native r)"

lemma attach_final_ref_present:
  assumes "attach_final_ref x t (r, rel, ety) w = (Inr u, w')"
  shows "key_of_ref x rel r \<in> ref_key ` set (refs (store w'))"
proof -
  from assms obtain n v where ins: "insert_ref_stmt True x rel r t None w = (Inr n, v)"
    and rest: "(if n = 1 then append_new_event ety x t [(''type'', ref_type_value (r_type r))] None
        else preturn ()) v = (Inr u, w')"
    by (auto simp: attach_final_ref_def run_iffs)
  have "key_of_ref x rel r \<in> ref_key ` set (refs (store v))"
    using ins by (auto simp: insert_ref_stmt_Inr key_of_ref_def split: if_splits)
  moreover have "refs (store w') = refs (store v)"
    using rest by (auto simp: run_iffs split: if_splits dest!: append_new_event_effect)
  ultimately show ?thesis by simp
qed

lemma attach_final_refs_present:
  assumes "for_each (attach_final_ref x t) items w = (Inr u, w')"
    and "\<forall>(r, rel, ety) \<in> set items. rel \<noteq> Input_rel \<and> ety \<in> {Native_ref_discovered, Ref_attached}"
  shows "\<forall>(r, rel, ety) \<in> set items. key_of_ref x rel r \<in> ref_key ` set (refs (store w'))"
  using assms
proof (induction items arbitrary: w)
  case (Cons i items)
  obtain r rel ety where i: "i = (r, rel, ety)" by (cases i) auto
  from Cons.prems(1) obtain v where h: "attach_final_ref x t (r, rel, ety) w = (Inr (), v)"
    and rest: "for_each (attach_final_ref x t) items v = (Inr u, w')"
    by (auto simp: i run_iffs)
  from Cons.prems(2) have ok: "\<forall>(r, rel, ety) \<in> set items. rel \<noteq> Input_rel \<and>
      ety \<in> {Native_ref_discovered, Ref_attached}" by simp
  have "set (refs (store v)) \<subseteq> set (refs (store w'))"
    using attach_final_refs_effect [OF rest ok] by (auto simp: attaches_refs_def)
  with attach_final_ref_present [OF h] Cons.IH [OF rest ok] show ?case by (auto simp: i)
qed simp

lemma append_observation_present:
  assumes "append_observation H x t ob w = (Inr y, w')"
  shows "observation_digest H x ob \<in> ob_digest ` set (observations (store w'))"
proof (cases "observation_of_digest (store w) (observation_digest H x ob)")
  case None
  with assms show ?thesis
    by (auto simp: append_observation_def Let_def run_iffs insert_observation_def split: if_splits)
next
  case (Some row)
  with assms have "w' = w" by (auto simp: append_observation_def Let_def run_iffs)
  with Some observation_of_digest_None [of "store w" "observation_digest H x ob"] show ?thesis by auto
qed

lemma append_observations_present:
  "for_each (\<lambda>ob. pbind (append_observation H x t ob) (\<lambda>_. preturn ())) obs w = (Inr u, w') \<Longrightarrow>
     \<forall>ob \<in> set obs. observation_digest H x ob \<in> ob_digest ` set (observations (store w'))"
proof (induction obs arbitrary: w)
  case (Cons ob obs)
  from Cons.prems obtain y v where h: "append_observation H x t ob w = (Inr y, v)"
    and rest: "for_each (\<lambda>ob. pbind (append_observation H x t ob) (\<lambda>_. preturn ())) obs v = (Inr u, w')"
    by (auto simp: run_iffs)
  have "set (observations (store v)) \<subseteq> set (observations (store w'))"
    using withinD [OF append_observations_within rest] by (auto simp: appends_observations_def)
  with append_observation_present [OF h] Cons.IH [OF rest] show ?case by auto
qed simp

definition bundle_stored ::
  "(string \<Rightarrow> string) \<Rightarrow> string \<Rightarrow> ref list \<Rightarrow> ref list \<Rightarrow> observation list \<Rightarrow> core_db \<Rightarrow> bool" where
  "bundle_stored H x native output obs d \<longleftrightarrow>
     (\<forall>r \<in> set native. key_of_ref x Native_rel r \<in> ref_key ` set (refs d)) \<and>
     (\<forall>r \<in> set output. key_of_ref x Output_rel r \<in> ref_key ` set (refs d)) \<and>
     (\<forall>ob \<in> set obs. observation_digest H x ob \<in> ob_digest ` set (observations d))"

lemma commit_bundle_stored:
  assumes "commit_bundle H x p native output obs key digest t row w = (Inr rc, w')"
  shows "bundle_stored H x native output obs (store w')"
  using assms unfolding commit_bundle_def
proof (elim pbindE pseqE, goal_cases)
  case (1 u1 v1 u2 v2 u3 v3 n v4 u5 v5 u6 v6 u7 v7 u8 v8)
  have v: "store v2 = store v1" using 1(2) by (simp add: require_frozen_all)
  have "ref_key ` set (refs (store v1)) \<subseteq> ref_key ` set (refs (store v3))"
    using withinD [OF append_observations_within 1(3)] v by (auto simp: appends_observations_def)
  moreover have "refs (store w') = refs (store v3) \<and> observations (store w') = observations (store v3)"
    using 1(4-9) by (auto simp: run_iffs dest!: append_new_event_effect)
  moreover have "\<forall>(r, rel, ety) \<in> set (final_refs native output).
      key_of_ref x rel r \<in> ref_key ` set (refs (store v1))"
    by (rule attach_final_refs_present [OF 1(1) final_refs_ok])
  then have "\<forall>r \<in> set native. key_of_ref x Native_rel r \<in> ref_key ` set (refs (store v1))"
    "\<forall>r \<in> set output. key_of_ref x Output_rel r \<in> ref_key ` set (refs (store v1))"
    by (auto simp: final_refs_def ball_Un)
  ultimately show ?case
    using append_observations_present [OF 1(3)] unfolding bundle_stored_def
    by (metis (no_types, lifting) subsetD)
qed

text \<open>The effect of a finalization that is the first of its Execution.\<close>

definition finalized ::
  "(string \<Rightarrow> string) \<Rightarrow> fin_request \<Rightarrow> execution \<Rightarrow> datetime \<Rightarrow> core_event list \<Rightarrow>
     core_db \<Rightarrow> core_db \<Rightarrow> bool" where
  "finalized H q row t es d d' \<longleftrightarrow>
     find_exec d' (q_exec q) = Some (row\<lparr>x_projection := q_projection q, x_ended := Some t,
       x_version := x_version row + 1\<rparr>) \<and>
     (\<forall>y. y \<noteq> q_exec q \<longrightarrow> find_exec d' y = find_exec d y) \<and>
     works d' = works d \<and> dispatches d' = dispatches d \<and>
     finalizations d' = finalizations d @ [\<lparr>f_exec = q_exec q, f_key = q_key q,
       f_digest = finalization_digest H q, f_version = x_version row + 1, f_created = t\<rparr>] \<and>
     events d' = events d @ es \<and> (\<forall>e \<in> set es. e_subject e = q_exec q \<and> e_at e = t) \<and>
     filter (\<lambda>ty. ty \<notin> {Native_ref_discovered, Ref_attached}) (map e_type es)
       = [Execution_terminal, Execution_finalized] \<and>
     bundle_stored H (q_exec q) (q_native q) (q_output q) (q_observations q) d'"

lemma filter_none: "(\<forall>x \<in> set xs. \<not> P x) \<Longrightarrow> filter P xs = []"
  by (induction xs) auto

lemma finalize_first:
  assumes ok: "db_ok (store w)" and fresh: "finalization_of_exec (store w) (q_exec q) = None"
    and run: "finalize_execution H (q_exec q) (q_projection q) (q_native q) (q_output q)
      (q_observations q) (q_key q) (finalization_digest H q) t w = (Inr rc, w')"
  shows "\<exists>row es. find_exec (store w) (q_exec q) = Some row \<and> \<not> terminal (x_projection row) \<and>
    finalized H q row t es (store w) (store w') \<and> rc = \<lparr>fc_exec = q_exec q, fc_key = q_key q,
      fc_digest = finalization_digest H q, fc_version = x_version row + 1\<rparr>"
proof -
  let ?x = "q_exec q" and ?p = "q_projection q"
  from fresh run obtain row where row: "find_exec (store w) ?x = Some row" "\<not> terminal (x_projection row)"
    and body: "commit_bundle H ?x ?p (q_native q) (q_output q) (q_observations q) (q_key q)
      (finalization_digest H q) t row w = (Inr rc, w')"
    by (auto simp: finalize_execution_def run_iffs terminal_def)
  from commit_bundle_effect(1) [OF body] obtain d1 d2 e1 e2 where
    c: "commits_bundle H ?x ?p (q_key q) (finalization_digest H q) t row (store w) d1 d2 (store w') e1 e2"
    by blast
  let ?w = "store w"
  from c obtain rs es where d1: "d1 = ?w\<lparr>refs := refs ?w @ rs, events := events ?w @ es\<rparr>"
    and es: "\<forall>e \<in> set es. final_event ?x t e"
    by (auto simp: commits_bundle_def attaches_refs_def)
  from c d1 have d2: "executions d2 = executions ?w" "works d2 = works ?w"
    "dispatches d2 = dispatches ?w" "finalizations d2 = finalizations ?w" "events d2 = events ?w @ es"
    by (auto simp: commits_bundle_def appends_observations_def)
  have w': "executions (store w') = update_where (\<lambda>r. x_id r = ?x \<and> x_version r = x_version row)
      (final_update ?p t) (executions ?w)" and rest: "works (store w') = works ?w"
    "dispatches (store w') = dispatches ?w" "events (store w') = events ?w @ es @ [e1, e2]"
    "finalizations (store w') = finalizations ?w @ [final_row ?x (q_key q)
       (finalization_digest H q) (x_version row + 1) t]"
    using c by (simp_all add: commits_bundle_def d2)
  have "find_exec (store w') y = (if y = ?x then Some (final_update ?p t row) else find_exec ?w y)" for y
  proof -
    have "find_exec (store w') y = map_option (\<lambda>r. if x_id r = ?x \<and> x_version r = x_version row
        then final_update ?p t r else r) (find_exec ?w y)"
      unfolding find_exec_def w' by (rule find_update_where) (simp add: final_update_def)
    with row(1) find_exec_Some show ?thesis by (cases "find_exec ?w y") (auto dest: find_exec_Some)
  qed
  moreover have "filter (\<lambda>ty. ty \<notin> {Native_ref_discovered, Ref_attached}) (map e_type es) = []"
    by (rule filter_none) (use es in \<open>auto simp: final_event_def\<close>)
  moreover have "\<forall>e \<in> set (es @ [e1, e2]). e_subject e = ?x \<and> e_at e = t"
    and "e_type e1 = Execution_terminal" "e_type e2 = Execution_finalized"
    using es c by (auto simp: final_event_def commits_bundle_def adds_event_def)
  ultimately have "finalized H q row t (es @ [e1, e2]) ?w (store w')"
    unfolding finalized_def using rest commit_bundle_stored [OF body]
    by (simp add: final_update_def final_row_def)
  with row commit_bundle_effect(2) [OF body] show ?thesis by blast
qed

lemma apply_finalization_first:
  assumes "db_ok (store w)" "finalization_of_exec (store w) (q_exec q) = None"
    and "apply_finalization H q w = (Inr rc, w')"
  shows "\<exists>row t es. find_exec (store w) (q_exec q) = Some row \<and> \<not> terminal (x_projection row) \<and>
    finalized H q row t es (store w) (store w') \<and> rc = \<lparr>fc_exec = q_exec q, fc_key = q_key q,
      fc_digest = finalization_digest H q, fc_version = x_version row + 1\<rparr>"
proof -
  from assms(3) obtain e where e: "find_exec (store w) (q_exec q) = Some e"
    by (auto simp: apply_finalization_def run_iffs get_execution_Inr)
  then have "e \<in> set (executions (store w))" "x_id e = q_exec q" using find_exec_Some by blast+
  with db_okD(6) [OF assms(1)] assms(2) have nt: "\<not> terminal (x_projection e)"
    by (auto simp: seal_ok_def finalization_of_exec_none)
  with e assms(3) obtain v where v: "store v = store w" and "finalize_execution H (q_exec q)
      (q_projection q) (q_native q) (q_output q) (q_observations q) (q_key q)
      (finalization_digest H q) (utc_time (clock_src v (clock_pos v)))
      (v\<lparr>clock_pos := Suc (clock_pos v)\<rparr>) = (Inr rc, w')" (is "finalize_execution _ _ _ _ _ _ _ _ ?t ?u = _")
    by (auto simp: apply_finalization_def run_iffs get_execution_Inr
        validated_resource_observations_def dest!: read_only_store [OF read_only_list_input_refs])
  with finalize_first [of ?u q H ?t rc w'] assms(1,2) show ?thesis by auto
qed

section \<open>Reading the ledger\<close>

lemma map_each_loads:
  "(\<And>x. x \<in> set xs \<Longrightarrow> f x = Inr x) \<Longrightarrow> map_each (\<lambda>x. plift (f x)) xs w = (Inr xs, w)"
  by (induction xs) (simp_all add: preturn_def pbind_def plift_def)

lemma list_events_run:
  assumes "events_ok (events (store w))"
  shows "list_events x w = (Inr (sorted_events (filter (\<lambda>e. e_subject e = x) (events (store w)))), w)"
proof -
  have "load_event e = Inr e" if "e \<in> set (events (store w))" for e
    using assms that
    by (auto simp: load_event_def mk_core_event_Inr events_ok_def list_all_iff event_ok_def)
  then show ?thesis
    by (simp add: list_events_def pbind_def read_store_def)
       (intro map_each_loads, simp add: sorted_events_def)
qed

lemma map_each_plift_world: "map_each (\<lambda>x. plift (f x)) xs w = (Inr ys, w') \<Longrightarrow> w' = w"
  by (induction xs arbitrary: ys) (auto simp: run_iffs)

lemma count_where_unique:
  assumes "count_where P es = 1"
  shows "\<exists>a \<in> set es. P a \<and> (\<forall>e \<in> set es. P e \<longrightarrow> e = a)"
proof -
  from assms obtain a where "filter P es = [a]"
    by (auto simp: count_where_def length_Suc_conv)
  then have "{e \<in> set es. P e} = {a}" by (metis list.set(1,2) set_filter)
  then show ?thesis by blast
qed

lemma find_unique:
  assumes "a \<in> set es" "\<And>e. e \<in> set es \<Longrightarrow> P e \<Longrightarrow> e = a"
  shows "find P es = (if P a then Some a else None)"
proof (cases "find P es")
  case None
  with assms(1) show ?thesis by (auto simp: find_None_iff)
next
  case (Some b)
  with assms(2) find_SomeD [OF Some] show ?thesis by auto
qed

text \<open>What the ledger says of an accepted Dispatch does not change any more.\<close>

definition ledger_support :: "string \<Rightarrow> string \<Rightarrow> core_db \<Rightarrow> recovery_support" where
  "ledger_support did x d =
    recorded_support did (sorted_events (filter (\<lambda>e. e_subject e = x) (events d)))"

lemma ledger_support_persists:
  assumes ok: "db_ok d" "db_ok d'" and ev: "evolves d d'"
    and row: "dispatch_of_exec d x = Some r" "dp_state r = ''accepted''"
    and row': "dispatch_of_exec d' x = Some r'" "dp_state r' = ''accepted''"
  shows "ledger_support did x d' = ledger_support did x d"
proof -
  define A where "A e \<longleftrightarrow> e_type e = Dispatch_accepted \<and> e_subject e = x" for e :: core_event
  have c: "count_where A (events d) = 1" "count_where A (events d') = 1"
    using db_okD(7) [OF ok(1)] db_okD(7) [OF ok(2)] row row'
    by (simp_all add: ledger_ok_def event_count_def in_state_def A_def [abs_def])
  from count_where_unique [OF c(1)] obtain a where a: "a \<in> set (events d)" "A a"
    and only: "\<forall>e \<in> set (events d). A e \<longrightarrow> e = a" by blast
  from count_where_unique [OF c(2)] obtain b where only': "\<forall>e \<in> set (events d'). A e \<longrightarrow> e = b"
    by blast
  from ev a(1) have a': "a \<in> set (events d')" by (auto simp: evolves_def prefix_def)
  with only' a(2) have b: "b = a" by blast
  let ?P = "\<lambda>e. e_type e = Dispatch_accepted \<and> dict_get (e_data e) ''dispatch_id'' = Some did"
  have "find ?P (sorted_events (filter (\<lambda>e. e_subject e = x) (events d''))) = (if ?P a then Some a else None)"
    if "a \<in> set (events d'')" "\<forall>e \<in> set (events d''). A e \<longrightarrow> e = a" for d''
  proof (rule find_unique)
    show "a \<in> set (sorted_events (filter (\<lambda>e. e_subject e = x) (events d'')))"
      using that(1) a(2) by (simp add: sorted_events_def A_def)
    fix e assume e: "e \<in> set (sorted_events (filter (\<lambda>e. e_subject e = x) (events d'')))" "?P e"
    then have "A e" by (simp add: sorted_events_def A_def)
    with that(2) e(1) show "e = a" by (simp add: sorted_events_def)
  qed
  from this [OF a(1) only] this [OF a' only' [unfolded b]] show ?thesis
    by (simp add: ledger_support_def recorded_support_def)
qed

section \<open>Replaying an accepted Dispatch\<close>

definition receipt_for ::
  "dispatch_row \<Rightarrow> recovery_support option \<Rightarrow> ref option \<times> string option \<Rightarrow> dispatch_receipt" where
  "receipt_for row support parsed = \<lparr>dr_exec = dp_exec row, dr_dispatch = dp_id row,
     dr_state = dp_state row, dr_digest = dp_digest row, dr_support = support,
     dr_correlation = fst parsed, dr_legacy = snd parsed\<rparr>"

lemma get_dispatch_receipt_run:
  assumes "events_ok (events (store w))" "find_dispatch (store w) did = Some row"
    "dp_state row = ''accepted''"
  shows "get_dispatch_receipt did w =
    (case parse_correlation_ref (dp_correlation row) of Inl e \<Rightarrow> Inl e
     | Inr parsed \<Rightarrow> Inr (receipt_for row (Some (ledger_support did (dp_exec row) (store w))) parsed), w)"
  using assms
  by (simp add: get_dispatch_receipt_def pbind_def fetch_row_def plift_def list_events_run
      preturn_def ledger_support_def receipt_for_def split: sum.splits)

lemma replay_accepted_run:
  assumes ok: "db_ok (store w)" and row: "row \<in> set (dispatches (store w))" "dp_state row = ''accepted''"
    "dp_exec row = x" "dp_digest row = Some digest"
    and parsed: "parse_correlation_ref (dp_correlation row) = Inr parsed"
  shows "replay_dispatch x digest row w =
    (Inr (receipt_for row (Some (ledger_support (dp_id row) x (store w))) parsed), w)"
proof -
  have "find_dispatch (store w) (dp_id row) = Some row"
    using row(1) find_dispatch_iff [OF db_okD(2) [OF ok]] by simp
  with row parsed db_okD(3) [OF ok] show ?thesis
    by (simp add: replay_dispatch_def pseq_def pbind_def raise_if_def get_dispatch_receipt_run)
qed

text \<open>The accepted row after a returning call.\<close>

lemma get_dispatch_receipt_Inr:
  assumes "get_dispatch_receipt did w = (Inr rc, w')"
  obtains row where "find_dispatch (store w) did = Some row" "dr_dispatch rc = did" "w' = w"
proof -
  from assms read_only_get_dispatch_receipt obtain row where
    "find_dispatch (store w) did = Some row" "dr_dispatch rc = dp_id row"
    by (auto simp: get_dispatch_receipt_def run_iffs)
  moreover have "w' = w"
    using assms
    by (auto simp: get_dispatch_receipt_def run_iffs list_events_def split: if_splits
        dest!: map_each_plift_world)
  ultimately show thesis using that find_dispatch_Some by metis
qed

section \<open>A new Dispatch\<close>

lemma request_dispatch_effect:
  assumes run: "request_dispatch g x canonical digest key w = (Inr (p, did), v)"
  obtains e t where "find_exec (store w) x = Some e" "get_provider g (x_provider e) = Inr p"
    "validate_registered_contracts g canonical = Inr ()" "validate_input_limits p canonical = Inr ()"
    "dispatch_of_exec (store w) x = None" "dispatch_of_key (store w) key = None"
    "find_dispatch (store v) did = Some (requested_row did x key digest t)"
    "refs (store v) = refs (store w) @ map (input_row x t) canonical"
proof -
  have "\<exists>e ev u. find_exec (store w) x = Some e \<and> get_provider g (x_provider e) = Inr p \<and>
      validate_registered_contracts g canonical = Inr () \<and>
      validate_input_limits p canonical = Inr () \<and> store u = store w \<and> event_ok ev \<and>
      create_dispatch_with_inputs did x canonical digest key ev u = (Inr (), v)"
    using run unfolding request_dispatch_def
  proof (elim pbindE pseqE, goal_cases)
    case (1 e v1 p' v2 u3 v3 u4 v4 now v5 did' v6 eid v7 ev v8 u9 v9)
    then have "store v8 = store w" "event_ok ev" "p' = p" "did' = did" "v9 = v"
      by (simp_all add: run_iffs get_execution_Inr event_ok_def)
    with 1 show ?case
      by (intro exI [of _ e] exI [of _ ev] exI [of _ v8]) (simp add: run_iffs get_execution_Inr)
  qed
  then obtain e ev u where e: "find_exec (store w) x = Some e" "get_provider g (x_provider e) = Inr p"
    "validate_registered_contracts g canonical = Inr ()" "validate_input_limits p canonical = Inr ()"
    and su: "store u = store w" and ok: "event_ok ev"
    and cd: "create_dispatch_with_inputs did x canonical digest key ev u = (Inr (), v)"
    by blast
  note eff = create_dispatch_effect [OF cd ok, unfolded su]
  from eff(8) have "dispatches (store v) = dispatches (store w) @ [requested_row did x key digest (e_at ev)]"
    and r: "refs (store v) = refs (store w) @ map (input_row x (e_at ev)) canonical" by auto
  with eff(3) have "find_dispatch (store v) did = Some (requested_row did x key digest (e_at ev))"
    by (simp add: find_dispatch_def find_append_row requested_row_def)
  with e eff(2,4) r show thesis by (intro that)
qed

lemma find_dispatch_update:
  assumes "\<And>r. dp_id (f r) = dp_id r"
  shows "find_dispatch (d\<lparr>dispatches := update_where (\<lambda>r. dp_id r = did) f (dispatches d), events := es\<rparr>) did
    = map_option f (find_dispatch d did)"
proof -
  have "find (\<lambda>r. dp_id r = did) (update_where (\<lambda>r. dp_id r = did) f (dispatches d))
      = map_option (\<lambda>r. if dp_id r = did then f r else r) (find (\<lambda>r. dp_id r = did) (dispatches d))"
    by (rule find_update_where) (simp add: assms)
  then show ?thesis
    by (cases "find (\<lambda>r. dp_id r = did) (dispatches d)")
       (auto simp: find_dispatch_def dest: find_SomeD)
qed

lemma record_accepted_state:
  assumes run: "record_dispatch_accepted H did arg w = (Inr y, w')"
    and row: "find_dispatch (store w) did = Some row" "dp_state row = ''requested''"
  shows "\<exists>c t. find_dispatch (store w') did = Some (state_update ''accepted'' c t row)"
proof -
  from run obtain c er extra u where u: "store u = store w"
    and t: "record_dispatch_terminal did ''accepted'' Dispatch_accepted c er extra u = (Inr y, w')"
  proof (cases arg)
    case (Typed rc)
    with run show ?thesis
      by (cases "sr_correlation rc"; cases "sr_support rc")
         (auto simp: record_dispatch_accepted_def run_iffs intro: that [of w])
  qed (auto simp: record_dispatch_accepted_def intro: that [of w])
  from t show ?thesis
  proof (cases rule: record_dispatch_terminal_effect)
    case (1 row')
    with row u show ?thesis by simp
  next
    case (2 row' t' ev)
    have "find_dispatch (store w') did = map_option (state_update ''accepted'' c t') (find_dispatch (store u) did)"
      unfolding 2(5) by (rule find_dispatch_update) (simp add: state_update_def)
    with row u show ?thesis by auto
  qed
qed

text \<open>The row behind a returned receipt.\<close>

definition accepted_row ::
  "(string \<Rightarrow> string) \<Rightarrow> string \<Rightarrow> pyobj list \<Rightarrow> string \<Rightarrow> dispatch_receipt \<Rightarrow> core_db \<Rightarrow> dispatch_row \<Rightarrow> bool" where
  "accepted_row H x items key rc d row \<longleftrightarrow>
     row \<in> set (dispatches d) \<and> dp_key row = key \<and> dp_exec row = x \<and> dp_state row = ''accepted'' \<and>
     (\<exists>canonical. canonicalize_input_shape items = Inr canonical \<and>
        dp_digest row = Some (inputs_digest H canonical)) \<and>
     (\<exists>parsed. parse_correlation_ref (dp_correlation row) = Inr parsed \<and>
        rc = receipt_for row (Some (ledger_support (dp_id row) x d)) parsed)"

lemma receipt_accepted_row:
  assumes ok: "db_ok (store w)" and r: "get_dispatch_receipt did w = (Inr rc, w')"
    and f: "find_dispatch (store w) did = Some row" "dp_state row = ''accepted''"
      "dp_key row = key" "dp_exec row = x" "dp_digest row = Some (inputs_digest H canonical)"
    and c: "canonicalize_input_shape items = Inr canonical"
  shows "w' = w \<and> accepted_row H x items key rc (store w) row"
proof -
  from f(1) have mem: "row \<in> set (dispatches (store w))" "dp_id row = did"
    using find_dispatch_iff [OF db_okD(2) [OF ok]] by blast+
  from trans [OF r [symmetric] get_dispatch_receipt_run [OF db_okD(3) [OF ok] f(1,2)]]
  obtain parsed where "parse_correlation_ref (dp_correlation row) = Inr parsed"
    "rc = receipt_for row (Some (ledger_support did (dp_exec row) (store w))) parsed" "w' = w"
    by (cases "parse_correlation_ref (dp_correlation row)") simp_all
  with mem f c show ?thesis by (auto simp: accepted_row_def)
qed

lemma run_dispatch_Inr:
  assumes run: "run_dispatch H g p x did digest canonical v = (Inr rc, w')"
  shows "\<exists>arg u y. record_dispatch_accepted H did arg v = (Inr y, u) \<and>
    get_dispatch_receipt did u = (Inr rc, w')"
proof (cases "prepare_start g p x did digest canonical")
  case (Inl e)
  with run show ?thesis by (simp add: run_dispatch_def fail_dispatch_def run_iffs)
next
  case (Inr q)
  show ?thesis
  proof (cases "start_provider p q")
    case (Inl e)
    with run Inr show ?thesis
      by (simp add: run_dispatch_def fail_dispatch_def ambiguous_dispatch_def run_iffs split: if_splits)
  next
    case (Inr rc')
    with run \<open>prepare_start g p x did digest canonical = Inr q\<close> show ?thesis
      by (simp add: run_dispatch_def run_iffs) blast
  qed
qed

lemma dispatch_execution_accepted:
  assumes ok: "db_ok (store w)" and run: "dispatch_execution H g x items key w = (Inr rc, w')"
  shows "\<exists>row. accepted_row H x items key rc (store w') row"
proof -
  from run obtain canonical where c: "canonicalize_input_shape items = Inr canonical"
    by (auto simp: dispatch_execution_def run_iffs)
  let ?digest = "inputs_digest H canonical"
  show ?thesis
  proof (cases "dispatch_of_key (store w) key")
    case (Some row)
    with run c have rep: "replay_dispatch x ?digest row w = (Inr rc, w')"
      by (auto simp: dispatch_execution_def run_iffs get_dispatch_by_key_def)
    then have row: "dp_exec row = x" "dp_digest row = Some ?digest" "dp_state row = ''accepted''"
      and rec: "get_dispatch_receipt (dp_id row) w = (Inr rc, w')"
      by (auto simp: replay_dispatch_def run_iffs split: if_splits)
    from Some have mem: "row \<in> set (dispatches (store w))" "dp_key row = key"
      using dispatch_of_key_iff [OF db_okD(2) [OF ok]] by blast+
    then have "find_dispatch (store w) (dp_id row) = Some row"
      using find_dispatch_iff [OF db_okD(2) [OF ok]] by blast
    from receipt_accepted_row [OF ok rec this row(3) mem(2) row(1,2) c] show ?thesis by auto
  next
    case None
    with run c obtain p did v where
      req: "request_dispatch g x canonical ?digest key w = (Inr (p, did), v)"
      and rd: "run_dispatch H g p x did ?digest canonical v = (Inr rc, w')"
      by (auto simp: dispatch_execution_def run_iffs get_dispatch_by_key_def)
    from run_dispatch_Inr [OF rd] obtain arg u y where
      acc: "record_dispatch_accepted H did arg v = (Inr y, u)"
      and rec: "get_dispatch_receipt did u = (Inr rc, w')" by blast
    from request_dispatch_effect [OF req] obtain t where
      row: "find_dispatch (store v) did = Some (requested_row did x key ?digest t)" by metis
    have "steps (store w) (store u)"
      using withinD [OF steps_request_dispatch req] withinD [OF steps_record_accepted acc]
      by (rule core.R_trans)
    with ok have "db_ok (store u)" by (simp add: steps_def)
    moreover from record_accepted_state [OF acc row] obtain row' where
      "find_dispatch (store u) did = Some row'" "dp_state row' = ''accepted''" "dp_key row' = key"
      "dp_exec row' = x" "dp_digest row' = Some ?digest"
      by (auto simp: requested_row_def state_update_def)
    ultimately show ?thesis using receipt_accepted_row [OF _ rec _ _ _ _ _ c] by metis
  qed
qed

lemma accepted_row_persists:
  assumes ok: "db_ok d" "db_ok d'" and ev: "evolves d d'" and row: "accepted_row H x items key rc d row"
  shows "accepted_row H x items key rc d' row"
proof -
  from row dispatch_persists [OF ev, of row] have mem: "row \<in> set (dispatches d')"
    by (auto simp: accepted_row_def dispatch_evolves_def)
  have "dispatch_of_exec d x = Some row" "dispatch_of_exec d' x = Some row"
    using row mem dispatch_of_exec_iff [OF db_okD(2) [OF ok(1)]]
      dispatch_of_exec_iff [OF db_okD(2) [OF ok(2)]] by (auto simp: accepted_row_def)
  with ledger_support_persists [OF ok ev] row
  have "ledger_support (dp_id row) x d' = ledger_support (dp_id row) x d"
    by (auto simp: accepted_row_def)
  with row mem show ?thesis by (simp add: accepted_row_def)
qed

lemma accepted_row_replays:
  assumes ok: "db_ok (store v)" and row: "accepted_row H x items key rc (store v) row"
  shows "dispatch_execution H g x items key v = (Inr rc, v)"
proof -
  from row obtain canonical where c: "canonicalize_input_shape items = Inr canonical"
    "dp_digest row = Some (inputs_digest H canonical)" by (auto simp: accepted_row_def)
  from row have mem: "row \<in> set (dispatches (store v))" "dp_key row = key" "dp_exec row = x"
    "dp_state row = ''accepted''" by (auto simp: accepted_row_def)
  from row obtain parsed where p: "parse_correlation_ref (dp_correlation row) = Inr parsed"
    and rc: "rc = receipt_for row (Some (ledger_support (dp_id row) x (store v))) parsed"
    by (auto simp: accepted_row_def)
  have "dispatch_of_key (store v) key = Some row"
    using mem dispatch_of_key_iff [OF db_okD(2) [OF ok]] by blast
  with replay_accepted_run [OF ok mem(1,4,3) c(2) p] rc c(1) show ?thesis
    by (simp add: dispatch_execution_def pbind_def plift_def get_dispatch_by_key_def read_store_def)
qed

end
