(* ===== verification/Core_Examples.thy ===== *)
theory Core_Examples
  imports Core_Results
begin

text \<open>
  The concrete databases and calls of the witnesses, and the bundles of equations that evaluate
  programs on them. The example database has one open Work with one Execution that was never
  dispatched; finalizing it and dispatching it give the other two.
\<close>

section \<open>The example\<close>

definition demo_uuid :: "nat \<Rightarrow> string" where
  "demo_uuid n = (if n = 0 then ''a'' else if n = 1 then ''b'' else if n = 2 then ''c''
     else if n = 3 then ''d'' else replicate n CHR ''x'')"

lemmas prog_eval = preturn_def praise_def pbind_def pseq_def plift_def raise_if_def
  read_store_def write_store_def fetch_row_def exec_sql_def transaction_def try_catch_def
  uuid4_hex_def now_utc_def now_local_def fresh_id_def demo_uuid_def

lemmas row_eval = find_exec_def find_work_def find_dispatch_def dispatch_of_exec_def
  dispatch_of_key_def finalization_of_exec_def finalization_of_key_def observation_of_digest_def

lemmas repo_eval = get_execution_def load_execution_def reload_projection_def mk_projection_def
  mk_execution_def bounded_metadata_def list_input_refs_def input_rows_def
  validated_resource_observations_def finalize_execution_def commit_bundle_def final_refs_def
  append_new_event_def mk_event_def mk_core_event_def append_event_def insert_event_def
  update_executions_def insert_finalization_def update_where_def count_where_def dump_def

lemmas ok_eval = db_ok_def works_ok_def executions_ok_def refs_ok_def events_ok_def
  dispatches_ok_def observations_ok_def finalizations_ok_def links_ok_def seal_ok_def
  ledger_ok_def event_keys_def event_count_def in_state_def work_ok_def bounded_def
  execution_ok_def projection_ok_def event_ok_def terminal_def

definition world_at :: "core_db \<Rightarrow> core_db world" where
  "world_at d = \<lparr>store = d, uuid_src = demo_uuid, uuid_pos = 0,
     clock_src = (\<lambda>n. int n), clock_pos = 0, tz_offset = (\<lambda>_. 0)\<rparr>"

definition demo_work :: work where
  "demo_work = \<lparr>w_id = ''work_0'', w_objective = ''o'', w_lifecycle = Open,
     w_created = utc_time 0, w_updated = utc_time 0, w_closure = None, w_meta = [], w_version = 0\<rparr>"

definition demo_exec :: execution where
  "demo_exec = \<lparr>x_id = ''exec_2'', x_work = ''work_0'', x_provider = ''p'',
     x_projection = \<lparr>p_phase = Phase_unknown, p_outcome = None, p_resumable = None,
       p_freshness = Stale, p_observed_at = utc_time 1\<rparr>,
     x_created = utc_time 1, x_dispatched = None, x_started = None, x_ended = None,
     x_provenance = [], x_version = 0\<rparr>"

definition demo_db :: core_db where
  "demo_db = \<lparr>works = [demo_work], executions = [demo_exec], refs = [],
    events =
      [\<lparr>e_id = ''evt_1'', e_type = Work_created, e_subject = ''work_0'', e_at = utc_time 0,
        e_data = [(''objective'', ''o'')], e_key = None\<rparr>,
       \<lparr>e_id = ''evt_3'', e_type = Execution_created, e_subject = ''exec_2'', e_at = utc_time 1,
        e_data = [(''provider'', ''p''), (''responsibility_intent'', ''i'')], e_key = None\<rparr>],
    dispatches = [], observations = [], obs_next = 1, finalizations = []\<rparr>"

lemma demo_ok: "db_ok demo_db"
  by (simp add: demo_db_def demo_work_def demo_exec_def ok_eval row_eval count_where_def)

definition demo_final :: projection where
  "demo_final = \<lparr>p_phase = Phase_terminal, p_outcome = Some Succeeded, p_resumable = None,
     p_freshness = Observed, p_observed_at = utc_time 5\<rparr>"

definition demo_request :: fin_request where
  "demo_request = \<lparr>q_exec = ''exec_2'', q_key = ''f'', q_projection = demo_final,
     q_native = [], q_output = [], q_observations = []\<rparr>"

text \<open>A digest for the examples.\<close>

definition demo_hash :: "string \<Rightarrow> string" where
  "demo_hash s = ''h''"

lemma demo_digest: "finalization_digest demo_hash q = ''sha256:h''"
  by (simp add: finalization_digest_def demo_hash_def)

lemmas demo_eval = demo_db_def demo_work_def demo_exec_def demo_final_def demo_request_def
  world_at_def terminal_def

definition demo_done :: core_db where
  "demo_done = demo_db\<lparr>
     executions := [demo_exec\<lparr>x_projection := demo_final, x_ended := Some (utc_time 0), x_version := 1\<rparr>],
     events := events demo_db @
       [\<lparr>e_id = ''evt_a'', e_type = Execution_terminal, e_subject = ''exec_2'', e_at = utc_time 0,
         e_data = [(''bundle_digest'', ''sha256:h''), (''freshness'', ''observed''), (''phase'', ''terminal'')],
         e_key = None\<rparr>,
        \<lparr>e_id = ''evt_b'', e_type = Execution_finalized, e_subject = ''exec_2'', e_at = utc_time 0,
         e_data = [(''bundle_digest'', ''sha256:h'')], e_key = Some ''f''\<rparr>],
     finalizations := [\<lparr>f_exec = ''exec_2'', f_key = ''f'', f_digest = ''sha256:h'', f_version = 1,
       f_created = utc_time 0\<rparr>]\<rparr>"

definition demo_receipt :: fin_receipt where
  "demo_receipt = \<lparr>fc_exec = ''exec_2'', fc_key = ''f'', fc_digest = ''sha256:h'', fc_version = 1\<rparr>"

lemma demo_finalize:
  "apply_finalization demo_hash demo_request (world_at demo_db) =
    (Inr demo_receipt, (world_at demo_done)\<lparr>uuid_pos := 2, clock_pos := 1\<rparr>)"
  unfolding apply_finalization_def demo_digest
  by (simp add: prog_eval row_eval repo_eval demo_eval demo_done_def demo_receipt_def)

lemma demo_runs: "op_ok op \<Longrightarrow> core_runs H (store w) (store (snd (run_op H op w)))"
  by (rule runs_step [OF runs_refl, of _ _ _ "fst (run_op H op w)"]) simp_all

lemma store_world_at [simp]: "store (world_at d) = d"
  by (simp add: world_at_def)

lemma demo_runs_at: "op_ok op \<Longrightarrow> core_runs H d (store (snd (run_op H op (world_at d))))"
  using demo_runs [of op H "world_at d"] by simp

lemma demo_request_ok: "op_ok (Finalize demo_request)"
  by (simp add: demo_eval projection_ok_def)

lemma demo_done_runs: "core_runs demo_hash demo_db demo_done"
  using demo_runs [OF demo_request_ok, of demo_hash "world_at demo_db"]
  by (simp add: discard_def pbind_def demo_finalize preturn_def)

lemma demo_done_ok: "db_ok demo_done"
  using core_runs_steps [OF demo_done_runs] demo_ok by (simp add: steps_def)

section \<open>A Dispatch without inputs\<close>

definition demo_provider :: exec_provider where
  "demo_provider = \<lparr>ep_descriptor = \<lparr>d_id = ''p'', d_display = ''P'', d_version = ''1''\<rparr>,
     ep_capabilities = [], ep_limits = Some [], ep_preflight_decl = Preflight_absent,
     ep_preflight = None, ep_effect = None,
     ep_start = (\<lambda>q. Inr (Receipt \<lparr>sr_exec = sq_exec q, sr_dispatch = sq_dispatch q,
       sr_digest = sq_digest q, sr_support = Some No_recovery, sr_correlation = None\<rparr>))\<rparr>"

definition demo_registry :: registry where
  "demo_registry = (new_registry [])\<lparr>g_providers := [(''p'', demo_provider)]\<rparr>"

definition demo_sent :: core_db where
  "demo_sent = demo_db\<lparr>
     executions := [demo_exec\<lparr>x_dispatched := Some (utc_time 0), x_version := 1\<rparr>],
     events := events demo_db @
       [\<lparr>e_id = ''evt_b'', e_type = Dispatch_requested, e_subject = ''exec_2'', e_at = utc_time 0,
         e_data = [(''dispatch_id'', ''dispatch_a''), (''inputs_digest'', ''h''), (''provider'', ''p''),
           (''provider_version'', ''1'')], e_key = Some ''k''\<rparr>,
        \<lparr>e_id = ''evt_c'', e_type = Dispatch_accepted, e_subject = ''exec_2'', e_at = utc_time 1,
         e_data = [(''dispatch_id'', ''dispatch_a''), (''recovery_support'', ''none'')], e_key = None\<rparr>],
     dispatches := [\<lparr>dp_id = ''dispatch_a'', dp_exec = ''exec_2'', dp_key = ''k'',
       dp_state = ''accepted'', dp_correlation = None, dp_digest = Some ''h'',
       dp_created = utc_time 0, dp_updated = utc_time 1\<rparr>]\<rparr>"

definition demo_dispatched :: dispatch_receipt where
  "demo_dispatched = \<lparr>dr_exec = ''exec_2'', dr_dispatch = ''dispatch_a'', dr_state = ''accepted'',
     dr_digest = Some ''h'', dr_support = Some No_recovery, dr_correlation = None, dr_legacy = None\<rparr>"

lemma plus_dot: "CHR ''+'' < CHR ''.''" "\<not> CHR ''.'' < CHR ''+''" 
  by code_simp+

lemma append_less: "(xs @ ys < xs @ zs) = (ys < (zs :: string))"
  by (induction xs) auto

lemma demo_text:
  "\<exists>c r s. iso_text (utc_time 0) = c @ CHR ''+'' # r \<and> iso_text (utc_time 1) = c @ CHR ''.'' # s"
proof -
  let ?z = "pad 2 0"
  let ?c = "date_text 0 @ ''T'' @ ?z @ '':'' @ ?z @ '':'' @ ?z"
  have "iso_text (utc_time 0) = ?c @ CHR ''+'' # ?z @ '':'' @ ?z"
    "iso_text (utc_time 1) = ?c @ CHR ''.'' # pad 6 1 @ offset_text 0"
    by (simp_all add: iso_text_def utc_time_def day_us_def clock_text_def offset_text_def fraction_text_def)
  then show ?thesis by blast
qed
lemma demo_less: "iso_text (utc_time 0) < iso_text (utc_time 1)"
  using demo_text by (auto simp: append_less plus_dot)

lemmas demo_times = demo_less order.asym [OF demo_less] less_imp_neq [OF demo_less]
  less_imp_neq [OF demo_less, THEN not_sym] order.strict_implies_order [OF demo_less]
  demo_less [unfolded not_le [symmetric]]

lemma demo_local: "local_time (\<lambda>_. 0) i = utc_time i"
  by (simp add: local_time_def utc_time_def)

lemmas dispatch_eval = dispatch_execution_def request_dispatch_def run_dispatch_def
  canonicalize_input_shape_def uri_clash_def inputs_digest_def get_dispatch_by_key_def
  get_provider_def demo_registry_def demo_provider_def new_registry_def
  validate_registered_contracts_def validate_input_limits_def input_counts_def
  create_dispatch_with_inputs_def insert_dispatch_def prepare_start_def preflight_contract_ids_def
  run_preflight_def start_provider_def validate_start_receipt_def record_dispatch_accepted_def
  record_dispatch_terminal_def update_dispatches_def get_dispatch_def nonempty_item_def
  get_dispatch_receipt_def parse_correlation_ref_def list_events_def load_event_def
  recorded_support_def sorted_events_def parse_recovery_def dict_get_def demo_times demo_local

lemma demo_dispatch:
  "dispatch_execution demo_hash demo_registry ''exec_2'' [] ''k'' (world_at demo_db) =
    (Inr demo_dispatched, (world_at demo_sent)\<lparr>uuid_pos := 3, clock_pos := 2\<rparr>)"
  by (simp add: prog_eval row_eval repo_eval demo_eval dispatch_eval demo_sent_def demo_dispatched_def
      demo_hash_def)

end
