(* ===== verification/Core_Laws.thy ===== *)
theory Core_Laws
  imports Core_Results
begin

text \<open>
  Laws of whole calls: which call may seal an Execution, what a stale writer meets, what a
  second delivery of observations does, what a raised exception leaves behind.
\<close>

section \<open>Only a finalization adds a finalization row\<close>

definition unsealing :: "core_db \<Rightarrow> core_db \<Rightarrow> bool" where
  "unsealing d d' \<longleftrightarrow> finalizations d' = finalizations d"

interpretation unsealing: evolution unsealing
  by unfold_locales (auto simp: unsealing_def)

lemma unsealing_sql:
  "within unsealing (exec_sql (insert_event e))" "within unsealing (exec_sql (insert_work v))"
  "within unsealing (exec_sql (insert_execution x))" "within unsealing (exec_sql (insert_ref ign rr))"
  "within unsealing (exec_sql (insert_dispatch r))"
  "within unsealing (exec_sql (insert_observation i ob g h t))"
  "within unsealing (exec_sql (update_works pw fw))"
  "within unsealing (exec_sql (update_executions px fx))"
  "within unsealing (exec_sql (update_dispatches pd fd))"
  by (rule unsealing.within_exec_sql,
      auto simp: unsealing_def run_iffs insert_ref_Inr insert_execution_def insert_observation_def
        split: if_splits)+

lemmas unsealing_intros = unsealing.within_pbind unsealing.within_pseq unsealing.within_basic
  unsealing.within_branch unsealing.within_for_each unsealing.within_map_each
  unsealing.within_transaction unsealing_sql reads [THEN unsealing.within_read_only]

lemmas writer_defs = create_work_def update_work_def create_execution_def check_created_event_def
  update_projection_def attach_ref_def create_dispatch_with_inputs_def freeze_input_def
  insert_ref_stmt_def append_event_def append_new_event_def mk_event_def record_dispatch_terminal_def
  record_dispatch_failed_def record_dispatch_ambiguous_def commit_resource_state_def
  record_resource_state_def append_observation_def require_frozen_def
  record_resource_observations_def record_dispatch_accepted_def

lemma unsealing_methods:
  "within unsealing (create_work v e)" "within unsealing (update_work v n e)"
  "within unsealing (create_execution x e)" "within unsealing (update_projection x n e)"
  "within unsealing (attach_ref i rel r e c)"
  "within unsealing (create_dispatch_with_inputs did i inputs digest key e)"
  "within unsealing (record_dispatch_terminal did st ety cr er extra)"
  "within unsealing (record_dispatch_failed did err')"
  "within unsealing (record_dispatch_ambiguous did err')"
  "within unsealing (record_resource_state H i r st' ev t)"
  "within unsealing (record_resource_observations H i obs t)"
  by (unfold writer_defs Let_def) (intro unsealing_intros)+

lemma unsealing_record_accepted: "within unsealing (record_dispatch_accepted H did arg)"
  unfolding record_dispatch_accepted_def
  by (cases arg) (simp_all, (intro unsealing_intros unsealing_methods)+)

lemma unsealing_mk_event: "within unsealing (mk_event i ty subj t dat k)"
  unfolding mk_event_def by (rule unsealing.within_plift)

lemmas service_defs = work_service_create_def complete_work_def reopen_work_def
  execution_service_create_def observe_projection_def write_projection_def
  apply_observation_def attach_observed_ref_def service_record_observations_def

lemma unsealing_service:
  "within unsealing (work_service_create obj m)" "within unsealing (complete_work i rs)"
  "within unsealing (reopen_work i rs)" "within unsealing (execution_service_create i p rs m)"
  "within unsealing (observe_projection i pr)"
  "within unsealing (apply_observation H i pr ns os sts obs)"
  "within unsealing (service_record_observations H i obs)"
  by (unfold service_defs) (intro unsealing_intros unsealing_methods unsealing_mk_event)+

lemma unsealing_request: "within unsealing (request_dispatch g x canonical digest key)"
  unfolding request_dispatch_def
  by (intro unsealing_intros unsealing_methods unsealing_mk_event)

lemma unsealing_dispatch: "within unsealing (dispatch_execution H g x items key)"
  unfolding dispatch_execution_def run_dispatch_def fail_dispatch_def ambiguous_dispatch_def
  by (intro unsealing_intros unsealing_methods unsealing_record_accepted unsealing_request)

lemma unsealing_run_op: "(\<forall>q. op \<noteq> Finalize q) \<Longrightarrow> within unsealing (run_op H op)"
  by (cases op)
     (auto simp: discard_def intro!: unsealing.within_pbind unsealing.within_basic unsealing_methods
       unsealing_service unsealing_request unsealing_dispatch unsealing_record_accepted)

section \<open>Reads that succeed on a well-formed database\<close>

lemma get_work_returns:
  assumes "db_ok (store w)" "find_work (store w) i \<noteq> None"
  shows "\<exists>v. get_work i w = (Inr v, w)"
proof -
  from assms(2) obtain v where v: "find_work (store w) i = Some v" by auto
  then have "v \<in> set (works (store w))" by (auto simp: find_work_def dest: find_SomeD)
  with db_okD(9) [OF assms(1)] v show ?thesis
    by (auto simp: works_ok_def list_all_iff get_work_Inr)
qed

lemma get_execution_returns:
  assumes "db_ok (store w)" "find_exec (store w) i = Some x"
  shows "get_execution i w = (Inr x, w)"
proof -
  from find_exec_Some [OF assms(2)] db_okD(1) [OF assms(1)]
  have "execution_ok x" "projection_ok (x_projection x)"
    by (auto simp: executions_ok_def list_all_iff)
  with assms(2) show ?thesis by (simp add: get_execution_Inr)
qed

section \<open>A raised exception leaves the store as it was\<close>

lemma pseq_Inl:
  assumes "pseq m k w = (Inl e, w')"
  obtains "m w = (Inl e, w')" | x v where "m w = (Inr x, v)" "k v = (Inl e, w')"
  using assms by (auto simp: pseq_def pbind_def split: prod.splits sum.splits)

text \<open>From the stores that satisfy \<open>P\<close>.\<close>

definition raises_clean :: "(core_db \<Rightarrow> bool) \<Rightarrow> 'a core_prog \<Rightarrow> bool" where
  "raises_clean P m \<longleftrightarrow> (\<forall>w e w'. P (store w) \<longrightarrow> m w = (Inl e, w') \<longrightarrow> store w' = store w)"

lemma raises_cleanD: "raises_clean P m \<Longrightarrow> P (store w) \<Longrightarrow> m w = (Inl e, w') \<Longrightarrow> store w' = store w"
  unfolding raises_clean_def by blast

lemma clean_atomic: "atomic m \<Longrightarrow> raises_clean P m"
  unfolding raises_clean_def by (intro allI impI) (rule atomicD)

lemma clean_read_only: "read_only m \<Longrightarrow> raises_clean P m"
  by (rule clean_atomic) (rule atomic_read_only)

lemma clean_pbind:
  assumes m: "read_only m" and Q: "\<And>w x w'. P (store w) \<Longrightarrow> m w = (Inr x, w') \<Longrightarrow> Q x (store w)"
    and k: "\<And>x. raises_clean (Q x) (k x)"
  shows "raises_clean P (pbind m k)"
  unfolding raises_clean_def
proof (intro allI impI)
  fix w e w' assume P: "P (store w)" and run: "pbind m k w = (Inl e, w')"
  obtain q v where mw: "m w = (q, v)" by fastforce
  have v: "store v = store w" by (rule read_only_store [OF m mw])
  show "store w' = store w"
  proof (cases q)
    case (Inl f)
    with run mw v show ?thesis by (simp add: pbind_def)
  next
    case (Inr x)
    with run mw have kx: "k x v = (Inl e, w')" by (simp add: pbind_def)
    from Q [OF P] mw Inr v have "Q x (store v)" by simp
    from raises_cleanD [OF k this kx] v show ?thesis by simp
  qed
qed

lemma clean_any: "read_only m \<Longrightarrow> (\<And>x. raises_clean P (k x)) \<Longrightarrow> raises_clean P (pbind m k)"
  by (rule clean_pbind [where Q = "\<lambda>_. P"])

lemma clean_pseq: "read_only m \<Longrightarrow> raises_clean P k \<Longrightarrow> raises_clean P (pseq m k)"
  by (simp add: pseq_def clean_any)

lemma clean_known:
  assumes m: "read_only m" and Q: "\<And>w x w'. m w = (Inr x, w') \<Longrightarrow> Q x"
    and k: "\<And>x. Q x \<Longrightarrow> raises_clean P (k x)"
  shows "raises_clean P (pbind m k)"
proof (rule clean_pbind [OF m, where Q = "\<lambda>x d. Q x \<and> P d"])
  fix w x w' assume "P (store w)" "m w = (Inr x, w')"
  with Q show "Q x \<and> P (store w)" by blast
next
  fix x show "raises_clean (\<lambda>d. Q x \<and> P d) (k x)"
    using k [of x] unfolding raises_clean_def by blast
qed

lemma clean_plift: "(\<And>x. r = Inr x \<Longrightarrow> raises_clean P (k x)) \<Longrightarrow> raises_clean P (pbind (plift r) k)"
  by (rule clean_known [where Q = "\<lambda>x. r = Inr x"]) (simp_all add: run_iffs read_only_basic)

lemma clean_mk_event:
  assumes "\<And>e. event_ok e \<Longrightarrow> e_type e = ty \<Longrightarrow> e_subject e = subj \<Longrightarrow> raises_clean P (k e)"
  shows "raises_clean P (pbind (mk_event i ty subj t dat key) k)"
proof (rule clean_known [where Q = "\<lambda>e. event_ok e \<and> e_type e = ty \<and> e_subject e = subj"])
  show "read_only (mk_event i ty subj t dat key)" by (simp add: mk_event_def read_only_basic)
next
  fix w e w' assume "mk_event i ty subj t dat key w = (Inr e, w')"
  then show "event_ok e \<and> e_type e = ty \<and> e_subject e = subj" by (simp add: run_iffs event_ok_def)
next
  fix e assume "event_ok e \<and> e_type e = ty \<and> e_subject e = subj"
  then show "raises_clean P (k e)" by (intro assms) simp_all
qed

lemma discard_Inl: "discard m w = (Inl e, w') \<Longrightarrow> m w = (Inl e, w')"
  by (auto simp: discard_def pbind_def preturn_def split: prod.splits sum.splits)

lemma clean_discard: "raises_clean P m \<Longrightarrow> raises_clean P (discard m)"
  unfolding raises_clean_def using discard_Inl by blast

text \<open>A transaction and the read of the row it wrote, which cannot fail once it is committed.\<close>

lemma clean_commit:
  assumes t: "atomic t" and get: "read_only get"
    and st: "\<And>w r w'. P (store w) \<Longrightarrow> pseq t get w = (r, w') \<Longrightarrow> db_ok (store w')"
    and found: "\<And>w x v. t w = (Inr x, v) \<Longrightarrow> found (store v)"
    and returns: "\<And>w. db_ok (store w) \<Longrightarrow> found (store w) \<Longrightarrow> \<exists>y. get w = (Inr y, w)"
  shows "raises_clean P (pseq t get)"
  unfolding raises_clean_def
proof (intro allI impI)
  fix w e w' assume P: "P (store w)" and run: "pseq t get w = (Inl e, w')"
  from run show "store w' = store w"
  proof (cases rule: pseq_Inl)
    case 1
    with atomicD [OF t] show ?thesis .
  next
    case (2 x v)
    have "store w' = store v" by (rule read_only_store [OF get 2(2)])
    with st [OF P run] have "db_ok (store v)" by simp
    from returns [OF this found [OF 2(1)]] 2(2) show ?thesis by auto
  qed
qed

lemma within_ok: "within steps m \<Longrightarrow> db_ok (store w) \<Longrightarrow> m w = (r, w') \<Longrightarrow> db_ok (store w')"
  by (drule (1) withinD) (simp add: steps_def)

lemma clean_create_work:
  assumes "work_ok v" "event_ok e" "uncounted (e_type e)"
  shows "raises_clean db_ok (create_work v e)"
  unfolding create_work_def
proof (rule clean_commit [where found = "\<lambda>d. find_work d (w_id v) \<noteq> None"])
  fix w :: "core_db world" and r w'
  assume "db_ok (store w)" "pseq (transaction (pseq (exec_sql (insert_work v)) (append_event e)))
    (get_work (w_id v)) w = (r, w')"
  then show "db_ok (store w')"
    using within_ok [OF steps_create_work [OF assms]] by (simp add: create_work_def)
next
  fix w x v' assume "transaction (pseq (exec_sql (insert_work v)) (append_event e)) w = (Inr x, v')"
  then show "find_work (store v') (w_id v) \<noteq> None"
    by (auto simp: run_iffs append_event_Inr find_work_def find_append_row split: option.splits)
qed (auto intro: atomic_transaction get_work_returns read_only_get_work)

lemma clean_update_work:
  assumes "work_ok v" "event_ok e" "uncounted (e_type e)"
  shows "raises_clean db_ok (update_work v n e)"
  unfolding update_work_def
proof (rule clean_commit [where found = "\<lambda>d. find_work d (w_id v) \<noteq> None"], goal_cases)
  case (3 w r w')
  then show ?case using within_ok [OF steps_update_work_prog [OF assms]] by (simp add: update_work_def)
next
  case (4 w x v')
  then obtain r where "r \<in> set (works (store w))" "w_id r = w_id v"
    by (auto simp: run_iffs append_event_Inr dest!: count_where_1)
  with 4 show ?case
    by (auto simp: run_iffs append_event_Inr find_work_def find_update_where find_None_iff)
qed (auto intro: atomic_transaction get_work_returns read_only_get_work)

lemma clean_create_execution:
  assumes "execution_ok x" "projection_ok (x_projection x)" "\<not> terminal (x_projection x)"
    "x_dispatched x = None" "event_ok e" "e_type e = Execution_created" "e_subject e = x_id x"
  shows "raises_clean db_ok (create_execution x e)"
  unfolding create_execution_def
proof (rule clean_pseq [OF read_only_basic(4)], rule clean_pseq [OF read_only_basic(4)],
    rule clean_pseq [OF read_only_basic(4)], rule clean_pseq [OF read_only_check_created],
    rule clean_commit [where found = "\<lambda>d. find_exec d (x_id x) \<noteq> None"], goal_cases)
  case (3 w r w')
  then show ?case
    using within_ok [OF core.within_pseq [OF steps_create_execution_body [OF assms]
        core.within_read_only [OF read_only_get_execution]]] by blast
next
  case (4 w u v)
  then obtain d where "insert_execution x (store w) = Inr (Suc 0, d)"
    and "append_event e (w\<lparr>store := d\<rparr>) = (Inr (), v)"
    by (auto simp: run_iffs split: if_splits)
  then show ?case
    by (auto simp: insert_execution_1 append_event_Inr run_iffs find_exec_def find_append_row
        split: option.splits)
next
  case (5 w)
  with get_execution_returns show ?case by blast
qed (rule atomic_transaction read_only_get_execution)+

text \<open>A projection write: the row under the expected version is the one that was read.\<close>

lemma clean_write_projection:
  fixes current :: execution
  assumes p: "projection_ok p"
    and t: "terminal (x_projection current) = terminal p"
      "terminal (x_projection current) \<Longrightarrow> p_outcome p = p_outcome (x_projection current)"
    and x: "x_id current = x"
  shows "raises_clean (\<lambda>d. db_ok d \<and> find_exec d x = Some current) (write_projection x current p)"
  unfolding write_projection_def mk_event_def
proof (rule clean_any [OF read_only_basic(8)], rule clean_plift,
    rule clean_any [OF read_only_basic(10)], rule clean_plift)
  fix now y eid e
  assume "mk_execution (changed_execution current p now) = Inr y"
    and ev: "mk_core_event eid (if terminal p then Execution_terminal else Projection_changed) x now
        [(''phase'', phase_value (p_phase p)), (''freshness'', freshness_value (p_freshness p))] None = Inr e"
  then have y: "y = changed_execution current p now" by (simp add: mk_execution_Inr)
  from ev have e: "event_ok e" "uncounted (e_type e)"
    by (auto simp: run_iffs event_ok_def uncounted_def)
  have act: "p_phase p \<noteq> Phase_active" if "terminal (x_projection current)"
    using t(1) that by (simp add: terminal_def)
  have ok: "projection_write_ok y (x_version current) d"
    if "db_ok d" "find_exec d x = Some current" for d
    by (rule projection_write_ok_current [of _ x current])
       (use that t x act in \<open>auto simp: db_ok_def y changed_execution_def split: option.splits\<close>)
  show "raises_clean (\<lambda>d. db_ok d \<and> find_exec d x = Some current)
      (update_projection y (x_version current) e)"
    unfolding update_projection_def
  proof (rule clean_commit [where found = "\<lambda>d. find_exec d (x_id y) \<noteq> None"], goal_cases)
    case (3 w r w')
    then have "update_projection y (x_version current) e w = (r, w')"
      by (simp add: update_projection_def)
    from steps_update_projection [OF this ok _ e] 3 p show ?case
      by (simp add: steps_def y changed_execution_def)
  next
    case (4 w u v)
    then obtain r where "r \<in> set (executions (store w))" "x_id r = x_id y"
      by (auto simp: run_iffs append_event_Inr dest!: count_where_1)
    with 4 show ?case
      by (auto simp: run_iffs append_event_Inr find_exec_def find_update_where find_None_iff)
  next
    case (5 w)
    with get_execution_returns show ?case by blast
  qed (rule atomic_transaction read_only_get_execution)+
qed

lemma clean_observe_projection:
  assumes p: "projection_ok p"
  shows "raises_clean db_ok (observe_projection x p)"
  unfolding observe_projection_def
proof (rule clean_pbind [where Q = "\<lambda>current d. db_ok d \<and> find_exec d x = Some current"])
  fix current :: execution
  let ?cur = "x_projection current" and ?P = "\<lambda>d. db_ok d \<and> find_exec d x = Some current"
  show "raises_clean ?P
    (pseq (raise_if (\<not> terminal ?cur \<and> terminal p) (finalization_required x))
    (pseq (plift (validate_projection_transition x ?cur p))
    (if instant (p_observed_at p) < instant (p_observed_at ?cur) then preturn current
     else if same_projection_semantics p ?cur then preturn current
     else write_projection x current p)))"
  proof (cases "\<not> (\<not> terminal ?cur \<and> terminal p) \<and> validate_projection_transition x ?cur p = Inr () \<and>
      x_id current = x")
    case True
    then have t: "terminal ?cur = terminal p" "terminal ?cur \<Longrightarrow> p_outcome p = p_outcome ?cur"
      "x_id current = x"
      by (auto simp: validate_transition_Inr)
    show ?thesis
      using clean_write_projection [OF p t]
      by (intro clean_pseq read_only_basic) (simp add: clean_read_only read_only_basic)
  next
    case False
    then show ?thesis
      by (auto simp: raises_clean_def pseq_def pbind_def raise_if_def plift_def
          split: sum.splits dest: find_exec_Some)
  qed
qed (auto simp: get_execution_Inr read_only_get_execution)

lemma clean_service:
  "raises_clean db_ok (work_service_create obj m)" "raises_clean db_ok (complete_work i rs)"
  "raises_clean db_ok (reopen_work i rs)"
  unfolding work_service_create_def complete_work_def reopen_work_def
  by (intro clean_any clean_mk_event read_only_basic read_only_get_work clean_plift clean_create_work
      clean_update_work; (simp add: mk_work_Inr uncounted_def)?)+

lemma clean_execution_service_create:
  "raises_clean db_ok (execution_service_create wid prov intent provenance)"
  unfolding execution_service_create_def
proof (rule clean_any [OF read_only_basic(8)], rule clean_any [OF read_only_basic(10)],
    rule clean_plift, rule clean_plift, rule clean_any [OF read_only_basic(10)], rule clean_plift)
  fix now xid p x eid e
  assume p: "mk_projection Phase_unknown None None Stale now = Inr p"
    and x: "mk_execution \<lparr>x_id = xid, x_work = wid, x_provider = prov, x_projection = p,
        x_created = now, x_dispatched = None, x_started = None, x_ended = None,
        x_provenance = provenance, x_version = 0\<rparr> = Inr x"
    and e: "execution_created_event eid xid now prov intent = Inr e"
  from p have p: "projection_ok p" "\<not> terminal p"
    by (auto simp: mk_projection_Inr projection_ok_def terminal_def)
  from x have "execution_ok x" "x_projection x = p" "x_dispatched x = None" "x_id x = xid"
    by (auto simp: mk_execution_Inr)
  with p execution_created_event_Inr [OF e] show "raises_clean db_ok (create_execution x e)"
    by (intro clean_create_execution) auto
qed

lemma atomic_then_return: "atomic m \<Longrightarrow> atomic (pseq m (preturn x))"
  by (auto simp: atomic_def preturn_def elim!: pseq_Inl)

lemma clean_apply_finalization: "raises_clean db_ok (apply_finalization H q)"
  unfolding apply_finalization_def
  by (rule clean_atomic)
     (auto intro!: atomic_pbind read_only_get_execution atomic_finalize read_only_case_option
       read_only_basic read_only_validated)

lemma clean_record_observations: "raises_clean db_ok (service_record_observations H x obs)"
  unfolding service_record_observations_def
  by (rule clean_atomic)
     (auto intro!: atomic_pbind read_only_validated atomic_record_observations
       atomic_read_only [OF read_only_basic(1)] read_only_basic(8))

lemma clean_request_dispatch: "raises_clean db_ok (request_dispatch g x canonical digest key)"
  unfolding request_dispatch_def mk_event_def
  by (rule clean_atomic)
     (intro atomic_pbind atomic_pseq atomic_then_return atomic_create_dispatch read_only_basic
       read_only_get_execution)

text \<open>The calls that are one transaction.\<close>

fun one_transaction :: "core_op \<Rightarrow> bool" where
  "one_transaction (Dispatch g x items key) = False"
| "one_transaction (Apply_observation x p native output states obs) = False"
| "one_transaction _ = True"

lemmas clean_calls = clean_service clean_execution_service_create clean_observe_projection
  clean_apply_finalization clean_record_observations clean_request_dispatch
  atomic_record_resource_state [THEN clean_atomic] atomic_attach_ref [THEN clean_atomic]
  atomic_record_accepted [THEN clean_atomic] atomic_record_failed [THEN clean_atomic]
  atomic_record_ambiguous [THEN clean_atomic]

lemma clean_run_op: "one_transaction op \<Longrightarrow> op_ok op \<Longrightarrow> raises_clean db_ok (run_op H op)"
  by (cases op) (auto intro!: clean_discard clean_plift clean_calls)

section \<open>A stale writer\<close>

lemma update_projection_stale:
  assumes ids: "distinct (map x_id (executions (store w)))"
    and row: "find_exec (store w) (x_id y) = Some e" "x_version e \<noteq> n"
  shows "\<exists>w'. update_projection y n ev w =
      (Inl (err ConcurrencyConflict (''execution version changed: '' @ x_id y)), w') \<and>
    store w' = store w"
proof -
  have none: "\<not> (x_id r = x_id y \<and> x_version r = n)" if "r \<in> set (executions (store w))" for r
    using that row ids find_exec_Some [OF row(1)] by (auto simp: distinct_map inj_on_def)
  then have "count_where (\<lambda>r. x_id r = x_id y \<and> x_version r = n) (executions (store w)) = 0"
    by (simp add: count_where_0)
  then show ?thesis
    by (simp add: update_projection_def pseq_def pbind_def transaction_def exec_sql_def
        update_executions_def raise_if_def)
qed

lemma update_projection_bumps:
  assumes "update_projection y n ev w = (Inr z, w')" "event_ok ev" "db_ok (store w')"
  shows "\<exists>e. find_exec (store w') (x_id y) = Some e \<and> x_version e = n + 1"
proof -
  from update_projection_effect [OF assms(1,2)] obtain r es where
    r: "r \<in> set (executions (store w))" "x_id r = x_id y" "x_version r = n"
    and w': "store w' = (store w)\<lparr>executions := update_where
      (\<lambda>r. x_id r = x_id y \<and> x_version r = n) (projection_update y) (executions (store w)), events := es\<rparr>"
    by blast
  have "projection_update y r \<in> set (executions (store w'))"
    using r by (auto simp: w' update_where_def)
  moreover have "x_id (projection_update y r) = x_id y" "x_version (projection_update y r) = n + 1"
    using r by (simp_all add: projection_update_def)
  ultimately show ?thesis using find_exec_iff [OF db_okD(1) [OF assms(3)]] by auto
qed

section \<open>Observations delivered again\<close>

lemma observation_persists:
  "prefix (observations d) (observations d') \<Longrightarrow> observation_of_digest d g = Some row \<Longrightarrow>
     observation_of_digest d' g = Some row"
  unfolding observation_of_digest_def by (rule find_prefix)

lemma append_observation_row:
  assumes "append_observation H x t ob w = (Inr (i, new), w')"
  shows "\<exists>row. observation_of_digest (store w') (observation_digest H x ob) = Some row \<and> ob_id row = i"
proof (cases "observation_of_digest (store w) (observation_digest H x ob)")
  case None
  with assms show ?thesis
    by (auto simp: append_observation_def Let_def run_iffs insert_observation_def
        observation_of_digest_def find_append_row split: if_splits)
next
  case (Some row)
  with assms show ?thesis by (auto simp: append_observation_def Let_def run_iffs)
qed

definition known_observations ::
  "(string \<Rightarrow> string) \<Rightarrow> string \<Rightarrow> observation list \<Rightarrow> (nat \<times> bool) list \<Rightarrow> core_db \<Rightarrow> bool" where
  "known_observations H x obs ids d \<longleftrightarrow> list_all2 (\<lambda>ob i.
     \<exists>row. observation_of_digest d (observation_digest H x ob) = Some row \<and> ob_id row = fst i) obs ids"

lemma known_persists:
  assumes "prefix (observations d) (observations d')" "known_observations H x obs ids d"
  shows "known_observations H x obs ids d'"
  using assms(2) unfolding known_observations_def
  by (rule list_all2_mono) (use observation_persists [OF assms(1)] in blast)

lemma append_observation_grows:
  "append_observation H x t ob w = (r, w') \<Longrightarrow> prefix (observations (store w)) (observations (store w'))"
  using withinD [OF append_observation_within] by (fastforce simp: appends_observations_def)

lemma map_append_known:
  "map_each (append_observation H x t) obs w = (Inr ids, w') \<Longrightarrow>
     prefix (observations (store w)) (observations (store w')) \<and> known_observations H x obs ids (store w')"
proof (induction obs arbitrary: w ids)
  case Nil
  then show ?case by (simp add: preturn_def known_observations_def)
next
  case (Cons ob obs)
  then obtain i new v js where a: "append_observation H x t ob w = (Inr (i, new), v)"
    and m: "map_each (append_observation H x t) obs v = (Inr js, w')" and ids: "ids = (i, new) # js"
    by (auto simp: run_iffs)
  note IH = Cons.IH [OF m]
  from append_observation_row [OF a] observation_persists IH
  have "\<exists>row. observation_of_digest (store w') (observation_digest H x ob) = Some row \<and> ob_id row = i"
    by blast
  with IH append_observation_grows [OF a] show ?case
    by (auto simp: ids known_observations_def)
qed

lemma map_append_again:
  "known_observations H x obs ids (store w) \<Longrightarrow>
     map_each (append_observation H x t) obs w = (Inr (map (\<lambda>i. (fst i, False)) ids), w)"
proof (induction obs arbitrary: ids)
  case Nil
  then show ?case by (simp add: preturn_def known_observations_def)
next
  case (Cons ob obs)
  then obtain i js row where ids: "ids = i # js" and k: "known_observations H x obs js (store w)"
    and row: "observation_of_digest (store w) (observation_digest H x ob) = Some row" "ob_id row = fst i"
    by (auto simp: known_observations_def list_all2_Cons1)
  have "append_observation H x t ob w = (Inr (fst i, False), w)"
    using row by (simp add: append_observation_def Let_def pbind_def read_store_def preturn_def)
  with Cons.IH [OF k] ids show ?case by (simp add: pbind_def preturn_def)
qed

lemma require_frozen_run:
  "\<forall>ob \<in> set obs. frozen_input (store w) x (o_contract ob) (o_ref ob) \<Longrightarrow>
     for_each (require_frozen x) obs w = (Inr (), w)"
  by (simp add: require_frozen_all)

lemma frozen_persists:
  "inputs_frozen d d' \<Longrightarrow> frozen_input d x c r \<Longrightarrow> frozen_input d' x c r"
  by (auto simp: inputs_frozen_def frozen_input_def)

lemma record_observations_again:
  assumes ok: "db_ok (store v)" and ev: "evolves (store w') (store v)"
    and run: "record_resource_observations H x obs t w = (Inr ids, w')"
  shows "\<exists>v'. record_resource_observations H x obs t' v = (Inr (map (\<lambda>i. (fst i, False)) ids), v') \<and>
    store v' = store v"
proof (cases "obs = []")
  case True
  with run show ?thesis by (auto simp: record_resource_observations_def preturn_def)
next
  case False
  from run False obtain u where
    m: "map_each (append_observation H x (case t of Some s \<Rightarrow> s
        | None \<Rightarrow> local_time (tz_offset w) (clock_src w (clock_pos w)))) obs u = (Inr ids, w')"
    and e: "\<exists>e. find_exec (store u) x = Some e"
    and fr: "\<forall>ob \<in> set obs. frozen_input (store u) x (o_contract ob) (o_ref ob)"
    by (cases t) (auto simp: record_resource_observations_def run_iffs get_execution_Inr require_frozen_all)
  from map_append_known [OF m] have k: "known_observations H x obs ids (store w')" by simp
  have "appends_observations H x (store u) (store w')"
    by (rule withinD [OF appending.within_map_each m]) (rule append_observation_within)
  then have same: "executions (store w') = executions (store u)" "refs (store w') = refs (store u)"
    by (auto simp: appends_observations_def)
  from ev have pre: "prefix (observations (store w')) (observations (store v))"
    and frz: "inputs_frozen (store w') (store v)" by (simp_all add: evolves_def)
  from fr same have "\<forall>ob \<in> set obs. frozen_input (store w') x (o_contract ob) (o_ref ob)"
    by (simp add: frozen_input_def)
  with frozen_persists [OF frz] have fr': "\<forall>ob \<in> set obs. frozen_input (store v) x (o_contract ob) (o_ref ob)"
    by blast
  from e same have "\<exists>e. find_exec (store w') x = Some e" by (simp add: find_exec_def)
  with exec_persists [OF ev ok] obtain e' where e': "find_exec (store v) x = Some e'" by blast
  define s where "s = (case t' of Some s \<Rightarrow> s | None \<Rightarrow> local_time (tz_offset v) (clock_src v (clock_pos v)))"
  define v' where "v' = (case t' of Some _ \<Rightarrow> v | None \<Rightarrow> v\<lparr>clock_pos := Suc (clock_pos v)\<rparr>)"
  have sv: "store v' = store v" by (simp add: v'_def split: option.splits)
  have "get_execution x v' = (Inr e', v')" using get_execution_returns [of v' x e'] ok e' sv by simp
  moreover have "for_each (require_frozen x) obs v' = (Inr (), v')"
    using fr' sv by (intro require_frozen_run) simp
  moreover have "map_each (append_observation H x s) obs v' = (Inr (map (\<lambda>i. (fst i, False)) ids), v')"
    using known_persists [OF pre k] sv by (intro map_append_again) simp
  ultimately have "record_resource_observations H x obs t' v = (Inr (map (\<lambda>i. (fst i, False)) ids), v')"
    using False by (cases t') (simp_all add: record_resource_observations_def pbind_def pseq_def
        transaction_def preturn_def now_local_def v'_def s_def)
  with sv show ?thesis by blast
qed

section \<open>The responsibility intent\<close>

definition created_events :: "string \<Rightarrow> core_db \<Rightarrow> core_event list" where
  "created_events x d = filter (\<lambda>e. e_subject e = x \<and> e_type e = Execution_created) (events d)"

lemma created_events_persist:
  assumes ok: "db_ok d" "db_ok d'" and ev: "evolves d d'" and x: "find_exec d x \<noteq> None"
  shows "created_events x d' = created_events x d"
proof -
  from exec_persists [OF ev ok(2)] x have "find_exec d' x \<noteq> None" by fastforce
  with x ok have "length (created_events x d) = 1" "length (created_events x d') = 1"
    using db_okD(7) [OF ok(1)] db_okD(7) [OF ok(2)]
    by (simp_all add: ledger_ok_def event_count_def count_where_def created_events_def conj_commute)
  moreover have "prefix (created_events x d) (created_events x d')"
    using ev by (auto simp: evolves_def created_events_def prefix_def)
  ultimately show ?thesis by (auto simp: prefix_def)
qed

lemma intent_run:
  assumes "db_ok (store w)" "find_exec (store w) x = Some e"
  shows "get_execution_responsibility_intent x w =
    (Inr (case sorted_events (created_events x (store w)) of [] \<Rightarrow> None
       | e # _ \<Rightarrow> dict_get (e_data e) responsibility_intent_key), w)"
  by (simp add: get_execution_responsibility_intent_def pseq_def pbind_def
      get_execution_returns [OF assms] read_store_def preturn_def created_events_def)

end
