(* ===== verification/Core_Claims.thy ===== *)
theory Core_Claims
  imports Core_Examples Core_Laws
begin

text \<open>
  The properties of the Work Core's records: the invariant, sealed history, finalization,
  projections and observations. Each has a witness that applies it to a concrete database and
  call.
\<close>

section \<open>Invariant and sealed history\<close>



text \<open>
  C2: history is sealed. Whatever is called later, returning or raising, the events, the
  observations and the finalization receipts recorded so far stay a prefix of their tables, no
  INPUT appears on an Execution that has a Dispatch, identities and provenance never change,
  the version of a row changes with every change of the row, a terminal Execution keeps its
  outcome, start and end, and a Dispatch that was accepted or failed never changes again.
\<close>

theorem history_sealed:
  assumes "db_ok d" "core_runs H d d'"
  shows "evolves d d'"
  using core_runs_steps [OF assms(2)] assms(1) by (simp add: steps_def)

theorem history_sealed_witness:
  "evolves demo_db (store (snd (run_op demo_hash (Finalize demo_request) (world_at demo_db))))"
  by (rule history_sealed [OF demo_ok demo_runs_at [OF demo_request_ok]])

text \<open>
  Once an Execution is terminal it stays terminal with the same outcome, start and end, on
  the same Work and provider, through any later calls.
\<close>

lemma terminal_execution_sealed:
  assumes "db_ok d" "core_runs H d d'" "find_exec d x = Some e" "terminal (x_projection e)"
  shows "\<exists>e'. find_exec d' x = Some e' \<and> terminal (x_projection e') \<and>
    p_outcome (x_projection e') = p_outcome (x_projection e) \<and>
    x_started e' = x_started e \<and> x_ended e' = x_ended e \<and>
    x_work e' = x_work e \<and> x_provider e' = x_provider e"
proof -
  have s: "steps d d'" by (rule core_runs_steps [OF assms(2)])
  with assms(1) have "evolves d d'" "db_ok d'" by (simp_all add: steps_def)
  from exec_persists [OF this assms(3)] assms(4) show ?thesis by (auto simp: exec_evolves_def)
qed

lemma terminal_execution_sealed_witness:
  "\<exists>e. find_exec (store (snd (run_op demo_hash (Observe ''exec_2'' demo_final) (world_at demo_done))))
      ''exec_2'' = Some e \<and> terminal (x_projection e) \<and>
    p_outcome (x_projection e) = Some Succeeded \<and> x_ended e = Some (utc_time 0)"
proof -
  let ?d = "store (snd (run_op demo_hash (Observe ''exec_2'' demo_final) (world_at demo_done)))"
  have r: "core_runs demo_hash demo_done ?d"
    by (rule demo_runs_at) (simp add: demo_final_def projection_ok_def)
  have e: "find_exec demo_done ''exec_2'' =
      Some (demo_exec\<lparr>x_projection := demo_final, x_ended := Some (utc_time 0), x_version := 1\<rparr>)"
    by (simp add: demo_done_def row_eval demo_eval)
  from terminal_execution_sealed [OF demo_done_ok r e] show ?thesis by (auto simp: demo_eval)
qed

section \<open>Finalization\<close>

text \<open>
  Finalization is idempotent for ever. Once a request got its receipt, the same request on
  any later database, after any calls, with another clock and other ids, returns the same
  receipt and writes nothing.
\<close>

lemma finalization_replayed:
  assumes "db_ok (store w)" "op_ok (Finalize q)"
    and "apply_finalization H q w = (Inr rc, w')" "core_runs H (store w') (store v)"
  shows "\<exists>v'. apply_finalization H q v = (Inr rc, v') \<and> store v' = store v"
proof -
  from assms(2) have "within steps (apply_finalization H q)" by (simp add: steps_apply_finalization)
  from withinD [OF this assms(3)] assms(1) have ok': "db_ok (store w')" by (simp add: steps_def)
  with core_runs_steps [OF assms(4)] have ok: "db_ok (store v)" and ev: "evolves (store w') (store v)"
    by (simp_all add: steps_def)
  from apply_finalization_records [OF assms(3)] obtain r where
    r: "finalization_of_exec (store w') (q_exec q) = Some r" "recorded q (finalization_digest H q) r"
    "rc = receipt_of r" .
  from apply_finalization_replay [OF ok finalization_persists [OF ev r(1)], of H] obtain v' where
    "store v' = store v" "apply_finalization H q v = (Inr rc, v')" by (auto simp: r)
  then show ?thesis by blast
qed

lemma finalization_replayed_witness:
  "\<exists>v'. apply_finalization demo_hash demo_request (world_at demo_done) = (Inr demo_receipt, v') \<and>
    store v' = demo_done"
  using finalization_replayed [of "world_at demo_db", OF _ demo_request_ok demo_finalize, of "world_at demo_done"]
    demo_ok runs_refl by simp

text \<open>
  A finalized Execution refuses every other bundle: a request with another idempotency key
  or another digest raises \<open>FinalizationConflict\<close> and writes nothing.
\<close>

lemma finalization_conflict:
  assumes "db_ok (store w)" "finalization_of_exec (store w) (q_exec q) = Some r"
    and "f_key r \<noteq> q_key q \<or> f_digest r \<noteq> finalization_digest H q"
  shows "\<exists>w'. apply_finalization H q w =
      (Inl (err FinalizationConflict (''Execution already finalized: '' @ q_exec q)), w') \<and>
    store w' = store w"
proof -
  from assms(3) have "\<not> recorded q (finalization_digest H q) r" by (auto simp: recorded_def)
  then obtain w' where "store w' = store w" "apply_finalization H q w =
      (Inl (err FinalizationConflict (''Execution already finalized: '' @ q_exec q)), w')"
    using apply_finalization_replay [OF assms(1,2), of H] by auto
  then show ?thesis by blast
qed

lemma finalization_conflict_witness:
  "\<exists>w'. apply_finalization demo_hash (demo_request\<lparr>q_key := ''g''\<rparr>) (world_at demo_done) =
      (Inl (err FinalizationConflict (''Execution already finalized: exec_2'')), w') \<and>
    store w' = demo_done"
  using finalization_conflict [of "world_at demo_done" "demo_request\<lparr>q_key := ''g''\<rparr>"
      "\<lparr>f_exec = ''exec_2'', f_key = ''f'', f_digest = ''sha256:h'', f_version = 1, f_created = utc_time 0\<rparr>"
      demo_hash] demo_done_ok
  by (simp add: demo_done_def demo_request_def finalization_of_exec_def)



text \<open>
  The first terminal state of an Execution comes from a finalization only. Every other call
  of the Core, returning or raising, leaves an Execution terminal only if it was terminal
  before; an observation that would make it terminal is refused.
\<close>

lemma terminal_only_by_finalization:
  assumes "db_ok (store w)" "op_ok op" "\<forall>q. op \<noteq> Finalize q" "run_op H op w = (r, w')"
    and "find_exec (store w') x = Some e'" "terminal (x_projection e')"
  shows "\<exists>e. find_exec (store w) x = Some e \<and> terminal (x_projection e)"
proof -
  have st: "steps (store w) (store w')" by (rule withinD [OF steps_run_op [OF assms(2)] assms(4)])
  with assms(1) have ok: "db_ok (store w')" by (simp add: steps_def)
  from find_exec_Some [OF assms(5)] have "e' \<in> set (executions (store w'))" "x_id e' = x" by auto
  with db_okD(6) [OF ok] assms(6) have "x \<in> f_exec ` set (finalizations (store w'))"
    by (auto simp: seal_ok_def)
  moreover have "finalizations (store w') = finalizations (store w)"
    using withinD [OF unsealing_run_op [OF assms(3)] assms(4)] by (simp add: unsealing_def)
  ultimately have "x \<in> f_exec ` set (finalizations (store w))" by simp
  with finalization_of_exec_none [of "store w" x]
  obtain r where "finalization_of_exec (store w) x = Some r" by auto
  with finalized_terminal [OF assms(1)] show ?thesis by metis
qed

lemma terminal_only_by_finalization_witness:
  "\<exists>e. find_exec demo_done ''exec_2'' = Some e \<and> terminal (x_projection e)"
proof -
  let ?op = "Observe ''exec_2'' (demo_final\<lparr>p_freshness := Stale\<rparr>)"
  obtain r w' where run: "run_op demo_hash ?op (world_at demo_done) = (r, w')" by fastforce
  have ok: "op_ok ?op" by (simp add: demo_final_def projection_ok_def)
  have st: "evolves demo_done (store w')" "db_ok (store w')"
    using withinD [OF steps_run_op [OF ok] run] demo_done_ok by (simp_all add: steps_def)
  have e: "find_exec demo_done ''exec_2'' =
      Some (demo_exec\<lparr>x_projection := demo_final, x_ended := Some (utc_time 0), x_version := 1\<rparr>)"
    by (simp add: demo_done_def row_eval demo_eval)
  from exec_persists [OF st e] obtain e' where
    "find_exec (store w') ''exec_2'' = Some e'" "terminal (x_projection e')"
    by (auto simp: exec_evolves_def demo_eval)
  from terminal_only_by_finalization [OF _ ok _ run this] demo_done_ok show ?thesis by simp
qed

section \<open>Writers\<close>

text \<open>
  C34: a call that raises has written nothing. For every call of the Core that is one
  transaction (all but a whole Dispatch, which records its outcome before it raises, and the
  documented non-atomic observation bundle), an exception leaves the store exactly as it was,
  the read of the new row after the commit included: on a well-formed database it cannot fail.
\<close>

theorem failed_call_writes_nothing:
  assumes "db_ok (store w)" "op_ok op" "one_transaction op" "run_op H op w = (Inl e, w')"
  shows "store w' = store w"
  using clean_run_op [OF assms(3,2)] assms(1,4) by (rule raises_cleanD)

theorem failed_call_writes_nothing_witness:
  "store (snd (run_op demo_hash (Finalize (demo_request\<lparr>q_exec := ''exec_9''\<rparr>)) (world_at demo_db))) = demo_db"
proof -
  let ?op = "Finalize (demo_request\<lparr>q_exec := ''exec_9''\<rparr>)"
  obtain w' where run: "run_op demo_hash ?op (world_at demo_db) =
      (Inl (err ExecutionNotFound ''exec_9''), w')"
    by (simp add: discard_def apply_finalization_def get_execution_def prog_eval row_eval demo_eval)
  have "op_ok ?op" by (simp add: demo_eval projection_ok_def)
  from failed_call_writes_nothing [OF _ this _ run] demo_ok have "store w' = demo_db" by simp
  then show ?thesis by (simp add: run del: run_op.simps)
qed

text \<open>
  No lost update. Of two writers that read the same version of an Execution, the one whose
  projection write is second meets \<open>ConcurrencyConflict\<close> and changes nothing, however
  many other calls came in between.
\<close>

lemma no_lost_update:
  assumes "update_projection y n ev w = (Inr z, w')" "event_ok ev" "db_ok (store w')"
    and "core_runs H (store w') (store v)" "x_id y' = x_id y"
  shows "\<exists>v'. update_projection y' n ev' v =
      (Inl (err ConcurrencyConflict (''execution version changed: '' @ x_id y)), v') \<and>
    store v' = store v"
proof -
  from core_runs_steps [OF assms(4)] assms(3) have ok: "db_ok (store v)" and evo: "evolves (store w') (store v)"
    by (simp_all add: steps_def)
  from update_projection_bumps [OF assms(1-3)] obtain e where
    e: "find_exec (store w') (x_id y) = Some e" "x_version e = n + 1" by blast
  from exec_persists [OF evo ok e(1)] e(2) obtain e' where
    "find_exec (store v) (x_id y') = Some e'" "x_version e' \<noteq> n"
    using assms(5) by (auto simp: exec_evolves_def)
  from update_projection_stale [OF _ this, of ev'] db_okD(1) [OF ok] assms(5) show ?thesis
    by (simp add: executions_ok_def)
qed

definition demo_active :: execution where
  "demo_active = demo_exec\<lparr>x_projection := \<lparr>p_phase = Phase_active, p_outcome = None,
     p_resumable = None, p_freshness = Observed, p_observed_at = utc_time 2\<rparr>,
     x_started := Some (utc_time 2)\<rparr>"

definition demo_event :: core_event where
  "demo_event = \<lparr>e_id = ''evt_z'', e_type = Projection_changed, e_subject = ''exec_2'',
     e_at = utc_time 2, e_data = [], e_key = None\<rparr>"

lemma demo_update:
  "\<exists>z w'. update_projection demo_active 0 demo_event (world_at demo_db) = (Inr z, w')"
  by (simp add: update_projection_def demo_active_def demo_event_def prog_eval row_eval repo_eval demo_eval)

lemma no_lost_update_witness:
  "\<exists>w' v'. update_projection demo_active 0 demo_event w' =
    (Inl (err ConcurrencyConflict ''execution version changed: exec_2''), v') \<and> store v' = store w'"
proof -
  from demo_update obtain z w' where
    run: "update_projection demo_active 0 demo_event (world_at demo_db) = (Inr z, w')" by blast
  have ev: "event_ok demo_event" by (simp add: demo_event_def event_ok_def bounded_def)
  have "steps demo_db (store w')"
    using steps_update_projection [OF run, simplified]
    by (simp add: projection_write_ok_def demo_active_def demo_eval projection_ok_def ev
        demo_event_def uncounted_def event_ok_def bounded_def)
  then have ok: "db_ok (store w')" using demo_ok by (simp add: steps_def)
  from no_lost_update [OF run ev ok runs_refl [of demo_hash]] show ?thesis
    by (fastforce simp: demo_active_def demo_exec_def)
qed

section \<open>Observations and the intent\<close>

text \<open>
  Recording observations is idempotent. A batch that was recorded once, delivered again at
  any later time and with any stamp, returns the ids of the same rows with \<open>created\<close>
  false and writes nothing.
\<close>

lemma observations_idempotent:
  assumes "db_ok (store w')" "record_resource_observations H x obs t w = (Inr ids, w')"
    and "core_runs H (store w') (store v)"
  shows "\<exists>v'. record_resource_observations H x obs t' v = (Inr (map (\<lambda>i. (fst i, False)) ids), v') \<and>
    store v' = store v"
  using core_runs_steps [OF assms(3)] assms(1)
  by (intro record_observations_again [OF _ _ assms(2)]) (simp_all add: steps_def)

definition demo_ref :: ref where
  "demo_ref = \<lparr>r_type = Artifact_ref, r_provider = ''a'', r_native = ''n'', r_uri = None, r_meta = []\<rparr>"

definition demo_observation :: observation where
  "demo_observation = \<lparr>o_contract = ''c.d@1'', o_ref = demo_ref, o_kind = Read_back, o_result = Match,
     o_role = Role_host_observer, o_observer = ''me'', o_at = utc_time 0,
     o_coverage = Unknown_coverage, o_evidence = None, o_detail = None\<rparr>"

definition demo_fixed :: core_db where
  "demo_fixed = demo_db\<lparr>refs := [\<lparr>rr_exec = ''exec_2'', rr_relation = Input_rel, rr_ref = demo_ref,
     rr_created = utc_time 0, rr_contract = Some ''c.d@1''\<rparr>]\<rparr>"

definition demo_observed :: core_db where
  "demo_observed = demo_fixed\<lparr>observations := [\<lparr>ob_id = 1, ob_exec = ''exec_2'',
     ob_obs = demo_observation, ob_ref_digest = ''sha256:h'', ob_digest = ''sha256:h'',
     ob_recorded = utc_time 3\<rparr>], obs_next := 2\<rparr>"

lemma demo_observed_ok: "db_ok demo_observed"
  by (simp add: demo_observed_def demo_fixed_def demo_db_def demo_work_def demo_exec_def ok_eval
      row_eval count_where_def ref_key_def upt_rec)

lemma demo_record: "record_resource_observations demo_hash ''exec_2'' [demo_observation] (Some (utc_time 3))
    (world_at demo_fixed) = (Inr [(1, True)], world_at demo_observed)"
  by (simp add: record_resource_observations_def require_frozen_def frozen_input_def dump_ref_def
      append_observation_def insert_observation_def observation_digest_def ref_identity_digest_def
      demo_hash_def Let_def demo_observation_def demo_ref_def demo_fixed_def demo_observed_def
      prog_eval row_eval repo_eval demo_eval py_strip_def py_space_def code_of_def)

lemma observations_idempotent_witness:
  "\<exists>v'. record_resource_observations demo_hash ''exec_2'' [demo_observation] None (world_at demo_observed)
    = (Inr [(1, False)], v') \<and> store v' = demo_observed"
  using observations_idempotent [OF _ demo_record, where v = "world_at demo_observed" and t' = None]
    demo_observed_ok runs_refl by simp

text \<open>
  The responsibility intent of an Execution is immutable: it reads the same after any
  later calls.
\<close>

lemma intent_immutable:
  assumes "db_ok (store w)" "core_runs H (store w) (store v)"
    and "get_execution_responsibility_intent x w = (Inr intent, w')"
  shows "get_execution_responsibility_intent x v = (Inr intent, v)"
proof -
  from core_runs_steps [OF assms(2)] assms(1) have ok: "db_ok (store v)" and ev: "evolves (store w) (store v)"
    by (simp_all add: steps_def)
  from assms(3) obtain e where e: "find_exec (store w) x = Some e"
    by (auto simp: get_execution_responsibility_intent_def run_iffs get_execution_Inr)
  from exec_persists [OF ev ok e] obtain e' where "find_exec (store v) x = Some e'" by blast
  from intent_run [OF ok this] intent_run [OF assms(1) e] assms(3) e
    created_events_persist [OF assms(1) ok ev, of x]
  show ?thesis by simp
qed

lemma intent_immutable_witness:
  "get_execution_responsibility_intent ''exec_2'' (world_at demo_done) = (Inr (Some ''i''), world_at demo_done)"
proof (rule intent_immutable [where w = "world_at demo_db" and H = demo_hash])
  show "get_execution_responsibility_intent ''exec_2'' (world_at demo_db) = (Inr (Some ''i''), world_at demo_db)"
    by (simp add: get_execution_responsibility_intent_def sorted_events_def dict_get_def
        responsibility_intent_key_def prog_eval row_eval repo_eval demo_eval)
qed (simp_all add: demo_ok demo_done_runs)

end
