(* ===== verification/Core_Dispatch.thy ===== *)
theory Core_Dispatch
  imports Core_Laws
begin

text \<open>
  Laws of a Dispatch: which exceptions its parts may raise, so that the class of the exception a
  caller sees tells which state was recorded; that a replay never consults the provider; and
  what the inputs of an Execution are after its Dispatch.
\<close>

section \<open>Exceptions a program cannot raise\<close>

definition spares :: "exn_class set \<Rightarrow> ('d, 'a) prog \<Rightarrow> bool" where
  "spares C m \<longleftrightarrow> (\<forall>w e w'. m w = (Inl e, w') \<longrightarrow> exn_cls e \<notin> C)"

lemma sparesD: "spares C m \<Longrightarrow> m w = (Inl e, w') \<Longrightarrow> exn_cls e \<notin> C"
  unfolding spares_def by blast

lemma spares_basic:
  "spares C (preturn x)" "spares C (read_store f)" "spares C uuid4_hex" "spares C now_utc"
  "spares C now_local" "spares C (fresh_id s)"
  by (simp_all add: spares_def preturn_def read_store_def uuid4_hex_def now_utc_def now_local_def
      fresh_id_def pbind_def)

lemma spares_raise:
  "exn_cls e \<notin> C \<Longrightarrow> spares C (praise e)" "exn_cls e \<notin> C \<Longrightarrow> spares C (raise_if c e)"
  "exn_cls e \<notin> C \<Longrightarrow> spares C (fetch_row g e)"
  by (auto simp: spares_def praise_def raise_if_def fetch_row_def split: if_splits option.splits)

lemma spares_plift: "(\<And>e. r = Inl e \<Longrightarrow> exn_cls e \<notin> C) \<Longrightarrow> spares C (plift r)"
  by (simp add: spares_def plift_def)

lemma spares_sql: "(\<And>d e. f d = Inl e \<Longrightarrow> exn_cls e \<notin> C) \<Longrightarrow> spares C (exec_sql f)"
  by (auto simp: spares_def exec_sql_def split: sum.splits)

lemma spares_pbind: "spares C m \<Longrightarrow> (\<And>x. spares C (k x)) \<Longrightarrow> spares C (pbind m k)"
  unfolding spares_def pbind_def by (fastforce split: prod.splits sum.splits)

lemma spares_pseq: "spares C m \<Longrightarrow> spares C k \<Longrightarrow> spares C (pseq m k)"
  by (simp add: pseq_def spares_pbind)

lemma spares_for_each: "(\<And>x. spares C (f x)) \<Longrightarrow> spares C (for_each f xs)"
  by (induction xs) (auto intro: spares_pseq spares_basic)

lemma spares_map_each: "(\<And>x. spares C (f x)) \<Longrightarrow> spares C (map_each f xs)"
  by (induction xs) (auto intro: spares_pbind spares_basic)

lemma spares_transaction: "spares C m \<Longrightarrow> spares C (transaction m)"
  unfolding spares_def transaction_def by (fastforce split: prod.splits sum.splits)

lemma spares_branch:
  "(c \<Longrightarrow> spares C a) \<Longrightarrow> (\<not> c \<Longrightarrow> spares C b) \<Longrightarrow> spares C (if c then a else b)"
  "spares C a \<Longrightarrow> (\<And>x. spares C (f x)) \<Longrightarrow> spares C (case v of None \<Rightarrow> a | Some x \<Rightarrow> f x)"
  "(\<And>x y. spares C (g x y)) \<Longrightarrow> spares C (case p of (x, y) \<Rightarrow> g x y)"
  by (simp_all split: option.splits prod.splits)

lemmas spares_intros = spares_basic spares_raise spares_pbind spares_pseq spares_for_each
  spares_map_each spares_transaction spares_branch

section \<open>Only the two handlers raise the Dispatch outcomes\<close>

abbreviation outcomes :: "exn_class set" where
  "outcomes \<equiv> {DispatchFailed, DispatchAmbiguous}"

lemma metadata_class: "bounded_metadata m = Inl e \<Longrightarrow> exn_cls e = InvalidRef"
  by (auto simp: bounded_metadata_def split: if_splits)

lemma mk_event_spares: "spares outcomes (mk_event i ty subj t dat k)"
  unfolding mk_event_def
  by (rule spares_plift) (auto simp: mk_core_event_def dest: metadata_class split: if_splits sum.splits)

lemma load_execution_class: "load_execution x = Inl e \<Longrightarrow> exn_cls e \<notin> outcomes"
  by (auto simp: load_execution_def reload_projection_def mk_projection_def mk_execution_def
      dest!: metadata_class split: if_splits sum.splits)

lemma get_execution_spares: "spares outcomes (get_execution x)"
  unfolding get_execution_def
  by (intro spares_intros spares_plift) (use load_execution_class in auto)

lemma insert_event_spares: "spares outcomes (append_event e)"
  unfolding append_event_def
  by (rule spares_sql) (auto simp: insert_event_def unique_failed_def split: if_splits)

lemma append_new_event_spares: "spares outcomes (append_new_event ty x t dat k)"
  unfolding append_new_event_def by (intro spares_intros mk_event_spares insert_event_spares)

lemma create_dispatch_spares: "spares outcomes (create_dispatch_with_inputs did x inputs digest key e)"
proof -
  have "spares outcomes (insert_ref_stmt ign y rel r t c)" for ign y rel r t c
    unfolding insert_ref_stmt_def
    by (rule spares_sql) (auto simp: insert_ref_def unique_failed_def foreign_key_failed_def split: if_splits)
  moreover have "spares outcomes (exec_sql (insert_dispatch r))" for r
    by (rule spares_sql) (auto simp: insert_dispatch_def unique_failed_def foreign_key_failed_def split: if_splits)
  moreover have "spares outcomes (exec_sql (update_executions p f))" for p f
    by (rule spares_sql) (simp add: update_executions_def)
  ultimately show ?thesis
    unfolding create_dispatch_with_inputs_def freeze_input_def
    by (intro spares_intros insert_event_spares) simp_all
qed

lemma check_each_class:
  "check_each f xs = Inl e \<Longrightarrow> (\<And>x e. f x = Inl e \<Longrightarrow> exn_cls e = c) \<Longrightarrow> exn_cls e = c"
  by (induction xs) (auto split: sum.splits)

lemma validate_registered_class: "validate_registered_contracts g xs = Inl e \<Longrightarrow> exn_cls e = ContractViolation"
  unfolding validate_registered_contracts_def
  by (erule check_each_class) (auto split: prod.splits sum.splits)

lemma validate_limits_class: "validate_input_limits p xs = Inl e \<Longrightarrow> exn_cls e = ContractViolation"
  by (auto simp: validate_input_limits_def limit_exceeded_def Let_def split: option.splits sum.splits
      if_splits elim!: check_each_class)

lemma request_dispatch_spares: "spares outcomes (request_dispatch g x canonical digest key)"
  unfolding request_dispatch_def
  by (intro spares_intros spares_plift get_execution_spares mk_event_spares create_dispatch_spares)
     (auto simp: get_provider_def dest: validate_registered_class validate_limits_class split: option.splits)

lemma record_terminal_spares: "spares outcomes (record_dispatch_terminal did st ety c er extra)"
proof -
  have "spares outcomes (exec_sql (update_dispatches p f))" for p f
    by (rule spares_sql) (simp add: update_dispatches_def)
  then show ?thesis
    unfolding record_dispatch_terminal_def get_dispatch_def
    by (intro spares_intros append_new_event_spares) simp_all
qed

lemma record_accepted_spares: "spares outcomes (record_dispatch_accepted H did arg)"
  unfolding record_dispatch_accepted_def
  by (cases arg)
     (auto intro!: record_terminal_spares spares_intros spares_plift
       simp: serialize_correlation_ref_def Let_def split: if_splits option.splits)

lemma payload_ref_class: "payload_ref j = Some (Inl e) \<Longrightarrow> exn_cls e = InvalidRef"
  by (auto simp: payload_ref_def build_ref_def mk_ref_def dest: metadata_class
      split: option.splits json.splits if_splits sum.splits)

lemma parse_correlation_class: "parse_correlation_ref v = Inl e \<Longrightarrow> exn_cls e = InvalidRef"
  by (auto simp: parse_correlation_ref_def dest: payload_ref_class split: option.splits if_splits sum.splits)

lemma list_events_spares: "spares outcomes (list_events x)"
  unfolding list_events_def
  by (intro spares_intros spares_plift)
     (auto simp: load_event_def mk_core_event_def dest: metadata_class split: if_splits sum.splits)

lemma get_receipt_spares: "spares outcomes (get_dispatch_receipt did)"
  unfolding get_dispatch_receipt_def
  by (intro spares_intros spares_plift list_events_spares) (auto dest: parse_correlation_class)

lemma record_failed_spares: "spares outcomes (record_dispatch_failed did er)"
  unfolding record_dispatch_failed_def by (intro spares_intros record_terminal_spares) simp

lemma record_ambiguous_spares: "spares outcomes (record_dispatch_ambiguous did er)"
proof -
  have "spares outcomes (exec_sql (update_dispatches p f))" for p f
    by (rule spares_sql) (simp add: update_dispatches_def)
  then show ?thesis
    unfolding record_dispatch_ambiguous_def get_dispatch_def
    by (intro spares_intros append_new_event_spares) simp_all
qed

section \<open>The exception tells what was recorded\<close>

lemma mk_core_event_state: "record_dispatch_terminal did st ety c er extra w = (Inr y, w') \<Longrightarrow>
    find_dispatch (store w) did = Some row \<Longrightarrow> dp_state row = ''requested'' \<Longrightarrow> st \<noteq> ''requested'' \<Longrightarrow>
    \<exists>t. find_dispatch (store w') did = Some (state_update st c t row)"
proof (erule record_dispatch_terminal_effect, goal_cases)
  case (2 row' t ev)
  have "find_dispatch (store w') did = map_option (state_update st c t) (find_dispatch (store w) did)"
    unfolding 2(8) by (rule find_dispatch_update) (simp add: state_update_def)
  with 2 show ?case by auto
qed simp

lemma fail_dispatch_run:
  assumes run: "fail_dispatch x did e0 w = (Inl e, w')" "exn_cls e \<in> outcomes"
    and row: "find_dispatch (store w) did = Some row" "dp_state row = ''requested''"
  shows "exn_cls e = DispatchFailed \<and> exn_cause e = Some e0 \<and>
    (\<exists>row'. find_dispatch (store w') did = Some row' \<and> dp_state row' = ''failed'' \<and>
       dp_exec row' = dp_exec row \<and> dp_key row' = dp_key row)"
  using run(1) unfolding fail_dispatch_def
proof (cases rule: pseq_Inl)
  case 1
  with sparesD [OF record_failed_spares 1] run(2) show ?thesis by simp
next
  case (2 y v)
  then have "w' = v" and e: "exn_cls e = DispatchFailed" "exn_cause e = Some e0"
    by (auto simp: praise_def)
  with 2 have "record_dispatch_terminal did ''failed'' Dispatch_failed None
      (Some (take 256 (py_strip (exn_text e0)))) [] w = (Inr y, w')"
    by (auto simp: record_dispatch_failed_def run_iffs)
  from mk_core_event_state [OF this row] e show ?thesis by (auto simp: state_update_def)
qed

lemma ambiguous_dispatch_run:
  assumes run: "ambiguous_dispatch x did e0 w = (Inl e, w')" "exn_cls e \<in> outcomes"
    and row: "find_dispatch (store w) did = Some row" "dp_state row = ''requested''"
  shows "exn_cls e = DispatchAmbiguous \<and> exn_cause e = Some e0 \<and>
    (\<exists>row'. find_dispatch (store w') did = Some row' \<and> dp_state row' = ''requested'' \<and>
       dp_exec row' = dp_exec row \<and> dp_key row' = dp_key row)"
  using run(1) unfolding ambiguous_dispatch_def
proof (cases rule: pseq_Inl)
  case 1
  with sparesD [OF record_ambiguous_spares 1] run(2) show ?thesis by simp
next
  case (2 y v)
  then have w': "w' = v" and e: "exn_cls e = DispatchAmbiguous" "exn_cause e = Some e0"
    by (auto simp: praise_def)
  from 2(1) obtain t es where "store v = (store w)\<lparr>dispatches := update_where (\<lambda>r. dp_id r = did)
      (\<lambda>r. r\<lparr>dp_updated := t\<rparr>) (dispatches (store w)), events := es\<rparr>"
    by (elim record_dispatch_ambiguous_effect) blast
  then have "find_dispatch (store w') did = map_option (\<lambda>r. r\<lparr>dp_updated := t\<rparr>) (find_dispatch (store w) did)"
    using find_dispatch_update [where f = "\<lambda>r. r\<lparr>dp_updated := t\<rparr>" and d = "store w" and did = did and es = es] by (simp add: w')
  with e row show ?thesis by simp
qed

text \<open>Why a Dispatch failed: preparing the start request raised, or the provider said that it
  did not start.\<close>

definition refused :: "registry \<Rightarrow> exec_provider \<Rightarrow> string \<Rightarrow> string \<Rightarrow> string \<Rightarrow> (string \<times> ref) list \<Rightarrow> exn \<Rightarrow> bool" where
  "refused g p x did digest canonical e \<longleftrightarrow>
     prepare_start g p x did digest canonical = Inl e \<or>
     (\<exists>q. prepare_start g p x did digest canonical = Inr q \<and> start_provider p q = Inl e \<and>
        exn_cls e = ExecutionStartRejected)"

lemma run_dispatch_raises:
  assumes run: "run_dispatch H g p x did digest canonical w = (Inl e, w')" "exn_cls e \<in> outcomes"
    and row: "find_dispatch (store w) did = Some row" "dp_state row = ''requested''"
  shows "\<exists>e0 row'. exn_cause e = Some e0 \<and> find_dispatch (store w') did = Some row' \<and>
    dp_exec row' = dp_exec row \<and> dp_key row' = dp_key row \<and>
    (if refused g p x did digest canonical e0
     then exn_cls e = DispatchFailed \<and> dp_state row' = ''failed''
     else exn_cls e = DispatchAmbiguous \<and> dp_state row' = ''requested'' \<and>
       (\<exists>q. prepare_start g p x did digest canonical = Inr q \<and> start_provider p q = Inl e0))"
proof (cases "prepare_start g p x did digest canonical")
  case (Inl e0)
  with run(1) have "(fail_dispatch x did e0 :: dispatch_receipt core_prog) w = (Inl e, w')" by (simp add: run_dispatch_def)
  from fail_dispatch_run [OF this run(2) row] Inl show ?thesis by (auto simp: refused_def)
next
  case (Inr q)
  show ?thesis
  proof (cases "start_provider p q")
    case (Inl e0)
    show ?thesis
    proof (cases "exn_cls e0 = ExecutionStartRejected")
      case True
      with run(1) Inl Inr have "(fail_dispatch x did e0 :: dispatch_receipt core_prog) w = (Inl e, w')" by (simp add: run_dispatch_def)
      from fail_dispatch_run [OF this run(2) row] Inl Inr True show ?thesis by (auto simp: refused_def)
    next
      case False
      with run(1) Inl Inr have "(ambiguous_dispatch x did e0 :: dispatch_receipt core_prog) w = (Inl e, w')" by (simp add: run_dispatch_def)
      from ambiguous_dispatch_run [OF this run(2) row] Inl Inr False show ?thesis by (auto simp: refused_def)
    qed
  next
    case (Inr rc)
    have "spares outcomes (pseq (record_dispatch_accepted H did (Typed rc)) (get_dispatch_receipt did))"
      by (intro spares_pseq record_accepted_spares get_receipt_spares)
    moreover have "pseq (record_dispatch_accepted H did (Typed rc)) (get_dispatch_receipt did) w = (Inl e, w')"
      using run(1) Inr \<open>prepare_start g p x did digest canonical = Inr q\<close> by (simp add: run_dispatch_def)
    ultimately have "exn_cls e \<notin> outcomes" by (rule sparesD)
    with run(2) show ?thesis by simp
  qed
qed

section \<open>A replay never starts the provider\<close>

definition with_start :: "(start_request \<Rightarrow> exn + start_result) \<Rightarrow> registry \<Rightarrow> registry" where
  "with_start f g = g\<lparr>g_providers := map (\<lambda>(i, p). (i, p\<lparr>ep_start := f\<rparr>)) (g_providers g)\<rparr>"

lemma map_of_with: "map_of (map (\<lambda>(i, p). (i, h p)) xs) i = map_option h (map_of xs i)"
  by (induction xs) auto

lemma get_provider_with_start:
  "get_provider (with_start f g) i = map_sum id (\<lambda>p. p\<lparr>ep_start := f\<rparr>) (get_provider g i)"
  by (simp add: get_provider_def with_start_def map_of_with split: option.splits)

lemma restarted_fields:
  "validate_input_limits (p\<lparr>ep_start := f\<rparr>) xs = validate_input_limits p xs"
  "validate_registered_contracts (with_start f g) xs = validate_registered_contracts g xs"
  by (cases "ep_limits p")
     (simp_all add: validate_input_limits_def validate_registered_contracts_def get_contract_type_def
       with_start_def)

lemma request_with_start:
  "request_dispatch (with_start f g) x canonical digest key w =
    apfst (map_sum id (apfst (\<lambda>p. p\<lparr>ep_start := f\<rparr>))) (request_dispatch g x canonical digest key w)"
proof (cases "fst (get_execution x w)")
  case (Inl e)
  then show ?thesis
    by (cases "get_execution x w") (simp add: request_dispatch_def pbind_def)
next
  case (Inr e)
  then obtain v where v: "get_execution x w = (Inr e, v)" by (cases "get_execution x w") auto
  show ?thesis
  proof (cases "get_provider g (x_provider e)")
    case (Inl er)
    then show ?thesis
      by (simp add: request_dispatch_def pbind_def v plift_def get_provider_with_start)
  next
    case (Inr p)
    then show ?thesis
      by (simp add: request_dispatch_def pbind_def pseq_def v plift_def get_provider_with_start
          restarted_fields now_utc_def preturn_def split: sum.splits prod.splits)
  qed
qed

lemma request_dispatched_raises:
  assumes "dispatch_of_exec (store w) x \<noteq> None"
  shows "\<exists>e v. request_dispatch g x canonical digest key w = (Inl e, v) \<and> store v = store w"
proof -
  obtain r v where run: "request_dispatch g x canonical digest key w = (r, v)" by fastforce
  show ?thesis
  proof (cases r)
    case (Inl e)
    have "atomic (request_dispatch g x canonical digest key)"
      unfolding request_dispatch_def mk_event_def
      by (intro atomic_pbind atomic_pseq atomic_then_return atomic_create_dispatch read_only_basic
          read_only_get_execution)
    from atomicD [OF this run [unfolded Inl]] run Inl show ?thesis by blast
  next
    case (Inr pd)
    obtain p did where "pd = (p, did)" by (cases pd) auto
    with run Inr have "request_dispatch g x canonical digest key w = (Inr (p, did), v)" by simp
    from request_dispatch_effect [OF this] assms show ?thesis by metis
  qed
qed

lemma dispatch_again:
  assumes "dispatch_of_exec (store w) x \<noteq> None \<or> dispatch_of_key (store w) key \<noteq> None"
  shows "dispatch_execution H (with_start f g) x items key w = dispatch_execution H g x items key w \<and>
    store (snd (dispatch_execution H g x items key w)) = store w"
proof (cases "canonicalize_input_shape items")
  case (Inl e)
  then show ?thesis by (simp add: dispatch_execution_def pbind_def plift_def)
next
  case (Inr canonical)
  let ?digest = "inputs_digest H canonical"
  show ?thesis
  proof (cases "dispatch_of_key (store w) key")
    case (Some row)
    have "store (snd (replay_dispatch x ?digest row w)) = store w"
      using read_only_replay [of x ?digest row] by (metis read_only_store prod.collapse)
    with Inr Some show ?thesis
      by (simp add: dispatch_execution_def pbind_def plift_def get_dispatch_by_key_def read_store_def)
  next
    case None
    with assms have "dispatch_of_exec (store w) x \<noteq> None" by simp
    from request_dispatched_raises [OF this, of g canonical ?digest key] obtain e v where
      "request_dispatch g x canonical ?digest key w = (Inl e, v)" "store v = store w" by blast
    with Inr None show ?thesis
      by (simp add: dispatch_execution_def pbind_def plift_def get_dispatch_by_key_def read_store_def
          request_with_start)
  qed
qed

section \<open>The inputs of a dispatched Execution\<close>

lemma map_each_plift_run:
  "map_each (\<lambda>x. plift (f x)) xs w = (Inr ys, w') \<Longrightarrow> map_each (\<lambda>x. plift (f x)) xs v = (Inr ys, v)"
proof (induction xs arbitrary: ys)
  case (Cons x xs)
  then obtain y zs where "f x = Inr y" "map_each (\<lambda>x. plift (f x)) xs w = (Inr zs, w')" "ys = y # zs"
    by (auto simp: run_iffs)
  with Cons.IH [of zs] show ?case by (auto simp: run_iffs)
qed (simp add: preturn_def)

lemma input_rows_frozen:
  assumes "inputs_frozen d d'" "dispatch_of_exec d x \<noteq> None"
  shows "input_rows d' x = input_rows d x"
proof -
  from assms(1) obtain rs where rs: "refs d' = refs d @ rs"
    "\<forall>r \<in> set rs. rr_relation r = Input_rel \<longrightarrow> rr_exec r \<notin> dp_exec ` set (dispatches d)"
    by (auto simp: inputs_frozen_def)
  have "x \<in> dp_exec ` set (dispatches d)"
    using assms(2) by (auto simp: dispatch_of_exec_def dest: find_SomeD)
  with rs(2) have "filter (\<lambda>row. rr_exec row = x \<and> rr_relation row = Input_rel) rs = []"
    by (intro filter_none) auto
  then show ?thesis by (simp add: input_rows_def rs(1))
qed

section \<open>The correlation codec\<close>

lemma json_ok_ref: "ref_dict r \<Longrightarrow> json_ok (ref_json r)"
  by (auto simp: ref_json_def ref_dict_def dict_json_def str_json_def case_prod_beta comp_def
      split: option.splits)

lemma json_dict_str: "json_dict (map (\<lambda>(k, v). (k, JStr v)) m) = Some m"
  by (induction m) auto

lemma parse_ref_type_value: "parse_ref_type (ref_type_value t) = Some t"
  by (cases t) (simp_all add: parse_ref_type_def)

lemma build_ref_dict:
  assumes "p \<noteq> []" "n \<noteq> []" "bounded m"
  shows "build_ref ty p n u (JDict (map (\<lambda>(k, v). (k, JStr v)) m)) =
    Some (Inr \<lparr>r_type = ty, r_provider = p, r_native = n, r_uri = u, r_meta = m\<rparr>)"
  using assms mk_ref_Inr [of ty p n u m]
  by (auto simp: build_ref_def json_false_def json_dict_str bounded_def)

lemma payload_ref_sorted:
  assumes "ref_ok r"
  shows "payload_ref (json_sorted (ref_json r)) = Some (Inr (dump_ref r))"
proof -
  have u: "field_uri (Some (str_json (r_uri r))) = Some (r_uri r)"
    by (auto simp: field_uri_def str_json_def split: option.splits)
  have t: "field_text (Some (JStr s)) = Some s" if "s \<noteq> []" for s
    using that by (simp add: field_text_def json_false_def)
  have m: "build_ref (r_type r) (r_provider r) (r_native r) (r_uri r)
      (JDict (map (\<lambda>(k, v). (k, JStr v)) (sort_key fst (r_meta r)))) = Some (Inr (dump_ref r))"
    using assms bounded_dump [of "r_meta r"]
    by (subst build_ref_dict) (auto simp: ref_ok_def dump_ref_def dump_def)
  from assms show ?thesis
    by (simp add: payload_ref_def json_sorted_ref json_field_def parse_ref_type_value u t m ref_ok_def)
qed

lemma payload_ref_empty:
  assumes "r_provider r = [] \<or> r_native r = []"
  shows "payload_ref (json_sorted (ref_json r)) = Some (Inl (err InvalidRef ''provider and native_id are required''))"
proof -
  have u: "field_uri (Some (str_json (r_uri r))) = Some (r_uri r)"
    by (auto simp: field_uri_def str_json_def split: option.splits)
  have t: "field_text (Some (JStr s)) = Some s" for s
    by (simp add: field_text_def json_false_def)
  have m: "build_ref (r_type r) (r_provider r) (r_native r) (r_uri r)
      (JDict (map (\<lambda>(k, v). (k, JStr v)) (sort_key fst (r_meta r)))) =
    Some (Inl (err InvalidRef ''provider and native_id are required''))"
    using assms by (auto simp: build_ref_def mk_ref_def json_false_def)
  show ?thesis
    by (simp add: payload_ref_def json_sorted_ref json_field_def parse_ref_type_value u t m)
qed

section \<open>A value the ledger cannot hold\<close>

lemma oversized_event: "(k, v) \<in> set dat \<Longrightarrow> 256 < length v \<Longrightarrow> i \<noteq> [] \<Longrightarrow> subj \<noteq> [] \<Longrightarrow>
    \<exists>e. mk_core_event i ty subj t dat key = Inl e \<and> exn_cls e = InvalidRef"
  using bounded_metadata_bad [of dat]
  by (force simp: mk_core_event_def bounded_def list_all_iff)

lemma append_new_event_bad:
  "mk_core_event (''evt_'' @ uuid_src w (uuid_pos w)) ty subj t dat key = Inl e \<Longrightarrow>
     append_new_event ty subj t dat key w = (Inl e, w\<lparr>uuid_pos := Suc (uuid_pos w)\<rparr>)"
  by (simp add: append_new_event_def fresh_id_def pbind_def uuid4_hex_def preturn_def mk_event_def plift_def)

lemma record_terminal_oversized:
  assumes row: "find_dispatch (store w) did = Some row" "dp_state row = ''requested''" "dp_exec row \<noteq> []"
    and st: "st \<noteq> ''requested''" and s: "256 < length s"
  shows "\<exists>e w'. record_dispatch_terminal did st ety (Some s) er extra w = (Inl e, w') \<and>
    exn_cls e = InvalidRef \<and> store w' = store w"
proof -
  let ?now = "local_time (tz_offset w) (clock_src w (clock_pos w))"
  let ?dat = "[(''dispatch_id'', did)] @ nonempty_item ''provider_correlation_ref'' (Some s)
      @ nonempty_item ''error'' er @ extra"
  define u where "u = w\<lparr>clock_pos := Suc (clock_pos w),
    store := (store w)\<lparr>dispatches := update_where (\<lambda>r. dp_id r = did)
      (\<lambda>r. r\<lparr>dp_state := st, dp_correlation := Some s, dp_updated := ?now\<rparr>) (dispatches (store w))\<rparr>\<rparr>"
  have mem: "(''provider_correlation_ref'', s) \<in> set ?dat"
    using s by (auto simp: nonempty_item_def)
  from oversized_event [OF mem s _ row(3), of "''evt_'' @ uuid_src u (uuid_pos u)" ety ?now None] obtain e where
    "mk_core_event (''evt_'' @ uuid_src u (uuid_pos u)) ety (dp_exec row) ?now ?dat None = Inl e"
    and e: "exn_cls e = InvalidRef" by auto
  from append_new_event_bad [OF this(1)] obtain v where
    "append_new_event ety (dp_exec row) ?now ?dat None u = (Inl e, v)" by blast
  with row(1,2) st have "record_dispatch_terminal did st ety (Some s) er extra w =
      (Inl e, v\<lparr>store := store w\<rparr>)"
    by (simp add: record_dispatch_terminal_def pbind_def pseq_def now_local_def transaction_def
        fetch_row_def exec_sql_def update_dispatches_def u_def)
  with e show ?thesis by simp
qed

lemma dispatched_exec_named:
  assumes "db_ok d" "find_dispatch d did = Some row"
  shows "dp_exec row \<noteq> []"
proof -
  from assms(2) have "row \<in> set (dispatches d)" by (auto simp: find_dispatch_def dest: find_SomeD)
  with db_okD(5) [OF assms(1)] obtain e where "e \<in> set (executions d)" "x_id e = dp_exec row"
    by (auto simp: links_ok_def)
  with db_okD(1) [OF assms(1)] show ?thesis
    by (auto simp: executions_ok_def list_all_iff execution_ok_def)
qed

section \<open>ISO texts of stamps with different offsets\<close>

lemma text_append_less: "(xs @ ys < xs @ zs) = (ys < (zs :: string))"
  by (induction xs) auto

lemma pad_8: "pad 2 8 = ''08''" "pad 2 0 = ''00''"
  by code_simp+

lemma digit_8: "CHR ''0'' < CHR ''8''"
  by code_simp

lemma east_text_later:
  "iso_text (utc_time (int n * 86400000000 + 1)) <
   iso_text (local_time (\<lambda>_. 28800000000) (int n * 86400000000))"
proof -
  have w: "nat (int n * 86400000000 + 1) = n * 86400000000 + 1"
    "nat (int n * 86400000000 + 28800000000) = n * 86400000000 + 28800000000"
    by (simp_all add: nat_add_distrib nat_mult_distrib)
  have s: "Suc (n * 86400000000) = 1 + n * 86400000000" by simp
  have d: "Suc (n * 86400000000) div 86400000000 = n" "Suc (n * 86400000000) mod 86400000000 = 1"
    unfolding s by (simp, simp only: mod_mult_self1, simp)
  have "iso_text (utc_time (int n * 86400000000 + 1)) =
      date_text n @ ''T'' @ pad 2 0 @ '':'' @ pad 2 0 @ '':'' @ pad 2 0 @ ''.'' @ pad 6 1 @ offset_text 0"
    unfolding iso_text_def utc_time_def
    by (simp add: w d day_us_def clock_text_def fraction_text_def)
  moreover have "iso_text (local_time (\<lambda>_. 28800000000) (int n * 86400000000)) =
      date_text n @ ''T'' @ pad 2 8 @ '':'' @ pad 2 0 @ '':'' @ pad 2 0 @ offset_text 28800000000"
    unfolding iso_text_def local_time_def
    by (simp add: w day_us_def clock_text_def fraction_text_def)
  ultimately show ?thesis by (simp add: text_append_less pad_8 digit_8)
qed

section \<open>What a returning finalization ran\<close>

lemma apply_finalization_reaches:
  assumes "apply_finalization H q w = (Inr rc, w')"
  shows "\<exists>t v native outp obs. store v = store w \<and>
    finalize_execution H (q_exec q) (q_projection q) native outp obs (q_key q)
      (finalization_digest H q) t v = (Inr rc, w')"
proof -
  from assms obtain e where e: "get_execution (q_exec q) w = (Inr e, w)"
    by (auto simp: apply_finalization_def run_iffs get_execution_Inr)
  show ?thesis
  proof (cases "terminal (x_projection e)")
    case True
    with assms e obtain t v where
      "(case x_ended e of Some t \<Rightarrow> preturn t | None \<Rightarrow> now_utc) w = (Inr t, v)"
      and f: "finalize_execution H (q_exec q) (q_projection q) [] [] [] (q_key q)
        (finalization_digest H q) t v = (Inr rc, w')"
      by (auto simp: apply_finalization_def pbind_Inr)
    then have "store v = store w" by (auto simp: run_iffs split: option.splits)
    with f show ?thesis by blast
  next
    case False
    with assms e obtain obs u t v where
      u: "validated_resource_observations (q_exec q) (q_observations q) w = (Inr obs, u)"
      and t: "now_utc u = (Inr t, v)"
      and f: "finalize_execution H (q_exec q) (q_projection q) (q_native q) (q_output q) obs (q_key q)
        (finalization_digest H q) t v = (Inr rc, w')"
      by (auto simp: apply_finalization_def pbind_Inr)
    have "store v = store w"
      using read_only_store [OF read_only_validated u] t by (auto simp: run_iffs)
    with f show ?thesis by blast
  qed
qed

end
