(* ===== verification/Dispatch_Claims.thy ===== *)
theory Dispatch_Claims
  imports Core_Examples Core_Dispatch
begin

text \<open>
  The properties of a Dispatch: replay, one start per Execution, the outcome a caller is told,
  the request the provider gets, the digest and the frozen inputs; and the properties of the
  correlation codec and of the registry behind it.
\<close>

section \<open>Replay\<close>

text \<open>
  C21: an accepted Dispatch is replayed for ever. Once a call returned a receipt, the same call
  with the same key and inputs returns the same receipt on every later database, whatever
  registry it is given (its provider may be gone), and changes nothing: neither the store nor
  the clock nor the id source is touched.
\<close>

theorem dispatch_replayed:
  assumes "db_ok (store w)" "dispatch_execution H g x items key w = (Inr rc, w')"
    and "core_runs H (store w') (store v)"
  shows "dispatch_execution H g' x items key v = (Inr rc, v)"
proof -
  from withinD [OF steps_dispatch_execution assms(2)] assms(1) have ok': "db_ok (store w')"
    by (simp add: steps_def)
  with core_runs_steps [OF assms(3)] have ok: "db_ok (store v)" and ev: "evolves (store w') (store v)"
    by (simp_all add: steps_def)
  from dispatch_execution_accepted [OF assms(1,2)] obtain row where
    "accepted_row H x items key rc (store w') row" by blast
  from accepted_row_persists [OF ok' ok ev this] show ?thesis by (rule accepted_row_replays [OF ok])
qed

theorem dispatch_replayed_witness:
  "dispatch_execution demo_hash (new_registry []) ''exec_2'' [] ''k'' (world_at demo_sent) =
    (Inr demo_dispatched, world_at demo_sent)"
  by (rule dispatch_replayed [where w = "world_at demo_db" and H = demo_hash and v = "world_at demo_sent",
      OF _ demo_dispatch]) (simp_all add: demo_ok runs_refl)

text \<open>
  C9: the provider is started at most once. When the Execution already has a Dispatch, under
  whatever key, or the key was already used, for whatever Execution, the call does not depend on
  what the providers' \<open>start\<close> would do, and writes nothing.
\<close>

theorem dispatch_starts_once:
  assumes "dispatch_of_exec (store w) x \<noteq> None \<or> dispatch_of_key (store w) key \<noteq> None"
  shows "dispatch_execution H (with_start f g) x items key w = dispatch_execution H g x items key w \<and>
    store (snd (dispatch_execution H g x items key w)) = store w"
  using assms by (rule dispatch_again)

theorem dispatch_starts_once_witness:
  "store (snd (dispatch_execution demo_hash demo_registry ''exec_2'' [] ''other'' (world_at demo_sent))) = demo_sent"
  using dispatch_starts_once [of "world_at demo_sent" "''exec_2''" "''other''" demo_hash _ demo_registry "[]"]
  by (simp add: demo_sent_def dispatch_of_exec_def)

section \<open>The outcome\<close>

text \<open>
  C14: the exception of a new Dispatch tells the recorded state. When the request was committed
  and the call then raises \<open>DispatchFailed\<close> or \<open>DispatchAmbiguous\<close>, the class is
  \<open>DispatchFailed\<close> and the row is failed exactly when preparing the start request raised or
  the provider raised \<open>ExecutionStartRejected\<close>; in every other case \<open>start\<close> was called,
  may have acted, and the row stays requested. The exception carries its cause.
\<close>

theorem dispatch_outcome_recorded:
  assumes "request_dispatch g x canonical (inputs_digest H canonical) key w = (Inr (p, did), v)"
    and "run_dispatch H g p x did (inputs_digest H canonical) canonical v = (Inl e, w')"
    and "exn_cls e \<in> {DispatchFailed, DispatchAmbiguous}"
  shows "\<exists>e0 row. exn_cause e = Some e0 \<and> find_dispatch (store w') did = Some row \<and>
    dp_exec row = x \<and> dp_key row = key \<and>
    (if refused g p x did (inputs_digest H canonical) canonical e0
     then exn_cls e = DispatchFailed \<and> dp_state row = ''failed''
     else exn_cls e = DispatchAmbiguous \<and> dp_state row = ''requested'' \<and>
       (\<exists>q. prepare_start g p x did (inputs_digest H canonical) canonical = Inr q \<and>
          start_provider p q = Inl e0))"
proof -
  from request_dispatch_effect [OF assms(1)] obtain t where
    row: "find_dispatch (store v) did = Some (requested_row did x key (inputs_digest H canonical) t)"
    by metis
  from run_dispatch_raises [OF assms(2,3) row] show ?thesis
    by (simp add: requested_row_def)
qed

definition demo_failing :: registry where
  "demo_failing = with_start (\<lambda>q. Inl (err ExecutionStartRejected ''no'')) demo_registry"

definition demo_failing_provider :: exec_provider where
  "demo_failing_provider = demo_provider\<lparr>ep_start := (\<lambda>q. Inl (err ExecutionStartRejected ''no''))\<rparr>"

definition demo_pending :: core_db where
  "demo_pending = demo_db\<lparr>
     executions := [demo_exec\<lparr>x_dispatched := Some (utc_time 0), x_version := 1\<rparr>],
     events := events demo_db @
       [\<lparr>e_id = ''evt_b'', e_type = Dispatch_requested, e_subject = ''exec_2'', e_at = utc_time 0,
         e_data = [(''dispatch_id'', ''dispatch_a''), (''inputs_digest'', ''h''), (''provider'', ''p''),
           (''provider_version'', ''1'')], e_key = Some ''k''\<rparr>],
     dispatches := [\<lparr>dp_id = ''dispatch_a'', dp_exec = ''exec_2'', dp_key = ''k'',
       dp_state = ''requested'', dp_correlation = None, dp_digest = Some ''h'',
       dp_created = utc_time 0, dp_updated = utc_time 0\<rparr>]\<rparr>"

lemma demo_request_run:
  "request_dispatch demo_failing ''exec_2'' [] (inputs_digest demo_hash []) ''k'' (world_at demo_db) =
    (Inr (demo_failing_provider, ''dispatch_a''), (world_at demo_pending)\<lparr>uuid_pos := 2, clock_pos := 1\<rparr>)"
  by (simp add: prog_eval row_eval repo_eval demo_eval dispatch_eval demo_pending_def demo_failing_def
      demo_failing_provider_def with_start_def demo_hash_def)

lemma demo_failing_run:
  "\<exists>w'. run_dispatch demo_hash demo_failing demo_failing_provider ''exec_2'' ''dispatch_a''
      (inputs_digest demo_hash []) [] ((world_at demo_pending)\<lparr>uuid_pos := 2, clock_pos := 1\<rparr>) =
    (Inl (Exn DispatchFailed ''Execution Dispatch failed for exec_2: ExecutionStartRejected: no'' None
       (Some (err ExecutionStartRejected ''no''))), w')"
  by (simp add: prog_eval row_eval repo_eval demo_eval dispatch_eval demo_pending_def demo_failing_def
      demo_failing_provider_def with_start_def demo_hash_def fail_dispatch_def exn_text_def
      record_dispatch_failed_def blank_def py_strip_def py_space_def code_of_def
      dispatch_error_code_def typed_code_ok_def is_upper_def)

theorem dispatch_outcome_recorded_witness:
  "\<exists>(w' :: core_db world) row. find_dispatch (store w') ''dispatch_a'' = Some row \<and>
    dp_state row = ''failed''"
proof -
  from demo_failing_run obtain e w' where
    run: "run_dispatch demo_hash demo_failing demo_failing_provider ''exec_2'' ''dispatch_a''
      (inputs_digest demo_hash []) [] ((world_at demo_pending)\<lparr>uuid_pos := 2, clock_pos := 1\<rparr>) = (Inl e, w')"
    and e: "exn_cls e = DispatchFailed" by auto
  from dispatch_outcome_recorded [OF demo_request_run run] e show ?thesis
    by (auto split: if_splits)
qed

text \<open>
  No other exception hides an outcome: before the request is committed a Dispatch raises
  neither \<open>DispatchFailed\<close> nor \<open>DispatchAmbiguous\<close>, and it then has written nothing.
\<close>

lemma dispatch_refused_cleanly:
  assumes "request_dispatch g x canonical digest key w = (Inl e, v)"
  shows "exn_cls e \<notin> {DispatchFailed, DispatchAmbiguous} \<and> store v = store w"
proof -
  have "atomic (request_dispatch g x canonical digest key)"
    unfolding request_dispatch_def mk_event_def
    by (intro atomic_pbind atomic_pseq atomic_then_return atomic_create_dispatch read_only_basic
        read_only_get_execution)
  with assms show ?thesis using sparesD [OF request_dispatch_spares] by (blast dest: atomicD)
qed

lemma dispatch_refused_cleanly_witness:
  "store (snd (request_dispatch demo_registry ''exec_9'' [] ''d'' ''k'' (world_at demo_db))) = demo_db"
proof -
  have "request_dispatch demo_registry ''exec_9'' [] ''d'' ''k'' (world_at demo_db) =
      (Inl (err ExecutionNotFound ''exec_9''), world_at demo_db)"
    by (simp add: request_dispatch_def get_execution_def prog_eval row_eval demo_eval)
  from dispatch_refused_cleanly [OF this] this show ?thesis by simp
qed

section \<open>The request the provider gets\<close>

text \<open>
  C35: the start request is exact. Whatever the provider declares about preflight and effects,
  the request carries the ids of the Execution and the Dispatch and the digest, and one resolved
  value for each canonical input, in canonical order, with the contract id and the Ref of that
  input; each value came from the resource provider of the Ref and has the registered type of
  its contract.
\<close>

theorem start_request_exact:
  assumes "canonicalize_input_shape items = Inr canonical"
    and "prepare_start g p x did (inputs_digest H canonical) canonical = Inr q"
  shows "sq_exec q = x \<and> sq_dispatch q = did \<and> sq_digest q = inputs_digest H canonical \<and>
    map (\<lambda>it. (ri_contract it, ri_ref it)) (sq_resolved q) = canonical \<and>
    (\<forall>it \<in> set (sq_resolved q). \<exists>rp t.
       get_resource_provider g (r_provider (ri_ref it)) = Inr rp \<and>
       call_resolve rp (ri_contract it) (ri_ref it) (Some (x, did)) = Inr (ri_value it) \<and>
       get_contract_type g (ri_contract it) = Inr t \<and> is_instance (ri_value it) t)"
  using prepare_start_Inr [OF assms(2) canonicalize_content(3) [OF assms(1)]] by blast

definition demo_type :: pytype where
  "demo_type = \<lparr>t_name = ''T'', t_uid = 0, t_contract = Some ''c.d@1'', t_frozen = True\<rparr>"

definition demo_input :: ref where
  "demo_input = \<lparr>r_type = Artifact_ref, r_provider = ''a'', r_native = ''n'', r_uri = None, r_meta = []\<rparr>"

definition demo_resources :: registry where
  "demo_resources = demo_registry\<lparr>g_types := [(''c.d@1'', demo_type)],
     g_resource := [(''a'', \<lparr>rp_descriptor = No_descriptor, rp_supported = Some [''c.d@1''],
       rp_resolve = (\<lambda>c r ctx. Inr \<lparr>v_types = [demo_type], v_data = r_native r\<rparr>)\<rparr>)]\<rparr>"

lemma demo_canonical:
  "canonicalize_input_shape [Py_tuple [Py_str ''c.d@1'', Py_ref demo_input]] = Inr [(''c.d@1'', demo_input)]"
  by (simp add: canonicalize_input_shape_def shape_input_def blank_def py_strip_def py_space_def
      code_of_def uri_clash_def demo_input_def)

lemma demo_prepared:
  "prepare_start demo_resources demo_provider ''x'' ''d'' (inputs_digest demo_hash [(''c.d@1'', demo_input)])
    [(''c.d@1'', demo_input)] = Inr \<lparr>sq_exec = ''x'', sq_dispatch = ''d'', sq_digest = ''h'',
      sq_resolved = [\<lparr>ri_contract = ''c.d@1'', ri_ref = demo_input,
        ri_value = \<lparr>v_types = [demo_type], v_data = ''n''\<rparr>\<rparr>]\<rparr>"
  by (simp add: dispatch_eval input_effect_def resolve_input_def get_resource_provider_def
      demo_resources_def call_resolve_def get_contract_type_def is_instance_def demo_input_def
      demo_hash_def item_key_def input_key_def)

theorem start_request_exact_witness:
  "map (\<lambda>it. (ri_contract it, ri_ref it)) [\<lparr>ri_contract = ''c.d@1'', ri_ref = demo_input,
     ri_value = \<lparr>v_types = [demo_type], v_data = ''n''\<rparr>\<rparr>] = [(''c.d@1'', demo_input)]"
  using start_request_exact [OF demo_canonical demo_prepared] by simp

section \<open>Canonical inputs and their digest\<close>

text \<open>
  The order in which a caller lists the inputs does not matter: a permutation of the same
  arguments has the same canonical form, hence the same digest and the same Dispatch.
\<close>

lemma canonical_order_irrelevant:
  assumes "canonicalize_input_shape items = Inr canonical" "mset items = mset items'"
  shows "dispatch_execution H g x items' key w = dispatch_execution H g x items key w"
  using canonicalize_permuted [OF assms] assms(1) by (simp add: dispatch_execution_def)

lemma canonical_order_irrelevant_witness:
  "dispatch_execution demo_hash demo_resources ''x''
     [Py_tuple [Py_str ''c.d@1'', Py_ref demo_input], Py_tuple [Py_str ''c.b@1'', Py_ref (demo_input\<lparr>r_native := ''n2''\<rparr>)]] ''k'' (world_at demo_db) =
   dispatch_execution demo_hash demo_resources ''x''
     [Py_tuple [Py_str ''c.b@1'', Py_ref (demo_input\<lparr>r_native := ''n2''\<rparr>)], Py_tuple [Py_str ''c.d@1'', Py_ref demo_input]] ''k'' (world_at demo_db)"
proof -
  have "canonicalize_input_shape [Py_tuple [Py_str ''c.b@1'', Py_ref (demo_input\<lparr>r_native := ''n2''\<rparr>)],
      Py_tuple [Py_str ''c.d@1'', Py_ref demo_input]] = Inr [(''c.b@1'', demo_input\<lparr>r_native := ''n2''\<rparr>), (''c.d@1'', demo_input)]"
    by code_simp
  then show ?thesis by (rule canonical_order_irrelevant) simp
qed

text \<open>
  The inputs digest is injective, up to the collision resistance of SHA-256 (assumed of
  \<open>H\<close>): two canonical input lists with the same digest bind the same contract ids to the same
  Refs, metadata included.
\<close>

lemma digest_determines_inputs:
  assumes "inj H" "canonicalize_input_shape items = Inr xs" "canonicalize_input_shape items' = Inr ys"
    and "\<forall>i \<in> set xs \<union> set ys. ref_dict (snd i)" "inputs_digest H xs = inputs_digest H ys"
  shows "map (\<lambda>i. (fst i, ref_identity (snd i))) xs = map (\<lambda>i. (fst i, ref_identity (snd i))) ys"
proof -
  from assms(4) have "\<forall>i \<in> set xs. ref_dict (snd i)" "\<forall>i \<in> set ys. ref_dict (snd i)" by auto
  from inputs_digest_inj [OF assms(1) this assms(5)] show ?thesis by (simp add: input_key_def [abs_def])
qed

lemma digest_determines_inputs_witness:
  "map (\<lambda>i. (fst i, ref_identity (snd i))) [(''c.d@1'', demo_input)] =
    [(''c.d@1'', ref_identity demo_input)]"
  using digest_determines_inputs [of id, OF _ demo_canonical demo_canonical]
  by (simp add: ref_dict_def demo_input_def)

text \<open>
  The inputs are frozen by the Dispatch: what \<open>list_input_refs\<close> returns for a dispatched
  Execution it returns after any later calls.
\<close>

lemma dispatched_inputs_frozen:
  assumes "db_ok (store w)" "core_runs H (store w) (store v)"
    and "dispatch_of_exec (store w) x \<noteq> None" "list_input_refs x w = (Inr inputs, w')"
  shows "list_input_refs x v = (Inr inputs, v)"
proof -
  from core_runs_steps [OF assms(2)] assms(1) have ok: "db_ok (store v)" and ev: "evolves (store w) (store v)"
    by (simp_all add: steps_def)
  from assms(4) obtain e where e: "find_exec (store w) x = Some e"
    and m: "map_each (\<lambda>row. plift (load_input x row)) (input_rows (store w) x) w = (Inr inputs, w')"
    by (auto simp: list_input_refs_def run_iffs get_execution_Inr)
  from exec_persists [OF ev ok e] obtain e' where e': "find_exec (store v) x = Some e'" by blast
  from ev have "inputs_frozen (store w) (store v)" by (simp add: evolves_def)
  from map_each_plift_run [OF m, of v] input_rows_frozen [OF this assms(3)] get_execution_returns [OF ok e']
  show ?thesis by (simp add: list_input_refs_def pseq_def pbind_def read_store_def)
qed

lemma dispatched_inputs_frozen_witness:
  "list_input_refs ''exec_2'' (world_at demo_sent) = (Inr [], world_at demo_sent)"
proof (rule dispatched_inputs_frozen [where w = "world_at demo_sent" and H = demo_hash])
  have "db_ok (store ((world_at demo_sent)\<lparr>uuid_pos := 3, clock_pos := 2\<rparr>))"
    using withinD [OF steps_dispatch_execution demo_dispatch] demo_ok by (simp add: steps_def)
  then show "db_ok (store (world_at demo_sent))" by simp
  show "list_input_refs ''exec_2'' (world_at demo_sent) = (Inr [], world_at demo_sent)"
    by (simp add: prog_eval row_eval repo_eval demo_eval demo_sent_def)
qed (simp_all add: runs_refl demo_sent_def dispatch_of_exec_def)

section \<open>The correlation of a Dispatch\<close>

text \<open>
  The correlation codec round-trips: a Ref that \<open>_serialize_correlation_ref\<close> accepts is
  read back by \<open>_parse_correlation_ref\<close> as the same Ref, with its metadata keys sorted, and
  not as a legacy locator.
\<close>

lemma correlation_round_trip:
  assumes "serialize_correlation_ref r = Inr s" "ref_ok r" "ref_dict r"
  shows "parse_correlation_ref (Some s) = Inr (Some (dump_ref r), None)"
proof -
  from assms(1) have s: "s = correlation_prefix @ dumps_compact (ref_json r)"
    by (auto simp: serialize_correlation_ref_def Let_def split: if_splits)
  have j: "json_loads (dumps_compact (ref_json r)) = Some (json_sorted (ref_json r))"
    using assms(3) by (intro json_loads_dumps) (rule json_ok_ref)
  have p: "payload_ref (json_sorted (ref_json r)) = Some (Inr (dump_ref r))"
    using assms(2) by (rule payload_ref_sorted)
  show ?thesis by (simp add: parse_correlation_ref_def s j p)
qed

lemma correlation_round_trip_witness:
  "parse_correlation_ref (Some (correlation_prefix @ dumps_compact (ref_json demo_input))) =
    Inr (Some demo_input, None)"
proof -
  have "serialize_correlation_ref demo_input = Inr (correlation_prefix @ dumps_compact (ref_json demo_input))"
    by (simp add: serialize_correlation_ref_def Let_def demo_input_def ref_json_def dumps_compact_def
        less_char_def correlation_prefix_def max_correlation_length_def str_json_def dict_json_def
        json_str_def json_char_def code_of_def)
  from correlation_round_trip [OF this] show ?thesis
    by (simp add: ref_ok_def ref_dict_def demo_input_def bounded_def dump_ref_def dump_def)
qed

text \<open>
  But text that carries the prefix and is not such a Ref is not a legacy locator either: a
  payload with an empty provider or native id makes \<open>_parse_correlation_ref\<close> raise
  \<open>InvalidRef\<close>, which its handler does not catch, and so every replay of that Dispatch raises.
\<close>

lemma malformed_correlation_raises:
  assumes "ref_dict r" "r_provider r = [] \<or> r_native r = []"
  shows "parse_correlation_ref (Some (correlation_prefix @ dumps_compact (ref_json r))) =
    Inl (err InvalidRef ''provider and native_id are required'')"
proof -
  have "json_loads (dumps_compact (ref_json r)) = Some (json_sorted (ref_json r))"
    using assms(1) by (intro json_loads_dumps) (rule json_ok_ref)
  with payload_ref_empty [OF assms(2)] show ?thesis by (simp add: parse_correlation_ref_def)
qed

lemma malformed_correlation_raises_witness:
  "parse_correlation_ref (Some (correlation_prefix @ dumps_compact (ref_json (demo_input\<lparr>r_provider := []\<rparr>)))) =
    Inl (err InvalidRef ''provider and native_id are required'')"
  by (rule malformed_correlation_raises) (simp_all add: ref_dict_def demo_input_def)

text \<open>
  A started Dispatch can become impossible to record. The correlation codec admits 8192
  characters, the event that records the acceptance 256: when the provider's receipt carries a
  correlation Ref whose text is longer, \<open>record_dispatch_accepted\<close> raises \<open>InvalidRef\<close>
  after the provider has started, and the row stays requested.
\<close>

lemma oversized_correlation_unrecorded:
  assumes "db_ok (store w)" "find_dispatch (store w) did = Some row" "dp_state row = ''requested''"
    and "sr_correlation rc = Some r" "sr_support rc = Some support"
    and "serialize_correlation_ref r = Inr s" "256 < length s"
  shows "\<exists>e w'. record_dispatch_accepted H did (Typed rc) w = (Inl e, w') \<and>
    exn_cls e = InvalidRef \<and> store w' = store w"
proof -
  note named = dispatched_exec_named [OF assms(1,2)]
  from record_terminal_oversized [OF assms(2,3) named _ assms(7), of "''accepted''" Dispatch_accepted None]
  show ?thesis
    using assms(4-6) by (simp add: record_dispatch_accepted_def pbind_def plift_def preturn_def)
qed

definition demo_long :: ref where
  "demo_long = demo_input\<lparr>r_native := replicate 300 CHR ''n''\<rparr>"

lemma demo_long_text:
  "length (correlation_prefix @ dumps_compact (ref_json demo_long)) = 384"
  "serialize_correlation_ref demo_long = Inr (correlation_prefix @ dumps_compact (ref_json demo_long))"
proof -
  have c: "concat (map (json_char False) (replicate n CHR ''n'')) = replicate n CHR ''n''" for n
    by (induction n) (simp_all add: json_char_def code_of_def)
  have l: "length (dumps_compact (ref_json demo_long)) = 377"
    by (simp add: dumps_compact_def json_sorted_ref demo_long_def demo_input_def str_json_def
        json_str_def c) (simp add: json_char_def code_of_def)
  show "length (correlation_prefix @ dumps_compact (ref_json demo_long)) = 384"
    by (simp add: l correlation_prefix_def)
  then show "serialize_correlation_ref demo_long = Inr (correlation_prefix @ dumps_compact (ref_json demo_long))"
    by (simp add: serialize_correlation_ref_def Let_def max_correlation_length_def)
qed

lemma demo_pending_ok: "db_ok demo_pending"
  using withinD [OF steps_request_dispatch demo_request_run] demo_ok by (simp add: steps_def)

lemma oversized_correlation_unrecorded_witness:
  "\<exists>e w'. record_dispatch_accepted demo_hash ''dispatch_a'' (Typed \<lparr>sr_exec = ''exec_2'',
      sr_dispatch = ''dispatch_a'', sr_digest = ''h'', sr_support = Some Observe_recovery,
      sr_correlation = Some demo_long\<rparr>) (world_at demo_pending) = (Inl e, w') \<and>
    exn_cls e = InvalidRef \<and> store w' = demo_pending"
proof -
  have f: "find_dispatch (store (world_at demo_pending)) ''dispatch_a'' = Some \<lparr>dp_id = ''dispatch_a'',
       dp_exec = ''exec_2'', dp_key = ''k'', dp_state = ''requested'', dp_correlation = None,
       dp_digest = Some ''h'', dp_created = utc_time 0, dp_updated = utc_time 0\<rparr>"
    by (simp add: demo_pending_def find_dispatch_def)
  from oversized_correlation_unrecorded [OF _ f _ _ _ demo_long_text(2), of _ Observe_recovery demo_hash]
    demo_long_text(1) demo_pending_ok
  show ?thesis by simp
qed

section \<open>Keys and the order of the ledger\<close>

text \<open>
  Dispatch keys and finalization keys share the key column of the ledger. A finalization
  whose idempotency key some event already carries (the key of a Dispatch, say) never succeeds:
  it raises and writes nothing, and the exception is the database's, not
  \<open>FinalizationConflict\<close>.
\<close>

lemma finalization_key_taken:
  assumes "db_ok (store w)" "finalization_of_exec (store w) (q_exec q) = None"
    and "Some (q_key q) \<in> e_key ` set (events (store w))"
  shows "\<exists>e w'. apply_finalization H q w = (Inl e, w') \<and> store w' = store w"
proof -
  obtain r w' where run: "apply_finalization H q w = (r, w')" by fastforce
  show ?thesis
  proof (cases r)
    case (Inl e)
    with run raises_cleanD [OF clean_apply_finalization assms(1)] show ?thesis by blast
  next
    case (Inr rc)
    with run obtain t v native outp obs where v: "store v = store w" and
      fin: "finalize_execution H (q_exec q) (q_projection q) native outp obs (q_key q)
        (finalization_digest H q) t v = (Inr rc, w')"
      using apply_finalization_reaches [of H q w rc w'] by blast
    from fin show ?thesis
    proof (cases rule: finalize_effect)
      case (replay row)
      with v assms(2) show ?thesis by simp
    next
      case (commit row d1 d2 e1 e2)
      then have "Some (q_key q) \<notin> e_key ` set (events d2)" "prefix (events (store v)) (events d2)"
        by (auto simp: commits_bundle_def adds_event_def attaches_refs_def appends_observations_def)
      with v assms(3) show ?thesis by (auto simp: prefix_def)
    qed
  qed
qed

lemma finalization_key_taken_witness:
  "\<exists>e w'. apply_finalization demo_hash (demo_request\<lparr>q_key := ''k''\<rparr>) (world_at demo_pending) =
    (Inl e, w') \<and> store w' = demo_pending"
  using finalization_key_taken [of "world_at demo_pending" "demo_request\<lparr>q_key := ''k''\<rparr>" demo_hash]
    demo_pending_ok
  by (simp add: demo_pending_def demo_db_def finalization_of_exec_def)

text \<open>
  The ledger is read back in the order of the ISO texts, not of time. On any day an event
  stamped by a host eight hours east of Greenwich (the repository stamps acceptances and
  failures with the local offset) is listed after an event the service stamped in UTC a
  microsecond later.
\<close>

lemma ledger_order_not_chronological:
  "let a = \<lparr>e_id = i, e_type = Dispatch_accepted, e_subject = x, e_at = local_time (\<lambda>_. 28800000000)
         (int n * 86400000000), e_data = m, e_key = None\<rparr>;
       b = \<lparr>e_id = j, e_type = Projection_changed, e_subject = x, e_at = utc_time
         (int n * 86400000000 + 1), e_data = m', e_key = None\<rparr>
   in instant (e_at a) < instant (e_at b) \<and> sorted_events [a, b] = [b, a]"
  using east_text_later [of n] order.asym [OF east_text_later [of n]]
    east_text_later [of n, unfolded not_le [symmetric]]
  by (simp add: Let_def sorted_events_def)

section \<open>The registry\<close>



end
