(* ===== verification/Capability_Model.thy ===== *)
theory Capability_Model
  imports Json_Text "HOL-Library.Multiset"
begin

text \<open>
  The frozen data of the capability contract (\<open>extensions/capability/documents.py\<close>),
  the id syntax (\<open>ids.py\<close>), the slot register (\<open>slots.py\<close>) and the generation of
  demands and grants from a deployment (\<open>requirements.py\<close>). A constructor that
  normalises or checks its arguments is the function \<open>mk_\<dots>\<close>; a frozen dataclass is a
  record.
\<close>

section \<open>Capability ids\<close>

text \<open>\<open>[a-z][a-z0-9.-]+@[1-9][0-9]*\<close>: the name cannot contain \<open>@\<close>, so the version starts
  after the first one.\<close>

definition capability_char :: "char \<Rightarrow> bool" where
  "capability_char c \<longleftrightarrow> is_lower c \<or> is_digit c \<or> c \<in> set ''.-''"

definition capability_name_ok :: "string \<Rightarrow> bool" where
  "capability_name_ok s \<longleftrightarrow> (case s of [] \<Rightarrow> False
     | c # cs \<Rightarrow> is_lower c \<and> cs \<noteq> [] \<and> list_all capability_char cs)"

definition capability_id_ok :: "string \<Rightarrow> bool" where
  "capability_id_ok s \<longleftrightarrow>
     (let n = takeWhile (\<lambda>c. c \<noteq> CHR ''@'') s; v = dropWhile (\<lambda>c. c \<noteq> CHR ''@'') s
      in capability_name_ok n \<and> v \<noteq> [] \<and> version_ok (tl v))"

text \<open>The argument is untyped: \<open>Inl r\<close> is a value that is not a string, by its \<open>repr\<close>.\<close>

definition require_capability_id :: "string + string \<Rightarrow> exn + string" where
  "require_capability_id v =
    (case v of
       Inl r \<Rightarrow> Inl (err CapabilityIdInvalid
         (''invalid capability id '' @ r @ '': capability id must be a string''))
     | Inr s \<Rightarrow>
         if capability_id_ok s then Inr s
         else Inl (err CapabilityIdInvalid
           (''invalid capability id '' @ py_repr s @ '': must match ^[a-z][a-z0-9.-]+@[1-9][0-9]*$'')))"

lemma capability_name_no_at: "capability_name_ok n \<Longrightarrow> CHR ''@'' \<notin> set n"
proof
  assume ok: "capability_name_ok n" and at: "CHR ''@'' \<in> set n"
  from ok obtain c cs where n: "n = c # cs" and c: "is_lower c" and cs: "list_all capability_char cs"
    by (auto simp: capability_name_ok_def split: list.splits)
  have "\<not> is_lower (CHR ''@'')" "\<not> capability_char (CHR ''@'')"
    by (simp_all add: capability_char_def is_lower_def is_digit_def code_of_def)
  with at n c cs show False by (auto simp: list_all_iff)
qed

lemma capability_id_ok_iff:
  "capability_id_ok s \<longleftrightarrow> (\<exists>n v. s = n @ ''@'' @ v \<and> capability_name_ok n \<and> version_ok v)"
  using split_at_first [of capability_name_ok, OF capability_name_no_at]
  by (simp add: capability_id_ok_def)

section \<open>Slots\<close>

definition component_slot_capabilities :: "(string \<times> string list) list" where
  "component_slot_capabilities =
    [(''isolation.wrap@1'',
       [''filesystem.mounts@1'', ''filesystem.readonly@1'', ''filesystem.writable@1'',
        ''filesystem.tmpfs@1'', ''filesystem.symlink-safe@1'', ''network.none@1'',
        ''network.inherit@1'', ''env.bounded@1'', ''home.workspace@1'', ''digest.read-back@1'']),
     (''process.spawn.typed@1'',
       [''argv.safe@1'', ''cwd.token@1'', ''env.token@1'', ''staging.path-token@1'',
        ''identity.drift@1'', ''transport.local-exec@1'', ''wsl.distro-affinity@1'']),
     (''terminal.run@1'', [])]"

definition slot_of_capability :: "string \<Rightarrow> string option" where
  "slot_of_capability c =
    map_option fst (find (\<lambda>(slot, capabilities). c \<in> set capabilities) component_slot_capabilities)"

text \<open>The check the module runs when it is imported.\<close>

definition slots_import_check :: "exn + unit" where
  "slots_import_check =
    (case find (\<lambda>i. \<not> capability_id_ok i)
        (concat (map (\<lambda>(slot, capabilities). slot # capabilities) component_slot_capabilities)) of
       None \<Rightarrow> Inr ()
     | Some i \<Rightarrow> map_sum id (\<lambda>_. ()) (require_capability_id (Inr i)))"

lemma slots_import_check_passes: "slots_import_check = Inr ()"
  by (simp add: slots_import_check_def component_slot_capabilities_def capability_id_ok_def
      capability_name_ok_def capability_char_def version_ok_def is_lower_def is_digit_def code_of_def)

section \<open>Frozen data\<close>

record evidence =
  ev_kind :: string
  ev_locator :: string
  ev_binding :: "string option"
  ev_observed :: "int option"
  ev_expires :: "int option"

definition mk_evidence ::
  "string \<Rightarrow> string \<Rightarrow> string option \<Rightarrow> int option \<Rightarrow> int option \<Rightarrow> exn + evidence" where
  "mk_evidence kind locator binding observed expires =
    (case (expires, observed) of
       (Some x, Some b) \<Rightarrow>
         if x < b then Inl (err EvidenceInvalid
             (''expires_at '' @ show_int x @ '' precedes observed_at '' @ show_int b))
         else Inr \<lparr>ev_kind = kind, ev_locator = locator, ev_binding = binding,
             ev_observed = observed, ev_expires = expires\<rparr>
     | _ \<Rightarrow> Inr \<lparr>ev_kind = kind, ev_locator = locator, ev_binding = binding,
             ev_observed = observed, ev_expires = expires\<rparr>)"

record condition =
  cn_name :: string
  cn_facts :: "(string \<times> string) list"
  cn_evidence :: "evidence list"

definition mk_condition :: "string \<Rightarrow> (string \<times> string) list \<Rightarrow> evidence list \<Rightarrow> condition" where
  "mk_condition name facts evidence = \<lparr>cn_name = name, cn_facts = sort facts, cn_evidence = evidence\<rparr>"

record parameter_set =
  targets :: "string list"

definition mk_parameters :: "string list \<Rightarrow> parameter_set" where
  "mk_parameters ts = \<lparr>targets = sort ts\<rparr>"

record requirement =
  rq_capability :: string
  rq_parameters :: parameter_set
  rq_source :: evidence

record grant =
  gr_capability :: string
  gr_parameters :: parameter_set
  gr_provenance :: string
  gr_source :: evidence

record sandbox_declaration =
  dc_capability :: string
  dc_state :: string
  dc_condition :: "condition option"
  dc_parameters :: "parameter_set option"
  dc_evidence :: "evidence list"
  dc_provider :: string

record fact =
  ft_key :: string
  ft_value :: "string option"
  ft_evidence :: "evidence list"

record declaration_document =
  doc_provider :: string
  doc_revision :: int
  doc_binding :: string
  doc_declarations :: "sandbox_declaration list"
  doc_digest :: string

record match_context =
  mc_binding :: string
  mc_now :: int

section \<open>Canonical text and digest\<close>

definition opt_json :: "('a \<Rightarrow> json) \<Rightarrow> 'a option \<Rightarrow> json" where
  "opt_json f v = (case v of None \<Rightarrow> JNull | Some x \<Rightarrow> f x)"

definition evidence_json :: "evidence \<Rightarrow> json" where
  "evidence_json e = JDict
    [(''kind'', JStr (ev_kind e)), (''locator'', JStr (ev_locator e)),
     (''environment_binding'', opt_json JStr (ev_binding e)),
     (''observed_at'', opt_json JInt (ev_observed e)), (''expires_at'', opt_json JInt (ev_expires e))]"

definition requirement_json :: "requirement \<Rightarrow> json" where
  "requirement_json q = JDict
    [(''capability_id'', JStr (rq_capability q)),
     (''parameters'', JDict [(''targets'', JList (map JStr (targets (rq_parameters q))))]),
     (''source'', evidence_json (rq_source q))]"

definition requirement_set_digest :: "(string \<Rightarrow> string) \<Rightarrow> requirement list \<Rightarrow> string" where
  "requirement_set_digest H qs = H (dumps_compact (JList (map requirement_json qs)))"

lemma opt_json_inj: "(\<And>x y. f x = f y \<Longrightarrow> x = y) \<Longrightarrow> (\<And>x. f x \<noteq> JNull) \<Longrightarrow>
    opt_json f v = opt_json f w \<Longrightarrow> v = w"
  by (cases v; cases w) (auto simp: opt_json_def, metis+)

lemma json_sorted_opt: "json_sorted (opt_json JStr v) = opt_json JStr v"
  "json_sorted (opt_json JInt i) = opt_json JInt i"
  by (auto simp: opt_json_def split: option.splits)

lemma evidence_json_inj:
  assumes "json_sorted (evidence_json e) = json_sorted (evidence_json f)"
  shows "e = f"
proof -
  from assms have eq: "opt_json JStr (ev_binding e) = opt_json JStr (ev_binding f)"
    "opt_json JInt (ev_observed e) = opt_json JInt (ev_observed f)"
    "opt_json JInt (ev_expires e) = opt_json JInt (ev_expires f)"
    "ev_kind e = ev_kind f" "ev_locator e = ev_locator f"
    by (simp_all add: evidence_json_def json_sorted_opt)
  from eq(1) have "ev_binding e = ev_binding f" by (rule opt_json_inj [rotated 2]) auto
  moreover from eq(2) have "ev_observed e = ev_observed f" by (rule opt_json_inj [rotated 2]) auto
  moreover from eq(3) have "ev_expires e = ev_expires f" by (rule opt_json_inj [rotated 2]) auto
  ultimately show ?thesis using eq(4,5) by simp
qed

lemma requirement_json_inj:
  assumes "json_sorted (requirement_json q) = json_sorted (requirement_json r)"
  shows "q = r"
proof -
  have strs: "map json_sorted (map JStr ts) = map JStr ts" for ts by simp
  from assms have eq: "rq_capability q = rq_capability r"
    "map JStr (targets (rq_parameters q)) = map JStr (targets (rq_parameters r))"
    "json_sorted (evidence_json (rq_source q)) = json_sorted (evidence_json (rq_source r))"
    by (simp_all add: requirement_json_def json_sorted_list_map strs del: map_map)
  from eq(2) have "targets (rq_parameters q) = targets (rq_parameters r)"
    by (simp add: inj_map_eq_map inj_def)
  with eq(1) evidence_json_inj [OF eq(3)] show ?thesis by simp
qed

lemma requirements_json_inj:
  "map json_sorted (map requirement_json qs) = map json_sorted (map requirement_json rs) \<Longrightarrow> qs = rs"
proof (induction qs arbitrary: rs)
  case Nil
  then show ?case by simp
next
  case (Cons q qs)
  then obtain r rs' where "rs = r # rs'" by (cases rs) auto
  with Cons show ?case by (auto dest: requirement_json_inj)
qed

lemma requirement_set_text_inj:
  "dumps_compact (JList (map requirement_json qs)) = dumps_compact (JList (map requirement_json rs))
     \<longleftrightarrow> qs = rs"
  by (auto simp: dumps_compact_inj json_sorted_list_map simp del: map_map dest: requirements_json_inj)

section \<open>Demands and grants of a deployment\<close>

definition config_key_evidence :: "string \<Rightarrow> evidence" where
  "config_key_evidence field = \<lparr>ev_kind = ''config-key'', ev_locator = ''deployment:'' @ field,
     ev_binding = None, ev_observed = None, ev_expires = None\<rparr>"

lemma config_key_evidence_constructed:
  "mk_evidence ''config-key'' (''deployment:'' @ field) None None None = Inr (config_key_evidence field)"
  by (simp add: mk_evidence_def config_key_evidence_def)

text \<open>\<open>dict.fromkeys\<close>: the first occurrences, in order.\<close>

fun first_occurrences :: "'a list \<Rightarrow> 'a list \<Rightarrow> 'a list" where
  "first_occurrences seen [] = []"
| "first_occurrences seen (x # xs) =
    (if x \<in> set seen then first_occurrences seen xs
     else x # first_occurrences (x # seen) xs)"

definition unique_in_order :: "'a list \<Rightarrow> 'a list" where
  "unique_in_order ts = first_occurrences [] ts"

text \<open>The loop over the fields: a target belongs to the first field that names it.\<close>

fun claim_targets :: "string list \<Rightarrow> (string \<times> string list) list \<Rightarrow> (string \<times> string) list" where
  "claim_targets claimed [] = []"
| "claim_targets claimed ((field, ts) # rest) =
    (let new = filter (\<lambda>t. t \<notin> set claimed) (unique_in_order ts)
     in map (Pair field) new @ claim_targets (new @ claimed) rest)"

definition readonly_demand :: "string \<times> string \<Rightarrow> requirement" where
  "readonly_demand ft = \<lparr>rq_capability = ''filesystem.readonly@1'',
     rq_parameters = mk_parameters [snd ft], rq_source = config_key_evidence (fst ft)\<rparr>"

definition sidecar_requirements ::
  "string list \<Rightarrow> string list \<Rightarrow> string list \<Rightarrow> string option \<Rightarrow> requirement list" where
  "sidecar_requirements executable projection artifact state =
    map readonly_demand (claim_targets []
      [(''executable_targets'', executable), (''projection_targets'', projection),
       (''artifact_targets'', artifact)])
    @ (case state of None \<Rightarrow> []
       | Some t \<Rightarrow> [\<lparr>rq_capability = ''filesystem.writable@1'', rq_parameters = mk_parameters [t],
                     rq_source = config_key_evidence ''state_target''\<rparr>])"

definition readonly_grant :: "string \<times> string \<Rightarrow> grant" where
  "readonly_grant ft = \<lparr>gr_capability = ''filesystem.readonly@1'',
     gr_parameters = mk_parameters [snd ft], gr_provenance = ''locked-policy'',
     gr_source = config_key_evidence (fst ft)\<rparr>"

definition sidecar_grants ::
  "string list \<Rightarrow> string list \<Rightarrow> string list \<Rightarrow> string option \<Rightarrow> grant list" where
  "sidecar_grants executable projection artifact state =
    map readonly_grant (claim_targets []
      [(''executable_targets'', executable), (''projection_targets'', projection),
       (''artifact_targets'', artifact)])
    @ (case state of None \<Rightarrow> []
       | Some t \<Rightarrow> [\<lparr>gr_capability = ''filesystem.writable@1'', gr_parameters = mk_parameters [t],
                     gr_provenance = ''locked-policy'',
                     gr_source = config_key_evidence ''state_target''\<rparr>])"

lemma set_first_occurrences: "set (first_occurrences seen xs) = set xs - set seen"
  by (induction seen xs rule: first_occurrences.induct) auto

lemma distinct_first_occurrences: "distinct (first_occurrences seen xs)"
  by (induction seen xs rule: first_occurrences.induct) (auto simp: set_first_occurrences)

lemma set_unique_in_order [simp]: "set (unique_in_order xs) = set xs"
  by (simp add: unique_in_order_def set_first_occurrences)

lemma distinct_unique_in_order [simp]: "distinct (unique_in_order xs)"
  by (simp add: unique_in_order_def distinct_first_occurrences)

lemma claim_targets_set:
  "snd ` set (claim_targets claimed rest) = (\<Union>(f, ts) \<in> set rest. set ts) - set claimed"
  by (induction claimed rest rule: claim_targets.induct) (auto simp: Let_def image_Un image_image)

lemma claim_targets_distinct: "distinct (map snd (claim_targets claimed rest))"
proof (induction claimed rest rule: claim_targets.induct)
  case (1 claimed)
  then show ?case by simp
next
  case (2 claimed field ts rest)
  let ?new = "filter (\<lambda>t. t \<notin> set claimed) (unique_in_order ts)"
  have "map snd (map (Pair field) ?new) = ?new" by (simp add: comp_def)
  moreover have "distinct (map snd (claim_targets (?new @ claimed) rest))" using 2 by (simp add: Let_def)
  moreover have "set (map snd (claim_targets (?new @ claimed) rest)) \<inter> set ?new = {}"
    using claim_targets_set [of "?new @ claimed" rest] by auto
  ultimately show ?case by (auto simp: Let_def)
qed

lemma claim_targets_field: "(f, t) \<in> set (claim_targets claimed rest) \<Longrightarrow>
    \<exists>ts. (f, ts) \<in> set rest \<and> t \<in> set ts"
  by (induction claimed rest rule: claim_targets.induct) (auto simp: Let_def)

declare claim_targets.simps [simp del]

text \<open>The demands a deployment yields ask for each mounted target exactly once.\<close>

lemma sidecar_requirements_targets:
  "set (sidecar_requirements ex pr ar st) =
     readonly_demand ` set (claim_targets []
       [(''executable_targets'', ex), (''projection_targets'', pr), (''artifact_targets'', ar)])
     \<union> (case st of None \<Rightarrow> {} | Some t \<Rightarrow> {\<lparr>rq_capability = ''filesystem.writable@1'',
          rq_parameters = mk_parameters [t], rq_source = config_key_evidence ''state_target''\<rparr>})"
  by (auto simp: sidecar_requirements_def split: option.splits)

end
