(* ===== verification/Capability_Match.thy ===== *)
theory Capability_Match
  imports Capability_Model
begin

text \<open>
  The matcher of \<open>extensions/capability/match.py\<close>: each demand is checked against the rule
  registry, the grants, the provider's declarations, the condition, the evidence and the
  covered parameters, in that order; the first failure is the refusal recorded for the demand.
  Reason codes are the strings of \<open>errors.py\<close>. The second half states what a satisfied
  outcome means without the order of the checks (\<open>demand_met\<close>) and proves the matcher
  equivalent to it.
\<close>

section \<open>Rules\<close>

definition targets_superset :: "parameter_set \<Rightarrow> parameter_set \<Rightarrow> bool" where
  "targets_superset demand declared \<longleftrightarrow> set (targets demand) \<subseteq> set (targets declared)"

definition targets_equal :: "parameter_set \<Rightarrow> parameter_set \<Rightarrow> bool" where
  "targets_equal demand declared \<longleftrightarrow> targets demand = targets declared"

record match_rule =
  mr_capability :: string
  mr_rule :: string
  mr_covers :: "parameter_set \<Rightarrow> parameter_set \<Rightarrow> bool"

definition rule_registry :: "match_rule list" where
  "rule_registry =
    [\<lparr>mr_capability = ''filesystem.readonly@1'', mr_rule = ''targets-superset'', mr_covers = targets_superset\<rparr>,
     \<lparr>mr_capability = ''filesystem.writable@1'', mr_rule = ''targets-superset'', mr_covers = targets_superset\<rparr>,
     \<lparr>mr_capability = ''network.none@1'', mr_rule = ''targets-equal'', mr_covers = targets_equal\<rparr>,
     \<lparr>mr_capability = ''network.inherit@1'', mr_rule = ''targets-equal'', mr_covers = targets_equal\<rparr>]"

definition registered_rule :: "string \<Rightarrow> match_rule option" where
  "registered_rule c = find (\<lambda>r. mr_capability r = c) rule_registry"

section \<open>Outcomes\<close>

record matched_item =
  mi_capability :: string
  mi_rule :: string

record refusal =
  rf_capability :: "string option"
  rf_reason :: string
  rf_detail :: string

datatype verdict = Matched matched_item | Refused refusal

definition refuse :: "string \<Rightarrow> string \<Rightarrow> string \<Rightarrow> refusal" where
  "refuse c reason detail = \<lparr>rf_capability = Some c, rf_reason = reason, rf_detail = detail\<rparr>"

record match_outcome =
  mo_satisfied :: bool
  mo_matches :: "matched_item list"
  mo_refusals :: "refusal list"

section \<open>Evidence and conditions\<close>

fun evidence_code :: "evidence list \<Rightarrow> match_context \<Rightarrow> string option" where
  "evidence_code [] ctx = None"
| "evidence_code (e # es) ctx =
    (if (case ev_expires e of None \<Rightarrow> False | Some x \<Rightarrow> x < mc_now ctx) then Some ''REFUSAL_EVIDENCE_STALE''
     else if (case ev_binding e of None \<Rightarrow> False | Some b \<Rightarrow> b \<noteq> mc_binding ctx)
       then Some ''REFUSAL_ENVIRONMENT_MISMATCH''
     else evidence_code es ctx)"

text \<open>\<open>{fact.key: fact for fact in facts}\<close>: the last fact of a key wins.\<close>

definition facts_by_key :: "fact list \<Rightarrow> string \<Rightarrow> fact option" where
  "facts_by_key facts k = find (\<lambda>f. ft_key f = k) (rev facts)"

text \<open>The first loop of \<open>_evaluate_condition\<close>: the evidence of the facts that take part.\<close>

fun facts_closure ::
  "(string \<Rightarrow> fact option) \<Rightarrow> match_context \<Rightarrow> (string \<times> string) list \<Rightarrow> string option" where
  "facts_closure by_key ctx [] = None"
| "facts_closure by_key ctx ((k, expected) # rest) =
    (case by_key k of
       None \<Rightarrow> facts_closure by_key ctx rest
     | Some f \<Rightarrow>
         if ft_evidence f = [] then Some ''REFUSAL_EVIDENCE_ABSENT''
         else (case evidence_code (ft_evidence f) ctx of
             Some code \<Rightarrow> Some code
           | None \<Rightarrow> facts_closure by_key ctx rest))"

definition fact_value :: "(string \<Rightarrow> fact option) \<Rightarrow> string \<Rightarrow> string option" where
  "fact_value by_key k = (case by_key k of None \<Rightarrow> None | Some f \<Rightarrow> ft_value f)"

definition evaluate_condition ::
  "condition option \<Rightarrow> (string \<Rightarrow> fact option) \<Rightarrow> match_context \<Rightarrow> string" where
  "evaluate_condition c by_key ctx =
    (case c of
       None \<Rightarrow> ''unknown''
     | Some cn \<Rightarrow>
         if cn_facts cn = [] then ''unknown''
         else if cn_evidence cn = [] then ''REFUSAL_EVIDENCE_ABSENT''
         else (case evidence_code (cn_evidence cn) ctx of
             Some code \<Rightarrow> code
           | None \<Rightarrow>
             (case facts_closure by_key ctx (cn_facts cn) of
                Some code \<Rightarrow> code
              | None \<Rightarrow>
                  if \<exists>(k, expected) \<in> set (cn_facts cn).
                      (case fact_value by_key k of None \<Rightarrow> False | Some v \<Rightarrow> v \<noteq> expected)
                    then ''failed''
                  else if \<exists>(k, expected) \<in> set (cn_facts cn). fact_value by_key k = None
                    then ''unknown''
                  else ''verified'')))"

section \<open>Authorisation\<close>

fun first_grant_code :: "match_rule \<Rightarrow> parameter_set \<Rightarrow> match_context \<Rightarrow> string option \<Rightarrow> grant list \<Rightarrow>
    string option option" where
  "first_grant_code rule demand ctx code [] = Some code"
| "first_grant_code rule demand ctx code (g # gs) =
    (if \<not> mr_covers rule demand (gr_parameters g) then first_grant_code rule demand ctx code gs
     else (case evidence_code [gr_source g] ctx of
         None \<Rightarrow> None
       | Some c \<Rightarrow> first_grant_code rule demand ctx (case code of None \<Rightarrow> Some c | Some d \<Rightarrow> Some d) gs))"

text \<open>\<open>repr\<close> of a tuple of strings.\<close>

definition tuple_repr :: "string list \<Rightarrow> string" where
  "tuple_repr ts = (case ts of
     [] \<Rightarrow> ''()''
   | [t] \<Rightarrow> ''('' @ py_repr t @ '',)''
   | t # us \<Rightarrow> ''('' @ py_repr t @ concat (map (\<lambda>u. '', '' @ py_repr u) us) @ '')'')"

definition applicable_grants :: "requirement \<Rightarrow> grant list \<Rightarrow> grant list" where
  "applicable_grants demand grants =
    filter (\<lambda>g. gr_capability g = rq_capability demand \<and> gr_provenance g = ''locked-policy'') grants"

definition authorization_refusal ::
  "requirement \<Rightarrow> grant list \<Rightarrow> match_rule \<Rightarrow> match_context \<Rightarrow> refusal option" where
  "authorization_refusal demand grants rule ctx =
    (let same_id = applicable_grants demand grants; c = rq_capability demand in
     if same_id = [] then Some (refuse c ''REFUSAL_AUTHORIZATION_MISSING'' (''no grant for '' @ c))
     else (case first_grant_code rule (rq_parameters demand) ctx None same_id of
         None \<Rightarrow> None
       | Some (Some code) \<Rightarrow> Some (refuse c code ''applicable grant source failed closure'')
       | Some None \<Rightarrow> Some (refuse c ''REFUSAL_AUTHORIZATION_EXCEEDED''
           (''demand targets '' @ tuple_repr (targets (rq_parameters demand)) @ '' exceed every same-id grant''))))"

section \<open>Declarations\<close>

definition find_declaration :: "requirement \<Rightarrow> declaration_document \<Rightarrow> refusal + sandbox_declaration" where
  "find_declaration demand doc =
    (let c = rq_capability demand;
         same_id = filter (\<lambda>d. dc_capability d = c) (doc_declarations doc) in
     case same_id of
       [] \<Rightarrow> Inl (refuse c ''REFUSAL_DECLARATION_MISSING'' (''document has no declaration for '' @ c))
     | d # others \<Rightarrow>
         if others \<noteq> [] then Inl (refuse c ''REFUSAL_DECLARATION_CONFLICT''
           (show_nat (length same_id) @ '' declarations share '' @ c))
         else if dc_state d \<notin> set [''supported'', ''conditional'', ''unavailable''] then
           Inl (refuse c ''REFUSAL_DECLARATION_MISSING''
             (''declaration for '' @ c @ '' has unknown support_state '' @ py_repr (dc_state d)))
         else if dc_state d = ''unavailable'' then
           Inl (refuse c ''REFUSAL_DECLARATION_MISSING'' (''declaration for '' @ c @ '' is '' @ py_repr ''unavailable''))
         else Inr d)"

definition declaration_shape_refusal :: "string \<Rightarrow> sandbox_declaration \<Rightarrow> refusal option" where
  "declaration_shape_refusal c d =
    (if dc_state d = ''supported'' \<and> (dc_condition d \<noteq> None \<or> dc_parameters d = None) then
       Some (refuse c ''REFUSAL_DECLARATION_MISSING''
         ''supported declaration must carry parameters and no condition'')
     else if dc_state d = ''conditional'' \<and> (dc_condition d = None \<or> dc_parameters d = None) then
       Some (refuse c ''REFUSAL_DECLARATION_MISSING''
         ''conditional declaration must carry a condition and parameters'')
     else None)"

section \<open>Matching\<close>

text \<open>The condition's verdict as a refusal, or nothing when it is verified.\<close>

definition condition_refusal ::
  "string \<Rightarrow> sandbox_declaration \<Rightarrow> (string \<Rightarrow> fact option) \<Rightarrow> match_context \<Rightarrow> refusal option" where
  "condition_refusal c d by_key ctx =
    (if dc_state d \<noteq> ''conditional'' then None
     else (let verdict = evaluate_condition (dc_condition d) by_key ctx in
       if verdict \<notin> set [''verified'', ''failed'', ''unknown''] then
         Some (refuse c verdict ''condition evidence failed closure'')
       else if verdict \<noteq> ''verified'' then
         Some (refuse c ''REFUSAL_CONDITION_UNSATISFIED'' verdict)
       else None))"

text \<open>
  \<open>rule.covers(demand.parameters, declaration.parameters)\<close> reads \<open>.targets\<close> of the declared
  parameters: \<open>AttributeError\<close> on \<open>None\<close>.
\<close>

definition match_demand ::
  "requirement \<Rightarrow> grant list \<Rightarrow> declaration_document \<Rightarrow> (string \<Rightarrow> fact option) \<Rightarrow> match_context \<Rightarrow>
     exn + verdict" where
  "match_demand demand grants doc by_key ctx =
    (let c = rq_capability demand in
     case registered_rule c of
       None \<Rightarrow> Inr (Refused (refuse c ''REFUSAL_UNKNOWN_CAPABILITY''
         (''capability id '' @ py_repr c @ '' is not registered'')))
     | Some rule \<Rightarrow>
     (case authorization_refusal demand grants rule ctx of
       Some r \<Rightarrow> Inr (Refused r)
     | None \<Rightarrow>
     (case find_declaration demand doc of
       Inl r \<Rightarrow> Inr (Refused r)
     | Inr d \<Rightarrow>
     (case declaration_shape_refusal c d of
       Some r \<Rightarrow> Inr (Refused r)
     | None \<Rightarrow>
     (case condition_refusal c d by_key ctx of
       Some r \<Rightarrow> Inr (Refused r)
     | None \<Rightarrow>
     if dc_evidence d = [] then
       Inr (Refused (refuse c ''REFUSAL_EVIDENCE_ABSENT'' ''matched declaration carries no evidence''))
     else (case evidence_code (dc_evidence d) ctx of
       Some code \<Rightarrow> Inr (Refused (refuse c code ''matched declaration evidence failed closure''))
     | None \<Rightarrow>
     (case dc_parameters d of
       None \<Rightarrow> Inl (err AttributeError
         (py_repr ''NoneType'' @ '' object has no attribute '' @ py_repr ''targets''))
     | Some declared \<Rightarrow>
       if \<not> mr_covers rule (rq_parameters demand) declared then
         Inr (Refused (refuse c ''REFUSAL_PARAMETER_NOT_COVERED'' ''declared parameters do not cover the demand''))
       else Inr (Matched \<lparr>mi_capability = c, mi_rule = mr_rule rule\<rparr>))))))))"

fun match_each ::
  "grant list \<Rightarrow> declaration_document \<Rightarrow> (string \<Rightarrow> fact option) \<Rightarrow> match_context \<Rightarrow> requirement list \<Rightarrow>
     exn + matched_item list \<times> refusal list" where
  "match_each grants doc by_key ctx [] = Inr ([], [])"
| "match_each grants doc by_key ctx (q # qs) =
    (case match_demand q grants doc by_key ctx of
       Inl e \<Rightarrow> Inl e
     | Inr v \<Rightarrow>
       (case match_each grants doc by_key ctx qs of
          Inl e \<Rightarrow> Inl e
        | Inr (ms, rs) \<Rightarrow>
            Inr (case v of Matched m \<Rightarrow> (m # ms, rs) | Refused r \<Rightarrow> (ms, r # rs))))"

definition match_requirements ::
  "requirement list \<Rightarrow> grant list \<Rightarrow> declaration_document \<Rightarrow> fact list \<Rightarrow> match_context \<Rightarrow>
     exn + match_outcome" where
  "match_requirements qs grants doc facts ctx =
    (if doc_binding doc \<noteq> mc_binding ctx then
       Inr \<lparr>mo_satisfied = False, mo_matches = [], mo_refusals =
         [\<lparr>rf_capability = None, rf_reason = ''REFUSAL_ENVIRONMENT_MISMATCH'',
           rf_detail = ''document binding '' @ py_repr (doc_binding doc) @ '' != context binding ''
             @ py_repr (mc_binding ctx)\<rparr>]\<rparr>
     else (case match_each grants doc (facts_by_key facts) ctx qs of
         Inl e \<Rightarrow> Inl e
       | Inr (ms, rs) \<Rightarrow>
           Inr \<lparr>mo_satisfied = (rs = [] \<and> length ms = length qs), mo_matches = ms, mo_refusals = rs\<rparr>))"

end
