(* ===== verification/Capability_Spec.thy ===== *)
theory Capability_Spec
  imports Capability_Match
begin

text \<open>
  What the matcher decides, stated without the order of its checks: \<open>demand_met\<close> says that a
  demand has a registered rule, an applicable grant, exactly one usable declaration and
  declared parameters that cover it. \<open>match_demand_matched\<close> and
  \<open>match_requirements_satisfied\<close> prove the matcher equivalent to that specification. The locale
  \<open>coverage_order\<close> is the contract of a rule's \<open>covers\<close> function.
\<close>

section \<open>Evidence\<close>

definition evidence_valid :: "match_context \<Rightarrow> evidence \<Rightarrow> bool" where
  "evidence_valid ctx e \<longleftrightarrow>
     (case ev_expires e of None \<Rightarrow> True | Some x \<Rightarrow> mc_now ctx \<le> x) \<and>
     (case ev_binding e of None \<Rightarrow> True | Some b \<Rightarrow> b = mc_binding ctx)"

lemma evidence_code_None: "evidence_code es ctx = None \<longleftrightarrow> list_all (evidence_valid ctx) es"
  by (induction es) (auto simp: evidence_valid_def split: option.splits)

lemma evidence_code_Some:
  "evidence_code es ctx = Some c \<Longrightarrow> c = ''REFUSAL_EVIDENCE_STALE'' \<or> c = ''REFUSAL_ENVIRONMENT_MISMATCH''"
  by (induction es) (auto split: if_splits)

definition closed_fact :: "match_context \<Rightarrow> fact \<Rightarrow> bool" where
  "closed_fact ctx f \<longleftrightarrow> ft_evidence f \<noteq> [] \<and> list_all (evidence_valid ctx) (ft_evidence f)"

lemma facts_closure_None:
  "facts_closure by_key ctx kvs = None \<longleftrightarrow>
     (\<forall>(k, v) \<in> set kvs. case by_key k of None \<Rightarrow> True | Some f \<Rightarrow> closed_fact ctx f)"
  by (induction by_key ctx kvs rule: facts_closure.induct)
    (auto simp: closed_fact_def simp flip: evidence_code_None split: option.splits)

lemma facts_closure_Some:
  "facts_closure by_key ctx kvs = Some c \<Longrightarrow>
     c \<in> {''REFUSAL_EVIDENCE_ABSENT'', ''REFUSAL_EVIDENCE_STALE'', ''REFUSAL_ENVIRONMENT_MISMATCH''}"
  by (induction by_key ctx kvs rule: facts_closure.induct)
    (auto split: option.splits if_splits dest: evidence_code_Some)

section \<open>Conditions\<close>

definition condition_holds :: "condition \<Rightarrow> (string \<Rightarrow> fact option) \<Rightarrow> match_context \<Rightarrow> bool" where
  "condition_holds cn by_key ctx \<longleftrightarrow>
     cn_facts cn \<noteq> [] \<and> cn_evidence cn \<noteq> [] \<and> list_all (evidence_valid ctx) (cn_evidence cn) \<and>
     (\<forall>(k, v) \<in> set (cn_facts cn). \<exists>f. by_key k = Some f \<and> ft_value f = Some v \<and> closed_fact ctx f)"

lemma evaluate_condition_verified:
  "evaluate_condition c by_key ctx = ''verified'' \<longleftrightarrow>
     (\<exists>cn. c = Some cn \<and> condition_holds cn by_key ctx)"
proof (cases c)
  case None
  then show ?thesis by (simp add: evaluate_condition_def)
next
  case (Some cn)
  show ?thesis
  proof (cases "cn_facts cn = [] \<or> cn_evidence cn = []")
    case True
    then show ?thesis by (auto simp: Some evaluate_condition_def condition_holds_def)
  next
    case False
    show ?thesis
    proof (cases "evidence_code (cn_evidence cn) ctx")
      case (Some code)
      then have "\<not> list_all (evidence_valid ctx) (cn_evidence cn)"
        using evidence_code_None [of "cn_evidence cn" ctx] by simp
      with Some False \<open>c = Some cn\<close> evidence_code_Some [OF Some] show ?thesis
        by (auto simp: evaluate_condition_def condition_holds_def)
    next
      case None
      show ?thesis
      proof (cases "facts_closure by_key ctx (cn_facts cn)")
        case (Some code)
        then have "\<not> (\<forall>(k, v) \<in> set (cn_facts cn). case by_key k of None \<Rightarrow> True | Some f \<Rightarrow> closed_fact ctx f)"
          by (simp flip: facts_closure_None)
        then have "\<not> condition_holds cn by_key ctx"
          by (fastforce simp: condition_holds_def split: option.splits)
        with Some None False \<open>c = Some cn\<close> facts_closure_Some [OF Some] show ?thesis
          by (auto simp: evaluate_condition_def)
      next
        case None': None
        then have closed: "\<And>k v f. (k, v) \<in> set (cn_facts cn) \<Longrightarrow> by_key k = Some f \<Longrightarrow> closed_fact ctx f"
          by (fastforce simp: facts_closure_None)
        have "condition_holds cn by_key ctx \<longleftrightarrow>
            (\<forall>(k, v) \<in> set (cn_facts cn). fact_value by_key k = Some v)"
          using False None closed
          by (fastforce simp: condition_holds_def evidence_code_None fact_value_def split: option.splits)
        moreover have "evaluate_condition c by_key ctx = ''verified'' \<longleftrightarrow>
            (\<forall>(k, v) \<in> set (cn_facts cn). fact_value by_key k = Some v)"
        proof -
          have "(\<forall>(k, v) \<in> set (cn_facts cn). fact_value by_key k = Some v) \<longleftrightarrow>
              \<not> (\<exists>(k, expected) \<in> set (cn_facts cn).
                  (case fact_value by_key k of None \<Rightarrow> False | Some v \<Rightarrow> v \<noteq> expected)) \<and>
              \<not> (\<exists>(k, expected) \<in> set (cn_facts cn). fact_value by_key k = None)"
            by (fastforce split: option.splits)
          with False None None' \<open>c = Some cn\<close> show ?thesis
            by (simp add: evaluate_condition_def)
        qed
        ultimately show ?thesis using \<open>c = Some cn\<close> by simp
      qed
    qed
  qed
qed

section \<open>Authorisation\<close>

definition authorised :: "requirement \<Rightarrow> grant list \<Rightarrow> match_rule \<Rightarrow> match_context \<Rightarrow> bool" where
  "authorised q grants rule ctx \<longleftrightarrow>
     (\<exists>g \<in> set grants. gr_capability g = rq_capability q \<and> gr_provenance g = ''locked-policy'' \<and>
        mr_covers rule (rq_parameters q) (gr_parameters g) \<and> evidence_valid ctx (gr_source g))"

lemma first_grant_code_None:
  "first_grant_code rule p ctx code gs = None \<longleftrightarrow>
     (\<exists>g \<in> set gs. mr_covers rule p (gr_parameters g) \<and> evidence_valid ctx (gr_source g))"
proof (induction rule p ctx code gs rule: first_grant_code.induct)
  case (1 rule demand ctx code)
  then show ?case by simp
next
  case (2 rule demand ctx code g gs)
  have "evidence_code [gr_source g] ctx = None \<longleftrightarrow> evidence_valid ctx (gr_source g)"
    using evidence_code_None [of "[gr_source g]" ctx] by (simp del: evidence_code.simps)
  with 2 show ?case by (auto simp del: evidence_code.simps split: option.splits)
qed

lemma authorization_refusal_None:
  "authorization_refusal q grants rule ctx = None \<longleftrightarrow> authorised q grants rule ctx"
proof -
  have "authorised q grants rule ctx \<longleftrightarrow>
      first_grant_code rule (rq_parameters q) ctx None (applicable_grants q grants) = None"
    by (auto simp: first_grant_code_None authorised_def applicable_grants_def)
  then show ?thesis
    by (auto simp: authorization_refusal_def Let_def split: option.splits)
qed

section \<open>A demand met\<close>

definition usable :: "sandbox_declaration \<Rightarrow> (string \<Rightarrow> fact option) \<Rightarrow> match_context \<Rightarrow> bool" where
  "usable d by_key ctx \<longleftrightarrow>
     (dc_state d = ''supported'' \<and> dc_condition d = None \<or>
      dc_state d = ''conditional'' \<and> (\<exists>cn. dc_condition d = Some cn \<and> condition_holds cn by_key ctx)) \<and>
     dc_evidence d \<noteq> [] \<and> list_all (evidence_valid ctx) (dc_evidence d)"

definition demand_met ::
  "requirement \<Rightarrow> grant list \<Rightarrow> declaration_document \<Rightarrow> (string \<Rightarrow> fact option) \<Rightarrow> match_context \<Rightarrow> bool" where
  "demand_met q grants doc by_key ctx \<longleftrightarrow>
     (\<exists>rule d declared. registered_rule (rq_capability q) = Some rule \<and> authorised q grants rule ctx \<and>
        filter (\<lambda>d. dc_capability d = rq_capability q) (doc_declarations doc) = [d] \<and>
        usable d by_key ctx \<and> dc_parameters d = Some declared \<and>
        mr_covers rule (rq_parameters q) declared)"

lemma find_declaration_Inr:
  "find_declaration q doc = Inr d \<longleftrightarrow>
     filter (\<lambda>d. dc_capability d = rq_capability q) (doc_declarations doc) = [d] \<and>
     dc_state d \<in> {''supported'', ''conditional''}"
  by (auto simp: find_declaration_def Let_def split: list.splits if_splits)

lemma shape_None:
  "dc_state d \<in> {''supported'', ''conditional''} \<Longrightarrow>
   declaration_shape_refusal c d = None \<longleftrightarrow>
     dc_parameters d \<noteq> None \<and> (dc_state d = ''supported'' \<longleftrightarrow> dc_condition d = None)"
  by (auto simp: declaration_shape_refusal_def)

lemma condition_refusal_None:
  "condition_refusal c d by_key ctx = None \<longleftrightarrow>
     dc_state d \<noteq> ''conditional'' \<or> (\<exists>cn. dc_condition d = Some cn \<and> condition_holds cn by_key ctx)"
  by (auto simp: condition_refusal_def Let_def simp flip: evaluate_condition_verified)

lemma usable_iff:
  assumes "dc_state d \<in> {''supported'', ''conditional''}" "dc_parameters d = Some p"
  shows "usable d by_key ctx \<longleftrightarrow>
     declaration_shape_refusal c d = None \<and> condition_refusal c d by_key ctx = None \<and>
     dc_evidence d \<noteq> [] \<and> evidence_code (dc_evidence d) ctx = None"
  using assms
  by (auto simp: usable_def shape_None condition_refusal_None evidence_code_None)

text \<open>The matcher never raises: the parameters are there once the shape check has passed.\<close>

lemma match_demand_total: "\<exists>v. match_demand q grants doc by_key ctx = Inr v"
proof -
  have "dc_parameters d \<noteq> None"
    if "find_declaration q doc = Inr d" "declaration_shape_refusal (rq_capability q) d = None" for d
    using that shape_None [of d] by (auto simp: find_declaration_Inr)
  then show ?thesis
    by (auto simp: match_demand_def Let_def split: option.splits sum.splits)
qed

text \<open>A demand is matched exactly when it is met, whatever the order of the checks.\<close>

lemma match_demand_matched:
  "match_demand q grants doc by_key ctx = Inr (Matched m) \<longleftrightarrow>
     demand_met q grants doc by_key ctx \<and>
     (\<exists>rule. registered_rule (rq_capability q) = Some rule \<and>
        m = \<lparr>mi_capability = rq_capability q, mi_rule = mr_rule rule\<rparr>)"
  (is "?L \<longleftrightarrow> ?R")
proof
  assume ?L
  then obtain rule d p where
    steps: "registered_rule (rq_capability q) = Some rule" "authorization_refusal q grants rule ctx = None"
      "find_declaration q doc = Inr d" "declaration_shape_refusal (rq_capability q) d = None"
      "condition_refusal (rq_capability q) d by_key ctx = None" "dc_evidence d \<noteq> []"
      "evidence_code (dc_evidence d) ctx = None" "dc_parameters d = Some p"
      "mr_covers rule (rq_parameters q) p"
    and m: "m = \<lparr>mi_capability = rq_capability q, mi_rule = mr_rule rule\<rparr>"
    by (auto simp: match_demand_def Let_def split: option.splits sum.splits if_splits)
  from steps(3) have d: "dc_state d \<in> {''supported'', ''conditional''}"
    and one: "filter (\<lambda>d. dc_capability d = rq_capability q) (doc_declarations doc) = [d]"
    by (simp_all add: find_declaration_Inr)
  have "usable d by_key ctx" using usable_iff [OF d steps(8)] steps(4-7) by blast
  with steps one m show ?R by (auto simp: demand_met_def authorization_refusal_None)
next
  assume R: ?R
  then obtain rule d p where
    met: "registered_rule (rq_capability q) = Some rule" "authorised q grants rule ctx"
      "filter (\<lambda>d. dc_capability d = rq_capability q) (doc_declarations doc) = [d]"
      "usable d by_key ctx" "dc_parameters d = Some p" "mr_covers rule (rq_parameters q) p"
    and m: "m = \<lparr>mi_capability = rq_capability q, mi_rule = mr_rule rule\<rparr>"
    by (auto simp: demand_met_def)
  from met(4) have d: "dc_state d \<in> {''supported'', ''conditional''}" by (auto simp: usable_def)
  with met(3) have "find_declaration q doc = Inr d" by (simp add: find_declaration_Inr)
  moreover have "authorization_refusal q grants rule ctx = None"
    using met(2) by (simp add: authorization_refusal_None)
  moreover have "declaration_shape_refusal (rq_capability q) d = None"
    "condition_refusal (rq_capability q) d by_key ctx = None" "dc_evidence d \<noteq> []"
    "evidence_code (dc_evidence d) ctx = None"
    using usable_iff [OF d met(5), of by_key ctx "rq_capability q"] met(4) by blast+
  ultimately show ?L using met(1,5,6) m
    by (simp add: match_demand_def Let_def)
qed

lemma match_demand_cases:
  obtains (met) m where "match_demand q grants doc by_key ctx = Inr (Matched m)" "demand_met q grants doc by_key ctx"
  | (refused) r where "match_demand q grants doc by_key ctx = Inr (Refused r)" "\<not> demand_met q grants doc by_key ctx"
proof -
  obtain v where v: "match_demand q grants doc by_key ctx = Inr v" using match_demand_total by blast
  show thesis
  proof (cases v)
    case (Matched m)
    with v have "match_demand q grants doc by_key ctx = Inr (Matched m)" by simp
    then show thesis using met match_demand_matched by blast
  next
    case (Refused r)
    have "\<not> demand_met q grants doc by_key ctx"
    proof
      assume dm: "demand_met q grants doc by_key ctx"
      then obtain rule where "registered_rule (rq_capability q) = Some rule" by (auto simp: demand_met_def)
      with dm have "match_demand q grants doc by_key ctx =
          Inr (Matched \<lparr>mi_capability = rq_capability q, mi_rule = mr_rule rule\<rparr>)"
        by (simp add: match_demand_matched)
      with v Refused show False by simp
    qed
    with v Refused refused show thesis by simp
  qed
qed

section \<open>All demands\<close>

lemma match_each_total:
  "\<exists>ms rs. match_each grants doc by_key ctx qs = Inr (ms, rs) \<and> length ms + length rs = length qs \<and>
     (rs = [] \<longleftrightarrow> (\<forall>q \<in> set qs. demand_met q grants doc by_key ctx))"
proof (induction qs)
  case Nil
  then show ?case by simp
next
  case (Cons q qs)
  then obtain ms rs where IH: "match_each grants doc by_key ctx qs = Inr (ms, rs)"
    "length ms + length rs = length qs" "rs = [] \<longleftrightarrow> (\<forall>q \<in> set qs. demand_met q grants doc by_key ctx)"
    by blast
  show ?case
    by (rule match_demand_cases [of q grants doc by_key ctx]) (use IH in auto)
qed

lemma match_requirements_cases:
  obtains (mismatch) "doc_binding doc \<noteq> mc_binding ctx"
      "match_requirements qs grants doc facts ctx = Inr \<lparr>mo_satisfied = False, mo_matches = [], mo_refusals =
         [\<lparr>rf_capability = None, rf_reason = ''REFUSAL_ENVIRONMENT_MISMATCH'',
           rf_detail = ''document binding '' @ py_repr (doc_binding doc) @ '' != context binding ''
             @ py_repr (mc_binding ctx)\<rparr>]\<rparr>"
  | (judged) ms rs where "doc_binding doc = mc_binding ctx"
      "match_requirements qs grants doc facts ctx =
         Inr \<lparr>mo_satisfied = (rs = []), mo_matches = ms, mo_refusals = rs\<rparr>"
      "length ms + length rs = length qs"
      "rs = [] \<longleftrightarrow> (\<forall>q \<in> set qs. demand_met q grants doc (facts_by_key facts) ctx)"
proof (cases "doc_binding doc = mc_binding ctx")
  case False
  then show thesis by (intro mismatch) (simp_all add: match_requirements_def)
next
  case True
  obtain ms rs where each: "match_each grants doc (facts_by_key facts) ctx qs = Inr (ms, rs)"
    and len: "length ms + length rs = length qs"
    and met: "rs = [] \<longleftrightarrow> (\<forall>q \<in> set qs. demand_met q grants doc (facts_by_key facts) ctx)"
    using match_each_total [of grants doc "facts_by_key facts" ctx qs] by blast
  have "(rs = [] \<and> length ms = length qs) = (rs = [])" using len by auto
  with True each have "match_requirements qs grants doc facts ctx =
      Inr \<lparr>mo_satisfied = (rs = []), mo_matches = ms, mo_refusals = rs\<rparr>"
    by (simp add: match_requirements_def)
  with True len met show thesis by (intro judged)
qed

text \<open>The outcome as a value: the matcher is total.\<close>

definition outcome_of ::
  "requirement list \<Rightarrow> grant list \<Rightarrow> declaration_document \<Rightarrow> fact list \<Rightarrow> match_context \<Rightarrow> match_outcome" where
  "outcome_of qs grants doc facts ctx =
    (case match_requirements qs grants doc facts ctx of Inr mo \<Rightarrow> mo | Inl e \<Rightarrow>
       \<lparr>mo_satisfied = False, mo_matches = [], mo_refusals = []\<rparr>)"

lemma match_requirements_outcome:
  "match_requirements qs grants doc facts ctx = Inr (outcome_of qs grants doc facts ctx)"
  by (rule match_requirements_cases [of doc ctx qs grants facts]) (simp_all add: outcome_of_def)

lemma outcome_satisfied_iff:
  "mo_satisfied (outcome_of qs grants doc facts ctx) \<longleftrightarrow>
     doc_binding doc = mc_binding ctx \<and> (\<forall>q \<in> set qs. demand_met q grants doc (facts_by_key facts) ctx)"
  by (rule match_requirements_cases [of doc ctx qs grants facts]) (simp_all add: outcome_of_def)

lemma outcome_refusals:
  "\<not> mo_satisfied (outcome_of qs grants doc facts ctx) \<Longrightarrow>
     mo_refusals (outcome_of qs grants doc facts ctx) \<noteq> []"
  by (rule match_requirements_cases [of doc ctx qs grants facts]) (simp_all add: outcome_of_def)

text \<open>A document meets the demands.\<close>

definition meets ::
  "requirement list \<Rightarrow> grant list \<Rightarrow> fact list \<Rightarrow> match_context \<Rightarrow> declaration_document \<Rightarrow> bool" where
  "meets qs grants facts ctx doc \<longleftrightarrow>
     doc_binding doc = mc_binding ctx \<and> list_all (\<lambda>q. demand_met q grants doc (facts_by_key facts) ctx) qs"

lemma outcome_meets: "mo_satisfied (outcome_of qs grants doc facts ctx) \<longleftrightarrow> meets qs grants facts ctx doc"
  by (simp add: outcome_satisfied_iff meets_def list_all_iff)

section \<open>The contract of a coverage rule\<close>

text \<open>
  What the authorisation argument needs of \<open>covers\<close>: it is reflexive and transitive. Under
  that contract a grant may be replaced by a wider one without losing a demand.
\<close>

locale coverage_order =
  fixes covers :: "parameter_set \<Rightarrow> parameter_set \<Rightarrow> bool"
  assumes covers_refl: "covers p p"
    and covers_trans: "covers p q \<Longrightarrow> covers q r \<Longrightarrow> covers p r"
begin

definition wider :: "grant \<Rightarrow> grant \<Rightarrow> bool" where
  "wider g h \<longleftrightarrow> gr_capability h = gr_capability g \<and> gr_provenance h = gr_provenance g \<and>
     gr_source h = gr_source g \<and> covers (gr_parameters g) (gr_parameters h)"

lemma wider_refl: "wider g g"
  by (simp add: wider_def covers_refl)

lemma authorised_wider:
  assumes "mr_covers rule = covers" "authorised q gs rule ctx"
    and "\<And>g. g \<in> set gs \<Longrightarrow> gr_capability g = rq_capability q \<Longrightarrow> \<exists>h \<in> set hs. wider g h"
  shows "authorised q hs rule ctx"
proof -
  from assms(2) obtain g where g: "g \<in> set gs" "gr_capability g = rq_capability q"
    "gr_provenance g = ''locked-policy''" "covers (rq_parameters q) (gr_parameters g)"
    "evidence_valid ctx (gr_source g)"
    by (auto simp: authorised_def assms(1))
  from assms(3) [OF g(1,2)] obtain h where "h \<in> set hs" "wider g h" by blast
  with g show ?thesis
    by (auto simp: authorised_def assms(1) wider_def intro: covers_trans)
qed

end

interpretation superset_rule: coverage_order targets_superset
  by unfold_locales (auto simp: targets_superset_def)

interpretation equal_rule: coverage_order targets_equal
  by unfold_locales (auto simp: targets_equal_def)

lemma registered_rule_cases:
  assumes "registered_rule c = Some rule"
  obtains (superset) "c \<in> {''filesystem.readonly@1'', ''filesystem.writable@1''}" "mr_covers rule = targets_superset"
  | (equal) "c \<in> {''network.none@1'', ''network.inherit@1''}" "mr_covers rule = targets_equal"
proof -
  from assms have "find (\<lambda>r. mr_capability r = c) rule_registry = Some rule" by (simp add: registered_rule_def)
  then have "mr_capability rule = c" "rule \<in> set rule_registry"
    by (auto simp: find_Some_iff)
  then show thesis using superset equal by (auto simp: rule_registry_def)
qed

end
