(* ===== verification/Capability_Selection.thy ===== *)
theory Capability_Selection
  imports Capability_Spec
begin

text \<open>
  The choice among candidate documents (\<open>extensions/capability/selection.py\<close>): a pin, else
  the incumbent, else the least \<open>(provider, revision)\<close> that satisfies. Candidates are
  identified by value: once duplicate providers are refused, \<open>document is not selected\<close> and
  \<open>document \<noteq> selected\<close> agree. The lemmas compute each loop as a function of the set of
  candidates, from which totality, the exact choice and the independence of the input order
  follow.
\<close>

section \<open>The code\<close>

record selection_record =
  sr_digest :: string
  sr_binding :: string
  sr_selected :: "declaration_document option"
  sr_outcome :: "match_outcome option"
  sr_rejected :: "(string \<times> int \<times> string) list"

definition finish_selection ::
  "string \<Rightarrow> string \<Rightarrow> declaration_document list \<Rightarrow> (string \<Rightarrow> string option) \<Rightarrow>
     (declaration_document \<times> match_outcome) option \<Rightarrow> selection_record" where
  "finish_selection digest binding candidates reasons chosen =
    \<lparr>sr_digest = digest, sr_binding = binding, sr_selected = map_option fst chosen,
     sr_outcome = map_option snd chosen,
     sr_rejected = sort (map (\<lambda>d. (doc_provider d, doc_revision d,
         case reasons (doc_provider d) of None \<Rightarrow> ''SUPERSEDED'' | Some r \<Rightarrow> r))
       (filter (\<lambda>d. map_option fst chosen \<noteq> Some d) candidates))\<rparr>"

text \<open>\<open>reasons.setdefault(document.provider, reason)\<close> for every candidate.\<close>

definition default_reasons ::
  "string \<Rightarrow> declaration_document list \<Rightarrow> (string \<Rightarrow> string option) \<Rightarrow> string \<Rightarrow> string option" where
  "default_reasons reason candidates reasons =
    fold (\<lambda>d rs. case rs (doc_provider d) of None \<Rightarrow> rs(doc_provider d \<mapsto> reason) | Some _ \<Rightarrow> rs)
      candidates reasons"

definition batch_refusal ::
  "string \<Rightarrow> string \<Rightarrow> declaration_document list \<Rightarrow> (string \<Rightarrow> string option) \<Rightarrow> string \<Rightarrow> selection_record" where
  "batch_refusal digest binding candidates reasons reason =
    finish_selection digest binding candidates (default_reasons reason candidates reasons) None"

definition allowed_by :: "string list option \<Rightarrow> declaration_document \<Rightarrow> bool" where
  "allowed_by authorized d = (case authorized of None \<Rightarrow> True | Some ps \<Rightarrow> doc_provider d \<in> set ps)"

definition unauthorised_reasons ::
  "string list option \<Rightarrow> declaration_document list \<Rightarrow> string \<Rightarrow> string option" where
  "unauthorised_reasons authorized candidates =
    fold (\<lambda>d rs. if allowed_by authorized d then rs
                 else rs(doc_provider d \<mapsto> ''REFUSAL_PROVIDER_NOT_AUTHORIZED'')) candidates Map.empty"

text \<open>The loop of a pin or an incumbent: the first document of that provider that satisfies.\<close>

fun pick_provider ::
  "requirement list \<Rightarrow> grant list \<Rightarrow> fact list \<Rightarrow> match_context \<Rightarrow> string \<Rightarrow> declaration_document list \<Rightarrow>
     exn + (declaration_document \<times> match_outcome) option" where
  "pick_provider qs grants facts ctx p [] = Inr None"
| "pick_provider qs grants facts ctx p (d # ds) =
    (if doc_provider d \<noteq> p then pick_provider qs grants facts ctx p ds
     else (case match_requirements qs grants d facts ctx of
         Inl e \<Rightarrow> Inl e
       | Inr mo \<Rightarrow> if mo_satisfied mo then Inr (Some (d, mo)) else pick_provider qs grants facts ctx p ds))"

text \<open>The initial selection: every document is evaluated, the first that satisfies wins.\<close>

fun pick_initial ::
  "requirement list \<Rightarrow> grant list \<Rightarrow> fact list \<Rightarrow> match_context \<Rightarrow>
     (declaration_document \<times> match_outcome) option \<Rightarrow> (string \<Rightarrow> string option) \<Rightarrow>
     declaration_document list \<Rightarrow>
     exn + (declaration_document \<times> match_outcome) option \<times> (string \<Rightarrow> string option)" where
  "pick_initial qs grants facts ctx winner reasons [] = Inr (winner, reasons)"
| "pick_initial qs grants facts ctx winner reasons (d # ds) =
    (case match_requirements qs grants d facts ctx of
       Inl e \<Rightarrow> Inl e
     | Inr mo \<Rightarrow>
         if mo_satisfied mo then
           pick_initial qs grants facts ctx (case winner of None \<Rightarrow> Some (d, mo) | Some w \<Rightarrow> Some w) reasons ds
         else (case mo_refusals mo of
             [] \<Rightarrow> Inl (err (OtherException ''IndexError'') ''tuple index out of range'')
           | r # _ \<Rightarrow> pick_initial qs grants facts ctx winner (reasons(doc_provider d \<mapsto> rf_reason r)) ds))"

definition select_declaration ::
  "(string \<Rightarrow> string) \<Rightarrow> requirement list \<Rightarrow> grant list \<Rightarrow> fact list \<Rightarrow> declaration_document list \<Rightarrow>
     match_context \<Rightarrow> string \<Rightarrow> string option \<Rightarrow> string option \<Rightarrow> string list option \<Rightarrow>
     exn + selection_record" where
  "select_declaration H qs grants facts candidates ctx binding incumbent pinned authorized =
    (let digest = requirement_set_digest H qs in
     if \<not> distinct (map doc_provider candidates) then
       Inr \<lparr>sr_digest = digest, sr_binding = binding, sr_selected = None, sr_outcome = None,
         sr_rejected = sort (map (\<lambda>d. (doc_provider d, doc_revision d, ''REFUSAL_DECLARATION_CONFLICT''))
           candidates)\<rparr>
     else
       let reasons = unauthorised_reasons authorized candidates;
           eligible = filter (allowed_by authorized) candidates;
           stable = sort_key (\<lambda>d. (doc_provider d, doc_revision d)) eligible in
       case pinned of
         Some p \<Rightarrow>
           (case pick_provider qs grants facts ctx p stable of
              Inl e \<Rightarrow> Inl e
            | Inr (Some c) \<Rightarrow> Inr (finish_selection digest binding candidates reasons (Some c))
            | Inr None \<Rightarrow> Inr (batch_refusal digest binding candidates reasons ''REFUSAL_PIN_NOT_MATCHED''))
       | None \<Rightarrow>
           (case incumbent of
              Some p \<Rightarrow>
                (case pick_provider qs grants facts ctx p stable of
                   Inl e \<Rightarrow> Inl e
                 | Inr (Some c) \<Rightarrow> Inr (finish_selection digest binding candidates reasons (Some c))
                 | Inr None \<Rightarrow> Inr (batch_refusal digest binding candidates reasons ''INCUMBENT_NOT_MATCHED''))
            | None \<Rightarrow>
                (case pick_initial qs grants facts ctx None reasons stable of
                   Inl e \<Rightarrow> Inl e
                 | Inr (c, rs) \<Rightarrow> Inr (finish_selection digest binding candidates rs c))))"

section \<open>The loops as functions of the candidates\<close>

abbreviation satisfies ::
  "requirement list \<Rightarrow> grant list \<Rightarrow> fact list \<Rightarrow> match_context \<Rightarrow> declaration_document \<Rightarrow> bool" where
  "satisfies qs grants facts ctx d \<equiv> mo_satisfied (outcome_of qs grants d facts ctx)"

lemma fold_default:
  "fold (\<lambda>d rs. case rs (k d) of None \<Rightarrow> rs(k d \<mapsto> v) | Some _ \<Rightarrow> rs) ds m =
     (\<lambda>p. case m p of Some x \<Rightarrow> Some x | None \<Rightarrow> if p \<in> k ` set ds then Some v else None)"
  by (induction ds arbitrary: m) (auto simp: fun_eq_iff split: option.splits)

lemma fold_unless:
  "fold (\<lambda>d rs. if P d then rs else rs(k d \<mapsto> v)) ds m =
     (\<lambda>p. if \<exists>d \<in> set ds. \<not> P d \<and> k d = p then Some v else m p)"
  by (induction ds arbitrary: m) (auto simp: fun_eq_iff)

lemma pick_provider_find:
  "pick_provider qs grants facts ctx p ds =
     Inr (map_option (\<lambda>d. (d, outcome_of qs grants d facts ctx))
       (find (\<lambda>d. doc_provider d = p \<and> satisfies qs grants facts ctx d) ds))"
  by (induction ds) (auto simp: match_requirements_outcome)

definition refusal_reason ::
  "requirement list \<Rightarrow> grant list \<Rightarrow> fact list \<Rightarrow> match_context \<Rightarrow> declaration_document \<Rightarrow> string" where
  "refusal_reason qs grants facts ctx d = rf_reason (hd (mo_refusals (outcome_of qs grants d facts ctx)))"

lemma pick_initial_find:
  "pick_initial qs grants facts ctx winner reasons ds =
     Inr (case winner of Some w \<Rightarrow> Some w
          | None \<Rightarrow> map_option (\<lambda>d. (d, outcome_of qs grants d facts ctx)) (find (satisfies qs grants facts ctx) ds),
        fold (\<lambda>d rs. if satisfies qs grants facts ctx d then rs
                     else rs(doc_provider d \<mapsto> refusal_reason qs grants facts ctx d)) ds reasons)"
proof (induction ds arbitrary: winner reasons)
  case Nil
  then show ?case by (simp split: option.splits)
next
  case (Cons d ds)
  show ?case
  proof (cases "satisfies qs grants facts ctx d")
    case True
    with Cons show ?thesis by (simp add: match_requirements_outcome split: option.splits)
  next
    case False
    from outcome_refusals [OF False] obtain r rs where
      "mo_refusals (outcome_of qs grants d facts ctx) = r # rs" by (cases "mo_refusals (outcome_of qs grants d facts ctx)") auto
    with False show ?thesis
      by (simp add: match_requirements_outcome refusal_reason_def Cons.IH del: fun_upd_apply split: option.splits)
  qed
qed

text \<open>The order of the candidates does not reach the sorted list.\<close>

lemma provider_key_inj:
  "distinct (map doc_provider ds) \<Longrightarrow> inj_on (\<lambda>d. (doc_provider d, doc_revision d)) (set ds)"
  by (auto simp: distinct_map inj_on_def)

lemma stable_mset:
  assumes "distinct (map doc_provider ds)" "mset ds = mset es"
  shows "sort_key (\<lambda>d. (doc_provider d, doc_revision d)) (filter P ds)
       = sort_key (\<lambda>d. (doc_provider d, doc_revision d)) (filter P es)"
proof (rule sort_key_inj_key_eq)
  show "mset (filter P ds) = mset (sort_key (\<lambda>d. (doc_provider d, doc_revision d)) (filter P es))"
    using assms(2) by simp
  show "inj_on (\<lambda>d. (doc_provider d, doc_revision d)) (set (filter P ds))"
    using provider_key_inj [OF assms(1)] by (rule inj_on_subset) auto
qed simp

lemma sort_mset_eq: "mset xs = mset ys \<Longrightarrow> sort xs = sort ys"
  by (metis mset_sort properties_for_sort sorted_sort)

lemma finish_selection_mset:
  assumes "mset ds = mset es"
  shows "finish_selection g b ds rs c = finish_selection g b es rs c"
  unfolding finish_selection_def using assms
  by (simp add: sort_mset_eq)

lemma default_reasons_set:
  "set ds = set es \<Longrightarrow> default_reasons r ds m = default_reasons r es m"
  unfolding default_reasons_def fold_default by (simp only:)

lemma unauthorised_reasons_eq:
  "unauthorised_reasons au ds = (\<lambda>p. if \<exists>d \<in> set ds. \<not> allowed_by au d \<and> doc_provider d = p
     then Some ''REFUSAL_PROVIDER_NOT_AUTHORIZED'' else None)"
  unfolding unauthorised_reasons_def fold_unless by simp

text \<open>The documents a selection may fall on, and the ranking among them.\<close>

definition eligible_for ::
  "string option \<Rightarrow> string option \<Rightarrow> string list option \<Rightarrow> declaration_document \<Rightarrow> bool" where
  "eligible_for incumbent pinned authorized d \<longleftrightarrow>
     allowed_by authorized d \<and>
     (case pinned of Some p \<Rightarrow> doc_provider d = p
      | None \<Rightarrow> (case incumbent of Some p \<Rightarrow> doc_provider d = p | None \<Rightarrow> True))"

text \<open>The chosen document, by one search of the sorted candidates.\<close>

lemma select_chosen:
  assumes "distinct (map doc_provider candidates)"
  shows "\<exists>rs. select_declaration H qs grants facts candidates ctx binding incumbent pinned authorized =
    Inr (finish_selection (requirement_set_digest H qs) binding candidates rs
      (map_option (\<lambda>d. (d, outcome_of qs grants d facts ctx))
        (find (\<lambda>d. eligible_for incumbent pinned authorized d \<and> satisfies qs grants facts ctx d)
          (sort_key (\<lambda>d. (doc_provider d, doc_revision d)) (filter (allowed_by authorized) candidates)))))
    \<and> (\<forall>d \<in> set candidates. \<not> allowed_by authorized d \<longrightarrow> rs (doc_provider d) = Some ''REFUSAL_PROVIDER_NOT_AUTHORIZED'')"
proof -
  let ?st = "sort_key (\<lambda>d. (doc_provider d, doc_revision d)) (filter (allowed_by authorized) candidates)"
  let ?un = "unauthorised_reasons authorized candidates"
  have search: "find (\<lambda>d. eligible_for incumbent pinned authorized d \<and> satisfies qs grants facts ctx d) ?st
      = find (\<lambda>d. (case pinned of Some p \<Rightarrow> doc_provider d = p
      | None \<Rightarrow> (case incumbent of Some p \<Rightarrow> doc_provider d = p | None \<Rightarrow> True)) \<and> satisfies qs grants facts ctx d) ?st"
    by (rule find_cong) (auto simp: eligible_for_def)
  have un: "\<forall>d \<in> set candidates. \<not> allowed_by authorized d \<longrightarrow> ?un (doc_provider d) = Some ''REFUSAL_PROVIDER_NOT_AUTHORIZED''"
    by (auto simp: unauthorised_reasons_eq)
  then have un': "\<forall>d \<in> set candidates. \<not> allowed_by authorized d \<longrightarrow>
      default_reasons r candidates ?un (doc_provider d) = Some ''REFUSAL_PROVIDER_NOT_AUTHORIZED''" for r
    unfolding default_reasons_def fold_default by auto
  consider (pin) p where "pinned = Some p" | (inc) p where "pinned = None" "incumbent = Some p"
    | (free) "pinned = None" "incumbent = None"
    by (cases pinned; cases incumbent) auto
  then show ?thesis
  proof cases
    case pin
    then show ?thesis
      using assms un un' unfolding search
      by (cases "find (\<lambda>d. doc_provider d = p \<and> satisfies qs grants facts ctx d) ?st")
        (auto simp: select_declaration_def Let_def pick_provider_find batch_refusal_def)
  next
    case inc
    then show ?thesis
      using assms un un' unfolding search
      by (cases "find (\<lambda>d. doc_provider d = p \<and> satisfies qs grants facts ctx d) ?st")
        (auto simp: select_declaration_def Let_def pick_provider_find batch_refusal_def)
  next
    case free
    let ?rs = "fold (\<lambda>d rs. if satisfies qs grants facts ctx d then rs
        else rs(doc_provider d \<mapsto> refusal_reason qs grants facts ctx d)) ?st ?un"
    have keep: "fold (\<lambda>d rs. if satisfies qs grants facts ctx d then rs
        else rs(doc_provider d \<mapsto> refusal_reason qs grants facts ctx d)) ds m q = m q"
      if "\<forall>d \<in> set ds. doc_provider d \<noteq> q" for ds m q
      using that by (induction ds arbitrary: m) auto
    have "?rs (doc_provider d) = Some ''REFUSAL_PROVIDER_NOT_AUTHORIZED''"
      if d: "d \<in> set candidates" "\<not> allowed_by authorized d" for d
    proof -
      have "\<forall>e \<in> set ?st. doc_provider e \<noteq> doc_provider d"
        using assms d by (auto simp: distinct_map inj_on_def)
      from keep [OF this] un d show ?thesis by simp
    qed
    with free assms search show ?thesis
      by (intro exI [of _ ?rs]) (simp add: select_declaration_def Let_def pick_initial_find)
  qed
qed

lemma find_sort_key:
  assumes "inj_on k (set ds)"
  shows "find P (sort_key k ds) = Some d \<longleftrightarrow>
     d \<in> set ds \<and> P d \<and> (\<forall>e \<in> set ds. P e \<longrightarrow> k d \<le> k e)"
proof
  assume "find P (sort_key k ds) = Some d"
  then obtain i where i: "i < length ds" "P (sort_key k ds ! i)" "d = sort_key k ds ! i"
    "\<forall>j<i. \<not> P (sort_key k ds ! j)" by (auto simp: find_Some_iff)
  have "k d \<le> k e" if e: "e \<in> set ds" "P e" for e
  proof -
    from e(1) obtain j where j: "j < length ds" "e = sort_key k ds ! j"
      by (metis in_set_conv_nth length_sort set_sort)
    with e(2) i(4) have "i \<le> j" by (meson not_less)
    with sorted_sort_key [of k ds] j i show ?thesis
      by (simp add: sorted_iff_nth_mono)
  qed
  with i show "d \<in> set ds \<and> P d \<and> (\<forall>e \<in> set ds. P e \<longrightarrow> k d \<le> k e)"
    by (metis length_sort nth_mem set_sort)
next
  assume d: "d \<in> set ds \<and> P d \<and> (\<forall>e \<in> set ds. P e \<longrightarrow> k d \<le> k e)"
  then have "find P (sort_key k ds) \<noteq> None" by (auto simp: find_None_iff)
  then obtain e where e: "find P (sort_key k ds) = Some e" by auto
  then obtain i where i: "i < length ds" "e = sort_key k ds ! i" "P e"
    "\<forall>j<i. \<not> P (sort_key k ds ! j)" by (auto simp: find_Some_iff)
  from d obtain j where j: "j < length ds" "d = sort_key k ds ! j"
    by (metis in_set_conv_nth length_sort set_sort)
  with d i(4) have "i \<le> j" by (meson not_less)
  with sorted_sort_key [of k ds] j i have "k e \<le> k d" by (simp add: sorted_iff_nth_mono)
  moreover have "e \<in> set ds" using i by (metis length_sort nth_mem set_sort)
  ultimately have "k e = k d" using d i(3) by (simp add: antisym)
  with assms d \<open>e \<in> set ds\<close> have "e = d" by (auto simp: inj_on_def)
  with e show "find P (sort_key k ds) = Some d" by simp
qed

end
