(* ===== verification/Capability_Claims.thy ===== *)
theory Capability_Claims
  imports Capability_Selection
begin

text \<open>
  The properties of the capability contract, with the concrete documents on which their
  witnesses are evaluated.
\<close>

section \<open>Concrete documents\<close>

definition demo_evidence :: evidence where
  "demo_evidence = \<lparr>ev_kind = ''probe'', ev_locator = ''host'', ev_binding = Some ''env-1'',
     ev_observed = Some 10, ev_expires = Some 20\<rparr>"

definition demo_context :: match_context where
  "demo_context = \<lparr>mc_binding = ''env-1'', mc_now = 20\<rparr>"

definition demo_demand :: requirement where
  "demo_demand = readonly_demand (''executable_targets'', ''/bin'')"

definition demo_grant :: grant where
  "demo_grant = readonly_grant (''executable_targets'', ''/bin'')"

definition demo_wide_grant :: grant where
  "demo_wide_grant = demo_grant\<lparr>gr_parameters := mk_parameters [''/opt'', ''/bin'']\<rparr>"

definition demo_condition :: condition where
  "demo_condition = mk_condition ''kernel'' [(''landlock'', ''yes'')] [demo_evidence]"

definition demo_fact :: fact where
  "demo_fact = \<lparr>ft_key = ''landlock'', ft_value = Some ''yes'', ft_evidence = [demo_evidence]\<rparr>"

definition demo_document :: "string \<Rightarrow> declaration_document" where
  "demo_document p = \<lparr>doc_provider = p, doc_revision = 1, doc_binding = ''env-1'',
     doc_declarations = [\<lparr>dc_capability = ''filesystem.readonly@1'', dc_state = ''conditional'',
       dc_condition = Some demo_condition, dc_parameters = Some (mk_parameters [''/bin'', ''/usr'']),
       dc_evidence = [demo_evidence], dc_provider = p\<rparr>],
     doc_digest = ''d''\<rparr>"

lemmas demo_capability = demo_evidence_def demo_context_def demo_demand_def demo_grant_def
  demo_wide_grant_def demo_condition_def demo_fact_def demo_document_def readonly_demand_def
  readonly_grant_def config_key_evidence_def mk_parameters_def mk_condition_def

lemma demo_met: "grants \<in> {[demo_grant], [demo_wide_grant]} \<Longrightarrow>
    demand_met demo_demand grants (demo_document p) (facts_by_key [demo_fact]) demo_context"
  by (auto simp: demand_met_def demo_capability registered_rule_def rule_registry_def authorised_def
      targets_superset_def evidence_valid_def usable_def condition_holds_def facts_by_key_def closed_fact_def)

lemma demo_meets: "grants \<in> {[demo_grant], [demo_wide_grant]} \<Longrightarrow>
    meets [demo_demand] grants [demo_fact] demo_context (demo_document p)"
  using demo_met by (simp add: meets_def demo_document_def demo_context_def)

section \<open>Matching\<close>

text \<open>
  C20: The matcher refines its specification. For all demands, grants, documents and facts it
  returns an outcome (it never raises); the outcome has one entry, match or refusal, per
  demand when the document belongs to this execution, and it is satisfied exactly when the
  document is bound to the execution's environment and every demand has a registered rule, a
  locked-policy grant that covers it with valid evidence, exactly one declaration that is
  usable (supported, or conditional with its condition verified by known, evidenced facts)
  and declared parameters that cover it. The order of the checks does not matter.
\<close>

theorem match_refines_spec:
  "\<exists>mo. match_requirements qs grants doc facts ctx = Inr mo \<and>
     (mo_satisfied mo \<longleftrightarrow> meets qs grants facts ctx doc) \<and>
     length (mo_matches mo) + length (mo_refusals mo)
       = (if doc_binding doc = mc_binding ctx then length qs else 1)"
proof -
  let ?mo = "outcome_of qs grants doc facts ctx"
  have "length (mo_matches ?mo) + length (mo_refusals ?mo)
      = (if doc_binding doc = mc_binding ctx then length qs else 1)"
    by (rule match_requirements_cases [of doc ctx qs grants facts]) (simp_all add: outcome_of_def)
  then show ?thesis by (simp add: match_requirements_outcome outcome_meets)
qed

text \<open>
  Widening the authorisation never loses a match: when every grant has a counterpart of
  the same capability, provenance and evidence whose targets include its own (for the
  network rules: are the same), an outcome that was satisfied stays satisfied.
\<close>

lemma wider_grants_keep_match:
  assumes "match_requirements qs grants doc facts ctx = Inr mo" "mo_satisfied mo"
    and "match_requirements qs grants' doc facts ctx = Inr mo'"
    and "\<forall>g \<in> set grants. \<forall>rule. registered_rule (gr_capability g) = Some rule \<longrightarrow>
      (\<exists>h \<in> set grants'. gr_capability h = gr_capability g \<and> gr_provenance h = gr_provenance g \<and>
         gr_source h = gr_source g \<and> mr_covers rule (gr_parameters g) (gr_parameters h))"
  shows "mo_satisfied mo'"
proof -
  have sat: "mo_satisfied mo = meets qs grants facts ctx doc" "mo_satisfied mo' = meets qs grants' facts ctx doc"
    using assms(1,3) by (auto simp: match_requirements_outcome simp flip: outcome_meets)
  have "authorised q grants' rule ctx" if "registered_rule (rq_capability q) = Some rule"
    "authorised q grants rule ctx" for q rule
    using that(1)
  proof (cases rule: registered_rule_cases)
    case superset
    show ?thesis
      by (rule superset_rule.authorised_wider [OF superset(2) that(2)])
        (use assms(4) that(1) superset(2) in \<open>fastforce simp: superset_rule.wider_def\<close>)
  next
    case equal
    show ?thesis
      by (rule equal_rule.authorised_wider [OF equal(2) that(2)])
        (use assms(4) that(1) equal(2) in \<open>fastforce simp: equal_rule.wider_def\<close>)
  qed
  then have "demand_met q grants' doc k ctx" if "demand_met q grants doc k ctx" for q k
    using that unfolding demand_met_def by blast
  with sat assms(2) show ?thesis by (auto simp: meets_def list_all_iff)
qed

lemma wider_grants_keep_match_witness:
  "\<exists>mo'. match_requirements [demo_demand] [demo_wide_grant] (demo_document ''bwrap'') [demo_fact] demo_context
     = Inr mo' \<and> mo_satisfied mo'"
proof -
  obtain mo where mo: "match_requirements [demo_demand] [demo_grant] (demo_document ''bwrap'') [demo_fact] demo_context
      = Inr mo" "mo_satisfied mo"
    using match_refines_spec [of "[demo_demand]" "[demo_grant]"] demo_meets by blast
  obtain mo' where mo': "match_requirements [demo_demand] [demo_wide_grant] (demo_document ''bwrap'') [demo_fact]
      demo_context = Inr mo'" using match_refines_spec by blast
  have "\<forall>g \<in> set [demo_grant]. \<forall>rule. registered_rule (gr_capability g) = Some rule \<longrightarrow>
      (\<exists>h \<in> set [demo_wide_grant]. gr_capability h = gr_capability g \<and> gr_provenance h = gr_provenance g \<and>
         gr_source h = gr_source g \<and> mr_covers rule (gr_parameters g) (gr_parameters h))"
    by (simp add: registered_rule_def rule_registry_def demo_capability targets_superset_def)
  from wider_grants_keep_match [OF mo mo' this] mo' show ?thesis by blast
qed

section \<open>Selection\<close>

text \<open>
  C29: Selection is total and exact. \<open>select_declaration\<close> never raises, and the document it
  selects is, when no provider offers two documents, the one candidate that is authorised,
  comes from the pinned provider (else from the incumbent, when there is one), meets the
  demands, and has the least \<open>(provider, revision)\<close> among such candidates; when there is
  none, or a provider is duplicated, nothing is selected.
\<close>

theorem selection_exact:
  "\<exists>r. select_declaration H qs grants facts candidates ctx binding incumbent pinned authorized = Inr r \<and>
     (\<forall>d. sr_selected r = Some d \<longleftrightarrow>
        distinct (map doc_provider candidates) \<and>
        d \<in> set candidates \<and> eligible_for incumbent pinned authorized d \<and> meets qs grants facts ctx d \<and>
        (\<forall>e \<in> set candidates. eligible_for incumbent pinned authorized e \<longrightarrow> meets qs grants facts ctx e \<longrightarrow>
           (doc_provider d, doc_revision d) \<le> (doc_provider e, doc_revision e)))"
proof (cases "distinct (map doc_provider candidates)")
  case False
  then show ?thesis by (simp add: select_declaration_def Let_def)
next
  case True
  let ?k = "\<lambda>d. (doc_provider d, doc_revision d)"
  have inj: "inj_on ?k (set (filter (allowed_by authorized) candidates))"
    using provider_key_inj [OF True] by (rule inj_on_subset) auto
  from select_chosen [OF True] obtain rs where
    sel: "select_declaration H qs grants facts candidates ctx binding incumbent pinned authorized =
      Inr (finish_selection (requirement_set_digest H qs) binding candidates rs
        (map_option (\<lambda>d. (d, outcome_of qs grants d facts ctx))
          (find (\<lambda>d. eligible_for incumbent pinned authorized d \<and> satisfies qs grants facts ctx d)
            (sort_key ?k (filter (allowed_by authorized) candidates)))))"
    by blast
  show ?thesis
    unfolding sel using True find_sort_key [OF inj]
    by (auto simp: finish_selection_def option.map_comp comp_def option.map_ident outcome_meets eligible_for_def)
qed

theorem selection_exact_witness:
  "\<exists>r. select_declaration (\<lambda>s. s) [demo_demand] [demo_grant] [demo_fact]
      [demo_document ''zeta'', demo_document ''bwrap''] demo_context ''b'' None None None = Inr r \<and>
     sr_selected r = Some (demo_document ''bwrap'')"
proof -
  obtain r where r: "select_declaration (\<lambda>s. s) [demo_demand] [demo_grant] [demo_fact]
      [demo_document ''zeta'', demo_document ''bwrap''] demo_context ''b'' None None None = Inr r"
    and iff: "\<forall>d. sr_selected r = Some d \<longleftrightarrow>
        distinct (map doc_provider [demo_document ''zeta'', demo_document ''bwrap'']) \<and>
        d \<in> set [demo_document ''zeta'', demo_document ''bwrap''] \<and> eligible_for None None None d \<and>
        meets [demo_demand] [demo_grant] [demo_fact] demo_context d \<and>
        (\<forall>e \<in> set [demo_document ''zeta'', demo_document ''bwrap'']. eligible_for None None None e \<longrightarrow>
           meets [demo_demand] [demo_grant] [demo_fact] demo_context e \<longrightarrow>
           (doc_provider d, doc_revision d) \<le> (doc_provider e, doc_revision e))"
    using selection_exact [of "\<lambda>s. s" "[demo_demand]" "[demo_grant]" "[demo_fact]"
        "[demo_document ''zeta'', demo_document ''bwrap'']" demo_context "''b''" None None None] by blast
  have "doc_provider (demo_document p) = p" "doc_revision (demo_document p) = 1" for p
    by (simp_all add: demo_document_def)
  then have "sr_selected r = Some (demo_document ''bwrap'')"
    using iff demo_meets by (simp add: eligible_for_def allowed_by_def less_eq_prod_def less_char_def)
  with r show ?thesis by blast
qed

text \<open>
  C37: The order in which candidates are handed in is irrelevant to the whole record: the
  selected document, the outcome and the list of rejected candidates with their reasons.
\<close>

theorem candidate_order_irrelevant:
  assumes "mset candidates = mset candidates'"
  shows "select_declaration H qs grants facts candidates ctx binding incumbent pinned authorized
       = select_declaration H qs grants facts candidates' ctx binding incumbent pinned authorized"
proof -
  have sets: "set candidates = set candidates'" using assms by (rule mset_eq_setD)
  have dist: "distinct (map doc_provider candidates) = distinct (map doc_provider candidates')"
    using assms by (metis mset_eq_imp_distinct_iff mset_map)
  have un: "unauthorised_reasons authorized candidates = unauthorised_reasons authorized candidates'"
    by (simp add: unauthorised_reasons_eq sets)
  show ?thesis
  proof (cases "distinct (map doc_provider candidates)")
    case False
    with dist assms show ?thesis
      by (simp add: select_declaration_def Let_def sort_mset_eq)
  next
    case True
    with dist stable_mset [OF True assms] un show ?thesis
      unfolding select_declaration_def Let_def batch_refusal_def
      by (simp add: finish_selection_mset [OF assms] default_reasons_set [OF sets] split: option.splits sum.splits)
  qed
qed

theorem candidate_order_irrelevant_witness:
  "select_declaration (\<lambda>s. s) [demo_demand] [demo_grant] [demo_fact]
      [demo_document ''zeta'', demo_document ''bwrap''] demo_context ''b'' None None None
   = select_declaration (\<lambda>s. s) [demo_demand] [demo_grant] [demo_fact]
      [demo_document ''bwrap'', demo_document ''zeta''] demo_context ''b'' None None None"
  by (rule candidate_order_irrelevant) simp

text \<open>
  A later candidate never pre-empts the incumbent. If the incumbent's document is
  selected from some candidates, it is selected from those candidates and any further ones of
  other providers, wherever they would sort.
\<close>

lemma incumbent_not_preempted:
  assumes "select_declaration H qs grants facts candidates ctx binding (Some p) None authorized = Inr r"
    and "sr_selected r = Some d"
    and "select_declaration H qs grants facts (candidates @ others) ctx binding (Some p) None authorized = Inr r'"
    and "distinct (map doc_provider (candidates @ others))"
  shows "doc_provider d = p \<and> sr_selected r' = Some d"
proof -
  note exact = selection_exact [of H qs grants facts _ ctx binding "Some p" None authorized]
  from exact [of candidates] assms(1,2) have d: "d \<in> set candidates" "eligible_for (Some p) None authorized d"
    "meets qs grants facts ctx d" by auto
  then have p: "doc_provider d = p" by (simp add: eligible_for_def)
  have only: "e = d" if "e \<in> set (candidates @ others)" "doc_provider e = p" for e
    using that d(1) p assms(4) by (auto simp: distinct_map dest: inj_onD [of doc_provider _ e d])
  from exact [of "candidates @ others"] assms(3) have
    "sr_selected r' = Some d \<longleftrightarrow> distinct (map doc_provider (candidates @ others)) \<and>
        d \<in> set (candidates @ others) \<and> eligible_for (Some p) None authorized d \<and> meets qs grants facts ctx d \<and>
        (\<forall>e \<in> set (candidates @ others). eligible_for (Some p) None authorized e \<longrightarrow> meets qs grants facts ctx e \<longrightarrow>
           (doc_provider d, doc_revision d) \<le> (doc_provider e, doc_revision e))" by force
  with d p only assms(4) show ?thesis by (auto simp: eligible_for_def)
qed

lemma incumbent_not_preempted_witness:
  "\<exists>r'. select_declaration (\<lambda>s. s) [demo_demand] [demo_grant] [demo_fact]
      ([demo_document ''zeta''] @ [demo_document ''bwrap'']) demo_context ''b'' (Some ''zeta'') None None = Inr r' \<and>
     sr_selected r' = Some (demo_document ''zeta'')"
proof -
  have dp: "doc_provider (demo_document p) = p" for p by (simp add: demo_document_def)
  obtain r where r: "select_declaration (\<lambda>s. s) [demo_demand] [demo_grant] [demo_fact]
      [demo_document ''zeta''] demo_context ''b'' (Some ''zeta'') None None = Inr r"
    and sel: "sr_selected r = Some (demo_document ''zeta'')"
    using selection_exact [of "\<lambda>s. s" "[demo_demand]" "[demo_grant]" "[demo_fact]" "[demo_document ''zeta'']"
        demo_context "''b''" "Some ''zeta''" None None] demo_meets
    by (auto simp: eligible_for_def allowed_by_def dp)
  obtain r' where r': "select_declaration (\<lambda>s. s) [demo_demand] [demo_grant] [demo_fact]
      ([demo_document ''zeta''] @ [demo_document ''bwrap'']) demo_context ''b'' (Some ''zeta'') None None = Inr r'"
    using selection_exact by blast
  have "sr_selected r' = Some (demo_document ''zeta'')"
    using incumbent_not_preempted [OF r sel r'] by (simp add: dp)
  with r' show ?thesis by blast
qed

text \<open>
  Every candidate is accounted for. The rejected list is sorted and holds exactly the
  candidates that were not selected, once each; and when providers are distinct, a candidate
  outside the authorised set is listed with its own reason whatever the result is.
\<close>

lemma rejected_accounted:
  assumes "select_declaration H qs grants facts candidates ctx binding incumbent pinned authorized = Inr r"
  shows "sorted (sr_rejected r) \<and>
    mset (map (\<lambda>(p, v, why). (p, v)) (sr_rejected r)) =
      mset (map (\<lambda>d. (doc_provider d, doc_revision d)) (filter (\<lambda>d. sr_selected r \<noteq> Some d) candidates)) \<and>
    (distinct (map doc_provider candidates) \<longrightarrow>
      (\<forall>d \<in> set candidates. \<not> allowed_by authorized d \<longrightarrow>
         (doc_provider d, doc_revision d, ''REFUSAL_PROVIDER_NOT_AUTHORIZED'') \<in> set (sr_rejected r)))"
proof (cases "distinct (map doc_provider candidates)")
  case False
  with assms have "r = \<lparr>sr_digest = requirement_set_digest H qs, sr_binding = binding, sr_selected = None,
      sr_outcome = None, sr_rejected = sort (map (\<lambda>d. (doc_provider d, doc_revision d,
        ''REFUSAL_DECLARATION_CONFLICT'')) candidates)\<rparr>"
    by (simp add: select_declaration_def Let_def)
  then show ?thesis using False
    by (simp add: image_mset.compositionality comp_def)
next
  case True
  let ?found = "find (\<lambda>d. eligible_for incumbent pinned authorized d \<and> satisfies qs grants facts ctx d)
      (sort_key (\<lambda>d. (doc_provider d, doc_revision d)) (filter (allowed_by authorized) candidates))"
  from select_chosen [OF True, of H qs grants facts ctx binding incumbent pinned authorized] assms
  obtain rs where r: "r = finish_selection (requirement_set_digest H qs) binding candidates rs
      (map_option (\<lambda>d. (d, outcome_of qs grants d facts ctx)) ?found)"
    and un: "\<forall>d \<in> set candidates. \<not> allowed_by authorized d \<longrightarrow>
      rs (doc_provider d) = Some ''REFUSAL_PROVIDER_NOT_AUTHORIZED''"
    by auto
  have chosen: "map_option fst (map_option (\<lambda>d. (d, outcome_of qs grants d facts ctx)) ?found) = ?found"
    by (simp add: option.map_comp comp_def option.map_ident)
  have "(doc_provider d, doc_revision d, ''REFUSAL_PROVIDER_NOT_AUTHORIZED'') \<in> set (sr_rejected r)"
    if d: "d \<in> set candidates" "\<not> allowed_by authorized d" for d
  proof -
    have "?found \<noteq> Some d" using d(2) by (auto simp: find_Some_iff eligible_for_def)
    then have "d \<in> set (filter (\<lambda>d. ?found \<noteq> Some d) candidates)" using d(1) by simp
    with un d show ?thesis
      unfolding r finish_selection_def chosen by (force simp: image_iff)
  qed
  then show ?thesis
    unfolding r finish_selection_def chosen
    by (simp add: image_mset.compositionality comp_def)
qed

lemma rejected_accounted_witness:
  "\<exists>r. select_declaration (\<lambda>s. s) [demo_demand] [demo_grant] [demo_fact]
      [demo_document ''zeta'', demo_document ''bwrap''] demo_context ''b'' None None (Some [''bwrap'']) = Inr r \<and>
     (''zeta'', 1, ''REFUSAL_PROVIDER_NOT_AUTHORIZED'') \<in> set (sr_rejected r)"
proof -
  have dp: "doc_provider (demo_document p) = p" "doc_revision (demo_document p) = 1" for p
    by (simp_all add: demo_document_def)
  obtain r where r: "select_declaration (\<lambda>s. s) [demo_demand] [demo_grant] [demo_fact]
      [demo_document ''zeta'', demo_document ''bwrap''] demo_context ''b'' None None (Some [''bwrap'']) = Inr r"
    using selection_exact by blast
  from rejected_accounted [OF r] r show ?thesis by (auto simp: dp allowed_by_def)
qed

section \<open>Demands and grants of a deployment\<close>

lemma readonly_rule: "registered_rule ''filesystem.readonly@1'' = Some rule \<longleftrightarrow>
    rule = \<lparr>mr_capability = ''filesystem.readonly@1'', mr_rule = ''targets-superset'', mr_covers = targets_superset\<rparr>"
  by (auto simp: registered_rule_def rule_registry_def)

lemma writable_rule: "registered_rule ''filesystem.writable@1'' = Some rule \<longleftrightarrow>
    rule = \<lparr>mr_capability = ''filesystem.writable@1'', mr_rule = ''targets-superset'', mr_covers = targets_superset\<rparr>"
  by (auto simp: registered_rule_def rule_registry_def)

lemma claimed_mounts:
  "snd ` set (claim_targets [] [(''executable_targets'', ex), (''projection_targets'', pr), (''artifact_targets'', ar)])
     = set ex \<union> set pr \<union> set ar"
  unfolding claim_targets_set by auto

lemma config_key_valid [simp]: "evidence_valid ctx (config_key_evidence f)"
  by (simp add: evidence_valid_def config_key_evidence_def)

lemma sidecar_grants_readonly:
  "(\<exists>g \<in> set (sidecar_grants ex pr ar st). gr_capability g = ''filesystem.readonly@1'' \<and>
      gr_provenance g = ''locked-policy'' \<and> targets_superset (mk_parameters [t]) (gr_parameters g) \<and>
      evidence_valid ctx (gr_source g)) \<longleftrightarrow> t \<in> set ex \<union> set pr \<union> set ar"
proof -
  let ?P = "\<lambda>g. gr_capability g = ''filesystem.readonly@1'' \<and> gr_provenance g = ''locked-policy'' \<and>
      targets_superset (mk_parameters [t]) (gr_parameters g) \<and> evidence_valid ctx (gr_source g)"
  let ?claims = "claim_targets []
      [(''executable_targets'', ex), (''projection_targets'', pr), (''artifact_targets'', ar)]"
  have "(\<exists>g \<in> set (sidecar_grants ex pr ar st). ?P g) \<longleftrightarrow> (\<exists>ft \<in> set ?claims. ?P (readonly_grant ft))"
    by (auto simp: sidecar_grants_def split: option.splits)
  also have "\<dots> \<longleftrightarrow> t \<in> snd ` set ?claims"
    by (auto simp: readonly_grant_def mk_parameters_def targets_superset_def image_iff)
  finally show ?thesis unfolding claimed_mounts .
qed

lemma sidecar_grants_writable:
  "(\<exists>g \<in> set (sidecar_grants ex pr ar st). gr_capability g = ''filesystem.writable@1'' \<and>
      gr_provenance g = ''locked-policy'' \<and> targets_superset (mk_parameters [t]) (gr_parameters g) \<and>
      evidence_valid ctx (gr_source g)) \<longleftrightarrow> st = Some t"
  by (auto simp: sidecar_grants_def readonly_grant_def mk_parameters_def targets_superset_def
      split: option.splits)

text \<open>
  The launcher can mount exactly what the deployment document grants. The demands of a
  launch plan are all authorised by the grants of a deployment document, at any time and in
  any environment, exactly when every read-only target of the plan is a read-only target of
  the document (in whichever field) and the writable state target, if any, is the document's;
  and the plan asks for each read-only target once.
\<close>

lemma mounts_authorised_exactly:
  "((\<forall>q \<in> set (sidecar_requirements ex pr ar st). \<exists>rule. registered_rule (rq_capability q) = Some rule \<and>
       authorization_refusal q (sidecar_grants ex' pr' ar' st') rule ctx = None)
     \<longleftrightarrow> set ex \<union> set pr \<union> set ar \<subseteq> set ex' \<union> set pr' \<union> set ar' \<and> (st = None \<or> st = st'))
   \<and> distinct (map (\<lambda>q. (rq_capability q, rq_parameters q)) (sidecar_requirements ex pr ar st))"
proof (rule conjI)
  let ?claims = "claim_targets []
      [(''executable_targets'', ex), (''projection_targets'', pr), (''artifact_targets'', ar)]"
  let ?g = "sidecar_grants ex' pr' ar' st'"
  let ?ok = "\<lambda>q. \<exists>rule. registered_rule (rq_capability q) = Some rule \<and> authorization_refusal q ?g rule ctx = None"
  have ro: "?ok (readonly_demand ft) \<longleftrightarrow> snd ft \<in> set ex' \<union> set pr' \<union> set ar'" for ft
    using sidecar_grants_readonly [of ex' pr' ar' st' "snd ft" ctx]
    by (simp add: readonly_demand_def readonly_rule authorization_refusal_None authorised_def)
  have rw: "?ok \<lparr>rq_capability = ''filesystem.writable@1'', rq_parameters = mk_parameters [t],
      rq_source = config_key_evidence ''state_target''\<rparr> \<longleftrightarrow> st' = Some t" for t
    using sidecar_grants_writable [of ex' pr' ar' st' t ctx]
    by (simp add: writable_rule authorization_refusal_None authorised_def)
  have "(\<forall>q \<in> set (sidecar_requirements ex pr ar st). ?ok q) \<longleftrightarrow>
      (\<forall>ft \<in> set ?claims. ?ok (readonly_demand ft)) \<and>
      (case st of None \<Rightarrow> True | Some t \<Rightarrow> ?ok \<lparr>rq_capability = ''filesystem.writable@1'',
         rq_parameters = mk_parameters [t], rq_source = config_key_evidence ''state_target''\<rparr>)"
    unfolding sidecar_requirements_targets by (auto split: option.splits)
  also have "\<dots> \<longleftrightarrow> snd ` set ?claims \<subseteq> set ex' \<union> set pr' \<union> set ar' \<and> (st = None \<or> st = st')"
    unfolding ro rw by (auto split: option.splits)
  finally show "(\<forall>q \<in> set (sidecar_requirements ex pr ar st). ?ok q) \<longleftrightarrow>
      set ex \<union> set pr \<union> set ar \<subseteq> set ex' \<union> set pr' \<union> set ar' \<and> (st = None \<or> st = st')"
    unfolding claimed_mounts .
  have "map (\<lambda>q. (rq_capability q, rq_parameters q)) (map readonly_demand ?claims)
      = map (\<lambda>t. (''filesystem.readonly@1'', mk_parameters [t])) (map snd ?claims)"
    by (simp add: readonly_demand_def)
  moreover have "inj (\<lambda>t. (''filesystem.readonly@1'', mk_parameters [t]))"
    by (simp add: inj_def mk_parameters_def)
  moreover from this have "distinct (map (\<lambda>t. (''filesystem.readonly@1'', mk_parameters [t])) (map snd ?claims))"
    using claim_targets_distinct by (subst distinct_map) (auto intro: inj_on_subset)
  ultimately have "distinct (map (\<lambda>q. (rq_capability q, rq_parameters q)) (map readonly_demand ?claims))"
    by (simp only:)
  then show "distinct (map (\<lambda>q. (rq_capability q, rq_parameters q)) (sidecar_requirements ex pr ar st))"
    by (auto simp: sidecar_requirements_def readonly_demand_def split: option.splits)
qed

lemma mounts_authorised_exactly_witness:
  "\<not> list_all (\<lambda>q. \<exists>rule. registered_rule (rq_capability q) = Some rule \<and>
       authorization_refusal q (sidecar_grants [''/bin''] [] [] None) rule demo_context = None)
     (sidecar_requirements [''/bin''] [] [''/bin''] (Some ''/state'')) \<and>
   list_all (\<lambda>q. \<exists>rule. registered_rule (rq_capability q) = Some rule \<and>
       authorization_refusal q (sidecar_grants [] [''/bin''] [] (Some ''/state'')) rule demo_context = None)
     (sidecar_requirements [''/bin''] [] [''/bin''] (Some ''/state''))"
  unfolding list_all_iff mounts_authorised_exactly [THEN conjunct1] by simp

text \<open>
  The requirement digest of a selection record identifies the demands: under an
  injective hash two records have the same digest exactly when the demand lists are equal,
  field by field and in order (the canonical text loses nothing).
\<close>

lemma requirement_digest_exact:
  assumes "inj H"
    and "select_declaration H qs grants facts candidates ctx binding incumbent pinned authorized = Inr r"
    and "select_declaration H qs' grants' facts' candidates' ctx' binding' incumbent' pinned' authorized' = Inr r'"
  shows "sr_digest r = sr_digest r' \<longleftrightarrow> qs = qs'"
proof -
  have dg: "sr_digest s = requirement_set_digest H q"
    if "select_declaration H q g f cs c b i p a = Inr s" for q g f cs c b i p a s
    using that select_chosen [of cs H q g f c b i p a]
    by (cases "distinct (map doc_provider cs)")
      (auto simp: finish_selection_def, auto simp: select_declaration_def Let_def)
  show ?thesis
    using assms(1) dg [OF assms(2)] dg [OF assms(3)]
    by (simp add: requirement_set_digest_def inj_eq requirement_set_text_inj)
qed

lemma requirement_digest_exact_witness:
  "\<exists>r r'. select_declaration (\<lambda>s. s) [demo_demand] [] [] [] demo_context ''b'' None None None = Inr r \<and>
     select_declaration (\<lambda>s. s) [] [] [] [] demo_context ''b'' None None None = Inr r' \<and>
     sr_digest r \<noteq> sr_digest r'"
proof -
  obtain r r' where r: "select_declaration (\<lambda>s. s) [demo_demand] [] [] [] demo_context ''b'' None None None = Inr r"
    "select_declaration (\<lambda>s. s) [] [] [] [] demo_context ''b'' None None None = Inr r'"
    using selection_exact by meson
  have "sr_digest r = sr_digest r' \<longleftrightarrow> [demo_demand] = []"
    by (rule requirement_digest_exact [OF _ r]) (simp add: inj_def)
  with r show ?thesis by auto
qed

end
