(* ===== verification/Ledger_Tables.thy ===== *)
theory Ledger_Tables
  imports Sql_Tables Json_Text Iso_Time
begin

text \<open>
  The session ledger: the product tables of \<open>storage/database.py\<close> the session, queue,
  approval and idempotency records read and write, as lists of rows in rowid order, with the
  PRIMARY KEY, UNIQUE, partial UNIQUE and FOREIGN KEY constraints of the schema (SQLite runs
  with \<open>foreign_keys = ON\<close>). A JSON column holds the value with its members in key order,
  which is what \<open>json.loads\<close> of a \<open>sort_keys=True\<close> text returns (the permission rules of a
  profile are written unsorted and keep their order). Time stamps are the
  UTC stamps of \<open>ids.now()\<close>; SQLite orders them by their text, \<open>iso_key\<close>. The three token
  columns of a turn are one triple, and \<open>schema_version\<close> of an event, always 1, is left out.
\<close>

section \<open>Rows\<close>

record workspace_row =
  ws_id :: string
  ws_connection :: string
  ws_distribution :: string
  ws_user :: "string option"
  ws_path :: string
  ws_state :: string
  ws_name :: "string option"
  ws_version :: int
  ws_archived :: "datetime option"
  ws_env :: string
  ws_host :: "string option"
  ws_normalized :: "string option"
  ws_created :: datetime
  ws_updated :: datetime

record profile_row =
  pf_id :: string
  pf_version :: int
  pf_name :: string
  pf_harness :: string
  pf_revision :: int
  pf_generation :: int
  pf_config :: string
  pf_credential :: "string option"
  pf_account :: "string option"
  pf_preset :: "string option"
  pf_rules :: "json option"
  pf_origin :: "string option"
  pf_cloned :: "datetime option"
  pf_run :: string
  pf_recovery :: int
  pf_display :: "string option"
  pf_archived :: "datetime option"
  pf_created :: datetime
  pf_updated :: datetime

record session_row =
  se_id :: string
  se_workspace :: string
  se_profile :: string
  se_checkpoint :: "string option"
  se_native :: "string option"
  se_platform :: "string option"
  se_home :: "string option"
  se_usage :: "json option"
  se_status :: string
  se_name :: "string option"
  se_pinned :: int
  se_version :: int
  se_archived :: "datetime option"
  se_created :: datetime
  se_updated :: datetime

record turn_row =
  tn_id :: string
  tn_session :: string
  tn_profile :: string
  tn_revision :: int
  tn_generation :: int
  tn_state :: string
  tn_capture :: string
  tn_cleanup :: string
  tn_input :: string
  tn_config :: "string option"
  tn_item :: "string option"
  tn_work :: "string option"
  tn_exec :: "string option"
  tn_dispatch :: "string option"
  tn_key :: "string option"
  tn_captured :: "int option"
  tn_result :: "string option"
  tn_error :: "string option"
  tn_changes :: "string option"
  tn_parent :: "string option"
  tn_usage :: "json option \<times> json option \<times> json option"
  tn_usage_source :: "string option"
  tn_stop :: "datetime option"
  tn_reason :: "string option"
  tn_created :: datetime
  tn_updated :: datetime

record session_event =
  sv_session :: string
  sv_seq :: int
  sv_wire :: "int option"
  sv_id :: string
  sv_turn :: "string option"
  sv_kind :: string
  sv_data :: json
  sv_at :: datetime

record idempotency_row =
  im_scope :: string
  im_key :: string
  im_digest :: string
  im_status :: int
  im_body :: json
  im_at :: datetime

record item_row =
  qi_id :: string
  qi_session :: string
  qi_version :: int
  qi_state :: string
  qi_profile :: string
  qi_config :: int
  qi_request :: string
  qi_digest :: string
  qi_message :: string
  qi_effective :: "string option"
  qi_public :: "json option"
  qi_pause :: "string option"
  qi_submitted :: datetime
  qi_updated :: datetime

record approval_row =
  ap_id :: string
  ap_session :: string
  ap_exec :: string
  ap_version :: int
  ap_state :: string
  ap_decision :: "string option"
  ap_scope :: "json option"
  ap_request :: "(string \<times> json) list"
  ap_created :: datetime
  ap_settled :: "datetime option"

record grant_row =
  sg_parent :: string
  sg_child :: string
  sg_at :: datetime

record model_row =
  pm_id :: string
  pm_version :: int
  pm_name :: string
  pm_harness :: "string option"
  pm_provider :: string
  pm_credential :: "string option"
  pm_config :: string
  pm_models :: string
  pm_base :: "string option"
  pm_auth :: "string option"
  pm_wire :: "string option"
  pm_source :: "string option"
  pm_archived :: "datetime option"
  pm_created :: datetime
  pm_updated :: datetime

record ledger =
  l_workspaces :: "workspace_row list"
  l_profiles :: "profile_row list"
  l_sessions :: "session_row list"
  l_turns :: "turn_row list"
  l_events :: "session_event list"
  l_idempotency :: "idempotency_row list"
  l_items :: "item_row list"
  l_approvals :: "approval_row list"
  l_grants :: "grant_row list"
  l_models :: "model_row list"

type_synonym 'a ledger_prog = "(ledger, 'a) prog"

section \<open>Lookups\<close>

definition find_workspace :: "ledger \<Rightarrow> string \<Rightarrow> workspace_row option" where
  "find_workspace d i = find (\<lambda>r. ws_id r = i) (l_workspaces d)"

definition find_profile :: "ledger \<Rightarrow> string \<Rightarrow> profile_row option" where
  "find_profile d i = find (\<lambda>r. pf_id r = i) (l_profiles d)"

definition find_session :: "ledger \<Rightarrow> string \<Rightarrow> session_row option" where
  "find_session d i = find (\<lambda>r. se_id r = i) (l_sessions d)"

definition find_turn :: "ledger \<Rightarrow> string \<Rightarrow> turn_row option" where
  "find_turn d i = find (\<lambda>r. tn_id r = i) (l_turns d)"

definition find_item :: "ledger \<Rightarrow> string \<Rightarrow> item_row option" where
  "find_item d i = find (\<lambda>r. qi_id r = i) (l_items d)"

definition find_approval :: "ledger \<Rightarrow> string \<Rightarrow> approval_row option" where
  "find_approval d i = find (\<lambda>r. ap_id r = i) (l_approvals d)"

definition find_receipt :: "ledger \<Rightarrow> string \<Rightarrow> string \<Rightarrow> idempotency_row option" where
  "find_receipt d scope key = find (\<lambda>r. im_scope r = scope \<and> im_key r = key) (l_idempotency d)"

definition active_states :: "string list" where
  "active_states = [''accepted'', ''dispatching'', ''running'', ''capturing'']"

definition terminal_states :: "string list" where
  "terminal_states = [''completed'', ''failed'', ''cancelled'', ''unknown'']"

definition active_turn :: "turn_row \<Rightarrow> bool" where
  "active_turn t \<longleftrightarrow> tn_state t \<in> set active_states"

definition session_events :: "ledger \<Rightarrow> string \<Rightarrow> session_event list" where
  "session_events d s = filter (\<lambda>e. sv_session e = s) (l_events d)"

section \<open>Statements\<close>

definition insert_session :: "session_row \<Rightarrow> ledger \<Rightarrow> exn + unit \<times> ledger" where
  "insert_session r d =
    (if find_session d (se_id r) \<noteq> None then Inl (unique_failed ''server_sessions.id'')
     else if find_workspace d (se_workspace r) = None \<or> find_profile d (se_profile r) = None
       then Inl foreign_key_failed
     else Inr ((), d\<lparr>l_sessions := l_sessions d @ [r]\<rparr>))"

text \<open>The partial index \<open>server_one_active_turn_per_session\<close>.\<close>

definition one_active :: "turn_row list \<Rightarrow> bool" where
  "one_active ts \<longleftrightarrow> distinct (map tn_session (filter active_turn ts))"

definition insert_turn :: "turn_row \<Rightarrow> ledger \<Rightarrow> exn + unit \<times> ledger" where
  "insert_turn r d =
    (if find_turn d (tn_id r) \<noteq> None then Inl (unique_failed ''server_turns.id'')
     else if \<not> one_active (l_turns d @ [r]) then Inl (unique_failed ''server_turns.session_id'')
     else if find_session d (tn_session r) = None \<or> find_profile d (tn_profile r) = None \<or>
         (case tn_item r of None \<Rightarrow> False | Some i \<Rightarrow> find_item d i = None)
       then Inl foreign_key_failed
     else Inr ((), d\<lparr>l_turns := l_turns d @ [r]\<rparr>))"

definition update_turns :: "(turn_row \<Rightarrow> bool) \<Rightarrow> (turn_row \<Rightarrow> turn_row) \<Rightarrow> ledger \<Rightarrow> exn + nat \<times> ledger" where
  "update_turns p f d =
    (if \<not> one_active (update_where p f (l_turns d)) then Inl (unique_failed ''server_turns.session_id'')
     else Inr (count_where p (l_turns d), d\<lparr>l_turns := update_where p f (l_turns d)\<rparr>))"

definition update_sessions ::
  "(session_row \<Rightarrow> bool) \<Rightarrow> (session_row \<Rightarrow> session_row) \<Rightarrow> ledger \<Rightarrow> exn + nat \<times> ledger" where
  "update_sessions p f d =
    (if \<exists>r \<in> set (l_sessions d). p r \<and>
        (find_workspace d (se_workspace (f r)) = None \<or> find_profile d (se_profile (f r)) = None)
       then Inl foreign_key_failed
     else Inr (count_where p (l_sessions d), d\<lparr>l_sessions := update_where p f (l_sessions d)\<rparr>))"

definition update_profiles ::
  "(profile_row \<Rightarrow> bool) \<Rightarrow> (profile_row \<Rightarrow> profile_row) \<Rightarrow> ledger \<Rightarrow> exn + nat \<times> ledger" where
  "update_profiles p f d =
    Inr (count_where p (l_profiles d), d\<lparr>l_profiles := update_where p f (l_profiles d)\<rparr>)"

definition insert_profile :: "profile_row \<Rightarrow> ledger \<Rightarrow> exn + unit \<times> ledger" where
  "insert_profile r d =
    (if find_profile d (pf_id r) \<noteq> None then Inl (unique_failed ''server_profiles.id'')
     else Inr ((), d\<lparr>l_profiles := l_profiles d @ [r]\<rparr>))"

text \<open>\<open>INSERT OR IGNORE\<close> and \<open>DELETE\<close> on the delegation edges.\<close>

definition is_edge :: "string \<Rightarrow> string \<Rightarrow> grant_row \<Rightarrow> bool" where
  "is_edge parent child g \<longleftrightarrow> sg_parent g = parent \<and> sg_child g = child"

definition insert_grant :: "grant_row \<Rightarrow> ledger \<Rightarrow> exn + unit \<times> ledger" where
  "insert_grant g d =
    (if list_ex (is_edge (sg_parent g) (sg_child g)) (l_grants d) then Inr ((), d)
     else if find_profile d (sg_parent g) = None \<or> find_profile d (sg_child g) = None then Inl foreign_key_failed
     else Inr ((), d\<lparr>l_grants := l_grants d @ [g]\<rparr>))"

definition delete_grant :: "string \<Rightarrow> string \<Rightarrow> ledger \<Rightarrow> exn + nat \<times> ledger" where
  "delete_grant parent child d =
    Inr (count_where (is_edge parent child) (l_grants d),
      d\<lparr>l_grants := filter (\<lambda>g. \<not> is_edge parent child g) (l_grants d)\<rparr>)"

definition insert_session_event :: "session_event \<Rightarrow> ledger \<Rightarrow> exn + unit \<times> ledger" where
  "insert_session_event r d =
    (if \<exists>e \<in> set (l_events d). sv_session e = sv_session r \<and> sv_seq e = sv_seq r
       then Inl (unique_failed ''server_session_events.session_id, server_session_events.seq'')
     else if \<exists>e \<in> set (l_events d). sv_session e = sv_session r \<and> sv_wire e = sv_wire r \<and> sv_wire r \<noteq> None
       then Inl (unique_failed ''server_session_events.session_id, server_session_events.wire_seq'')
     else if \<exists>e \<in> set (l_events d). sv_id e = sv_id r
       then Inl (unique_failed ''server_session_events.event_id'')
     else if find_session d (sv_session r) = None then Inl foreign_key_failed
     else Inr ((), d\<lparr>l_events := l_events d @ [r]\<rparr>))"

definition insert_receipt :: "idempotency_row \<Rightarrow> ledger \<Rightarrow> exn + unit \<times> ledger" where
  "insert_receipt r d =
    (if find_receipt d (im_scope r) (im_key r) \<noteq> None
       then Inl (unique_failed ''server_idempotency.scope, server_idempotency.key'')
     else Inr ((), d\<lparr>l_idempotency := l_idempotency d @ [r]\<rparr>))"

definition insert_item :: "item_row \<Rightarrow> ledger \<Rightarrow> exn + unit \<times> ledger" where
  "insert_item r d =
    (if find_item d (qi_id r) \<noteq> None then Inl (unique_failed ''server_queue_items.id'')
     else if find_session d (qi_session r) = None then Inl foreign_key_failed
     else Inr ((), d\<lparr>l_items := l_items d @ [r]\<rparr>))"

definition update_items ::
  "(item_row \<Rightarrow> bool) \<Rightarrow> (item_row \<Rightarrow> item_row) \<Rightarrow> ledger \<Rightarrow> exn + nat \<times> ledger" where
  "update_items p f d = Inr (count_where p (l_items d), d\<lparr>l_items := update_where p f (l_items d)\<rparr>)"

definition insert_approval :: "approval_row \<Rightarrow> ledger \<Rightarrow> exn + unit \<times> ledger" where
  "insert_approval r d =
    (if find_approval d (ap_id r) \<noteq> None then Inl (unique_failed ''server_approvals.id'')
     else if find_session d (ap_session r) = None then Inl foreign_key_failed
     else Inr ((), d\<lparr>l_approvals := l_approvals d @ [r]\<rparr>))"

definition update_approvals ::
  "(approval_row \<Rightarrow> bool) \<Rightarrow> (approval_row \<Rightarrow> approval_row) \<Rightarrow> ledger \<Rightarrow> exn + nat \<times> ledger" where
  "update_approvals p f d =
    Inr (count_where p (l_approvals d), d\<lparr>l_approvals := update_where p f (l_approvals d)\<rparr>)"

end
