(* ===== verification/Ledger_Records.thy ===== *)
theory Ledger_Records
  imports Ledger_Tables
begin

text \<open>
  The records every use case of the server writes through: request de-duplication
  (\<open>ordessa_server/idempotency.py\<close>), the event log of a session
  (\<open>SessionRecords._append_session_event\<close>), the queue (\<open>sessions/queue.py\<close>) and the
  approvals (\<open>approvals/records.py\<close>). The queue and the approvals are composed with
  \<open>_append_session_event\<close> as their \<open>append_event\<close>, as the runtime does. \<open>objects\<close> is the
  projection of a stored message object to its public form, for items queued without one.
\<close>

section \<open>Errors and JSON\<close>

definition server_error :: "string \<Rightarrow> string \<Rightarrow> nat \<Rightarrow> exn" where
  "server_error code message status = Exn (ServerError status False None) message (Some code) None"

definition current_error :: "exn \<Rightarrow> json \<Rightarrow> exn" where
  "current_error e current = (case exn_cls e of
     ServerError status retry _ \<Rightarrow> Exn (ServerError status retry (Some (dumps_compact current))) (exn_msg e) (exn_code e) (exn_cause e)
   | _ \<Rightarrow> e)"

definition str_or_null :: "string option \<Rightarrow> json" where
  "str_or_null v = (case v of None \<Rightarrow> JNull | Some s \<Rightarrow> JStr s)"

definition time_json :: "datetime \<Rightarrow> json" where
  "time_json t = JStr (iso_text t)"

definition time_or_null :: "datetime option \<Rightarrow> json" where
  "time_or_null v = (case v of None \<Rightarrow> JNull | Some t \<Rightarrow> time_json t)"

definition json_or_null :: "json option \<Rightarrow> json" where
  "json_or_null v = (case v of None \<Rightarrow> JNull | Some j \<Rightarrow> j)"

section \<open>Request de-duplication\<close>

definition idempotency_check :: "string \<Rightarrow> string \<Rightarrow> string \<Rightarrow> (int \<times> json) option ledger_prog" where
  "idempotency_check scope key digest =
    pbind (read_store (\<lambda>d. find_receipt d scope key)) (\<lambda>row.
    case row of
      None \<Rightarrow> preturn None
    | Some r \<Rightarrow>
        pseq (raise_if (im_digest r \<noteq> digest) (server_error ''IDEMPOTENCY_CONFLICT''
            ''Idempotency-Key was already used with a different request'' 409))
          (preturn (Some (im_status r, im_body r))))"

definition idempotency_insert :: "string \<Rightarrow> string \<Rightarrow> string \<Rightarrow> int \<Rightarrow> json \<Rightarrow> unit ledger_prog" where
  "idempotency_insert scope key digest status body =
    pbind now_utc (\<lambda>t. exec_sql (insert_receipt
      \<lparr>im_scope = scope, im_key = key, im_digest = digest, im_status = status,
        im_body = json_sorted body, im_at = t\<rparr>))"

text \<open>The body of a transaction that answers from the stored receipt when there is one.\<close>

definition once ::
  "string \<Rightarrow> string \<Rightarrow> string \<Rightarrow> (int \<times> json \<Rightarrow> 'a ledger_prog) \<Rightarrow> 'a ledger_prog \<Rightarrow> 'a ledger_prog" where
  "once scope key digest replay fresh =
    transaction (pbind (idempotency_check scope key digest) (\<lambda>prior.
      case prior of Some receipt \<Rightarrow> replay receipt | None \<Rightarrow> fresh))"

definition idempotency_save ::
  "string \<Rightarrow> string \<Rightarrow> string \<Rightarrow> int \<Rightarrow> json \<Rightarrow> (int \<times> json) ledger_prog" where
  "idempotency_save scope key digest status body =
    once scope key digest preturn
      (pseq (idempotency_insert scope key digest status body) (preturn (status, body)))"

section \<open>The event log of a session\<close>

definition wire_visible_kinds :: "string list" where
  "wire_visible_kinds =
    [''turn.accepted'', ''turn.state'', ''message.delta'', ''message.final'', ''tool.update'',
     ''approval.requested'', ''approval.settled'', ''config.changed'', ''queue.updated'',
     ''workspace.connection'', ''usage.updated'', ''thought.delta'', ''plan.updated'', ''mode.updated'']"

text \<open>\<open>COALESCE(MAX(c), 0)\<close> over the rows where \<open>c\<close> is not NULL.\<close>

definition sql_max :: "int list \<Rightarrow> int" where
  "sql_max xs = (case xs of [] \<Rightarrow> 0 | y # ys \<Rightarrow> fold max ys y)"

definition max_seq :: "ledger \<Rightarrow> string \<Rightarrow> int" where
  "max_seq d s = sql_max (map sv_seq (session_events d s))"

definition max_wire :: "ledger \<Rightarrow> string \<Rightarrow> int" where
  "max_wire d s = sql_max (List.map_filter sv_wire (session_events d s))"

definition append_session_event ::
  "string \<Rightarrow> string option \<Rightarrow> string \<Rightarrow> json \<Rightarrow> session_event ledger_prog" where
  "append_session_event s turn kind data =
    pbind (read_store (\<lambda>d. max_seq d s + 1)) (\<lambda>seq.
    pbind (fresh_id ''event'') (\<lambda>eid.
    pbind now_utc (\<lambda>t.
    pbind (if kind \<in> set wire_visible_kinds then read_store (\<lambda>d. Some (max_wire d s + 1))
           else preturn None) (\<lambda>wire.
    let e = \<lparr>sv_session = s, sv_seq = seq, sv_wire = wire, sv_id = eid, sv_turn = turn,
             sv_kind = kind, sv_data = data, sv_at = t\<rparr> in
    pseq (exec_sql (insert_session_event (e\<lparr>sv_data := json_sorted data\<rparr>)))
      (preturn e)))))"

definition require_session :: "string \<Rightarrow> unit ledger_prog" where
  "require_session s =
    pbind (read_store (\<lambda>d. find_session d s)) (\<lambda>row.
      raise_if (row = None) (server_error ''SESSION_NOT_FOUND'' ''Session was not found'' 404))"

section \<open>The queue\<close>

type_synonym objects = "(string \<Rightarrow> exn + json) option"

record queue_item =
  it_row :: item_row
  it_message :: "json option"

definition row_to_item :: "objects \<Rightarrow> item_row \<Rightarrow> exn + queue_item" where
  "row_to_item objects r =
    (case qi_public r of
       Some m \<Rightarrow> Inr \<lparr>it_row = r, it_message = Some m\<rparr>
     | None \<Rightarrow> (case objects of
         None \<Rightarrow> Inr \<lparr>it_row = r, it_message = None\<rparr>
       | Some read \<Rightarrow> map_sum id (\<lambda>m. \<lparr>it_row = r, it_message = Some m\<rparr>) (read (qi_message r))))"

definition item_json :: "queue_item \<Rightarrow> json" where
  "item_json i = (let r = it_row i in JDict (
    [(''itemId'', JStr (qi_id r)), (''sessionId'', JStr (qi_session r)),
     (''version'', JInt (qi_version r)), (''submittedAt'', time_json (qi_submitted r)),
     (''messageText'', JStr (qi_message r)), (''profileId'', JStr (qi_profile r)),
     (''state'', JStr (qi_state r)), (''configVersion'', JInt (qi_config r)),
     (''requestId'', JStr (qi_request r)), (''pauseReason'', str_or_null (qi_pause r)),
     (''_messageObjectDigest'', JStr (qi_message r)),
     (''_effectiveConfigObjectDigest'', str_or_null (qi_effective r))]
    @ (case it_message i of None \<Rightarrow> [] | Some m \<Rightarrow> [(''message'', m)])))"

definition public_item :: "queue_item \<Rightarrow> exn + json" where
  "public_item i = (let r = it_row i in
    case it_message i of
      None \<Rightarrow> Inl (err KeyError (py_repr ''message''))
    | Some m \<Rightarrow> Inr (JDict (
        [(''itemId'', JStr (qi_id r)), (''version'', JInt (qi_version r)),
         (''submittedAt'', time_json (qi_submitted r)), (''message'', m),
         (''profileId'', JStr (qi_profile r)), (''configVersion'', JInt (qi_config r)),
         (''state'', JStr (qi_state r))]
        @ (case qi_pause r of None \<Rightarrow> [] | Some why \<Rightarrow> [(''pauseReason'', JStr why)]))))"

definition append_updated :: "queue_item \<Rightarrow> unit ledger_prog" where
  "append_updated i =
    pbind (plift (public_item i)) (\<lambda>public.
    pseq (append_session_event (qi_session (it_row i)) None ''queue.updated'' (JDict [(''item'', public)]))
      (preturn ()))"

text \<open>Subscripting the row a \<open>fetchone()\<close> did not find.\<close>

definition none_error :: exn where
  "none_error = err TypeError (py_repr ''NoneType'' @ '' object is not subscriptable'')"

text \<open>\<open>SELECT * FROM server_queue_items WHERE id=?\<close>, as an item. The row was just written.\<close>

definition read_item :: "objects \<Rightarrow> string \<Rightarrow> queue_item ledger_prog" where
  "read_item objects i =
    pbind (fetch_row (\<lambda>d. find_item d i) none_error) (\<lambda>r.
      plift (row_to_item objects r))"

definition enqueue_in_transaction ::
  "objects \<Rightarrow> string \<Rightarrow> string \<Rightarrow> int \<Rightarrow> string \<Rightarrow> string \<Rightarrow> string \<Rightarrow> string option \<Rightarrow> json option \<Rightarrow>
     queue_item ledger_prog" where
  "enqueue_in_transaction objects s profile config request digest message effective public =
    pbind (fresh_id ''queue'') (\<lambda>i.
    pbind now_utc (\<lambda>t.
    pseq (exec_sql (insert_item
      \<lparr>qi_id = i, qi_session = s, qi_version = 1, qi_state = ''pending'', qi_profile = profile,
        qi_config = config, qi_request = request, qi_digest = digest, qi_message = message,
        qi_effective = effective, qi_public = map_option json_sorted public, qi_pause = None,
        qi_submitted = t, qi_updated = t\<rparr>))
    (pbind (read_item objects i) (\<lambda>item.
     pseq (append_updated item) (preturn item)))))"

definition item_order :: "item_row \<Rightarrow> (int \<times> bool \<times> int) \<times> string" where
  "item_order r = (iso_key (qi_submitted r), qi_id r)"

definition items_where :: "(item_row \<Rightarrow> bool) \<Rightarrow> ledger \<Rightarrow> item_row list" where
  "items_where p d = sort_key item_order (filter p (l_items d))"

definition list_queue :: "objects \<Rightarrow> string \<Rightarrow> queue_item list ledger_prog" where
  "list_queue objects s =
    pseq (require_session s)
    (pbind (read_store (items_where (\<lambda>r. qi_session r = s \<and>
        qi_state r \<in> set [''pending'', ''dispatched'', ''paused'']))) (\<lambda>rows.
     map_each (\<lambda>r. plift (row_to_item objects r)) rows))"

definition withdraw ::
  "objects \<Rightarrow> string \<Rightarrow> string \<Rightarrow> int \<Rightarrow> string \<Rightarrow> string \<Rightarrow> (int \<times> json) ledger_prog" where
  "withdraw objects s i expected request digest =
    (let scope = ''queue.withdraw:'' @ s @ '':'' @ i in
    once scope request digest preturn
    (pseq (require_session s)
    (pbind (fetch_row (\<lambda>d. find (\<lambda>r. qi_id r = i \<and> qi_session r = s) (l_items d))
        (server_error ''QUEUE_ITEM_NOT_FOUND'' ''Queue item was not found'' 404)) (\<lambda>row.
     pbind (plift (row_to_item objects row)) (\<lambda>item.
     pseq (raise_if (qi_version row \<noteq> expected) (current_error
         (server_error ''QUEUE_VERSION_CONFLICT'' ''Queue item changed before the withdrawal was applied'' 409)
         (JDict [(''item'', item_json item)])))
     (if qi_state row \<noteq> ''pending'' then
        let body = JDict [(''outcome'', JStr ''too_late''),
              (''reason'', JStr (''item_state:'' @ qi_state row)), (''item'', item_json item)] in
        pseq (idempotency_insert scope request digest 200 body) (preturn (200, body))
      else
        pbind now_utc (\<lambda>t.
        pseq (exec_sql (update_items (\<lambda>r. qi_id r = i)
            (\<lambda>r. r\<lparr>qi_state := ''withdrawn'', qi_version := qi_version r + 1, qi_updated := t\<rparr>)))
        (pbind (read_item objects i) (\<lambda>updated.
         pseq (append_updated updated)
         (let body = JDict [(''outcome'', JStr ''withdrawn''), (''item'', item_json updated)] in
          pseq (idempotency_insert scope request digest 200 body) (preturn (200, body))))))))))))"

definition claim_next :: "objects \<Rightarrow> string \<Rightarrow> queue_item option ledger_prog" where
  "claim_next objects s =
    pbind (read_store (items_where (\<lambda>r. qi_session r = s \<and> qi_state r = ''pending''))) (\<lambda>rows.
    case rows of
      [] \<Rightarrow> preturn None
    | row # _ \<Rightarrow>
        pbind now_utc (\<lambda>t.
        pseq (exec_sql (update_items (\<lambda>r. qi_id r = qi_id row)
            (\<lambda>r. r\<lparr>qi_state := ''dispatched'', qi_version := qi_version r + 1, qi_updated := t\<rparr>)))
        (pbind (read_item objects (qi_id row)) (\<lambda>item.
         pseq (append_updated item) (preturn (Some item))))))"

definition pause_item :: "objects \<Rightarrow> string \<Rightarrow> item_row \<Rightarrow> unit ledger_prog" where
  "pause_item objects reason row =
    pbind now_utc (\<lambda>t.
    pseq (exec_sql (update_items (\<lambda>r. qi_id r = qi_id row)
        (\<lambda>r. r\<lparr>qi_state := ''paused'', qi_pause := Some reason, qi_version := qi_version r + 1,
               qi_updated := t\<rparr>)))
    (pbind (read_item objects (qi_id row)) append_updated))"

definition pause_pending :: "objects \<Rightarrow> string \<Rightarrow> string \<Rightarrow> nat ledger_prog" where
  "pause_pending objects s reason =
    pbind (read_store (items_where (\<lambda>r. qi_session r = s \<and> qi_state r = ''pending''))) (\<lambda>rows.
    pseq (for_each (pause_item objects reason) rows) (preturn (length rows)))"

definition mark_terminal :: "objects \<Rightarrow> string \<Rightarrow> string \<Rightarrow> queue_item option ledger_prog" where
  "mark_terminal objects i st =
    pseq (raise_if (st \<notin> set [''completed'', ''failed'', ''cancelled''])
        (err ValueError (''invalid queue terminal state: '' @ st)))
    (pbind now_utc (\<lambda>t.
    pbind (exec_sql (update_items (\<lambda>r. qi_id r = i \<and> qi_state r = ''dispatched'')
        (\<lambda>r. r\<lparr>qi_state := st, qi_version := qi_version r + 1, qi_updated := t\<rparr>))) (\<lambda>n.
    if n \<noteq> 1 then preturn None
    else pbind (read_item objects i) (\<lambda>item. pseq (append_updated item) (preturn (Some item))))))"

section \<open>Approvals\<close>

definition dict_put :: "string \<Rightarrow> json \<Rightarrow> (string \<times> json) list \<Rightarrow> (string \<times> json) list" where
  "dict_put k v kvs = (if k \<in> fst ` set kvs then map (\<lambda>(a, b). if a = k then (a, v) else (a, b)) kvs
     else kvs @ [(k, v)])"

definition sorted_dict :: "(string \<times> json) list \<Rightarrow> (string \<times> json) list" where
  "sorted_dict kvs = sort_key fst (map (\<lambda>(k, v). (k, json_sorted v)) kvs)"

definition approval_json :: "approval_row \<Rightarrow> json" where
  "approval_json r = JDict
    [(''approvalId'', JStr (ap_id r)), (''sessionId'', JStr (ap_session r)),
     (''executionId'', JStr (ap_exec r)), (''version'', JInt (ap_version r)),
     (''state'', JStr (ap_state r)), (''decision'', str_or_null (ap_decision r)),
     (''scope'', json_or_null (ap_scope r)), (''request'', JDict (ap_request r))]"

definition decision_body :: "approval_row \<Rightarrow> string \<Rightarrow> json" where
  "decision_body r outcome =
    JDict [(''outcome'', JStr outcome), (''decision'', str_or_null (ap_decision r))]"

definition request_in_transaction ::
  "string \<Rightarrow> string \<Rightarrow> (string \<times> json) list \<Rightarrow> json ledger_prog" where
  "request_in_transaction s x request =
    pbind (fresh_id ''approval'') (\<lambda>i.
    pbind now_utc (\<lambda>t.
    pseq (exec_sql (insert_approval
      \<lparr>ap_id = i, ap_session = s, ap_exec = x, ap_version = 1, ap_state = ''open'',
        ap_decision = None, ap_scope = None, ap_request = sorted_dict request, ap_created = t,
        ap_settled = None\<rparr>))
    (pseq (append_session_event s (Some x) ''approval.requested''
        (JDict [(''approval_id'', JStr i), (''version'', JInt 1), (''request'', JDict request)]))
      (preturn (JDict [(''approvalId'', JStr i), (''executionId'', JStr x), (''version'', JInt 1),
        (''state'', JStr ''open''), (''request'', JDict request)])))))"

definition request_approval :: "string \<Rightarrow> string \<Rightarrow> (string \<times> json) list \<Rightarrow> json ledger_prog" where
  "request_approval s x request = transaction (request_in_transaction s x request)"

definition approval_missing :: exn where
  "approval_missing = server_error ''APPROVAL_NOT_FOUND'' ''Approval was not found'' 404"

definition get_approval :: "string \<Rightarrow> json ledger_prog" where
  "get_approval i =
    pbind (fetch_row (\<lambda>d. find_approval d i) approval_missing) (\<lambda>r. preturn (approval_json r))"

text \<open>\<open>SET state='invalid', version=version+1, settled_at=? WHERE p AND state='open'\<close>\<close>

definition invalidate :: "(approval_row \<Rightarrow> bool) \<Rightarrow> nat ledger_prog" where
  "invalidate p =
    pbind now_utc (\<lambda>t. exec_sql (update_approvals (\<lambda>r. p r \<and> ap_state r = ''open'')
      (\<lambda>r. r\<lparr>ap_state := ''invalid'', ap_version := ap_version r + 1, ap_settled := Some t\<rparr>)))"

definition decide ::
  "string \<Rightarrow> string \<Rightarrow> json \<Rightarrow> int \<Rightarrow> string \<Rightarrow> (int \<times> json) ledger_prog" where
  "decide i decision scope expected request =
    transaction
    (pbind (fetch_row (\<lambda>d. find_approval d i) approval_missing) (\<lambda>prior.
     let recorded = ap_request prior in
     if map_of recorded ''decideRequestId'' = Some (JStr request)
       then preturn (200, decision_body prior ''already_recorded'')
     else if ap_state prior \<noteq> ''open'' then
       preturn (200, JDict [(''outcome'', JStr ''invalid''),
         (''reason'', JStr (''approval_state:'' @ ap_state prior))])
     else
       pbind (read_store (\<lambda>d. find_turn d (ap_exec prior))) (\<lambda>execution.
       if (case execution of None \<Rightarrow> True | Some x \<Rightarrow> tn_state x \<in> set terminal_states) then
         pseq (invalidate (\<lambda>r. ap_id r = i))
         (pseq (append_session_event (ap_session prior) (Some (ap_exec prior)) ''approval.settled''
             (JDict [(''approval_id'', JStr i), (''decision'', JStr ''invalidated'')]))
           (preturn (200, JDict [(''outcome'', JStr ''invalid''), (''reason'', JStr ''execution_not_actionable'')])))
       else
         pseq (raise_if (ap_version prior \<noteq> expected) (current_error
             (server_error ''APPROVAL_VERSION_CONFLICT'' ''Approval changed before the decision was applied'' 409)
             (approval_json prior)))
         (pbind now_utc (\<lambda>t.
          pseq (exec_sql (update_approvals
              (\<lambda>r. ap_id r = i \<and> ap_state r = ''open'' \<and> ap_version r = expected)
              (\<lambda>r. r\<lparr>ap_state := ''settled'', ap_decision := Some decision,
                     ap_scope := Some (json_sorted scope), ap_version := ap_version r + 1,
                     ap_request := sorted_dict (dict_put ''decideRequestId'' (JStr request) recorded),
                     ap_settled := Some t\<rparr>)))
          (pbind (fetch_row (\<lambda>d. find_approval d i) none_error) (\<lambda>row.
           pseq (append_session_event (ap_session row) (Some (ap_exec row)) ''approval.settled''
               (JDict [(''approval_id'', JStr i), (''decision'', JStr decision)]))
             (preturn (200, decision_body row ''recorded'')))))))))"

definition expire :: "string \<Rightarrow> unit ledger_prog" where
  "expire i =
    transaction
    (pbind (read_store (\<lambda>d. find_approval d i)) (\<lambda>row.
     case row of
       None \<Rightarrow> preturn ()
     | Some r \<Rightarrow> if ap_state r \<noteq> ''open'' then preturn ()
                 else pseq (invalidate (\<lambda>r. ap_id r = i)) (preturn ())))"

definition open_approvals :: "string \<Rightarrow> ledger \<Rightarrow> approval_row list" where
  "open_approvals x d = filter (\<lambda>r. ap_exec r = x \<and> ap_state r = ''open'') (l_approvals d)"

definition invalidate_one :: "string \<Rightarrow> string \<Rightarrow> approval_row \<Rightarrow> unit ledger_prog" where
  "invalidate_one x reason row =
    pseq (invalidate (\<lambda>r. ap_id r = ap_id row))
    (pseq (append_session_event (ap_session row) (Some x) ''approval.settled''
        (JDict [(''approval_id'', JStr (ap_id row)), (''decision'', JStr ''invalidated''),
                (''reason'', JStr reason)]))
      (preturn ()))"

definition invalidate_for_execution :: "string \<Rightarrow> string \<Rightarrow> nat ledger_prog" where
  "invalidate_for_execution x reason =
    transaction
    (pbind (read_store (open_approvals x)) (\<lambda>rows.
     pseq (for_each (invalidate_one x reason) rows) (preturn (length rows))))"

definition open_for_execution :: "string \<Rightarrow> json list ledger_prog" where
  "open_for_execution x = read_store (\<lambda>d. map approval_json (open_approvals x d))"

definition expire_for_execution :: "string \<Rightarrow> nat ledger_prog" where
  "expire_for_execution x = invalidate (\<lambda>r. ap_exec r = x)"

end
