(* ===== verification/Session_Records.thy ===== *)
theory Session_Records
  imports Ledger_Records
begin

text \<open>
  \<open>SessionRecords\<close> (\<open>service/sessions/repository.py\<close>): sessions, the acceptance of an
  intent or a turn, role switches, and the transitions of a turn to its end. A configuration
  record holds the collaborators of the constructor; \<open>core_filer\<close> is the composed Work Core
  filing function (or none), a guard is the read-only check of a family's shared store, and
  \<open>queue_records\<close> is the queue of \<open>Ledger_Records\<close> with its \<open>objects\<close>, or none.
\<close>

section \<open>Collaborators\<close>

record receipt =
  rp_work :: string
  rp_execution :: string
  rp_dispatch :: string

record session_config =
  sc_concurrency :: "string \<Rightarrow> string option"
  sc_guards :: "string \<Rightarrow> (exn + unit) option"
  sc_filer :: "(string \<Rightarrow> string \<Rightarrow> string \<Rightarrow> exn + receipt) option"

type_synonym queue = "objects option"

section \<open>Views\<close>

definition session_json :: "session_row \<Rightarrow> json" where
  "session_json r = JDict
    [(''id'', JStr (se_id r)), (''version'', JInt (se_version r)),
     (''workspaceId'', JStr (se_workspace r)), (''profileId'', JStr (se_profile r)),
     (''displayName'', JStr (case se_name r of None \<Rightarrow> se_id r | Some n \<Rightarrow> if n = [] then se_id r else n)),
     (''pinned'', JBool (se_pinned r \<noteq> 0)), (''archivedAt'', time_or_null (se_archived r)),
     (''createdAt'', time_json (se_created r)), (''updatedAt'', time_json (se_updated r))]"

definition session_view :: "string \<Rightarrow> json ledger_prog" where
  "session_view s = pbind (fetch_row (\<lambda>d. find_session d s) none_error) (\<lambda>r. preturn (session_json r))"

text \<open>\<open>data.get("k")\<close> of a stored body.\<close>

definition body_get :: "json \<Rightarrow> string \<Rightarrow> json option" where
  "body_get j k = (case j of JDict kvs \<Rightarrow> map_of kvs k | _ \<Rightarrow> None)"

definition body_field :: "json \<Rightarrow> string \<Rightarrow> exn + json" where
  "body_field j k = (case body_get j k of None \<Rightarrow> Inl (err KeyError (py_repr k)) | Some v \<Rightarrow> Inr v)"

definition session_missing :: exn where
  "session_missing = server_error ''SESSION_NOT_FOUND'' ''Session was not found'' 404"

definition workspace_missing :: exn where
  "workspace_missing = server_error ''WORKSPACE_NOT_FOUND'' ''Workspace was not found'' 404"

definition profile_missing :: exn where
  "profile_missing = server_error ''PROFILE_NOT_FOUND'' ''Profile was not found'' 404"

definition turn_missing :: exn where
  "turn_missing = server_error ''TURN_NOT_FOUND'' ''Turn was not found'' 404"

definition version_error :: "string \<Rightarrow> json \<Rightarrow> exn" where
  "version_error message current = current_error (server_error ''RECORD_VERSION_CONFLICT'' message 409) current"

text \<open>\<open>str(v)\<close> of a JSON value.\<close>

fun json_repr :: "json \<Rightarrow> string"
  and items_repr :: "json list \<Rightarrow> string"
  and members_repr :: "(string \<times> json) list \<Rightarrow> string" where
  "json_repr JNull = ''None''"
| "json_repr (JBool b) = (if b then ''True'' else ''False'')"
| "json_repr (JInt i) = show_int i"
| "json_repr (JStr s) = py_repr s"
| "json_repr (JList xs) = ''['' @ items_repr xs @ '']''"
| "json_repr (JDict kvs) = ''{'' @ members_repr kvs @ ''}''"
| "items_repr [] = []"
| "items_repr (x # xs) = json_repr x @ (if xs = [] then [] else '', '' @ items_repr xs)"
| "members_repr [] = []"
| "members_repr ((k, v) # kvs) = py_repr k @ '': '' @ json_repr v @
     (if kvs = [] then [] else '', '' @ members_repr kvs)"

definition py_str :: "json \<Rightarrow> string" where
  "py_str j = (case j of JStr s \<Rightarrow> s | _ \<Rightarrow> json_repr j)"

section \<open>Sessions\<close>

definition create_session :: "string \<Rightarrow> string \<Rightarrow> string \<Rightarrow> string \<Rightarrow> (int \<times> json) ledger_prog" where
  "create_session key digest workspace profile =
    once ''POST:/sessions'' key digest preturn
    (pseq (fetch_row (\<lambda>d. find_workspace d workspace) workspace_missing)
    (pseq (fetch_row (\<lambda>d. find_profile d profile) profile_missing)
    (pbind now_utc (\<lambda>t.
     pbind (fresh_id ''session'') (\<lambda>s.
     pseq (exec_sql (insert_session
       \<lparr>se_id = s, se_workspace = workspace, se_profile = profile, se_checkpoint = None,
         se_native = None, se_platform = None, se_home = None, se_usage = None,
         se_status = ''ready'', se_name = None, se_pinned = 0, se_version = 1,
         se_archived = None, se_created = t, se_updated = t\<rparr>))
     (let body = JDict [(''session_id'', JStr s), (''workspace_id'', JStr workspace),
            (''profile_id'', JStr profile), (''status'', JStr ''ready''), (''checkpoint'', JNull)] in
      pseq (idempotency_insert ''POST:/sessions'' key digest 201 body)
        (preturn (201, body))))))))"

text \<open>\<open>ORDER BY rowid LIMIT ?\<close>: rows are in rowid order; row \<open>k\<close> of the list has rowid \<open>k + 1\<close>
  because no row is ever deleted.\<close>

definition list_sessions ::
  "string option \<Rightarrow> bool \<Rightarrow> nat \<Rightarrow> nat \<Rightarrow> (nat \<times> session_row) list ledger_prog" where
  "list_sessions workspace include_archived after limit =
    pseq (case workspace of None \<Rightarrow> preturn ()
        | Some w \<Rightarrow> pseq (fetch_row (\<lambda>d. find_workspace d w) workspace_missing) (preturn ()))
      (read_store (\<lambda>d. take limit (filter (\<lambda>(i, r). after < i \<and>
          (case workspace of None \<Rightarrow> True | Some w \<Rightarrow> se_workspace r = w) \<and>
          (include_archived \<or> se_archived r = None))
        (zip [1..<Suc (length (l_sessions d))] (l_sessions d)))))"

definition session_busy :: "ledger \<Rightarrow> string \<Rightarrow> bool" where
  "session_busy d s \<longleftrightarrow> list_ex (\<lambda>t. tn_session t = s \<and> active_turn t) (l_turns d)"

definition profile_busy :: "ledger \<Rightarrow> string \<Rightarrow> bool" where
  "profile_busy d p \<longleftrightarrow> list_ex (\<lambda>t. tn_profile t = p \<and> active_turn t) (l_turns d)"

definition or_else :: "'a option \<Rightarrow> 'a option \<Rightarrow> 'a option" where
  "or_else a b = (case a of Some x \<Rightarrow> Some x | None \<Rightarrow> b)"

definition session_reply :: "int \<times> json \<Rightarrow> json ledger_prog" where
  "session_reply receipt = plift (body_field (snd receipt) ''session'')"

definition update_session ::
  "string \<Rightarrow> int \<Rightarrow> string \<Rightarrow> string \<Rightarrow> string option \<Rightarrow> bool option \<Rightarrow> string option \<Rightarrow> json ledger_prog" where
  "update_session s expected request digest name pinned workspace =
    (let scope = ''sessions.update:'' @ s in
    once scope request digest session_reply
    (pbind (fetch_row (\<lambda>d. find_session d s) session_missing) (\<lambda>row.
     pbind (session_view s) (\<lambda>current.
     pseq (raise_if (se_version row \<noteq> expected) (version_error ''Session changed before the update'' current))
     (pseq (case workspace of
         None \<Rightarrow> preturn ()
       | Some w \<Rightarrow>
           if w = se_workspace row then preturn ()
           else
             pbind (fetch_row (\<lambda>d. find_workspace d w) workspace_missing) (\<lambda>target.
             pseq (raise_if (ws_archived target \<noteq> None)
                 (server_error ''WORKSPACE_ARCHIVED'' ''Workspace is archived'' 409))
             (pbind (read_store (\<lambda>d. session_busy d s)) (\<lambda>busy.
              raise_if busy (server_error ''CAPABILITY_UNSUPPORTED''
                ''Session workspace cannot change while an execution is active'' 409)))))
     (pbind now_utc (\<lambda>t.
      pseq (exec_sql (update_sessions (\<lambda>r. se_id r = s) (\<lambda>r. r\<lparr>
          se_name := or_else name (se_name r),
          se_pinned := (case pinned of None \<Rightarrow> se_pinned r | Some b \<Rightarrow> if b then 1 else 0),
          se_workspace := (case workspace of None \<Rightarrow> se_workspace r | Some w \<Rightarrow> w),
          se_version := se_version r + 1, se_updated := t\<rparr>)))
      (pbind (session_view s) (\<lambda>updated.
       pseq (idempotency_insert scope request digest 200 (JDict [(''session'', updated)]))
         (preturn updated))))))))))"

definition archive_session :: "string \<Rightarrow> int \<Rightarrow> string \<Rightarrow> string \<Rightarrow> json ledger_prog" where
  "archive_session s expected request digest =
    (let scope = ''sessions.archive:'' @ s in
    once scope request digest session_reply
    (pbind (fetch_row (\<lambda>d. find_session d s) session_missing) (\<lambda>row.
     pbind (session_view s) (\<lambda>current.
     pseq (raise_if (se_version row \<noteq> expected)
         (version_error ''Session changed before it was archived'' current))
     (pbind now_utc (\<lambda>t.
      pseq (exec_sql (update_sessions (\<lambda>r. se_id r = s) (\<lambda>r. r\<lparr>
          se_archived := or_else (se_archived r) (Some t),
          se_version := se_version r + 1, se_updated := t\<rparr>)))
      (pbind (session_view s) (\<lambda>updated.
       pseq (idempotency_insert scope request digest 200 (JDict [(''session'', updated)]))
         (preturn updated)))))))))"

definition intent_outcome :: "string \<Rightarrow> json ledger_prog" where
  "intent_outcome request =
    pbind (read_store (\<lambda>d. find_receipt d ''sessions.send'' request)) (\<lambda>row.
    case row of
      None \<Rightarrow> preturn (JDict [(''outcome'', JStr ''unknown'')])
    | Some r \<Rightarrow>
        pbind (plift (body_field (im_body r) ''sessionId'')) (\<lambda>s.
        pbind (plift (body_field (im_body r) ''configVersion'')) (\<lambda>c.
        preturn (JDict [(''outcome'', JStr ''accepted''), (''sessionId'', s),
          (''executionId'', json_or_null (body_get (im_body r) ''executionId'')),
          (''configVersion'', c),
          (''queueItemId'', json_or_null (body_get (im_body r) ''queueItemId''))]))))"

section \<open>Acceptance\<close>

definition refuse_exclusive :: "session_config \<Rightarrow> profile_row \<Rightarrow> unit ledger_prog" where
  "refuse_exclusive cfg profile =
    (if (case sc_concurrency cfg (pf_harness profile) of None \<Rightarrow> ''shared'' | Some c \<Rightarrow> c) \<noteq> ''exclusive''
       then preturn ()
     else pbind (read_store (\<lambda>d. profile_busy d (pf_id profile))) (\<lambda>busy.
       raise_if busy (server_error ''TURN_CONCURRENCY_CONFLICT''
         (''Profile already has an active execution: this Harness's home permits one execution at a time'') 409)))"

text \<open>\<open>except Exception as exc: if "UNIQUE constraint failed" in str(exc)\<close>\<close>

definition unique_violation :: "exn \<Rightarrow> bool" where
  "unique_violation e \<longleftrightarrow> sublist ''UNIQUE constraint failed'' (exn_msg e)"

definition claim_turn :: "string \<Rightarrow> turn_row \<Rightarrow> unit ledger_prog" where
  "claim_turn message row =
    try_catch (exec_sql (insert_turn row)) (\<lambda>e.
      if unique_violation e
        then praise (Exn (ServerError 409 False None) message (Some ''TURN_CONCURRENCY_CONFLICT'') (Some e))
      else praise e)"

definition new_turn ::
  "string \<Rightarrow> string \<Rightarrow> string \<Rightarrow> int \<Rightarrow> int \<Rightarrow> string \<Rightarrow> string option \<Rightarrow> string option \<Rightarrow> datetime \<Rightarrow> turn_row" where
  "new_turn i s p revision generation input config item t =
    \<lparr>tn_id = i, tn_session = s, tn_profile = p, tn_revision = revision, tn_generation = generation,
     tn_state = ''accepted'', tn_capture = ''pending'', tn_cleanup = ''pending'', tn_input = input,
     tn_config = config, tn_item = item, tn_work = None, tn_exec = None, tn_dispatch = None,
     tn_key = Some (''execution:'' @ i), tn_captured = None, tn_result = None, tn_error = None, tn_changes = None,
     tn_parent = None, tn_usage = (None, None, None), tn_usage_source = None, tn_stop = None,
     tn_reason = None, tn_created = t, tn_updated = t\<rparr>"

definition accept_execution ::
  "session_config \<Rightarrow> string \<Rightarrow> profile_row \<Rightarrow> int \<Rightarrow> string \<Rightarrow> string option \<Rightarrow> string option \<Rightarrow> string ledger_prog" where
  "accept_execution cfg s profile config input effective item =
    pbind (fresh_id ''execution'') (\<lambda>x.
    pbind now_utc (\<lambda>t.
    pseq (refuse_exclusive cfg profile)
    (pseq (claim_turn ''Session already has an active execution''
       (new_turn x s (pf_id profile) config (pf_generation profile) input effective item t))
    (pseq (exec_sql (update_profiles (\<lambda>r. pf_id r = pf_id profile)
       (\<lambda>r. r\<lparr>pf_run := ''active'', pf_updated := t\<rparr>)))
    (pseq (exec_sql (update_sessions (\<lambda>r. se_id r = s)
       (\<lambda>r. r\<lparr>se_status := ''active'', se_version := se_version r + 1, se_updated := t\<rparr>)))
    (pseq (append_session_event s (Some x) ''turn.accepted''
       (JDict [(''state'', JStr ''accepted''), (''profile_revision'', JInt config)]))
      (preturn x)))))))"

text \<open>The session of an intent: a new one in the given workspace, or the existing one after its
  guards.\<close>

definition intent_session ::
  "string option \<Rightarrow> string option \<Rightarrow> string \<Rightarrow> string option \<Rightarrow> int option \<Rightarrow> string ledger_prog" where
  "intent_session session workspace profile name expected =
    (case session of
       None \<Rightarrow>
         (case workspace of
            None \<Rightarrow> praise workspace_missing
          | Some w \<Rightarrow>
              pseq (fetch_row (\<lambda>d. find_workspace d w) workspace_missing)
              (pbind (fresh_id ''session'') (\<lambda>s.
               pbind now_utc (\<lambda>t.
               pseq (exec_sql (insert_session
                 \<lparr>se_id = s, se_workspace = w, se_profile = profile, se_checkpoint = None,
                   se_native = None, se_platform = None, se_home = None, se_usage = None,
                   se_status = ''ready'', se_name = name, se_pinned = 0, se_version = 1,
                   se_archived = None, se_created = t, se_updated = t\<rparr>))
                 (preturn s)))))
     | Some s \<Rightarrow>
         pbind (fetch_row (\<lambda>d. find_session d s) session_missing) (\<lambda>row.
         pseq (raise_if (se_archived row \<noteq> None) (server_error ''SESSION_ARCHIVED'' ''Session is archived'' 409))
         (pseq (raise_if (case expected of None \<Rightarrow> False | Some v \<Rightarrow> se_version row \<noteq> v)
            (server_error ''RECORD_VERSION_CONFLICT'' ''Session changed before the send was accepted'' 409))
         (pseq (raise_if (se_profile row \<noteq> profile) (server_error ''CAPABILITY_UNSUPPORTED''
            ''Session is bound to a different role; switch the role first'' 409))
           (preturn s)))))"

definition recovery_required :: exn where
  "recovery_required =
    server_error ''PROFILE_RECOVERY_REQUIRED'' ''Profile has unresolved recovery evidence'' 409"

definition message_text :: "json \<Rightarrow> json" where
  "message_text public = JStr (case body_get public ''text'' of None \<Rightarrow> [] | Some v \<Rightarrow> py_str v)"

definition accept_intent ::
  "session_config \<Rightarrow> queue \<Rightarrow> string option \<Rightarrow> string option \<Rightarrow> string \<Rightarrow> string \<Rightarrow> string \<Rightarrow> string \<Rightarrow>
     json \<Rightarrow> string option \<Rightarrow> int option \<Rightarrow> (ledger \<Rightarrow> profile_row \<Rightarrow> exn + int) option \<Rightarrow> string option \<Rightarrow>
     (string \<times> json) ledger_prog" where
  "accept_intent cfg queue session workspace profile_id request digest message public name expected resolve effective =
    once ''sessions.send'' request digest (\<lambda>receipt. preturn (''replay'', snd receipt))
    (pbind (intent_session session workspace profile_id name expected) (\<lambda>s.
     pbind (fetch_row (\<lambda>d. find_profile d profile_id) profile_missing) (\<lambda>profile.
     pseq (raise_if (pf_archived profile \<noteq> None) (server_error ''PROFILE_ARCHIVED'' ''Profile is archived'' 409))
     (pseq (raise_if (pf_recovery profile \<noteq> 0) recovery_required)
     (pbind (case resolve of None \<Rightarrow> preturn (pf_revision profile)
         | Some f \<Rightarrow> pbind (read_store (\<lambda>d. f d profile)) plift) (\<lambda>config.
     pbind (fresh_id ''message'') (\<lambda>m.
     pseq (append_session_event s None ''message.final''
         (JDict [(''message_id'', JStr m), (''role'', JStr ''user''), (''display_kind'', JStr ''visible''),
           (''text'', message_text public)]))
     (pbind (read_store (\<lambda>d. session_busy d s)) (\<lambda>busy.
     pbind (if \<not> busy then
         pbind (accept_execution cfg s profile config message effective None) (\<lambda>x.
           preturn (JDict [(''outcome'', JStr ''accepted''), (''sessionId'', JStr s), (''executionId'', JStr x),
             (''configVersion'', JInt config), (''queued'', JBool False)]))
       else (case queue of
         None \<Rightarrow> praise (server_error ''QUEUE_ITEM_NOT_FOUND'' ''Queue storage is unavailable'' 503)
       | Some objects \<Rightarrow>
           pbind (enqueue_in_transaction objects s profile_id config request digest message effective (Some public))
             (\<lambda>item. preturn (JDict [(''outcome'', JStr ''accepted''), (''sessionId'', JStr s),
                (''executionId'', JNull), (''configVersion'', JInt config), (''queued'', JBool True),
                (''queueItemId'', JStr (qi_id (it_row item)))])))) (\<lambda>body.
     pseq (idempotency_insert ''sessions.send'' request digest 202 body)
       (preturn (''accepted'', body))))))))))))"

definition create_turn ::
  "session_config \<Rightarrow> string \<Rightarrow> string \<Rightarrow> string \<Rightarrow> string \<Rightarrow> int \<Rightarrow> string \<Rightarrow> (bool \<times> int \<times> json) ledger_prog" where
  "create_turn cfg s key digest input expected effective =
    (let scope = ''POST:/sessions/'' @ s @ ''/turns'' in
    once scope key digest (\<lambda>(status, body). preturn (False, status, body))
    (pbind (fetch_row (\<lambda>d. find_session d s) session_missing) (\<lambda>session.
     pbind (fetch_row (\<lambda>d. find_profile d (se_profile session)) profile_missing) (\<lambda>profile.
     pseq (raise_if (pf_revision profile \<noteq> expected)
       (server_error ''PROFILE_REVISION_CONFLICT'' ''Profile revision changed before Turn creation'' 409))
     (pseq (raise_if (pf_recovery profile \<noteq> 0) recovery_required)
     (pbind (fresh_id ''turn'') (\<lambda>i.
     pbind now_utc (\<lambda>t.
     pseq (refuse_exclusive cfg profile)
     (pseq (claim_turn ''Session already has an active Turn''
       (new_turn i s (se_profile session) expected (pf_generation profile) input (Some effective) None t))
     (pseq (exec_sql (update_profiles (\<lambda>r. pf_id r = se_profile session)
       (\<lambda>r. r\<lparr>pf_run := ''active'', pf_updated := t\<rparr>)))
     (pseq (exec_sql (update_sessions (\<lambda>r. se_id r = s) (\<lambda>r. r\<lparr>se_status := ''active'', se_updated := t\<rparr>)))
     (pbind (append_session_event s (Some i) ''turn.accepted''
       (JDict [(''state'', JStr ''accepted''), (''profile_revision'', JInt expected)])) (\<lambda>event.
     (let body = JDict [(''turn_id'', JStr i), (''session_id'', JStr s), (''state'', JStr ''accepted''),
            (''event_seq'', JInt (sv_seq event))] in
      pseq (idempotency_insert scope key digest 202 body)
        (preturn (True, 202, body))))))))))))))))"

end
