(* ===== verification/Turn_Records.thy ===== *)
theory Turn_Records
  imports Session_Records
begin

text \<open>
  The second half of \<open>SessionRecords\<close>: switching a session's role, sealing what a restart
  interrupted, filing a turn in the Work Core, and the transitions of a turn to completion,
  cancellation or failure, with the reads of the event log. \<open>turn_reply\<close> is the code's
  return of either the row as it is or the event just appended.
\<close>

section \<open>Role switch\<close>

definition guard_error :: "exn \<Rightarrow> exn" where
  "guard_error e = (case exn_cls e of
     OtherException c \<Rightarrow> if c = ''SessionStoreGuardError''
       then Exn (ServerError 409 False None) (if exn_msg e = [] then ''the shared session store was refused'' else exn_msg e)
              (exn_code e) (Some e)
       else e
   | _ \<Rightarrow> e)"

definition run_guard :: "session_config \<Rightarrow> session_row \<Rightarrow> string \<Rightarrow> unit ledger_prog" where
  "run_guard cfg session harness =
    (case sc_guards cfg harness of
       None \<Rightarrow> preturn ()
     | Some outcome \<Rightarrow>
         pbind (read_store (\<lambda>d. find_workspace d (se_workspace session))) (\<lambda>w.
         pseq (raise_if ((case w of None \<Rightarrow> [] | Some r \<Rightarrow> ws_env r) \<noteq> ''local'')
           (server_error ''SESSION_STORE_GUARD_UNAVAILABLE''
             (''the shared session store of this family lives on a remote machine and cannot be guarded here'') 409))
           (plift (map_sum guard_error id outcome))))"

definition switch_profile ::
  "session_config \<Rightarrow> string \<Rightarrow> string \<Rightarrow> int \<Rightarrow> string \<Rightarrow> string \<Rightarrow> (string \<times> json) ledger_prog" where
  "switch_profile cfg s profile_id expected request digest =
    (let scope = ''sessions.switchProfile:'' @ s in
    once scope request digest (\<lambda>receipt. preturn (''replay'', snd receipt))
    (pbind (fetch_row (\<lambda>d. find_session d s) session_missing) (\<lambda>session.
     pseq (raise_if (se_version session \<noteq> expected)
       (version_error ''Session changed before the role switch'' (session_json session)))
     (pbind (fetch_row (\<lambda>d. find_profile d profile_id) profile_missing) (\<lambda>target.
     pseq (raise_if (pf_archived target \<noteq> None) (server_error ''PROFILE_ARCHIVED'' ''Profile is archived'' 409))
     (pbind (read_store (\<lambda>d. session_busy d s)) (\<lambda>busy.
     if busy then
       pbind (session_view s) (\<lambda>view.
       (let body = JDict [(''outcome'', JStr ''rejected''), (''reason'', JStr ''execution_running''), (''session'', view)] in
        pseq (idempotency_insert scope request digest 200 body) (preturn (''rejected'', body))))
     else
       pbind (read_store (\<lambda>d. if se_profile session = [] then None else find_profile d (se_profile session))) (\<lambda>current.
       pseq (raise_if (case current of None \<Rightarrow> False | Some c \<Rightarrow> pf_harness c \<noteq> pf_harness target)
         (server_error ''PROFILE_HARNESS_MISMATCH''
           (''A Session keeps its Harness family across a role switch; cross-family work starts as a new Session'') 409))
       (pbind (read_store (\<lambda>d. profile_busy d profile_id)) (\<lambda>target_busy.
       pseq (raise_if target_busy (server_error ''TURN_CONCURRENCY_CONFLICT''
         ''The target Profile already has an active execution'' 409))
       (pseq (run_guard cfg session (pf_harness target))
       (pbind now_utc (\<lambda>t.
       (let changed = (se_profile session \<noteq> profile_id) in
       pseq (exec_sql (update_sessions (\<lambda>r. se_id r = s) (\<lambda>r. r\<lparr>se_profile := profile_id,
           se_home := (if changed then None else se_home r),
           se_version := se_version r + 1, se_updated := t\<rparr>)))
       (pseq (if changed
           then pseq (append_session_event s None ''config.changed'' (JDict [(''effective_for'', JStr ''next_send'')])) (preturn ())
           else preturn ())
       (pbind (session_view s) (\<lambda>view.
       (let body = JDict [(''outcome'', JStr ''confirmed''), (''session'', view)] in
        pseq (idempotency_insert scope request digest 200 body) (preturn (''confirmed'', body))))))))))))))))))))"

section \<open>Turns\<close>

definition update_turn :: "string \<Rightarrow> (turn_row \<Rightarrow> turn_row) \<Rightarrow> unit ledger_prog" where
  "update_turn i f = pseq (exec_sql (update_turns (\<lambda>r. tn_id r = i) f)) (preturn ())"

definition session_set :: "string \<Rightarrow> (session_row \<Rightarrow> session_row) \<Rightarrow> unit ledger_prog" where
  "session_set s f = pseq (exec_sql (update_sessions (\<lambda>r. se_id r = s) f)) (preturn ())"

definition profile_set :: "string \<Rightarrow> (profile_row \<Rightarrow> profile_row) \<Rightarrow> unit ledger_prog" where
  "profile_set p f = pseq (exec_sql (update_profiles (\<lambda>r. pf_id r = p) f)) (preturn ())"

definition settle_profile_after_turn ::
  "string \<Rightarrow> string \<Rightarrow> datetime \<Rightarrow> int option \<Rightarrow> bool ledger_prog" where
  "settle_profile_after_turn p turn t recovery =
    pbind (read_store (\<lambda>d. list_ex (\<lambda>r. tn_profile r = p \<and> tn_id r \<noteq> turn \<and> active_turn r) (l_turns d))) (\<lambda>other.
    if other then preturn False
    else pseq (profile_set p (\<lambda>r. r\<lparr>pf_run := ''idle'',
             pf_recovery := (case recovery of None \<Rightarrow> pf_recovery r | Some v \<Rightarrow> v), pf_updated := t\<rparr>))
         (preturn True))"

definition turn_order :: "turn_row \<Rightarrow> (int \<times> bool \<times> int) \<times> string" where
  "turn_order r = (iso_key (tn_created r), tn_id r)"

definition seal_turn :: "datetime \<Rightarrow> turn_row \<Rightarrow> unit ledger_prog" where
  "seal_turn t row =
    pseq (update_turn (tn_id row) (\<lambda>r. r\<lparr>tn_state := ''unknown'', tn_capture := ''unknown'',
        tn_cleanup := ''unknown'', tn_error := Some ''SERVER_RESTART_INTERRUPTED'', tn_updated := t\<rparr>))
    (pseq (session_set (tn_session row) (\<lambda>r. r\<lparr>se_status := ''recovery_required'', se_updated := t\<rparr>))
    (pseq (settle_profile_after_turn (tn_profile row) (tn_id row) t (Some 1))
    (let data = JDict [(''state'', JStr ''unknown''), (''error_code'', JStr ''SERVER_RESTART_INTERRUPTED'')] in
    pseq (append_session_event (tn_session row) (Some (tn_id row)) ''turn.capture'' data)
    (pseq (append_session_event (tn_session row) (Some (tn_id row)) ''turn.state'' data)
      (preturn ())))))"

definition seal_interrupted_turns :: "nat ledger_prog" where
  "seal_interrupted_turns =
    transaction
    (pbind (read_store (\<lambda>d. sort_key turn_order (filter active_turn (l_turns d)))) (\<lambda>rows.
     pbind now_utc (\<lambda>t.
     pseq (for_each (seal_turn t) rows) (preturn (length rows)))))"

definition get_turn_filing :: "string \<Rightarrow> turn_row ledger_prog" where
  "get_turn_filing i = fetch_row (\<lambda>d. find_turn d i) turn_missing"

definition set_turn_dispatch ::
  "string \<Rightarrow> string \<Rightarrow> string \<Rightarrow> string \<Rightarrow> string \<Rightarrow> session_event ledger_prog" where
  "set_turn_dispatch i work execution dispatch st =
    transaction
    (pbind (fetch_row (\<lambda>d. find_turn d i) turn_missing) (\<lambda>row.
     pbind now_utc (\<lambda>t.
     pseq (update_turn i (\<lambda>r. r\<lparr>tn_work := Some work, tn_exec := Some execution,
         tn_dispatch := Some dispatch, tn_state := st, tn_updated := t\<rparr>))
     (append_session_event (tn_session row) (Some i) ''turn.state'' (JDict [(''state'', JStr st)])))))"

definition file_core_records :: "session_config \<Rightarrow> string \<Rightarrow> unit ledger_prog" where
  "file_core_records cfg i =
    (case sc_filer cfg of
       None \<Rightarrow> preturn ()
     | Some filer \<Rightarrow>
         pbind (get_turn_filing i) (\<lambda>filing.
         if tn_work filing \<noteq> None \<or> tn_dispatch filing \<noteq> None then preturn ()
         else
           (let key = (case tn_key filing of Some k \<Rightarrow> if k = [] then ''execution:'' @ i else k
                       | None \<Rightarrow> ''execution:'' @ i) in
           pbind (plift (filer i (tn_session filing) key)) (\<lambda>receipt.
           pseq (set_turn_dispatch i (rp_work receipt) (rp_execution receipt) (rp_dispatch receipt) ''accepted'')
             (preturn ())))))"

definition append_turn_event :: "string \<Rightarrow> string \<Rightarrow> json \<Rightarrow> session_event ledger_prog" where
  "append_turn_event i kind data =
    transaction
    (pbind (fetch_row (\<lambda>d. find_turn d i) turn_missing) (\<lambda>row.
      append_session_event (tn_session row) (Some i) kind data))"

definition mark_turn_cleanup :: "string \<Rightarrow> string \<Rightarrow> unit ledger_prog" where
  "mark_turn_cleanup i st =
    transaction (pbind now_utc (\<lambda>t. update_turn i (\<lambda>r. r\<lparr>tn_cleanup := st, tn_updated := t\<rparr>)))"

datatype turn_reply = Reply_row turn_row | Reply_event session_event

definition record_cancel_request :: "string \<Rightarrow> turn_reply ledger_prog" where
  "record_cancel_request i =
    transaction
    (pbind (fetch_row (\<lambda>d. find_turn d i) turn_missing) (\<lambda>row.
     if tn_state row \<notin> set active_states then preturn (Reply_row row)
     else
       pbind now_utc (\<lambda>t.
       pseq (update_turn i (\<lambda>r. r\<lparr>tn_stop := or_else (tn_stop r) (Some t), tn_updated := t\<rparr>))
       (pbind (append_session_event (tn_session row) (Some i) ''turn.state''
           (JDict [(''state'', JStr (tn_state row)), (''cancel_requested'', JBool True)])) (\<lambda>e.
        preturn (Reply_event e))))))"

text \<open>The queue's share of a turn's end: the turn's own item and the pending ones.\<close>

definition settle_queue :: "queue \<Rightarrow> turn_row \<Rightarrow> string \<Rightarrow> string \<Rightarrow> unit ledger_prog" where
  "settle_queue queue row st reason =
    (case queue of
       None \<Rightarrow> preturn ()
     | Some objects \<Rightarrow>
         pseq (case tn_item row of None \<Rightarrow> preturn ()
             | Some item \<Rightarrow> pseq (mark_terminal objects item st) (preturn ()))
         (pseq (pause_pending objects (tn_session row) reason) (preturn ())))"

definition finish_cancelled ::
  "queue \<Rightarrow> string \<Rightarrow> string option \<Rightarrow> string option \<Rightarrow> string option \<Rightarrow> string option \<Rightarrow> string option \<Rightarrow>
     turn_reply ledger_prog" where
  "finish_cancelled queue i reason checkpoint native platform home =
    transaction
    (pbind (fetch_row (\<lambda>d. find_turn d i) turn_missing) (\<lambda>row.
     if tn_state row \<in> set terminal_states then preturn (Reply_row row)
     else
       pbind now_utc (\<lambda>t.
       pseq (update_turn i (\<lambda>r. r\<lparr>tn_state := ''cancelled'',
           tn_capture := (case checkpoint of Some (c # cs) \<Rightarrow> ''captured'' | _ \<Rightarrow> ''not-captured''),
           tn_error := Some ''TURN_CANCELLED'', tn_reason := or_else reason (tn_reason r), tn_updated := t\<rparr>))
       (pseq (session_set (tn_session row) (\<lambda>r. r\<lparr>se_status := ''ready'',
           se_checkpoint := or_else checkpoint (se_checkpoint r), se_native := or_else native (se_native r),
           se_platform := or_else platform (se_platform r), se_home := or_else home (se_home r), se_updated := t\<rparr>))
       (pseq (settle_profile_after_turn (tn_profile row) i t None)
       (pseq (settle_queue queue row ''cancelled'' ''cancelled'')
       (pbind (append_session_event (tn_session row) (Some i) ''turn.state''
           (JDict [(''state'', JStr ''cancelled''), (''error_code'', JStr ''TURN_CANCELLED'')])) (\<lambda>e.
        preturn (Reply_event e)))))))))"

definition fail_turn :: "queue \<Rightarrow> string \<Rightarrow> string \<Rightarrow> string \<Rightarrow> turn_reply ledger_prog" where
  "fail_turn queue i code capture =
    transaction
    (pbind (fetch_row (\<lambda>d. find_turn d i) turn_missing) (\<lambda>row.
     if tn_state row \<in> set terminal_states then preturn (Reply_row row)
     else
       (let st = (if code \<in> set [''WORKER_DISCONNECTED'', ''DISPATCH_AMBIGUOUS''] then ''unknown'' else ''failed'');
            recovery = (st = ''unknown'' \<or> tn_state row \<in> set [''running'', ''capturing''] \<and> capture = ''failed'');
            short = take 128 code in
       pbind now_utc (\<lambda>t.
       pseq (update_turn i (\<lambda>r. r\<lparr>tn_state := st, tn_capture := capture, tn_error := Some short, tn_updated := t\<rparr>))
       (pseq (session_set (tn_session row) (\<lambda>r. r\<lparr>
           se_status := (if recovery then ''recovery_required'' else ''ready''), se_updated := t\<rparr>))
       (pseq (settle_profile_after_turn (tn_profile row) i t (Some (if recovery then 1 else 0)))
       (pseq (settle_queue queue row ''failed'' code)
       (pseq (append_session_event (tn_session row) (Some i) ''turn.capture''
           (JDict [(''state'', JStr capture), (''error_code'', JStr short)]))
       (pbind (append_session_event (tn_session row) (Some i) ''turn.state''
           (JDict [(''state'', JStr st), (''error_code'', JStr short)])) (\<lambda>e.
        preturn (Reply_event e)))))))))))"

section \<open>Completion\<close>

text \<open>A dict argument is falsy when it is None or empty.\<close>

definition usage_given :: "(string \<times> json) list option \<Rightarrow> bool" where
  "usage_given usage = (case usage of None \<Rightarrow> False | Some kvs \<Rightarrow> kvs \<noteq> [])"

definition usage_items :: "(string \<times> json) list option \<Rightarrow> (string \<times> json) list" where
  "usage_items usage = (case usage of None \<Rightarrow> [] | Some kvs \<Rightarrow> kvs)"

text \<open>\<open>usage.get(k)\<close> as a column: \<open>None\<close> is NULL.\<close>

definition usage_column :: "(string \<times> json) list option \<Rightarrow> string \<Rightarrow> json option" where
  "usage_column usage k = (case map_of (usage_items usage) k of Some JNull \<Rightarrow> None | v \<Rightarrow> v)"

text \<open>\<open>{"turnId": turn_id, "usageSource": usage_source, **usage}\<close>\<close>

definition latest_usage :: "string \<Rightarrow> (string \<times> json) list option \<Rightarrow> string option \<Rightarrow> json option" where
  "latest_usage i usage source =
    (if usage_given usage then Some (json_sorted (JDict (fold (\<lambda>(k, v). dict_put k v) (usage_items usage)
       [(''turnId'', JStr i), (''usageSource'', str_or_null source)])))
     else None)"

definition complete_row ::
  "string \<Rightarrow> (string \<times> json) list option \<Rightarrow> string option \<Rightarrow> string option \<Rightarrow> string option \<Rightarrow> datetime \<Rightarrow>
     turn_row \<Rightarrow> turn_row" where
  "complete_row result usage source changes reason t r =
    r\<lparr>tn_state := ''completed'', tn_capture := ''captured'', tn_cleanup := ''pending'',
      tn_result := Some result, tn_updated := t,
      tn_usage := (if usage_given usage then
          (usage_column usage ''inputTokens'', usage_column usage ''outputTokens'',
           usage_column usage ''totalTokens'') else tn_usage r),
      tn_usage_source := (if usage_given usage then source else tn_usage_source r),
      tn_changes := (case changes of Some (c # cs) \<Rightarrow> changes | _ \<Rightarrow> tn_changes r),
      tn_reason := or_else reason (tn_reason r)\<rparr>"

text \<open>The successor adopted from the queue.\<close>

definition adopt_next :: "session_config \<Rightarrow> objects \<Rightarrow> string \<Rightarrow> string option ledger_prog" where
  "adopt_next cfg objects s =
    pbind (claim_next objects s) (\<lambda>item.
    case item of
      None \<Rightarrow> preturn None
    | Some it \<Rightarrow>
        (let r = it_row it in
        pbind (fetch_row (\<lambda>d. find_profile d (qi_profile r))
            (server_error ''PROFILE_NOT_FOUND'' ''Queued Profile was not found'' 404)) (\<lambda>profile.
        pbind (accept_execution cfg s profile (qi_config r) (qi_message r) (qi_effective r) (Some (qi_id r))) (\<lambda>x.
        preturn (Some x)))))"

definition complete_commit ::
  "session_config \<Rightarrow> queue \<Rightarrow> turn_row \<Rightarrow> string \<Rightarrow> string \<Rightarrow> string \<Rightarrow> string option \<Rightarrow> string option \<Rightarrow>
     (string \<times> json) list option \<Rightarrow> string option \<Rightarrow> string option \<Rightarrow> string option \<Rightarrow>
     (turn_row \<times> session_event \<times> string option) ledger_prog" where
  "complete_commit cfg queue row checkpoint native result platform home usage source changes reason =
    (let i = tn_id row; latest = latest_usage i usage source in
    pbind now_utc (\<lambda>t.
    pseq (update_turn i (complete_row result usage source changes reason t))
    (pseq (session_set (tn_session row) (\<lambda>r. r\<lparr>se_status := ''ready'', se_checkpoint := Some checkpoint,
        se_native := Some native, se_platform := or_else platform (se_platform r),
        se_home := or_else home (se_home r), se_usage := or_else latest (se_usage r), se_updated := t\<rparr>))
    (pseq (profile_set (tn_profile row) (\<lambda>r. r\<lparr>pf_generation := pf_generation r + 1, pf_updated := t\<rparr>))
    (pseq (settle_profile_after_turn (tn_profile row) i t None)
    (pseq (if latest = None then preturn ()
        else pseq (append_session_event (tn_session row) (Some i) ''usage.updated''
            (JDict [(''turn_id'', JStr i), (''usage'', JDict (usage_items usage))])) (preturn ()))
    (pbind (append_session_event (tn_session row) (Some i) ''turn.capture''
        (JDict [(''state'', JStr ''captured''), (''checkpoint_native_id'', JStr native),
          (''checkpoint_object_digest'', JStr checkpoint), (''result_object_digest'', JStr result)])) (\<lambda>event.
    pseq (append_session_event (tn_session row) (Some i) ''turn.state'' (JDict [(''state'', JStr ''completed'')]))
    (pbind (case queue of
        None \<Rightarrow> preturn None
      | Some objects \<Rightarrow>
          pseq (case tn_item row of None \<Rightarrow> preturn ()
              | Some item \<Rightarrow> pseq (mark_terminal objects item ''completed'') (preturn ()))
            (adopt_next cfg objects (tn_session row))) (\<lambda>next.
    pbind (fetch_row (\<lambda>d. find_turn d i) none_error) (\<lambda>updated.
      preturn (updated, event, next))))))))))))"

text \<open>The reply of a repeated completion: the row and the last capture event of the turn.\<close>

definition last_capture :: "string \<Rightarrow> ledger \<Rightarrow> session_event option" where
  "last_capture i d = (case rev (sort_key sv_seq
       (filter (\<lambda>e. sv_turn e = Some i \<and> sv_kind e = ''turn.capture'') (l_events d))) of
     [] \<Rightarrow> None | e # _ \<Rightarrow> Some e)"

definition complete_turn ::
  "session_config \<Rightarrow> queue \<Rightarrow> string \<Rightarrow> string \<Rightarrow> string \<Rightarrow> string \<Rightarrow> string option \<Rightarrow> string option \<Rightarrow>
     (string \<times> json) list option \<Rightarrow> string option \<Rightarrow> string option \<Rightarrow> string option \<Rightarrow>
     (turn_row \<times> session_event \<times> string option) ledger_prog" where
  "complete_turn cfg queue i checkpoint native result platform home usage source changes reason =
    pbind (transaction
      (pbind (fetch_row (\<lambda>d. find_turn d i) turn_missing) (\<lambda>row.
       if tn_state row = ''completed'' then
         pbind (fetch_row (last_capture i)
             (err TypeError (py_repr ''NoneType'' @ '' object is not iterable''))) (\<lambda>e. preturn (row, e, None))
       else if tn_state row \<notin> set [''running'', ''capturing''] then
         praise (server_error ''TURN_STATE_CONFLICT'' ''Turn cannot complete from its current state'' 409)
       else complete_commit cfg queue row checkpoint native result platform home usage source changes reason)))
    (\<lambda>(row, event, next).
      pseq (case next of None \<Rightarrow> preturn () | Some x \<Rightarrow> file_core_records cfg x)
        (preturn (row, event, next)))"

section \<open>Reads\<close>

text \<open>The walk up \<open>parent_turn_id\<close>; \<open>fuel\<close> bounds it, and one more step than there are turns
  is enough because a turn is visited once.\<close>

fun ancestry :: "nat \<Rightarrow> ledger \<Rightarrow> string list \<Rightarrow> string option \<Rightarrow> string list" where
  "ancestry 0 d visited current = []"
| "ancestry (Suc n) d visited current =
    (case current of
       None \<Rightarrow> []
     | Some c \<Rightarrow>
         if c \<in> set visited then []
         else (case find_turn d c of
             None \<Rightarrow> []
           | Some r \<Rightarrow> tn_profile r # ancestry n d (c # visited) (tn_parent r)))"

definition turn_ancestry_profile_ids :: "string \<Rightarrow> string list ledger_prog" where
  "turn_ancestry_profile_ids i =
    read_store (\<lambda>d. rev (ancestry (Suc (length (l_turns d))) d [] (Some i)))"

definition live_child_turn_ids :: "string \<Rightarrow> string list ledger_prog" where
  "live_child_turn_ids parent =
    read_store (\<lambda>d. map tn_id (filter (\<lambda>r. tn_parent r = Some parent \<and> active_turn r) (l_turns d)))"

definition events_after :: "string \<Rightarrow> int \<Rightarrow> nat \<Rightarrow> ledger \<Rightarrow> session_event list" where
  "events_after s after limit d =
    take limit (sort_key sv_seq (filter (\<lambda>e. after < sv_seq e) (session_events d s)))"

definition list_session_events :: "string \<Rightarrow> int \<Rightarrow> nat \<Rightarrow> session_event list ledger_prog" where
  "list_session_events s after limit =
    pseq (require_session s)
    (pbind (read_store (\<lambda>d. max_seq d s)) (\<lambda>maximum.
     pseq (raise_if (maximum < after)
       (server_error ''EVENT_CURSOR_AHEAD'' ''Event cursor is beyond current history'' 409))
       (read_store (events_after s after limit))))"

definition history_page ::
  "string \<Rightarrow> int option \<Rightarrow> int option \<Rightarrow> nat \<Rightarrow> (session_event list \<times> int \<times> bool) ledger_prog" where
  "history_page s after before limit =
    pseq (raise_if (after \<noteq> None \<and> before \<noteq> None) (err ValueError ''history directions are mutually exclusive''))
    (pseq (require_session s)
    (pbind (read_store (\<lambda>d. max_seq d s)) (\<lambda>head.
     case after of
       Some a \<Rightarrow>
         pseq (raise_if (head < a)
           (server_error ''EVENT_CURSOR_AHEAD'' ''Event cursor is beyond current history'' 409))
         (pbind (read_store (events_after s a limit)) (\<lambda>rows. preturn (rows, head, False)))
     | None \<Rightarrow>
         (let boundary = (case before of None \<Rightarrow> head + 1 | Some b \<Rightarrow> b) in
         pseq (raise_if (head + 1 < boundary)
           (server_error ''EVENT_CURSOR_AHEAD'' ''History page cursor is beyond current history'' 409))
         (pbind (read_store (\<lambda>d. rev (take limit (rev (sort_key sv_seq
             (filter (\<lambda>e. sv_seq e < boundary) (session_events d s))))))) (\<lambda>rows.
          (let earliest = (case rows of [] \<Rightarrow> boundary | r # _ \<Rightarrow> sv_seq r) in
          pbind (read_store (\<lambda>d. list_ex (\<lambda>e. sv_seq e < earliest) (session_events d s))) (\<lambda>older.
            preturn (rows, head, older)))))))))"

definition turn_message_deltas :: "string \<Rightarrow> string list ledger_prog" where
  "turn_message_deltas i =
    read_store (\<lambda>d. map (\<lambda>e. case body_get (sv_data e) ''text'' of
        None \<Rightarrow> [] | Some v \<Rightarrow> (if v \<in> set [JNull, JBool False, JInt 0, JStr [], JList [], JDict []] then [] else py_str v))
      (sort_key sv_seq (filter (\<lambda>e. sv_turn e = Some i \<and> sv_kind e = ''message.delta'') (l_events d))))"

text \<open>\<open>get_turn_context\<close> selects columns of the turn, its session, its profile and its workspace;
  the join gives the four rows.\<close>

definition turn_context :: "ledger \<Rightarrow> string \<Rightarrow> (turn_row \<times> session_row \<times> profile_row \<times> workspace_row) option" where
  "turn_context d i =
    (case find_turn d i of None \<Rightarrow> None
     | Some t \<Rightarrow> (case (find_session d (tn_session t), find_profile d (tn_profile t)) of
         (Some s, Some p) \<Rightarrow> (case find_workspace d (se_workspace s) of
             None \<Rightarrow> None | Some w \<Rightarrow> Some (t, s, p, w))
       | _ \<Rightarrow> None))"

definition get_turn_context :: "string \<Rightarrow> (turn_row \<times> session_row \<times> profile_row \<times> workspace_row) ledger_prog" where
  "get_turn_context i = fetch_row (\<lambda>d. turn_context d i) turn_missing"

definition raw_events :: "string \<Rightarrow> int \<Rightarrow> nat \<Rightarrow> session_event list ledger_prog" where
  "raw_events s after limit =
    pseq (require_session s)
    (pbind (read_store (\<lambda>d. max_seq d s)) (\<lambda>maximum.
     pseq (raise_if (maximum < after)
       (server_error ''EVENT_CURSOR_AHEAD'' ''Event cursor is beyond current history'' 409))
       (read_store (events_after s after limit))))"

definition turn_summary :: "turn_row \<Rightarrow> json" where
  "turn_summary t = JDict
    [(''id'', JStr (tn_id t)), (''state'', JStr (tn_state t)), (''capture_state'', JStr (tn_capture t)),
     (''cleanup_state'', JStr (tn_cleanup t)), (''profile_revision'', JInt (tn_revision t)),
     (''native_generation'', JInt (tn_generation t)), (''work_id'', str_or_null (tn_work t)),
     (''execution_id'', str_or_null (tn_exec t)), (''dispatch_id'', str_or_null (tn_dispatch t)),
     (''result_object_digest'', str_or_null (tn_result t)), (''error_code'', str_or_null (tn_error t)),
     (''stop_requested_at'', time_or_null (tn_stop t)), (''created_at'', time_json (tn_created t))]"

definition event_summary :: "session_event \<Rightarrow> json" where
  "event_summary e = JDict
    [(''seq'', JInt (sv_seq e)), (''event_id'', JStr (sv_id e)), (''turn_id'', str_or_null (sv_turn e)),
     (''kind'', JStr (sv_kind e)), (''schema_version'', JInt 1), (''created_at'', time_json (sv_at e)),
     (''data'', sv_data e)]"

definition get_session :: "string \<Rightarrow> nat \<Rightarrow> json ledger_prog" where
  "get_session s limit =
    pbind (fetch_row (\<lambda>d. find_session d s) session_missing) (\<lambda>r.
    pbind (read_store (\<lambda>d. take limit (sort_key turn_order (filter (\<lambda>t. tn_session t = s) (l_turns d))))) (\<lambda>turns.
    pbind (read_store (\<lambda>d. take limit (sort_key sv_seq (session_events d s)))) (\<lambda>events.
    preturn (JDict
      [(''session_id'', JStr (se_id r)), (''workspace_id'', JStr (se_workspace r)),
       (''profile_id'', JStr (se_profile r)), (''status'', JStr (se_status r)),
       (''version'', JInt (if se_version r = 0 then 1 else se_version r)),
       (''display_name'', str_or_null (se_name r)), (''pinned'', JBool (se_pinned r \<noteq> 0)),
       (''archived_at'', time_or_null (se_archived r)),
       (''checkpoint'', (case se_checkpoint r of
            Some (c # cs) \<Rightarrow> JDict [(''object_digest'', JStr (c # cs)), (''native_id'', str_or_null (se_native r))]
          | _ \<Rightarrow> JNull)),
       (''turns'', JList (map turn_summary turns)), (''events'', JList (map event_summary events)),
       (''created_at'', time_json (se_created r)), (''updated_at'', time_json (se_updated r))]))))"

end
