(* ===== verification/Ledger_Laws.thy ===== *)
theory Ledger_Laws
  imports Turn_Records "HOL-Library.Sublist"
begin

text \<open>
  The ledger as a state machine. \<open>ledger_op\<close> lists the state-changing operations and
  \<open>ledger_steps\<close> their sequences. The locale \<open>ledger_law\<close> asks of a relation on ledgers one
  law per kind of write (an event appended with the next numbers, a row added, a row moved
  along its life cycle) and proves once that every operation, on every branch, stays within
  the relation and keeps the ledger well formed. The invariants of the claims are its
  interpretations.
\<close>

section \<open>Well-formed ledgers\<close>

definition keys_ok :: "ledger \<Rightarrow> bool" where
  "keys_ok d \<longleftrightarrow> distinct (map se_id (l_sessions d)) \<and> distinct (map pf_id (l_profiles d)) \<and>
     distinct (map tn_id (l_turns d)) \<and> distinct (map qi_id (l_items d)) \<and>
     distinct (map ap_id (l_approvals d))"

text \<open>The log of a session is numbered without gaps, and so are the events a client sees.\<close>

definition log_numbered :: "session_event list \<Rightarrow> bool" where
  "log_numbered es \<longleftrightarrow> map sv_seq es = [1..int (length es)] \<and>
     List.map_filter sv_wire es = [1..int (length (filter (\<lambda>e. sv_kind e \<in> set wire_visible_kinds) es))] \<and>
     list_all (\<lambda>e. (sv_wire e \<noteq> None) = (sv_kind e \<in> set wire_visible_kinds)) es"

definition sound :: "ledger \<Rightarrow> bool" where
  "sound d \<longleftrightarrow> keys_ok d \<and> one_active (l_turns d) \<and> (\<forall>s. log_numbered (session_events d s))"

definition guarded :: "(ledger \<Rightarrow> ledger \<Rightarrow> bool) \<Rightarrow> ledger \<Rightarrow> ledger \<Rightarrow> bool" where
  "guarded R d d' \<longleftrightarrow> (sound d \<longrightarrow> sound d' \<and> R d d')"

lemma same_key: "distinct (map k xs) \<Longrightarrow> x \<in> set xs \<Longrightarrow> y \<in> set xs \<Longrightarrow> k x = k y \<Longrightarrow> x = y"
  by (auto simp: distinct_map dest: inj_onD)

lemma find_key_None: "find (\<lambda>r. k r = a) xs = None \<longleftrightarrow> a \<notin> k ` set xs"
  by (auto simp: find_None_iff)

lemma pbind_preturn: "pbind (preturn x) k = k x"
  by (rule ext) (simp add: pbind_def preturn_def)

lemma upto_snoc: "[1..1 + int n] = [1..int n] @ [1 + int n]"
  "[1..int n + 1] = [1..int n] @ [int n + 1]"
  by (simp_all add: upto_rec2)

lemma fold_max_upto: "1 \<le> n \<Longrightarrow> fold max [a..n] m = (if a \<le> n then max m n else (m::int))"
proof (induction "nat (n + 1 - a)" arbitrary: a m)
  case 0
  then show ?case by simp
next
  case (Suc k)
  then have "a \<le> n" by simp
  with Suc(1) [of "a + 1" "max a m"] Suc(2) Suc.prems show ?case
    by (simp add: upto_rec1) arith
qed

lemma sql_max_upto: "sql_max [1..int n] = int n"
proof (cases n)
  case 0
  then show ?thesis by (simp add: sql_max_def)
next
  case (Suc k)
  then have "[1..int n] = 1 # [2..int n]" by (simp add: upto_rec1)
  with Suc show ?thesis by (simp add: sql_max_def fold_max_upto)
qed

lemma map_filter_append: "List.map_filter f (xs @ ys) = List.map_filter f xs @ List.map_filter f ys"
  by (simp add: List.map_filter_def)

section \<open>Moves\<close>

definition next_event :: "ledger \<Rightarrow> session_event \<Rightarrow> bool" where
  "next_event d e \<longleftrightarrow> sv_seq e = max_seq d (sv_session e) + 1 \<and>
     sv_wire e = (if sv_kind e \<in> set wire_visible_kinds then Some (max_wire d (sv_session e) + 1) else None)"

text \<open>A turn that ended keeps everything but the outcome of its cleanup.\<close>

definition turn_fixed :: "turn_row \<Rightarrow> turn_row" where
  "turn_fixed t = t\<lparr>tn_cleanup := [], tn_updated := utc_time 0\<rparr>"

definition turn_move :: "turn_row \<Rightarrow> turn_row \<Rightarrow> bool" where
  "turn_move t t' \<longleftrightarrow> tn_id t' = tn_id t \<and> tn_session t' = tn_session t \<and> tn_profile t' = tn_profile t \<and>
     (tn_state t \<in> set terminal_states \<longrightarrow> turn_fixed t' = turn_fixed t)"

definition item_edges :: "(string \<times> string) list" where
  "item_edges = [(''pending'', ''dispatched''), (''pending'', ''withdrawn''), (''pending'', ''paused''),
     (''dispatched'', ''completed''), (''dispatched'', ''failed''), (''dispatched'', ''cancelled'')]"

text \<open>What the submitter froze stays; the state moves along an edge and the version counts it.\<close>

definition item_fixed :: "item_row \<Rightarrow> item_row" where
  "item_fixed q = q\<lparr>qi_state := [], qi_version := 0, qi_pause := None, qi_updated := utc_time 0\<rparr>"

definition item_move :: "item_row \<Rightarrow> item_row \<Rightarrow> bool" where
  "item_move q q' \<longleftrightarrow>
     item_fixed q' = item_fixed q \<and> qi_version q' = qi_version q + 1 \<and>
     (qi_state q, qi_state q') \<in> set item_edges"

definition approval_move :: "approval_row \<Rightarrow> approval_row \<Rightarrow> bool" where
  "approval_move a a' \<longleftrightarrow> ap_state a = ''open'' \<and> ap_id a' = ap_id a \<and> ap_session a' = ap_session a \<and>
     ap_exec a' = ap_exec a \<and> ap_version a' = ap_version a + 1 \<and>
     (ap_state a' = ''settled'' \<and> ap_decision a' \<noteq> None \<or> ap_state a' = ''invalid'' \<and> ap_decision a' = ap_decision a)"

lemma turn_move_id: "turn_move t t' \<Longrightarrow> tn_id t' = tn_id t" by (simp add: turn_move_def)

lemma item_fixed_id: "item_fixed q' = item_fixed q \<Longrightarrow> qi_id q' = qi_id q"
  by (drule arg_cong [where f = qi_id]) (simp add: item_fixed_def)

lemma item_move_id: "item_move q q' \<Longrightarrow> qi_id q' = qi_id q"
  by (rule item_fixed_id) (simp add: item_move_def)

lemma approval_move_id: "approval_move a a' \<Longrightarrow> ap_id a' = ap_id a" by (simp add: approval_move_def)

lemma sound_event:
  assumes "sound d" "next_event d e"
  shows "sound (d\<lparr>l_events := l_events d @ [e]\<rparr>)"
proof -
  have "log_numbered (session_events (d\<lparr>l_events := l_events d @ [e]\<rparr>) s)" for s
  proof (cases "sv_session e = s")
    case False
    with assms(1) show ?thesis by (simp add: sound_def session_events_def)
  next
    case True
    let ?es = "session_events d s" and ?v = "\<lambda>e. sv_kind e \<in> set wire_visible_kinds"
    from assms(1) have old: "log_numbered ?es" by (simp add: sound_def)
    then have seq: "max_seq d s = int (length ?es)" and wire: "max_wire d s = int (length (filter ?v ?es))"
      by (simp_all add: max_seq_def max_wire_def log_numbered_def sql_max_upto)
    have new: "session_events (d\<lparr>l_events := l_events d @ [e]\<rparr>) s = ?es @ [e]"
      using True by (simp add: session_events_def)
    have e: "sv_seq e = int (length ?es) + 1"
      "sv_wire e = (if ?v e then Some (int (length (filter ?v ?es)) + 1) else None)"
      using assms(2) True seq wire by (simp_all add: next_event_def)
    have "map sv_seq (?es @ [e]) = [1..int (length (?es @ [e]))]"
      using old e(1) by (simp add: log_numbered_def upto_snoc)
    moreover have "List.map_filter sv_wire (?es @ [e]) = [1..int (length (filter ?v (?es @ [e])))]"
      using old e(2) by (auto simp: log_numbered_def map_filter_append upto_snoc List.map_filter_def)
    moreover have "list_all (\<lambda>e. (sv_wire e \<noteq> None) = ?v e) (?es @ [e])"
      using old e(2) by (simp add: log_numbered_def)
    ultimately show ?thesis unfolding new log_numbered_def by blast
  qed
  with assms(1) show ?thesis by (simp add: sound_def keys_ok_def)
qed

text \<open>The other writes leave the log alone.\<close>

lemma sound_same_log:
  "sound d \<Longrightarrow> keys_ok d' \<Longrightarrow> one_active (l_turns d') \<Longrightarrow> l_events d' = l_events d \<Longrightarrow> sound d'"
  by (simp add: sound_def session_events_def)

lemma keys_okD:
  assumes "keys_ok d"
  shows "distinct (map se_id (l_sessions d))" "distinct (map pf_id (l_profiles d))"
    "distinct (map tn_id (l_turns d))" "distinct (map qi_id (l_items d))" "distinct (map ap_id (l_approvals d))"
  using assms by (simp_all add: keys_ok_def)

section \<open>The laws\<close>

locale ledger_law =
  fixes R :: "ledger \<Rightarrow> ledger \<Rightarrow> bool"
  assumes law_refl: "R d d"
    and law_trans: "R a b \<Longrightarrow> R b c \<Longrightarrow> R a c"
    and law_event: "sound d \<Longrightarrow> next_event d e \<Longrightarrow> R d (d\<lparr>l_events := l_events d @ [e]\<rparr>)"
    and law_receipt: "sound d \<Longrightarrow> find_receipt d (im_scope r) (im_key r) = None \<Longrightarrow>
      R d (d\<lparr>l_idempotency := l_idempotency d @ [r]\<rparr>)"
    and law_session: "sound d \<Longrightarrow> R d (d\<lparr>l_sessions := l_sessions d @ [s]\<rparr>)"
    and law_sessions: "sound d \<Longrightarrow> map se_id ss = map se_id (l_sessions d) \<Longrightarrow> R d (d\<lparr>l_sessions := ss\<rparr>)"
    and law_profiles: "sound d \<Longrightarrow> map pf_id ps = map pf_id (l_profiles d) \<Longrightarrow> R d (d\<lparr>l_profiles := ps\<rparr>)"
    and law_turn: "sound d \<Longrightarrow> find_turn d (tn_id t) = None \<Longrightarrow> R d (d\<lparr>l_turns := l_turns d @ [t]\<rparr>)"
    and law_turns: "sound d \<Longrightarrow> (\<And>t. t \<in> set (l_turns d) \<Longrightarrow> p t \<Longrightarrow> turn_move t (f t)) \<Longrightarrow>
      R d (d\<lparr>l_turns := update_where p f (l_turns d)\<rparr>)"
    and law_item: "sound d \<Longrightarrow> find_item d (qi_id q) = None \<Longrightarrow> R d (d\<lparr>l_items := l_items d @ [q]\<rparr>)"
    and law_items: "sound d \<Longrightarrow> (\<And>q. q \<in> set (l_items d) \<Longrightarrow> p' q \<Longrightarrow> item_move q (f' q)) \<Longrightarrow>
      R d (d\<lparr>l_items := update_where p' f' (l_items d)\<rparr>)"
    and law_approval: "sound d \<Longrightarrow> find_approval d (ap_id a') = None \<Longrightarrow> R d (d\<lparr>l_approvals := l_approvals d @ [a']\<rparr>)"
    and law_approvals: "sound d \<Longrightarrow> (\<And>a. a \<in> set (l_approvals d) \<Longrightarrow> pa a \<Longrightarrow> approval_move a (fa a)) \<Longrightarrow>
      R d (d\<lparr>l_approvals := update_where pa fa (l_approvals d)\<rparr>)"
begin

lemma guarded_refl: "guarded R d d"
  by (simp add: guarded_def law_refl)

lemma guarded_trans: "guarded R a b \<Longrightarrow> guarded R b c \<Longrightarrow> guarded R a c"
  by (auto simp: guarded_def intro: law_trans)

end

sublocale ledger_law \<subseteq> ev: evolution "guarded R"
  by unfold_locales (rule guarded_refl, rule guarded_trans)

section \<open>Every statement is within the laws\<close>

context ledger_law begin

lemma guardedI: "(sound d \<Longrightarrow> sound d' \<and> R d d') \<Longrightarrow> guarded R d d'"
  by (simp add: guarded_def)

lemma insert_event_guarded:
  assumes "insert_session_event e d = Inr (x, d')" "next_event d e"
  shows "guarded R d d'"
  using assms
  by (auto simp: insert_session_event_def guarded_def sound_event law_event split: if_splits)

lemma within_append_event: "within (guarded R) (append_session_event s turn kind data)"
proof (rule ev.within_leads)
  fix d
  show "leads (guarded R) d (append_session_event s turn kind data)"
    unfolding append_session_event_def Let_def
  proof (intro leads_read leads_fresh leads_now)
    fix eid t
    show "leads (guarded R) d (pbind (if kind \<in> set wire_visible_kinds
        then read_store (\<lambda>d. Some (max_wire d s + 1)) else preturn None)
      (\<lambda>wire. pseq (exec_sql (insert_session_event (\<lparr>sv_session = s, sv_seq = max_seq d s + 1, sv_wire = wire,
          sv_id = eid, sv_turn = turn, sv_kind = kind, sv_data = data, sv_at = t\<rparr>\<lparr>sv_data := json_sorted data\<rparr>)))
        (preturn \<lparr>sv_session = s, sv_seq = max_seq d s + 1, sv_wire = wire, sv_id = eid, sv_turn = turn,
          sv_kind = kind, sv_data = data, sv_at = t\<rparr>)))"
    proof (cases "kind \<in> set wire_visible_kinds")
      case True
      then show ?thesis
        by (simp, intro leads_read ev.leads_pseq ev.leads_exec ev.within_preturn)
          (erule insert_event_guarded, simp add: next_event_def)
    next
      case False
      then show ?thesis
        by (simp add: pbind_preturn, intro ev.leads_pseq ev.leads_exec ev.within_preturn)
          (erule insert_event_guarded, simp add: next_event_def)
    qed
  qed
qed

lemma within_receipt: "within (guarded R) (idempotency_insert scope key digest status body)"
  unfolding idempotency_insert_def
proof (intro ev.within_pbind ev.within_now_utc ev.within_exec_sql)
  fix t d x d'
  assume "insert_receipt \<lparr>im_scope = scope, im_key = key, im_digest = digest, im_status = status,
      im_body = json_sorted body, im_at = t\<rparr> d = Inr (x, d')"
  then show "guarded R d d'"
    by (auto simp: insert_receipt_def guarded_def law_receipt keys_ok_def sound_def session_events_def
        split: if_splits)
qed

lemma within_check: "within (guarded R) (idempotency_check scope key digest)"
  unfolding idempotency_check_def
  by (intro ev.within_pbind ev.within_read_store ev.within_case_option ev.within_preturn ev.within_pseq
      ev.within_raise_if)

lemma within_once:
  "(\<And>x. within (guarded R) (replay x)) \<Longrightarrow> within (guarded R) fresh \<Longrightarrow>
     within (guarded R) (once scope key digest replay fresh)"
  unfolding once_def
  by (intro ev.within_transaction ev.within_pbind within_check ev.within_case_option)

lemma within_insert_session: "within (guarded R) (exec_sql (insert_session r))"
  by (rule ev.within_exec_sql)
    (auto simp: insert_session_def guarded_def law_session sound_def keys_ok_def session_events_def
      find_session_def find_key_None split: if_splits)

lemma within_update_sessions:
  assumes "\<And>r. se_id (f r) = se_id r"
  shows "within (guarded R) (exec_sql (update_sessions p f))"
proof (rule ev.within_exec_sql)
  fix d x d'
  assume u: "update_sessions p f d = Inr (x, d')"
  have same: "map se_id (update_where p f (l_sessions d)) = map se_id (l_sessions d)"
    by (rule map_update_where) (rule assms)
  from u have "d' = d\<lparr>l_sessions := update_where p f (l_sessions d)\<rparr>"
    by (auto simp: update_sessions_def split: if_splits)
  with same show "guarded R d d'"
    by (simp add: guarded_def law_sessions sound_def keys_ok_def session_events_def)
qed

lemma within_update_profiles:
  assumes "\<And>r. pf_id (f r) = pf_id r"
  shows "within (guarded R) (exec_sql (update_profiles p f))"
proof (rule ev.within_exec_sql)
  fix d x d'
  assume u: "update_profiles p f d = Inr (x, d')"
  have same: "map pf_id (update_where p f (l_profiles d)) = map pf_id (l_profiles d)"
    by (rule map_update_where) (rule assms)
  with u show "guarded R d d'"
    by (auto simp: update_profiles_def guarded_def law_profiles sound_def keys_ok_def session_events_def)
qed

lemma within_insert_turn: "within (guarded R) (exec_sql (insert_turn r))"
  by (rule ev.within_exec_sql)
    (auto simp: insert_turn_def guarded_def law_turn sound_def keys_ok_def session_events_def
      find_turn_def find_key_None split: if_splits)

lemma leads_update_turns:
  assumes "\<And>t. sound d \<Longrightarrow> t \<in> set (l_turns d) \<Longrightarrow> p t \<Longrightarrow> turn_move t (f t)"
  shows "leads (guarded R) d (exec_sql (update_turns p f))"
proof (rule ev.leads_exec)
  fix x d' assume u: "update_turns p f d = Inr (x, d')"
  then have d': "d' = d\<lparr>l_turns := update_where p f (l_turns d)\<rparr>" "one_active (update_where p f (l_turns d))"
    by (auto simp: update_turns_def split: if_splits)
  show "guarded R d d'"
  proof (rule guardedI)
    assume ok: "sound d"
    have "map tn_id (update_where p f (l_turns d)) = map tn_id (l_turns d)"
      using assms [OF ok] by (auto simp: update_where_def turn_move_id)
    with d' ok have "sound d'" by (simp add: sound_def keys_ok_def session_events_def)
    with d' law_turns [OF ok assms [OF ok]] show "sound d' \<and> R d d'" by blast
  qed
qed

lemma within_insert_item: "within (guarded R) (exec_sql (insert_item r))"
  by (rule ev.within_exec_sql)
    (auto simp: insert_item_def guarded_def law_item sound_def keys_ok_def session_events_def
      find_item_def find_key_None split: if_splits)

lemma leads_update_items:
  assumes "\<And>q. sound d \<Longrightarrow> q \<in> set (l_items d) \<Longrightarrow> p q \<Longrightarrow> item_move q (f q)"
  shows "leads (guarded R) d (exec_sql (update_items p f))"
proof (rule ev.leads_exec)
  fix x d' assume u: "update_items p f d = Inr (x, d')"
  show "guarded R d d'"
  proof (rule guardedI)
    assume ok: "sound d"
    have "map qi_id (update_where p f (l_items d)) = map qi_id (l_items d)"
      using assms [OF ok] by (auto simp: update_where_def item_move_id)
    with u ok law_items [OF ok assms [OF ok]] show "sound d' \<and> R d d'"
      by (auto simp: update_items_def sound_def keys_ok_def session_events_def)
  qed
qed

lemma within_insert_approval: "within (guarded R) (exec_sql (insert_approval r))"
  by (rule ev.within_exec_sql)
    (auto simp: insert_approval_def guarded_def law_approval sound_def keys_ok_def session_events_def
      find_approval_def find_key_None split: if_splits)

lemma within_update_approvals:
  assumes "\<And>a. p a \<Longrightarrow> approval_move a (f a)"
  shows "within (guarded R) (exec_sql (update_approvals p f))"
proof (rule ev.within_exec_sql)
  fix d x d' assume u: "update_approvals p f d = Inr (x, d')"
  have "map ap_id (update_where p f (l_approvals d)) = map ap_id (l_approvals d)"
    using assms by (auto simp: update_where_def approval_move_id)
  with u law_approvals [of d p f] assms show "guarded R d d'"
    by (auto simp: update_approvals_def guarded_def sound_def keys_ok_def session_events_def)
qed

end

end
