(* ===== verification/Ledger_Steps.thy ===== *)
theory Ledger_Steps
  imports Ledger_Laws
begin

text \<open>
  Every operation of the ledger is within the laws: the queue and the approvals, the session
  operations, the transitions of a turn. \<open>set_turn_dispatch\<close> is within them when the turn it
  names has not ended; the filing of an adopted successor always is, because the successor was
  accepted in the transaction before.
\<close>

section \<open>What the smaller programs leave alone\<close>

interpretation turns_same: evolution "\<lambda>d d'. l_turns d' = l_turns d"
  by unfold_locales auto

interpretation items_same: evolution "\<lambda>d d'. l_items d' = l_items d"
  by unfold_locales auto

lemma insert_event_same: "insert_session_event e d = Inr (x, d') \<Longrightarrow> l_turns d' = l_turns d \<and> l_items d' = l_items d"
  by (auto simp: insert_session_event_def split: if_splits)

lemma append_event_same:
  "within (\<lambda>d d'. l_turns d' = l_turns d) (append_session_event s turn kind data)"
  "within (\<lambda>d d'. l_items d' = l_items d) (append_session_event s turn kind data)"
  unfolding append_session_event_def Let_def
  by (intro turns_same.within_intros turns_same.within_if turns_same.within_exec_sql; simp add: insert_event_same)
    (intro items_same.within_intros items_same.within_if items_same.within_exec_sql; simp add: insert_event_same)

lemma append_updated_same: "within (\<lambda>d d'. l_items d' = l_items d) (append_updated i)"
  unfolding append_updated_def by (intro items_same.within_intros append_event_same)

lemma session_set_same: "within (\<lambda>d d'. l_turns d' = l_turns d) (exec_sql (update_sessions p f))"
  "within (\<lambda>d d'. l_turns d' = l_turns d) (exec_sql (update_profiles p' f'))"
  by (rule turns_same.within_exec_sql; auto simp: update_sessions_def update_profiles_def split: if_splits)+

lemma settle_same:
  "within (\<lambda>d d'. l_turns d' = l_turns d) (session_set s f)"
  "within (\<lambda>d d'. l_turns d' = l_turns d) (profile_set p g)"
  "within (\<lambda>d d'. l_turns d' = l_turns d) (settle_profile_after_turn p i t rec)"
  unfolding session_set_def profile_set_def settle_profile_after_turn_def
  by (intro turns_same.within_intros session_set_same turns_same.within_if)+

section \<open>Branching on a list\<close>

lemma leads_list: "(v = [] \<Longrightarrow> leads R d a) \<Longrightarrow> (\<And>x xs. v = x # xs \<Longrightarrow> leads R d (g x xs)) \<Longrightarrow>
    leads R d (case v of [] \<Rightarrow> a | x # xs \<Rightarrow> g x xs)"
  by (cases v) auto

lemma items_where_in: "q \<in> set (items_where p d) \<Longrightarrow> q \<in> set (l_items d) \<and> p q"
  by (simp add: items_where_def)

lemma items_where_first: "items_where p d = q # qs \<Longrightarrow> q \<in> set (l_items d) \<and> p q"
  by (rule items_where_in) simp

lemma items_where_distinct: "keys_ok d \<Longrightarrow> distinct (map qi_id (items_where p d))"
proof -
  assume "keys_ok d"
  then have "inj_on qi_id (set (l_items d))" "distinct (l_items d)" by (auto simp: keys_ok_def distinct_map)
  then show ?thesis by (auto simp: items_where_def distinct_map intro: inj_on_subset)
qed

lemma item_found: "find (\<lambda>r. qi_id r = i \<and> qi_session r = s) xs = Some r \<Longrightarrow> r \<in> set xs \<and> qi_id r = i"
  by (auto simp: find_Some_iff)

lemma find_turn_in: "find_turn d i = Some t \<Longrightarrow> t \<in> set (l_turns d) \<and> tn_id t = i"
  by (auto simp: find_turn_def find_Some_iff)

lemma active_not_terminal: "active_turn t \<Longrightarrow> tn_state t \<notin> set terminal_states"
  by (auto simp: active_turn_def active_states_def terminal_states_def)

context ledger_law begin

lemma leads_ok: "(sound d \<Longrightarrow> leads (guarded R) d m) \<Longrightarrow> leads (guarded R) d m"
  by (auto simp: leads_def guarded_def)

lemmas leads_intros = leads_read leads_now leads_fresh leads_list ev.leads_if ev.leads_option ev.leads_fetch
  ev.leads_fetch_seq ev.leads_raise_if ev.leads_plift ev.leads_transaction

lemmas writes = within_append_event within_receipt within_check within_insert_session
  within_insert_turn within_insert_item within_insert_approval

lemmas whole = ev.within_preturn ev.within_praise ev.within_plift ev.within_raise_if ev.within_read_store
  ev.within_fetch_row ev.within_now_utc ev.within_fresh_id ev.within_pseq ev.within_pbind ev.within_if
  ev.within_case_option ev.within_for_each writes

section \<open>The queue\<close>

lemma pending_moves:
  assumes "sound d" "row \<in> set (l_items d)" "qi_state row = ''pending''"
    "q \<in> set (l_items d)" "qi_id q = qi_id row"
  shows "qi_state q = ''pending''"
proof -
  have "q = row" using same_key [of qi_id "l_items d"] assms by (simp add: sound_def keys_ok_def)
  with assms(3) show ?thesis by simp
qed

lemma pending_item_move:
  assumes "sound d" "row \<in> set (l_items d)" "qi_state row = ''pending''"
    "q \<in> set (l_items d)" "qi_id q = qi_id row"
  shows "item_move q (q\<lparr>qi_state := ''withdrawn'', qi_version := qi_version q + 1, qi_updated := t\<rparr>)"
    "item_move q (q\<lparr>qi_state := ''dispatched'', qi_version := qi_version q + 1, qi_updated := t\<rparr>)"
    "item_move q (q\<lparr>qi_state := ''paused'', qi_pause := Some why, qi_version := qi_version q + 1, qi_updated := t\<rparr>)"
  using pending_moves [OF assms] by (simp_all add: item_move_def item_fixed_def item_edges_def)

lemma within_require_session: "within (guarded R) (require_session s)"
  unfolding require_session_def by (intro whole)

lemma within_read_item: "within (guarded R) (read_item objects i)"
  unfolding read_item_def by (intro whole)

lemma within_append_updated: "within (guarded R) (append_updated item)"
  unfolding append_updated_def by (intro whole)

lemmas queue_writes = within_require_session within_read_item within_append_updated

lemma within_enqueue: "within (guarded R) (enqueue_in_transaction objects s p c rq dg m eff pub)"
  unfolding enqueue_in_transaction_def by (intro whole queue_writes)

lemma within_withdraw: "within (guarded R) (withdraw objects s i v rq dg)"
  unfolding withdraw_def Let_def
  apply (intro within_once ev.within_preturn ev.within_pseq [OF within_require_session])
  apply (rule ev.within_leads, intro leads_intros)
   apply (rule ev.leads_within, intro whole)
  apply (rule ev.leads_pseq)
   apply (rule leads_update_items)
   apply (frule item_found, elim conjE)
   apply (rule pending_item_move(1), assumption, assumption, simp, assumption, simp)
  apply (intro whole queue_writes)
  done

lemma within_claim_next: "within (guarded R) (claim_next objects s)"
  unfolding claim_next_def
  apply (rule ev.within_leads, intro leads_intros)
   apply (rule ev.leads_within, intro whole)
  apply (rule ev.leads_pseq)
   apply (rule leads_update_items)
   apply (frule items_where_first, elim conjE)
   apply (rule pending_item_move(2), assumption, assumption, assumption, assumption, assumption)
  apply (intro whole queue_writes)
  done

lemma pause_item_leads:
  assumes "row \<in> set (l_items d)" "qi_state row = ''pending''" "qi_id x = qi_id row"
  shows "leads (guarded R) d (pause_item objects why x)"
  unfolding pause_item_def
  apply (intro leads_intros ev.leads_pseq leads_update_items)
   apply (rule pending_item_move(3) [OF _ assms(1,2)]; simp add: assms(3))
  apply (intro whole queue_writes)
  done

lemma pause_item_items:
  assumes "pause_item objects why x w = (Inr (), w')"
  shows "\<exists>t. l_items (store w') = update_where (\<lambda>r. qi_id r = qi_id x)
      (\<lambda>r. r\<lparr>qi_state := ''paused'', qi_pause := Some why, qi_version := qi_version r + 1, qi_updated := t\<rparr>)
      (l_items (store w))"
proof -
  let ?t = "utc_time (clock_src w (clock_pos w))"
  let ?u = "w\<lparr>clock_pos := Suc (clock_pos w)\<rparr>"
  let ?f = "\<lambda>r. r\<lparr>qi_state := ''paused'', qi_pause := Some why, qi_version := qi_version r + 1, qi_updated := ?t\<rparr>"
  from assms obtain n v where
    v: "exec_sql (update_items (\<lambda>r. qi_id r = qi_id x) ?f) ?u = (Inr n, v)"
    and rest: "pbind (read_item objects (qi_id x)) append_updated v = (Inr (), w')"
    by (auto simp: pause_item_def pseq_Inr pbind_Inr [of now_utc] now_utc_Inr)
  from v have "l_items (store v) = update_where (\<lambda>r. qi_id r = qi_id x) ?f (l_items (store w))"
    by (auto simp: exec_sql_Inr update_items_def)
  moreover have "within (\<lambda>d d'. l_items d' = l_items d) (pbind (read_item objects (qi_id x)) append_updated)"
    unfolding read_item_def by (intro items_same.within_intros append_updated_same)
  from withinD [OF this rest] have "l_items (store w') = l_items (store v)" .
  ultimately show ?thesis by auto
qed

lemma within_pause_pending: "within (guarded R) (pause_pending objects s why)"
  unfolding pause_pending_def
proof (rule ev.within_leads, rule leads_ok, rule leads_read, rule ev.leads_pseq)
  fix d assume ok: "sound d"
  let ?rows = "items_where (\<lambda>r. qi_session r = s \<and> qi_state r = ''pending'') d"
  let ?J = "\<lambda>xs d. distinct (map qi_id xs) \<and>
      (\<forall>x \<in> set xs. \<exists>q \<in> set (l_items d). qi_id q = qi_id x \<and> qi_state q = ''pending'')"
  show "leads (guarded R) d (for_each (pause_item objects why) ?rows)"
  proof (rule ev.leads_for_each [where J = ?J])
    show "leads (guarded R) e (pause_item objects why x)" if "?J (x # xs) e" for x xs e
      using that by (auto intro: pause_item_leads)
    show "?J xs (store w')"
      if J: "?J (x # xs) (store w)" and run: "pause_item objects why x w = (Inr (), w')" for x xs w w'
      using J pause_item_items [OF run] by (fastforce simp: set_update_where)
    show "?J ?rows d"
      using ok items_where_distinct [of d] by (auto simp: sound_def dest: items_where_in)
  qed
qed (intro whole)

lemma within_mark_terminal: "within (guarded R) (mark_terminal objects i st)"
  unfolding mark_terminal_def
  apply (rule ev.within_leads, intro leads_intros ev.leads_pbind leads_update_items)
   apply (auto simp: item_move_def item_fixed_def item_edges_def)[1]
  apply (intro whole queue_writes)
  done

lemma within_settle_queue: "within (guarded R) (settle_queue queue row st why)"
  unfolding settle_queue_def by (intro whole within_mark_terminal within_pause_pending)

section \<open>Approvals\<close>

lemma within_invalidate: "within (guarded R) (invalidate p)"
  unfolding invalidate_def
  by (intro whole within_update_approvals) (simp add: approval_move_def)

lemma within_request_approval: "within (guarded R) (request_approval s x rq)"
  unfolding request_approval_def request_in_transaction_def by (intro ev.within_transaction whole)

lemma within_decide: "within (guarded R) (decide i dc sc v rq)"
  unfolding decide_def Let_def
  by (intro ev.within_transaction whole within_invalidate within_update_approvals)
    (simp add: approval_move_def)

lemma within_expire: "within (guarded R) (expire i)"
  unfolding expire_def by (intro ev.within_transaction whole within_invalidate)

lemma within_invalidate_for_execution: "within (guarded R) (invalidate_for_execution x why)"
  unfolding invalidate_for_execution_def invalidate_one_def
  by (intro ev.within_transaction whole within_invalidate)

lemma within_expire_for_execution: "within (guarded R) (expire_for_execution x)"
  unfolding expire_for_execution_def by (rule within_invalidate)

section \<open>Sessions\<close>

lemma within_save: "within (guarded R) (idempotency_save scope key dg st body)"
  unfolding idempotency_save_def by (intro within_once whole)

lemma within_view: "within (guarded R) (session_view s)"
  unfolding session_view_def by (intro whole)

lemma within_create_session: "within (guarded R) (create_session key dg ws p)"
  unfolding create_session_def Let_def by (intro within_once whole)

lemma within_session_reply: "within (guarded R) (session_reply x)"
  unfolding session_reply_def by (intro whole)

lemma within_update_session: "within (guarded R) (update_session s v rq dg nm pin ws)"
  unfolding update_session_def Let_def
  by (intro within_once whole within_view within_session_reply within_update_sessions) simp

lemma within_archive_session: "within (guarded R) (archive_session s v rq dg)"
  unfolding archive_session_def Let_def
  by (intro within_once whole within_view within_session_reply within_update_sessions) simp

lemma within_refuse: "within (guarded R) (refuse_exclusive cfg p)"
  unfolding refuse_exclusive_def by (intro whole)

lemma within_claim_turn: "within (guarded R) (claim_turn msg row)"
  unfolding claim_turn_def by (intro ev.within_try_catch whole)

lemma within_accept_execution: "within (guarded R) (accept_execution cfg s p c inp eff it)"
  unfolding accept_execution_def
  by (intro whole within_refuse within_claim_turn within_update_profiles within_update_sessions) simp_all

lemma within_intent_session: "within (guarded R) (intent_session se ws p nm v)"
  unfolding intent_session_def by (intro whole)

lemma within_accept_intent: "within (guarded R) (accept_intent cfg q se ws p rq dg m pub nm v res eff)"
  unfolding accept_intent_def
  by (intro within_once whole within_intent_session within_accept_execution within_enqueue)

lemma within_create_turn: "within (guarded R) (create_turn cfg s key dg inp v eff)"
  unfolding create_turn_def Let_def
  by (intro within_once ev.within_case_prod whole within_refuse within_claim_turn within_update_profiles
      within_update_sessions) simp_all

lemma within_run_guard: "within (guarded R) (run_guard cfg se h)"
  unfolding run_guard_def by (intro whole)

lemma within_switch_profile: "within (guarded R) (switch_profile cfg s p v rq dg)"
  unfolding switch_profile_def Let_def
  by (intro within_once whole within_view within_run_guard within_update_sessions) simp

end

end
