(* ===== verification/Ledger_Runs.thy ===== *)
theory Ledger_Runs
  imports Ledger_Steps
begin

text \<open>
  The transitions of a turn are within the laws, and so is every sequence of operations:
  \<open>ledger_steps_law\<close>. An operation is \<open>legal\<close> unless it files a turn that has ended; what
  the unguarded filing does to such a turn is the subject of a property of its own.
\<close>

section \<open>Operations\<close>

datatype ledger_op =
    Save string string string int json
  | Create_session string string string string
  | Update_session string int string string "string option" "bool option" "string option"
  | Archive_session string int string string
  | Accept_intent "string option" "string option" string string string string json "string option"
      "int option" "(ledger \<Rightarrow> profile_row \<Rightarrow> exn + int) option" "string option"
  | Create_turn string string string string int string
  | Switch_profile string string int string string
  | Seal_interrupted
  | Set_dispatch string string string string string
  | File_records string
  | Append_event string string json
  | Mark_cleanup string string
  | Cancel_request string
  | Finish_cancelled string "string option" "string option" "string option" "string option" "string option"
  | Fail_turn string string string
  | Complete_turn string string string string "string option" "string option"
      "(string \<times> json) list option" "string option" "string option" "string option"
  | Withdraw objects string string int string string
  | Request_approval string string "(string \<times> json) list"
  | Decide string string json int string
  | Expire string
  | Invalidate_for string string
  | Expire_for string

definition drop_result :: "('d, 'a) prog \<Rightarrow> ('d, unit) prog" where
  "drop_result m = pseq m (preturn ())"

fun run_ledger :: "session_config \<Rightarrow> queue \<Rightarrow> ledger_op \<Rightarrow> unit ledger_prog" where
  "run_ledger cfg q (Save a b c st body) = drop_result (idempotency_save a b c st body)"
| "run_ledger cfg q (Create_session key dg ws p) = drop_result (create_session key dg ws p)"
| "run_ledger cfg q (Update_session s v rq dg nm pin ws) = drop_result (update_session s v rq dg nm pin ws)"
| "run_ledger cfg q (Archive_session s v rq dg) = drop_result (archive_session s v rq dg)"
| "run_ledger cfg q (Accept_intent se ws p rq dg m pub nm v res eff) =
     drop_result (accept_intent cfg q se ws p rq dg m pub nm v res eff)"
| "run_ledger cfg q (Create_turn s key dg inp v eff) = drop_result (create_turn cfg s key dg inp v eff)"
| "run_ledger cfg q (Switch_profile s p v rq dg) = drop_result (switch_profile cfg s p v rq dg)"
| "run_ledger cfg q Seal_interrupted = drop_result seal_interrupted_turns"
| "run_ledger cfg q (Set_dispatch i wk x dp st) = drop_result (set_turn_dispatch i wk x dp st)"
| "run_ledger cfg q (File_records i) = file_core_records cfg i"
| "run_ledger cfg q (Append_event i kind data) = drop_result (append_turn_event i kind data)"
| "run_ledger cfg q (Mark_cleanup i st) = mark_turn_cleanup i st"
| "run_ledger cfg q (Cancel_request i) = drop_result (record_cancel_request i)"
| "run_ledger cfg q (Finish_cancelled i why cp nt pl hm) = drop_result (finish_cancelled q i why cp nt pl hm)"
| "run_ledger cfg q (Fail_turn i code cap) = drop_result (fail_turn q i code cap)"
| "run_ledger cfg q (Complete_turn i cp nt rs pl hm us src ch why) =
     drop_result (complete_turn cfg q i cp nt rs pl hm us src ch why)"
| "run_ledger cfg q (Withdraw ob s i v rq dg) = drop_result (withdraw ob s i v rq dg)"
| "run_ledger cfg q (Request_approval s x rq) = drop_result (request_approval s x rq)"
| "run_ledger cfg q (Decide i dc sc v rq) = drop_result (decide i dc sc v rq)"
| "run_ledger cfg q (Expire i) = expire i"
| "run_ledger cfg q (Invalidate_for x why) = drop_result (invalidate_for_execution x why)"
| "run_ledger cfg q (Expire_for x) = drop_result (expire_for_execution x)"

definition not_ended :: "ledger \<Rightarrow> string \<Rightarrow> bool" where
  "not_ended d i \<longleftrightarrow> (case find_turn d i of None \<Rightarrow> True | Some t \<Rightarrow> tn_state t \<notin> set terminal_states)"

fun legal :: "ledger_op \<Rightarrow> ledger \<Rightarrow> bool" where
  "legal (Set_dispatch i wk x dp st) d = not_ended d i"
| "legal (File_records i) d = not_ended d i"
| "legal _ d = True"

inductive ledger_steps :: "session_config \<Rightarrow> queue \<Rightarrow> ledger world \<Rightarrow> ledger world \<Rightarrow> bool"
  for cfg :: session_config and q :: queue where
  steps_refl: "ledger_steps cfg q w w"
| steps_op: "ledger_steps cfg q w v \<Longrightarrow> legal op (store v) \<Longrightarrow> run_ledger cfg q op v = (r, v') \<Longrightarrow>
     ledger_steps cfg q w v'"

section \<open>Transitions of a turn\<close>

lemma seal_turn_turns:
  assumes "seal_turn t x w = (Inr (), w')"
  shows "l_turns (store w') = update_where (\<lambda>r. tn_id r = tn_id x)
      (\<lambda>r. r\<lparr>tn_state := ''unknown'', tn_capture := ''unknown'', tn_cleanup := ''unknown'',
             tn_error := Some ''SERVER_RESTART_INTERRUPTED'', tn_updated := t\<rparr>) (l_turns (store w))"
proof -
  let ?f = "\<lambda>r. r\<lparr>tn_state := ''unknown'', tn_capture := ''unknown'', tn_cleanup := ''unknown'',
             tn_error := Some ''SERVER_RESTART_INTERRUPTED'', tn_updated := t\<rparr>"
  let ?rest = "pseq (session_set (tn_session x) (\<lambda>r. r\<lparr>se_status := ''recovery_required'', se_updated := t\<rparr>))
    (pseq (settle_profile_after_turn (tn_profile x) (tn_id x) t (Some 1))
    (let data = JDict [(''state'', JStr ''unknown''), (''error_code'', JStr ''SERVER_RESTART_INTERRUPTED'')] in
    pseq (append_session_event (tn_session x) (Some (tn_id x)) ''turn.capture'' data)
    (pseq (append_session_event (tn_session x) (Some (tn_id x)) ''turn.state'' data) (preturn ()))))"
  from assms obtain v where v: "update_turn (tn_id x) ?f w = (Inr (), v)" and rest: "?rest v = (Inr (), w')"
    by (auto simp: seal_turn_def pseq_Inr [of "update_turn (tn_id x) ?f"])
  have "within (\<lambda>d d'. l_turns d' = l_turns d) ?rest"
    unfolding Let_def by (intro turns_same.within_intros settle_same append_event_same)
  from withinD [OF this rest] v show ?thesis
    by (auto simp: update_turn_def run_iffs update_turns_def split: if_splits)
qed

lemma new_turn_accepted:
  "tn_id (new_turn i s p r g inp cf it t) = i \<and> tn_state (new_turn i s p r g inp cf it t) = ''accepted''"
  by (simp add: new_turn_def)

lemma claim_turn_adds:
  assumes "claim_turn msg row w = (Inr (), w')"
  shows "l_turns (store w') = l_turns (store w) @ [row] \<and> find_turn (store w) (tn_id row) = None"
  using assms
  by (auto simp: claim_turn_def run_iffs insert_turn_def split: if_splits)

lemma accept_execution_active:
  assumes "accept_execution cfg s profile c inp eff it w = (Inr x, w')"
  shows "not_ended (store w') x"
proof -
  let ?row = "\<lambda>i t. new_turn i s (pf_id profile) c (pf_generation profile) inp eff it t"
  let ?rest = "\<lambda>i t. pseq (exec_sql (update_profiles (\<lambda>r. pf_id r = pf_id profile)
       (\<lambda>r. r\<lparr>pf_run := ''active'', pf_updated := t\<rparr>)))
    (pseq (exec_sql (update_sessions (\<lambda>r. se_id r = s)
       (\<lambda>r. r\<lparr>se_status := ''active'', se_version := se_version r + 1, se_updated := t\<rparr>)))
    (pseq (append_session_event s (Some i) ''turn.accepted''
       (JDict [(''state'', JStr ''accepted''), (''profile_revision'', JInt c)]))
      (preturn i)))"
  from assms obtain i t v1 v2 where
    claim: "claim_turn ''Session already has an active execution'' (?row i t) v1 = (Inr (), v2)"
    and rest: "?rest i t v2 = (Inr x, w')"
    by (auto simp: accept_execution_def pbind_Inr [of "fresh_id ''execution''"] pbind_Inr [of now_utc]
        pseq_Inr [of "refuse_exclusive cfg profile"] pseq_Inr [of "claim_turn m r" for m r])
  from rest have x: "x = i" by (auto simp: pseq_Inr preturn_Inr)
  have "within (\<lambda>d d'. l_turns d' = l_turns d) (?rest i t)"
    by (intro turns_same.within_intros session_set_same append_event_same)
  from withinD [OF this rest] claim_turn_adds [OF claim]
  have "l_turns (store w') = l_turns (store v1) @ [?row i t]" "find_turn (store v1) i = None"
    by (simp_all add: new_turn_accepted)
  then have "find_turn (store w') i = Some (?row i t)"
    by (simp add: find_turn_def find_append_row new_turn_accepted)
  then show ?thesis
    by (simp add: x not_ended_def new_turn_accepted terminal_states_def)
qed

lemma adopt_next_accepted:
  "adopt_next cfg objects s w = (Inr (Some x), w') \<Longrightarrow> not_ended (store w') x"
  unfolding adopt_next_def Let_def
  by (auto simp: pbind_Inr preturn_Inr split: option.splits dest: accept_execution_active)

lemma complete_commit_accepted:
  assumes "complete_commit cfg queue row cp nt rs pl hm us src ch why w = (Inr (u, e, Some x), w')"
  shows "not_ended (store w') x"
proof -
  from assms obtain v where "(case queue of None \<Rightarrow> preturn None
      | Some objects \<Rightarrow> pseq (case tn_item row of None \<Rightarrow> preturn ()
              | Some item \<Rightarrow> pseq (mark_terminal objects item ''completed'') (preturn ()))
            (adopt_next cfg objects (tn_session row))) v = (Inr (Some x), w')"
    unfolding complete_commit_def Let_def
    by (clarsimp simp: pbind_Inr pseq_Inr preturn_Inr fetch_row_Inr now_utc_Inr split del: if_split option.split)
  then show ?thesis
    by (auto simp: pseq_Inr preturn_Inr split: option.splits dest: adopt_next_accepted)
qed

context ledger_law begin

lemma leads_update_turn:
  assumes "\<And>t. sound d \<Longrightarrow> t \<in> set (l_turns d) \<Longrightarrow> tn_id t = i \<Longrightarrow> turn_move t (f t)"
  shows "leads (guarded R) d (update_turn i f)"
  unfolding update_turn_def by (intro ev.leads_pseq leads_update_turns ev.within_preturn assms)

lemma leads_open_turn:
  assumes "find_turn d i = Some row" "tn_state row \<notin> set terminal_states"
    and "\<And>t. tn_id (f t) = tn_id t \<and> tn_session (f t) = tn_session t \<and> tn_profile (f t) = tn_profile t"
  shows "leads (guarded R) d (update_turn i f)"
proof (rule leads_update_turn)
  fix t assume ok: "sound d" and t: "t \<in> set (l_turns d)" "tn_id t = i"
  with find_turn_in [OF assms(1)] same_key [of tn_id "l_turns d" t row] have "t = row"
    by (simp add: sound_def keys_ok_def)
  with assms(2,3) show "turn_move t (f t)" by (simp add: turn_move_def)
qed

lemma within_session_set: "(\<And>r. se_id (f r) = se_id r) \<Longrightarrow> within (guarded R) (session_set s f)"
  unfolding session_set_def by (intro whole within_update_sessions)

lemma within_profile_set: "(\<And>r. pf_id (f r) = pf_id r) \<Longrightarrow> within (guarded R) (profile_set p f)"
  unfolding profile_set_def by (intro whole within_update_profiles)

lemma within_settle_profile: "within (guarded R) (settle_profile_after_turn p i t v)"
  unfolding settle_profile_after_turn_def by (intro whole within_profile_set) simp

lemmas settles = within_session_set within_settle_profile within_settle_queue

lemma within_seal: "within (guarded R) seal_interrupted_turns"
  unfolding seal_interrupted_turns_def
proof (rule ev.within_transaction, rule ev.within_leads, rule leads_ok, rule leads_read, rule leads_now,
    rule ev.leads_pseq)
  fix d t assume ok: "sound d"
  let ?rows = "sort_key turn_order (filter active_turn (l_turns d))"
  let ?J = "\<lambda>xs d. distinct (map tn_id xs) \<and>
      (\<forall>x \<in> set xs. \<exists>r \<in> set (l_turns d). tn_id r = tn_id x \<and> active_turn r)"
  show "leads (guarded R) d (for_each (seal_turn t) ?rows)"
  proof (rule ev.leads_for_each [where J = ?J])
    fix x :: turn_row and xs and e :: ledger assume J: "?J (x # xs) e"
    show "leads (guarded R) e (seal_turn t x)"
    proof (rule leads_ok)
      assume ok_e: "sound e"
      from J obtain r where r: "r \<in> set (l_turns e)" "tn_id r = tn_id x" "active_turn r" by auto
      with ok_e have "find_turn e (tn_id x) = Some r"
        by (simp add: find_turn_def sound_def keys_ok_def find_keyed)
      with active_not_terminal [OF r(3)] show ?thesis
        unfolding seal_turn_def Let_def
        by (intro ev.leads_pseq leads_open_turn whole settles) simp_all
    qed
  next
    fix x :: turn_row and xs and w w' :: "ledger world"
    assume J: "?J (x # xs) (store w)" and run: "seal_turn t x w = (Inr (), w')"
    show "?J xs (store w')"
      using J seal_turn_turns [OF run] by (fastforce simp: set_update_where)
  next
    have "inj_on tn_id (set (l_turns d))" "distinct (l_turns d)"
      using ok by (auto simp: sound_def keys_ok_def distinct_map)
    then show "?J ?rows d" by (auto simp: distinct_map intro: inj_on_subset)
  qed
qed (intro whole)

lemma leads_set_dispatch: "not_ended d i \<Longrightarrow> leads (guarded R) d (set_turn_dispatch i wk x dp st)"
  unfolding set_turn_dispatch_def
  by (intro leads_intros ev.leads_pseq leads_open_turn whole) (auto simp: not_ended_def)

lemma leads_file: "not_ended d i \<Longrightarrow> leads (guarded R) d (file_core_records cfg i)"
  unfolding file_core_records_def get_turn_filing_def Let_def
  by (intro leads_intros ev.leads_pseq leads_set_dispatch whole ev.leads_within [OF ev.within_preturn])

lemma within_append_turn_event: "within (guarded R) (append_turn_event i kind data)"
  unfolding append_turn_event_def by (intro ev.within_transaction whole)

lemma within_cleanup: "within (guarded R) (mark_turn_cleanup i st)"
  unfolding mark_turn_cleanup_def
  by (rule ev.within_leads, intro leads_intros leads_update_turn) (simp add: turn_move_def turn_fixed_def)

lemma within_cancel_request: "within (guarded R) (record_cancel_request i)"
  unfolding record_cancel_request_def
  by (rule ev.within_leads, intro leads_intros ev.leads_pseq leads_open_turn whole ev.leads_within [OF ev.within_preturn])
    (auto simp: active_states_def terminal_states_def)

lemma within_finish_cancelled: "within (guarded R) (finish_cancelled q i why cp nt pl hm)"
  unfolding finish_cancelled_def
  by (rule ev.within_leads, intro leads_intros ev.leads_pseq leads_open_turn whole settles ev.leads_within [OF ev.within_preturn])
    simp_all

lemma within_fail_turn: "within (guarded R) (fail_turn q i code cap)"
  unfolding fail_turn_def Let_def
  by (rule ev.within_leads, intro leads_intros ev.leads_pseq leads_open_turn whole settles ev.leads_within [OF ev.within_preturn])
    simp_all

lemma within_adopt_next: "within (guarded R) (adopt_next cfg ob s)"
  unfolding adopt_next_def Let_def by (intro whole within_claim_next within_accept_execution)

lemma leads_complete_commit:
  assumes "find_turn d (tn_id row) = Some row" "tn_state row \<in> set [''running'', ''capturing'']"
  shows "leads (guarded R) d (complete_commit cfg q row cp nt rs pl hm us src ch why)"
  unfolding complete_commit_def Let_def
  using assms
  by (intro leads_intros ev.leads_pseq leads_open_turn whole settles within_profile_set within_mark_terminal within_adopt_next)
    (auto simp: terminal_states_def complete_row_def)

lemma within_complete_turn: "within (guarded R) (complete_turn cfg q i cp nt rs pl hm us src ch why)"
proof (rule withinI)
  fix w r w'
  let ?tx = "transaction
      (pbind (fetch_row (\<lambda>d. find_turn d i) turn_missing) (\<lambda>row.
       if tn_state row = ''completed'' then
         pbind (fetch_row (last_capture i)
             (err TypeError (py_repr ''NoneType'' @ '' object is not iterable''))) (\<lambda>e. preturn (row, e, None))
       else if tn_state row \<notin> set [''running'', ''capturing''] then
         praise (server_error ''TURN_STATE_CONFLICT'' ''Turn cannot complete from its current state'' 409)
       else complete_commit cfg q row cp nt rs pl hm us src ch why))"
  assume run: "complete_turn cfg q i cp nt rs pl hm us src ch why w = (r, w')"
  obtain o1 v where tx: "?tx w = (o1, v)" by fastforce
  have "within (guarded R) ?tx"
    by (rule ev.within_leads, intro leads_intros leads_complete_commit)
      (auto simp: find_turn_def find_Some_iff intro: ev.leads_within whole)
  from withinD [OF this tx] have one: "guarded R (store w) (store v)" .
  show "guarded R (store w) (store w')"
  proof (cases o1)
    case (Inl e)
    with run tx one show ?thesis by (simp add: complete_turn_def pbind_def)
  next
    case (Inr res)
    obtain row e nx where res: "res = (row, e, nx)" by (cases res)
    show ?thesis
    proof (cases nx)
      case None
      with run tx one Inr res show ?thesis
        by (simp add: complete_turn_def pbind_def pseq_def preturn_def)
    next
      case (Some x)
      with tx Inr res have "not_ended (store v) x"
        by (auto simp: transaction_Inr pbind_Inr preturn_Inr praise_Inr split: if_splits dest: complete_commit_accepted)
      then have "leads (guarded R) (store v) (pseq (file_core_records cfg x) (preturn (row, e, Some x)))"
        by (intro ev.leads_pseq leads_file whole)
      moreover from run tx Inr res Some have "pseq (file_core_records cfg x) (preturn (row, e, Some x)) v = (r, w')"
        by (simp add: complete_turn_def pbind_def)
      ultimately have "guarded R (store v) (store w')" by (auto dest: leadsD)
      with one show ?thesis by (rule guarded_trans)
    qed
  qed
qed

section \<open>Every operation, every sequence\<close>

lemma within_discard: "within (guarded R) m \<Longrightarrow> within (guarded R) (drop_result m)"
  unfolding drop_result_def by (intro whole)

lemma leads_discard: "leads (guarded R) d m \<Longrightarrow> leads (guarded R) d (drop_result m)"
  unfolding drop_result_def by (intro ev.leads_pseq whole)

lemma run_ledger_law: "legal op d \<Longrightarrow> leads (guarded R) d (run_ledger cfg q op)"
  by (cases op; simp;
      (intro leads_discard leads_set_dispatch leads_file; assumption)?;
      (intro ev.leads_within within_discard within_save within_create_session within_update_session
        within_archive_session within_accept_intent within_create_turn within_switch_profile within_seal
        within_append_turn_event within_cleanup within_cancel_request within_finish_cancelled within_fail_turn
        within_complete_turn within_withdraw within_request_approval within_decide within_expire
        within_invalidate_for_execution within_expire_for_execution)?)

lemma ledger_steps_law:
  assumes "ledger_steps cfg q w w'"
  shows "guarded R (store w) (store w')"
  using assms
proof (induction rule: ledger_steps.induct)
  case (steps_refl w)
  then show ?case by (rule guarded_refl)
next
  case (steps_op w v op r v')
  from leadsD [OF run_ledger_law [OF steps_op.hyps(2)] refl steps_op.hyps(3)] steps_op.IH
  show ?case by (blast intro: guarded_trans)
qed

end

end
