(* ===== verification/Ledger_Examples.thy ===== *)
theory Ledger_Examples
  imports Ledger_Runs
begin

text \<open>
  A small ledger and world on which the properties of the session ledger and of the services
  over it are witnessed, with the evaluation bundles.
\<close>

definition demo_stamp :: datetime where
  "demo_stamp = utc_time 5"

definition demo_turn :: "string \<Rightarrow> string \<Rightarrow> string \<Rightarrow> turn_row" where
  "demo_turn i s st = (new_turn i s ''profile_1'' 1 0 ''input'' None None demo_stamp)\<lparr>tn_state := st\<rparr>"

definition demo_session :: "string \<Rightarrow> session_row" where
  "demo_session s = \<lparr>se_id = s, se_workspace = ''ws_1'', se_profile = ''profile_1'', se_checkpoint = None,
     se_native = None, se_platform = None, se_home = None, se_usage = None, se_status = ''active'',
     se_name = None, se_pinned = 0, se_version = 1, se_archived = None, se_created = demo_stamp,
     se_updated = demo_stamp\<rparr>"

definition demo_ledger :: "turn_row list \<Rightarrow> item_row list \<Rightarrow> approval_row list \<Rightarrow> ledger" where
  "demo_ledger ts qs as = \<lparr>
     l_workspaces = [\<lparr>ws_id = ''ws_1'', ws_connection = ''c1'', ws_distribution = ''local'', ws_user = None,
       ws_path = ''p'', ws_state = ''connected'', ws_name = None, ws_version = 1, ws_archived = None, ws_env = ''local'',
       ws_host = None, ws_normalized = None, ws_created = demo_stamp, ws_updated = demo_stamp\<rparr>],
     l_profiles = [\<lparr>pf_id = ''profile_1'', pf_version = 1, pf_name = ''Builder'', pf_harness = ''opencode'', pf_revision = 1,
       pf_generation = 0, pf_config = ''d0'', pf_credential = None, pf_account = None, pf_preset = None, pf_rules = None,
       pf_origin = None, pf_cloned = None, pf_run = ''active'', pf_recovery = 0, pf_display = None, pf_archived = None,
       pf_created = demo_stamp, pf_updated = demo_stamp\<rparr>],
     l_sessions = [demo_session ''s1'', demo_session ''s2''], l_turns = ts, l_events = [], l_idempotency = [],
     l_items = qs, l_approvals = as, l_grants = [], l_models = []\<rparr>"

definition demo_hex :: "nat \<Rightarrow> string" where
  "demo_hex n = replicate (Suc n) (CHR ''a'')"

definition demo_ledger_world :: "ledger \<Rightarrow> ledger world" where
  "demo_ledger_world d = \<lparr>store = d, uuid_src = demo_hex, uuid_pos = 0, clock_src = (\<lambda>n. 10 + int n),
     clock_pos = 0, tz_offset = (\<lambda>_. 0)\<rparr>"

definition demo_config :: session_config where
  "demo_config = \<lparr>sc_concurrency = (\<lambda>_. None), sc_guards = (\<lambda>_. None),
     sc_filer = Some (\<lambda>i s k. Inr \<lparr>rp_work = ''w'', rp_execution = ''x'', rp_dispatch = ''d''\<rparr>)\<rparr>"

lemmas ledger_demo = demo_stamp_def demo_turn_def demo_session_def demo_ledger_def demo_hex_def
  demo_ledger_world_def demo_config_def new_turn_def

lemmas ledger_progs = pbind_def pseq_def preturn_def plift_def praise_def raise_if_def read_store_def
  fetch_row_def exec_sql_def transaction_def uuid4_hex_def now_utc_def fresh_id_def try_catch_def

lemmas ledger_rows = find_workspace_def find_profile_def find_session_def find_turn_def find_item_def
  find_approval_def find_receipt_def session_events_def insert_session_event_def insert_receipt_def
  insert_turn_def update_turns_def update_sessions_def update_profiles_def one_active_def active_turn_def
  active_states_def terminal_states_def update_where_def count_where_def max_seq_def max_wire_def
  update_items_def insert_item_def sql_max_def wire_visible_kinds_def append_session_event_def List.map_filter_def

end
