(* ===== verification/Ledger_Claims.thy ===== *)
theory Ledger_Claims
  imports Ledger_Examples
begin

text \<open>
  The properties of the session ledger. Four relations interpret the laws of
  \<open>Ledger_Laws\<close>: the log and the receipts only grow, a closed approval is final, a queue
  item moves along its life cycle, a turn that ended stays as it ended.
\<close>

section \<open>Interpretations\<close>

interpretation well_formed: ledger_law "\<lambda>d d'. True"
  by unfold_locales auto

definition log_kept :: "ledger \<Rightarrow> ledger \<Rightarrow> bool" where
  "log_kept d d' \<longleftrightarrow> prefix (l_events d) (l_events d') \<and> prefix (l_idempotency d) (l_idempotency d')"

interpretation log: ledger_law log_kept
  by unfold_locales (auto simp: log_kept_def)

definition approvals_kept :: "ledger \<Rightarrow> ledger \<Rightarrow> bool" where
  "approvals_kept d d' \<longleftrightarrow> (\<forall>a \<in> set (l_approvals d). ap_state a \<noteq> ''open'' \<longrightarrow> a \<in> set (l_approvals d'))"

interpretation approvals: ledger_law approvals_kept
  by unfold_locales (auto simp: approvals_kept_def set_update_where approval_move_def)

definition item_path :: "item_row \<Rightarrow> item_row \<Rightarrow> bool" where
  "item_path q q' \<longleftrightarrow> q' = q \<or> item_fixed q' = item_fixed q \<and> qi_version q < qi_version q' \<and>
     (qi_state q, qi_state q') \<in> (set item_edges)\<^sup>+"

definition items_kept :: "ledger \<Rightarrow> ledger \<Rightarrow> bool" where
  "items_kept d d' \<longleftrightarrow> (\<forall>q \<in> set (l_items d). \<exists>q' \<in> set (l_items d'). item_path q q')"

lemma item_path_refl: "item_path q q"
  by (simp add: item_path_def)

lemma item_path_trans: "item_path a b \<Longrightarrow> item_path b c \<Longrightarrow> item_path a c"
  by (auto simp: item_path_def intro: trancl_trans)

lemma item_path_move: "item_move q q' \<Longrightarrow> item_path q q'"
  by (auto simp: item_path_def item_move_def)

lemma items_kept_same: "l_items d' = l_items d \<Longrightarrow> items_kept d d'"
  by (auto simp: items_kept_def intro: item_path_refl)

lemma items_kept_new: "items_kept d (d\<lparr>l_items := l_items d @ [q]\<rparr>)"
  by (auto simp: items_kept_def intro: item_path_refl)

lemma items_kept_moves:
  assumes "\<And>q. q \<in> set (l_items d) \<Longrightarrow> p q \<Longrightarrow> item_move q (f q)"
  shows "items_kept d (d\<lparr>l_items := update_where p f (l_items d)\<rparr>)"
  unfolding items_kept_def
  by (intro ballI, simp, rule update_where_related) (auto intro: item_path_move item_path_refl assms)

interpretation items: ledger_law items_kept
proof unfold_locales
  show "items_kept d d" for d by (auto simp: items_kept_def intro: item_path_refl)
  show "items_kept a b \<Longrightarrow> items_kept b c \<Longrightarrow> items_kept a c" for a b c
    unfolding items_kept_def by (meson item_path_trans)
qed (auto intro: items_kept_same items_kept_new items_kept_moves)

definition turns_kept :: "ledger \<Rightarrow> ledger \<Rightarrow> bool" where
  "turns_kept d d' \<longleftrightarrow> (\<forall>t \<in> set (l_turns d). \<exists>t' \<in> set (l_turns d'). turn_move t t')"

lemma turn_fixed_state: "turn_fixed t' = turn_fixed t \<Longrightarrow> tn_state t' = tn_state t"
  by (drule arg_cong [where f = tn_state]) (simp add: turn_fixed_def)

lemma turn_move_refl: "turn_move t t"
  by (simp add: turn_move_def)

lemma turn_move_trans: "turn_move a b \<Longrightarrow> turn_move b c \<Longrightarrow> turn_move a c"
  unfolding turn_move_def by (metis turn_fixed_state)

lemma turns_kept_same: "l_turns d' = l_turns d \<Longrightarrow> turns_kept d d'"
  by (auto simp: turns_kept_def intro: turn_move_refl)

lemma turns_kept_new: "turns_kept d (d\<lparr>l_turns := l_turns d @ [q]\<rparr>)"
  by (auto simp: turns_kept_def intro: turn_move_refl)

lemma turns_kept_moves:
  assumes "\<And>q. q \<in> set (l_turns d) \<Longrightarrow> p q \<Longrightarrow> turn_move q (f q)"
  shows "turns_kept d (d\<lparr>l_turns := update_where p f (l_turns d)\<rparr>)"
  unfolding turns_kept_def
  by (intro ballI, simp, rule update_where_related) (auto intro: turn_move_refl assms)

interpretation turns: ledger_law turns_kept
proof unfold_locales
  show "turns_kept d d" for d by (auto simp: turns_kept_def intro: turn_move_refl)
  show "turns_kept a b \<Longrightarrow> turns_kept b c \<Longrightarrow> turns_kept a c" for a b c
    unfolding turns_kept_def by (meson turn_move_trans)
qed (auto intro: turns_kept_same turns_kept_new turns_kept_moves)



section \<open>The log\<close>


definition demo_running :: ledger where
  "demo_running = demo_ledger [demo_turn ''t1'' ''s1'' ''running''] [] []"

lemma demo_running_sound: "sound demo_running"
  by (simp add: demo_running_def sound_def keys_ok_def log_numbered_def ledger_demo ledger_rows)

lemma run_split: "fst (m w) = Inr x \<Longrightarrow> m w = (Inr x, snd (m w))"
  by (simp add: prod_eq_iff)


section \<open>Idempotent acceptance\<close>

lemma receipt_found:
  assumes "idempotency_insert scope key digest st body v = (Inr u, w)"
  shows "\<exists>r. find_receipt (store w) scope key = Some r \<and> im_digest r = digest \<and>
    im_body r = json_sorted body \<and> im_status r = st"
  using assms
  by (auto simp: idempotency_insert_def pbind_Inr exec_sql_Inr insert_receipt_def find_receipt_def
      find_append_row split: if_splits)

lemma find_receipt_prefix:
  assumes "prefix (l_idempotency d) (l_idempotency d')" "find_receipt d s k = Some r"
  shows "find_receipt d' s k = Some r"
proof -
  from assms(1) obtain later where "l_idempotency d' = l_idempotency d @ later" by (auto simp: prefix_def)
  moreover have "find P xs = Some r \<Longrightarrow> find P (xs @ ys) = Some r" for P and xs ys :: "idempotency_row list"
    by (induction xs) auto
  ultimately show ?thesis using assms(2) by (simp add: find_receipt_def)
qed

lemma once_replays:
  assumes "find_receipt (store w) scope key = Some r"
  shows "once scope key (im_digest r) replay fresh w = transaction (replay (im_status r, im_body r)) w"
    and "digest \<noteq> im_digest r \<Longrightarrow> once scope key digest replay fresh w =
      (Inl (server_error ''IDEMPOTENCY_CONFLICT'' ''Idempotency-Key was already used with a different request'' 409), w)"
  using assms
  by (simp_all add: once_def idempotency_check_def transaction_def pbind_def read_store_def raise_if_def
      pseq_def preturn_def)

lemma accepted_receipt:
  assumes "accept_intent cfg q se ws p request digest m pub nm v res eff w = (Inr (''accepted'', body), w1)"
  shows "\<exists>r. find_receipt (store w1) ''sessions.send'' request = Some r \<and> im_digest r = digest \<and>
    im_body r = json_sorted body"
proof -
  have "\<exists>u. idempotency_insert ''sessions.send'' request digest 202 body u = (Inr (), w1)"
    using assms
    unfolding accept_intent_def once_def transaction_Inr
    by (auto simp: pbind_Inr pseq_Inr preturn_Inr raise_if_Inr idempotency_check_def read_store_Inr
        split: option.splits)
  then obtain u where "idempotency_insert ''sessions.send'' request digest 202 body u = (Inr (), w1)" ..
  from receipt_found [OF this] show ?thesis by blast
qed



section \<open>Approvals\<close>

text \<open>
  C32: An approval has one decision. Once it is settled, no sequence of operations changes its
  row, and a further decision on it, by anyone and for anything, writes nothing: the request
  that decided it is told it was already recorded, with the recorded decision, and every
  other one that the approval is no longer actionable.
\<close>

theorem approval_decided_once:
  assumes "ledger_steps cfg q w w'" "sound (store w)"
    and "find_approval (store w) i = Some a" "ap_state a = ''settled''"
  shows "find_approval (store w') i = Some a \<and>
    decide i decision scope expected request w' =
      (Inr (200, if map_of (ap_request a) ''decideRequestId'' = Some (JStr request)
         then decision_body a ''already_recorded''
         else JDict [(''outcome'', JStr ''invalid''), (''reason'', JStr ''approval_state:settled'')]), w')"
proof -
  from assms(3) have a: "a \<in> set (l_approvals (store w))" "ap_id a = i"
    by (auto simp: find_approval_def find_Some_iff)
  from approvals.ledger_steps_law [OF assms(1)] assms(2) have
    ok: "sound (store w')" and kept: "approvals_kept (store w) (store w')"
    by (simp_all add: guarded_def)
  from kept a assms(4) have "a \<in> set (l_approvals (store w'))" by (simp add: approvals_kept_def)
  with ok a(2) have found: "find_approval (store w') i = Some a"
    by (simp add: find_approval_def sound_def keys_ok_def find_keyed)
  then show ?thesis
    using assms(4)
    by (simp add: decide_def Let_def transaction_def pbind_def fetch_row_def preturn_def)
qed

definition demo_approval :: approval_row where
  "demo_approval = \<lparr>ap_id = ''a1'', ap_session = ''s1'', ap_exec = ''t1'', ap_version = 2,
     ap_state = ''settled'', ap_decision = Some ''allow'', ap_scope = None,
     ap_request = [(''decideRequestId'', JStr ''r1'')], ap_created = demo_stamp, ap_settled = Some demo_stamp\<rparr>"

theorem approval_decided_once_witness:
  "decide ''a1'' ''deny'' JNull 2 ''r2'' (demo_ledger_world (demo_ledger [] [] [demo_approval]))
     = (Inr (200, JDict [(''outcome'', JStr ''invalid''), (''reason'', JStr ''approval_state:settled'')]),
        demo_ledger_world (demo_ledger [] [] [demo_approval]))"
proof -
  let ?w = "demo_ledger_world (demo_ledger [] [] [demo_approval])"
  have "sound (store ?w)"
    by (simp add: sound_def keys_ok_def log_numbered_def ledger_demo ledger_rows)
  moreover have "find_approval (store ?w) ''a1'' = Some demo_approval"
    by (simp add: ledger_demo demo_approval_def find_approval_def)
  ultimately show ?thesis
    using approval_decided_once [OF steps_refl, of ?w "''a1''" demo_approval "''deny''" JNull 2 "''r2''"]
    by (simp add: demo_approval_def)
qed

section \<open>The life of a queue item\<close>

lemma item_edges_final: "(a, b) \<in> (set item_edges)\<^sup>+ \<Longrightarrow> a \<in> {''pending'', ''dispatched''}"
  by (induction rule: converse_trancl_induct) (auto simp: item_edges_def)

text \<open>
  A queue item is never lost and only moves forward. Whatever runs (the filing of a turn
  that has ended aside), the row with its id stays, keeps what the submitter froze (session,
  profile, configuration, message, request), and either is as it was or has a higher version
  and a state further along pending, dispatched, completed/failed/cancelled or pending,
  withdrawn/paused; a final state is never left.
\<close>

lemma queue_items_progress:
  assumes "ledger_steps cfg q w w'" "sound (store w)" "find_item (store w) i = Some a"
  shows "\<exists>b. find_item (store w') i = Some b \<and> item_fixed b = item_fixed a \<and>
    (b = a \<or> qi_version a < qi_version b \<and> (qi_state a, qi_state b) \<in> (set item_edges)\<^sup>+ \<and>
      qi_state a \<in> {''pending'', ''dispatched''})"
proof -
  from assms(3) have a: "a \<in> set (l_items (store w))" "qi_id a = i"
    by (auto simp: find_item_def find_Some_iff)
  from items.ledger_steps_law [OF assms(1)] assms(2) have
    ok: "sound (store w')" and "items_kept (store w) (store w')" by (simp_all add: guarded_def)
  with a obtain b where b: "b \<in> set (l_items (store w'))" "item_path a b" by (auto simp: items_kept_def)
  then have fixed: "item_fixed b = item_fixed a" by (auto simp: item_path_def)
  from item_fixed_id [OF this] a(2) have "qi_id b = i" by simp
  with ok b(1) have "find_item (store w') i = Some b"
    by (simp add: find_item_def sound_def keys_ok_def find_keyed)
  moreover from b(2) have "b = a \<or> qi_version a < qi_version b \<and> (qi_state a, qi_state b) \<in> (set item_edges)\<^sup>+"
    by (auto simp: item_path_def)
  ultimately show ?thesis using fixed item_edges_final by blast
qed

definition demo_item :: item_row where
  "demo_item = \<lparr>qi_id = ''q1'', qi_session = ''s1'', qi_version = 1, qi_state = ''pending'',
     qi_profile = ''profile_1'', qi_config = 1, qi_request = ''r1'', qi_digest = ''d'', qi_message = ''m'',
     qi_effective = None, qi_public = Some (JDict []), qi_pause = None, qi_submitted = demo_stamp,
     qi_updated = demo_stamp\<rparr>"

lemmas withdraw_eval = drop_result_def withdraw_def once_def require_session_def idempotency_check_def
  row_to_item_def read_item_def append_updated_def public_item_def idempotency_insert_def item_json_def
  str_or_null_def demo_item_def Let_def ledger_demo ledger_progs ledger_rows

lemma queue_items_progress_witness:
  "\<exists>w' b. run_ledger demo_config (Some None) (Withdraw None ''s1'' ''q1'' 1 ''r2'' ''d2'')
       (demo_ledger_world (demo_ledger [] [demo_item] [])) = (Inr (), w') \<and>
     find_item (store w') ''q1'' = Some b \<and> qi_state b = ''withdrawn'' \<and> item_fixed b = item_fixed demo_item"
proof -
  let ?w = "demo_ledger_world (demo_ledger [] [demo_item] [])"
  let ?m = "run_ledger demo_config (Some None) (Withdraw None ''s1'' ''q1'' 1 ''r2'' ''d2'')"
  have "fst (?m ?w) = Inr ()" by (simp add: withdraw_eval)
  then have run: "?m ?w = (Inr (), snd (?m ?w))" by (rule run_split)
  have steps: "ledger_steps demo_config (Some None) ?w (snd (?m ?w))"
    by (rule steps_op [OF steps_refl _ run]) simp
  have start: "sound (store ?w)" "find_item (store ?w) ''q1'' = Some demo_item"
    by (simp_all add: sound_def keys_ok_def log_numbered_def demo_item_def ledger_demo ledger_rows)
  have "map_option qi_state (find_item (store (snd (?m ?w))) ''q1'') = Some ''withdrawn''" by (simp add: withdraw_eval)
  with queue_items_progress [OF steps start] run show ?thesis by auto
qed

section \<open>A turn that ended\<close>


definition demo_ended :: ledger where
  "demo_ended = demo_ledger [demo_turn ''t1'' ''s1'' ''cancelled''] [] []"

lemma demo_ended_sound: "sound demo_ended"
  by (simp add: demo_ended_def sound_def keys_ok_def log_numbered_def ledger_demo ledger_rows)


section \<open>Where the end of a turn is not final\<close>

lemma find_updated:
  assumes "find (\<lambda>r. k r = i) xs = Some t" "\<And>r. k (f r) = k r"
  shows "find (\<lambda>r. k r = i) (update_where (\<lambda>r. k r = i) f xs) = Some (f t)"
  using assms by (induction xs) (auto simp: update_where_def)

lemma set_turn_dispatch_state:
  assumes "set_turn_dispatch i wk x dp st w = (Inr e, w')" "find_turn (store w) i = Some t"
  shows "\<exists>t'. find_turn (store w') i = Some t' \<and> tn_state t' = st \<and> tn_session t' = tn_session t"
proof -
  let ?append = "append_session_event (tn_session t) (Some i) ''turn.state'' (JDict [(''state'', JStr st)])"
  let ?f = "\<lambda>n r. r\<lparr>tn_work := Some wk, tn_exec := Some x, tn_dispatch := Some dp, tn_state := st, tn_updated := n\<rparr>"
  from assms obtain n u v where up: "update_turn i (?f n) u = (Inr (), v)" "store u = store w"
    and rest: "?append v = (Inr e, w')"
    unfolding set_turn_dispatch_def transaction_Inr
    by (auto simp: pbind_Inr [of now_utc] pbind_Inr [of "fetch_row f e" for f e] fetch_row_Inr now_utc_Inr
        pseq_Inr [of "update_turn a f" for a f])
  from withinD [OF append_event_same(1) rest] up
  have "l_turns (store w') = update_where (\<lambda>r. tn_id r = i) (?f n) (l_turns (store w))"
    by (auto simp: update_turn_def run_iffs update_turns_def split: if_splits)
  with assms(2) have "find_turn (store w') i = Some (?f n t)"
    unfolding find_turn_def by (simp add: find_updated)
  then show ?thesis by simp
qed

text \<open>
  The filing of a turn in the Work Core does not look at the turn's state: filing a turn
  that was cancelled, failed or sealed between its acceptance and its filing makes it an
  \<open>accepted\<close> turn again, so its session counts as busy from then on.
\<close>

lemma late_filing_reopens:
  assumes "file_core_records cfg i w = (Inr (), w')" "sc_filer cfg \<noteq> None"
    and "find_turn (store w) i = Some t" "tn_work t = None" "tn_dispatch t = None"
  shows "\<exists>t'. find_turn (store w') i = Some t' \<and> tn_state t' = ''accepted'' \<and>
    session_busy (store w') (tn_session t)"
proof -
  from assms obtain rc :: receipt and e where
    "set_turn_dispatch i (rp_work rc) (rp_execution rc) (rp_dispatch rc) ''accepted'' w = (Inr e, w')"
    by (auto simp: file_core_records_def get_turn_filing_def pbind_Inr pseq_Inr fetch_row_Inr plift_Inr preturn_Inr
        Let_def)
  from set_turn_dispatch_state [OF this assms(3)] obtain t' where
    t': "find_turn (store w') i = Some t'" "tn_state t' = ''accepted''" "tn_session t' = tn_session t" by blast
  then have "active_turn t'" "t' \<in> set (l_turns (store w'))"
    by (auto simp: active_turn_def active_states_def dest: find_turn_in)
  with t' show ?thesis by (auto simp: session_busy_def list_ex_iff)
qed

lemma late_filing_reopens_witness:
  "\<exists>w' t'. file_core_records demo_config ''t1'' (demo_ledger_world demo_ended) = (Inr (), w') \<and>
     \<not> session_busy (store (demo_ledger_world demo_ended)) ''s1'' \<and>
     find_turn (store w') ''t1'' = Some t' \<and> tn_state t' = ''accepted'' \<and> session_busy (store w') ''s1''"
proof -
  let ?w = "demo_ledger_world demo_ended"
  have "fst (file_core_records demo_config ''t1'' ?w) = Inr ()" by code_simp
  then have run: "file_core_records demo_config ''t1'' ?w = (Inr (), snd (file_core_records demo_config ''t1'' ?w))"
    by (rule run_split)
  from late_filing_reopens [OF run, of "demo_turn ''t1'' ''s1'' ''cancelled''"]
  have "\<exists>t'. find_turn (store (snd (file_core_records demo_config ''t1'' ?w))) ''t1'' = Some t' \<and>
      tn_state t' = ''accepted'' \<and> session_busy (store (snd (file_core_records demo_config ''t1'' ?w))) ''s1''"
    by (simp add: demo_ended_def demo_ledger_world_def demo_ledger_def demo_config_def demo_turn_def new_turn_def
        find_turn_def)
  moreover have "\<not> session_busy (store ?w) ''s1''" by code_simp
  ultimately show ?thesis using run by blast
qed

interpretation accounts_same: evolution "\<lambda>d d'. l_profiles d' = l_profiles d \<and> l_sessions d' = l_sessions d"
  by unfold_locales auto

abbreviation "accounts_kept \<equiv> within (\<lambda>d d'. l_profiles d' = l_profiles d \<and> l_sessions d' = l_sessions d)"

lemma event_accounts: "accounts_kept (append_session_event s turn kind data)"
  unfolding append_session_event_def Let_def
  by (intro accounts_same.within_intros accounts_same.within_if accounts_same.within_exec_sql)
    (auto simp: insert_session_event_def split: if_splits)

lemma items_accounts: "accounts_kept (exec_sql (update_items p f))"
  by (rule accounts_same.within_exec_sql) (auto simp: update_items_def)

lemma queue_accounts: "accounts_kept (settle_queue queue row st why)"
  unfolding settle_queue_def mark_terminal_def pause_pending_def pause_item_def append_updated_def read_item_def
  by (intro accounts_same.within_intros accounts_same.within_if accounts_same.within_case_option event_accounts
      items_accounts)

text \<open>
  A failure that leaves its session in recovery while another turn of the same profile is
  still active does not mark the profile: \<open>recovery_pending\<close> stays what it was (the sibling's
  own completion writes no value either), so the evidence is in the session row alone.
\<close>

lemma recovery_evidence_lost:
  assumes "fail_turn q i code cap w = (Inr r, w')"
    and "find_turn (store w) i = Some t" "tn_state t \<notin> set terminal_states"
    and "code \<in> set [''WORKER_DISCONNECTED'', ''DISPATCH_AMBIGUOUS'']"
    and "x \<in> set (l_turns (store w))" "tn_id x \<noteq> i" "tn_profile x = tn_profile t" "active_turn x"
  shows "l_profiles (store w') = l_profiles (store w) \<and>
    (\<forall>s \<in> set (l_sessions (store w')). se_id s = tn_session t \<longrightarrow> se_status s = ''recovery_required'')"
proof -
  let ?short = "take 128 code"
  let ?rest = "pseq (settle_queue q t ''failed'' code)
      (pseq (append_session_event (tn_session t) (Some i) ''turn.capture''
          (JDict [(''state'', JStr cap), (''error_code'', JStr ?short)]))
      (pbind (append_session_event (tn_session t) (Some i) ''turn.state''
          (JDict [(''state'', JStr ''unknown''), (''error_code'', JStr ?short)])) (\<lambda>e.
       preturn (Reply_event e))))"
  from assms(1-4) obtain n v1 v2 v3 b where
    up: "update_turn i (\<lambda>r. r\<lparr>tn_state := ''unknown'', tn_capture := cap, tn_error := Some ?short, tn_updated := n\<rparr>)
      v1 = (Inr (), v2)" and v1: "store v1 = store w"
    and se: "session_set (tn_session t) (\<lambda>r. r\<lparr>se_status := ''recovery_required'', se_updated := n\<rparr>) v2 = (Inr (), v3)"
    and st: "pseq (settle_profile_after_turn (tn_profile t) i n (Some 1)) ?rest v3 = (Inr r, w')"
    unfolding fail_turn_def transaction_Inr Let_def
    by (auto simp: pbind_Inr [of now_utc] pbind_Inr [of "fetch_row f e" for f e] fetch_row_Inr now_utc_Inr
        pseq_Inr [of "update_turn a f" for a f] pseq_Inr [of "session_set a f" for a f])
  from up v1 have w2: "l_turns (store v2) = update_where (\<lambda>r. tn_id r = i)
      (\<lambda>r. r\<lparr>tn_state := ''unknown'', tn_capture := cap, tn_error := Some ?short, tn_updated := n\<rparr>) (l_turns (store w))"
    "l_profiles (store v2) = l_profiles (store w)"
    by (auto simp: update_turn_def run_iffs update_turns_def split: if_splits)
  from se have w3: "l_turns (store v3) = l_turns (store v2)" "l_profiles (store v3) = l_profiles (store v2)"
    "\<forall>s \<in> set (l_sessions (store v3)). se_id s = tn_session t \<longrightarrow> se_status s = ''recovery_required''"
    by (auto simp: session_set_def run_iffs update_sessions_def set_update_where split: if_splits)
  have "x \<in> set (l_turns (store v3))"
    using assms(5,6) by (auto simp: w3 w2 set_update_where)
  with assms(6-8) have "list_ex (\<lambda>r. tn_profile r = tn_profile t \<and> tn_id r \<noteq> i \<and> active_turn r) (l_turns (store v3))"
    by (auto simp: list_ex_iff)
  with st have rest: "?rest v3 = (Inr r, w')"
    by (simp add: settle_profile_after_turn_def pseq_def pbind_def read_store_def preturn_def)
  have "accounts_kept ?rest"
    by (intro accounts_same.within_intros queue_accounts event_accounts)
  from withinD [OF this rest] w2 w3 show ?thesis by simp
qed

definition demo_siblings :: ledger where
  "demo_siblings = demo_ledger [demo_turn ''t1'' ''s1'' ''running'', demo_turn ''t2'' ''s2'' ''running''] [] []"

lemma recovery_evidence_lost_witness:
  "\<exists>r w'. fail_turn None ''t1'' ''WORKER_DISCONNECTED'' ''failed'' (demo_ledger_world demo_siblings) = (Inr r, w') \<and>
     map pf_recovery (l_profiles (store w')) = [0] \<and>
     filter (\<lambda>s. se_id s = ''s1'' \<and> se_status s \<noteq> ''recovery_required'') (l_sessions (store w')) = []"
proof -
  let ?w = "demo_ledger_world demo_siblings"
  let ?m = "fail_turn None ''t1'' ''WORKER_DISCONNECTED'' ''failed''"
  have "map_sum (\<lambda>_. ()) (\<lambda>_. ()) (fst (?m ?w)) = Inr ()" by code_simp
  then obtain r where "fst (?m ?w) = Inr r" by (cases "fst (?m ?w)") auto
  then have run: "?m ?w = (Inr r, snd (?m ?w))" by (rule run_split)
  from recovery_evidence_lost [OF run, of "demo_turn ''t1'' ''s1'' ''running''" "demo_turn ''t2'' ''s2'' ''running''"]
  have "l_profiles (store (snd (?m ?w))) = l_profiles (store ?w) \<and>
      filter (\<lambda>s. se_id s = ''s1'' \<and> se_status s \<noteq> ''recovery_required'') (l_sessions (store (snd (?m ?w)))) = []"
    by (auto simp: filter_empty_conv demo_siblings_def demo_ledger_world_def demo_ledger_def demo_turn_def new_turn_def find_turn_def
        terminal_states_def active_turn_def active_states_def)
  moreover have "map pf_recovery (l_profiles (store ?w)) = [0]"
    by (simp add: demo_siblings_def demo_ledger_world_def demo_ledger_def)
  ultimately show ?thesis using run by (metis (no_types, lifting))
qed

end
