(* ===== verification/Run_Tracker.thy ===== *)
theory Run_Tracker
  imports Prelude
begin

text \<open>
  The neutral run tracker (\<open>pacthold/execution/lifecycle.py\<close> over \<open>execution/contracts.py\<close>)
  with its interleavings. \<open>submit\<close> and \<open>cancel_execution\<close> are called by several threads; a
  block \<open>with self.lock\<close> is one step, and so is every call of the port or of the factory and
  the acquisition of a run's \<open>cancel_lock\<close>. A thread is at one of the points between its
  steps. Run objects are mutable and outlive their dictionary entry, so they live in a store
  and the dictionaries map keys to their addresses. The back end registers its own business
  runs under the same attribute contract and retires them; both are steps of the environment.
  Three ghost lists record every removal of a cancel receipt, every start and every abort
  that reached a port.
\<close>

section \<open>Contract types\<close>

datatype cancel_outcome = Confirmed_stopped | Refused_no_active_run | Unknown_outcome

datatype observation_state = Not_known_to_e | Running | Terminal | Stopped_confirmed

datatype evidence_class = Dispatch_ack | Native_report | Terminal_receipt | Cancel_confirmation | No_evidence

record observation =
  ob_key :: string
  ob_state :: observation_state
  ob_evidence :: evidence_class
  ob_at :: datetime

record run_receipt =
  rr_key :: string
  rr_dispatch :: string
  rr_replayed :: bool

section \<open>State\<close>

record run_object =
  ro_key :: string
  ro_dispatch :: string
  ro_port :: bool
  ro_native :: string
  ro_confirmed :: bool
  ro_uncertain :: bool
  ro_evidence :: "(string \<times> datetime) list"
  ro_result :: bool
  ro_business :: bool
  ro_holder :: "nat option"

datatype reply = Submitted run_receipt | Cancelled cancel_outcome | Raised

text \<open>The point a thread has reached; the key and the address are its local variables.\<close>

datatype thread =
    Ready "reply option"
  | Seam string nat
  | Opening string nat
  | Refusing string
  | Looked string nat
  | Entered string nat
  | Checked string nat
  | Calling string nat
  | Answered string nat cancel_outcome

record tracker =
  tk_active :: "string \<Rightarrow> nat option"
  tk_runs :: "string \<Rightarrow> nat option"
  tk_receipts :: "string \<Rightarrow> cancel_outcome option"
  tk_objects :: "run_object list"
  tk_threads :: "nat \<Rightarrow> thread"
  tk_pops :: "string list"
  tk_starts :: "nat list"
  tk_aborts :: "nat list"

definition empty_tracker :: tracker where
  "empty_tracker = \<lparr>tk_active = (\<lambda>_. None), tk_runs = (\<lambda>_. None), tk_receipts = (\<lambda>_. None),
     tk_objects = [], tk_threads = (\<lambda>_. Ready None), tk_pops = [], tk_starts = [], tk_aborts = []\<rparr>"

definition run_at :: "tracker \<Rightarrow> nat \<Rightarrow> run_object" where
  "run_at t o' = tk_objects t ! o'"

definition change :: "nat \<Rightarrow> (run_object \<Rightarrow> run_object) \<Rightarrow> tracker \<Rightarrow> tracker" where
  "change o' f t = (if o' < length (tk_objects t) then t\<lparr>tk_objects := (tk_objects t)[o' := f (run_at t o')]\<rparr> else t)"

definition goto :: "nat \<Rightarrow> thread \<Rightarrow> tracker \<Rightarrow> tracker" where
  "goto i p t = t\<lparr>tk_threads := (tk_threads t)(i := p)\<rparr>"

abbreviation finish :: "nat \<Rightarrow> reply \<Rightarrow> tracker \<Rightarrow> tracker" where
  "finish i r \<equiv> goto i (Ready (Some r))"

definition pop_receipt :: "string \<Rightarrow> tracker \<Rightarrow> tracker" where
  "pop_receipt k t = t\<lparr>tk_receipts := (tk_receipts t)(k := None), tk_pops := k # tk_pops t\<rparr>"

definition put_receipt :: "string \<Rightarrow> cancel_outcome \<Rightarrow> tracker \<Rightarrow> tracker" where
  "put_receipt k x t = t\<lparr>tk_receipts := (tk_receipts t)(k \<mapsto> x)\<rparr>"

definition new_object :: "string \<Rightarrow> string \<Rightarrow> bool \<Rightarrow> string \<Rightarrow> bool \<Rightarrow> run_object" where
  "new_object k d port native business = \<lparr>ro_key = k, ro_dispatch = d, ro_port = port, ro_native = native,
     ro_confirmed = False, ro_uncertain = False, ro_evidence = [], ro_result = False, ro_business = business,
     ro_holder = None\<rparr>"

definition allocate :: "run_object \<Rightarrow> tracker \<Rightarrow> tracker" where
  "allocate r t = t\<lparr>tk_objects := tk_objects t @ [r]\<rparr>"

section \<open>submit\<close>

text \<open>The first locked block: replay, or claim the key; \<open>d\<close> is the text of the uuid.\<close>

definition submit_claim :: "nat \<Rightarrow> string \<Rightarrow> string \<Rightarrow> tracker \<Rightarrow> tracker" where
  "submit_claim i k d t =
    (case tk_runs t k of
       Some o' \<Rightarrow> finish i (Submitted \<lparr>rr_key = k, rr_dispatch = ro_dispatch (run_at t o'), rr_replayed = True\<rparr>) t
     | None \<Rightarrow>
         (let o' = length (tk_objects t) in
          goto i (Seam k o')
            (pop_receipt k ((allocate (new_object k (''neutral:'' @ d) False [] False) t)
               \<lparr>tk_runs := (tk_runs t)(k \<mapsto> o')\<rparr>))))"

text \<open>The factory returned a port, or raised; then the claim is released if it still stands.\<close>

definition submit_seam :: "nat \<Rightarrow> string \<Rightarrow> nat \<Rightarrow> bool \<Rightarrow> tracker \<Rightarrow> tracker" where
  "submit_seam i k o' built t =
    (if built then goto i (Opening k o') (change o' (\<lambda>r. r\<lparr>ro_port := True\<rparr>) t)
     else finish i Raised
       (if tk_runs t k = Some o' then t\<lparr>tk_runs := (tk_runs t)(k := None)\<rparr> else t))"

text \<open>\<open>open_execution\<close> answered with a native id, or raised.\<close>

definition submit_open :: "nat \<Rightarrow> string \<Rightarrow> nat \<Rightarrow> string option \<Rightarrow> tracker \<Rightarrow> tracker" where
  "submit_open i k o' native t =
    (let t' = t\<lparr>tk_starts := o' # tk_starts t\<rparr> in
     case native of
       None \<Rightarrow> finish i Raised (change o' (\<lambda>r. r\<lparr>ro_uncertain := True\<rparr>) t')
     | Some n \<Rightarrow> finish i (Submitted \<lparr>rr_key = k, rr_dispatch = ro_dispatch (run_at t o'), rr_replayed = False\<rparr>)
         (change o' (\<lambda>r. r\<lparr>ro_native := n\<rparr>) t'))"

section \<open>cancel_execution\<close>

definition cancel_look :: "nat \<Rightarrow> string \<Rightarrow> tracker \<Rightarrow> tracker" where
  "cancel_look i k t =
    (case tk_receipts t k of
       Some prior \<Rightarrow> finish i (Cancelled prior) t
     | None \<Rightarrow>
         (case tk_active t k of
            Some o' \<Rightarrow> goto i (Looked k o') t
          | None \<Rightarrow> (case tk_runs t k of Some o' \<Rightarrow> goto i (Looked k o') t | None \<Rightarrow> goto i (Refusing k) t)))"

definition cancel_refuse :: "nat \<Rightarrow> string \<Rightarrow> tracker \<Rightarrow> tracker" where
  "cancel_refuse i k t = finish i (Cancelled Refused_no_active_run) (put_receipt k Refused_no_active_run t)"

definition cancel_enter :: "nat \<Rightarrow> string \<Rightarrow> nat \<Rightarrow> tracker \<Rightarrow> tracker" where
  "cancel_enter i k o' t = goto i (Entered k o') (change o' (\<lambda>r. r\<lparr>ro_holder := Some i\<rparr>) t)"

definition unlock :: "nat \<Rightarrow> tracker \<Rightarrow> tracker" where
  "unlock o' t = change o' (\<lambda>r. r\<lparr>ro_holder := None\<rparr>) t"

definition cancel_check :: "nat \<Rightarrow> string \<Rightarrow> nat \<Rightarrow> tracker \<Rightarrow> tracker" where
  "cancel_check i k o' t =
    (case tk_receipts t k of
       Some prior \<Rightarrow> finish i (Cancelled prior) (unlock o' t)
     | None \<Rightarrow> goto i (Checked k o') t)"

definition cancel_port :: "nat \<Rightarrow> string \<Rightarrow> nat \<Rightarrow> tracker \<Rightarrow> tracker" where
  "cancel_port i k o' t =
    (if \<not> ro_port (run_at t o') then finish i (Cancelled Unknown_outcome) (unlock o' t)
     else goto i (Calling k o') (t\<lparr>tk_aborts := o' # tk_aborts t\<rparr>))"

text \<open>What \<open>port.cancel\<close> answered; \<open>None\<close> when it returned None or raised.\<close>

definition cancel_answer :: "nat \<Rightarrow> string \<Rightarrow> nat \<Rightarrow> bool option \<Rightarrow> tracker \<Rightarrow> tracker" where
  "cancel_answer i k o' accepted t =
    (case accepted of
       None \<Rightarrow> goto i (Answered k o' Unknown_outcome) t
     | Some True \<Rightarrow> goto i (Answered k o' Confirmed_stopped) (change o' (\<lambda>r. r\<lparr>ro_confirmed := True\<rparr>) t)
     | Some False \<Rightarrow> goto i (Answered k o' Refused_no_active_run) t)"

definition cancel_record :: "nat \<Rightarrow> string \<Rightarrow> nat \<Rightarrow> cancel_outcome \<Rightarrow> tracker \<Rightarrow> tracker" where
  "cancel_record i k o' x t = finish i (Cancelled x) (unlock o' (put_receipt k x t))"

section \<open>Reads, events and the back end\<close>

definition observe_execution :: "string \<Rightarrow> datetime \<Rightarrow> tracker \<Rightarrow> observation" where
  "observe_execution k now t =
    (let (s, e) =
       (case tk_active t k of
          Some o' \<Rightarrow>
            (let r = run_at t o' in
             if ro_result r then (Terminal, Terminal_receipt)
             else if ro_confirmed r then (Stopped_confirmed, Cancel_confirmation)
             else if ro_native r \<noteq> [] then (Running, Native_report)
             else (Running, Dispatch_ack))
        | None \<Rightarrow>
            (case tk_runs t k of
               Some o' \<Rightarrow>
                 (let r = run_at t o' in
                  if ro_confirmed r then (Stopped_confirmed, Cancel_confirmation)
                  else if ro_evidence r \<noteq> [] then (Running, Native_report)
                  else (Running, Dispatch_ack))
             | None \<Rightarrow> (Not_known_to_e, No_evidence)))
     in \<lparr>ob_key = k, ob_state = s, ob_evidence = e, ob_at = now\<rparr>)"

definition note_native_event :: "string \<Rightarrow> string \<Rightarrow> datetime \<Rightarrow> tracker \<Rightarrow> tracker" where
  "note_native_event k kind now t =
    (case tk_runs t k of
       None \<Rightarrow> t
     | Some o' \<Rightarrow> change o' (\<lambda>r. r\<lparr>ro_evidence := ro_evidence r @ [(kind, now)]\<rparr>) t)"

text \<open>The back end: a business run is built with its port, registered under its turn id, gets
  its result and is retired.\<close>

definition register_run :: "nat \<Rightarrow> tracker \<Rightarrow> tracker" where
  "register_run o' t =
    (let k = ro_key (run_at t o') in pop_receipt k (t\<lparr>tk_active := (tk_active t)(k \<mapsto> o')\<rparr>))"

definition retire_run :: "string \<Rightarrow> tracker \<Rightarrow> tracker" where
  "retire_run k t = t\<lparr>tk_active := (tk_active t)(k := None)\<rparr>"

section \<open>Steps\<close>

datatype tracker_event =
    Submit nat string string
  | Seam_done nat bool
  | Open_done nat "string option"
  | Cancel nat string
  | Refuse nat
  | Enter nat
  | Check nat
  | Port nat
  | Answer nat "bool option"
  | Record nat
  | Note string string datetime
  | Build string string string
  | Register nat
  | Result nat
  | Retire string

fun tracker_step :: "tracker_event \<Rightarrow> tracker \<Rightarrow> tracker option" where
  "tracker_step (Submit i k d) t = (case tk_threads t i of Ready r \<Rightarrow> Some (submit_claim i k d t) | _ \<Rightarrow> None)"
| "tracker_step (Seam_done i built) t = (case tk_threads t i of Seam k o' \<Rightarrow> Some (submit_seam i k o' built t) | _ \<Rightarrow> None)"
| "tracker_step (Open_done i n) t = (case tk_threads t i of Opening k o' \<Rightarrow> Some (submit_open i k o' n t) | _ \<Rightarrow> None)"
| "tracker_step (Cancel i k) t = (case tk_threads t i of Ready r \<Rightarrow> Some (cancel_look i k t) | _ \<Rightarrow> None)"
| "tracker_step (Refuse i) t = (case tk_threads t i of Refusing k \<Rightarrow> Some (cancel_refuse i k t) | _ \<Rightarrow> None)"
| "tracker_step (Enter i) t = (case tk_threads t i of
     Looked k o' \<Rightarrow> if ro_holder (run_at t o') = None then Some (cancel_enter i k o' t) else None | _ \<Rightarrow> None)"
| "tracker_step (Check i) t = (case tk_threads t i of Entered k o' \<Rightarrow> Some (cancel_check i k o' t) | _ \<Rightarrow> None)"
| "tracker_step (Port i) t = (case tk_threads t i of Checked k o' \<Rightarrow> Some (cancel_port i k o' t) | _ \<Rightarrow> None)"
| "tracker_step (Answer i a) t = (case tk_threads t i of Calling k o' \<Rightarrow> Some (cancel_answer i k o' a t) | _ \<Rightarrow> None)"
| "tracker_step (Record i) t = (case tk_threads t i of Answered k o' x \<Rightarrow> Some (cancel_record i k o' x t) | _ \<Rightarrow> None)"
| "tracker_step (Note k kind now) t = Some (note_native_event k kind now t)"
| "tracker_step (Build k d n) t = Some (allocate (new_object k d True n True) t)"
| "tracker_step (Register o') t =
     (if o' < length (tk_objects t) \<and> ro_business (run_at t o') then Some (register_run o' t) else None)"
| "tracker_step (Result o') t =
     (if o' < length (tk_objects t) \<and> ro_business (run_at t o') then Some (change o' (\<lambda>r. r\<lparr>ro_result := True\<rparr>) t) else None)"
| "tracker_step (Retire k) t = Some (retire_run k t)"

inductive tracker_steps :: "tracker \<Rightarrow> tracker_event list \<Rightarrow> tracker \<Rightarrow> bool" where
  idle_steps: "tracker_steps t [] t"
| more_steps: "tracker_step e t = Some u \<Longrightarrow> tracker_steps u es v \<Longrightarrow> tracker_steps t (e # es) v"

inductive_simps tracker_steps_Nil: "tracker_steps t [] v"
inductive_simps tracker_steps_Cons: "tracker_steps t (e # es) v"

definition reachable_tracker :: "tracker \<Rightarrow> bool" where
  "reachable_tracker t \<longleftrightarrow> (\<exists>es. tracker_steps empty_tracker es t)"

text \<open>The whole call on one thread with no one in between.\<close>

fun run_events :: "tracker_event list \<Rightarrow> tracker \<Rightarrow> tracker option" where
  "run_events [] t = Some t"
| "run_events (e # es) t = (case tracker_step e t of None \<Rightarrow> None | Some u \<Rightarrow> run_events es u)"

lemma run_events_tracker_steps: "run_events es t = Some v \<longleftrightarrow> tracker_steps t es v"
  by (induction es arbitrary: t) (auto simp: tracker_steps_Nil tracker_steps_Cons split: option.splits)

end
