(* ===== verification/Run_Invariants.thy ===== *)
theory Run_Invariants
  imports Run_Tracker "HOL-Library.Multiset"
begin

text \<open>
  The invariant of the run tracker: references point at runs of their key, a run's cancel lock
  is held by the one thread inside its critical section, a claimed key belongs to one
  submitter and a run that got its port stays the run of its key, and the number of aborts of
  a run never exceeds the number of times the receipt of its key was removed.
\<close>

section \<open>Reading a changed tracker\<close>

lemma change_fields [simp]:
  "tk_active (change a f t) = tk_active t" "tk_runs (change a f t) = tk_runs t"
  "tk_receipts (change a f t) = tk_receipts t" "tk_threads (change a f t) = tk_threads t"
  "tk_pops (change a f t) = tk_pops t" "tk_starts (change a f t) = tk_starts t"
  "tk_aborts (change a f t) = tk_aborts t" "length (tk_objects (change a f t)) = length (tk_objects t)"
  by (simp_all add: change_def)

lemma goto_fields [simp]:
  "tk_active (goto i p t) = tk_active t" "tk_runs (goto i p t) = tk_runs t"
  "tk_receipts (goto i p t) = tk_receipts t" "tk_threads (goto i p t) = (tk_threads t)(i := p)"
  "tk_pops (goto i p t) = tk_pops t" "tk_starts (goto i p t) = tk_starts t"
  "tk_aborts (goto i p t) = tk_aborts t" "tk_objects (goto i p t) = tk_objects t"
  by (simp_all add: goto_def)

lemma receipt_fields [simp]:
  "tk_active (pop_receipt k t) = tk_active t" "tk_runs (pop_receipt k t) = tk_runs t"
  "tk_receipts (pop_receipt k t) = (tk_receipts t)(k := None)" "tk_threads (pop_receipt k t) = tk_threads t"
  "tk_pops (pop_receipt k t) = k # tk_pops t" "tk_starts (pop_receipt k t) = tk_starts t"
  "tk_aborts (pop_receipt k t) = tk_aborts t" "tk_objects (pop_receipt k t) = tk_objects t"
  "tk_active (put_receipt k x t) = tk_active t" "tk_runs (put_receipt k x t) = tk_runs t"
  "tk_receipts (put_receipt k x t) = (tk_receipts t)(k \<mapsto> x)" "tk_threads (put_receipt k x t) = tk_threads t"
  "tk_pops (put_receipt k x t) = tk_pops t" "tk_starts (put_receipt k x t) = tk_starts t"
  "tk_aborts (put_receipt k x t) = tk_aborts t" "tk_objects (put_receipt k x t) = tk_objects t"
  by (simp_all add: pop_receipt_def put_receipt_def)

lemma allocate_fields [simp]:
  "tk_active (allocate r t) = tk_active t" "tk_runs (allocate r t) = tk_runs t"
  "tk_receipts (allocate r t) = tk_receipts t" "tk_threads (allocate r t) = tk_threads t"
  "tk_pops (allocate r t) = tk_pops t" "tk_starts (allocate r t) = tk_starts t"
  "tk_aborts (allocate r t) = tk_aborts t" "tk_objects (allocate r t) = tk_objects t @ [r]"
  by (simp_all add: allocate_def)

lemma run_at_others [simp]:
  "run_at (goto i p t) a = run_at t a" "run_at (pop_receipt k t) a = run_at t a"
  "run_at (put_receipt k x t) a = run_at t a" "run_at (t\<lparr>tk_runs := rs\<rparr>) a = run_at t a"
  "run_at (t\<lparr>tk_active := rs\<rparr>) a = run_at t a" "run_at (t\<lparr>tk_starts := ns\<rparr>) a = run_at t a"
  "run_at (t\<lparr>tk_aborts := ns\<rparr>) a = run_at t a"
  by (simp_all add: run_at_def)

lemma run_at_change [simp]:
  "run_at (change a f t) b = (if a = b \<and> a < length (tk_objects t) then f (run_at t a) else run_at t b)"
  by (auto simp: run_at_def change_def)

lemma run_at_allocate [simp]:
  "a < length (tk_objects t) \<Longrightarrow> run_at (allocate r t) a = run_at t a"
  "run_at (allocate r t) (length (tk_objects t)) = r"
  by (simp_all add: run_at_def nth_append)

lemma new_object_fields [simp]:
  "ro_key (new_object k d p n b) = k" "ro_port (new_object k d p n b) = p"
  "ro_confirmed (new_object k d p n b) = False" "ro_business (new_object k d p n b) = b"
  "ro_holder (new_object k d p n b) = None"
  by (simp_all add: new_object_def)

lemmas operations = submit_claim_def submit_seam_def submit_open_def cancel_look_def cancel_refuse_def
  cancel_enter_def unlock_def cancel_check_def cancel_port_def cancel_answer_def cancel_record_def
  note_native_event_def register_run_def retire_run_def

section \<open>The invariant\<close>

fun refers :: "thread \<Rightarrow> (string \<times> nat) option" where
  "refers (Seam k a) = Some (k, a)"
| "refers (Opening k a) = Some (k, a)"
| "refers (Looked k a) = Some (k, a)"
| "refers (Entered k a) = Some (k, a)"
| "refers (Checked k a) = Some (k, a)"
| "refers (Calling k a) = Some (k, a)"
| "refers (Answered k a x) = Some (k, a)"
| "refers _ = None"

text \<open>The run whose cancel lock the thread holds, and the run it is starting.\<close>

fun inside :: "thread \<Rightarrow> nat option" where
  "inside (Entered k a) = Some a"
| "inside (Checked k a) = Some a"
| "inside (Calling k a) = Some a"
| "inside (Answered k a x) = Some a"
| "inside _ = None"

fun starting :: "thread \<Rightarrow> nat option" where
  "starting (Seam k a) = Some a"
| "starting (Opening k a) = Some a"
| "starting _ = None"

text \<open>The port has been asked to stop the run and the answer is not recorded yet.\<close>

fun asking :: "thread \<Rightarrow> nat option" where
  "asking (Calling k a) = Some a"
| "asking (Answered k a x) = Some a"
| "asking _ = None"

abbreviation exists_run :: "tracker \<Rightarrow> nat \<Rightarrow> bool" where
  "exists_run t a \<equiv> a < length (tk_objects t)"

definition refs_ok :: "tracker \<Rightarrow> bool" where
  "refs_ok t \<longleftrightarrow>
    (\<forall>k a. tk_runs t k = Some a \<longrightarrow> exists_run t a \<and> ro_key (run_at t a) = k \<and> \<not> ro_business (run_at t a)) \<and>
    (\<forall>k a. tk_active t k = Some a \<longrightarrow> exists_run t a \<and> ro_key (run_at t a) = k \<and> ro_business (run_at t a)) \<and>
    (\<forall>i k a. refers (tk_threads t i) = Some (k, a) \<longrightarrow> exists_run t a \<and> ro_key (run_at t a) = k)"

definition locks_ok :: "tracker \<Rightarrow> bool" where
  "locks_ok t \<longleftrightarrow> (\<forall>i a. exists_run t a \<longrightarrow> (inside (tk_threads t i) = Some a \<longleftrightarrow> ro_holder (run_at t a) = Some i))"

definition starts_ok :: "tracker \<Rightarrow> bool" where
  "starts_ok t \<longleftrightarrow> distinct (tk_starts t) \<and>
    (\<forall>a \<in> set (tk_starts t). exists_run t a \<and> ro_port (run_at t a)) \<and>
    (\<forall>i a. starting (tk_threads t i) = Some a \<longrightarrow> a \<notin> set (tk_starts t) \<and> \<not> ro_business (run_at t a)) \<and>
    (\<forall>i j a. starting (tk_threads t i) = Some a \<longrightarrow> starting (tk_threads t j) = Some a \<longrightarrow> i = j) \<and>
    (\<forall>i k a. tk_threads t i = Seam k a \<longrightarrow> \<not> ro_port (run_at t a) \<and> tk_runs t k = Some a) \<and>
    (\<forall>i k a. tk_threads t i = Opening k a \<longrightarrow> ro_port (run_at t a)) \<and>
    (\<forall>a. exists_run t a \<longrightarrow> ro_port (run_at t a) \<longrightarrow> \<not> ro_business (run_at t a) \<longrightarrow>
      tk_runs t (ro_key (run_at t a)) = Some a)"

abbreviation aborts_of :: "tracker \<Rightarrow> nat \<Rightarrow> nat" where
  "aborts_of t a \<equiv> count_list (tk_aborts t) a"

abbreviation claims_of :: "tracker \<Rightarrow> nat \<Rightarrow> nat" where
  "claims_of t a \<equiv> count_list (tk_pops t) (ro_key (run_at t a))"

text \<open>A run has no more aborts than claims; where the next abort may come from (no receipt and no
  answer on its way, or a thread past its check) it has one to spare.\<close>

definition aborts_ok :: "tracker \<Rightarrow> bool" where
  "aborts_ok t \<longleftrightarrow>
    (\<forall>a. exists_run t a \<longrightarrow> aborts_of t a \<le> claims_of t a) \<and>
    (\<forall>a. \<not> exists_run t a \<longrightarrow> aborts_of t a = 0) \<and>
    (\<forall>a k. tk_runs t k = Some a \<or> tk_active t k = Some a \<or> (\<exists>i. refers (tk_threads t i) = Some (k, a)) \<longrightarrow>
      0 < count_list (tk_pops t) k) \<and>
    (\<forall>a. exists_run t a \<longrightarrow> 0 < claims_of t a \<longrightarrow> tk_receipts t (ro_key (run_at t a)) = None \<longrightarrow>
      (\<forall>i. asking (tk_threads t i) \<noteq> Some a) \<longrightarrow> aborts_of t a < claims_of t a) \<and>
    (\<forall>i k a. tk_threads t i = Checked k a \<longrightarrow> aborts_of t a < claims_of t a)"

definition confirmed_ok :: "tracker \<Rightarrow> bool" where
  "confirmed_ok t \<longleftrightarrow>
    (\<forall>a. exists_run t a \<longrightarrow> ro_confirmed (run_at t a) \<longrightarrow> a \<in> set (tk_aborts t)) \<and>
    (\<forall>i a. asking (tk_threads t i) = Some a \<longrightarrow> a \<in> set (tk_aborts t))"

definition tracker_ok :: "tracker \<Rightarrow> bool" where
  "tracker_ok t \<longleftrightarrow> refs_ok t \<and> locks_ok t \<and> starts_ok t \<and> aborts_ok t \<and> confirmed_ok t"

lemma empty_tracker_ok: "tracker_ok empty_tracker"
  by (simp add: tracker_ok_def refs_ok_def locks_ok_def starts_ok_def aborts_ok_def confirmed_ok_def empty_tracker_def)

lemma inside_refers: "inside p = Some a \<Longrightarrow> \<exists>k. refers p = Some (k, a)"
  by (cases p) auto

lemma asking_inside: "asking p = Some a \<Longrightarrow> inside p = Some a"
  by (cases p) auto

section \<open>Preservation\<close>

lemma tracker_step_cases:
  assumes "tracker_step e t = Some u"
  obtains (submit) i k d r where "tk_threads t i = Ready r" "u = submit_claim i k d t"
  | (seam) i k a b where "tk_threads t i = Seam k a" "u = submit_seam i k a b t"
  | (opened) i k a n where "tk_threads t i = Opening k a" "u = submit_open i k a n t"
  | (look) i k r where "tk_threads t i = Ready r" "u = cancel_look i k t"
  | (refuse) i k where "tk_threads t i = Refusing k" "u = cancel_refuse i k t"
  | (enter) i k a where "tk_threads t i = Looked k a" "ro_holder (run_at t a) = None" "u = cancel_enter i k a t"
  | (check) i k a where "tk_threads t i = Entered k a" "u = cancel_check i k a t"
  | (port) i k a where "tk_threads t i = Checked k a" "u = cancel_port i k a t"
  | (answer) i k a x where "tk_threads t i = Calling k a" "u = cancel_answer i k a x t"
  | (recorded) i k a x where "tk_threads t i = Answered k a x" "u = cancel_record i k a x t"
  | (noted) k kind now where "u = note_native_event k kind now t"
  | (built) k d n where "u = allocate (new_object k d True n True) t"
  | (registered) a where "exists_run t a" "ro_business (run_at t a)" "u = register_run a t"
  | (ended) a where "exists_run t a" "ro_business (run_at t a)" "u = change a (\<lambda>r. r\<lparr>ro_result := True\<rparr>) t"
  | (retired) k where "u = retire_run k t"
proof (cases e)
  case (Submit i k d) with assms submit show ?thesis by (auto split: thread.splits)
next
  case (Seam_done i b) with assms seam show ?thesis by (auto split: thread.splits)
next
  case (Open_done i n) with assms opened show ?thesis by (auto split: thread.splits)
next
  case (Cancel i k) with assms look show ?thesis by (auto split: thread.splits)
next
  case (Refuse i) with assms refuse show ?thesis by (auto split: thread.splits)
next
  case (Enter i) with assms enter show ?thesis by (auto split: thread.splits if_splits)
next
  case (Check i) with assms check show ?thesis by (auto split: thread.splits)
next
  case (Port i) with assms port show ?thesis by (auto split: thread.splits)
next
  case (Answer i x) with assms answer show ?thesis by (auto split: thread.splits)
next
  case (Record i) with assms recorded show ?thesis by (auto split: thread.splits)
next
  case (Note k kind now) with assms noted show ?thesis by auto
next
  case (Build k d n) with assms built show ?thesis by auto
next
  case (Register a) with assms registered show ?thesis by (auto split: if_splits)
next
  case (Result a) with assms ended show ?thesis by (auto split: if_splits)
next
  case (Retire k) with assms retired show ?thesis by auto
qed

text \<open>Which runs the steps of a thread leave alone: the fields that matter per conjunct.\<close>

lemma refs_okI:
  assumes "\<And>k a. tk_runs t k = Some a \<Longrightarrow> exists_run t a \<and> ro_key (run_at t a) = k \<and> \<not> ro_business (run_at t a)"
    and "\<And>k a. tk_active t k = Some a \<Longrightarrow> exists_run t a \<and> ro_key (run_at t a) = k \<and> ro_business (run_at t a)"
    and "\<And>i k a. refers (tk_threads t i) = Some (k, a) \<Longrightarrow> exists_run t a \<and> ro_key (run_at t a) = k"
  shows "refs_ok t"
  using assms by (simp add: refs_ok_def)

lemma refs_goto: "refs_ok t \<Longrightarrow> (\<And>k a. refers p = Some (k, a) \<Longrightarrow> exists_run t a \<and> ro_key (run_at t a) = k) \<Longrightarrow>
    refs_ok (goto i p t)"
  by (simp add: refs_ok_def)

lemma refs_change: "refs_ok t \<Longrightarrow> (\<And>r. ro_key (f r) = ro_key r \<and> ro_business (f r) = ro_business r) \<Longrightarrow>
    refs_ok (change a f t)"
  by (simp add: refs_ok_def)

lemma refs_receipts: "refs_ok t \<Longrightarrow> refs_ok (pop_receipt k t)" "refs_ok t \<Longrightarrow> refs_ok (put_receipt k x t)"
  "refs_ok t \<Longrightarrow> refs_ok (t\<lparr>tk_starts := ns\<rparr>)" "refs_ok t \<Longrightarrow> refs_ok (t\<lparr>tk_aborts := ns\<rparr>)"
  by (simp_all add: refs_ok_def)

lemma refs_allocate:
  assumes "refs_ok t"
  shows "refs_ok (allocate r t)"
proof (rule refs_okI)
  fix k a assume "tk_runs (allocate r t) k = Some a"
  with assms have "exists_run t a \<and> ro_key (run_at t a) = k \<and> \<not> ro_business (run_at t a)" by (simp add: refs_ok_def)
  then show "exists_run (allocate r t) a \<and> ro_key (run_at (allocate r t) a) = k \<and> \<not> ro_business (run_at (allocate r t) a)"
    by simp
next
  fix k a assume "tk_active (allocate r t) k = Some a"
  with assms have "exists_run t a \<and> ro_key (run_at t a) = k \<and> ro_business (run_at t a)" by (simp add: refs_ok_def)
  then show "exists_run (allocate r t) a \<and> ro_key (run_at (allocate r t) a) = k \<and> ro_business (run_at (allocate r t) a)"
    by simp
next
  fix i k a assume "refers (tk_threads (allocate r t) i) = Some (k, a)"
  with assms have "exists_run t a \<and> ro_key (run_at t a) = k" by (simp add: refs_ok_def)
  then show "exists_run (allocate r t) a \<and> ro_key (run_at (allocate r t) a) = k" by simp
qed

lemma refs_runs: "refs_ok t \<Longrightarrow> exists_run t a \<and> ro_key (run_at t a) = k \<and> \<not> ro_business (run_at t a) \<Longrightarrow>
    refs_ok (t\<lparr>tk_runs := (tk_runs t)(k \<mapsto> a)\<rparr>)"
  "refs_ok t \<Longrightarrow> refs_ok (t\<lparr>tk_runs := (tk_runs t)(k := None)\<rparr>)"
  "refs_ok t \<Longrightarrow> exists_run t a \<and> ro_key (run_at t a) = k \<and> ro_business (run_at t a) \<Longrightarrow>
    refs_ok (t\<lparr>tk_active := (tk_active t)(k \<mapsto> a)\<rparr>)"
  "refs_ok t \<Longrightarrow> refs_ok (t\<lparr>tk_active := (tk_active t)(k := None)\<rparr>)"
  by (simp_all add: refs_ok_def)

lemmas refs_rules = refs_goto refs_change refs_receipts refs_allocate refs_runs

lemma refs_thread: "refs_ok t \<Longrightarrow> tk_threads t i = p \<Longrightarrow> refers p = Some (k, a) \<Longrightarrow>
    exists_run t a \<and> ro_key (run_at t a) = k"
  unfolding refs_ok_def by metis

lemma refs_dicts: "refs_ok t \<Longrightarrow> tk_runs t k = Some a \<Longrightarrow> exists_run t a \<and> ro_key (run_at t a) = k"
  "refs_ok t \<Longrightarrow> tk_active t k = Some a \<Longrightarrow> exists_run t a \<and> ro_key (run_at t a) = k"
  by (simp_all add: refs_ok_def)

lemma refs_claim:
  assumes ok: "refs_ok t"
  shows "refs_ok (submit_claim i k d t)"
proof (cases "tk_runs t k")
  case None
  let ?v = "(allocate (new_object k (''neutral:'' @ d) False [] False) t)"
  have "refs_ok (?v\<lparr>tk_runs := (tk_runs ?v)(k \<mapsto> length (tk_objects t))\<rparr>)"
    by (intro refs_rules ok) simp
  then have "refs_ok (?v\<lparr>tk_runs := (tk_runs t)(k \<mapsto> length (tk_objects t))\<rparr>)" by simp
  then have "refs_ok (goto i (Seam k (length (tk_objects t))) (pop_receipt k
      (?v\<lparr>tk_runs := (tk_runs t)(k \<mapsto> length (tk_objects t))\<rparr>)))"
    by (intro refs_goto refs_receipts) auto
  with None show ?thesis by (simp add: submit_claim_def Let_def)
next
  case (Some a)
  with ok show ?thesis by (auto simp: submit_claim_def intro!: refs_goto)
qed

lemma refs_step:
  assumes "tracker_step e t = Some u" and ok: "refs_ok t"
  shows "refs_ok u"
  using assms(1)
proof (cases rule: tracker_step_cases)
  case (submit i k d r)
  with ok show ?thesis by (simp add: refs_claim)
next
  case (seam i k a b)
  with refs_thread [OF ok seam(1)] ok show ?thesis
    by (auto simp: submit_seam_def intro!: refs_rules)
next
  case (opened i k a n)
  with ok show ?thesis by (auto simp: submit_open_def Let_def split: option.splits intro!: refs_rules)
next
  case (look i k r)
  with ok refs_dicts [OF ok] show ?thesis by (auto simp: cancel_look_def split: option.splits intro!: refs_rules)
next
  case (refuse i k)
  with ok show ?thesis by (auto simp: cancel_refuse_def intro!: refs_rules)
next
  case (enter i k a)
  with refs_thread [OF ok enter(1)] ok show ?thesis by (auto simp: cancel_enter_def intro!: refs_rules)
next
  case (check i k a)
  with refs_thread [OF ok check(1)] ok show ?thesis
    by (auto simp: cancel_check_def unlock_def split: option.splits intro!: refs_rules)
next
  case (port i k a)
  with refs_thread [OF ok port(1)] ok show ?thesis by (auto simp: cancel_port_def unlock_def intro!: refs_rules)
next
  case (answer i k a x)
  with refs_thread [OF ok answer(1)] ok show ?thesis
    by (auto simp: cancel_answer_def split: option.splits bool.splits intro!: refs_rules)
next
  case (recorded i k a x)
  with ok show ?thesis by (auto simp: cancel_record_def unlock_def intro!: refs_rules)
next
  case (noted k kind now)
  with ok show ?thesis by (auto simp: note_native_event_def split: option.splits intro!: refs_rules)
next
  case (registered a)
  with ok show ?thesis by (auto simp: register_run_def Let_def intro!: refs_rules)
next
  case (retired k)
  with ok show ?thesis by (auto simp: retire_run_def intro!: refs_rules)
qed (use ok in \<open>auto intro!: refs_rules\<close>)

section \<open>Locks\<close>

lemma locks_goto: "locks_ok t \<Longrightarrow> inside p = inside (tk_threads t i) \<Longrightarrow> locks_ok (goto i p t)"
  by (simp add: locks_ok_def)

lemma locks_change: "locks_ok t \<Longrightarrow> (\<And>r. ro_holder (f r) = ro_holder r) \<Longrightarrow> locks_ok (change a f t)"
  by (simp add: locks_ok_def)

lemma locks_fields: "locks_ok t \<Longrightarrow> locks_ok (pop_receipt k t)" "locks_ok t \<Longrightarrow> locks_ok (put_receipt k x t)"
  "locks_ok t \<Longrightarrow> locks_ok (t\<lparr>tk_starts := ns\<rparr>)" "locks_ok t \<Longrightarrow> locks_ok (t\<lparr>tk_aborts := ns\<rparr>)"
  "locks_ok t \<Longrightarrow> locks_ok (t\<lparr>tk_runs := rs\<rparr>)" "locks_ok t \<Longrightarrow> locks_ok (t\<lparr>tk_active := rs\<rparr>)"
  by (simp_all add: locks_ok_def)

lemma locks_allocate:
  assumes "locks_ok t" "refs_ok t" "ro_holder r = None"
  shows "locks_ok (allocate r t)"
  unfolding locks_ok_def
proof (intro allI impI)
  fix i a assume a: "exists_run (allocate r t) a"
  have "\<not> exists_run t a \<Longrightarrow> inside (tk_threads t i) \<noteq> Some a"
    using assms(2) inside_refers by (fastforce simp: refs_ok_def)
  with a assms(1,3) show "(inside (tk_threads (allocate r t) i) = Some a) = (ro_holder (run_at (allocate r t) a) = Some i)"
    by (cases "exists_run t a") (auto simp: locks_ok_def less_Suc_eq)
qed

lemma locksD: "locks_ok t \<Longrightarrow> exists_run t a \<Longrightarrow> (inside (tk_threads t i) = Some a) = (ro_holder (run_at t a) = Some i)"
  by (simp add: locks_ok_def)

lemma locksI: "(\<And>i a. exists_run t a \<Longrightarrow> (inside (tk_threads t i) = Some a) = (ro_holder (run_at t a) = Some i)) \<Longrightarrow> locks_ok t"
  by (simp add: locks_ok_def)

lemma locks_acquire:
  assumes "locks_ok t" "ro_holder (run_at t a) = None" "exists_run t a" "inside (tk_threads t i) = None" "inside p = Some a"
  shows "locks_ok (goto i p (change a (\<lambda>r. r\<lparr>ro_holder := Some i\<rparr>) t))"
proof (rule locksI)
  fix j b assume "exists_run (goto i p (change a (\<lambda>r. r\<lparr>ro_holder := Some i\<rparr>) t)) b"
  then have "exists_run t b" by simp
  note old = locksD [OF assms(1) this, of j] locksD [OF assms(1) this, of i]
  from old assms(2-5) show "(inside (tk_threads (goto i p (change a (\<lambda>r. r\<lparr>ro_holder := Some i\<rparr>) t)) j) = Some b) =
      (ro_holder (run_at (goto i p (change a (\<lambda>r. r\<lparr>ro_holder := Some i\<rparr>) t)) b) = Some j)"
    by (cases "b = a"; cases "j = i") simp_all
qed

lemma locks_release:
  assumes "locks_ok t" "inside (tk_threads t i) = Some a" "inside p = None"
  shows "locks_ok (goto i p (unlock a t))"
proof (rule locksI)
  fix j b assume "exists_run (goto i p (unlock a t)) b"
  then have "exists_run t b" by (simp add: unlock_def)
  note old = locksD [OF assms(1) this, of j] locksD [OF assms(1) this, of i]
  from old assms(2,3) show "(inside (tk_threads (goto i p (unlock a t)) j) = Some b) =
      (ro_holder (run_at (goto i p (unlock a t)) b) = Some j)"
    using \<open>exists_run t b\<close> by (cases "b = a"; cases "j = i") (simp_all add: unlock_def)
qed

lemmas locks_rules = locks_goto locks_change locks_fields

lemma locks_step:
  assumes "tracker_step e t = Some u" and refs: "refs_ok t" and ok: "locks_ok t"
  shows "locks_ok u"
  using assms(1)
proof (cases rule: tracker_step_cases)
  case (submit i k d r)
  show ?thesis
  proof (cases "tk_runs t k")
    case None
    have "locks_ok (allocate (new_object k (''neutral:'' @ d) False [] False) t)"
      by (rule locks_allocate [OF ok refs]) simp
    with None submit show ?thesis by (auto simp: submit_claim_def Let_def intro!: locks_rules)
  next
    case (Some a)
    with submit ok show ?thesis by (auto simp: submit_claim_def intro!: locks_rules)
  qed
next
  case (seam i k a b)
  with ok show ?thesis by (auto simp: submit_seam_def intro!: locks_rules)
next
  case (opened i k a n)
  with ok show ?thesis by (auto simp: submit_open_def Let_def split: option.splits intro!: locks_rules)
next
  case (look i k r)
  with ok show ?thesis by (auto simp: cancel_look_def split: option.splits intro!: locks_rules)
next
  case (refuse i k)
  with ok show ?thesis by (auto simp: cancel_refuse_def intro!: locks_rules)
next
  case (enter i k a)
  with refs_thread [OF refs enter(1)] ok show ?thesis by (auto simp: cancel_enter_def intro!: locks_acquire)
next
  case (check i k a)
  with ok show ?thesis by (cases "tk_receipts t k") (simp_all add: cancel_check_def locks_release locks_goto)
next
  case (port i k a)
  with ok show ?thesis by (simp add: cancel_port_def locks_release locks_goto locks_fields)
next
  case (answer i k a x)
  with ok show ?thesis by (auto simp: cancel_answer_def split: option.splits bool.splits intro!: locks_rules)
next
  case (recorded i k a x)
  with ok show ?thesis by (auto simp: cancel_record_def intro!: locks_release locks_fields)
next
  case (noted k kind now)
  with ok show ?thesis by (auto simp: note_native_event_def split: option.splits intro!: locks_rules)
next
  case (built k d n)
  with ok refs show ?thesis by (simp add: locks_allocate)
next
  case (registered a)
  with ok show ?thesis by (auto simp: register_run_def Let_def intro!: locks_rules)
next
  case (retired k)
  with ok show ?thesis by (auto simp: retire_run_def intro!: locks_rules)
qed (use ok in \<open>auto intro!: locks_rules\<close>)

section \<open>Evidence of a stop\<close>

lemma confirmed_goto: "confirmed_ok t \<Longrightarrow> (\<And>a. asking p = Some a \<Longrightarrow> a \<in> set (tk_aborts t)) \<Longrightarrow> confirmed_ok (goto i p t)"
  by (simp add: confirmed_ok_def)

lemma confirmed_change: "confirmed_ok t \<Longrightarrow> (\<And>r. ro_confirmed (f r) \<Longrightarrow> ro_confirmed r \<or> a \<in> set (tk_aborts t)) \<Longrightarrow>
    confirmed_ok (change a f t)"
  by (auto simp: confirmed_ok_def)

lemma confirmed_fields: "confirmed_ok t \<Longrightarrow> confirmed_ok (pop_receipt k t)" "confirmed_ok t \<Longrightarrow> confirmed_ok (put_receipt k x t)"
  "confirmed_ok t \<Longrightarrow> confirmed_ok (t\<lparr>tk_starts := ns\<rparr>)" "confirmed_ok t \<Longrightarrow> confirmed_ok (t\<lparr>tk_aborts := a # tk_aborts t\<rparr>)"
  "confirmed_ok t \<Longrightarrow> confirmed_ok (t\<lparr>tk_runs := rs\<rparr>)" "confirmed_ok t \<Longrightarrow> confirmed_ok (t\<lparr>tk_active := rs\<rparr>)"
  by (simp_all add: confirmed_ok_def)

lemma confirmed_allocate: "confirmed_ok t \<Longrightarrow> \<not> ro_confirmed r \<Longrightarrow> confirmed_ok (allocate r t)"
  by (auto simp: confirmed_ok_def less_Suc_eq)

lemmas confirmed_rules = confirmed_goto confirmed_change confirmed_fields confirmed_allocate

lemma confirmed_thread: "confirmed_ok t \<Longrightarrow> tk_threads t i = p \<Longrightarrow> asking p = Some a \<Longrightarrow> a \<in> set (tk_aborts t)"
  by (auto simp: confirmed_ok_def)

lemma confirmed_step:
  assumes "tracker_step e t = Some u" and ok: "confirmed_ok t"
  shows "confirmed_ok u"
  using assms(1)
proof (cases rule: tracker_step_cases)
  case (submit i k d r)
  with ok show ?thesis by (auto simp: submit_claim_def Let_def split: option.splits intro!: confirmed_rules)
next
  case (seam i k a b)
  with ok show ?thesis by (auto simp: submit_seam_def intro!: confirmed_rules)
next
  case (opened i k a n)
  with ok show ?thesis by (auto simp: submit_open_def Let_def split: option.splits intro!: confirmed_rules)
next
  case (look i k r)
  with ok show ?thesis by (auto simp: cancel_look_def split: option.splits intro!: confirmed_rules)
next
  case (refuse i k)
  with ok show ?thesis by (auto simp: cancel_refuse_def intro!: confirmed_rules)
next
  case (enter i k a)
  with ok show ?thesis by (auto simp: cancel_enter_def intro!: confirmed_rules)
next
  case (check i k a)
  with ok show ?thesis by (auto simp: cancel_check_def unlock_def split: option.splits intro!: confirmed_rules)
next
  case (port i k a)
  with ok show ?thesis by (auto simp: cancel_port_def unlock_def intro!: confirmed_rules)
next
  case (answer i k a x)
  with confirmed_thread [OF ok answer(1)] ok show ?thesis
    by (auto simp: cancel_answer_def split: option.splits bool.splits intro!: confirmed_rules)
next
  case (recorded i k a x)
  with ok show ?thesis by (auto simp: cancel_record_def unlock_def intro!: confirmed_rules)
next
  case (noted k kind now)
  with ok show ?thesis by (auto simp: note_native_event_def split: option.splits intro!: confirmed_rules)
next
  case (registered a)
  with ok show ?thesis by (auto simp: register_run_def Let_def intro!: confirmed_rules)
next
  case (retired k)
  with ok show ?thesis by (auto simp: retire_run_def intro!: confirmed_rules)
qed (use ok in \<open>auto intro!: confirmed_rules\<close>)

section \<open>Starts\<close>

lemma startsI:
  assumes "distinct (tk_starts t)"
    and "\<And>a. a \<in> set (tk_starts t) \<Longrightarrow> exists_run t a \<and> ro_port (run_at t a)"
    and "\<And>i a. starting (tk_threads t i) = Some a \<Longrightarrow> a \<notin> set (tk_starts t) \<and> \<not> ro_business (run_at t a)"
    and "\<And>i j a. starting (tk_threads t i) = Some a \<Longrightarrow> starting (tk_threads t j) = Some a \<Longrightarrow> i = j"
    and "\<And>i k a. tk_threads t i = Seam k a \<Longrightarrow> \<not> ro_port (run_at t a) \<and> tk_runs t k = Some a"
    and "\<And>i k a. tk_threads t i = Opening k a \<Longrightarrow> ro_port (run_at t a)"
    and "\<And>a. exists_run t a \<Longrightarrow> ro_port (run_at t a) \<Longrightarrow> \<not> ro_business (run_at t a) \<Longrightarrow>
      tk_runs t (ro_key (run_at t a)) = Some a"
  shows "starts_ok t"
  using assms unfolding starts_ok_def by blast

lemma startsD:
  assumes "starts_ok t"
  shows "distinct (tk_starts t)"
    and "\<And>a. a \<in> set (tk_starts t) \<Longrightarrow> exists_run t a \<and> ro_port (run_at t a)"
    and "\<And>i a. starting (tk_threads t i) = Some a \<Longrightarrow> a \<notin> set (tk_starts t) \<and> \<not> ro_business (run_at t a)"
    and "\<And>i j a. starting (tk_threads t i) = Some a \<Longrightarrow> starting (tk_threads t j) = Some a \<Longrightarrow> i = j"
    and "\<And>i k a. tk_threads t i = Seam k a \<Longrightarrow> \<not> ro_port (run_at t a) \<and> tk_runs t k = Some a"
    and "\<And>i k a. tk_threads t i = Opening k a \<Longrightarrow> ro_port (run_at t a)"
    and "\<And>a. exists_run t a \<Longrightarrow> ro_port (run_at t a) \<Longrightarrow> \<not> ro_business (run_at t a) \<Longrightarrow>
      tk_runs t (ro_key (run_at t a)) = Some a"
  using assms unfolding starts_ok_def by blast+

lemma starting_refers: "starting p = Some a \<Longrightarrow> \<exists>k. refers p = Some (k, a)"
  by (cases p) auto

lemma starts_exist: "refs_ok t \<Longrightarrow> starting (tk_threads t i) = Some a \<Longrightarrow> exists_run t a"
  using starting_refers unfolding refs_ok_def by blast

text \<open>A thread that starts nothing moves on.\<close>

lemma starts_goto:
  assumes ok: "starts_ok t" and p: "starting p = None"
  shows "starts_ok (goto i p t)"
proof (rule startsI)
  fix j l a
  assume "starting (tk_threads (goto i p t) j) = Some a" "starting (tk_threads (goto i p t) l) = Some a"
  then show "j = l" using startsD(4) [OF ok] p by (auto split: if_splits)
qed (use startsD [OF ok] p in \<open>auto split: if_splits\<close>)

lemma starts_change:
  assumes ok: "starts_ok t" and f: "\<And>r. ro_port (f r) = ro_port r \<and> ro_business (f r) = ro_business r \<and> ro_key (f r) = ro_key r"
  shows "starts_ok (change a f t)"
  by (rule startsI) (use startsD [OF ok] f in \<open>auto split: if_splits\<close>)

lemma starts_fields: "starts_ok t \<Longrightarrow> starts_ok (pop_receipt k t)" "starts_ok t \<Longrightarrow> starts_ok (put_receipt k x t)"
  "starts_ok t \<Longrightarrow> starts_ok (t\<lparr>tk_aborts := ns\<rparr>)" "starts_ok t \<Longrightarrow> starts_ok (t\<lparr>tk_active := rs\<rparr>)"
  "starts_ok t \<Longrightarrow> starts_ok (unlock a t)"
  by (simp_all add: starts_ok_def unlock_def starts_change)

lemma starts_allocate:
  assumes ok: "starts_ok t" and refs: "refs_ok t" and r: "\<not> (ro_port r \<and> \<not> ro_business r)"
  shows "starts_ok (allocate r t)"
proof (rule startsI)
  fix a assume "a \<in> set (tk_starts (allocate r t))"
  then show "exists_run (allocate r t) a \<and> ro_port (run_at (allocate r t) a)"
    using startsD(2) [OF ok, of a] by auto
next
  fix i a assume "starting (tk_threads (allocate r t) i) = Some a"
  then have s: "starting (tk_threads t i) = Some a" by simp
  then show "a \<notin> set (tk_starts (allocate r t)) \<and> \<not> ro_business (run_at (allocate r t) a)"
    using startsD(3) [OF ok s] starts_exist [OF refs s] by simp
next
  fix i k a assume "tk_threads (allocate r t) i = Seam k a"
  then have s: "tk_threads t i = Seam k a" by simp
  then show "\<not> ro_port (run_at (allocate r t) a) \<and> tk_runs (allocate r t) k = Some a"
    using startsD(5) [OF ok s] refs_thread [OF refs s] by simp
next
  fix i k a assume "tk_threads (allocate r t) i = Opening k a"
  then have s: "tk_threads t i = Opening k a" by simp
  then show "ro_port (run_at (allocate r t) a)"
    using startsD(6) [OF ok s] refs_thread [OF refs s] by simp
next
  fix a assume "exists_run (allocate r t) a" "ro_port (run_at (allocate r t) a)" "\<not> ro_business (run_at (allocate r t) a)"
  then show "tk_runs (allocate r t) (ro_key (run_at (allocate r t) a)) = Some a"
    using startsD(7) [OF ok] r by (auto simp: less_Suc_eq)
qed (use startsD [OF ok] in auto)

lemma starts_claim:
  assumes ok: "starts_ok t" and refs: "refs_ok t" and free: "tk_runs t k = None"
  shows "starts_ok (submit_claim i k d t)"
proof -
  let ?n = "length (tk_objects t)"
  let ?v = "allocate (new_object k (''neutral:'' @ d) False [] False) t"
  let ?u = "goto i (Seam k ?n) (?v\<lparr>tk_runs := (tk_runs t)(k \<mapsto> ?n)\<rparr>)"
  have v: "starts_ok ?v" by (rule starts_allocate [OF ok refs]) simp
  have fresh: "starting (tk_threads t j) \<noteq> Some ?n" for j
    using starts_exist [OF refs] by fastforce
  have unclaimed: "ro_key (run_at t a) \<noteq> k" if "exists_run t a" "ro_port (run_at t a)" "\<not> ro_business (run_at t a)" for a
    using startsD(7) [OF ok that] free by auto
  have "starts_ok ?u"
  proof (rule startsI)
    fix a assume "a \<in> set (tk_starts ?u)"
    then show "exists_run ?u a \<and> ro_port (run_at ?u a)" using startsD(2) [OF ok, of a] by auto
  next
    fix j a assume "starting (tk_threads ?u j) = Some a"
    then show "a \<notin> set (tk_starts ?u) \<and> \<not> ro_business (run_at ?u a)"
      using startsD(2) [OF ok, of a] startsD(3) [OF ok, of j a] starts_exist [OF refs, of j a] by (auto split: if_splits)
  next
    fix j l a assume "starting (tk_threads ?u j) = Some a" "starting (tk_threads ?u l) = Some a"
    then show "j = l" using startsD(4) [OF ok] fresh by (auto split: if_splits)
  next
    fix j c a assume s: "tk_threads ?u j = Seam c a"
    show "\<not> ro_port (run_at ?u a) \<and> tk_runs ?u c = Some a"
    proof (cases "j = i")
      case True
      with s have "a = ?n" "c = k" by auto
      then show ?thesis by simp
    next
      case False
      with s have s': "tk_threads t j = Seam c a" by simp
      from startsD(5) [OF ok s'] free have "c \<noteq> k" by auto
      then show ?thesis using startsD(5) [OF ok s'] refs_thread [OF refs s'] by simp
    qed
  next
    fix j c a assume s: "tk_threads ?u j = Opening c a"
    then have s': "tk_threads t j = Opening c a" by (auto split: if_splits)
    show "ro_port (run_at ?u a)" using startsD(6) [OF ok s'] refs_thread [OF refs s'] by simp
  next
    fix a assume "exists_run ?u a" "ro_port (run_at ?u a)" "\<not> ro_business (run_at ?u a)"
    then show "tk_runs ?u (ro_key (run_at ?u a)) = Some a"
      using startsD(7) [OF ok, of a] unclaimed [of a] by (auto simp: less_Suc_eq)
  qed (use startsD(1) [OF ok] in simp)
  moreover have "submit_claim i k d t = pop_receipt k ?u"
    using free by (simp add: submit_claim_def Let_def pop_receipt_def goto_def)
  ultimately show ?thesis by (simp add: starts_fields)
qed

lemma starts_built:
  assumes ok: "starts_ok t" and refs: "refs_ok t" and i: "tk_threads t i = Seam k a"
  shows "starts_ok (goto i (Opening k a) (change a (\<lambda>r. r\<lparr>ro_port := True\<rparr>) t))" (is "starts_ok ?u")
proof (rule startsI)
  fix j b assume s: "starting (tk_threads ?u j) = Some b"
  then have "starting (tk_threads t j) = Some b" using i by (auto split: if_splits)
  then show "b \<notin> set (tk_starts ?u) \<and> \<not> ro_business (run_at ?u b)" using startsD(3) [OF ok, of j b] by auto
next
  fix j l b assume "starting (tk_threads ?u j) = Some b" "starting (tk_threads ?u l) = Some b"
  then have "starting (tk_threads t j) = Some b" "starting (tk_threads t l) = Some b" using i by (auto split: if_splits)
  then show "j = l" by (rule startsD(4) [OF ok])
next
  fix j c b assume s: "tk_threads ?u j = Seam c b"
  then have s': "tk_threads t j = Seam c b" "j \<noteq> i" by (auto split: if_splits)
  then have "b \<noteq> a" using startsD(4) [OF ok, of i b j] i by auto
  then show "\<not> ro_port (run_at ?u b) \<and> tk_runs ?u c = Some b" using startsD(5) [OF ok s'(1)] by simp
next
  fix j c b assume s: "tk_threads ?u j = Opening c b"
  then show "ro_port (run_at ?u b)"
    using startsD(6) [OF ok, of j c b] refs_thread [OF refs i] by (cases "j = i") auto
next
  fix b assume "exists_run ?u b" "ro_port (run_at ?u b)" "\<not> ro_business (run_at ?u b)"
  then show "tk_runs ?u (ro_key (run_at ?u b)) = Some b"
    using startsD(5) [OF ok i] startsD(7) [OF ok, of b] refs_thread [OF refs i] by (cases "b = a") auto
qed (use startsD [OF ok] in auto)

lemma starts_released:
  assumes ok: "starts_ok t" and refs: "refs_ok t" and i: "tk_threads t i = Seam k a"
  shows "starts_ok (goto i (Ready r) (t\<lparr>tk_runs := (tk_runs t)(k := None)\<rparr>))" (is "starts_ok ?u")
proof (rule startsI)
  fix j c b assume s: "tk_threads ?u j = Seam c b"
  then have s': "tk_threads t j = Seam c b" "j \<noteq> i" by (auto split: if_splits)
  then have "b \<noteq> a" using startsD(4) [OF ok, of i b j] i by auto
  then have "c \<noteq> k" using startsD(5) [OF ok s'(1)] startsD(5) [OF ok i] by auto
  then show "\<not> ro_port (run_at ?u b) \<and> tk_runs ?u c = Some b" using startsD(5) [OF ok s'(1)] by simp
next
  fix j l b assume "starting (tk_threads ?u j) = Some b" "starting (tk_threads ?u l) = Some b"
  then have "starting (tk_threads t j) = Some b" "starting (tk_threads t l) = Some b" by (auto split: if_splits)
  then show "j = l" by (rule startsD(4) [OF ok])
next
  fix j c b assume s: "tk_threads ?u j = Opening c b"
  then show "ro_port (run_at ?u b)" using startsD(6) [OF ok, of j c b] by (auto split: if_splits)
next
  fix b assume b: "exists_run ?u b" "ro_port (run_at ?u b)" "\<not> ro_business (run_at ?u b)"
  then have "tk_runs t (ro_key (run_at t b)) = Some b" using startsD(7) [OF ok, of b] by simp
  moreover from b startsD(5) [OF ok i] have "b \<noteq> a" by auto
  ultimately have "ro_key (run_at t b) \<noteq> k" using startsD(5) [OF ok i] by auto
  with b show "tk_runs ?u (ro_key (run_at ?u b)) = Some b" using startsD(7) [OF ok, of b] by simp
qed (use startsD [OF ok] in \<open>auto split: if_splits\<close>)

lemma starts_opened:
  assumes ok: "starts_ok t" and refs: "refs_ok t" and i: "tk_threads t i = Opening k a"
  shows "starts_ok (goto i (Ready r) (t\<lparr>tk_starts := a # tk_starts t\<rparr>))" (is "starts_ok ?u")
proof (rule startsI)
  show "distinct (tk_starts ?u)" using startsD(1) [OF ok] startsD(3) [OF ok, of i a] i by simp
next
  fix b assume "b \<in> set (tk_starts ?u)"
  then show "exists_run ?u b \<and> ro_port (run_at ?u b)"
    using startsD(2) [OF ok, of b] startsD(6) [OF ok i] refs_thread [OF refs i] by auto
next
  fix j b assume s: "starting (tk_threads ?u j) = Some b"
  then have s': "starting (tk_threads t j) = Some b" "j \<noteq> i" by (auto split: if_splits)
  then have "b \<noteq> a" using startsD(4) [OF ok, of i b j] i by auto
  then show "b \<notin> set (tk_starts ?u) \<and> \<not> ro_business (run_at ?u b)" using startsD(3) [OF ok s'(1)] by simp
next
  fix j l b assume "starting (tk_threads ?u j) = Some b" "starting (tk_threads ?u l) = Some b"
  then have "starting (tk_threads t j) = Some b" "starting (tk_threads t l) = Some b" by (auto split: if_splits)
  then show "j = l" by (rule startsD(4) [OF ok])
qed (use startsD [OF ok] in \<open>auto split: if_splits\<close>)

lemma starts_step:
  assumes "tracker_step e t = Some u" and refs: "refs_ok t" and ok: "starts_ok t"
  shows "starts_ok u"
  using assms(1)
proof (cases rule: tracker_step_cases)
  case (submit i k d r)
  show ?thesis
  proof (cases "tk_runs t k")
    case None
    with submit show ?thesis by (simp add: starts_claim [OF ok refs])
  next
    case (Some a)
    with submit show ?thesis by (simp add: submit_claim_def starts_goto [OF ok])
  qed
next
  case (seam i k a b)
  then have "tk_runs t k = Some a" using startsD(5) [OF ok] by blast
  with seam show ?thesis
    by (simp add: submit_seam_def starts_built [OF ok refs] starts_released [OF ok refs])
next
  case (opened i k a n)
  have "starts_ok (change a f (goto i (Ready r) (t\<lparr>tk_starts := a # tk_starts t\<rparr>)))"
    if "\<And>r. ro_port (f r) = ro_port r \<and> ro_business (f r) = ro_business r \<and> ro_key (f r) = ro_key r" for f r
    by (rule starts_change [OF starts_opened [OF ok refs opened(1)] that])
  moreover have "goto i p (change a f (t\<lparr>tk_starts := ns\<rparr>)) = change a f (goto i p (t\<lparr>tk_starts := ns\<rparr>))" for p f ns
    by (simp add: change_def goto_def run_at_def)
  ultimately show ?thesis using opened by (simp add: submit_open_def Let_def split: option.split)
next
  case (look i k r)
  then show ?thesis by (auto simp: cancel_look_def split: option.split intro!: starts_goto ok)
next
  case (refuse i k)
  then show ?thesis by (auto simp: cancel_refuse_def intro!: starts_goto starts_fields ok)
next
  case (enter i k a)
  then show ?thesis by (auto simp: cancel_enter_def intro!: starts_goto starts_change ok)
next
  case (check i k a)
  then show ?thesis by (auto simp: cancel_check_def split: option.split intro!: starts_goto starts_fields ok)
next
  case (port i k a)
  then show ?thesis by (auto simp: cancel_port_def intro!: starts_goto starts_fields ok)
next
  case (answer i k a x)
  then show ?thesis by (auto simp: cancel_answer_def split: option.split bool.split intro!: starts_goto starts_change ok)
next
  case (recorded i k a x)
  then show ?thesis by (auto simp: cancel_record_def intro!: starts_goto starts_fields ok)
next
  case (noted k kind now)
  then show ?thesis by (auto simp: note_native_event_def split: option.split intro!: starts_change ok)
next
  case (built k d n)
  then show ?thesis by (simp add: starts_allocate [OF ok refs])
next
  case (registered a)
  then show ?thesis by (auto simp: register_run_def Let_def intro!: starts_fields ok)
next
  case (ended a)
  then show ?thesis by (auto intro!: starts_change ok)
next
  case (retired k)
  then show ?thesis by (auto simp: retire_run_def intro!: starts_fields ok)
qed

section \<open>Aborts\<close>

lemma abortsI:
  assumes "\<And>a. exists_run t a \<Longrightarrow> aborts_of t a \<le> claims_of t a"
    and "\<And>a. \<not> exists_run t a \<Longrightarrow> aborts_of t a = 0"
    and "\<And>a k. tk_runs t k = Some a \<or> tk_active t k = Some a \<or> (\<exists>i. refers (tk_threads t i) = Some (k, a)) \<Longrightarrow>
      0 < count_list (tk_pops t) k"
    and "\<And>a. exists_run t a \<Longrightarrow> 0 < claims_of t a \<Longrightarrow> tk_receipts t (ro_key (run_at t a)) = None \<Longrightarrow>
      (\<And>i. asking (tk_threads t i) \<noteq> Some a) \<Longrightarrow> aborts_of t a < claims_of t a"
    and "\<And>i k a. tk_threads t i = Checked k a \<Longrightarrow> aborts_of t a < claims_of t a"
  shows "aborts_ok t"
  using assms unfolding aborts_ok_def by blast

lemma abortsD:
  assumes "aborts_ok t"
  shows "\<And>a. exists_run t a \<Longrightarrow> aborts_of t a \<le> claims_of t a"
    and "\<And>a. \<not> exists_run t a \<Longrightarrow> aborts_of t a = 0"
    and "\<And>a k. tk_runs t k = Some a \<or> tk_active t k = Some a \<or> (\<exists>i. refers (tk_threads t i) = Some (k, a)) \<Longrightarrow>
      0 < count_list (tk_pops t) k"
    and "\<And>a. exists_run t a \<Longrightarrow> 0 < claims_of t a \<Longrightarrow> tk_receipts t (ro_key (run_at t a)) = None \<Longrightarrow>
      (\<And>i. asking (tk_threads t i) \<noteq> Some a) \<Longrightarrow> aborts_of t a < claims_of t a"
    and "\<And>i k a. tk_threads t i = Checked k a \<Longrightarrow> aborts_of t a < claims_of t a"
  using assms unfolding aborts_ok_def by blast+

text \<open>A thread that neither asks a port nor passes the check moves on, to runs it may know.\<close>

lemma aborts_goto:
  assumes ok: "aborts_ok t" and asks: "asking p = asking (tk_threads t i)" and p: "\<And>k a. p \<noteq> Checked k a"
    and known: "\<And>k a. refers p = Some (k, a) \<Longrightarrow> 0 < count_list (tk_pops t) k"
  shows "aborts_ok (goto i p t)"
proof (rule abortsI)
  fix a k
  assume "tk_runs (goto i p t) k = Some a \<or> tk_active (goto i p t) k = Some a \<or>
    (\<exists>j. refers (tk_threads (goto i p t) j) = Some (k, a))"
  then show "0 < count_list (tk_pops (goto i p t)) k"
    using abortsD(3) [OF ok, of k a] known by (auto split: if_splits)
next
  fix a
  assume a: "exists_run (goto i p t) a" "0 < claims_of (goto i p t) a" "tk_receipts (goto i p t) (ro_key (run_at (goto i p t) a)) = None"
    "\<And>j. asking (tk_threads (goto i p t) j) \<noteq> Some a"
  have "asking (tk_threads t j) \<noteq> Some a" for j
    using a(4) [of j] asks by (auto split: if_splits)
  with a(1-3) show "aborts_of (goto i p t) a < claims_of (goto i p t) a" using abortsD(4) [OF ok, of a] by simp
next
  fix j k a assume "tk_threads (goto i p t) j = Checked k a"
  with p have "tk_threads t j = Checked k a" by (auto split: if_splits)
  then show "aborts_of (goto i p t) a < claims_of (goto i p t) a" using abortsD(5) [OF ok] by simp
qed (use abortsD(1,2) [OF ok] in auto)

lemma aborts_same:
  assumes "aborts_ok t" "tk_objects u = tk_objects t \<or> u = change b f t"
    and "\<And>r. ro_key (f r) = ro_key r"
    and "tk_pops u = tk_pops t" "tk_aborts u = tk_aborts t" "tk_threads u = tk_threads t"
    and "\<And>k. tk_receipts u k = None \<Longrightarrow> tk_receipts t k = None"
    and "\<And>k a. tk_runs u k = Some a \<Longrightarrow> tk_runs t k = Some a"
    and "\<And>k a. tk_active u k = Some a \<Longrightarrow> tk_active t k = Some a"
  shows "aborts_ok u"
proof -
  have key: "ro_key (run_at u a) = ro_key (run_at t a)" for a
    using assms(2) by (auto simp: run_at_def assms(3) change_def nth_list_update)
  have len: "length (tk_objects u) = length (tk_objects t)" using assms(2) by auto
  show ?thesis
  proof (rule abortsI)
    fix a k
    assume "tk_runs u k = Some a \<or> tk_active u k = Some a \<or> (\<exists>i. refers (tk_threads u i) = Some (k, a))"
    then show "0 < count_list (tk_pops u) k"
      using abortsD(3) [OF assms(1), of k a] assms(4,6,8,9) by auto
  next
    fix a
    assume "exists_run u a" "0 < claims_of u a" "tk_receipts u (ro_key (run_at u a)) = None"
      "\<And>i. asking (tk_threads u i) \<noteq> Some a"
    then show "aborts_of u a < claims_of u a"
      using abortsD(4) [OF assms(1), of a] assms(4-7) by (simp add: key len)
  qed (use abortsD(1,2,5) [OF assms(1)] assms(4-6) key len in auto)
qed

lemma aborts_fields: "aborts_ok t \<Longrightarrow> aborts_ok (put_receipt k x t)" "aborts_ok t \<Longrightarrow> aborts_ok (t\<lparr>tk_starts := ns\<rparr>)"
  "aborts_ok t \<Longrightarrow> aborts_ok (t\<lparr>tk_runs := (tk_runs t)(k := None)\<rparr>)"
  "aborts_ok t \<Longrightarrow> aborts_ok (t\<lparr>tk_active := (tk_active t)(k := None)\<rparr>)"
  by (rule aborts_same [where f = id]; auto split: if_splits)+

lemma aborts_change: "aborts_ok t \<Longrightarrow> (\<And>r. ro_key (f r) = ro_key r) \<Longrightarrow> aborts_ok (change b f t)"
  by (rule aborts_same [where f = f and b = b]) auto

lemma aborts_unlock: "aborts_ok t \<Longrightarrow> aborts_ok (unlock b t)"
  by (simp add: unlock_def aborts_change)

lemma aborts_allocate:
  assumes ok: "aborts_ok t" and refs: "refs_ok t"
  shows "aborts_ok (allocate r t)"
proof (rule abortsI)
  fix a assume "exists_run (allocate r t) a"
  then show "aborts_of (allocate r t) a \<le> claims_of (allocate r t) a"
    using abortsD(1,2) [OF ok, of a] by (cases "exists_run t a") (auto simp: less_Suc_eq)
next
  fix a k
  assume "tk_runs (allocate r t) k = Some a \<or> tk_active (allocate r t) k = Some a \<or>
    (\<exists>i. refers (tk_threads (allocate r t) i) = Some (k, a))"
  then show "0 < count_list (tk_pops (allocate r t)) k" using abortsD(3) [OF ok, of k a] by simp
next
  fix a
  assume "exists_run (allocate r t) a" "0 < claims_of (allocate r t) a"
    "tk_receipts (allocate r t) (ro_key (run_at (allocate r t) a)) = None"
    "\<And>i. asking (tk_threads (allocate r t) i) \<noteq> Some a"
  then show "aborts_of (allocate r t) a < claims_of (allocate r t) a"
    using abortsD(2,4) [OF ok, of a] by (cases "exists_run t a") (auto simp: less_Suc_eq)
next
  fix i k a assume "tk_threads (allocate r t) i = Checked k a"
  then have i: "tk_threads t i = Checked k a" by simp
  with refs_thread [OF refs i] abortsD(5) [OF ok i]
  show "aborts_of (allocate r t) a < claims_of (allocate r t) a" by simp
qed (use abortsD(2) [OF ok] in auto)

text \<open>Removing a receipt gives every run of the key one abort to spare.\<close>

lemma aborts_pop:
  assumes ok: "aborts_ok t" and refs: "refs_ok t"
    and u: "tk_objects u = tk_objects t" "tk_pops u = k # tk_pops t" "tk_aborts u = tk_aborts t"
      "tk_threads u = tk_threads t" "tk_receipts u = (tk_receipts t)(k := None)"
    and dicts: "\<And>c a. tk_runs u c = Some a \<Longrightarrow> c = k \<or> tk_runs t c = Some a"
      "\<And>c a. tk_active u c = Some a \<Longrightarrow> c = k \<or> tk_active t c = Some a"
  shows "aborts_ok u"
proof -
  have at: "run_at u a = run_at t a" for a by (simp add: run_at_def u(1))
  show ?thesis
  proof (rule abortsI)
    fix a c
    assume "tk_runs u c = Some a \<or> tk_active u c = Some a \<or> (\<exists>i. refers (tk_threads u i) = Some (c, a))"
    then show "0 < count_list (tk_pops u) c"
      using abortsD(3) [OF ok, of c a] dicts(1) [of c a] dicts(2) [of c a] by (auto simp: u)
  next
    fix a
    assume "exists_run u a" "0 < claims_of u a" "tk_receipts u (ro_key (run_at u a)) = None"
      "\<And>i. asking (tk_threads u i) \<noteq> Some a"
    then show "aborts_of u a < claims_of u a"
      using abortsD(1,4) [OF ok, of a] by (auto simp: u at split: if_splits)
  next
    fix i c a assume "tk_threads u i = Checked c a"
    then show "aborts_of u a < claims_of u a" using abortsD(5) [OF ok, of i c a] by (auto simp: u at)
  qed (use abortsD(1,2) [OF ok] in \<open>auto simp: u at intro: le_SucI\<close>)
qed

lemma aborts_asked:
  assumes ok: "aborts_ok t" and refs: "refs_ok t" and locks: "locks_ok t" and i: "tk_threads t i = Checked k a"
  shows "aborts_ok (goto i (Calling k a) (t\<lparr>tk_aborts := a # tk_aborts t\<rparr>))" (is "aborts_ok ?u")
proof (rule abortsI)
  fix b c
  assume "tk_runs ?u c = Some b \<or> tk_active ?u c = Some b \<or> (\<exists>j. refers (tk_threads ?u j) = Some (c, b))"
  then have "tk_runs t c = Some b \<or> tk_active t c = Some b \<or> (\<exists>j. refers (tk_threads t j) = Some (c, b))"
    using i by (auto split: if_splits) (metis refers.simps(5))+
  then show "0 < count_list (tk_pops ?u) c" using abortsD(3) [OF ok, of c b] by simp
next
  fix b
  assume b: "exists_run ?u b" "0 < claims_of ?u b" "tk_receipts ?u (ro_key (run_at ?u b)) = None"
    "\<And>j. asking (tk_threads ?u j) \<noteq> Some b"
  from b(4) [of i] have "b \<noteq> a" by simp
  moreover have "asking (tk_threads t j) \<noteq> Some b" for j
    using b(4) [of j] i by (auto split: if_splits)
  ultimately show "aborts_of ?u b < claims_of ?u b" using abortsD(4) [OF ok, of b] b(1-3) by simp
next
  fix j c b assume "tk_threads ?u j = Checked c b"
  then have j: "tk_threads t j = Checked c b" "j \<noteq> i" by (auto split: if_splits)
  have "exists_run t a" using refs_thread [OF refs i] by simp
  from locksD [OF locks this, of i] locksD [OF locks this, of j] i j have "b \<noteq> a" by auto
  then show "aborts_of ?u b < claims_of ?u b" using abortsD(5) [OF ok j(1)] by simp
next
  fix b assume "exists_run ?u b"
  then show "aborts_of ?u b \<le> claims_of ?u b" using abortsD(1) [OF ok, of b] abortsD(5) [OF ok i] by auto
next
  fix b assume "\<not> exists_run ?u b"
  then show "aborts_of ?u b = 0" using abortsD(2) [OF ok, of b] refs_thread [OF refs i] by auto
qed

lemma aborts_recorded:
  assumes ok: "aborts_ok t" and refs: "refs_ok t" and i: "tk_threads t i = Answered k a x"
  shows "aborts_ok (goto i (Ready r) (put_receipt k y t))" (is "aborts_ok ?u")
proof (rule abortsI)
  fix b c
  assume "tk_runs ?u c = Some b \<or> tk_active ?u c = Some b \<or> (\<exists>j. refers (tk_threads ?u j) = Some (c, b))"
  then have "tk_runs t c = Some b \<or> tk_active t c = Some b \<or> (\<exists>j. refers (tk_threads t j) = Some (c, b))"
    by (auto split: if_splits)
  then show "0 < count_list (tk_pops ?u) c" using abortsD(3) [OF ok, of c b] by simp
next
  fix b
  assume b: "exists_run ?u b" "0 < claims_of ?u b" "tk_receipts ?u (ro_key (run_at ?u b)) = None"
    "\<And>j. asking (tk_threads ?u j) \<noteq> Some b"
  from b(3) have open': "tk_receipts t (ro_key (run_at t b)) = None" "ro_key (run_at t b) \<noteq> k" by (auto split: if_splits)
  with refs_thread [OF refs i] have "b \<noteq> a" by auto
  then have "asking (tk_threads t j) \<noteq> Some b" for j
    using b(4) [of j] i by (auto split: if_splits)
  then show "aborts_of ?u b < claims_of ?u b" using abortsD(4) [OF ok, of b] b(1,2) open' by simp
next
  fix j c b assume "tk_threads ?u j = Checked c b"
  then have j: "tk_threads t j = Checked c b" by (auto split: if_splits)
  then show "aborts_of ?u b < claims_of ?u b" using abortsD(5) [OF ok j(1)] by simp
qed (use abortsD(1,2) [OF ok] in auto)

lemma aborts_checked:
  assumes ok: "aborts_ok t" and refs: "refs_ok t" and locks: "locks_ok t" and i: "tk_threads t i = Entered k a"
    and free: "tk_receipts t k = None"
  shows "aborts_ok (goto i (Checked k a) t)" (is "aborts_ok ?u")
proof (rule abortsI)
  fix b c
  assume "tk_runs ?u c = Some b \<or> tk_active ?u c = Some b \<or> (\<exists>j. refers (tk_threads ?u j) = Some (c, b))"
  then have "tk_runs t c = Some b \<or> tk_active t c = Some b \<or> (\<exists>j. refers (tk_threads t j) = Some (c, b))"
    using i by (auto split: if_splits) (metis refers.simps(4))+
  then show "0 < count_list (tk_pops ?u) c" using abortsD(3) [OF ok, of c b] by simp
next
  fix b
  assume b: "exists_run ?u b" "0 < claims_of ?u b" "tk_receipts ?u (ro_key (run_at ?u b)) = None"
    "\<And>j. asking (tk_threads ?u j) \<noteq> Some b"
  have "asking (tk_threads t j) \<noteq> Some b" for j
    using b(4) [of j] i by (auto split: if_splits)
  then show "aborts_of ?u b < claims_of ?u b" using abortsD(4) [OF ok, of b] b(1-3) by simp
next
  fix j c b assume s: "tk_threads ?u j = Checked c b"
  show "aborts_of ?u b < claims_of ?u b"
  proof (cases "j = i")
    case False
    with s have "tk_threads t j = Checked c b" by simp
    then show ?thesis using abortsD(5) [OF ok] by simp
  next
    case True
    with s have [simp]: "b = a" "c = k" by auto
    have a: "exists_run t a" "ro_key (run_at t a) = k" using refs_thread [OF refs i] by auto
    have "asking (tk_threads t l) \<noteq> Some a" for l
    proof
      assume l: "asking (tk_threads t l) = Some a"
      from asking_inside [OF l] locksD [OF locks a(1), of l] locksD [OF locks a(1), of i] i have "l = i" by simp
      with l i show False by simp
    qed
    moreover have "0 < count_list (tk_pops t) k" using abortsD(3) [OF ok, of k a] i by (metis refers.simps(4))
    ultimately show ?thesis using abortsD(4) [OF ok a(1)] a(2) free by simp
  qed
qed (use abortsD(1,2) [OF ok] in auto)

lemma aborts_claim:
  assumes ok: "aborts_ok t" and refs: "refs_ok t" and free: "tk_runs t k = None" and i: "tk_threads t i = Ready r"
  shows "aborts_ok (submit_claim i k d t)"
proof -
  let ?n = "length (tk_objects t)"
  let ?v = "allocate (new_object k (''neutral:'' @ d) False [] False) t"
  let ?u = "pop_receipt k (?v\<lparr>tk_runs := (tk_runs t)(k \<mapsto> ?n)\<rparr>)"
  have "aborts_ok ?u"
    by (rule aborts_pop [OF aborts_allocate [OF ok refs] refs_allocate [OF refs], where k = k]) (auto split: if_splits)
  then have "aborts_ok (goto i (Seam k ?n) ?u)"
    by (rule aborts_goto) (use i in auto)
  with free show ?thesis by (simp add: submit_claim_def Let_def)
qed

lemma known_thread: "aborts_ok t \<Longrightarrow> tk_threads t i = p \<Longrightarrow> refers p = Some (k, a) \<Longrightarrow> 0 < count_list (tk_pops t) k"
  using abortsD(3) by blast

lemma known_dict: "aborts_ok t \<Longrightarrow> tk_runs t k = Some a \<Longrightarrow> 0 < count_list (tk_pops t) k"
  "aborts_ok t \<Longrightarrow> tk_active t k = Some a \<Longrightarrow> 0 < count_list (tk_pops t) k"
  using abortsD(3) by blast+

lemma aborts_step:
  assumes "tracker_step e t = Some u" and refs: "refs_ok t" and locks: "locks_ok t" and ok: "aborts_ok t"
  shows "aborts_ok u"
  using assms(1)
proof (cases rule: tracker_step_cases)
  case (submit i k d r)
  show ?thesis
  proof (cases "tk_runs t k")
    case None
    with submit show ?thesis by (simp add: aborts_claim [OF ok refs])
  next
    case (Some a)
    with submit show ?thesis by (auto simp: submit_claim_def intro!: aborts_goto ok)
  qed
next
  case (seam i k a b)
  with known_thread [OF ok seam(1)] show ?thesis
    by (auto simp: submit_seam_def intro!: aborts_goto aborts_change aborts_fields ok)
next
  case (opened i k a n)
  then show ?thesis
    by (auto simp: submit_open_def Let_def split: option.split intro!: aborts_goto aborts_change aborts_fields ok)
next
  case (look i k r)
  with known_dict [OF ok] show ?thesis by (auto simp: cancel_look_def split: option.split intro!: aborts_goto ok)
next
  case (refuse i k)
  then show ?thesis by (auto simp: cancel_refuse_def intro!: aborts_goto aborts_fields ok)
next
  case (enter i k a)
  with known_thread [OF ok enter(1)] show ?thesis
    by (auto simp: cancel_enter_def intro!: aborts_goto aborts_change ok)
next
  case (check i k a)
  show ?thesis
  proof (cases "tk_receipts t k")
    case None
    with check aborts_checked [OF ok refs locks] show ?thesis by (simp add: cancel_check_def)
  next
    case (Some x)
    with check show ?thesis by (auto simp: cancel_check_def unlock_def intro!: aborts_goto aborts_change ok)
  qed
next
  case (port i k a)
  show ?thesis
  proof (cases "ro_port (run_at t a)")
    case True
    with port aborts_asked [OF ok refs locks] show ?thesis by (simp add: cancel_port_def)
  next
    case False
    with port show ?thesis by (auto simp: cancel_port_def unlock_def intro!: aborts_goto aborts_change ok)
  qed
next
  case (answer i k a x)
  with known_thread [OF ok answer(1)] show ?thesis
    by (auto simp: cancel_answer_def split: option.split bool.split intro!: aborts_goto aborts_change ok)
next
  case (recorded i k a x)
  have "goto i p (unlock a v) = unlock a (goto i p v)" for p v
    by (simp add: unlock_def change_def goto_def run_at_def)
  with recorded aborts_unlock [OF aborts_recorded [OF ok refs recorded(1)]] show ?thesis
    by (simp add: cancel_record_def)
next
  case (noted k kind now)
  then show ?thesis by (auto simp: note_native_event_def split: option.split intro!: aborts_change ok)
next
  case (built k d n)
  then show ?thesis by (simp add: aborts_allocate [OF ok refs])
next
  case (registered a)
  have "aborts_ok (register_run a t)"
    by (rule aborts_pop [OF ok refs, where k = "ro_key (run_at t a)"])
      (auto simp: register_run_def Let_def split: if_splits)
  with registered show ?thesis by simp
next
  case (ended a)
  then show ?thesis by (auto intro!: aborts_change ok)
next
  case (retired k)
  then show ?thesis by (auto simp: retire_run_def intro!: aborts_fields ok)
qed

section \<open>The reachable trackers\<close>

lemma tracker_ok_step: "tracker_step e t = Some u \<Longrightarrow> tracker_ok t \<Longrightarrow> tracker_ok u"
  using refs_step locks_step starts_step aborts_step confirmed_step unfolding tracker_ok_def by blast

lemma tracker_ok_steps: "tracker_steps t es u \<Longrightarrow> tracker_ok t \<Longrightarrow> tracker_ok u"
  by (induction rule: tracker_steps.induct) (auto dest: tracker_ok_step)

lemma reachable_tracker_ok: "reachable_tracker t \<Longrightarrow> tracker_ok t"
  using empty_tracker_ok tracker_ok_steps unfolding reachable_tracker_def by blast

end
