(* ===== verification/Run_Claims.thy ===== *)
theory Run_Claims
  imports Run_Invariants
begin

text \<open>
  What the run tracker promises, for every interleaving of the calls: a recorded receipt guards
  the run, no run is aborted more often than its key was claimed or started twice, a reported
  stop had an abort behind it, and every pending call can be completed. The last claim is the
  window between the two locked blocks of a cancel that found no run.
\<close>

section \<open>What a run keeps\<close>

definition keeps_run :: "tracker \<Rightarrow> tracker \<Rightarrow> nat \<Rightarrow> bool" where
  "keeps_run t u a \<longleftrightarrow> exists_run u a \<and> ro_key (run_at u a) = ro_key (run_at t a) \<and>
     ro_dispatch (run_at u a) = ro_dispatch (run_at t a) \<and> ro_business (run_at u a) = ro_business (run_at t a) \<and>
     (ro_port (run_at t a) \<longrightarrow> ro_port (run_at u a))"

lemma keeps_run_trans: "keeps_run t u a \<Longrightarrow> keeps_run u v a \<Longrightarrow> keeps_run t v a"
  by (simp add: keeps_run_def)

lemma keeps_run_step:
  assumes "tracker_step e t = Some u" "exists_run t a"
  shows "keeps_run t u a"
  using assms(1)
  by (cases rule: tracker_step_cases)
    (use assms(2) in \<open>auto simp: keeps_run_def operations Let_def nth_append split: option.split bool.split\<close>)

lemma keeps_run_steps: "tracker_steps t es u \<Longrightarrow> exists_run t a \<Longrightarrow> keeps_run t u a"
proof (induction rule: tracker_steps.induct)
  case (idle_steps t)
  then show ?case by (simp add: keeps_run_def)
next
  case (more_steps e t u es v)
  have "keeps_run t u a" by (rule keeps_run_step) fact+
  moreover from this have "exists_run u a" by (simp add: keeps_run_def)
  ultimately show ?case using more_steps.IH keeps_run_trans by blast
qed

section \<open>A recorded receipt guards the run\<close>

definition guarded :: "tracker \<Rightarrow> nat \<Rightarrow> bool" where
  "guarded t a \<longleftrightarrow> exists_run t a \<and> tk_receipts t (ro_key (run_at t a)) \<noteq> None \<and>
     (\<forall>i k. tk_threads t i \<noteq> Checked k a)"

lemma pops_grow: "tracker_step e t = Some u \<Longrightarrow> count_list (tk_pops t) k \<le> count_list (tk_pops u) k"
  by (erule tracker_step_cases)
    (auto simp: operations Let_def split: option.split bool.split)

lemma pops_grow_steps: "tracker_steps t es u \<Longrightarrow> count_list (tk_pops t) k \<le> count_list (tk_pops u) k"
  by (induction rule: tracker_steps.induct) (auto dest: pops_grow intro: le_trans)

lemma guarded_step:
  assumes step: "tracker_step e t = Some u" and refs: "refs_ok t" and g: "guarded t a"
    and same: "claims_of u a = claims_of t a"
  shows "guarded u a \<and> aborts_of u a = aborts_of t a"
proof -
  from g have ex: "exists_run t a" by (simp add: guarded_def)
  have kr: "keeps_run t u a" by (rule keeps_run_step [OF step ex])
  from step show ?thesis
  proof (cases rule: tracker_step_cases)
    case (check i k b)
    with refs_thread [OF refs check(1)] have "ro_key (run_at t b) = k" by simp
    with check g kr same show ?thesis
      by (auto simp: guarded_def keeps_run_def cancel_check_def unlock_def split: option.split)
  next
    case (port i k b)
    with g have "b \<noteq> a" by (auto simp: guarded_def)
    with port g kr same show ?thesis
      by (auto simp: guarded_def keeps_run_def cancel_port_def unlock_def)
  qed (use g kr same in \<open>auto simp: guarded_def keeps_run_def operations Let_def
      split: option.splits bool.splits if_splits\<close>)
qed

lemma guarded_steps:
  assumes "tracker_steps t es u" "tracker_ok t" "guarded t a" "claims_of u a = claims_of t a"
  shows "guarded u a \<and> aborts_of u a = aborts_of t a"
  using assms
proof (induction rule: tracker_steps.induct)
  case (idle_steps t)
  then show ?case by simp
next
  case (more_steps e t u es v)
  have ex: "exists_run t a" using more_steps.prems by (simp add: guarded_def)
  have tu: "keeps_run t u a" by (rule keeps_run_step [OF more_steps.hyps(1) ex])
  have uv: "keeps_run u v a" by (rule keeps_run_steps [OF more_steps.hyps(2)]) (use tu in \<open>simp add: keeps_run_def\<close>)
  from pops_grow [OF more_steps.hyps(1), of "ro_key (run_at t a)"]
    pops_grow_steps [OF more_steps.hyps(2), of "ro_key (run_at t a)"] more_steps.prems(3) tu uv
  have same: "claims_of u a = claims_of t a" "claims_of v a = claims_of u a" by (simp_all add: keeps_run_def)
  have "guarded u a \<and> aborts_of u a = aborts_of t a"
    by (rule guarded_step [OF more_steps.hyps(1) _ more_steps.prems(2) same(1)])
      (use more_steps.prems(1) in \<open>simp add: tracker_ok_def\<close>)
  then show ?case
    using more_steps.IH [OF tracker_ok_step [OF more_steps.hyps(1) more_steps.prems(1)] _ same(2)] by simp
qed

section \<open>Completing a call\<close>

lemma steps_append: "tracker_steps t es u \<Longrightarrow> tracker_steps u fs v \<Longrightarrow> tracker_steps t (es @ fs) v"
  by (induction rule: tracker_steps.induct) (auto simp: tracker_steps_Cons)

text \<open>A thread inside its critical section needs no one else: it reaches its reply by its own steps
  and hands the lock back.\<close>

definition released :: "tracker \<Rightarrow> nat \<Rightarrow> nat \<Rightarrow> tracker \<Rightarrow> bool" where
  "released t i a u \<longleftrightarrow> (\<exists>x. tk_threads u i = Ready (Some x)) \<and> (\<forall>j. j \<noteq> i \<longrightarrow> tk_threads u j = tk_threads t j) \<and>
     ro_holder (run_at u a) = None"

abbreviation can_release :: "tracker \<Rightarrow> nat \<Rightarrow> nat \<Rightarrow> nat \<Rightarrow> bool" where
  "can_release t i a n \<equiv> \<exists>es u. tracker_steps t es u \<and> released t i a u \<and> length es \<le> n"

lemma release_now: "tracker_step e t = Some u \<Longrightarrow> released t i a u \<Longrightarrow> 0 < n \<Longrightarrow> can_release t i a n"
  by (rule exI [of _ "[e]"]) (auto simp: tracker_steps_Cons tracker_steps_Nil)

lemma release_via:
  assumes "can_release u i a n" "tracker_step e t = Some u" "tk_threads u = (tk_threads t)(i := p)"
  shows "can_release t i a (Suc n)"
proof -
  from assms(1) obtain es v where "tracker_steps u es v" "released u i a v" "length es \<le> n" by blast
  with assms(2,3) have "tracker_steps t (e # es) v \<and> released t i a v \<and> length (e # es) \<le> Suc n"
    by (auto simp: tracker_steps_Cons released_def)
  then show ?thesis by blast
qed

lemma release_answered:
  assumes "tk_threads t i = Answered k a x" "exists_run t a"
  shows "can_release t i a (Suc 0)"
  by (rule release_now [of "Record i" t "cancel_record i k a x t"])
    (use assms in \<open>simp_all add: released_def cancel_record_def unlock_def\<close>)

lemma release_calling:
  assumes "tk_threads t i = Calling k a" "exists_run t a"
  shows "can_release t i a (Suc (Suc 0))"
proof (rule release_via)
  show "can_release (cancel_answer i k a None t) i a (Suc 0)"
    by (rule release_answered) (use assms in \<open>simp_all add: cancel_answer_def\<close>)
  show "tracker_step (Answer i None) t = Some (cancel_answer i k a None t)" using assms by simp
  show "tk_threads (cancel_answer i k a None t) = (tk_threads t)(i := Answered k a Unknown_outcome)"
    by (simp add: cancel_answer_def)
qed

lemma release_checked:
  assumes "tk_threads t i = Checked k a" "exists_run t a"
  shows "can_release t i a (Suc (Suc (Suc 0)))"
proof (cases "ro_port (run_at t a)")
  case True
  show ?thesis
  proof (rule release_via)
    show "can_release (cancel_port i k a t) i a (Suc (Suc 0))"
      by (rule release_calling) (use assms True in \<open>simp_all add: cancel_port_def\<close>)
    show "tracker_step (Port i) t = Some (cancel_port i k a t)" using assms by simp
    show "tk_threads (cancel_port i k a t) = (tk_threads t)(i := Calling k a)"
      using True by (simp add: cancel_port_def)
  qed
next
  case False
  with assms show ?thesis
    by (intro release_now [of "Port i" t "cancel_port i k a t"])
      (simp_all add: released_def cancel_port_def unlock_def)
qed

lemma release_entered:
  assumes "tk_threads t i = Entered k a" "exists_run t a"
  shows "can_release t i a (Suc (Suc (Suc (Suc 0))))"
proof (cases "tk_receipts t k")
  case None
  show ?thesis
  proof (rule release_via)
    show "can_release (cancel_check i k a t) i a (Suc (Suc (Suc 0)))"
      by (rule release_checked) (use assms None in \<open>simp_all add: cancel_check_def\<close>)
    show "tracker_step (Check i) t = Some (cancel_check i k a t)" using assms by simp
    show "tk_threads (cancel_check i k a t) = (tk_threads t)(i := Checked k a)"
      using None by (simp add: cancel_check_def)
  qed
next
  case (Some x)
  with assms show ?thesis
    by (intro release_now [of "Check i" t "cancel_check i k a t"])
      (simp_all add: released_def cancel_check_def unlock_def)
qed

lemma release_later: "can_release t i a n \<Longrightarrow> n \<le> m \<Longrightarrow> can_release t i a m"
  using le_trans by blast

lemma release_inside:
  assumes "inside (tk_threads t i) = Some a" "exists_run t a"
  shows "can_release t i a (Suc (Suc (Suc (Suc 0))))"
proof (cases "tk_threads t i")
  case (Entered k b)
  with assms show ?thesis using release_entered by simp
next
  case (Checked k b)
  with assms show ?thesis using release_later [OF release_checked [of t i k a]] by simp
next
  case (Calling k b)
  with assms show ?thesis using release_later [OF release_calling [of t i k a]] by simp
next
  case (Answered k b x)
  with assms show ?thesis using release_later [OF release_answered [of t i k a x]] by simp
qed (use assms in simp_all)

lemma release_free:
  assumes "tk_threads t i = Looked k a" "ro_holder (run_at t a) = None" "exists_run t a"
  shows "can_release t i a (Suc (Suc (Suc (Suc (Suc 0)))))"
proof (rule release_via)
  show "can_release (cancel_enter i k a t) i a (Suc (Suc (Suc (Suc 0))))"
    by (rule release_entered) (use assms in \<open>simp_all add: cancel_enter_def\<close>)
  show "tracker_step (Enter i) t = Some (cancel_enter i k a t)" using assms by simp
  show "tk_threads (cancel_enter i k a t) = (tk_threads t)(i := Entered k a)" by (simp add: cancel_enter_def)
qed

text \<open>A thread waiting for a lock gets it after its holder is done.\<close>

lemma can_finish_look:
  assumes "tracker_ok t" "tk_threads t i = Looked k a"
  shows "\<exists>es u x. tracker_steps t es u \<and> length es \<le> 9 \<and> tk_threads u i = Ready (Some x)"
proof (cases "ro_holder (run_at t a)")
  case None
  from assms refs_thread [of t i "Looked k a" k a] release_free [OF assms(2) None]
  obtain es u where "tracker_steps t es u" "released t i a u" "length es \<le> 5"
    by (auto simp: tracker_ok_def eval_nat_numeral)
  then show ?thesis by (fastforce simp: released_def)
next
  case (Some j)
  with assms have ex: "exists_run t a" and jn: "inside (tk_threads t j) = Some a"
    using refs_thread [of t i "Looked k a" k a] by (auto simp: tracker_ok_def locks_ok_def)
  from release_inside [OF jn ex] obtain es u
    where u: "tracker_steps t es u" "released t j a u" "length es \<le> 4" by (auto simp: eval_nat_numeral)
  have "j \<noteq> i" using assms(2) jn by auto
  with u assms(2) have at_u: "tk_threads u i = Looked k a" "ro_holder (run_at u a) = None"
    by (auto simp: released_def)
  have "exists_run u a" using keeps_run_steps [OF u(1) ex] by (simp add: keeps_run_def)
  from release_free [OF at_u this] obtain fs v
    where v: "tracker_steps u fs v" "released u i a v" "length fs \<le> 5" by (auto simp: eval_nat_numeral)
  have "tracker_steps t (es @ fs) v" using u(1) v(1) by (rule steps_append)
  with u(3) v(2,3) show ?thesis
    by (intro exI [of _ "es @ fs"] exI [of _ v]) (auto simp: released_def)
qed

section \<open>The properties\<close>

text \<open>
  C10: Whatever the interleaving, the port of a run is asked to stop at most once per claim of its
  key (a run that was submitted once is aborted at most once, however many cancels race), and no
  two threads are inside the critical section of one run.
\<close>

theorem run_aborted_per_claim:
  assumes "reachable_tracker t"
  shows "aborts_of t a \<le> claims_of t a \<and>
    (\<forall>i j. inside (tk_threads t i) = Some a \<longrightarrow> inside (tk_threads t j) = Some a \<longrightarrow> i = j)"
proof (intro conjI allI impI)
  from reachable_tracker_ok [OF assms] have ok: "refs_ok t" "locks_ok t" "aborts_ok t" by (simp_all add: tracker_ok_def)
  show "aborts_of t a \<le> claims_of t a"
    using ok(3) unfolding aborts_ok_def by (cases "exists_run t a") auto
  fix i j assume i: "inside (tk_threads t i) = Some a" and j: "inside (tk_threads t j) = Some a"
  from inside_refers [OF i] obtain k where "refers (tk_threads t i) = Some (k, a)" by blast
  then have "exists_run t a" using refs_thread [OF ok(1) refl] by blast
  with i j ok(2) show "i = j" unfolding locks_ok_def by (metis option.inject)
qed

definition racing_cancels :: "tracker_event list" where
  "racing_cancels = [Submit 0 ''k'' ''u'', Seam_done 0 True, Open_done 0 (Some ''n''), Cancel 1 ''k'', Cancel 2 ''k'',
     Enter 1, Check 1, Port 1, Answer 1 (Some True), Record 1, Enter 2, Check 2]"

definition raced :: tracker where
  "raced = the (run_events racing_cancels empty_tracker)"

lemmas tracker_eval = empty_tracker_def operations change_def goto_def run_at_def allocate_def new_object_def
  pop_receipt_def put_receipt_def

lemma raced_events: "run_events racing_cancels empty_tracker = Some raced"
  unfolding raced_def by (simp add: racing_cancels_def tracker_eval)

lemma raced_reachable: "reachable_tracker raced"
  using raced_events unfolding reachable_tracker_def run_events_tracker_steps by blast

lemma raced_fields:
  "tk_aborts raced = [0]" "tk_runs raced ''k'' = Some 0" "tk_active raced ''k'' = None" "length (tk_objects raced) = 1"
  "tk_threads raced 1 = Ready (Some (Cancelled Confirmed_stopped))"
  "tk_threads raced 2 = Ready (Some (Cancelled Confirmed_stopped))"
  "ro_key (run_at raced 0) = ''k''" "ro_port (run_at raced 0)" "ro_confirmed (run_at raced 0)"
  unfolding raced_def by (simp_all add: racing_cancels_def tracker_eval)

lemma run_aborted_per_claim_witness: "tk_aborts raced = [0] \<and> aborts_of raced 0 \<le> claims_of raced 0"
  using run_aborted_per_claim [OF raced_reachable, of 0] raced_fields by simp

text \<open>
  C15: No run is started twice. A key whose run got its port keeps that run through every later
  step, so a submit of it answers with the first dispatch id as a replay and changes nothing but
  the reply of its thread.
\<close>

theorem run_started_once:
  assumes "reachable_tracker t" and run: "tk_runs t k = Some a" and port: "ro_port (run_at t a)"
    and steps: "tracker_steps t es u" and ready: "tk_threads u i = Ready r"
  shows "distinct (tk_starts u) \<and> tk_runs u k = Some a \<and>
    tracker_step (Submit i k d) u =
      Some (finish i (Submitted \<lparr>rr_key = k, rr_dispatch = ro_dispatch (run_at t a), rr_replayed = True\<rparr>) u)"
proof -
  have ok: "tracker_ok t" "tracker_ok u"
    using reachable_tracker_ok [OF assms(1)] tracker_ok_steps [OF steps] by simp_all
  with run have a: "exists_run t a" "ro_key (run_at t a) = k" "\<not> ro_business (run_at t a)"
    unfolding tracker_ok_def refs_ok_def by blast+
  from keeps_run_steps [OF steps a(1)] a port
  have "exists_run u a" "ro_port (run_at u a)" "\<not> ro_business (run_at u a)" "ro_key (run_at u a) = k"
    and d: "ro_dispatch (run_at u a) = ro_dispatch (run_at t a)" by (simp_all add: keeps_run_def)
  with ok(2) have "tk_runs u k = Some a" "distinct (tk_starts u)"
    unfolding tracker_ok_def starts_ok_def by blast+
  with d ready show ?thesis by (simp add: submit_claim_def)
qed

lemma run_started_once_witness:
  "tracker_step (Submit 7 ''k'' ''v'') raced =
    Some (finish 7 (Submitted \<lparr>rr_key = ''k'', rr_dispatch = ro_dispatch (run_at raced 0), rr_replayed = True\<rparr>) raced)"
proof -
  have "tk_threads raced 7 = Ready None"
    unfolding raced_def by (simp add: racing_cancels_def tracker_eval)
  from run_started_once [OF raced_reachable raced_fields(2,8) idle_steps this, of "''v''"] show ?thesis by blast
qed

text \<open>
  \<open>observe_execution\<close> says \<open>STOPPED_CONFIRMED\<close> only of a run of that key whose port was really
  asked to stop and confirmed it.
\<close>

lemma confirmed_stop_real:
  assumes "reachable_tracker t" "ob_state (observe_execution k now t) = Stopped_confirmed"
  shows "\<exists>a. (tk_active t k = Some a \<or> tk_runs t k = Some a) \<and> ro_key (run_at t a) = k \<and>
    ro_confirmed (run_at t a) \<and> a \<in> set (tk_aborts t)"
proof -
  from assms(2) obtain a where a: "tk_active t k = Some a \<or> tk_runs t k = Some a" "ro_confirmed (run_at t a)"
    by (auto simp: observe_execution_def Let_def split: option.splits if_splits)
  from reachable_tracker_ok [OF assms(1)] have "refs_ok t" "confirmed_ok t" by (simp_all add: tracker_ok_def)
  moreover from this(1) a(1) have "exists_run t a" "ro_key (run_at t a) = k" unfolding refs_ok_def by blast+
  ultimately show ?thesis using a unfolding confirmed_ok_def by blast
qed

lemma confirmed_stop_real_witness:
  "\<exists>a. tk_runs raced ''k'' = Some a \<and> ro_confirmed (run_at raced a) \<and> a \<in> set (tk_aborts raced)"
proof -
  have "ob_state (observe_execution ''k'' now raced) = Stopped_confirmed" for now
    using raced_fields by (simp add: observe_execution_def)
  from confirmed_stop_real [OF raced_reachable this] raced_fields show ?thesis by auto
qed

text \<open>
  C30: The tracker cannot get stuck: from every reachable state a thread in the middle of a call
  reaches its reply within nine steps, the wait for a cancel lock held by another thread included.
\<close>

theorem call_can_complete:
  assumes "reachable_tracker t"
  shows "\<exists>es u r. tracker_steps t es u \<and> length es \<le> 9 \<and> tk_threads u i = Ready r"
proof -
  have ok: "tracker_ok t" by (rule reachable_tracker_ok) fact
  have one: ?thesis if "tracker_step e t = Some u" "tk_threads u i = Ready r" for e u r
    using that by (intro exI [of _ "[e]"] exI [of _ u]) (auto simp: tracker_steps_Cons tracker_steps_Nil)
  have inside: ?thesis if a: "inside (tk_threads t i) = Some a" for a
  proof -
    obtain k where "refers (tk_threads t i) = Some (k, a)" using inside_refers [OF a] by blast
    with ok have "exists_run t a" using refs_thread unfolding tracker_ok_def by blast
    from release_inside [OF a this] obtain es u where "tracker_steps t es u" "released t i a u" "length es \<le> 4"
      by (auto simp: eval_nat_numeral)
    then show ?thesis by (intro exI [of _ es] exI [of _ u]) (auto simp: released_def)
  qed
  show ?thesis
  proof (cases "tk_threads t i")
    case (Ready r)
    then show ?thesis using idle_steps by fastforce
  next
    case (Seam k a)
    then show ?thesis by (intro one [of "Seam_done i False"]) (auto simp: submit_seam_def)
  next
    case (Opening k a)
    then show ?thesis by (intro one [of "Open_done i None"]) (auto simp: submit_open_def Let_def)
  next
    case (Refusing k)
    then show ?thesis by (intro one [of "Refuse i"]) (auto simp: cancel_refuse_def)
  next
    case (Looked k a)
    from can_finish_look [OF ok this] show ?thesis by blast
  qed (rule inside, simp)+
qed

lemma call_can_complete_witness:
  "\<exists>es u r. tracker_steps raced es u \<and> length es \<le> 9 \<and> tk_threads u 1 = Ready r"
  by (rule call_can_complete [OF raced_reachable])

text \<open>
  C38: A cancel that found no run records its refusal in a second locked block. When a submit of
  the same key starts its run in between, the refusal is filed against the live run: every cancel
  answers \<open>REFUSED_NO_ACTIVE_RUN\<close> from the receipt, and the port of the run is never asked to stop,
  in any later state in which the key was not claimed again (only a business run can).
\<close>

theorem stale_refusal_shields_run:
  assumes reach: "reachable_tracker t" and cancelling: "tk_threads t i = Refusing k"
    and ready: "tk_threads t j = Ready r" and fresh: "tk_runs t k = None"
    and race: "run_events [Submit j k d, Seam_done j True, Open_done j (Some n), Refuse i] t = Some u"
    and later: "tracker_steps u es v" "count_list (tk_pops v) k = count_list (tk_pops u) k"
  shows "\<exists>a. tk_runs u k = Some a \<and> ro_port (run_at u a) \<and> a \<in> set (tk_starts u) \<and>
    tk_receipts u k = Some Refused_no_active_run \<and> tk_receipts v k \<noteq> None \<and> a \<notin> set (tk_aborts v)"
proof -
  have ok: "tracker_ok t" by (rule reachable_tracker_ok) fact
  have "i \<noteq> j" using cancelling ready by auto
  let ?a = "length (tk_objects t)"
  have none: "tk_threads t m \<noteq> Checked q ?a" for m q
    using ok refs_thread [of t m "Checked q ?a" q ?a] unfolding tracker_ok_def by auto
  have zero: "aborts_of t ?a = 0" using ok unfolding tracker_ok_def aborts_ok_def by auto
  have u: "tk_runs u k = Some ?a" "ro_port (run_at u ?a)" "?a \<in> set (tk_starts u)" "ro_key (run_at u ?a) = k"
    "tk_receipts u k = Some Refused_no_active_run" "exists_run u ?a" "aborts_of u ?a = 0"
    "tk_threads u = (tk_threads t)(i := Ready (Some (Cancelled Refused_no_active_run)), j := tk_threads u j)"
    "\<exists>x. tk_threads u j = Ready x"
    using race cancelling ready fresh \<open>i \<noteq> j\<close> zero by (auto simp: operations Let_def)
  have nc: "tk_threads u m \<noteq> Checked q ?a" for m q
    using u(8,9) none [of m q] by (cases "m = j"; cases "m = i") auto
  have "guarded u ?a" using u nc by (simp add: guarded_def)
  moreover have "tracker_ok u"
    using ok tracker_ok_steps race unfolding run_events_tracker_steps by blast
  moreover have "ro_key (run_at v ?a) = k"
    using keeps_run_steps [OF later(1) u(6)] u(4) by (simp add: keeps_run_def)
  ultimately have "guarded v ?a" "aborts_of v ?a = 0" "tk_receipts v k \<noteq> None"
    using guarded_steps [OF later(1), of ?a] u(4,7) later(2) by (simp_all add: guarded_def)
  with u show ?thesis by (auto simp: count_list_0_iff)
qed

definition refused_first :: tracker where
  "refused_first = the (run_events [Cancel 0 ''k''] empty_tracker)"

definition refused_late :: tracker where
  "refused_late = the (run_events [Submit 1 ''k'' ''u'', Seam_done 1 True, Open_done 1 (Some ''n''), Refuse 0] refused_first)"

lemma stale_refusal_shields_run_witness:
  "\<exists>v a. tracker_step (Cancel 2 ''k'') refused_late = Some v \<and> tk_runs refused_late ''k'' = Some a \<and>
     a \<in> set (tk_starts refused_late) \<and> a \<notin> set (tk_aborts v) \<and>
     tk_threads v 2 = Ready (Some (Cancelled Refused_no_active_run))"
proof -
  have first: "run_events [Cancel 0 ''k''] empty_tracker = Some refused_first"
    unfolding refused_first_def by (simp add: tracker_eval)
  have late: "run_events [Submit 1 ''k'' ''u'', Seam_done 1 True, Open_done 1 (Some ''n''), Refuse 0] refused_first =
      Some refused_late"
    unfolding refused_late_def refused_first_def by (simp add: tracker_eval)
  let ?v = "finish 2 (Cancelled Refused_no_active_run) refused_late"
  have cancel: "tracker_step (Cancel 2 ''k'') refused_late = Some ?v"
    unfolding refused_late_def refused_first_def by (simp add: tracker_eval)
  have at: "tk_threads refused_first 0 = Refusing ''k''" "tk_threads refused_first 1 = Ready None"
      "tk_runs refused_first ''k'' = None"
    unfolding refused_first_def by (simp_all add: tracker_eval)
  have "reachable_tracker refused_first"
    using first unfolding reachable_tracker_def run_events_tracker_steps by blast
  from stale_refusal_shields_run [OF this at late, of "[Cancel 2 ''k'']" ?v] cancel show ?thesis
    by (auto simp: tracker_steps_Cons tracker_steps_Nil)
qed

end
