(* ===== verification/Tool_Permissions.thy ===== *)
theory Tool_Permissions
  imports Session_Records
begin

text \<open>
  Per-tool permission rules (\<open>profiles/permissions.py\<close>): validation of a rule set, the three
  presets, and the resolution of one (key, target) where the last matching rule wins. Rules are
  JSON objects, as they are stored. Patterns are matched by \<open>fnmatch.fnmatchcase\<close>, whose
  \<open>*\<close>, \<open>?\<close> and \<open>[seq]\<close> are modelled here.
\<close>

section \<open>fnmatchcase\<close>

text \<open>A bracket set holds characters and ranges; an empty range holds nothing.\<close>

fun set_has :: "string \<Rightarrow> char \<Rightarrow> bool" where
  "set_has (a # d # b # r) c =
    (if d = CHR ''-'' then code_of a \<le> code_of c \<and> code_of c \<le> code_of b \<or> set_has r c
     else a = c \<or> set_has (d # b # r) c)"
| "set_has (a # r) c = (a = c \<or> set_has r c)"
| "set_has [] c = False"

text \<open>The set after \<open>[\<close>: \<open>!\<close> negates, a \<open>]\<close> at its start is a member, and without a closing \<open>]\<close> the
  bracket is an ordinary character.\<close>

definition split_set :: "string \<Rightarrow> (bool \<times> string \<times> string) option" where
  "split_set p =
    (let neg = (p \<noteq> [] \<and> hd p = CHR ''!''); q = (if neg then tl p else p);
         lead = (if q \<noteq> [] \<and> hd q = CHR '']'' then [CHR '']''] else []);
         body = drop (length lead) q;
         inner = takeWhile (\<lambda>c. c \<noteq> CHR '']'') body; rest = dropWhile (\<lambda>c. c \<noteq> CHR '']'') body
     in case rest of [] \<Rightarrow> None | _ # r \<Rightarrow> Some (neg, lead @ inner, r))"

lemma split_set_shorter: "split_set p = Some (neg, s, r) \<Longrightarrow> length r < length p"
proof -
  assume split: "split_set p = Some (neg, s, r)"
  define q where "q = (if p \<noteq> [] \<and> hd p = CHR ''!'' then tl p else p)"
  define body where "body = drop (length (if q \<noteq> [] \<and> hd q = CHR '']'' then [CHR '']''] else [])) q"
  have le: "length body \<le> length p" by (simp add: body_def q_def)
  from split obtain e where "dropWhile (\<lambda>c. c \<noteq> CHR '']'') body = e # r"
    by (simp add: split_set_def Let_def q_def [symmetric] body_def [symmetric] split: list.splits)
  with length_dropWhile_le [of "\<lambda>c. c \<noteq> CHR '']''" body] le show ?thesis by simp
qed

function (sequential) glob :: "string \<Rightarrow> string \<Rightarrow> bool" where
  "glob [] t = (t = [])"
| "glob (p # ps) t =
    (if p = CHR ''*'' then glob ps t \<or> (case t of [] \<Rightarrow> False | _ # ts \<Rightarrow> glob (p # ps) ts)
     else (case t of
         [] \<Rightarrow> False
       | c # ts \<Rightarrow>
           if p = CHR ''?'' then glob ps ts
           else if p = CHR ''['' then
             (case split_set ps of
                None \<Rightarrow> c = p \<and> glob ps ts
              | Some (neg, members, rest) \<Rightarrow> set_has members c \<noteq> neg \<and> glob rest ts)
           else c = p \<and> glob ps ts))"
  by pat_completeness auto
termination
  by (relation "measure (\<lambda>(p, t). length p + length t)") (auto dest: split_set_shorter)

section \<open>Rules and presets\<close>

definition tool_keys :: "string list" where
  "tool_keys = [''read'', ''edit'', ''bash'', ''task'', ''external_directory'', ''webfetch'', ''skill'']"

definition tool_actions :: "string list" where
  "tool_actions = [''allow'', ''ask'', ''deny'']"

definition preset_actions :: "(string \<times> string) list" where
  "preset_actions = [(''full-access'', ''allow''), (''default'', ''ask''), (''plan'', ''ask'')]"

definition rule_json :: "string \<Rightarrow> json \<Rightarrow> string \<Rightarrow> json" where
  "rule_json key pattern action = JDict [(''key'', JStr key), (''pattern'', pattern), (''action'', JStr action)]"

definition preset_table :: "(string \<times> json list) list" where
  "preset_table =
    [(''full-access'', []), (''default'', []),
     (''plan'', [rule_json ''edit'' JNull ''deny'', rule_json ''bash'' JNull ''deny'',
        rule_json ''external_directory'' JNull ''deny''])]"

definition max_rules :: nat where "max_rules = 64"

text \<open>\<open>[^\x00-\x1f\x7f]{1,128}\<close>\<close>

definition pattern_ok :: "string \<Rightarrow> bool" where
  "pattern_ok s \<longleftrightarrow> s \<noteq> [] \<and> length s \<le> 128 \<and> list_all (\<lambda>c. 32 \<le> code_of c \<and> code_of c \<noteq> 127) s"

definition permission_error :: "string \<Rightarrow> string \<Rightarrow> exn" where
  "permission_error code message =
    Exn (OtherException ''PermissionRuleError'') (code @ '': '' @ message) (Some code) None"

definition names_repr :: "string list \<Rightarrow> string" where
  "names_repr names = json_repr (JList (map JStr (sort names)))"

text \<open>\<open>raw.get(k)\<close> with \<open>None\<close> for a missing key.\<close>

definition dict_get :: "(string \<times> json) list \<Rightarrow> string \<Rightarrow> json" where
  "dict_get kvs k = (case map_of kvs k of None \<Rightarrow> JNull | Some v \<Rightarrow> v)"

definition key_error :: "json \<Rightarrow> exn" where
  "key_error key = permission_error ''PERMISSION_KEY_UNSUPPORTED''
    (json_repr key @ '' is not a tool key (declared: '' @ names_repr tool_keys @ '')'')"

definition validate_rule :: "json \<Rightarrow> exn + json" where
  "validate_rule raw =
    (case raw of
       JDict kvs \<Rightarrow>
         (let unknown = filter (\<lambda>k. k \<notin> set [''key'', ''pattern'', ''action'']) (map fst kvs);
              key = dict_get kvs ''key''; action = dict_get kvs ''action''; pattern = dict_get kvs ''pattern'' in
          if unknown \<noteq> [] then Inl (permission_error ''PERMISSION_RULE_INVALID''
              (''unknown rule fields: '' @ names_repr unknown))
          else if key \<notin> set (map JStr tool_keys) then Inl (key_error key)
          else if action \<notin> set (map JStr tool_actions) then
            Inl (permission_error ''PERMISSION_ACTION_UNSUPPORTED''
              (json_repr action @ '' is not an action (declared: '' @ names_repr tool_actions @ '')''))
          else (case pattern of
              JNull \<Rightarrow> Inr (JDict [(''key'', key), (''pattern'', pattern), (''action'', action)])
            | JStr s \<Rightarrow>
                if pattern_ok s then Inr (JDict [(''key'', key), (''pattern'', pattern), (''action'', action)])
                else Inl (permission_error ''PERMISSION_PATTERN_INVALID'' ''a pattern must be bounded printable text'')
            | _ \<Rightarrow> Inl (permission_error ''PERMISSION_PATTERN_INVALID'' ''a pattern must be bounded printable text'')))
     | _ \<Rightarrow> Inl (permission_error ''PERMISSION_RULE_INVALID'' ''a rule is an object''))"

text \<open>A list comprehension whose body may raise.\<close>

fun map_exn :: "('a \<Rightarrow> exn + 'b) \<Rightarrow> 'a list \<Rightarrow> exn + 'b list" where
  "map_exn f [] = Inr []"
| "map_exn f (x # xs) =
    (case f x of Inl e \<Rightarrow> Inl e
     | Inr y \<Rightarrow> (case map_exn f xs of Inl e \<Rightarrow> Inl e | Inr ys \<Rightarrow> Inr (y # ys)))"

definition validate_rules :: "json \<Rightarrow> exn + json list" where
  "validate_rules rules =
    (case rules of
       JList xs \<Rightarrow>
         if max_rules < length xs then
           Inl (permission_error ''PERMISSION_RULE_INVALID'' ''at most 64 rules are accepted'')
         else map_exn validate_rule xs
     | _ \<Rightarrow> Inl (permission_error ''PERMISSION_RULE_INVALID'' ''rules must be a list''))"

definition preset_rules :: "string \<Rightarrow> exn + json list" where
  "preset_rules preset =
    (case map_of preset_table preset of
       Some rs \<Rightarrow> Inr rs
     | None \<Rightarrow> Inl (permission_error ''PERMISSION_PRESET_UNSUPPORTED''
         (py_repr preset @ '' is not a preset (declared: '' @ names_repr (map fst preset_table) @ '')'')))"

definition effective_rules :: "string \<Rightarrow> json \<Rightarrow> exn + json list" where
  "effective_rules preset overrides =
    (case preset_rules preset of Inl e \<Rightarrow> Inl e
     | Inr base \<Rightarrow> (case validate_rules overrides of Inl e \<Rightarrow> Inl e | Inr rs \<Rightarrow> Inr (base @ rs)))"

section \<open>Resolution\<close>

definition rule_matches :: "json \<Rightarrow> string \<Rightarrow> string option \<Rightarrow> exn + bool" where
  "rule_matches rule key target =
    (case rule of
       JDict kvs \<Rightarrow>
         (case map_of kvs ''key'' of
            None \<Rightarrow> Inl (err KeyError (py_repr ''key''))
          | Some k \<Rightarrow>
              if k \<noteq> JStr key then Inr False
              else (case dict_get kvs ''pattern'' of
                  JNull \<Rightarrow> Inr True
                | JStr p \<Rightarrow> (case target of None \<Rightarrow> Inr False | Some t \<Rightarrow> Inr (glob p t))
                | _ \<Rightarrow> (case target of None \<Rightarrow> Inr False
                    | Some t \<Rightarrow> Inl (err TypeError ''expected str, bytes or os.PathLike object''))))
     | _ \<Rightarrow> Inl (err TypeError ''rule indices must be integers''))"

definition rule_action :: "json \<Rightarrow> exn + string" where
  "rule_action rule =
    (case body_get rule ''action'' of None \<Rightarrow> Inl (err KeyError (py_repr ''action'')) | Some a \<Rightarrow> Inr (py_str a))"

fun last_match :: "string \<Rightarrow> string option \<Rightarrow> json list \<Rightarrow> string \<Rightarrow> exn + string" where
  "last_match key target [] action = Inr action"
| "last_match key target (r # rs) action =
    (case rule_matches r key target of
       Inl e \<Rightarrow> Inl e
     | Inr False \<Rightarrow> last_match key target rs action
     | Inr True \<Rightarrow> (case rule_action r of Inl e \<Rightarrow> Inl e | Inr a \<Rightarrow> last_match key target rs a))"

definition resolve :: "json list \<Rightarrow> string \<Rightarrow> string option \<Rightarrow> string \<Rightarrow> exn + string" where
  "resolve rules key target preset =
    (if key \<notin> set tool_keys then Inl (key_error (JStr key))
     else (case map_of preset_actions preset of
         None \<Rightarrow> Inl (permission_error ''PERMISSION_PRESET_UNSUPPORTED'' (py_repr preset @ '' is not a preset''))
       | Some action \<Rightarrow> last_match key target rules action))"

text \<open>A dict comprehension over the keys whose values may raise.\<close>

definition resolved_members :: "(string \<Rightarrow> exn + json) \<Rightarrow> string list \<Rightarrow> exn + (string \<times> json) list" where
  "resolved_members f keys = map_exn (\<lambda>k. map_sum id (\<lambda>v. (k, v)) (f k)) keys"

definition resolve_all :: "json list \<Rightarrow> string \<Rightarrow> (string \<times> string list) list \<Rightarrow> exn + json" where
  "resolve_all rules preset targets =
    (case resolved_members (\<lambda>k. map_sum id JStr (resolve rules k None preset)) tool_keys of
       Inl e \<Rightarrow> Inl e
     | Inr keys \<Rightarrow>
         (let posture = [(''preset'', JStr preset), (''keys'', JDict keys)];
              wanted = (\<lambda>k. case map_of targets k of None \<Rightarrow> [] | Some ts \<Rightarrow> ts) in
          if targets = [] then Inr (JDict posture)
          else (case resolved_members (\<lambda>k. map_sum id JDict
                 (resolved_members (\<lambda>t. map_sum id JStr (resolve rules k (Some t) preset)) (remdups (wanted k))))
               (filter (\<lambda>k. wanted k \<noteq> []) tool_keys) of
              Inl e \<Rightarrow> Inl e
            | Inr per \<Rightarrow> Inr (JDict (posture @ [(''targets'', JDict per)])))))"

section \<open>Facts\<close>

lemma map_exn_Inr: "map_exn f xs = Inr ys \<longleftrightarrow> list_all2 (\<lambda>x y. f x = Inr y) xs ys"
proof (induction xs arbitrary: ys)
  case (Cons x xs)
  show ?case
  proof (cases ys)
    case Nil
    then show ?thesis by (auto split: sum.splits)
  next
    case (Cons y zs)
    with Cons.IH [of zs] show ?thesis by (auto split: sum.splits)
  qed
qed auto

lemma map_exn_total: "(\<And>x. x \<in> set xs \<Longrightarrow> f x = Inr (g x)) \<Longrightarrow> map_exn f xs = Inr (map g xs)"
  by (induction xs) auto

text \<open>A stored rule: what validation lets through and what a preset holds.\<close>

definition rule_ok :: "json \<Rightarrow> bool" where
  "rule_ok r \<longleftrightarrow> (\<exists>key pattern action. r = rule_json key pattern action \<and> key \<in> set tool_keys \<and>
     action \<in> set tool_actions \<and> (pattern = JNull \<or> (\<exists>p. pattern = JStr p \<and> pattern_ok p)))"

lemma validate_rule_ok: "validate_rule raw = Inr r \<Longrightarrow> rule_ok r"
  by (auto simp: validate_rule_def rule_ok_def rule_json_def Let_def split: json.splits if_splits)

lemma preset_rules_ok: "preset_rules preset = Inr rs \<Longrightarrow> list_all rule_ok rs"
  by (auto simp: preset_rules_def preset_table_def rule_ok_def rule_json_def tool_keys_def tool_actions_def
      split: if_splits option.splits)

lemma map_exn_all: "map_exn f xs = Inr ys \<Longrightarrow> (\<And>x y. f x = Inr y \<Longrightarrow> P y) \<Longrightarrow> list_all P ys"
  by (induction xs arbitrary: ys) (auto split: sum.splits)

lemma effective_rules_ok: "effective_rules preset overrides = Inr rs \<Longrightarrow> list_all rule_ok rs"
  by (auto simp: effective_rules_def validate_rules_def dest: preset_rules_ok
      dest!: map_exn_all [where P = rule_ok] intro: validate_rule_ok split: sum.splits json.splits if_splits)

end
