(* ===== verification/Product_Records.thy ===== *)
theory Product_Records
  imports Tool_Permissions
begin

text \<open>
  What the use cases of the server share: the canonical encoding and the digest of a product
  record with its size limit (\<open>ordessa_server/records.py\<close>), the refusal of secret-bearing keys,
  and the registry of Harness descriptors (\<open>execution/__init__.py\<close>). SHA-256 is the parameter
  \<open>H\<close>. Of a descriptor the fields the modelled use cases read are kept; its capability claims
  are taken as already validated.
\<close>

section \<open>Canonical records\<close>

definition utf8_length :: "string \<Rightarrow> int" where
  "utf8_length s = sum_list (map (\<lambda>c. if code_of c < 128 then 1 else 2) s)"

definition record_limit :: int where "record_limit = 262144"

definition canonical :: "json \<Rightarrow> exn + string" where
  "canonical value =
    (let encoded = dumps_compact value in
     if record_limit < utf8_length encoded then
       Inl (server_error ''REQUEST_TOO_LARGE'' ''Request content exceeds the product record limit'' 422)
     else Inr encoded)"

definition digest :: "(string \<Rightarrow> string) \<Rightarrow> json \<Rightarrow> exn + string" where
  "digest H value = map_sum id (\<lambda>t. ''sha256:'' @ H t) (canonical value)"

section \<open>Secret fields\<close>

definition lower_char :: "char \<Rightarrow> char" where
  "lower_char c = (if is_upper c then char_of (code_of c + 32) else c)"

text \<open>\<open>_SENSITIVE\<close>, ignoring case: the words its alternatives stand for.\<close>

definition sensitive_words :: "string list" where
  "sensitive_words =
    [''secret'', ''token'', ''apikey'', ''api_key'', ''api-key'', ''password'', ''privatekey'', ''private_key'',
     ''private-key'', ''authorization'', ''cookie'', ''credential_value'']"

definition sensitive :: "string \<Rightarrow> bool" where
  "sensitive key \<longleftrightarrow> (let k = map lower_char key in list_ex (\<lambda>w. sublist w k) sensitive_words)"

definition secret_error :: exn where
  "secret_error = server_error ''SECRET_FIELD_FORBIDDEN'' ''Configuration contains a forbidden secret field'' 422"

fun reject_sensitive_keys :: "json \<Rightarrow> exn + unit"
  and reject_sensitive_items :: "json list \<Rightarrow> exn + unit"
  and reject_sensitive_members :: "(string \<times> json) list \<Rightarrow> exn + unit" where
  "reject_sensitive_keys (JDict kvs) = reject_sensitive_members kvs"
| "reject_sensitive_keys (JList xs) = reject_sensitive_items xs"
| "reject_sensitive_keys _ = Inr ()"
| "reject_sensitive_items [] = Inr ()"
| "reject_sensitive_items (x # xs) =
    (case reject_sensitive_keys x of Inl e \<Rightarrow> Inl e | Inr _ \<Rightarrow> reject_sensitive_items xs)"
| "reject_sensitive_members [] = Inr ()"
| "reject_sensitive_members ((k, v) # kvs) =
    (if sensitive k then Inl secret_error
     else (case reject_sensitive_keys v of Inl e \<Rightarrow> Inl e | Inr _ \<Rightarrow> reject_sensitive_members kvs))"

section \<open>Harness registry\<close>

record harness =
  hs_type :: string
  hs_credential :: "string option"
  hs_model_control :: "string option"
  hs_validator :: "(json \<Rightarrow> exn + unit) option"
  hs_locked :: "string list"
  hs_claims :: "(string \<times> bool) list"
  hs_protocols :: "(string \<times> string) list"
  hs_options :: "(string \<times> json list) list"

type_synonym harnesses = "(string \<times> harness) list"

definition register_harness :: "harness \<Rightarrow> harnesses \<Rightarrow> exn + harnesses" where
  "register_harness h hs =
    (if hs_type h \<in> fst ` set hs then Inl (err ValueError (''harness already registered: '' @ hs_type h))
     else Inr (hs @ [(hs_type h, h)]))"

definition harness_known :: "harnesses \<Rightarrow> string \<Rightarrow> bool" where
  "harness_known hs t \<longleftrightarrow> map_of hs t \<noteq> None"

definition get_harness :: "harnesses \<Rightarrow> string \<Rightarrow> exn + harness" where
  "get_harness hs t =
    (case map_of hs t of None \<Rightarrow> Inl (err KeyError (py_repr ''HARNESS_NOT_REGISTERED'')) | Some h \<Rightarrow> Inr h)"

definition registered_harnesses :: "harnesses \<Rightarrow> string list" where
  "registered_harnesses hs = sort (map fst hs)"

definition harness_protocols :: "harnesses \<Rightarrow> string \<Rightarrow> (string \<times> string) list" where
  "harness_protocols hs t = (case map_of hs t of None \<Rightarrow> [] | Some h \<Rightarrow> hs_protocols h)"

definition canonical_claims :: "harnesses \<Rightarrow> string \<Rightarrow> json" where
  "canonical_claims hs t =
    JDict (case map_of hs t of None \<Rightarrow> [] | Some h \<Rightarrow> map (\<lambda>(k, b). (k, JBool b)) (hs_claims h))"

text \<open>\<open>unavailable(code, message)\<close>.\<close>

definition unavailable :: "string \<Rightarrow> string \<Rightarrow> exn" where
  "unavailable code message = Exn (ServerError 503 True None) message (Some code) None"

text \<open>A validator's refusal: a \<open>ServerError\<close> passes, a \<open>TypeError\<close> or \<open>ValueError\<close> becomes \<open>code\<close>, 422.\<close>

definition validation_error :: "string \<Rightarrow> exn \<Rightarrow> exn" where
  "validation_error code e =
    (if exn_cls e = TypeError \<or> exn_cls e = ValueError then Exn (ServerError 422 False None) (exn_msg e) (Some code) (Some e)
     else e)"

definition run_validator :: "harness \<Rightarrow> string \<Rightarrow> json \<Rightarrow> exn + unit" where
  "run_validator h code configuration =
    (case hs_validator h of None \<Rightarrow> Inr () | Some v \<Rightarrow> map_sum (validation_error code) id (v configuration))"

end
