(* ===== verification/Profile_Records.thy ===== *)
theory Profile_Records
  imports Product_Records
begin

text \<open>
  The Profile records (\<open>profiles/repository.py\<close>), the use cases over them
  (\<open>profiles/service.py\<close>) and the migration plan of a clone (\<open>profiles/clone.py\<close>). Every
  versioned change goes through \<open>mutate_profile\<close>. The credential table is the parameter
  \<open>known\<close>; publishing an object is the parameter \<open>publish\<close>, which answers with its digest.
\<close>

section \<open>Rows as dictionaries\<close>

text \<open>\<open>json.dumps(expanded, sort_keys=False)\<close>: the text of the stored rules.\<close>

definition rules_text :: "json \<Rightarrow> string" where
  "rules_text rules = json_enc True '', '' '': '' rules"

definition profile_dict :: "profile_row \<Rightarrow> json" where
  "profile_dict r = JDict
    [(''id'', JStr (pf_id r)), (''version'', JInt (pf_version r)), (''name'', JStr (pf_name r)),
     (''harness_type'', JStr (pf_harness r)), (''config_revision'', JInt (pf_revision r)),
     (''native_generation'', JInt (pf_generation r)), (''config_object_digest'', JStr (pf_config r)),
     (''credential_id'', str_or_null (pf_credential r)), (''account_id'', str_or_null (pf_account r)),
     (''permission_preset'', str_or_null (pf_preset r)),
     (''permission_rules_json'', str_or_null (map_option rules_text (pf_rules r))),
     (''origin_profile_id'', str_or_null (pf_origin r)), (''cloned_at'', time_or_null (pf_cloned r)),
     (''run_state'', JStr (pf_run r)), (''recovery_pending'', JInt (pf_recovery r)),
     (''display_name'', str_or_null (pf_display r)), (''archived_at'', time_or_null (pf_archived r)),
     (''created_at'', time_json (pf_created r)), (''updated_at'', time_json (pf_updated r))]"

section \<open>Records\<close>

definition new_profile ::
  "string \<Rightarrow> string \<Rightarrow> string \<Rightarrow> string \<Rightarrow> string option \<Rightarrow> datetime \<Rightarrow> profile_row" where
  "new_profile i name harness config credential t =
    \<lparr>pf_id = i, pf_version = 1, pf_name = name, pf_harness = harness, pf_revision = 1, pf_generation = 0,
     pf_config = config, pf_credential = credential, pf_account = None, pf_preset = None, pf_rules = None,
     pf_origin = None, pf_cloned = None, pf_run = ''idle'', pf_recovery = 0, pf_display = Some name,
     pf_archived = None, pf_created = t, pf_updated = t\<rparr>"

definition create_profile ::
  "(string \<Rightarrow> bool) \<Rightarrow> string \<Rightarrow> string \<Rightarrow> string \<Rightarrow> string \<Rightarrow> string \<Rightarrow> string option \<Rightarrow> (int \<times> json) ledger_prog" where
  "create_profile known key dg name harness config credential =
    once ''POST:/profiles'' key dg preturn
    (pseq (raise_if (case credential of None \<Rightarrow> False | Some c \<Rightarrow> \<not> known c)
       (server_error ''CREDENTIAL_NOT_FOUND'' ''Credential was not found'' 404))
    (pbind now_utc (\<lambda>t.
     pbind (fresh_id ''profile'') (\<lambda>i.
     (let body = JDict [(''profile_id'', JStr i), (''name'', JStr name), (''harness_type'', JStr harness),
            (''config_revision'', JInt 1), (''native_generation'', JInt 0),
            (''credential_id'', str_or_null credential), (''run_state'', JStr ''idle'')] in
      pseq (exec_sql (insert_profile (new_profile i name harness config credential t)))
      (pseq (idempotency_insert ''POST:/profiles'' key dg 201 body)
        (preturn (201, body))))))))"

definition get_profile :: "string \<Rightarrow> profile_row ledger_prog" where
  "get_profile p = fetch_row (\<lambda>d. find_profile d p) profile_missing"

definition profile_order :: "profile_row \<Rightarrow> (int \<times> bool \<times> int) \<times> string" where
  "profile_order r = (iso_key (pf_created r), pf_id r)"

definition list_profiles :: "bool \<Rightarrow> profile_row list ledger_prog" where
  "list_profiles include_archived =
    read_store (\<lambda>d. sort_key profile_order
      (filter (\<lambda>r. include_archived \<or> pf_archived r = None) (l_profiles d)))"

text \<open>\<open>_mutate\<close>: \<open>f\<close> is the assignments of the operation.\<close>

definition mutate_profile ::
  "string \<Rightarrow> int \<Rightarrow> string \<Rightarrow> string \<Rightarrow> string \<Rightarrow> (profile_row \<Rightarrow> profile_row) \<Rightarrow> bool \<Rightarrow> (int \<times> json) ledger_prog" where
  "mutate_profile p expected key dg operation f bump =
    (let scope = ''profiles.'' @ operation @ '':'' @ p in
    once scope key dg preturn
    (pbind (fetch_row (\<lambda>d. find_profile d p) profile_missing) (\<lambda>row.
     pseq (raise_if (pf_version row \<noteq> expected)
       (version_error ''Profile changed before the update'' (profile_dict row)))
     (pbind now_utc (\<lambda>t.
      pseq (exec_sql (update_profiles (\<lambda>r. pf_id r = p)
        (\<lambda>r. (f r)\<lparr>pf_version := pf_version r + 1, pf_updated := t,
             pf_revision := (if bump then pf_revision r + 1 else pf_revision r)\<rparr>)))
      (pbind (fetch_row (\<lambda>d. find_profile d p) none_error) (\<lambda>updated.
       (let body = JDict [(''profile'', profile_dict updated)] in
        pseq (idempotency_insert scope key dg 200 body) (preturn (200, body))))))))))"

definition update_display_name :: "string \<Rightarrow> int \<Rightarrow> string \<Rightarrow> string \<Rightarrow> string \<Rightarrow> (int \<times> json) ledger_prog" where
  "update_display_name p expected name key dg =
    mutate_profile p expected key dg ''update'' (\<lambda>r. r\<lparr>pf_name := name, pf_display := Some name\<rparr>) False"

definition update_configuration :: "string \<Rightarrow> int \<Rightarrow> string \<Rightarrow> string \<Rightarrow> string \<Rightarrow> (int \<times> json) ledger_prog" where
  "update_configuration p expected config key dg =
    mutate_profile p expected key dg ''updateConfig'' (\<lambda>r. r\<lparr>pf_config := config\<rparr>) True"

definition archive_profile :: "string \<Rightarrow> int \<Rightarrow> string \<Rightarrow> string \<Rightarrow> (int \<times> json) ledger_prog" where
  "archive_profile p expected key dg =
    pbind now_utc (\<lambda>t.
      mutate_profile p expected key dg ''archive'' (\<lambda>r. r\<lparr>pf_archived := or_else (pf_archived r) (Some t)\<rparr>) False)"

definition bind_account :: "string \<Rightarrow> string option \<Rightarrow> int \<Rightarrow> string \<Rightarrow> string \<Rightarrow> (int \<times> json) ledger_prog" where
  "bind_account p account expected key dg =
    mutate_profile p expected key dg ''update'' (\<lambda>r. r\<lparr>pf_account := account\<rparr>) False"

text \<open>\<open>raise ServerError(refusal.code, refusal.message, status=409) from refusal\<close>; \<open>str(refusal)\<close> is
  the code, a colon and the message.\<close>

definition code_text :: "exn \<Rightarrow> string" where
  "code_text e = (case exn_code e of None \<Rightarrow> [] | Some c \<Rightarrow> c)"

definition refusal_error :: "exn \<Rightarrow> exn" where
  "refusal_error e =
    Exn (ServerError 409 False None) (drop (length (code_text e) + 2) (exn_msg e)) (exn_code e) (Some e)"

definition set_permissions :: "string \<Rightarrow> string \<Rightarrow> json \<Rightarrow> int \<Rightarrow> string \<Rightarrow> string \<Rightarrow> (int \<times> json) ledger_prog" where
  "set_permissions p preset rules expected key dg =
    pbind (plift (map_sum refusal_error id (effective_rules preset rules))) (\<lambda>expanded.
      mutate_profile p expected key dg ''update''
        (\<lambda>r. r\<lparr>pf_preset := Some preset, pf_rules := Some (JList expanded)\<rparr>) True)"

definition clone_row :: "string \<Rightarrow> string \<Rightarrow> string \<Rightarrow> datetime \<Rightarrow> profile_row \<Rightarrow> profile_row" where
  "clone_row i name harness t source =
    (let same = (pf_harness source = harness) in
     (new_profile i name harness (if same then pf_config source else [])
        (if same then pf_credential source else None) t)
     \<lparr>pf_account := (if same then pf_account source else None), pf_preset := pf_preset source,
      pf_rules := pf_rules source, pf_origin := Some (pf_id source), pf_cloned := Some t\<rparr>)"

definition clone_from :: "string \<Rightarrow> string \<Rightarrow> string \<Rightarrow> profile_row ledger_prog" where
  "clone_from source_id name harness =
    pbind (get_profile source_id) (\<lambda>source.
    pbind now_utc (\<lambda>t.
    pbind (fresh_id ''profile'') (\<lambda>i.
    transaction
      (pseq (exec_sql (insert_profile (clone_row i name harness t source)))
        (fetch_row (\<lambda>d. find_profile d i) none_error)))))"

section \<open>Delegation edges\<close>

definition grant_subagent :: "string \<Rightarrow> string \<Rightarrow> json ledger_prog" where
  "grant_subagent parent child =
    pseq (raise_if (parent = child) (server_error ''SUBAGENT_CYCLE'' ''a Profile cannot call itself'' 409))
    (pbind now_utc (\<lambda>t.
     transaction
     (pseq (for_each (\<lambda>p. pseq (fetch_row (\<lambda>d. find_profile d p) profile_missing) (preturn ())) [parent, child])
     (pbind (read_store (\<lambda>d. list_ex (is_edge child parent) (l_grants d))) (\<lambda>back.
      pseq (raise_if back (server_error ''SUBAGENT_CYCLE'' ''that grant would close a delegation cycle'' 409))
      (pseq (exec_sql (insert_grant \<lparr>sg_parent = parent, sg_child = child, sg_at = t\<rparr>))
        (preturn (JDict [(''parentProfileId'', JStr parent), (''childProfileId'', JStr child)]))))))))"

definition revoke_subagent :: "string \<Rightarrow> string \<Rightarrow> unit ledger_prog" where
  "revoke_subagent parent child =
    transaction
    (pbind (exec_sql (delete_grant parent child)) (\<lambda>removed.
      raise_if (removed \<noteq> 1) (server_error ''SUBAGENT_GRANT_NOT_FOUND'' ''that grant does not exist'' 404)))"

definition edge_key :: "grant_row \<Rightarrow> string \<times> string" where
  "edge_key g = (sg_parent g, sg_child g)"

definition subagent_grants :: "string option \<Rightarrow> grant_row list ledger_prog" where
  "subagent_grants parent =
    read_store (\<lambda>d. sort_key edge_key (filter (\<lambda>g. case parent of None \<Rightarrow> True | Some p \<Rightarrow> sg_parent g = p) (l_grants d)))"

section \<open>Use cases\<close>

record profile_service =
  ps_harnesses :: harnesses
  ps_credential :: "string \<Rightarrow> string \<Rightarrow> exn + unit"
  ps_known :: "string \<Rightarrow> bool"
  ps_references :: "(string \<Rightarrow> json \<Rightarrow> exn + unit) option"
  ps_publish :: "string \<Rightarrow> exn + string"
  ps_hash :: "string \<Rightarrow> string"

text \<open>\<open>create(key, body)\<close>; the body is the validated request, \<open>configuration\<close> its object.\<close>

definition create_profile_use ::
  "profile_service \<Rightarrow> string \<Rightarrow> string \<Rightarrow> string \<Rightarrow> json \<Rightarrow> string option \<Rightarrow> (int \<times> json) ledger_prog" where
  "create_profile_use sv key name harness configuration credential =
    (case map_of (ps_harnesses sv) harness of
       None \<Rightarrow> praise (unavailable ''HARNESS_UNAVAILABLE'' ''Requested Harness is not configured'')
     | Some h \<Rightarrow>
        pseq (plift (reject_sensitive_keys configuration))
        (pseq (case credential of
            None \<Rightarrow> preturn ()
          | Some c \<Rightarrow> (case hs_credential h of
              None \<Rightarrow> praise (unavailable ''HARNESS_UNAVAILABLE'' ''Requested Harness is not configured'')
            | Some kind \<Rightarrow> plift (ps_credential sv c kind)))
        (pseq (plift (run_validator h ''PROFILE_CONFIGURATION_INVALID'' configuration))
        (pbind (plift (canonical (JDict [(''schema_version'', JInt 1), (''harness_type'', JStr harness),
            (''configuration'', configuration)]))) (\<lambda>text.
         pbind (plift (ps_publish sv text)) (\<lambda>object.
         pbind (plift (digest (ps_hash sv) (JDict [(''name'', JStr name), (''harness_type'', JStr harness),
            (''configuration'', configuration), (''credential_id'', str_or_null credential)]))) (\<lambda>dg.
         pbind (create_profile (ps_known sv) key dg name harness object credential) (\<lambda>(status, result).
         preturn (status, (case result of
             JDict kvs \<Rightarrow> JDict (dict_put ''capabilities'' (canonical_claims (ps_harnesses sv) harness) kvs)
           | _ \<Rightarrow> result))))))))))"

definition create_wire :: "profile_service \<Rightarrow> string \<Rightarrow> string \<Rightarrow> string \<Rightarrow> string option \<Rightarrow> profile_row ledger_prog" where
  "create_wire sv key name harness credential =
    pbind (create_profile_use sv key name harness (JDict []) credential) (\<lambda>(status, body).
    pbind (plift (body_field body ''profile_id'')) (\<lambda>p. get_profile (py_str p)))"

definition reply_profile :: "int \<times> json \<Rightarrow> json ledger_prog" where
  "reply_profile r = plift (body_field (snd r) ''profile'')"

definition update_display_name_use :: "profile_service \<Rightarrow> string \<Rightarrow> string \<Rightarrow> int \<Rightarrow> string \<Rightarrow> json ledger_prog" where
  "update_display_name_use sv key p expected name =
    pbind (plift (digest (ps_hash sv) (JDict [(''profileId'', JStr p), (''expectedVersion'', JInt expected),
      (''displayName'', JStr name)]))) (\<lambda>dg.
    pbind (update_display_name p expected name key dg) reply_profile)"

text \<open>\<open>{item["controlId"]: item["value"] for item in values}\<close>; the items were shaped by the wire.\<close>

definition assignment_dict :: "(string \<times> json) list \<Rightarrow> json" where
  "assignment_dict values = JDict (fold (\<lambda>(k, v). dict_put k v) values [])"

definition assignments_json :: "(string \<times> json) list \<Rightarrow> json" where
  "assignments_json values = JList (map (\<lambda>(k, v). JDict [(''controlId'', JStr k), (''value'', v)]) values)"

definition update_configuration_use ::
  "profile_service \<Rightarrow> string \<Rightarrow> string \<Rightarrow> int \<Rightarrow> (string \<times> json) list \<Rightarrow> json ledger_prog" where
  "update_configuration_use sv key p expected values =
    pbind (get_profile p) (\<lambda>profile.
    pseq (raise_if (pf_archived profile \<noteq> None) (server_error ''PROFILE_ARCHIVED'' ''Profile is archived'' 409))
    (pseq (plift (reject_sensitive_keys (assignments_json values)))
    (pseq (case ps_references sv of None \<Rightarrow> preturn ()
        | Some check \<Rightarrow> plift (check (pf_harness profile) (assignments_json values)))
    (pbind (plift (get_harness (ps_harnesses sv) (pf_harness profile))) (\<lambda>h.
     pseq (plift (run_validator h ''PROFILE_CONFIGURATION_INVALID'' (assignment_dict values)))
     (pbind (plift (canonical (JDict [(''schema_version'', JInt 1), (''harness_type'', JStr (pf_harness profile)),
         (''configuration'', assignment_dict values)]))) (\<lambda>text.
      pbind (plift (ps_publish sv text)) (\<lambda>object.
      pbind (plift (digest (ps_hash sv) (JDict [(''profileId'', JStr p), (''expectedVersion'', JInt expected),
          (''values'', assignments_json values)]))) (\<lambda>dg.
      pbind (update_configuration p expected object key dg) reply_profile)))))))))"

definition archive_profile_use :: "profile_service \<Rightarrow> string \<Rightarrow> string \<Rightarrow> int \<Rightarrow> json ledger_prog" where
  "archive_profile_use sv key p expected =
    pbind (plift (digest (ps_hash sv) (JDict [(''profileId'', JStr p), (''expectedVersion'', JInt expected)]))) (\<lambda>dg.
    pbind (archive_profile p expected key dg) reply_profile)"

section \<open>Cloning\<close>

record asset_binding =
  ab_kind :: string
  ab_name :: string

record managed_hook =
  mh_name :: string
  mh_event :: "json"
  mh_handlers :: "json list"

definition plan_item :: "string \<Rightarrow> bool \<Rightarrow> string \<Rightarrow> json" where
  "plan_item name migrated reason =
    JDict [(''item'', JStr name), (''migrated'', JBool migrated), (''reason'', JStr reason)]"

definition family_items :: "profile_row \<Rightarrow> bool \<Rightarrow> json list" where
  "family_items source same =
    (if same then
       [plan_item ''configuration'' True ''same family: the configuration object is reused'',
        plan_item ''credential'' (pf_credential source \<noteq> None)
          (if pf_credential source \<noteq> None \<and> pf_credential source \<noteq> Some []
             then ''same family: the credential reference travels'' else ''the source has no credential''),
        plan_item ''account'' (pf_account source \<noteq> None)
          (if pf_account source \<noteq> None \<and> pf_account source \<noteq> Some []
             then ''same family: the subscription binding travels'' else ''the source has no bound account'')]
     else
       [plan_item ''configuration'' False ''families differ: configuration keys are family-specific'',
        plan_item ''credential'' False ''a credential is issued for one family and is not reusable'',
        plan_item ''account'' False ''a subscription login state belongs to its family''])"

definition preset_or_default :: "profile_row \<Rightarrow> string" where
  "preset_or_default r = (case pf_preset r of None \<Rightarrow> ''default'' | Some p \<Rightarrow> if p = [] then ''default'' else p)"

definition stored_rules :: "profile_row \<Rightarrow> json" where
  "stored_rules r = (case pf_rules r of None \<Rightarrow> JList [] | Some j \<Rightarrow> j)"

definition permission_plan :: "profile_row \<Rightarrow> json \<times> json" where
  "permission_plan source =
    (case effective_rules (preset_or_default source) (stored_rules source) of
       Inr rules \<Rightarrow> (JDict [(''preset'', JStr (preset_or_default source)), (''rules'', JList rules)],
         plan_item ''permissions'' True ''the rule set is family-neutral and travels in order'')
     | Inl e \<Rightarrow> (JNull, plan_item ''permissions'' False (''the stored rule set no longer validates: '' @ exn_msg e)))"

definition asset_item :: "string list \<Rightarrow> asset_binding \<Rightarrow> json" where
  "asset_item slots b =
    (let name = ab_kind b @ '':'' @ ab_name b in
     if ab_kind b \<in> set [''skill'', ''mcp'', ''plugin''] then
       (if ab_kind b = ''mcp'' \<and> ''mcp'' \<notin> set slots
          then plan_item name False (''the target family declares no '' @ ab_kind b @ '' slot'')
        else plan_item name True ''the stored definition is family-neutral and is re-bound'')
     else plan_item name False (py_repr (ab_kind b) @ '' assets do not travel in this model''))"

text \<open>The hook schema of the target: its events and its handler types, or none.\<close>

definition hook_item :: "(string list \<times> string list) option \<Rightarrow> managed_hook \<Rightarrow> json" where
  "hook_item schema h =
    (let name = ''hook:'' @ mh_name h in
     case schema of
       None \<Rightarrow> plan_item name False ''the target family declares no hook model''
     | Some (events, types) \<Rightarrow>
         (let event_ok = (mh_event h \<in> JStr ` set events);
              handlers_ok = list_all (\<lambda>x. (case body_get x ''type'' of None \<Rightarrow> JNull | Some v \<Rightarrow> v) \<in> JStr ` set types)
                (mh_handlers h);
              reason1 = ''event '' @ json_repr (mh_event h) @ '' is not declared'';
              reason2 = ''a handler type is not declared'' in
          if event_ok \<and> handlers_ok then plan_item name True ''the target's hook schema accepts the model''
          else plan_item name False
            (if event_ok then reason2 else if handlers_ok then reason1 else reason1 @ ''; '' @ reason2)))"

definition migrated_count :: "json list \<Rightarrow> nat" where
  "migrated_count items = length (filter (\<lambda>i. body_get i ''migrated'' = Some (JBool True)) items)"

definition plan_migration ::
  "profile_row \<Rightarrow> string \<Rightarrow> asset_binding list \<Rightarrow> managed_hook list \<Rightarrow> string list \<Rightarrow>
     (string list \<times> string list) option \<Rightarrow> json" where
  "plan_migration source target bindings hooks slots schema =
    (let same = (pf_harness source = target);
         plan = permission_plan source;
         items = family_items source same @ [snd plan] @ map (asset_item slots) bindings @
           map (hook_item schema) hooks @
           [plan_item ''native-sessions'' False ''native sessions are the source's; a clone starts with none''] in
     JDict [(''targetFamily'', JStr target), (''sourceFamily'', JStr (pf_harness source)),
       (''sameFamily'', JBool same), (''items'', JList items), (''permissions'', fst plan),
       (''migratedCount'', JInt (int (migrated_count items))),
       (''refusedCount'', JInt (int (length items - migrated_count items)))])"

end
