(* ===== verification/Session_Service.thy ===== *)
theory Session_Service
  imports Profile_Records Turn_Records Run_Tracker
begin

text \<open>
  The session use cases (\<open>service/sessions/service.py\<close>): acceptance of an intent or a turn with
  its effective configuration frozen, and the cancellation of a turn and of the turns it
  delegated. The collaborators are a record: the object store answers a publication with a
  digest and a read with the stored JSON, the execution port may do anything to the ledger, and
  the model configurations, the credentials and the native-mode checks are functions.
\<close>

section \<open>Collaborators\<close>

record execution_port =
  ep_accept :: "string \<Rightarrow> unit ledger_prog"
  ep_cancel :: "string \<Rightarrow> cancel_outcome ledger_prog"

record secret_store =
  ss_import :: "string \<Rightarrow> string \<Rightarrow> exn + string \<times> string"
  ss_register :: "string \<Rightarrow> string \<Rightarrow> string \<Rightarrow> exn + unit"

record session_service =
  sv_config :: session_config
  sv_queue :: queue
  sv_harnesses :: harnesses
  sv_credential :: "string \<Rightarrow> string \<Rightarrow> exn + unit"
  sv_publish :: "string \<Rightarrow> exn + string"
  sv_read :: "string \<Rightarrow> exn + json"
  sv_execution :: "execution_port option"
  sv_freeze :: "(string \<Rightarrow> json \<Rightarrow> exn + json option) option"
  sv_native :: "(string \<times> string \<times> string) option"
  sv_workspace_check :: "(string option \<Rightarrow> exn + unit) option"
  sv_secrets :: "secret_store option"
  sv_hash :: "string \<Rightarrow> string"

definition bind_native_profile :: "string \<times> string \<times> string \<Rightarrow> session_service \<Rightarrow> exn + session_service" where
  "bind_native_profile identity sv =
    (if sv_native sv \<noteq> None \<and> sv_native sv \<noteq> Some identity
       then Inl (err RuntimeError ''NATIVE_PROFILE_ALREADY_BOUND'')
     else Inr (sv\<lparr>sv_native := Some identity\<rparr>))"

definition session_row_of :: "string \<Rightarrow> session_row ledger_prog" where
  "session_row_of s = fetch_row (\<lambda>d. find_session d s) session_missing"

definition validate_native_workspace :: "session_service \<Rightarrow> string option \<Rightarrow> string option \<Rightarrow> unit ledger_prog" where
  "validate_native_workspace sv workspace session =
    (case sv_workspace_check sv of
       None \<Rightarrow> preturn ()
     | Some check \<Rightarrow>
         (case (workspace, session) of
            (None, Some s) \<Rightarrow> pbind (session_row_of s) (\<lambda>r. plift (check (Some (se_workspace r))))
          | _ \<Rightarrow> plift (check workspace)))"

definition create_session_use :: "session_service \<Rightarrow> string \<Rightarrow> string \<Rightarrow> string \<Rightarrow> (int \<times> json) ledger_prog" where
  "create_session_use sv key workspace profile =
    pseq (raise_if (sv_native sv \<noteq> None)
      (server_error ''NATIVE_FIRST_SEND_REQUIRED'' ''native sessions start with the first message'' 409))
    (pbind (plift (digest (sv_hash sv) (JDict [(''workspace_id'', JStr workspace), (''profile_id'', JStr profile)])))
      (\<lambda>dg. create_session key dg workspace profile))"

section \<open>The effective configuration\<close>

text \<open>\<open>dict(stored.get("configuration") or {})\<close>\<close>

definition stored_configuration :: "json \<Rightarrow> exn + (string \<times> json) list" where
  "stored_configuration stored =
    (case stored of
       JDict kvs \<Rightarrow>
         (case dict_get kvs ''configuration'' of
            JDict m \<Rightarrow> Inr m
          | v \<Rightarrow> if v \<in> set [JNull, JBool False, JInt 0, JStr [], JList []] then Inr []
                 else Inl (err TypeError ''object is not a mapping''))
     | _ \<Rightarrow> Inl (err AttributeError ''object has no attribute get''))"

text \<open>\<open>item["controlId"], item["value"]\<close>; a string cannot be indexed by a string.\<close>

definition item_assignment :: "json \<Rightarrow> exn + (string \<times> json)" where
  "item_assignment item =
    (case item of
       JDict kvs \<Rightarrow>
         (case map_of kvs ''controlId'' of
            None \<Rightarrow> Inl (err KeyError (py_repr ''controlId''))
          | Some k \<Rightarrow> (case map_of kvs ''value'' of
              None \<Rightarrow> Inl (err KeyError (py_repr ''value''))
            | Some v \<Rightarrow> Inr (py_str k, v)))
     | JStr s \<Rightarrow> Inl (err TypeError ''string indices must be integers'')
     | _ \<Rightarrow> Inl (err TypeError ''object is not subscriptable''))"

definition assign_all :: "(string \<times> json) list \<Rightarrow> (string \<times> json) list \<Rightarrow> (string \<times> json) list" where
  "assign_all updates m = fold (\<lambda>(k, v). dict_put k v) updates m"

definition effective_configuration ::
  "session_service \<Rightarrow> string \<Rightarrow> json list \<Rightarrow> (json \<times> json option) ledger_prog" where
  "effective_configuration sv p items =
    pbind (get_profile p) (\<lambda>profile.
    pbind (plift (sv_read sv (pf_config profile))) (\<lambda>stored.
    pbind (plift (stored_configuration stored)) (\<lambda>base.
    pbind (plift (map_exn item_assignment items)) (\<lambda>updates.
    let configuration = JDict (assign_all updates base) in
    pbind (case sv_freeze sv of None \<Rightarrow> preturn None
      | Some freeze \<Rightarrow> plift (freeze (pf_harness profile) configuration)) (\<lambda>execution.
    preturn (configuration, execution))))))"

definition assert_native_profile :: "session_service \<Rightarrow> profile_row \<Rightarrow> unit ledger_prog" where
  "assert_native_profile sv profile =
    (case sv_native sv of
       None \<Rightarrow> preturn ()
     | Some (i, harness, config) \<Rightarrow>
         raise_if (pf_id profile \<noteq> i \<or> pf_harness profile \<noteq> harness \<or> pf_archived profile \<noteq> None \<or>
             pf_config profile \<noteq> config \<or> pf_credential profile \<noteq> None \<or> pf_account profile \<noteq> None \<or>
             pf_recovery profile \<noteq> 0)
           (server_error ''NATIVE_PROFILE_CONFLICT'' ''native execution identity changed'' 409))"

definition require_credential :: "session_service \<Rightarrow> harness \<Rightarrow> string option \<Rightarrow> unit ledger_prog" where
  "require_credential sv h credential =
    (case hs_credential h of
       None \<Rightarrow> preturn ()
     | Some kind \<Rightarrow>
         (case credential of
            Some (c # cs) \<Rightarrow> plift (sv_credential sv (c # cs) kind)
          | _ \<Rightarrow> praise (server_error ''CREDENTIAL_REQUIRED'' ''Profile has no authorized credential'' 409)))"

text \<open>\<open>(execution or {}).get("credentialId") or profile.get("credential_id")\<close>\<close>

definition execution_credential :: "json option \<Rightarrow> profile_row \<Rightarrow> string option" where
  "execution_credential execution profile =
    (case (case execution of Some j \<Rightarrow> body_get j ''credentialId'' | None \<Rightarrow> None) of
       Some (JStr (c # cs)) \<Rightarrow> Some (c # cs)
     | _ \<Rightarrow> pf_credential profile)"

definition assert_profile_executable :: "session_service \<Rightarrow> string \<Rightarrow> json option \<Rightarrow> unit ledger_prog" where
  "assert_profile_executable sv p execution =
    pbind (get_profile p) (\<lambda>profile.
    pseq (assert_native_profile sv profile)
    (case map_of (sv_harnesses sv) (pf_harness profile) of
       None \<Rightarrow> praise (unavailable ''CAPABILITY_UNSUPPORTED'' ''Session Harness is not configured'')
     | Some h \<Rightarrow>
         pseq (raise_if (Option.is_none (sv_execution sv))
           (unavailable ''EXECUTION_CAPABILITY_UNAVAILABLE'' ''Turn execution is not configured''))
           (require_credential sv h (execution_credential execution profile))))"

definition publish_effective :: "session_service \<Rightarrow> string \<Rightarrow> json \<Rightarrow> json option \<Rightarrow> string ledger_prog" where
  "publish_effective sv p configuration execution =
    pbind (get_profile p) (\<lambda>profile.
    pbind (plift (case stored_rules profile of JList rs \<Rightarrow> resolve_all rs (preset_or_default profile) []
        | _ \<Rightarrow> Inl (err TypeError ''rules are not a list''))) (\<lambda>posture.
    plift (sv_publish sv (dumps_compact (JDict (
      [(''schema_version'', JInt 1), (''harness_type'', JStr (pf_harness profile)), (''configuration'', configuration)]
      @ (case execution of None \<Rightarrow> [] | Some x \<Rightarrow> [(''execution'', x)])
      @ [(''permissions'', posture)]))))))"

definition validate_overrides_for :: "session_service \<Rightarrow> string \<Rightarrow> json list \<Rightarrow> unit ledger_prog" where
  "validate_overrides_for sv p items =
    pbind (get_profile p) (\<lambda>profile.
    pbind (plift (get_harness (sv_harnesses sv) (pf_harness profile))) (\<lambda>h.
    pbind (plift (map_exn item_assignment items)) (\<lambda>updates.
    let locked = filter (\<lambda>k. k \<in> set (hs_locked h)) (map fst updates) in
    pseq (raise_if (locked \<noteq> []) (server_error ''PROFILE_CONFIGURATION_INVALID''
      (''controls are security locked: '' @ join_comma (sort locked)) 422))
    (if Option.is_none (hs_validator h) then preturn ()
     else
       pbind (plift (sv_read sv (pf_config profile))) (\<lambda>stored.
       pbind (plift (stored_configuration stored)) (\<lambda>base.
       plift (run_validator h ''TURN_OVERRIDES_INVALID'' (JDict (assign_all updates base)))))))))"

text \<open>The revision read inside the accepting transaction.\<close>

definition resolve_config_version :: "ledger \<Rightarrow> profile_row \<Rightarrow> exn + int" where
  "resolve_config_version d profile =
    (case find_profile d (pf_id profile) of None \<Rightarrow> Inl profile_missing | Some r \<Rightarrow> Inr (pf_revision r))"

section \<open>Acceptance\<close>

definition accept_intent_use ::
  "session_service \<Rightarrow> string option \<Rightarrow> string option \<Rightarrow> string \<Rightarrow> string \<Rightarrow> string \<Rightarrow> string \<Rightarrow> json \<Rightarrow>
     string option \<Rightarrow> json list \<Rightarrow> (string \<times> json) ledger_prog" where
  "accept_intent_use sv session workspace p request dg message public name items =
    pseq (validate_native_workspace sv workspace session)
    (pseq (if items = [] then preturn () else validate_overrides_for sv p items)
    (pbind (effective_configuration sv p items) (\<lambda>(configuration, execution).
     pseq (assert_profile_executable sv p execution)
     (pbind (publish_effective sv p configuration execution) (\<lambda>effective.
      accept_intent (sv_config sv) (sv_queue sv) session workspace p request dg message public name None
        (Some resolve_config_version) (Some effective))))))"

definition session_profile :: "string \<Rightarrow> profile_row ledger_prog" where
  "session_profile s = pbind (session_row_of s) (\<lambda>r. get_profile (se_profile r))"

definition assert_session_harness :: "session_service \<Rightarrow> string \<Rightarrow> unit ledger_prog" where
  "assert_session_harness sv s =
    pbind (session_profile s) (\<lambda>profile.
    pseq (assert_native_profile sv profile)
    (case map_of (sv_harnesses sv) (pf_harness profile) of
       None \<Rightarrow> praise (unavailable ''HARNESS_UNAVAILABLE'' ''Session Harness is not configured'')
     | Some h \<Rightarrow> require_credential sv h (pf_credential profile)))"

text \<open>The overrides of the REST body are an object, or absent.\<close>

definition validated_overrides ::
  "session_service \<Rightarrow> string \<Rightarrow> (string \<times> json) list option \<Rightarrow> (string \<times> json) list option ledger_prog" where
  "validated_overrides sv s overrides =
    (case overrides of
       None \<Rightarrow> preturn None
     | Some kvs \<Rightarrow>
         pseq (plift (reject_sensitive_keys (JDict kvs)))
         (pbind (session_profile s) (\<lambda>profile.
          pbind (plift (get_harness (sv_harnesses sv) (pf_harness profile))) (\<lambda>h.
          if Option.is_none (hs_validator h) then preturn overrides
          else
            pbind (plift (sv_read sv (pf_config profile))) (\<lambda>stored.
            pbind (plift (stored_configuration stored)) (\<lambda>base.
            pseq (plift (run_validator h ''TURN_OVERRIDES_INVALID'' (JDict (assign_all kvs base))))
              (preturn overrides)))))))"

text \<open>Iterating over a dict yields its keys.\<close>

definition dict_items :: "(string \<times> json) list option \<Rightarrow> json list" where
  "dict_items overrides = (case overrides of None \<Rightarrow> [] | Some kvs \<Rightarrow> map (\<lambda>(k, v). JStr k) kvs)"

definition turn_body :: "string \<Rightarrow> int \<Rightarrow> (string \<times> json) list option \<Rightarrow> json" where
  "turn_body text expected overrides = JDict [(''text'', JStr text), (''expected_profile_revision'', JInt expected),
     (''overrides'', (case overrides of None \<Rightarrow> JNull | Some kvs \<Rightarrow> JDict kvs))]"

definition execution_unavailable :: "string \<Rightarrow> exn" where
  "execution_unavailable what = unavailable ''EXECUTION_CAPABILITY_UNAVAILABLE'' (what @ '' is not configured'')"

definition prior_or :: "string \<Rightarrow> string \<Rightarrow> string \<Rightarrow> (int \<times> json) ledger_prog \<Rightarrow> (int \<times> json) ledger_prog" where
  "prior_or scope key dg fresh =
    pbind (idempotency_check scope key dg) (\<lambda>prior.
      case prior of Some receipt \<Rightarrow> preturn receipt | None \<Rightarrow> fresh)"

definition create_turn_use ::
  "session_service \<Rightarrow> string \<Rightarrow> string \<Rightarrow> string \<Rightarrow> int \<Rightarrow> (string \<times> json) list option \<Rightarrow> (int \<times> json) ledger_prog" where
  "create_turn_use sv s key text expected overrides =
    (case sv_execution sv of
       None \<Rightarrow> praise (execution_unavailable ''Turn execution'')
     | Some port \<Rightarrow>
        pbind (plift (digest (sv_hash sv) (turn_body text expected overrides))) (\<lambda>dg.
        prior_or (''POST:/sessions/'' @ s @ ''/turns'') key dg
        (pseq (validate_native_workspace sv None (Some s))
        (pbind (validated_overrides sv s overrides) (\<lambda>valid.
         pseq (assert_session_harness sv s)
         (pbind (session_profile s) (\<lambda>profile.
          pseq (raise_if (pf_revision profile \<noteq> expected)
            (server_error ''PROFILE_REVISION_CONFLICT'' ''Profile revision changed before Turn creation'' 409))
          (pbind (effective_configuration sv (pf_id profile) (dict_items valid)) (\<lambda>(configuration, execution).
           pbind (publish_effective sv (pf_id profile) configuration execution) (\<lambda>frozen.
           pbind (plift (sv_publish sv (dumps_compact (JDict [(''schema_version'', JInt 1), (''text'', JStr text)])))) (\<lambda>input.
           pbind (create_turn (sv_config sv) s key dg input expected frozen) (\<lambda>(claimed, status, result).
           pseq (if claimed then
               try_catch
                 (pbind (plift (body_field result ''turn_id'')) (\<lambda>i.
                  pseq (file_core_records (sv_config sv) (py_str i)) (ep_accept port (py_str i))))
                 (\<lambda>_. preturn ())
             else preturn ())
             (preturn (status, result))))))))))))))"

section \<open>Credentials\<close>

definition import_credential :: "session_service \<Rightarrow> string \<Rightarrow> string \<Rightarrow> string \<Rightarrow> (int \<times> json) ledger_prog" where
  "import_credential sv kind source key =
    pbind (plift (digest (sv_hash sv) (JDict [(''kind'', JStr kind), (''source'', JStr source)]))) (\<lambda>dg.
    prior_or ''POST:/credentials'' key dg
    (case sv_secrets sv of
       None \<Rightarrow> praise (unavailable ''CREDENTIAL_STORE_UNAVAILABLE''
         ''This Server was composed without a secret store'')
     | Some secrets \<Rightarrow>
        pbind (plift (map_sum (\<lambda>e. if exn_cls e = ValueError \<or> exn_cls e = OtherException ''OSError''
             then Exn (ServerError 422 False None)
               (''the credential source could not be imported: '' @ (if exn_cls e = ValueError then ''ValueError'' else ''OSError''))
               (Some ''CREDENTIAL_SOURCE_UNREADABLE'') (Some e)
             else e) id (ss_import secrets source kind))) (\<lambda>(i, locator).
        pseq (plift (ss_register secrets i kind locator))
          (idempotency_save ''POST:/credentials'' key dg 201 (JDict [(''credentialId'', JStr i), (''kind'', JStr kind)])))))"

section \<open>Cancellation\<close>

definition recursion_error :: exn where
  "recursion_error = err RuntimeError ''maximum recursion depth exceeded''"

text \<open>The first argument is the recursion depth left.\<close>

fun cancel_descendants :: "execution_port \<Rightarrow> nat \<Rightarrow> string \<Rightarrow> string list ledger_prog" where
  "cancel_descendants port 0 i = praise recursion_error"
| "cancel_descendants port (Suc n) i =
    pbind (live_child_turn_ids i) (\<lambda>children.
    pbind (map_each (\<lambda>c.
        pseq (record_cancel_request c)
        (pseq (ep_cancel port c)
        (pbind (cancel_descendants port n c) (\<lambda>more. preturn (c # more))))) children) (\<lambda>stopped.
    preturn (concat stopped)))"

definition cancel_turn :: "session_service \<Rightarrow> nat \<Rightarrow> string \<Rightarrow> string \<Rightarrow> (int \<times> json) ledger_prog" where
  "cancel_turn sv depth i key =
    (let scope = ''POST:/turns/'' @ i @ ''/cancel'' in
    pbind (plift (digest (sv_hash sv) (JDict [(''turn_id'', JStr i)]))) (\<lambda>dg.
    prior_or scope key dg
    (case sv_execution sv of
       None \<Rightarrow> praise (execution_unavailable ''Turn cancellation'')
     | Some port \<Rightarrow>
        pseq (record_cancel_request i)
        (pbind (get_turn_context i) (\<lambda>(turn, _, _, _).
         let stopped = tn_state turn \<in> set terminal_states in
         pbind (if stopped then preturn False
           else pbind (ep_cancel port i) (\<lambda>outcome. preturn (outcome = Confirmed_stopped))) (\<lambda>accepted.
         pseq (if stopped then preturn () else pseq (cancel_descendants port depth i) (preturn ()))
         (idempotency_save scope key dg 202
           (JDict [(''turn_id'', JStr i), (''cancel_requested'', JBool (\<not> stopped)), (''accepted'', JBool accepted)]))))))))"

end
