(* ===== verification/Subagents.thy ===== *)
theory Subagents
  imports Session_Service
begin

text \<open>
  Delegation between Profiles: the authorization edges, the roster, the tool pair and the
  arguments of a call (\<open>profiles/subagents.py\<close>). A \<open>DelegationError\<close> is \<open>Refused\<close> with its
  code, its message and the names it inlines; any other exception of the same code is
  \<open>Escaped\<close>.
\<close>

datatype refusal =
    Refused (df_code: string) (df_message: string) (df_available: "string list")
  | Escaped exn

section \<open>Authorization\<close>

definition grant_edges :: "grant_row list \<Rightarrow> string \<Rightarrow> string list" where
  "grant_edges rows parent = map sg_child (filter (\<lambda>g. sg_parent g = parent) rows)"

record roster_entry =
  re_profile :: string
  re_name :: string
  re_harness :: string
  re_reason :: "string option"
  re_workspace :: "string option"

definition max_roster :: nat where "max_roster = 32"

definition roster_entry_of ::
  "(string \<Rightarrow> string option) \<Rightarrow> (string \<Rightarrow> string option) \<Rightarrow> profile_row \<Rightarrow> roster_entry" where
  "roster_entry_of availability workspace_of r =
    \<lparr>re_profile = pf_id r, re_name = pf_name r, re_harness = pf_harness r,
     re_reason = availability (pf_id r), re_workspace = workspace_of (pf_id r)\<rparr>"

text \<open>A Profile row has no \<open>description\<close> column, so the description of an entry is empty.\<close>

definition resolve_roster ::
  "string \<Rightarrow> (string \<Rightarrow> string list) \<Rightarrow> profile_row list \<Rightarrow> (string \<Rightarrow> string option) \<Rightarrow>
     (string \<Rightarrow> string option) \<Rightarrow> roster_entry list" where
  "resolve_roster parent edges profiles availability workspace_of =
    take max_roster (map (roster_entry_of availability workspace_of)
      (filter (\<lambda>r. pf_id r \<in> set (edges parent) \<and> pf_id r \<noteq> parent) profiles))"

definition has_delegation :: "(string \<Rightarrow> string list) \<Rightarrow> string \<Rightarrow> bool" where
  "has_delegation edges p \<longleftrightarrow> edges p \<noteq> []"

definition check_cycle :: "string list \<Rightarrow> refusal + unit" where
  "check_cycle chain =
    (if distinct chain then Inr ()
     else Inl (Refused ''SUBAGENT_CYCLE'' ''the delegation chain closes a cycle on a role already waiting in it'' []))"

section \<open>The tools\<close>

definition entry_json :: "roster_entry \<Rightarrow> json" where
  "entry_json e = JDict
    [(''profileId'', JStr (re_profile e)), (''name'', JStr (re_name e)), (''harness'', JStr (re_harness e)),
     (''description'', JStr []), (''available'', JBool (re_reason e = None)),
     (''reason'', str_or_null (re_reason e)), (''workspace'', str_or_null (re_workspace e))]"

definition join_semi :: "string list \<Rightarrow> string" where
  "join_semi ps = (case ps of [] \<Rightarrow> [] | p # qs \<Rightarrow> p @ concat (map (\<lambda>q. ''; '' @ q) qs))"

definition string_schema :: "string \<Rightarrow> json" where
  "string_schema description = JDict ((''type'', JStr ''string'') #
     (if description = [] then [] else [(''description'', JStr description)]))"

definition tool_definitions :: "roster_entry list \<Rightarrow> bool \<Rightarrow> json list" where
  "tool_definitions roster include_run =
    (if roster = [] then []
     else
       (let summary = take (max_roster * 160) (join_semi (map (\<lambda>e.
              re_name e @ '' ('' @ re_harness e @ ''): no description'') roster)) in
        JDict [(''name'', JStr ''list_subagents''),
          (''description'', JStr (''List the subagents this role is authorized to call, with their '' @
             ''harness, availability and description. Authorized entries only.'')),
          (''inputSchema'', JDict [(''type'', JStr ''object''),
             (''properties'', JDict [(''query'', string_schema [])]), (''additionalProperties'', JBool False)])]
        # (if include_run then
            [JDict [(''name'', JStr ''run_subagent''),
              (''description'', JStr (''Run one authorized subagent as an independent execution and '' @
                 ''return its bounded final summary. Provide a self-contained '' @
                 ''prompt (state what to return, and whether it is research or a '' @
                 ''code change). The subagent has fresh context: it cannot see '' @
                 ''this conversation, and its result is not visible to the user - '' @
                 ''relay it. Authorized subagents: '' @ summary)),
              (''inputSchema'', JDict [(''type'', JStr ''object''),
                (''properties'', JDict
                  [(''subagent'', string_schema ''the authorized subagent's name''),
                   (''description'', string_schema ''a 3-5 word label''),
                   (''prompt'', string_schema ''a self-contained task statement''),
                   (''task_id'', string_schema ''continue a previous subagent session''),
                   (''model'', string_schema []),
                   (''permission'', JDict [(''type'', JStr ''string''),
                      (''enum'', JList [JStr ''default'', JStr ''plan''])]),
                   (''timeout'', JDict [(''type'', JStr ''integer'')]),
                   (''max_turns'', JDict [(''type'', JStr ''integer'')])]),
                (''required'', JList [JStr ''subagent'', JStr ''description'', JStr ''prompt'']),
                (''additionalProperties'', JBool False)])]]
           else [])))"

section \<open>The arguments of a call\<close>

record child_limits =
  cl_permissions :: "string list"
  cl_models :: "string list option"

record run_arguments =
  ra_subagent :: string
  ra_description :: string
  ra_prompt :: string
  ra_permission :: "string option"
  ra_model :: "string option"
  ra_timeout :: int
  ra_turns :: int
  ra_task :: "string option"

definition argument_names :: "string list" where
  "argument_names = [''subagent'', ''description'', ''prompt'', ''task_id'', ''model'', ''permission'', ''timeout'', ''max_turns'']"

text \<open>\<open>len(text.split())\<close>\<close>

fun word_count :: "bool \<Rightarrow> string \<Rightarrow> nat" where
  "word_count inside [] = 0"
| "word_count inside (c # cs) =
    (if py_space c then word_count False cs
     else if inside then word_count True cs else Suc (word_count True cs))"

definition inline_names :: "roster_entry list \<Rightarrow> string list" where
  "inline_names roster = take 8 (map re_name roster)"

text \<open>Each argument in the order of the code; \<open>None\<close> stands for an absent or null one.\<close>

definition check_permission :: "child_limits option \<Rightarrow> json \<Rightarrow> refusal + string option" where
  "check_permission limits v =
    (case v of
       JNull \<Rightarrow> Inr None
     | JList xs \<Rightarrow> Inl (Escaped (err TypeError (''unhashable type: '' @ py_repr ''list'')))
     | JDict xs \<Rightarrow> Inl (Escaped (err TypeError (''unhashable type: '' @ py_repr ''dict'')))
     | JStr p \<Rightarrow>
         if p \<notin> set [''default'', ''plan'']
           then Inl (Refused ''SUBAGENT_PERMISSION_WIDENED'' ''permission may only name a narrower preset'' [])
         else (case limits of
             None \<Rightarrow> Inr (Some p)
           | Some l \<Rightarrow> if p \<in> set (cl_permissions l) then Inr (Some p)
               else Inl (Refused ''SUBAGENT_PERMISSION_WIDENED''
                 ''the requested preset is wider than the subagent's own rules allow'' []))
     | _ \<Rightarrow> Inl (Refused ''SUBAGENT_PERMISSION_WIDENED'' ''permission may only name a narrower preset'' []))"

definition check_model :: "child_limits option \<Rightarrow> json \<Rightarrow> refusal + string option" where
  "check_model limits v =
    (case v of
       JNull \<Rightarrow> Inr None
     | JStr m \<Rightarrow>
         (case (case limits of None \<Rightarrow> None | Some l \<Rightarrow> cl_models l) of
            None \<Rightarrow> Inr (Some m)
          | Some models \<Rightarrow> if m \<in> set models then Inr (Some m)
              else Inl (Refused ''SUBAGENT_MODEL_WIDENED'' ''the requested model is not one the subagent may use'' []))
     | _ \<Rightarrow> Inl (Refused ''SUBAGENT_MODEL_WIDENED'' ''the requested model is not one the subagent may use'' []))"

definition check_bound :: "string \<Rightarrow> string \<Rightarrow> int \<Rightarrow> string list \<Rightarrow> json \<Rightarrow> refusal + int" where
  "check_bound code message bound names v =
    (case v of
       JInt n \<Rightarrow> if 1 \<le> n \<and> n \<le> bound then Inr n else Inl (Refused code message names)
     | _ \<Rightarrow> Inl (Refused code message names))"

definition check_task :: "string list \<Rightarrow> json \<Rightarrow> refusal + string option" where
  "check_task names v =
    (case v of
       JNull \<Rightarrow> Inr None
     | JStr (c # cs) \<Rightarrow> Inr (Some (c # cs))
     | _ \<Rightarrow> Inl (Refused ''SUBAGENT_ARGUMENT_INVALID'' ''task_id must be a handle'' names))"

definition check_name :: "roster_entry list \<Rightarrow> json \<Rightarrow> refusal + string" where
  "check_name roster v =
    (let no = Refused ''SUBAGENT_NOT_AUTHORIZED''
         ''the requested subagent is not among this role's authorized subagents'' (inline_names roster) in
     case v of JStr n \<Rightarrow> if n \<in> set (map re_name roster) then Inr n else Inl no | _ \<Rightarrow> Inl no)"

definition check_description :: "string list \<Rightarrow> json \<Rightarrow> refusal + string" where
  "check_description names v =
    (case v of
       JStr d \<Rightarrow>
         if 3 \<le> word_count False d \<and> word_count False d \<le> 5 then Inr d
         else Inl (Refused ''SUBAGENT_ARGUMENT_INVALID'' ''description must be 3-5 words'' names)
     | _ \<Rightarrow> Inl (Refused ''SUBAGENT_ARGUMENT_INVALID'' ''description is required'' names))"

definition check_prompt :: "string list \<Rightarrow> json \<Rightarrow> refusal + string" where
  "check_prompt names v =
    (let no = Refused ''SUBAGENT_ARGUMENT_INVALID'' ''prompt must be self-contained text'' names in
     case v of
       JStr p \<Rightarrow> if blank p \<or> 32000 < int (length p) then Inl no else Inr p
     | _ \<Rightarrow> Inl no)"

definition get_or :: "(string \<times> json) list \<Rightarrow> string \<Rightarrow> json \<Rightarrow> json" where
  "get_or kvs k fallback = (case map_of kvs k of None \<Rightarrow> fallback | Some v \<Rightarrow> v)"

definition rbind :: "'e + 'a \<Rightarrow> ('a \<Rightarrow> 'e + 'b) \<Rightarrow> 'e + 'b" where
  "rbind r k = (case r of Inl e \<Rightarrow> Inl e | Inr x \<Rightarrow> k x)"

lemma rbind_Inr [simp]: "rbind r k = Inr y \<longleftrightarrow> (\<exists>x. r = Inr x \<and> k x = Inr y)"
  by (simp add: rbind_def split: sum.split)

lemma rbind_Inl: "rbind r k = Inl e \<longleftrightarrow> r = Inl e \<or> (\<exists>x. r = Inr x \<and> k x = Inl e)"
  by (auto simp: rbind_def split: sum.split)

definition validate_run_arguments ::
  "(string \<times> json) list \<Rightarrow> roster_entry list \<Rightarrow> child_limits option \<Rightarrow> refusal + run_arguments" where
  "validate_run_arguments args roster limits =
    (let unknown = filter (\<lambda>k. k \<notin> set argument_names) (map fst args);
         named = filter (\<lambda>k. k \<notin> set [''subagent'', ''description'', ''prompt'']) (map fst args);
         names = inline_names roster in
     if roster = [] then Inl (Refused ''SUBAGENT_NOT_AUTHORIZED'' ''this role has no authorized subagents'' [])
     else if unknown \<noteq> [] then Inl (Refused ''SUBAGENT_ARGUMENT_INVALID''
       (''unknown arguments: '' @ names_repr named) (map re_name roster))
     else
       rbind (check_name roster (dict_get args ''subagent'')) (\<lambda>subagent.
       rbind (check_description names (dict_get args ''description'')) (\<lambda>description.
       rbind (check_prompt names (dict_get args ''prompt'')) (\<lambda>prompt.
       rbind (check_permission limits (dict_get args ''permission'')) (\<lambda>permission.
       rbind (check_model limits (dict_get args ''model'')) (\<lambda>model.
       rbind (check_bound ''SUBAGENT_TIMEOUT_INVALID'' ''timeout must be 1..600 seconds (ten minutes)'' 600 names
          (get_or args ''timeout'' (JInt 600))) (\<lambda>timeout.
       rbind (check_bound ''SUBAGENT_TURNS_INVALID'' ''max_turns must be 1..4'' 4 names
          (get_or args ''max_turns'' (JInt 4))) (\<lambda>turns.
       rbind (check_task names (dict_get args ''task_id'')) (\<lambda>task.
       Inr \<lparr>ra_subagent = subagent, ra_description = description, ra_prompt = prompt, ra_permission = permission,
            ra_model = model, ra_timeout = timeout, ra_turns = turns, ra_task = task\<rparr>)))))))))"

definition inline_available :: "string \<Rightarrow> string \<Rightarrow> string list \<Rightarrow> json" where
  "inline_available code message available =
    JDict ([(''error'', JStr code), (''message'', JStr message)] @
      (if available = [] then [] else [(''available'', JList (map JStr (take 8 available)))]))"

end
