(* ===== verification/Delegation.thy ===== *)
theory Delegation
  imports Subagents
begin

text \<open>
  The delegation service (\<open>execution/delegation.py\<close>): the roster of a parent, and a run of one
  subagent as a child turn whose posture is narrowed by the parent's frozen one. A program
  returns \<open>Inl\<close> a refusal, or raises. While the service waits for the child, other threads
  work on the ledger: \<open>polls\<close> holds what they do in each pause between two looks, and the
  deadline is reached when it is used up. Strings hold characters below 256, so the ellipsis
  that ends a cut summary is written as three dots.
\<close>

record delegation =
  dg_service :: session_service
  dg_execution :: "execution_port option"
  dg_registry :: "harnesses option"
  dg_objects :: "((string \<Rightarrow> exn + json) \<times> (string \<Rightarrow> exn + string)) option"

definition refused :: "string \<Rightarrow> string \<Rightarrow> string list \<Rightarrow> refusal + 'a" where
  "refused code message available = Inl (Refused code message available)"

text \<open>Go on with the value, or end with the refusal.\<close>

definition onward :: "(refusal + 'a) ledger_prog \<Rightarrow> ('a \<Rightarrow> (refusal + 'b) ledger_prog) \<Rightarrow> (refusal + 'b) ledger_prog" where
  "onward m k = pbind m (\<lambda>r. case r of Inl e \<Rightarrow> (case e of Escaped x \<Rightarrow> praise x | _ \<Rightarrow> preturn (Inl e)) | Inr x \<Rightarrow> k x)"

definition refuse_if :: "bool \<Rightarrow> refusal \<Rightarrow> (refusal + 'b) ledger_prog \<Rightarrow> (refusal + 'b) ledger_prog" where
  "refuse_if c e m = (if c then preturn (Inl e) else m)"

section \<open>The roster\<close>

text \<open>\<open>ORDER BY updated_at DESC LIMIT 1\<close>, the earliest row of equal ones.\<close>

definition newest :: "session_row list \<Rightarrow> session_row option" where
  "newest rows = fold (\<lambda>r best. case best of None \<Rightarrow> Some r
     | Some b \<Rightarrow> if iso_key (se_updated b) < iso_key (se_updated r) then Some r else best) rows None"

definition child_workspace :: "ledger \<Rightarrow> string \<Rightarrow> string option" where
  "child_workspace d p = map_option se_workspace (newest (filter (\<lambda>r. se_profile r = p) (l_sessions d)))"

definition availability_of :: "harnesses option \<Rightarrow> profile_row \<Rightarrow> string option" where
  "availability_of registry r =
    (if pf_archived r \<noteq> None then Some ''PROFILE_ARCHIVED''
     else if pf_recovery r \<noteq> 0 then Some ''PROFILE_RECOVERY_REQUIRED''
     else (case registry of
         None \<Rightarrow> None
       | Some hs \<Rightarrow> if harness_known hs (pf_harness r) then None else Some ''HARNESS_UNAVAILABLE''))"

definition availability_map :: "harnesses option \<Rightarrow> profile_row list \<Rightarrow> string \<Rightarrow> string option" where
  "availability_map registry profiles i =
    (case find (\<lambda>r. pf_id r = i) profiles of None \<Rightarrow> None | Some r \<Rightarrow> availability_of registry r)"

definition roster_of :: "delegation \<Rightarrow> string \<Rightarrow> (string \<Rightarrow> string list) \<Rightarrow> profile_row list \<Rightarrow> roster_entry list ledger_prog" where
  "roster_of dg parent edges profiles =
    read_store (\<lambda>d. resolve_roster parent edges profiles (availability_map (dg_registry dg) profiles) (child_workspace d))"

definition list_for :: "delegation \<Rightarrow> string \<Rightarrow> json ledger_prog" where
  "list_for dg parent =
    pbind (subagent_grants None) (\<lambda>rows.
    let edges = grant_edges rows in
    if \<not> has_delegation edges parent then preturn (JDict [(''tools'', JList []), (''roster'', JList [])])
    else
      pbind (list_profiles False) (\<lambda>profiles.
      pbind (roster_of dg parent edges profiles) (\<lambda>roster.
      preturn (JDict [(''tools'', JList (tool_definitions roster True)),
        (''roster'', JList (map entry_json (take max_roster roster)))]))))"

section \<open>Limits of the child\<close>

definition permission_ceiling :: "profile_row \<Rightarrow> string list" where
  "permission_ceiling r = (if preset_or_default r = ''plan'' then [''plan''] else [''default'', ''plan''])"

fun model_ids :: "json \<Rightarrow> string list"
  and item_model_ids :: "json list \<Rightarrow> string list"
  and member_model_ids :: "(string \<times> json) list \<Rightarrow> string list" where
  "model_ids (JDict kvs) =
    (case map_of kvs ''modelId'' of Some (JStr m) \<Rightarrow> [m] | _ \<Rightarrow> []) @ member_model_ids kvs"
| "model_ids (JList xs) = item_model_ids xs"
| "model_ids _ = []"
| "item_model_ids [] = []"
| "item_model_ids (x # xs) = model_ids x @ item_model_ids xs"
| "member_model_ids [] = []"
| "member_model_ids ((k, v) # kvs) = model_ids v @ member_model_ids kvs"

text \<open>Any exception on the way means that the models are not limited.\<close>

definition child_model_ids :: "delegation \<Rightarrow> profile_row \<Rightarrow> string list option" where
  "child_model_ids dg r =
    (case (dg_registry dg, dg_objects dg) of
       (Some hs, Some (read, _)) \<Rightarrow>
         (case map_of hs (pf_harness r) of
            Some h \<Rightarrow>
              (case hs_model_control h of
                 Some (c # cs) \<Rightarrow>
                   if pf_config r = [] then None
                   else (case read (pf_config r) of
                       Inr (JDict kvs) \<Rightarrow>
                         (case dict_get kvs ''configuration'' of
                            JDict m \<Rightarrow>
                              (case sort (remdups (model_ids (dict_get m (c # cs)))) of
                                 [] \<Rightarrow> None | ids \<Rightarrow> Some ids)
                          | _ \<Rightarrow> None)
                     | _ \<Rightarrow> None)
               | _ \<Rightarrow> None)
          | None \<Rightarrow> None)
     | _ \<Rightarrow> None)"

definition child_limits :: "delegation \<Rightarrow> profile_row \<Rightarrow> child_limits" where
  "child_limits dg r = \<lparr>cl_permissions = permission_ceiling r, cl_models = child_model_ids dg r\<rparr>"

definition find_name :: "roster_entry list \<Rightarrow> json \<Rightarrow> roster_entry option" where
  "find_name roster name = find (\<lambda>e. JStr (re_name e) = name) roster"

definition limits_for_request ::
  "delegation \<Rightarrow> (string \<times> json) list \<Rightarrow> roster_entry list \<Rightarrow> child_limits option ledger_prog" where
  "limits_for_request dg args roster =
    (case find_name roster (dict_get args ''subagent'') of
       None \<Rightarrow> preturn None
     | Some e \<Rightarrow> pbind (get_profile (re_profile e)) (\<lambda>r. preturn (Some (child_limits dg r))))"

section \<open>The posture of the child\<close>

definition frozen_posture :: "delegation \<Rightarrow> turn_row \<Rightarrow> exn + json option" where
  "frozen_posture dg turn =
    (case (dg_objects dg, tn_config turn) of
       (Some (read, _), Some dig) \<Rightarrow>
         if blank dig then Inr None
         else (case read dig of
             Inl e \<Rightarrow> Inl e
           | Inr value \<Rightarrow> (case body_get value ''permissions'' of Some (JDict m) \<Rightarrow> Inr (Some (JDict m)) | _ \<Rightarrow> Inr None))
     | _ \<Rightarrow> Inr None)"

definition posture_keys :: "json \<Rightarrow> exn + (string \<times> json) list" where
  "posture_keys posture =
    (case body_get posture ''keys'' of
       None \<Rightarrow> Inr []
     | Some (JDict m) \<Rightarrow> Inr m
     | _ \<Rightarrow> Inl (err AttributeError ''object has no attribute get''))"

definition narrow_keys :: "(string \<times> json) list \<Rightarrow> (string \<times> json) list \<Rightarrow> (string \<times> json) list" where
  "narrow_keys parent child =
    map (\<lambda>(k, a). (k, if map_of parent k = Some (JStr ''deny'') then JStr ''deny'' else a)) child"

definition posture_of :: "profile_row \<Rightarrow> exn + json" where
  "posture_of r =
    (case stored_rules r of
       JList rs \<Rightarrow> resolve_all rs (preset_or_default r) []
     | _ \<Rightarrow> Inl (err TypeError ''rules are not a list''))"

definition merge_posture :: "string \<Rightarrow> json \<Rightarrow> json \<Rightarrow> exn + json" where
  "merge_posture parent_profile parent child =
    rbind (posture_keys parent) (\<lambda>pk.
    rbind (posture_keys child) (\<lambda>ck.
    Inr (JDict [(''preset'', json_or_null (body_get child ''preset'')), (''keys'', JDict (narrow_keys pk ck)),
      (''inheritedFrom'', JStr parent_profile)])))"

definition merged_posture :: "delegation \<Rightarrow> string \<Rightarrow> string \<Rightarrow> profile_row \<Rightarrow> json ledger_prog" where
  "merged_posture dg parent_turn parent_profile child =
    pbind (get_turn_context parent_turn) (\<lambda>(turn, _, _, _).
    pbind (plift (frozen_posture dg turn)) (\<lambda>frozen.
    case frozen of
      None \<Rightarrow> praise (server_error ''PROFILE_CONFIGURATION_INVALID''
        ''the parent Turn has no frozen permission posture to narrow the child'' 409)
    | Some parent \<Rightarrow>
        pbind (get_profile (pf_id child)) (\<lambda>r.
        pbind (plift (posture_of r)) (\<lambda>own.
        plift (merge_posture parent_profile parent own)))))"

section \<open>The session and the turn of the child\<close>

definition resolve_child_session ::
  "delegation \<Rightarrow> profile_row \<Rightarrow> roster_entry \<Rightarrow> string option \<Rightarrow> string \<Rightarrow>
     (refusal + string \<times> string option \<times> bool) ledger_prog" where
  "resolve_child_session dg child chosen task workspace =
    (case task of
       None \<Rightarrow>
         pbind uuid4_hex (\<lambda>h.
         pbind (create_session_use (dg_service dg) (''subagent-'' @ h) workspace (re_profile chosen)) (\<lambda>(_, body).
         pbind (plift (body_field body ''session_id'')) (\<lambda>s. preturn (Inr (py_str s, None, False)))))
     | Some t \<Rightarrow>
         pbind (read_store (\<lambda>d. filter (\<lambda>r. se_native r = Some t) (l_sessions d))) (\<lambda>rows.
         case rows of
           [] \<Rightarrow> preturn (refused ''SUBAGENT_TASK_UNKNOWN'' ''no subagent session carries that task_id'' [])
         | [row] \<Rightarrow>
             pbind (session_row_of (se_id row)) (\<lambda>session.
             pbind (get_profile (se_profile session)) (\<lambda>owner.
             refuse_if (pf_harness owner \<noteq> pf_harness child) (Refused ''SUBAGENT_TASK_FAMILY_MISMATCH''
               ''a subagent session can only be continued within its own family'' [])
             (refuse_if (se_profile session \<noteq> re_profile chosen) (Refused ''SUBAGENT_NOT_AUTHORIZED''
               ''that task_id is not a session of the authorized subagent for this call'' [])
               (preturn (Inr (se_id row, Some t, True))))))
         | _ \<Rightarrow> preturn (refused ''SUBAGENT_NOT_AUTHORIZED''
             ''this task_id resolves to more than one session; the continuation is ambiguous'' [])))"

text \<open>The child's own stored configuration with its family and the merged posture on top.\<close>

definition child_value :: "json \<Rightarrow> profile_row \<Rightarrow> json \<Rightarrow> json" where
  "child_value stored child posture =
    (let base = (case stored of JDict kvs \<Rightarrow> kvs | _ \<Rightarrow> []);
         versioned = (if map_of base ''schema_version'' = None then base @ [(''schema_version'', JInt 1)] else base) in
     JDict (dict_put ''permissions'' posture (dict_put ''harness_type'' (JStr (pf_harness child)) versioned)))"

definition child_objects ::
  "delegation \<Rightarrow> profile_row \<Rightarrow> string \<Rightarrow> json \<Rightarrow> (string option \<times> string option) ledger_prog" where
  "child_objects dg child prompt posture =
    (case dg_objects dg of
       None \<Rightarrow> preturn (None, None)
     | Some (read, publish) \<Rightarrow>
         pbind (plift (publish (dumps_compact (JDict [(''schema_version'', JInt 1),
           (''message'', JDict [(''text'', JStr prompt)])])))) (\<lambda>input.
         pbind (plift (read (pf_config child))) (\<lambda>stored.
         pbind (plift (publish (dumps_compact (child_value stored child posture)))) (\<lambda>effective.
         preturn (Some input, Some effective)))))"

definition child_turn ::
  "string \<Rightarrow> string \<Rightarrow> profile_row \<Rightarrow> string \<Rightarrow> string option \<Rightarrow> string \<Rightarrow> datetime \<Rightarrow> turn_row" where
  "child_turn i s child input effective parent t =
    (new_turn i s (pf_id child) 1 0 input effective None t)
    \<lparr>tn_parent := Some parent, tn_captured := Some (pf_revision child)\<rparr>"

definition create_child_turn ::
  "delegation \<Rightarrow> string \<Rightarrow> profile_row \<Rightarrow> string \<Rightarrow> string \<Rightarrow> string option \<Rightarrow> json \<Rightarrow> string ledger_prog" where
  "create_child_turn dg s child parent prompt model posture =
    pbind (fresh_id ''turn'') (\<lambda>i.
    pbind now_utc (\<lambda>t.
    pbind (child_objects dg child prompt posture) (\<lambda>(input, effective).
    pseq (transaction
      (pseq (refuse_exclusive (sv_config (dg_service dg)) child)
      (pbind (fetch_row (\<lambda>d. find_profile d (pf_id child)) profile_missing) (\<lambda>anchor.
       pseq (raise_if (pf_revision anchor \<noteq> pf_revision child) (server_error ''PROFILE_REVISION_CONFLICT''
         ''Profile revision changed before delegated Turn creation'' 409))
       (pseq (case input of
           None \<Rightarrow> praise (err IntegrityError ''NOT NULL constraint failed: server_turns.input_object_digest'')
         | Some inp \<Rightarrow> claim_turn ''the subagent session already has an active Turn''
             (child_turn i s child inp effective parent t))
       (pseq (exec_sql (update_sessions (\<lambda>r. se_id r = s)
          (\<lambda>r. r\<lparr>se_status := ''active'', se_version := se_version r + 1, se_updated := t\<rparr>)))
       (pseq (append_session_event s (Some i) ''turn.accepted''
          (JDict [(''state'', JStr ''accepted''), (''parent_turn_id'', JStr parent), (''model'', str_or_null model),
            (''prompt_preview'', JStr (take 200 prompt))]))
         (preturn ()))))))))
      (preturn i))))"

section \<open>Waiting and the result\<close>

definition usage_of :: "string \<Rightarrow> json option ledger_prog" where
  "usage_of i = read_store (\<lambda>d.
    case find_turn d i of
      None \<Rightarrow> None
    | Some r \<Rightarrow> (case tn_usage_source r of
        None \<Rightarrow> None
      | Some source \<Rightarrow> (case tn_usage r of (a, b, c) \<Rightarrow> Some (JDict
          [(''inputTokens'', json_or_null a), (''outputTokens'', json_or_null b), (''totalTokens'', json_or_null c),
           (''usageSource'', JStr source)]))))"

definition final_message :: "string \<Rightarrow> string ledger_prog" where
  "final_message i =
    pbind (turn_message_deltas i) (\<lambda>pieces.
    (let summary = concat pieces in
     preturn (if 4096 < int (length summary) then take 4096 summary @ ''...'' else summary)))"

text \<open>\<open>(session.get("checkpoint") or {}).get("native_id")\<close>: the checkpoint counts once it has a digest.\<close>

definition native_handle :: "session_row \<Rightarrow> string option" where
  "native_handle r = (case se_checkpoint r of Some (c # cs) \<Rightarrow> se_native r | _ \<Rightarrow> None)"

definition child_native_handle :: "string \<Rightarrow> string option ledger_prog" where
  "child_native_handle s = pbind (session_row_of s) (\<lambda>r. preturn (native_handle r))"

definition text_or :: "string option \<Rightarrow> string \<Rightarrow> string" where
  "text_or v fallback = (case v of Some (c # cs) \<Rightarrow> c # cs | _ \<Rightarrow> fallback)"

definition timed_out :: "delegation \<Rightarrow> nat \<Rightarrow> string \<Rightarrow> string \<Rightarrow> int \<Rightarrow> (refusal + 'a) ledger_prog" where
  "timed_out dg depth s i timeout =
    pbind (usage_of i) (\<lambda>usage.
    pseq (cancel_turn (dg_service dg) depth i (''subagent-timeout:'' @ i))
    (pbind (child_native_handle s) (\<lambda>handle.
     preturn (refused ''SUBAGENT_TIMEOUT''
       (''the subagent did not finish within '' @ show_int timeout @ ''s; the child turn was stopped. '' @
        ''turnId='' @ i @ ''; task_id='' @ text_or handle ''none'' @ ''; '' @
        ''usage so far: '' @ (case usage of None \<Rightarrow> ''none recorded'' | Some u \<Rightarrow> json_repr u)) []))))"

fun await_terminal ::
  "delegation \<Rightarrow> nat \<Rightarrow> unit ledger_prog list \<Rightarrow> string \<Rightarrow> string \<Rightarrow> int \<Rightarrow> (refusal + turn_row) ledger_prog" where
  "await_terminal dg depth [] s i timeout = timed_out dg depth s i timeout"
| "await_terminal dg depth (others # polls) s i timeout =
    pbind (get_turn_context i) (\<lambda>(turn, _, _, _).
      if tn_state turn \<in> set terminal_states then preturn (Inr turn)
      else pseq others (await_terminal dg depth polls s i timeout))"

section \<open>run\<close>

text \<open>Everything up to the child turn: the checks in the order of the code, then its session, its
  posture and its row.\<close>

record child_run =
  cr_chosen :: roster_entry
  cr_session :: string
  cr_native :: "string option"
  cr_resumed :: bool
  cr_turn :: string
  cr_delegates :: bool
  cr_timeout :: int

definition start_child ::
  "delegation \<Rightarrow> string \<Rightarrow> string \<Rightarrow> (string \<times> json) list \<Rightarrow> int \<Rightarrow> (refusal + child_run) ledger_prog" where
  "start_child dg parent_turn parent_profile args calls =
    pbind (subagent_grants None) (\<lambda>rows.
    let edges = grant_edges rows in
    refuse_if (\<not> has_delegation edges parent_profile)
      (Refused ''SUBAGENT_NOT_AUTHORIZED'' ''this role has no authorized subagents'' [])
    (pbind (list_profiles False) (\<lambda>profiles.
     pbind (get_turn_context parent_turn) (\<lambda>(_, parent_session, _, _).
     pbind (roster_of dg parent_profile edges profiles) (\<lambda>everyone.
     let roster = filter (\<lambda>e. re_workspace e = Some (se_workspace parent_session)) everyone;
         names = map re_name roster in
     pbind (limits_for_request dg args roster) (\<lambda>limits.
     onward (preturn (validate_run_arguments args roster limits)) (\<lambda>valid.
     refuse_if (4 \<le> calls)
       (Refused ''SUBAGENT_TURNS_EXCEEDED'' ''at most 4 subagent calls are allowed per turn'' [])
     (case find_name roster (JStr (ra_subagent valid)) of
        None \<Rightarrow> praise (err (OtherException ''StopIteration'') [])
      | Some chosen \<Rightarrow>
        (case re_reason chosen of
           Some reason \<Rightarrow> preturn (refused ''SUBAGENT_UNAVAILABLE''
             (''the subagent is not available: '' @ reason) names)
         | None \<Rightarrow>
           pbind (get_profile (re_profile chosen)) (\<lambda>child.
           pseq (raise_if (pf_archived child \<noteq> None) (server_error ''PROFILE_ARCHIVED'' ''Profile is archived'' 409))
           (refuse_if (pf_recovery child \<noteq> 0) (Refused ''SUBAGENT_UNAVAILABLE''
             (''the subagent Profile has unresolved recovery evidence; '' @
              ''restart reconciliation is required before it can run'') names)
           (pbind (turn_ancestry_profile_ids parent_turn) (\<lambda>ancestry.
            onward (preturn (check_cycle (ancestry @ [re_profile chosen]))) (\<lambda>_.
            onward (resolve_child_session dg child chosen (ra_task valid) (se_workspace parent_session))
              (\<lambda>(session, native, resumed).
            pbind (merged_posture dg parent_turn parent_profile child) (\<lambda>posture.
            pbind (create_child_turn dg session child parent_turn (ra_prompt valid) (ra_model valid) posture) (\<lambda>i.
            preturn (Inr \<lparr>cr_chosen = chosen, cr_session = session, cr_native = native, cr_resumed = resumed,
              cr_turn = i, cr_delegates = has_delegation edges (re_profile chosen),
              cr_timeout = ra_timeout valid\<rparr>))))))))))))))))))"

definition run_result :: "child_run \<Rightarrow> turn_row \<Rightarrow> string option \<Rightarrow> string \<Rightarrow> json option \<Rightarrow> json" where
  "run_result c outcome handle summary usage = JDict
    [(''subagent'', JStr (re_name (cr_chosen c))), (''task_id'', str_or_null handle),
     (''resumed'', JBool (cr_resumed c)), (''state'', JStr (tn_state outcome)), (''summary'', JStr summary),
     (''errorCode'', str_or_null (tn_error outcome)), (''canDelegate'', JBool (cr_delegates c)),
     (''turnId'', JStr (cr_turn c)), (''sessionId'', JStr (cr_session c)), (''usage'', json_or_null usage)]"

definition run_subagent ::
  "delegation \<Rightarrow> nat \<Rightarrow> unit ledger_prog list \<Rightarrow> string \<Rightarrow> string \<Rightarrow> (string \<times> json) list \<Rightarrow> int \<Rightarrow>
     (refusal + json) ledger_prog" where
  "run_subagent dg depth polls parent_turn parent_profile args calls =
    onward (start_child dg parent_turn parent_profile args calls) (\<lambda>c.
    case dg_execution dg of
      None \<Rightarrow> praise (server_error ''EXECUTION_CAPABILITY_UNAVAILABLE'' ''no execution port is composed'' 503)
    | Some port \<Rightarrow>
        pseq (ep_accept port (cr_turn c))
        (onward (await_terminal dg depth polls (cr_session c) (cr_turn c) (cr_timeout c)) (\<lambda>outcome.
         pbind (child_native_handle (cr_session c)) (\<lambda>own.
         pbind (final_message (cr_turn c)) (\<lambda>summary.
         pbind (usage_of (cr_turn c)) (\<lambda>usage.
         preturn (Inr (run_result c outcome
           (case own of Some (a # as) \<Rightarrow> own | _ \<Rightarrow> cr_native c) summary usage))))))))"

end
