(* ===== verification/Service_Laws.thy ===== *)
theory Service_Laws
  imports Delegation Ledger_Runs
begin

text \<open>
  The use cases as steps over the same ledger. The locale \<open>service_law\<close> extends
  \<open>ledger_law\<close> by the two writes the session records do not make (a Profile added, the
  delegation edges replaced), and shows once that every use case stays within every such
  relation. A collaborator that writes is asked to write through the session records
  (\<open>by_records\<close>), as the execution back end does.
\<close>

definition by_records :: "session_config \<Rightarrow> queue \<Rightarrow> 'a ledger_prog \<Rightarrow> bool" where
  "by_records cfg q m \<longleftrightarrow> (\<forall>w r w'. m w = (r, w') \<longrightarrow> ledger_steps cfg q w w')"

definition port_by_records :: "session_config \<Rightarrow> queue \<Rightarrow> execution_port option \<Rightarrow> bool" where
  "port_by_records cfg q port \<longleftrightarrow>
     (case port of None \<Rightarrow> True | Some p \<Rightarrow> (\<forall>i. by_records cfg q (ep_accept p i) \<and> by_records cfg q (ep_cancel p i)))"

section \<open>The calls\<close>

datatype service_op =
    Create_profile_call profile_service string string string json "string option"
  | Rename_profile_call profile_service string string int string
  | Configure_profile_call profile_service string string int "(string \<times> json) list"
  | Archive_profile_call profile_service string string int
  | Bind_account_call string "string option" int string string
  | Set_permissions_call string string json int string string
  | Clone_profile_call string string string
  | Grant_call string string
  | Revoke_call string string
  | Create_session_call string string string
  | Send_call "string option" "string option" string string string string json "string option" "json list"
  | Create_turn_call string string string int "(string \<times> json) list option"
  | Import_credential_call string string string
  | Cancel_turn_call nat string string
  | Run_subagent_call nat "unit ledger_prog list" string string "(string \<times> json) list" int

fun run_service :: "delegation \<Rightarrow> service_op \<Rightarrow> unit ledger_prog" where
  "run_service dg (Create_profile_call ps key name h cf cr) = drop_result (create_profile_use ps key name h cf cr)"
| "run_service dg (Rename_profile_call ps key p v name) = drop_result (update_display_name_use ps key p v name)"
| "run_service dg (Configure_profile_call ps key p v vs) = drop_result (update_configuration_use ps key p v vs)"
| "run_service dg (Archive_profile_call ps key p v) = drop_result (archive_profile_use ps key p v)"
| "run_service dg (Bind_account_call p a v key d) = drop_result (bind_account p a v key d)"
| "run_service dg (Set_permissions_call p pre rules v key d) = drop_result (set_permissions p pre rules v key d)"
| "run_service dg (Clone_profile_call src name h) = drop_result (clone_from src name h)"
| "run_service dg (Grant_call a b) = drop_result (grant_subagent a b)"
| "run_service dg (Revoke_call a b) = revoke_subagent a b"
| "run_service dg (Create_session_call key ws p) = drop_result (create_session_use (dg_service dg) key ws p)"
| "run_service dg (Send_call s ws p rq d m pub name items) =
     drop_result (accept_intent_use (dg_service dg) s ws p rq d m pub name items)"
| "run_service dg (Create_turn_call s key text v ov) = drop_result (create_turn_use (dg_service dg) s key text v ov)"
| "run_service dg (Import_credential_call kind source key) =
     drop_result (import_credential (dg_service dg) kind source key)"
| "run_service dg (Cancel_turn_call depth i key) = drop_result (cancel_turn (dg_service dg) depth i key)"
| "run_service dg (Run_subagent_call depth polls t p args calls) =
     drop_result (run_subagent dg depth polls t p args calls)"

text \<open>What the other threads do while a delegated run waits is asked to be written through the
  session records too.\<close>

fun others_by_records :: "session_config \<Rightarrow> queue \<Rightarrow> service_op \<Rightarrow> bool" where
  "others_by_records cfg q (Run_subagent_call depth polls t p args calls) = list_all (by_records cfg q) polls"
| "others_by_records cfg q _ = True"

text \<open>Use cases and operations of the records, one after the other.\<close>

inductive service_steps :: "session_config \<Rightarrow> queue \<Rightarrow> delegation \<Rightarrow> ledger world \<Rightarrow> ledger world \<Rightarrow> bool"
  for cfg :: session_config and q :: queue and dg :: delegation where
  service_refl: "service_steps cfg q dg w w"
| service_call: "service_steps cfg q dg w v \<Longrightarrow> others_by_records cfg q op \<Longrightarrow> run_service dg op v = (r, v') \<Longrightarrow>
     service_steps cfg q dg w v'"
| service_records: "service_steps cfg q dg w v \<Longrightarrow> ledger_steps cfg q v v' \<Longrightarrow> service_steps cfg q dg w v'"

section \<open>Branching on a list\<close>

context evolution begin

lemma within_case_list:
  "(v = [] \<Longrightarrow> within R a) \<Longrightarrow> (\<And>x xs. v = x # xs \<Longrightarrow> within R (f x xs)) \<Longrightarrow>
     within R (case v of [] \<Rightarrow> a | x # xs \<Rightarrow> f x xs)"
  by (cases v) auto

end

section \<open>A claimed turn\<close>

lemma new_turn_found:
  assumes claim: "claim_turn msg row v = (Inr (), v2)" and rest: "m v2 = (r, w')"
    and same: "within (\<lambda>d d'. l_turns d' = l_turns d) m"
  shows "find_turn (store w') (tn_id row) = Some row"
  using withinD [OF same rest] claim_turn_adds [OF claim] by (simp add: find_turn_def find_append_row)

lemma receipt_same: "within (\<lambda>d d'. l_turns d' = l_turns d) (idempotency_insert scope key dg st body)"
  unfolding idempotency_insert_def
  by (intro turns_same.within_intros turns_same.within_exec_sql) (auto simp: insert_receipt_def split: if_splits)

text \<open>The owner of an acceptance holds a turn that has not ended.\<close>

lemma create_turn_claimed:
  assumes "create_turn cfg s key dg inp v eff w = (Inr (True, st, res), w')"
  shows "\<exists>i. body_field res ''turn_id'' = Inr (JStr i) \<and> not_ended (store w') i"
proof -
  let ?scope = "''POST:/sessions/'' @ s @ ''/turns''"
  let ?body = "\<lambda>i e. JDict [(''turn_id'', JStr i), (''session_id'', JStr s), (''state'', JStr ''accepted''),
            (''event_seq'', JInt (sv_seq e))]"
  let ?rest = "\<lambda>i t p. pseq (exec_sql (update_profiles (\<lambda>r. pf_id r = p) (\<lambda>r. r\<lparr>pf_run := ''active'', pf_updated := t\<rparr>)))
     (pseq (exec_sql (update_sessions (\<lambda>r. se_id r = s) (\<lambda>r. r\<lparr>se_status := ''active'', se_updated := t\<rparr>)))
     (pbind (append_session_event s (Some i) ''turn.accepted''
       (JDict [(''state'', JStr ''accepted''), (''profile_revision'', JInt v)])) (\<lambda>event.
      pseq (idempotency_insert ?scope key dg 202 (?body i event)) (preturn (True, 202, ?body i event)))))"
  from assms obtain i t p g v1 v2 where
    claim: "claim_turn ''Session already has an active Turn'' (new_turn i s p v g inp (Some eff) None t) v1 = (Inr (), v2)"
    and rest: "?rest i t p v2 = (Inr (True, st, res), w')"
    by (auto simp: create_turn_def once_def Let_def transaction_Inr pbind_Inr [of "idempotency_check a b c" for a b c]
        pbind_Inr [of "fetch_row f e" for f e] pbind_Inr [of "fresh_id ''turn''"] pbind_Inr [of now_utc]
        pseq_Inr [of "raise_if c e" for c e] pseq_Inr [of "refuse_exclusive cfg p" for p]
        pseq_Inr [of "claim_turn m r" for m r] preturn_Inr split: option.splits prod.splits)
  have "find_turn (store w') (tn_id (new_turn i s p v g inp (Some eff) None t)) =
      Some (new_turn i s p v g inp (Some eff) None t)"
    by (rule new_turn_found [where m = "?rest i t p", OF claim rest])
      (intro turns_same.within_intros session_set_same append_event_same receipt_same)
  moreover from rest have "body_field res ''turn_id'' = Inr (JStr i)"
    by (auto simp: pseq_Inr pbind_Inr preturn_Inr body_field_def body_get_def)
  ultimately show ?thesis by (auto simp: new_turn_accepted not_ended_def terminal_states_def)
qed

section \<open>The laws\<close>

locale service_law = ledger_law R for R :: "ledger \<Rightarrow> ledger \<Rightarrow> bool" +
  assumes law_profile: "sound d \<Longrightarrow> find_profile d (pf_id p) = None \<Longrightarrow> R d (d\<lparr>l_profiles := l_profiles d @ [p]\<rparr>)"
    and law_grants: "sound d \<Longrightarrow> R d (d\<lparr>l_grants := gs\<rparr>)"
begin

lemma within_by_records: "by_records cfg q m \<Longrightarrow> within (guarded R) m"
  by (rule withinI) (auto simp: by_records_def dest: ledger_steps_law)

lemma within_insert_profile: "within (guarded R) (exec_sql (insert_profile r))"
  by (rule ev.within_exec_sql)
    (auto simp: insert_profile_def guarded_def law_profile sound_def keys_ok_def session_events_def
      find_profile_def find_key_None split: if_splits)

lemma within_grants:
  "within (guarded R) (exec_sql (insert_grant g))" "within (guarded R) (exec_sql (delete_grant a b))"
  by (rule ev.within_exec_sql;
      auto simp: insert_grant_def delete_grant_def guarded_def law_grants law_refl sound_def keys_ok_def
        session_events_def split: if_splits)+

lemma within_onward:
  "within (guarded R) m \<Longrightarrow> (\<And>x. within (guarded R) (k x)) \<Longrightarrow> within (guarded R) (onward m k)"
  unfolding onward_def
  by (rule ev.within_pbind) (auto intro: ev.within_preturn ev.within_praise split: sum.split refusal.split)

lemma within_refuse_if: "within (guarded R) m \<Longrightarrow> within (guarded R) (refuse_if c e m)"
  unfolding refuse_if_def by (intro whole)

lemmas steps = whole ev.within_case_prod ev.within_transaction within_once ev.within_uuid4_hex
  within_onward within_refuse_if ev.within_case_list

section \<open>Profiles\<close>

lemma within_mutate:
  "(\<And>r. pf_id (f r) = pf_id r) \<Longrightarrow> within (guarded R) (mutate_profile p v key dg op f bump)"
  unfolding mutate_profile_def Let_def by (intro steps within_update_profiles) simp

lemma within_profile_calls:
  "within (guarded R) (create_profile known key dg name h cf cr)"
  "within (guarded R) (get_profile p)"
  "within (guarded R) (update_display_name p v name key dg)"
  "within (guarded R) (update_configuration p v cf key dg)"
  "within (guarded R) (archive_profile p v key dg)"
  "within (guarded R) (bind_account p a v key dg)"
  "within (guarded R) (set_permissions p pre rules v key dg)"
  "within (guarded R) (clone_from src name h)"
  "within (guarded R) (grant_subagent p c)"
  "within (guarded R) (revoke_subagent p c)"
  unfolding create_profile_def get_profile_def update_display_name_def update_configuration_def
    archive_profile_def bind_account_def set_permissions_def clone_from_def grant_subagent_def revoke_subagent_def Let_def
  by (intro steps within_insert_profile within_grants within_mutate; simp)+

lemma within_profile_uses:
  "within (guarded R) (create_profile_use ps key name h cf cr)"
  "within (guarded R) (update_display_name_use ps key p v name)"
  "within (guarded R) (update_configuration_use ps key p v vs)"
  "within (guarded R) (archive_profile_use ps key p v)"
  unfolding create_profile_use_def update_display_name_use_def update_configuration_use_def
    archive_profile_use_def reply_profile_def
  by (intro steps within_profile_calls)+

section \<open>Sessions\<close>

lemma within_checks:
  "within (guarded R) (session_row_of s)"
  "within (guarded R) (validate_native_workspace sv ws se)"
  "within (guarded R) (effective_configuration sv p items)"
  "within (guarded R) (assert_native_profile sv r)"
  "within (guarded R) (require_credential sv h c)"
  unfolding session_row_of_def validate_native_workspace_def effective_configuration_def assert_native_profile_def
    require_credential_def get_profile_def Let_def
  by (intro steps)+

lemma within_session_profile: "within (guarded R) (session_profile s)"
  unfolding session_profile_def by (intro steps within_checks within_profile_calls)

lemma within_more_checks:
  "within (guarded R) (assert_profile_executable sv p x)"
  "within (guarded R) (publish_effective sv p c x)"
  "within (guarded R) (validate_overrides_for sv p items)"
  "within (guarded R) (assert_session_harness sv s)"
  "within (guarded R) (validated_overrides sv s ov)"
  unfolding assert_profile_executable_def publish_effective_def validate_overrides_for_def assert_session_harness_def
    validated_overrides_def Let_def
  by (intro steps within_checks within_profile_calls within_session_profile)+

lemma within_prior_or: "within (guarded R) m \<Longrightarrow> within (guarded R) (prior_or scope key dg m)"
  unfolding prior_or_def by (intro steps)

lemma within_create_session_use: "within (guarded R) (create_session_use sv key ws p)"
  unfolding create_session_use_def by (intro steps within_create_session)

lemma within_send: "within (guarded R) (accept_intent_use sv s ws p rq d m pub name items)"
  unfolding accept_intent_use_def
  by (intro steps within_checks within_more_checks within_accept_intent)

lemma within_import: "within (guarded R) (import_credential sv kind source key)"
  unfolding import_credential_def by (intro steps within_prior_or within_save)

lemma port_within:
  "port_by_records cfg q (Some p) \<Longrightarrow> within (guarded R) (ep_accept p i)"
  "port_by_records cfg q (Some p) \<Longrightarrow> within (guarded R) (ep_cancel p i)"
  by (auto simp: port_by_records_def intro: within_by_records)

lemma within_each_guarded:
  "(\<And>x. within (guarded R) (f x)) \<Longrightarrow> within (guarded R) (map_each f xs)"
  by (rule ev.within_map_each)

lemma within_cancel_descendants:
  assumes "\<And>i. within (guarded R) (ep_cancel p i)"
  shows "within (guarded R) (cancel_descendants p n i)"
  by (induction n arbitrary: i)
    (simp_all add: ev.within_praise live_child_turn_ids_def, intro steps within_each_guarded within_cancel_request assms)

lemma within_get_turn_context: "within (guarded R) (get_turn_context i)"
  unfolding get_turn_context_def by (intro steps)

lemma within_cancel_turn:
  assumes "port_by_records cfg q (sv_execution sv)"
  shows "within (guarded R) (cancel_turn sv depth i key)"
  unfolding cancel_turn_def Let_def
  using assms port_within [of cfg q]
  by (intro steps within_prior_or within_cancel_request within_get_turn_context within_cancel_descendants within_save) auto

section \<open>A turn from end to end\<close>

lemma leads_try:
  assumes m: "leads (guarded R) d m" and h: "\<And>e. within (guarded R) (h e)"
  shows "leads (guarded R) d (try_catch m h)"
  unfolding leads_def
proof (intro allI impI)
  fix w :: "ledger world" assume w: "store w = d"
  obtain q v where mw: "m w = (q, v)" by fastforce
  with leadsD [OF m w mw] withinD [OF h prod.collapse [symmetric]] show "guarded R d (store (snd (try_catch m h w)))"
    by (auto simp: try_catch_def split: sum.split intro: guarded_trans)
qed

lemma within_then:
  assumes m: "within (guarded R) m" and k: "\<And>x w w'. m w = (Inr x, w') \<Longrightarrow> leads (guarded R) (store w') (k x)"
  shows "within (guarded R) (pbind m k)"
proof (rule withinI)
  fix w r w'
  assume run: "pbind m k w = (r, w')"
  obtain q v where mw: "m w = (q, v)" by fastforce
  show "guarded R (store w) (store w')"
  proof (cases q)
    case (Inl e)
    with mw run withinD [OF m mw] show ?thesis by (simp add: pbind_def)
  next
    case (Inr x)
    with mw run have "k x v = (r, w')" by (simp add: pbind_def)
    from leadsD [OF k [OF mw [unfolded Inr]] refl this] withinD [OF m mw] show ?thesis by (blast intro: guarded_trans)
  qed
qed

lemma within_claimed_turn:
  assumes "port_by_records cfg q (Some port)"
  shows "within (guarded R) (pbind (create_turn (sv_config sv) s key dg inp v frozen) (\<lambda>(claimed, status, result).
      pseq (if claimed then try_catch (pbind (plift (body_field result ''turn_id'')) (\<lambda>i.
          pseq (file_core_records (sv_config sv) (py_str i)) (ep_accept port (py_str i)))) (\<lambda>_. preturn ())
        else preturn ()) (preturn (status, result))))"
proof (rule within_then [OF within_create_turn])
  fix out w w'
  assume run: "create_turn (sv_config sv) s key dg inp v frozen w = (Inr out, w')"
  obtain claimed st res where out: "out = (claimed, st, res)" by (cases out)
  show "leads (guarded R) (store w') (case out of (claimed, status, result) \<Rightarrow>
      pseq (if claimed then try_catch (pbind (plift (body_field result ''turn_id'')) (\<lambda>i.
          pseq (file_core_records (sv_config sv) (py_str i)) (ep_accept port (py_str i)))) (\<lambda>_. preturn ())
        else preturn ()) (preturn (status, result)))"
  proof (cases claimed)
    case True
    with run out have "create_turn (sv_config sv) s key dg inp v frozen w = (Inr (True, st, res), w')" by simp
    from create_turn_claimed [OF this] obtain i
      where i: "body_field res ''turn_id'' = Inr (JStr i)" "not_ended (store w') i" by blast
    have "leads (guarded R) (store w') (pbind (plift (body_field res ''turn_id'')) (\<lambda>i.
        pseq (file_core_records (sv_config sv) (py_str i)) (ep_accept port (py_str i))))"
      using i assms by (intro leads_intros ev.leads_pseq leads_file port_within [of cfg q]) (auto simp: py_str_def)
    with True out show ?thesis
      by (simp, intro ev.leads_pseq leads_try whole) auto
  next
    case False
    with out show ?thesis by (simp, intro ev.leads_within whole)
  qed
qed

lemma within_create_turn_use:
  assumes "port_by_records cfg q (sv_execution sv)"
  shows "within (guarded R) (create_turn_use sv s key text v ov)"
  unfolding create_turn_use_def
  using assms
  by (intro within_claimed_turn [of cfg q] steps within_prior_or within_checks within_more_checks within_session_profile)
    simp

section \<open>Delegation\<close>

lemma within_roster:
  "within (guarded R) (roster_of dg p edges profiles)"
  "within (guarded R) (list_profiles b)"
  "within (guarded R) (subagent_grants x)"
  "within (guarded R) (turn_ancestry_profile_ids i)"
  "within (guarded R) (limits_for_request dg args roster)"
  "within (guarded R) (merged_posture dg t p r)"
  "within (guarded R) (usage_of i)" "within (guarded R) (final_message i)"
  "within (guarded R) (child_native_handle s)"
  unfolding roster_of_def list_profiles_def subagent_grants_def turn_ancestry_profile_ids_def limits_for_request_def
    merged_posture_def usage_of_def final_message_def child_native_handle_def turn_message_deltas_def Let_def
  by (intro steps within_profile_calls within_get_turn_context within_checks)+

lemma within_child:
  "within (guarded R) (resolve_child_session dg r e task ws)"
  "within (guarded R) (child_objects dg r prompt posture)"
  "within (guarded R) (create_child_turn dg s r t prompt model posture)"
  unfolding resolve_child_session_def create_child_turn_def child_objects_def
  by (intro steps within_create_session_use within_checks within_profile_calls within_refuse within_claim_turn
      within_update_sessions; simp)+

lemma within_start_child: "within (guarded R) (start_child dg t p args calls)"
  unfolding start_child_def Let_def
  by (intro steps within_roster within_get_turn_context within_profile_calls within_child)

lemma within_await:
  assumes "port_by_records cfg q (sv_execution (dg_service dg))" "list_all (by_records cfg q) polls"
  shows "within (guarded R) (await_terminal dg depth polls s i timeout)"
  using assms(2)
proof (induction polls)
  case Nil
  show ?case
    by (simp add: timed_out_def, intro steps within_roster within_cancel_turn [OF assms(1)])
next
  case (Cons m polls)
  then have "within (guarded R) m" "within (guarded R) (await_terminal dg depth polls s i timeout)"
    by (simp_all add: within_by_records [of cfg q])
  then show ?case by (simp, intro steps within_get_turn_context)
qed

lemma within_run_subagent:
  assumes "port_by_records cfg q (sv_execution (dg_service dg))" "port_by_records cfg q (dg_execution dg)"
    and "list_all (by_records cfg q) polls"
  shows "within (guarded R) (run_subagent dg depth polls t p args calls)"
  unfolding run_subagent_def
  using assms(2) port_within [of cfg q]
  by (intro steps within_start_child within_await [OF assms(1,3)] within_roster) auto

section \<open>Every use case\<close>

lemma run_service_law:
  assumes "port_by_records cfg q (sv_execution (dg_service dg))" "port_by_records cfg q (dg_execution dg)"
    and "others_by_records cfg q op"
  shows "within (guarded R) (run_service dg op)"
  using assms(3)
  by (cases op; simp;
      intro within_discard within_profile_uses within_profile_calls within_create_session_use within_send
        within_create_turn_use [OF assms(1)] within_import within_cancel_turn [OF assms(1)]
        within_run_subagent [OF assms(1,2)])

lemma service_steps_law:
  assumes "service_steps cfg q dg w w'"
    and "port_by_records cfg q (sv_execution (dg_service dg))" "port_by_records cfg q (dg_execution dg)"
  shows "guarded R (store w) (store w')"
  using assms(1)
proof (induction rule: service_steps.induct)
  case (service_refl w)
  then show ?case by (rule guarded_refl)
next
  case (service_call w v op r v')
  from withinD [OF run_service_law [OF assms(2,3) service_call.hyps(2)] service_call.hyps(3)] service_call.IH
  show ?case by (blast intro: guarded_trans)
next
  case (service_records w v v')
  from ledger_steps_law [OF service_records.hyps(2)] service_records.IH show ?case by (blast intro: guarded_trans)
qed

end

end
