(* ===== verification/Delegation_Laws.thy ===== *)
theory Delegation_Laws
  imports Service_Laws Json_Parse
begin

text \<open>
  What a delegated run that got its child turn has checked and written, and what the merge of
  two postures does to each key.
\<close>

section \<open>Programs with refusals\<close>

lemma onward_Inr [run_iffs]:
  "onward m k w = (Inr (Inr y), w') \<longleftrightarrow> (\<exists>x v. m w = (Inr (Inr x), v) \<and> k x v = (Inr (Inr y), w'))"
proof -
  obtain r v where m: "m w = (r, v)" by fastforce
  show ?thesis
  proof (cases r)
    case (Inl e)
    with m show ?thesis by (simp add: onward_def pbind_def)
  next
    case (Inr q)
    with m show ?thesis
      by (cases q) (auto simp: onward_def pbind_def preturn_def praise_def split: refusal.split)
  qed
qed

lemma refuse_if_Inr [run_iffs]:
  "refuse_if c e m w = (Inr (Inr y), w') \<longleftrightarrow> \<not> c \<and> m w = (Inr (Inr y), w')"
  by (simp add: refuse_if_def preturn_Inr)

text \<open>Two runs that go on alike are alike.\<close>

lemma pbind_eq: "(\<And>x v. m w = (Inr x, v) \<Longrightarrow> k x v = k' x v) \<Longrightarrow> pbind m k w = pbind m k' w"
  by (auto simp: pbind_def split: prod.split sum.split)

section \<open>A started child\<close>

lemma limits_same: "limits_for_request dg args roster w = (Inr l, v) \<Longrightarrow> v = w"
  by (auto simp: limits_for_request_def get_profile_def run_iffs split: option.splits)

lemma merged_posture_Inr:
  "merged_posture dg t p r w = (Inr posture, v) \<longleftrightarrow> v = w \<and>
    (\<exists>parent ps pr pw frozen row own. turn_context (store w) t = Some (parent, ps, pr, pw) \<and>
      frozen_posture dg parent = Inr (Some frozen) \<and> find_profile (store w) (pf_id r) = Some row \<and>
      posture_of row = Inr own \<and> merge_posture p frozen own = Inr posture)"
  by (auto simp: merged_posture_def get_turn_context_def get_profile_def run_iffs split: option.splits)

definition chosen_from :: "delegation \<Rightarrow> ledger \<Rightarrow> string \<Rightarrow> session_row \<Rightarrow> roster_entry \<Rightarrow> bool" where
  "chosen_from dg d p ps e \<longleftrightarrow>
     (\<exists>g \<in> set (l_grants d). sg_parent g = p \<and> sg_child g = re_profile e) \<and> re_profile e \<noteq> p \<and>
     re_workspace e = Some (se_workspace ps) \<and> re_workspace e = child_workspace d (re_profile e) \<and>
     re_reason e = None"

lemma roster_chosen:
  "e \<in> set (resolve_roster p (grant_edges (sort_key edge_key (l_grants d))) profiles av (child_workspace d)) \<Longrightarrow>
     re_workspace e = Some (se_workspace ps) \<Longrightarrow> re_reason e = None \<Longrightarrow> chosen_from dg d p ps e"
  by (fastforce simp: resolve_roster_def roster_entry_of_def grant_edges_def chosen_from_def dest!: in_set_takeD)

lemma context_Inr [run_iffs]: "get_turn_context i w = (Inr x, v) \<longleftrightarrow> turn_context (store w) i = Some x \<and> v = w"
  by (simp add: get_turn_context_def fetch_row_Inr)

lemma find_name_in: "find_name roster n = Some e \<Longrightarrow> e \<in> set roster"
  by (auto simp: find_name_def find_Some_iff)

lemma case_option_run:
  "(case v of None \<Rightarrow> a | Some x \<Rightarrow> f x) w = (r, w') \<longleftrightarrow>
     v = None \<and> a w = (r, w') \<or> (\<exists>x. v = Some x \<and> f x w = (r, w'))"
  by (cases v) auto

lemma started:
  assumes "start_child dg pt pp args calls w = (Inr (Inr c), w')"
  shows "\<exists>parent ps pr pw child v1 v2 posture prompt model task. turn_context (store w) pt = Some (parent, ps, pr, pw) \<and>
    chosen_from dg (store w) pp ps (cr_chosen c) \<and> calls < 4 \<and>
    find_profile (store w) (re_profile (cr_chosen c)) = Some child \<and> pf_archived child = None \<and> pf_recovery child = 0 \<and>
    distinct (rev (ancestry (Suc (length (l_turns (store w)))) (store w) [] (Some pt)) @ [re_profile (cr_chosen c)]) \<and>
    resolve_child_session dg child (cr_chosen c) task (se_workspace ps) w =
      (Inr (Inr (cr_session c, cr_native c, cr_resumed c)), v1) \<and>
    merged_posture dg pt pp child v1 = (Inr posture, v2) \<and>
    create_child_turn dg (cr_session c) child pt prompt model posture v2 = (Inr (cr_turn c), w')"
proof -
  let ?d = "store w"
  let ?rows = "sort_key edge_key (l_grants ?d)"
  from assms obtain profiles parent ps pr pw and valid :: run_arguments and chosen child session native resumed v1 posture v2 where
    ctx: "turn_context ?d pt = Some (parent, ps, pr, pw)"
    and chosen: "find_name (filter (\<lambda>e. re_workspace e = Some (se_workspace ps))
        (resolve_roster pp (grant_edges ?rows) profiles (availability_map (dg_registry dg) profiles) (child_workspace ?d)))
        (JStr (ra_subagent valid)) = Some chosen" "re_reason chosen = None" "calls < 4"
    and child: "find_profile ?d (re_profile chosen) = Some child" "pf_archived child = None" "pf_recovery child = 0"
    and cyc: "check_cycle (rev (ancestry (Suc (length (l_turns ?d))) ?d [] (Some pt)) @ [re_profile chosen]) = Inr ()"
    and session: "resolve_child_session dg child chosen (ra_task valid) (se_workspace ps) w =
      (Inr (Inr (session, native, resumed)), v1)"
    and posture: "merged_posture dg pt pp child v1 = (Inr posture, v2)"
    and turn: "create_child_turn dg session child pt (ra_prompt valid) (ra_model valid) posture v2 = (Inr (cr_turn c), w')"
    and c: "cr_chosen c = chosen" "cr_session c = session" "cr_native c = native" "cr_resumed c = resumed"
    unfolding start_child_def Let_def subagent_grants_def list_profiles_def roster_of_def
      turn_ancestry_profile_ids_def get_profile_def
    by (auto simp: run_iffs case_option_run refused_def simp del: ancestry.simps dest!: limits_same)
  have "chosen_from dg ?d pp ps chosen"
    using find_name_in [OF chosen(1)] chosen(2) by (auto intro: roster_chosen)
  moreover have "distinct (rev (ancestry (Suc (length (l_turns ?d))) ?d [] (Some pt)) @ [re_profile chosen])"
    using cyc by (simp only: check_cycle_def sum.simps split: if_splits)
  ultimately show ?thesis using ctx chosen(3) child session posture turn unfolding c by blast
qed

section \<open>The row of the child\<close>

lemma child_objects_Inr:
  "child_objects dg r prompt posture w = (Inr (input, effective), v) \<Longrightarrow> v = w \<and>
    (case dg_objects dg of None \<Rightarrow> input = None \<and> effective = None
     | Some (read, publish) \<Rightarrow> \<exists>i stored e. input = Some i \<and> effective = Some e \<and> read (pf_config r) = Inr stored \<and>
         publish (dumps_compact (child_value stored r posture)) = Inr e)"
  by (auto simp: child_objects_def run_iffs split: option.splits prod.splits)

lemma child_turn_id: "tn_id (child_turn i s r inp eff parent t) = i"
  by (simp add: child_turn_def new_turn_def)

lemma created_child:
  assumes "create_child_turn dg s r parent prompt model posture w = (Inr i, w')"
  shows "\<exists>inp eff t v. child_objects dg r prompt posture v = (Inr (Some inp, eff), v) \<and>
    find_turn (store w') i = Some (child_turn i s r inp eff parent t)"
proof -
  let ?rest = "\<lambda>i t. pseq (exec_sql (update_sessions (\<lambda>r. se_id r = s)
          (\<lambda>r. r\<lparr>se_status := ''active'', se_version := se_version r + 1, se_updated := t\<rparr>)))
       (pseq (append_session_event s (Some i) ''turn.accepted''
          (JDict [(''state'', JStr ''accepted''), (''parent_turn_id'', JStr parent), (''model'', str_or_null model),
            (''prompt_preview'', JStr (take 200 prompt))]))
         (preturn ()))"
  from assms obtain t inp eff v v' v1 v2 where
    objs: "child_objects dg r prompt posture v = (Inr (inp, eff), v')"
    and claim: "(case inp of
           None \<Rightarrow> praise (err IntegrityError ''NOT NULL constraint failed: server_turns.input_object_digest'')
         | Some inp \<Rightarrow> claim_turn ''the subagent session already has an active Turn''
             (child_turn i s r inp eff parent t)) v1 = (Inr (), v2)"
    and rest: "?rest i t v2 = (Inr (), w')"
    unfolding create_child_turn_def
    by (auto simp: transaction_Inr pbind_Inr [of "fresh_id ''turn''"] pbind_Inr [of now_utc]
        pbind_Inr [of "child_objects dg r prompt posture"] pbind_Inr [of "fetch_row f e" for f e]
        pseq_Inr [of "refuse_exclusive c p" for c p] pseq_Inr [of "raise_if c e" for c e]
        pseq_Inr [of "transaction m" for m] pseq_Inr [of "case_option a f x" for a f x] preturn_Inr)
  from claim obtain inp' where inp: "inp = Some inp'" by (cases inp) (simp_all add: praise_Inr)
  with claim have row: "claim_turn ''the subagent session already has an active Turn''
      (child_turn i s r inp' eff parent t) v1 = (Inr (), v2)" by simp
  have same: "within (\<lambda>d d'. l_turns d' = l_turns d) (?rest i t)"
    by (intro turns_same.within_intros session_set_same append_event_same)
  have "find_turn (store w') i = Some (child_turn i s r inp' eff parent t)"
    using new_turn_found [where m = "?rest i t", OF row rest same] by (simp add: child_turn_id)
  with objs child_objects_Inr [OF objs] inp show ?thesis by blast
qed

section \<open>The session of the child\<close>

text \<open>What identifies a session and where it runs.\<close>

definition seat :: "session_row \<Rightarrow> string \<times> string \<times> string" where
  "seat r = (se_id r, se_workspace r, se_profile r)"

interpretation seats: evolution "\<lambda>d d'. map seat (l_sessions d') = map seat (l_sessions d)"
  by unfold_locales auto

lemma find_seat: "map_option seat (find_session d s) = find (\<lambda>(i, _). i = s) (map seat (l_sessions d))"
proof -
  have "map_option seat (find (\<lambda>r. se_id r = s) xs) = find (\<lambda>(i, _). i = s) (map seat xs)" for xs
    by (induction xs) (auto simp: seat_def)
  then show ?thesis by (simp add: find_session_def)
qed

lemma seats_kept:
  "map seat (l_sessions d') = map seat (l_sessions d) \<Longrightarrow>
     map_option seat (find_session d' s) = map_option seat (find_session d s)"
  by (simp add: find_seat)

lemma seats_child_turn:
  "within (\<lambda>d d'. map seat (l_sessions d') = map seat (l_sessions d))
     (create_child_turn dg s r parent prompt model posture)"
  unfolding create_child_turn_def child_objects_def refuse_exclusive_def claim_turn_def append_session_event_def Let_def
  by (intro seats.within_intros seats.within_branch seats.within_exec_sql;
      auto simp: insert_turn_def update_sessions_def insert_session_event_def update_where_def seat_def split: if_splits)

lemma fresh_session:
  assumes "create_session_use sv key ws p w = (Inr (st, body), v)" "find_receipt (store w) ''POST:/sessions'' key = None"
    and "body_field body ''session_id'' = Inr s"
  shows "\<exists>r. find_session (store v) (py_str s) = Some r \<and> seat r = (py_str s, ws, p)"
  using assms
  by (auto simp: create_session_use_def create_session_def once_def idempotency_check_def idempotency_insert_def Let_def
      run_iffs insert_session_def insert_receipt_def body_field_def body_get_def py_str_def find_session_def
      find_append_row seat_def split: if_splits)

lemma child_session:
  assumes "resolve_child_session dg child e task ws w = (Inr (Inr (s, native, resumed)), v)"
    and "find_receipt (store w) ''POST:/sessions'' (''subagent-'' @ uuid_src w (uuid_pos w)) = None"
  shows "\<exists>r. find_session (store v) s = Some r \<and> se_profile r = re_profile e \<and> resumed = (task \<noteq> None) \<and>
    (task = None \<longrightarrow> se_workspace r = ws)"
proof (cases task)
  case None
  with assms(1) obtain st body j where
    "create_session_use (dg_service dg) (''subagent-'' @ uuid_src w (uuid_pos w)) ws (re_profile e)
       (w\<lparr>uuid_pos := Suc (uuid_pos w)\<rparr>) = (Inr (st, body), v)" "body_field body ''session_id'' = Inr j"
    and s: "s = py_str j" "\<not> resumed"
    by (auto simp: resolve_child_session_def run_iffs)
  from fresh_session [OF this(1) _ this(2)] assms(2) s None show ?thesis by (auto simp: seat_def)
next
  case (Some t)
  with assms(1) show ?thesis
    by (auto simp: resolve_child_session_def session_row_of_def get_profile_def run_iffs refused_def
        split: list.splits)
qed

section \<open>Postures\<close>

definition posture_action :: "json \<Rightarrow> string \<Rightarrow> json option" where
  "posture_action p k = (case body_get p ''keys'' of None \<Rightarrow> None | Some m \<Rightarrow> body_get m k)"

lemma posture_of_shape:
  assumes "posture_of r = Inr own"
  shows "\<exists>keys. own = JDict [(''preset'', JStr (preset_or_default r)), (''keys'', JDict keys)] \<and> map fst keys = tool_keys \<and>
    list_all (\<lambda>(k, a). \<exists>s. a = JStr s) keys"
proof -
  from assms obtain rs where "resolve_all rs (preset_or_default r) [] = Inr own"
    by (auto simp: posture_of_def split: json.splits)
  then obtain keys where keys: "resolved_members (\<lambda>k. map_sum id JStr (resolve rs k None (preset_or_default r))) tool_keys = Inr keys"
    and own: "own = JDict [(''preset'', JStr (preset_or_default r)), (''keys'', JDict keys)]"
    by (auto simp: resolve_all_def Let_def split: sum.splits)
  from keys have "list_all2 (\<lambda>k v. \<exists>s. v = (k, JStr s)) tool_keys keys"
    unfolding resolved_members_def map_exn_Inr
    by (rule list_all2_mono) (auto simp: map_sum_def id_def split: sum.splits)
  then have "map fst keys = tool_keys \<and> list_all (\<lambda>(k, a). \<exists>s. a = JStr s) keys"
    by (induction rule: list_all2_induct) auto
  with own show ?thesis by blast
qed

lemma narrow_keys_lookup:
  "map_of (narrow_keys pk ck) k =
     map_option (\<lambda>a. if map_of pk k = Some (JStr ''deny'') then JStr ''deny'' else a) (map_of ck k)"
  unfolding narrow_keys_def by (induction ck) auto

lemma posture_keys_action: "posture_keys p = Inr m \<Longrightarrow> posture_action p k = map_of m k"
  by (auto simp: posture_keys_def posture_action_def body_get_def [of "JDict m"] split: option.splits json.splits)

lemma merge_posture_action:
  assumes "merge_posture p frozen own = Inr posture"
  shows "posture_action posture k = map_option
    (\<lambda>a. if posture_action frozen k = Some (JStr ''deny'') then JStr ''deny'' else a) (posture_action own k)"
proof -
  from assms obtain pk ck where keys: "posture_keys frozen = Inr pk" "posture_keys own = Inr ck"
    and "posture = JDict [(''preset'', json_or_null (body_get own ''preset'')), (''keys'', JDict (narrow_keys pk ck)),
      (''inheritedFrom'', JStr p)]"
    by (auto simp: merge_posture_def)
  then have "posture_action posture k = map_of (narrow_keys pk ck) k"
    by (simp add: posture_action_def body_get_def)
  with keys show ?thesis by (simp add: narrow_keys_lookup posture_keys_action)
qed

lemma map_of_sort_key: "distinct (map fst xs) \<Longrightarrow> map_of (sort_key fst xs) = map_of xs"
  by (subst map_of_inject_set) (auto simp: distinct_map)

lemma members_sorted:
  "map fst (json_sorted_members kvs) = map fst kvs"
  "map_of (json_sorted_members kvs) k = map_option json_sorted (map_of kvs k)"
  by (induction kvs) auto

lemma body_get_sorted:
  "distinct (map fst kvs) \<Longrightarrow> body_get (json_sorted (JDict kvs)) k = map_option json_sorted (map_of kvs k)"
  by (simp add: body_get_def map_of_sort_key members_sorted)

text \<open>A merged posture is JSON with text for actions, so storing it sorted changes no action.\<close>

lemma merged_stored:
  assumes own: "posture_of r = Inr own" and merge: "merge_posture p frozen own = Inr posture"
  shows "json_ok posture \<and> (\<exists>m. json_sorted posture = JDict m) \<and>
    (\<forall>k. posture_action (json_sorted posture) k = posture_action posture k) \<and>
    (\<forall>k \<in> set tool_keys. posture_action own k \<noteq> None)"
proof -
  from posture_of_shape [OF own] obtain ck where
    own_is: "own = JDict [(''preset'', JStr (preset_or_default r)), (''keys'', JDict ck)]"
    and ck: "map fst ck = tool_keys" "list_all (\<lambda>(k, a). \<exists>s. a = JStr s) ck" by blast
  from merge own_is obtain pk where
    posture: "posture = JDict [(''preset'', JStr (preset_or_default r)), (''keys'', JDict (narrow_keys pk ck)),
      (''inheritedFrom'', JStr p)]"
    by (auto simp: merge_posture_def posture_keys_def body_get_def json_or_null_def)
  have keys: "map fst (narrow_keys pk ck) = tool_keys"
    using ck(1) by (auto simp: narrow_keys_def comp_def split_def)
  have texts: "\<forall>x \<in> set (narrow_keys pk ck). \<exists>s. snd x = JStr s"
    using ck(2) by (auto simp: narrow_keys_def list_all_iff)
  have "distinct tool_keys" by (simp add: tool_keys_def)
  with keys texts have ok: "json_ok posture" by (auto simp: posture)
  have same: "map_option json_sorted (map_of (narrow_keys pk ck) k) = map_of (narrow_keys pk ck) k" for k
    using texts by (cases "map_of (narrow_keys pk ck) k") (fastforce dest: map_of_SomeD)+
  have "posture_action (json_sorted posture) k = posture_action posture k" for k
  proof -
    have "body_get (json_sorted posture) ''keys'' = Some (json_sorted (JDict (narrow_keys pk ck)))"
      using ok unfolding posture by (subst body_get_sorted) simp_all
    moreover have "body_get (json_sorted (JDict (narrow_keys pk ck))) k = map_of (narrow_keys pk ck) k"
      using same \<open>distinct tool_keys\<close> keys by (subst body_get_sorted) simp_all
    ultimately show ?thesis by (simp add: posture_action_def posture body_get_def [of "JDict l" for l])
  qed
  moreover have "posture_action own k \<noteq> None" if "k \<in> set tool_keys" for k
  proof -
    from that have "k \<in> set (map fst ck)" by (simp only: ck(1))
    then show ?thesis by (simp add: posture_action_def own_is body_get_def map_of_eq_None_iff)
  qed
  ultimately show ?thesis using ok by (simp add: posture)
qed

lemma child_session_turns:
  "within (\<lambda>d d'. l_turns d' = l_turns d) (resolve_child_session dg r e t ws)"
  unfolding resolve_child_session_def create_session_use_def create_session_def once_def idempotency_check_def
    session_row_of_def get_profile_def refuse_if_def Let_def
  by (intro turns_same.within_intros turns_same.within_branch turns_same.within_case_list turns_same.within_exec_sql
      receipt_same; auto simp: insert_session_def split: if_splits)

end
