(* ===== verification/Service_Examples.thy ===== *)
theory Service_Examples
  imports Delegation_Laws Ledger_Examples
begin

text \<open>
  Two Profiles, of which \<open>lead\<close> may call \<open>coder\<close>, with their sessions, a running turn of
  \<open>lead\<close> whose frozen posture denies \<open>bash\<close>, an object store and the services over them.
\<close>

definition demo_posture :: json where
  "demo_posture = JDict [(''preset'', JStr ''default''), (''keys'', JDict [(''bash'', JStr ''deny''), (''edit'', JStr ''ask'')])]"

definition demo_read :: "string \<Rightarrow> exn + json" where
  "demo_read d =
    (if d = ''cfg-lead'' then Inr (JDict [(''permissions'', demo_posture)])
     else if d = ''cfg'' then Inr (JDict [(''configuration'', JDict [])])
     else (case json_loads (drop 7 d) of None \<Rightarrow> Inl (err KeyError d)
       | Some j \<Rightarrow> if json_ok j then Inr j else Inl (err KeyError d)))"

definition demo_publish :: "string \<Rightarrow> exn + string" where
  "demo_publish t = Inr (''sha256:'' @ t)"

definition demo_harness :: harness where
  "demo_harness = \<lparr>hs_type = ''opencode'', hs_credential = None, hs_model_control = None, hs_validator = None,
     hs_locked = [], hs_claims = [], hs_protocols = [], hs_options = []\<rparr>"

text \<open>A port that has nothing to do.\<close>

definition demo_port :: execution_port where
  "demo_port = \<lparr>ep_accept = (\<lambda>i. preturn ()), ep_cancel = (\<lambda>i. preturn Refused_no_active_run)\<rparr>"

definition demo_service :: session_service where
  "demo_service = \<lparr>sv_config = demo_config, sv_queue = None, sv_harnesses = [(''opencode'', demo_harness)],
     sv_credential = (\<lambda>c k. Inr ()), sv_publish = demo_publish, sv_read = demo_read, sv_execution = Some demo_port,
     sv_freeze = None, sv_native = None, sv_workspace_check = None, sv_secrets = None, sv_hash = (\<lambda>t. t)\<rparr>"

definition demo_delegation :: delegation where
  "demo_delegation = \<lparr>dg_service = demo_service, dg_execution = Some demo_port,
     dg_registry = Some [(''opencode'', demo_harness)], dg_objects = Some (demo_read, demo_publish)\<rparr>"

definition demo_profile :: "string \<Rightarrow> string \<Rightarrow> profile_row" where
  "demo_profile i name = \<lparr>pf_id = i, pf_version = 1, pf_name = name, pf_harness = ''opencode'', pf_revision = 1,
     pf_generation = 0, pf_config = ''cfg'', pf_credential = None, pf_account = None, pf_preset = None, pf_rules = None,
     pf_origin = None, pf_cloned = None, pf_run = ''idle'', pf_recovery = 0, pf_display = None, pf_archived = None,
     pf_created = demo_stamp, pf_updated = demo_stamp\<rparr>"

definition demo_seat :: "string \<Rightarrow> string \<Rightarrow> string \<Rightarrow> string option \<Rightarrow> int \<Rightarrow> session_row" where
  "demo_seat s ws p native at = \<lparr>se_id = s, se_workspace = ws, se_profile = p, se_checkpoint = native,
     se_native = native, se_platform = None, se_home = None, se_usage = None, se_status = ''ready'',
     se_name = None, se_pinned = 0, se_version = 1, se_archived = None, se_created = demo_stamp,
     se_updated = utc_time at\<rparr>"

definition demo_workspace :: "string \<Rightarrow> workspace_row" where
  "demo_workspace i = \<lparr>ws_id = i, ws_connection = ''c1'', ws_distribution = ''local'', ws_user = None,
     ws_path = ''p'', ws_state = ''connected'', ws_name = None, ws_version = 1, ws_archived = None, ws_env = ''local'',
     ws_host = None, ws_normalized = None, ws_created = demo_stamp, ws_updated = demo_stamp\<rparr>"

definition demo_family :: ledger where
  "demo_family = \<lparr>
     l_workspaces = [demo_workspace ''ws_1'', demo_workspace ''ws_2''],
     l_profiles = [demo_profile ''lead'' ''Lead'', demo_profile ''coder'' ''Coder''],
     l_sessions = [demo_seat ''s1'' ''ws_1'' ''lead'' None 5, demo_seat ''c0'' ''ws_2'' ''coder'' (Some ''n0'') 1,
       demo_seat ''c1'' ''ws_1'' ''coder'' None 5],
     l_turns = [(new_turn ''t1'' ''s1'' ''lead'' 1 0 ''input'' (Some ''cfg-lead'') None demo_stamp)\<lparr>tn_state := ''running''\<rparr>],
     l_events = [], l_idempotency = [], l_items = [], l_approvals = [],
     l_grants = [\<lparr>sg_parent = ''lead'', sg_child = ''coder'', sg_at = demo_stamp\<rparr>], l_models = []\<rparr>"

definition demo_call :: "(string \<times> json) list" where
  "demo_call = [(''subagent'', JStr ''Coder''), (''description'', JStr ''fix the bug''), (''prompt'', JStr ''do it'')]"

definition demo_start :: "(string \<times> json) list \<Rightarrow> (exn + (refusal + child_run)) \<times> ledger world" where
  "demo_start args = start_child demo_delegation ''t1'' ''lead'' args 0 (demo_ledger_world demo_family)"


lemma demo_started:
  "case fst (demo_start demo_call) of Inr (Inr c) \<Rightarrow> \<not> cr_resumed c \<and> re_profile (cr_chosen c) = ''coder'' | _ \<Rightarrow> False"
  by code_simp

lemma demo_resumed:
  "case fst (demo_start (demo_call @ [(''task_id'', JStr ''n0'')])) of
     Inr (Inr c) \<Rightarrow> cr_resumed c \<and> cr_session c = ''c0'' \<and> re_profile (cr_chosen c) = ''coder'' | _ \<Rightarrow> False"
  by code_simp

lemma demo_run_of:
  assumes "case fst (demo_start args) of Inr (Inr c) \<Rightarrow> P c | _ \<Rightarrow> False"
  shows "\<exists>c w'. start_child demo_delegation ''t1'' ''lead'' args 0 (demo_ledger_world demo_family) = (Inr (Inr c), w') \<and> P c"
  using assms unfolding demo_start_def by (cases "start_child demo_delegation ''t1'' ''lead'' args 0 (demo_ledger_world demo_family)")
    (auto split: sum.splits)

end
