(* ===== verification/Delegation_Claims.thy ===== *)
theory Delegation_Claims
  imports Service_Examples
begin

text \<open>
  The properties of delegation between Profiles: what a started child was checked against, what
  it inherits, and what its arguments do and do not change.
\<close>

section \<open>Starting a child\<close>



section \<open>What the child inherits\<close>

text \<open>The object store: what was published is read back, under a digest; what is read is JSON.\<close>

definition object_store :: "(string \<Rightarrow> exn + json) \<Rightarrow> (string \<Rightarrow> exn + string) \<Rightarrow> bool" where
  "object_store read publish \<longleftrightarrow>
     (\<forall>t d j. publish t = Inr d \<longrightarrow> json_loads t = Some j \<longrightarrow> json_ok j \<longrightarrow> read d = Inr j) \<and>
     (\<forall>t d. publish t = Inr d \<longrightarrow> \<not> blank d) \<and> (\<forall>d j. read d = Inr j \<longrightarrow> json_ok j)"

lemma dict_put_get: "map_of (dict_put k v kvs) k = Some v"
proof (cases "k \<in> fst ` set kvs")
  case True
  then have "map_of (map (\<lambda>(a, b). if a = k then (a, v) else (a, b)) kvs) k = Some v"
    by (induction kvs) auto
  with True show ?thesis by (simp add: dict_put_def)
next
  case False
  then have "map_of kvs k = None" by (simp add: map_of_eq_None_iff)
  with False show ?thesis by (simp add: dict_put_def map_add_def)
qed

lemma dict_put_keys: "map fst (dict_put k v kvs) = (if k \<in> fst ` set kvs then map fst kvs else map fst kvs @ [k])"
  by (auto simp: dict_put_def)

lemma json_ok_put: "json_ok (JDict kvs) \<Longrightarrow> json_ok v \<Longrightarrow> json_ok (JDict (dict_put k v kvs))"
  by (simp add: dict_put_keys) (auto simp: dict_put_def)

lemma child_value_ok:
  assumes "json_ok stored" "json_ok posture"
  shows "json_ok (child_value stored r posture)"
    "body_get (json_sorted (child_value stored r posture)) ''permissions'' = Some (json_sorted posture)"
proof -
  let ?base = "case stored of JDict kvs \<Rightarrow> kvs | _ \<Rightarrow> []"
  let ?v = "if map_of ?base ''schema_version'' = None then ?base @ [(''schema_version'', JInt 1)] else ?base"
  have "json_ok (JDict ?base)" using assms(1) by (cases stored) simp_all
  then have "json_ok (JDict ?v)" by (auto simp: map_of_eq_None_iff)
  then have ok: "json_ok (JDict (dict_put ''permissions'' posture (dict_put ''harness_type'' (JStr (pf_harness r)) ?v)))"
    using assms(2) by (intro json_ok_put) simp_all
  then show "json_ok (child_value stored r posture)" by (simp only: child_value_def Let_def)
  from ok show "body_get (json_sorted (child_value stored r posture)) ''permissions'' = Some (json_sorted posture)"
    unfolding child_value_def Let_def by (subst body_get_sorted) (simp_all only: json_ok.simps dict_put_get option.map)
qed

text \<open>
  C8: The prohibitions of the parent are inherited. The child turn carries a frozen posture of its
  own in the object store, and for every tool key its action is \<open>deny\<close> where the frozen posture of
  the parent's turn denies, and the action of the child's own Profile everywhere else: a delegation
  narrows and never widens, and since the child's posture is frozen the same way, a denial travels
  down the whole chain of delegations.
\<close>

theorem child_denies_inherited:
  assumes run: "start_child dg pt pp args calls w = (Inr (Inr c), w')"
    and objects: "dg_objects dg = Some (read, publish)" "object_store read publish"
    and parent: "find_turn (store w) pt = Some parent" "frozen_posture dg parent = Inr (Some frozen)"
  shows "\<exists>t posture r own. find_turn (store w') (cr_turn c) = Some t \<and> frozen_posture dg t = Inr (Some posture) \<and>
    pf_id r = re_profile (cr_chosen c) \<and> posture_of r = Inr own \<and>
    (\<forall>k. posture_action posture k = (if posture_action own k \<noteq> None \<and> posture_action frozen k = Some (JStr ''deny'')
       then Some (JStr ''deny'') else posture_action own k)) \<and>
    (\<forall>k \<in> set tool_keys. posture_action own k \<noteq> None)"
proof -
  from started [OF run] obtain parent' ps pr pw child v1 v2 posture prompt model where
    ctx: "turn_context (store w) pt = Some (parent', ps, pr, pw)"
    and child: "find_profile (store w) (re_profile (cr_chosen c)) = Some child"
    and posture: "merged_posture dg pt pp child v1 = (Inr posture, v2)"
    and turn: "create_child_turn dg (cr_session c) child pt prompt model posture v2 = (Inr (cr_turn c), w')"
    and session: "\<exists>task. resolve_child_session dg child (cr_chosen c) task (se_workspace ps) w =
      (Inr (Inr (cr_session c, cr_native c, cr_resumed c)), v1)"
    by blast
  show ?thesis
  proof -
    from posture obtain row own where "v2 = v1" and row: "find_profile (store v1) (pf_id child) = Some row"
      and own: "posture_of row = Inr own"
      and merge: "\<exists>parent ps pr pw fr. turn_context (store v1) pt = Some (parent, ps, pr, pw) \<and>
        frozen_posture dg parent = Inr (Some fr) \<and> merge_posture pp fr own = Inr posture"
      by (auto simp: merged_posture_Inr)
    from session have "l_turns (store v1) = l_turns (store w)"
      by (auto dest: withinD [OF child_session_turns])
    with merge parent have merge: "merge_posture pp frozen own = Inr posture"
      by (auto simp: turn_context_def find_turn_def split: option.splits)
    note stored = merged_stored [OF own merge]
    from child have ids: "pf_id row = re_profile (cr_chosen c)"
      using row by (auto simp: find_profile_def find_Some_iff)
    from created_child [OF turn] obtain inp eff t v where
      t: "find_turn (store w') (cr_turn c) = Some t" "tn_config t = eff"
      and "child_objects dg child prompt posture v = (Inr (Some inp, eff), v)"
      by (auto simp: child_turn_def new_turn_def)
    with child_objects_Inr objects(1) obtain cfg e where e: "eff = Some e" "read (pf_config child) = Inr cfg"
      "publish (dumps_compact (child_value cfg child posture)) = Inr e" by fastforce
    have "json_ok cfg" using objects(2) e(2) by (auto simp: object_store_def)
    from child_value_ok [OF this] stored have cv: "json_ok (child_value cfg child posture)"
      "body_get (json_sorted (child_value cfg child posture)) ''permissions'' = Some (json_sorted posture)" by blast+
    from json_loads_dumps [OF cv(1)] json_ok_sorted [OF cv(1)] objects(2) e(3)
    have "read e = Inr (json_sorted (child_value cfg child posture))" "\<not> blank e"
      unfolding object_store_def by blast+
    with cv(2) stored t(2) e(1) objects(1) have "frozen_posture dg t = Inr (Some (json_sorted posture))"
      by (auto simp: frozen_posture_def)
    moreover have "posture_action posture k = (if posture_action own k \<noteq> None \<and>
        posture_action frozen k = Some (JStr ''deny'') then Some (JStr ''deny'') else posture_action own k)" for k
      using merge_posture_action [OF merge, of k] by (cases "posture_action own k") simp_all
    ultimately show ?thesis using t(1) ids own stored
      by - (rule exI [of _ t], rule exI [of _ "json_sorted posture"], rule exI [of _ row], rule exI [of _ own], simp)
  qed
qed

lemma demo_objects: "object_store demo_read demo_publish"
proof -
  have "py_strip (''sha256:'' @ t) \<noteq> []" for t
  proof
    assume "py_strip (''sha256:'' @ t) = []"
    then show False by (simp add: py_strip_def py_space_def code_of_def)
  qed
  then show ?thesis
    by (auto simp: object_store_def demo_read_def demo_publish_def demo_posture_def blank_def split: if_splits option.splits)
qed

theorem child_denies_inherited_witness:
  "\<exists>c w' t posture. start_child demo_delegation ''t1'' ''lead'' demo_call 0 (demo_ledger_world demo_family) = (Inr (Inr c), w') \<and>
     find_turn (store w') (cr_turn c) = Some t \<and> frozen_posture demo_delegation t = Inr (Some posture) \<and>
     posture_action posture ''bash'' = Some (JStr ''deny'')"
proof -
  from demo_run_of [OF demo_started] obtain c w' where
    run: "start_child demo_delegation ''t1'' ''lead'' demo_call 0 (demo_ledger_world demo_family) = (Inr (Inr c), w')" by blast
  let ?t = "(new_turn ''t1'' ''s1'' ''lead'' 1 0 ''input'' (Some ''cfg-lead'') None demo_stamp)\<lparr>tn_state := ''running''\<rparr>"
  have parent: "find_turn (store (demo_ledger_world demo_family)) ''t1'' = Some ?t"
    by (simp add: demo_ledger_world_def demo_family_def find_turn_def new_turn_def)
  have frozen: "frozen_posture demo_delegation ?t = Inr (Some demo_posture)"
    by code_simp
  have objects: "dg_objects demo_delegation = Some (demo_read, demo_publish)" by (simp add: demo_delegation_def)
  have "posture_action demo_posture ''bash'' = Some (JStr ''deny'')" "''bash'' \<in> set tool_keys"
    by code_simp+
  with child_denies_inherited [OF run objects demo_objects parent frozen] run show ?thesis by fastforce
qed

section \<open>What the code does not hold to\<close>

text \<open>
  The workspace of the parent binds a fresh child only. A continuation by \<open>task_id\<close> is looked
  up by its native id alone: with the child's Profile working in the parent's workspace now, a call
  that names an older session of it, in another workspace, is accepted, and the child turn runs
  there.
\<close>

lemma resumed_child_elsewhere:
  "\<exists>c w' ps s t. start_child demo_delegation ''t1'' ''lead'' (demo_call @ [(''task_id'', JStr ''n0'')]) 0
       (demo_ledger_world demo_family) = (Inr (Inr c), w') \<and>
     find_session demo_family ''s1'' = Some ps \<and> se_workspace ps = ''ws_1'' \<and>
     find_session (store w') (cr_session c) = Some s \<and> se_workspace s = ''ws_2'' \<and>
     find_turn (store w') (cr_turn c) = Some t \<and> tn_session t = cr_session c \<and> tn_state t = ''accepted''"
proof -
  let ?args = "demo_call @ [(''task_id'', JStr ''n0'')]"
  from demo_run_of [OF demo_resumed] obtain c w' where
    run: "start_child demo_delegation ''t1'' ''lead'' ?args 0 (demo_ledger_world demo_family) = (Inr (Inr c), w')"
    and c: "cr_resumed c" "cr_session c = ''c0''" by blast
  have st: "store (demo_ledger_world demo_family) = demo_family" by (simp add: demo_ledger_world_def)
  from started [OF run] obtain child v1 v2 posture prompt model task e ws p where
    session: "resolve_child_session demo_delegation child e task ws (demo_ledger_world demo_family) =
      (Inr (Inr (''c0'', cr_native c, True)), v1)"
    and "merged_posture demo_delegation ''t1'' p child v1 = (Inr posture, v2)"
    and turn: "create_child_turn demo_delegation ''c0'' child ''t1'' prompt model posture v2 = (Inr (cr_turn c), w')"
    using c by metis
  then have "v2 = v1" by (simp add: merged_posture_Inr)
  moreover have "v1 = demo_ledger_world demo_family"
    using session by (cases task) (auto simp: resolve_child_session_def run_iffs refused_def session_row_of_def get_profile_def
        split: list.splits)
  ultimately have "map_option seat (find_session (store w') ''c0'') = map_option seat (find_session demo_family ''c0'')"
    using seats_kept [OF withinD [OF seats_child_turn turn]] by (simp add: st)
  then have "map_option seat (find_session (store w') ''c0'') = Some (''c0'', ''ws_2'', ''coder'')"
    by (simp add: demo_family_def find_session_def demo_seat_def seat_def)
  then obtain s where "find_session (store w') (cr_session c) = Some s" "se_workspace s = ''ws_2''"
    using c by (auto simp: seat_def)
  moreover from created_child [OF turn] c obtain t where
    "find_turn (store w') (cr_turn c) = Some t" "tn_session t = cr_session c" "tn_state t = ''accepted''"
    by (auto simp: child_turn_def new_turn_def)
  moreover have "find_session demo_family ''s1'' = Some (demo_seat ''s1'' ''ws_1'' ''lead'' None 5)"
    by (simp add: demo_family_def find_session_def demo_seat_def)
  ultimately show ?thesis using run by (auto simp: demo_seat_def)
qed

text \<open>The binds of a run, compared.\<close>

lemma refuse_if_eq: "m w = m' w \<Longrightarrow> refuse_if c e m w = refuse_if c e m' w"
  by (simp add: refuse_if_def)

lemma case_prod_eq: "(\<And>a b. x = (a, b) \<Longrightarrow> f a b w = g a b w) \<Longrightarrow> (case x of (a, b) \<Rightarrow> f a b) w = (case x of (a, b) \<Rightarrow> g a b) w"
  by (cases x) simp

lemma onward_map:
  "(\<And>x. r = Inr x \<Longrightarrow> k (f x) = k' x) \<Longrightarrow> onward (preturn (map_sum id f r)) k = onward (preturn r) k'"
  by (rule ext, cases r) (simp_all add: onward_def pbind_def preturn_def split: refusal.split)

lemma map_sum_rbind: "map_sum id f (rbind r k) = rbind r (\<lambda>x. map_sum id f (k x))"
  by (cases r) (simp_all add: rbind_def)

lemma rbind_cong: "(\<And>x. r = Inr x \<Longrightarrow> k x = k' x) \<Longrightarrow> rbind r k = rbind r k'"
  by (cases r) (simp_all add: rbind_def)

definition asked :: "string \<Rightarrow> json \<Rightarrow> run_arguments \<Rightarrow> run_arguments" where
  "asked k v a = (if k = ''permission'' then a\<lparr>ra_permission := Some ''plan''\<rparr>
     else (case v of JInt n \<Rightarrow> a\<lparr>ra_turns := n\<rparr> | _ \<Rightarrow> a))"

lemma validate_asked:
  assumes kv: "k = ''permission'' \<and> v = JStr ''plan'' \<or> k = ''max_turns'' \<and> (\<exists>n. v = JInt n \<and> 1 \<le> n \<and> n \<le> 4)"
    and "k \<notin> fst ` set args" "fst ` set args \<subseteq> set argument_names"
    and "\<And>l. limits = Some l \<Longrightarrow> ''plan'' \<in> set (cl_permissions l)"
  shows "validate_run_arguments (args @ [(k, v)]) roster limits =
    map_sum id (asked k v) (validate_run_arguments args roster limits)"
proof -
  have known: "filter (\<lambda>k. k \<notin> set argument_names) (map fst args) = []"
    "filter (\<lambda>k. k \<notin> set argument_names) (map fst (args @ [(k, v)])) = []"
    using assms(1,3) by (auto simp: filter_empty_conv argument_names_def)
  have none: "map_of args k = None" using assms(2) by (simp add: map_of_eq_None_iff)
  have other: "dict_get (args @ [(k, v)]) j = dict_get args j" "get_or (args @ [(k, v)]) j x = get_or args j x" if "j \<noteq> k" for j x
    using that by (auto simp: dict_get_def get_or_def map_add_def split: option.splits)
  have same: "dict_get (args @ [(k, v)]) k = v" "get_or (args @ [(k, v)]) k x = v" "dict_get args k = JNull"
    "get_or args k x = x" for x
    using none by (simp_all add: dict_get_def get_or_def map_add_def)
  from kv show ?thesis
  proof
    assume k: "k = ''permission'' \<and> v = JStr ''plan''"
    have "check_permission limits (JStr ''plan'') = Inr (Some ''plan'')" "check_permission limits JNull = Inr None"
      using assms(4) by (cases limits; simp add: check_permission_def)+
    with k other same show ?thesis
      unfolding validate_run_arguments_def Let_def known
      by (simp add: map_sum_rbind asked_def) (simp add: rbind_def)
  next
    assume k: "k = ''max_turns'' \<and> (\<exists>n. v = JInt n \<and> 1 \<le> n \<and> n \<le> 4)"
    then obtain n where n: "v = JInt n" "1 \<le> n" "n \<le> 4" by blast
    then have "check_bound code message 4 names v = Inr n" "check_bound code message 4 names (JInt 4) = Inr 4" for code message names
      by (simp_all add: check_bound_def)
    with k n(1) other same show ?thesis
      unfolding validate_run_arguments_def Let_def known
      by (simp add: map_sum_rbind asked_def) (simp add: rbind_def)
  qed
qed

lemma limits_allow_plan:
  "limits_for_request dg args roster w = (Inr limits, v) \<Longrightarrow> limits = Some l \<Longrightarrow> ''plan'' \<in> set (cl_permissions l)"
  by (auto simp: limits_for_request_def child_limits_def permission_ceiling_def get_profile_def run_iffs
      split: option.splits if_splits)

lemma asked_fields [simp]:
  "ra_subagent (asked k v a) = ra_subagent a" "ra_prompt (asked k v a) = ra_prompt a" "ra_model (asked k v a) = ra_model a"
  "ra_timeout (asked k v a) = ra_timeout a" "ra_task (asked k v a) = ra_task a"
  by (simp_all add: asked_def split: json.split)

text \<open>
  Asking for the narrower preset, or for fewer turns, changes nothing. The arguments
  \<open>permission\<close> and \<open>max_turns\<close> are checked and then dropped: a run that asks for the preset
  \<open>plan\<close>, or for any allowed number of turns, does in every world exactly what the same call
  does without the argument, to the ledger and to its result.
\<close>

lemma narrower_request_ignored:
  assumes "k = ''permission'' \<and> v = JStr ''plan'' \<or> k = ''max_turns'' \<and> (\<exists>n. v = JInt n \<and> 1 \<le> n \<and> n \<le> 4)"
    and "k \<notin> fst ` set args" "fst ` set args \<subseteq> set argument_names"
  shows "run_subagent dg depth polls pt pp (args @ [(k, v)]) calls = run_subagent dg depth polls pt pp args calls"
proof -
  have sub: "limits_for_request dg (args @ [(k, v)]) roster = limits_for_request dg args roster" for roster
    using assms(1) by (auto simp: limits_for_request_def dict_get_def map_add_def split: option.splits)
  have key: "onward (preturn (validate_run_arguments (args @ [(k, v)]) roster limits)) K u' =
      onward (preturn (validate_run_arguments args roster limits)) K u'"
    if "limits_for_request dg args roster u = (Inr limits, u')" "\<And>x. K (asked k v x) = K x"
    for roster limits u u' and K :: "run_arguments \<Rightarrow> (refusal + child_run) ledger_prog"
  proof -
    have "validate_run_arguments (args @ [(k, v)]) roster limits =
        map_sum id (asked k v) (validate_run_arguments args roster limits)"
      by (rule validate_asked [OF assms]) (rule limits_allow_plan [OF that(1)])
    then show ?thesis using fun_cong [OF onward_map [of _ K "asked k v" K]] that(2) by simp
  qed
  have "start_child dg pt pp (args @ [(k, v)]) calls w = start_child dg pt pp args calls w" for w
    unfolding start_child_def Let_def sub
    by (rule pbind_eq, rule refuse_if_eq, rule pbind_eq, rule pbind_eq, rule case_prod_eq, rule case_prod_eq,
        rule case_prod_eq, rule pbind_eq, rule pbind_eq, erule key, unfold asked_fields, rule refl)
  then have "start_child dg pt pp (args @ [(k, v)]) calls = start_child dg pt pp args calls" by (rule ext)
  then show ?thesis by (simp only: run_subagent_def)
qed

lemma narrower_request_ignored_witness:
  "run_subagent demo_delegation 3 [] ''t1'' ''lead'' (demo_call @ [(''permission'', JStr ''plan'')]) 0 =
     run_subagent demo_delegation 3 [] ''t1'' ''lead'' demo_call 0 \<and>
   run_subagent demo_delegation 3 [] ''t1'' ''lead'' (demo_call @ [(''max_turns'', JInt 1)]) 0 =
     run_subagent demo_delegation 3 [] ''t1'' ''lead'' demo_call 0"
proof -
  have names: "fst ` set demo_call \<subseteq> set argument_names" "''permission'' \<notin> fst ` set demo_call" "''max_turns'' \<notin> fst ` set demo_call"
    by (simp_all add: demo_call_def argument_names_def)
  from narrower_request_ignored [OF _ names(2,1), of "JStr ''plan''"] narrower_request_ignored [OF _ names(3,1), of "JInt 1"]
  show ?thesis by simp
qed

section \<open>The arguments of a call\<close>

definition arguments_ok :: "roster_entry list \<Rightarrow> child_limits option \<Rightarrow> run_arguments \<Rightarrow> bool" where
  "arguments_ok roster limits a \<longleftrightarrow>
     ra_subagent a \<in> re_name ` set roster \<and> word_count False (ra_description a) \<in> {3..5} \<and>
     \<not> blank (ra_prompt a) \<and> length (ra_prompt a) \<le> 32000 \<and>
     (\<forall>p. ra_permission a = Some p \<longrightarrow> p \<in> {''default'', ''plan''} \<and> (\<forall>l. limits = Some l \<longrightarrow> p \<in> set (cl_permissions l))) \<and>
     (\<forall>m l ms. ra_model a = Some m \<longrightarrow> limits = Some l \<longrightarrow> cl_models l = Some ms \<longrightarrow> m \<in> set ms) \<and>
     1 \<le> ra_timeout a \<and> ra_timeout a \<le> 600 \<and> 1 \<le> ra_turns a \<and> ra_turns a \<le> 4 \<and> ra_task a \<noteq> Some []"

definition refusal_ok :: "roster_entry list \<Rightarrow> (string \<times> json) list \<Rightarrow> refusal \<Rightarrow> bool" where
  "refusal_ok roster args r \<longleftrightarrow>
     (case r of Refused code message available \<Rightarrow> set available \<subseteq> re_name ` set roster
      | Escaped e \<Rightarrow> exn_cls e = TypeError \<and>
          (case dict_get args ''permission'' of JList xs \<Rightarrow> True | JDict kvs \<Rightarrow> True | _ \<Rightarrow> False))"

lemma inline_names_in: "set (inline_names roster) \<subseteq> re_name ` set roster"
  using set_take_subset [of 8 "map re_name roster"] by (simp add: inline_names_def)

lemma checks_refuse:
  "check_name roster v = Inl r \<Longrightarrow> refusal_ok roster args r"
  "check_description (inline_names roster) v = Inl r \<Longrightarrow> refusal_ok roster args r"
  "check_prompt (inline_names roster) v = Inl r \<Longrightarrow> refusal_ok roster args r"
  "check_permission limits (dict_get args ''permission'') = Inl r \<Longrightarrow> refusal_ok roster args r"
  "check_model limits v = Inl r \<Longrightarrow> refusal_ok roster args r"
  "check_bound code message n (inline_names roster) v = Inl r \<Longrightarrow> refusal_ok roster args r"
  "check_task (inline_names roster) v = Inl r \<Longrightarrow> refusal_ok roster args r"
  using inline_names_in [of roster]
  by (auto simp: refusal_ok_def check_name_def check_description_def check_prompt_def check_permission_def
      check_model_def check_bound_def check_task_def Let_def split: json.splits if_splits option.splits list.splits)

lemma validated_refuses: "validate_run_arguments args roster limits = Inl r \<Longrightarrow> refusal_ok roster args r"
  unfolding validate_run_arguments_def Let_def
  by (auto simp: rbind_Inl refusal_ok_def [of _ _ "Refused c m av" for c m av] intro: checks_refuse split: if_splits)

lemma checks_accept:
  "check_name roster v = Inr n \<Longrightarrow> n \<in> re_name ` set roster"
  "check_description names v = Inr d \<Longrightarrow> word_count False d \<in> {3..5}"
  "check_prompt names v = Inr p \<Longrightarrow> \<not> blank p \<and> length p \<le> 32000"
  "check_permission limits v = Inr po \<Longrightarrow>
     (\<forall>p. po = Some p \<longrightarrow> p \<in> {''default'', ''plan''} \<and> (\<forall>l. limits = Some l \<longrightarrow> p \<in> set (cl_permissions l)))"
  "check_model limits v = Inr mo \<Longrightarrow>
     (\<forall>m l ms. mo = Some m \<longrightarrow> limits = Some l \<longrightarrow> cl_models l = Some ms \<longrightarrow> m \<in> set ms)"
  "check_bound code message bound names v = Inr k \<Longrightarrow> 1 \<le> k \<and> k \<le> bound"
  "check_task names v = Inr t \<Longrightarrow> t \<noteq> Some []"
  by (auto simp: check_name_def check_description_def check_prompt_def check_permission_def
      check_model_def check_bound_def check_task_def Let_def split: json.splits if_splits option.splits list.splits)

lemma validated_accepts:
  assumes "validate_run_arguments args roster limits = Inr a"
  shows "arguments_ok roster limits a"
proof -
  from assms obtain name description prompt permission model timeout turns task where
    checked: "check_name roster (dict_get args ''subagent'') = Inr name"
    "check_description (inline_names roster) (dict_get args ''description'') = Inr description"
    "check_prompt (inline_names roster) (dict_get args ''prompt'') = Inr prompt"
    "check_permission limits (dict_get args ''permission'') = Inr permission"
    "check_model limits (dict_get args ''model'') = Inr model"
    "check_bound ''SUBAGENT_TIMEOUT_INVALID'' ''timeout must be 1..600 seconds (ten minutes)'' 600 (inline_names roster)
        (get_or args ''timeout'' (JInt 600)) = Inr timeout"
    "check_bound ''SUBAGENT_TURNS_INVALID'' ''max_turns must be 1..4'' 4 (inline_names roster)
        (get_or args ''max_turns'' (JInt 4)) = Inr turns"
    "check_task (inline_names roster) (dict_get args ''task_id'') = Inr task"
    and a: "a = \<lparr>ra_subagent = name, ra_description = description, ra_prompt = prompt, ra_permission = permission,
            ra_model = model, ra_timeout = timeout, ra_turns = turns, ra_task = task\<rparr>"
    by (auto simp: validate_run_arguments_def Let_def split: if_splits)
  show ?thesis
    unfolding arguments_ok_def a run_arguments.simps
    using checks_accept(1) [OF checked(1)] checks_accept(2) [OF checked(2)] checks_accept(3) [OF checked(3)]
      checks_accept(4) [OF checked(4)] checks_accept(5) [OF checked(5)] checks_accept(6) [OF checked(6)]
      checks_accept(6) [OF checked(7)] checks_accept(7) [OF checked(8)]
    by (intro conjI) blast+
qed


end
