(* ===== verification/Service_Claims.thy ===== *)
theory Service_Claims
  imports Service_Examples Ledger_Claims
begin

text \<open>
  The properties of the permission rules, of the Profiles and of the session use cases, and the
  composition: whatever use cases run, over ledger operations in any order, the ledger stays
  well formed and its history sealed.
\<close>

section \<open>Permission rules\<close>

definition rule_applies :: "json \<Rightarrow> string \<Rightarrow> string option \<Rightarrow> bool" where
  "rule_applies r key target \<longleftrightarrow> body_get r ''key'' = Some (JStr key) \<and>
     (case body_get r ''pattern'' of
        Some (JStr p) \<Rightarrow> (case target of None \<Rightarrow> False | Some t \<Rightarrow> glob p t)
      | _ \<Rightarrow> True)"

definition rule_says :: "json \<Rightarrow> string" where
  "rule_says r = (case body_get r ''action'' of Some (JStr a) \<Rightarrow> a | _ \<Rightarrow> [])"

definition last_word :: "json list \<Rightarrow> string \<Rightarrow> string option \<Rightarrow> string \<Rightarrow> string" where
  "last_word rules key target fallback =
     (case find (\<lambda>r. rule_applies r key target) (rev rules) of None \<Rightarrow> fallback | Some r \<Rightarrow> rule_says r)"

lemma rule_okE:
  assumes "rule_ok r"
  obtains key pattern action where "r = rule_json key pattern action" "key \<in> set tool_keys" "action \<in> set tool_actions"
    "pattern = JNull \<or> (\<exists>p. pattern = JStr p)"
  using assms by (auto simp: rule_ok_def)

lemma rule_ok_runs:
  assumes "rule_ok r"
  shows "rule_matches r key target = Inr (rule_applies r key target)" "rule_action r = Inr (rule_says r)"
proof -
  from assms obtain k pattern action where r: "r = rule_json k pattern action" "pattern = JNull \<or> (\<exists>p. pattern = JStr p)"
    by (rule rule_okE)
  have at: "map_of [(''key'', JStr k), (''pattern'', pattern), (''action'', JStr action)] ''key'' = Some (JStr k)"
    "map_of [(''key'', JStr k), (''pattern'', pattern), (''action'', JStr action)] ''pattern'' = Some pattern"
    "map_of [(''key'', JStr k), (''pattern'', pattern), (''action'', JStr action)] ''action'' = Some (JStr action)"
    by simp_all
  show "rule_action r = Inr (rule_says r)"
    unfolding rule_action_def rule_says_def r(1) rule_json_def body_get_def json.case at by (simp add: py_str_def)
  show "rule_matches r key target = Inr (rule_applies r key target)"
    unfolding rule_matches_def rule_applies_def r(1) rule_json_def body_get_def json.case at dict_get_def option.case
    using r(2) by (auto split: option.split)
qed

lemma find_append: "find P (xs @ ys) = (case find P xs of None \<Rightarrow> find P ys | Some x \<Rightarrow> Some x)"
  by (induction xs) auto

lemma last_match_last:
  "list_all rule_ok rules \<Longrightarrow> last_match key target rules action = Inr (last_word rules key target action)"
proof (induction rules arbitrary: action)
  case Nil
  show ?case by (simp add: last_word_def)
next
  case (Cons r rules)
  have "last_word (r # rules) key target action =
      last_word rules key target (if rule_applies r key target then rule_says r else action)"
    by (simp add: last_word_def find_append split: option.split)
  with Cons show ?case by (simp add: rule_ok_runs)
qed

lemma find_in: "find P xs = Some x \<Longrightarrow> x \<in> set xs \<and> P x"
  by (auto simp: find_Some_iff)

text \<open>
  C26: A rule set that was accepted resolves for every tool key and every target, and the answer is
  the one the model promises: the action of the last rule of the key that has no pattern or whose
  pattern matches the target, and the action of the preset when there is none. The answer is always
  one of the three actions.
\<close>

theorem resolve_last_match:
  assumes rules: "effective_rules preset overrides = Inr rules" and key: "key \<in> set tool_keys"
  shows "\<exists>fallback. map_of preset_actions preset = Some fallback \<and>
    resolve rules key target preset = Inr (last_word rules key target fallback) \<and>
    last_word rules key target fallback \<in> set tool_actions"
proof -
  have ok: "list_all rule_ok rules" using rules by (rule effective_rules_ok)
  from rules obtain fallback where fb: "map_of preset_actions preset = Some fallback" "fallback \<in> set tool_actions"
    by (auto simp: effective_rules_def preset_rules_def preset_table_def preset_actions_def tool_actions_def
        split: option.splits if_splits sum.splits)
  moreover have "last_word rules key target fallback \<in> set tool_actions"
  proof (cases "find (\<lambda>r. rule_applies r key target) (rev rules)")
    case None
    with fb show ?thesis by (simp add: last_word_def)
  next
    case (Some r)
    with find_in [OF Some] ok have "rule_ok r" by (auto simp: list_all_iff)
    then have "rule_says r \<in> set tool_actions"
      by (elim rule_okE) (auto simp: rule_says_def rule_json_def body_get_def)
    with Some show ?thesis by (simp add: last_word_def)
  qed
  ultimately show ?thesis using key ok by (simp add: resolve_def last_match_last)
qed

definition demo_rules :: "json list" where
  "demo_rules = [rule_json ''bash'' JNull ''ask'', rule_json ''bash'' (JStr ''git *'') ''allow'']"

theorem resolve_last_match_witness:
  "\<exists>rules. effective_rules ''plan'' (JList demo_rules) = Inr rules \<and>
     resolve rules ''bash'' (Some ''git log'') ''plan'' = Inr ''allow'' \<and> resolve rules ''bash'' None ''plan'' = Inr ''ask''"
proof -
  have eff: "effective_rules ''plan'' (JList demo_rules) =
      Inr (the (map_of preset_table ''plan'') @ demo_rules)" (is "_ = Inr ?rules")
    by code_simp
  have "last_word ?rules ''bash'' (Some ''git log'') ''ask'' = ''allow''" "last_word ?rules ''bash'' None ''ask'' = ''ask''"
    "map_of preset_actions ''plan'' = Some ''ask''" "''bash'' \<in> set tool_keys"
    by code_simp+
  with resolve_last_match [OF eff, of "''bash''"] eff show ?thesis by fastforce
qed

definition patternless :: "json \<Rightarrow> bool" where
  "patternless r \<longleftrightarrow> body_get r ''pattern'' = Some JNull"

lemma patterned_silent: "rule_ok r \<Longrightarrow> \<not> patternless r \<Longrightarrow> \<not> rule_applies r key None"
  by (elim rule_okE) (auto simp: patternless_def rule_applies_def rule_json_def body_get_def)

lemma find_filter: "(\<And>x. x \<in> set xs \<Longrightarrow> P x \<Longrightarrow> Q x) \<Longrightarrow> find P (filter Q xs) = find P xs"
  by (induction xs) auto

lemma resolve_without_patterns:
  assumes "list_all rule_ok rules"
  shows "resolve (filter patternless rules) key None preset = resolve rules key None preset"
proof -
  have "find (\<lambda>r. rule_applies r key None) (filter patternless (rev rules)) = find (\<lambda>r. rule_applies r key None) (rev rules)"
    using assms by (intro find_filter) (auto simp: list_all_iff dest: patterned_silent)
  then have "last_word (filter patternless rules) key None a = last_word rules key None a" for a
    by (simp add: last_word_def rev_filter)
  moreover have "list_all rule_ok (filter patternless rules)" using assms by (auto simp: list_all_iff)
  ultimately show ?thesis using assms by (simp add: resolve_def last_match_last split: option.split)
qed

text \<open>
  Rules with a pattern never reach a turn. The posture frozen at acceptance, and the one a
  delegation starts from, are resolved without targets, so deleting every pattern rule of a Profile
  changes neither: a denied path or command pattern is accepted, stored, shown and cloned, but it is
  in no frozen posture and is not inherited by a child.
\<close>

lemma pattern_rules_not_frozen:
  assumes "effective_rules preset overrides = Inr rules"
    and "pf_preset r = Some preset" "pf_rules r = Some (JList rules)"
  shows "posture_of (r\<lparr>pf_rules := Some (JList (filter patternless rules))\<rparr>) = posture_of r \<and>
    resolve_all (filter patternless rules) (preset_or_default r) [] = resolve_all rules (preset_or_default r) []"
proof -
  have "list_all rule_ok rules" using assms(1) by (rule effective_rules_ok)
  from resolve_without_patterns [OF this]
  have "resolve_all (filter patternless rules) p [] = resolve_all rules p []" for p
    by (simp add: resolve_all_def Let_def split: sum.split)
  with assms(3) show ?thesis by (simp add: posture_of_def stored_rules_def preset_or_default_def)
qed

definition demo_denied :: profile_row where
  "demo_denied = (demo_profile ''coder'' ''Coder'')\<lparr>pf_preset := Some ''default'',
     pf_rules := Some (JList [rule_json ''bash'' (JStr ''rm *'') ''deny''])\<rparr>"

lemma pattern_rules_not_frozen_witness:
  "\<exists>own. posture_of demo_denied = Inr own \<and> posture_of (demo_denied\<lparr>pf_rules := Some (JList [])\<rparr>) = Inr own \<and>
     posture_action own ''bash'' = Some (JStr ''ask'')"
proof -
  let ?rules = "[rule_json ''bash'' (JStr ''rm *'') ''deny'']"
  have eff: "effective_rules ''default'' (JList ?rules) = Inr ?rules" and none: "filter patternless ?rules = []"
    by code_simp+
  have row: "pf_preset demo_denied = Some ''default''" "pf_rules demo_denied = Some (JList ?rules)"
    by (simp_all add: demo_denied_def)
  have own: "case posture_of (demo_denied\<lparr>pf_rules := Some (JList [])\<rparr>) of
      Inr own \<Rightarrow> posture_action own ''bash'' = Some (JStr ''ask'') | Inl e \<Rightarrow> False"
    by code_simp
  from pattern_rules_not_frozen [OF eff row] none own show ?thesis by (auto split: sum.splits)
qed

section \<open>Profiles\<close>

text \<open>
  The clone plan and the clone disagree. What \<open>set_permissions\<close> stores is the expanded list,
  and the plan of a clone validates the expanded list again as if it were the user's: with the
  preset \<open>plan\<close> and 62 to 64 accepted rules it is over the limit, so the report says that the
  permissions do not travel, while the cloned row carries every one of them.
\<close>

lemma clone_plan_disagrees:
  assumes "effective_rules ''plan'' (JList overrides) = Inr rules" "62 \<le> length overrides"
    and "pf_preset r = Some ''plan''" "pf_rules r = Some (JList rules)"
  shows "fst (permission_plan r) = JNull \<and> body_get (snd (permission_plan r)) ''migrated'' = Some (JBool False) \<and>
    pf_rules (clone_row i name harness t r) = Some (JList rules)"
proof -
  from assms(1) have "length rules = 3 + length overrides"
    by (auto simp: effective_rules_def preset_rules_def preset_table_def validate_rules_def map_exn_Inr
        dest: list_all2_lengthD split: sum.splits if_splits)
  with assms(2) have "validate_rules (JList rules) =
      Inl (permission_error ''PERMISSION_RULE_INVALID'' ''at most 64 rules are accepted'')"
    by (simp add: validate_rules_def max_rules_def)
  with assms(3,4) show ?thesis
    by (simp add: permission_plan_def effective_rules_def preset_rules_def preset_table_def preset_or_default_def
        stored_rules_def plan_item_def body_get_def clone_row_def Let_def)
qed

lemma clone_plan_disagrees_witness:
  "\<exists>r rules. pf_rules r = Some (JList rules) \<and> length rules = 65 \<and> fst (permission_plan r) = JNull \<and>
     pf_rules (clone_row ''profile_2'' ''Copy'' ''opencode'' demo_stamp r) = Some (JList rules)"
proof -
  let ?overrides = "replicate 62 (rule_json ''read'' JNull ''ask'')"
  let ?rules = "the (map_of preset_table ''plan'') @ ?overrides"
  let ?r = "(demo_profile ''coder'' ''Coder'')\<lparr>pf_preset := Some ''plan'', pf_rules := Some (JList ?rules)\<rparr>"
  have eff: "effective_rules ''plan'' (JList ?overrides) = Inr ?rules" by code_simp
  have row: "pf_preset ?r = Some ''plan''" "pf_rules ?r = Some (JList ?rules)" "length ?rules = 65" "62 \<le> length ?overrides"
    by (simp_all add: preset_table_def)
  from clone_plan_disagrees [OF eff row(4) row(1,2)] row(2,3) show ?thesis by metis
qed

section \<open>Every use case keeps the ledger\<close>

interpretation calls_formed: service_law "\<lambda>d d'. True"
  by unfold_locales auto

interpretation calls_log: service_law log_kept
  by unfold_locales (auto simp: log_kept_def)

interpretation calls_approvals: service_law approvals_kept
  by unfold_locales (auto simp: approvals_kept_def)

interpretation calls_items: service_law items_kept
  by unfold_locales (auto intro: items_kept_same)

interpretation calls_turns: service_law turns_kept
  by unfold_locales (auto intro: turns_kept_same)


lemma demo_family_sound: "sound demo_family"
  by (simp add: sound_def keys_ok_def log_numbered_def demo_family_def demo_profile_def demo_seat_def new_turn_def
      one_active_def active_turn_def active_states_def session_events_def List.map_filter_def)

lemma demo_port_by_records: "port_by_records cfg q (Some demo_port)"
  by (auto simp: port_by_records_def by_records_def demo_port_def preturn_def intro: steps_refl)


section \<open>Acceptance\<close>

text \<open>A program that raises on this world, and leaves the store as it was.\<close>

definition refuses :: "ledger world \<Rightarrow> 'a ledger_prog \<Rightarrow> bool" where
  "refuses w m \<longleftrightarrow> (\<exists>e w'. m w = (Inl e, w') \<and> store w' = store w)"

lemma refuses_praise: "refuses w (praise e)" "refuses w (plift (Inl e))"
  by (simp_all add: refuses_def praise_def plift_def)

lemma refuses_pbind: "refuses w m \<Longrightarrow> refuses w (pbind m k)"
  by (auto simp: refuses_def pbind_def)

lemma refuses_read:
  assumes "read_only m" "\<And>x v. m w = (Inr x, v) \<Longrightarrow> refuses v (k x)"
  shows "refuses w (pbind m k)"
proof -
  obtain r v where m: "m w = (r, v)" by fastforce
  with read_only_store [OF assms(1)] have "store v = store w" by blast
  with m assms(2) show ?thesis by (cases r) (auto simp: refuses_def pbind_def)
qed

lemma refuses_read_seq: "read_only m \<Longrightarrow> (\<And>v. store v = store w \<Longrightarrow> refuses v k) \<Longrightarrow> refuses w (pseq m k)"
  unfolding pseq_def by (rule refuses_read) (auto dest: read_only_store)

lemma refuses_case_prod: "(\<And>a b. x = (a, b) \<Longrightarrow> refuses w (f a b)) \<Longrightarrow> refuses w (case x of (a, b) \<Rightarrow> f a b)"
  by (cases x) simp

lemmas reads = same_store.within_intros same_store.within_branch same_store.within_case_list

lemma service_reads:
  "read_only (get_profile p)" "read_only (session_row_of s)" "read_only (validate_native_workspace sv ws se)"
  "read_only (assert_native_profile sv r)" "read_only (require_credential sv h c)" "read_only (session_profile s)"
  "read_only (validated_overrides sv s ov)" "read_only (assert_session_harness sv s)"
  "read_only (effective_configuration sv p items)" "read_only (publish_effective sv p cf x)"
  "read_only (validate_overrides_for sv p items)" "read_only (idempotency_check scope key dg)"
  unfolding read_only_def get_profile_def session_row_of_def validate_native_workspace_def assert_native_profile_def
    require_credential_def session_profile_def validated_overrides_def assert_session_harness_def
    effective_configuration_def publish_effective_def validate_overrides_for_def idempotency_check_def Let_def
  by (intro reads)+

lemma read_only_basics: "read_only (preturn x)" "read_only (raise_if c e)" "read_only (plift r)"
  unfolding read_only_def by (intro reads)+

lemma no_receipt:
  assumes "find_receipt (store w) scope key = None" "refuses w m"
  shows "refuses w (prior_or scope key dg m)"
  using assms by (simp add: refuses_def prior_or_def idempotency_check_def pbind_def read_store_def preturn_def)

lemma validated_overrides_same:
  "validated_overrides sv s ov w = (Inr v, w') \<Longrightarrow> v = ov"
  by (auto simp: validated_overrides_def run_iffs split: option.splits if_splits)

lemma effective_refuses_dict:
  "refuses w (effective_configuration sv p (dict_items (Some (kv # kvs))))"
proof -
  have stuck: "map_exn item_assignment (dict_items (Some (kv # kvs))) = Inl (err TypeError ''string indices must be integers'')"
    by (simp add: dict_items_def item_assignment_def split: prod.split)
  show ?thesis
    unfolding effective_configuration_def Let_def stuck
    by (rule refuses_read [OF service_reads(1)], rule refuses_read [OF read_only_basics(3)],
        rule refuses_read [OF read_only_basics(3)], rule refuses_pbind, rule refuses_praise(2))
qed

text \<open>
  No turn with overrides can be created. The body of the REST request holds its overrides as an
  object; \<open>_effective_configuration\<close> iterates over it as if it were the list of assignments of the
  wire and indexes its keys, so every fresh request whose overrides are not empty raises and writes
  nothing, valid or not.
\<close>

lemma turn_overrides_rejected:
  assumes "find_receipt (store w) (''POST:/sessions/'' @ s @ ''/turns'') key = None"
  shows "\<exists>e w'. create_turn_use sv s key text expected (Some (kv # kvs)) w = (Inl e, w') \<and> store w' = store w"
proof -
  have "refuses w (create_turn_use sv s key text expected (Some (kv # kvs)))"
  proof (cases "sv_execution sv")
    case None
    then show ?thesis by (simp add: create_turn_use_def refuses_praise)
  next
    case (Some port)
    show ?thesis
      unfolding create_turn_use_def Some option.case
    proof (rule refuses_read [OF read_only_basics(3)], rule no_receipt)
      fix dg v assume "plift (digest (sv_hash sv) (turn_body text expected (Some (kv # kvs)))) w = (Inr dg, v)"
      then show "find_receipt (store v) (''POST:/sessions/'' @ s @ ''/turns'') key = None"
        using assms by (simp add: plift_Inr)
    qed (rule refuses_read_seq [OF service_reads(3)], rule refuses_read [OF service_reads(7)],
        drule validated_overrides_same, simp only:, rule refuses_read_seq [OF service_reads(8)],
        rule refuses_read [OF service_reads(6)], rule refuses_read_seq [OF read_only_basics(2)], rule refuses_pbind,
        rule effective_refuses_dict)
  qed
  then show ?thesis by (simp add: refuses_def)
qed

definition turn_request :: "(string \<times> json) list option \<Rightarrow> exn + (int \<times> json)" where
  "turn_request overrides = fst (create_turn_use demo_service ''c1'' ''key'' ''hello'' 1 overrides (demo_ledger_world demo_family))"

lemma turn_overrides_rejected_witness:
  "(\<exists>e. turn_request (Some [(''model'', JStr ''m1'')]) = Inl e) \<and> (\<exists>body. turn_request None = Inr (202, body))"
proof
  have "find_receipt (store (demo_ledger_world demo_family)) (''POST:/sessions/'' @ ''c1'' @ ''/turns'') ''key'' = None"
    by (simp add: demo_ledger_world_def demo_family_def find_receipt_def)
  from turn_overrides_rejected [OF this] obtain e w' where
    "create_turn_use demo_service ''c1'' ''key'' ''hello'' 1 (Some [(''model'', JStr ''m1'')]) (demo_ledger_world demo_family) =
      (Inl e, w')" by blast
  then show "\<exists>e. turn_request (Some [(''model'', JStr ''m1'')]) = Inl e" by (simp add: turn_request_def)
  have "case turn_request None of Inr (st, body) \<Rightarrow> st = 202 | Inl e \<Rightarrow> False" by code_simp
  then show "\<exists>body. turn_request None = Inr (202, body)" by (auto split: sum.splits)
qed

text \<open>
  A retry is not always answered from its receipt. \<open>accept_intent\<close> of the service checks the
  configuration before the records look up the request id: once the Harness of the Profile is no
  longer configured, the retry of a send that was accepted, and is running, is refused like a new
  one.
\<close>

lemma accepted_retry_refused:
  assumes "find_profile (store w) p = Some r" "map_of (sv_harnesses sv) (pf_harness r) = None"
  shows "\<exists>e w'. accept_intent_use sv se ws p request dg m pub name [] w = (Inl e, w') \<and> store w' = store w"
proof -
  have "refuses w (assert_profile_executable sv p x)" if "store w = d" "find_profile d p = Some r" for x w d
    unfolding assert_profile_executable_def
    using that assms(2)
    by (intro refuses_read [OF service_reads(1)])
      (auto simp: get_profile_def fetch_row_Inr intro!: refuses_read_seq service_reads refuses_praise)
  note refused = this [OF _ assms(1)]
  have "refuses w (accept_intent_use sv se ws p request dg m pub name [])"
    unfolding accept_intent_use_def
  proof (rule refuses_read_seq [OF service_reads(3)], simp only: simp_thms if_True, rule refuses_read_seq [OF read_only_basics(1)],
      rule refuses_read [OF service_reads(9)], rule refuses_case_prod)
    fix v u x u' c e
    assume "store v = store w" "store u = store v" "effective_configuration sv p [] u = (Inr x, u')"
    with read_only_store [OF service_reads(9) this(3)] have "store u' = store w" by simp
    from refused [OF this] show "refuses u' (pseq (assert_profile_executable sv p e)
       (pbind (publish_effective sv p c e) (\<lambda>effective. accept_intent (sv_config sv) (sv_queue sv) se ws p request dg m pub
        name None (Some resolve_config_version) (Some effective))))"
      unfolding pseq_def by (rule refuses_pbind)
  qed
  then show ?thesis by (simp add: refuses_def)
qed

lemma accepted_retry_refused_witness:
  "\<exists>e w'. accept_intent_use (demo_service\<lparr>sv_harnesses := []\<rparr>) (Some ''c1'') None ''coder'' ''send-1'' ''d'' ''m''
     (JDict []) None [] (demo_ledger_world demo_family) = (Inl e, w') \<and> store w' = demo_family"
proof -
  have "find_profile (store (demo_ledger_world demo_family)) ''coder'' = Some (demo_profile ''coder'' ''Coder'')"
    by (simp add: demo_ledger_world_def demo_family_def find_profile_def demo_profile_def)
  from accepted_retry_refused [OF this, of "demo_service\<lparr>sv_harnesses := []\<rparr>"] show ?thesis
    by (simp add: demo_ledger_world_def)
qed

end
