(* ===== verification/Cancel_Claims.thy ===== *)
theory Cancel_Claims
  imports Service_Examples Ledger_Claims
begin

text \<open>
  Cancellation of a turn and of the turns it delegated: the recursion down \<open>parent_turn_id\<close>
  ends, and what a repeated and a late cancel do.
\<close>

section \<open>The family of turns\<close>

definition family :: "ledger \<Rightarrow> (string \<times> string option) list" where
  "family d = map (\<lambda>t. (tn_id t, tn_parent t)) (l_turns d)"

text \<open>A turn's id is new when its row is inserted, and its parent is already there.\<close>

fun parents_first :: "string set \<Rightarrow> (string \<times> string option) list \<Rightarrow> bool" where
  "parents_first seen [] = True"
| "parents_first seen ((i, p) # xs) =
    (i \<notin> seen \<and> (case p of None \<Rightarrow> True | Some q \<Rightarrow> q \<in> seen) \<and> parents_first (insert i seen) xs)"

definition below :: "(string \<times> string option) list \<Rightarrow> string \<Rightarrow> nat" where
  "below fam i = length (dropWhile (\<lambda>x. fst x \<noteq> i) fam)"

lemma parents_first_new: "parents_first seen fam \<Longrightarrow> x \<in> set fam \<Longrightarrow> fst x \<notin> seen"
  by (induction seen fam rule: parents_first.induct) auto

lemma below_child:
  "parents_first seen fam \<Longrightarrow> (c, Some i) \<in> set fam \<Longrightarrow> i \<notin> seen \<Longrightarrow> below fam c < below fam i"
proof (induction seen fam rule: parents_first.induct)
  case (2 seen j p xs)
  show ?case
  proof (cases "(c, Some i) = (j, p)")
    case True
    with 2 show ?thesis by auto
  next
    case False
    with 2 have c: "(c, Some i) \<in> set xs" by auto
    with 2 have "c \<noteq> j" using parents_first_new by fastforce
    then have bc: "below ((j, p) # xs) c = below xs c" by (simp add: below_def)
    show ?thesis
    proof (cases "i = j")
      case True
      have "below xs c \<le> length xs" unfolding below_def by (rule length_dropWhile_le)
      with True bc show ?thesis by (simp add: below_def)
    next
      case False
      with 2 c have "below xs c < below xs i" by auto
      with bc False show ?thesis by (simp add: below_def)
    qed
  qed
qed simp

interpretation kin: evolution "\<lambda>d d'. family d' = family d"
  by unfold_locales auto

lemma kin_cancel_request: "within (\<lambda>d d'. family d' = family d) (record_cancel_request i)"
  unfolding record_cancel_request_def update_turn_def append_session_event_def Let_def
  by (intro kin.within_intros kin.within_branch kin.within_exec_sql;
      auto simp: update_turns_def insert_session_event_def update_where_def family_def split: if_splits)

lemma kin_descendants:
  assumes "\<And>i. within (\<lambda>d d'. family d' = family d) (ep_cancel port i)"
  shows "within (\<lambda>d d'. family d' = family d) (cancel_descendants port n i)"
  by (induction n arbitrary: i)
    (simp_all add: kin.within_praise live_child_turn_ids_def, intro kin.within_intros kin_cancel_request assms)

section \<open>Programs that spare an exception\<close>

definition never_raises :: "exn \<Rightarrow> 'a ledger_prog \<Rightarrow> bool" where
  "never_raises e m \<longleftrightarrow> (\<forall>w w'. m w \<noteq> (Inl e, w'))"

lemma never_raises_basic:
  "never_raises e (preturn x)" "never_raises e (read_store f)" "never_raises e now_utc" "never_raises e (fresh_id p)"
  "e' \<noteq> e \<Longrightarrow> never_raises e (fetch_row g e')" "(\<And>d. h d \<noteq> Inl e) \<Longrightarrow> never_raises e (exec_sql h)"
  by (auto simp: never_raises_def preturn_def read_store_def now_utc_def fresh_id_def uuid4_hex_def pbind_def fetch_row_def
      exec_sql_def split: option.splits sum.splits)

lemma never_raises_pbind: "never_raises e m \<Longrightarrow> (\<And>x. never_raises e (k x)) \<Longrightarrow> never_raises e (pbind m k)"
  unfolding never_raises_def pbind_def by (auto split: prod.splits sum.splits)

lemma never_raises_pseq: "never_raises e m \<Longrightarrow> never_raises e k \<Longrightarrow> never_raises e (pseq m k)"
  unfolding pseq_def by (rule never_raises_pbind)

lemma never_raises_rest:
  "never_raises e m \<Longrightarrow> never_raises e (transaction m)"
  "never_raises e a \<Longrightarrow> never_raises e b \<Longrightarrow> never_raises e (if c then a else b)"
  by (auto simp: never_raises_def transaction_def split: prod.splits sum.splits)

lemma cancel_request_spares: "never_raises recursion_error (record_cancel_request i)"
  unfolding record_cancel_request_def update_turn_def append_session_event_def Let_def
  by (intro never_raises_basic never_raises_pbind never_raises_pseq never_raises_rest)
    (auto simp: update_turns_def insert_session_event_def turn_missing_def server_error_def recursion_error_def
      unique_failed_def foreign_key_failed_def)

section \<open>The recursion ends\<close>

text \<open>A loop over items whose steps keep an invariant of the world.\<close>

lemma map_each_alike:
  assumes "\<And>x w. x \<in> set xs \<Longrightarrow> J w \<Longrightarrow> f x w = g x w \<and> (\<forall>v. g x w \<noteq> (Inl e, v))"
    and "\<And>x w r w'. J w \<Longrightarrow> g x w = (r, w') \<Longrightarrow> J w'"
  shows "J w \<Longrightarrow> map_each f xs w = map_each g xs w \<and> (\<forall>v. map_each g xs w \<noteq> (Inl e, v))"
  using assms(1)
proof (induction xs arbitrary: w)
  case Nil
  show ?case by (simp add: preturn_def)
next
  case (Cons x xs)
  obtain r v where g: "g x w = (r, v)" by fastforce
  with Cons.prems have f: "f x w = (r, v)" "r \<noteq> Inl e" by auto
  from assms(2) [OF Cons.prems(1) g] have "J v" .
  with Cons have "map_each f xs v = map_each g xs v \<and> (\<forall>u. map_each g xs v \<noteq> (Inl e, u))" by simp
  with f g show ?case
    by (cases r) (auto simp: pbind_def preturn_def split: prod.splits sum.splits)
qed

lemma descendants_end:
  assumes port: "\<And>i. within (\<lambda>d d'. family d' = family d) (ep_cancel port i)"
    and spare: "\<And>i. never_raises recursion_error (ep_cancel port i)" and fam: "parents_first {} fam"
  shows "family (store w) = fam \<Longrightarrow> below fam i < n \<Longrightarrow>
    cancel_descendants port (n + k) i w = cancel_descendants port n i w \<and>
    (\<forall>v. cancel_descendants port n i w \<noteq> (Inl recursion_error, v))"
proof (induction n arbitrary: i w)
  case (Suc n)
  let ?cs = "map tn_id (filter (\<lambda>r. tn_parent r = Some i \<and> active_turn r) (l_turns (store w)))"
  let ?f = "\<lambda>n c. pseq (record_cancel_request c) (pseq (ep_cancel port c)
        (pbind (cancel_descendants port n c) (\<lambda>more. preturn (c # more))))"
  let ?J = "\<lambda>w :: ledger world. family (store w) = fam"
  have "?f (n + k) c u = ?f n c u \<and> (\<forall>v. ?f n c u \<noteq> (Inl recursion_error, v))"
    if c: "c \<in> set ?cs" and u: "?J u" for c u
  proof -
    from c Suc.prems(1) have "(c, Some i) \<in> set fam" by (auto simp: family_def image_iff) metis
    from below_child [OF fam this] Suc.prems(2) have small: "below fam c < n" by simp
    obtain r u1 where r: "record_cancel_request c u = (r, u1)" by fastforce
    with u withinD [OF kin_cancel_request r] have u1: "?J u1" by simp
    obtain s u2 where s: "ep_cancel port c u1 = (s, u2)" by fastforce
    with u1 withinD [OF port s] have u2: "?J u2" by simp
    from Suc.IH [OF u2 small] r s cancel_request_spares [of c] spare [of c] show ?thesis
      by (cases r; cases s) (auto simp: pseq_def pbind_def preturn_def never_raises_def split: prod.splits sum.splits)
  qed
  moreover have "?J u'" if "?J u" "?f n c u = (r, u')" for c u r u'
  proof -
    have "within (\<lambda>d d'. family d' = family d) (?f n c)"
      by (intro kin.within_intros kin_cancel_request port kin_descendants)
    from withinD [OF this that(2)] that(1) show ?thesis by simp
  qed
  ultimately have "map_each (?f (n + k)) ?cs w = map_each (?f n) ?cs w \<and>
      (\<forall>v. map_each (?f n) ?cs w \<noteq> (Inl recursion_error, v))"
    using Suc.prems(1) by (intro map_each_alike [where J = ?J]) blast+
  then show ?case
    by (auto simp: live_child_turn_ids_def pbind_def read_store_def preturn_def split: prod.splits sum.splits)
qed simp



section \<open>A cancel that comes late\<close>

text \<open>
  A cancel that comes after the turn has ended changes nothing but its receipt: the back end is
  not asked, no turn and no event is written, and the answer says that nothing was requested and
  nothing accepted; and every cancel that was answered is answered the same again without asking the
  back end.
\<close>

lemma late_cancel_harmless:
  assumes "turn_context (store w) i = Some (turn, s, p, ws)" "tn_state turn \<in> set terminal_states"
    and "cancel_turn sv depth i key w = (Inr (st, body), w')"
    and "find_receipt (store w) (''POST:/turns/'' @ i @ ''/cancel'') key = None"
  shows "st = 202 \<and> body = JDict [(''turn_id'', JStr i), (''cancel_requested'', JBool False), (''accepted'', JBool False)] \<and>
    l_turns (store w') = l_turns (store w) \<and> l_events (store w') = l_events (store w) \<and>
    (\<forall>port depth' v. store v = store w' \<longrightarrow>
       cancel_turn (sv\<lparr>sv_execution := port\<rparr>) depth' i key v = (Inr (202, json_sorted body), v))"
proof -
  let ?scope = "''POST:/turns/'' @ i @ ''/cancel''"
  let ?body = "JDict [(''turn_id'', JStr i), (''cancel_requested'', JBool False), (''accepted'', JBool False)]"
  from assms(1) have row: "find_turn (store w) i = Some turn"
    by (auto simp: turn_context_def split: option.splits)
  from assms(2) have closed: "tn_state turn \<notin> set active_states" by (auto simp: terminal_states_def active_states_def)
  from assms(3,4) obtain dg u where dg: "digest (sv_hash sv) (JDict [(''turn_id'', JStr i)]) = Inr dg"
    and save: "idempotency_save ?scope key dg 202 ?body u = (Inr (st, body), w')" and u: "store u = store w"
    using row closed assms(1,2)
    by (auto simp: cancel_turn_def prior_or_def idempotency_check_def record_cancel_request_def get_turn_context_def
        run_iffs Let_def split: option.splits)
  from save u assms(4) have ins: "idempotency_insert ?scope key dg 202 ?body u = (Inr (), w')" "st = 202" "body = ?body"
    by (auto simp: idempotency_save_def once_def idempotency_check_def run_iffs split: option.splits)
  then have "l_turns (store w') = l_turns (store w)" "l_events (store w') = l_events (store w)"
    using u by (auto simp: idempotency_insert_def insert_receipt_def run_iffs split: if_splits)
  moreover from receipt_found [OF ins(1)] obtain r where
    "find_receipt (store w') ?scope key = Some r" "im_digest r = dg" "im_status r = 202" "im_body r = json_sorted ?body"
    by blast
  then have "cancel_turn (sv\<lparr>sv_execution := port\<rparr>) depth' i key v = (Inr (202, json_sorted ?body), v)"
    if "store v = store w'" for port depth' v
    using that dg
    by (simp add: cancel_turn_def prior_or_def idempotency_check_def pbind_def plift_def read_store_def pseq_def
        raise_if_def preturn_def Let_def)
  ultimately show ?thesis using ins(2,3) by simp
qed

definition demo_closed :: ledger where
  "demo_closed = demo_family\<lparr>l_turns := map (\<lambda>t. t\<lparr>tn_state := ''completed''\<rparr>) (l_turns demo_family)\<rparr>"

lemma late_cancel_harmless_witness:
  "\<exists>body w'. cancel_turn demo_service 2 ''t1'' ''key'' (demo_ledger_world demo_closed) = (Inr (202, body), w') \<and>
     body_get body ''accepted'' = Some (JBool False) \<and> l_turns (store w') = l_turns demo_closed \<and>
     cancel_turn (demo_service\<lparr>sv_execution := None\<rparr>) 0 ''t1'' ''key'' w' = (Inr (202, json_sorted body), w')"
proof -
  let ?w = "demo_ledger_world demo_closed"
  have ctx: "case turn_context (store ?w) ''t1'' of Some (t, s, p, ws) \<Rightarrow> tn_state t \<in> set terminal_states | None \<Rightarrow> False"
    by code_simp
  then obtain turn s p ws where t: "turn_context (store ?w) ''t1'' = Some (turn, s, p, ws)" "tn_state turn \<in> set terminal_states"
    by (auto split: option.splits)
  have "case fst (cancel_turn demo_service 2 ''t1'' ''key'' ?w) of Inr (st, body) \<Rightarrow> True | Inl e \<Rightarrow> False"
    by code_simp
  then obtain st body where "fst (cancel_turn demo_service 2 ''t1'' ''key'' ?w) = Inr (st, body)"
    by (auto split: sum.splits)
  moreover define w' where "w' = snd (cancel_turn demo_service 2 ''t1'' ''key'' ?w)"
  ultimately have run: "cancel_turn demo_service 2 ''t1'' ''key'' ?w = (Inr (st, body), w')"
    using run_split by metis
  have fresh: "find_receipt (store ?w) (''POST:/turns/'' @ ''t1'' @ ''/cancel'') ''key'' = None"
    by (simp add: demo_ledger_world_def demo_closed_def demo_family_def find_receipt_def)
  note late = late_cancel_harmless [OF t run fresh]
  from late have "st = 202" "body_get body ''accepted'' = Some (JBool False)" by (simp_all add: body_get_def)
  moreover from late have "l_turns (store w') = l_turns demo_closed" by (simp add: demo_ledger_world_def)
  moreover from late have "cancel_turn (demo_service\<lparr>sv_execution := None\<rparr>) 0 ''t1'' ''key'' w' = (Inr (202, json_sorted body), w')"
    by blast
  ultimately show ?thesis using run by blast
qed

end
