(* ===== verification/Wire_Protocol.thy ===== *)
theory Wire_Protocol
  imports Product_Records Json_Parse
begin

text \<open>
  The edge of the wire protocol: the closed set of error families and the projection of internal
  errors onto it (\<open>wire/errors.py\<close>), the request envelope and the opaque session cursors
  (\<open>wire/envelope.py\<close>). A byte string is a list of characters. A handler is a ledger program that
  answers with a value or with the \<open>WireError\<close> it raised; every other exception is raised in the
  program. SHA-256 is the parameter \<open>sha\<close>, from bytes to bytes; HMAC is written out over it.
\<close>

section \<open>Error families\<close>

definition families :: "string list" where
  "families =
    [''UNAVAILABLE'', ''UNAUTHENTICATED'', ''FORBIDDEN'', ''NOT_FOUND'', ''CONFLICT_VERSION'', ''CONFLICT_REQUEST'',
     ''CONFLICT_REFERENCE'', ''INVALID_REQUEST'', ''CAPABILITY_UNSUPPORTED'', ''OUTCOME_UNKNOWN'',
     ''WORKER_UNREACHABLE'', ''APPROVAL_INVALID'']"

text \<open>\<open>_BY_CODE\<close>\<close>

definition family_table :: "(string \<times> string) list" where
  "family_table =
    [(''IDEMPOTENCY_CONFLICT'', ''CONFLICT_REQUEST''), (''ENTERPRISE_STATE_CONFLICT'', ''CONFLICT_REQUEST''),
     (''PROFILE_REVISION_CONFLICT'', ''CONFLICT_VERSION''), (''RECORD_VERSION_CONFLICT'', ''CONFLICT_VERSION''),
     (''QUEUE_VERSION_CONFLICT'', ''CONFLICT_VERSION''), (''APPROVAL_VERSION_CONFLICT'', ''CONFLICT_VERSION''),
     (''REFERENCE_CONFLICT'', ''CONFLICT_REFERENCE''), (''APPROVAL_INVALID'', ''APPROVAL_INVALID''),
     (''APPROVAL_STALE'', ''APPROVAL_INVALID''), (''APPROVAL_EXPIRED'', ''APPROVAL_INVALID''),
     (''WORKSPACE_NOT_FOUND'', ''NOT_FOUND''), (''PROFILE_NOT_FOUND'', ''NOT_FOUND''), (''SESSION_NOT_FOUND'', ''NOT_FOUND''),
     (''TURN_NOT_FOUND'', ''NOT_FOUND''), (''QUEUE_ITEM_NOT_FOUND'', ''NOT_FOUND''), (''APPROVAL_NOT_FOUND'', ''NOT_FOUND''),
     (''CREDENTIAL_NOT_FOUND'', ''NOT_FOUND''), (''PROVIDER_MODEL_NOT_FOUND'', ''NOT_FOUND''),
     (''REQUEST_INVALID'', ''INVALID_REQUEST''), (''REQUEST_TOO_LARGE'', ''INVALID_REQUEST''),
     (''SECRET_FIELD_FORBIDDEN'', ''INVALID_REQUEST''), (''PROFILE_CONFIGURATION_INVALID'', ''INVALID_REQUEST''),
     (''TURN_OVERRIDES_INVALID'', ''INVALID_REQUEST''), (''ENVIRONMENT_INVALID'', ''INVALID_REQUEST''),
     (''LOCAL_PATH_INVALID'', ''INVALID_REQUEST''), (''LOCAL_PATH_NOT_DIRECTORY'', ''INVALID_REQUEST''),
     (''LOCAL_PATH_MISSING'', ''NOT_FOUND''), (''LOCAL_PATH_NOT_READABLE'', ''FORBIDDEN''),
     (''LOCAL_PATH_FORBIDDEN'', ''FORBIDDEN''), (''SSH_TARGET_INVALID'', ''INVALID_REQUEST''),
     (''SSH_IDENTITY_INVALID'', ''INVALID_REQUEST''), (''ATTACHMENT_INVALID'', ''INVALID_REQUEST''),
     (''AUTHENTICATION_REQUIRED'', ''UNAUTHENTICATED''), (''LOOPBACK_POLICY_REJECTED'', ''FORBIDDEN''),
     (''CAPABILITY_UNSUPPORTED'', ''CAPABILITY_UNSUPPORTED''), (''HARNESS_UNAVAILABLE'', ''CAPABILITY_UNSUPPORTED''),
     (''EXECUTION_CAPABILITY_UNAVAILABLE'', ''UNAVAILABLE''), (''WSL_CONNECTOR_UNAVAILABLE'', ''UNAVAILABLE''),
     (''SSH_CONNECTOR_UNAVAILABLE'', ''UNAVAILABLE''), (''SSH_WORKER_UNAVAILABLE'', ''UNAVAILABLE''),
     (''SSH_WORKER_DIGEST_MISMATCH'', ''UNAVAILABLE''), (''SSH_UNREACHABLE'', ''WORKER_UNREACHABLE''),
     (''LOCAL_SANDBOX_UNAVAILABLE'', ''UNAVAILABLE''), (''LOCAL_PATH_UNAVAILABLE'', ''UNAVAILABLE''),
     (''CREDENTIAL_SOURCE_NOT_AUTHORIZED'', ''UNAVAILABLE''), (''SERVICE_UNAVAILABLE'', ''UNAVAILABLE''),
     (''WORKER_DISCONNECTED'', ''WORKER_UNREACHABLE''), (''WORKER_UNREACHABLE'', ''WORKER_UNREACHABLE''),
     (''DISPATCH_AMBIGUOUS'', ''OUTCOME_UNKNOWN''), (''OUTCOME_UNKNOWN'', ''OUTCOME_UNKNOWN''),
     (''QUEUE_ITEM_TOO_LATE'', ''CONFLICT_REQUEST''), (''PROFILE_RECOVERY_REQUIRED'', ''CONFLICT_REQUEST''),
     (''PROFILE_ARCHIVED'', ''CONFLICT_REQUEST''), (''SESSION_ARCHIVED'', ''CONFLICT_REQUEST''),
     (''WORKSPACE_ARCHIVED'', ''CONFLICT_REQUEST''), (''TURN_CONCURRENCY_CONFLICT'', ''CONFLICT_REQUEST''),
     (''PROFILE_HARNESS_MISMATCH'', ''CONFLICT_REQUEST''), (''SESSION_STORE_GUARD_UNAVAILABLE'', ''CONFLICT_REQUEST''),
     (''SESSION_STORE_CREDENTIALS_PRESENT'', ''CONFLICT_REQUEST''), (''SESSION_STORE_GUARD_STRUCTURE'', ''CONFLICT_REQUEST''),
     (''SESSION_BUSY'', ''CONFLICT_REQUEST''), (''EVENT_CURSOR_AHEAD'', ''INVALID_REQUEST''),
     (''EVENT_CURSOR_EXPIRED'', ''INVALID_REQUEST''), (''CATALOG_INVALID'', ''INVALID_REQUEST''),
     (''CATALOG_SOURCE_MISSING'', ''INVALID_REQUEST''), (''CATALOG_ORIGIN_MISSING'', ''INVALID_REQUEST''),
     (''CATALOG_ENTRY_UNKNOWN'', ''INVALID_REQUEST'')]"

definition family_for :: "string \<Rightarrow> string" where
  "family_for code =
    (case map_of family_table code of
       Some f \<Rightarrow> f
     | None \<Rightarrow> if code \<in> set families then code else ''UNAVAILABLE'')"

definition converge_family :: "string \<Rightarrow> (string \<times> json) list \<Rightarrow> string \<times> (string \<times> json) list" where
  "converge_family v details =
    (let family = family_for v in
     (family, if family \<noteq> v \<and> ''internalCode'' \<notin> fst ` set details
        then details @ [(''internalCode'', JStr v)] else details))"

record wire_error =
  we_family :: string
  we_message :: string
  we_details :: "(string \<times> json) list"
  we_current :: "json option"

text \<open>\<open>WireError(family, message, details)\<close>: \<open>__post_init__\<close> converges the family.\<close>

definition new_wire_error :: "string \<Rightarrow> string \<Rightarrow> (string \<times> json) list \<Rightarrow> wire_error" where
  "new_wire_error family message details =
    (let (f, ds) = converge_family family details in
     \<lparr>we_family = f, we_message = message, we_details = ds, we_current = None\<rparr>)"

definition invalid_request :: "string \<Rightarrow> wire_error" where
  "invalid_request message = new_wire_error ''INVALID_REQUEST'' message []"

definition is_server_error :: "exn \<Rightarrow> bool" where
  "is_server_error e \<longleftrightarrow> (case exn_cls e of ServerError status retry current \<Rightarrow> True | _ \<Rightarrow> False)"

text \<open>\<open>from_server_error\<close> of an exception that is a \<open>ServerError\<close>; one without a code cannot be built.\<close>

definition from_server_error :: "exn \<Rightarrow> wire_error" where
  "from_server_error e =
    (let code = (case exn_code e of None \<Rightarrow> ''UNAVAILABLE'' | Some c \<Rightarrow> c) in
     case exn_cls e of
       ServerError status retry current \<Rightarrow>
         (new_wire_error (family_for code) (exn_msg e)
            [(''internalCode'', JStr code), (''retryable'', JBool retry)])
           \<lparr>we_current := (case current of None \<Rightarrow> None | Some t \<Rightarrow> json_loads t)\<rparr>
     | _ \<Rightarrow> new_wire_error (family_for code) ''Server operation failed'' [(''internalCode'', JStr code)])"

definition error_body :: "wire_error \<Rightarrow> json" where
  "error_body e = JDict ([(''code'', JStr (we_family e)), (''message'', JStr (we_message e))]
    @ (if we_details e = [] then [] else [(''details'', JDict (we_details e))])
    @ (case we_current e of None \<Rightarrow> [] | Some c \<Rightarrow> [(''current'', c)]))"

section \<open>The envelope\<close>

fun split_at_char :: "char \<Rightarrow> string \<Rightarrow> string list" where
  "split_at_char c [] = [[]]"
| "split_at_char c (x # xs) =
    (if x = c then [] # split_at_char c xs
     else (case split_at_char c xs of [] \<Rightarrow> [[x]] | p # ps \<Rightarrow> (x # p) # ps))"

definition alnum :: "char \<Rightarrow> bool" where
  "alnum c \<longleftrightarrow> is_lower c \<or> is_upper c \<or> is_digit c"

text \<open>\<open>^[a-z][a-zA-Z0-9]*(\.[a-z][a-zA-Z0-9]*)+$\<close>; the dollar sign also matches before a final newline.\<close>

definition method_word :: "string \<Rightarrow> bool" where
  "method_word s \<longleftrightarrow> (case s of [] \<Rightarrow> False | c # cs \<Rightarrow> is_lower c \<and> list_all alnum cs)"

definition method_name_ok :: "string \<Rightarrow> bool" where
  "method_name_ok s \<longleftrightarrow>
    (let body = (if s \<noteq> [] \<and> code_of (last s) = 10 then butlast s else s); parts = split_at_char (CHR ''.'') body in
     2 \<le> length parts \<and> list_all method_word parts)"

definition decode_request :: "json \<Rightarrow> wire_error + json \<times> string \<times> (string \<times> json) list" where
  "decode_request body =
    (case body of
       JDict kvs \<Rightarrow>
         if map_of kvs ''jsonrpc'' \<noteq> Some (JStr ''2.0'') then Inl (invalid_request (''jsonrpc must be exactly '' @ py_repr ''2.0''))
         else (case map_of kvs ''id'' of
             Some i \<Rightarrow>
               if \<not> (case i of JStr s \<Rightarrow> True | JInt n \<Rightarrow> True | _ \<Rightarrow> False) then Inl (invalid_request ''id must be a string or number'')
               else (case map_of kvs ''method'' of
                   Some (JStr m) \<Rightarrow>
                     if \<not> method_name_ok m then Inl (invalid_request ''method is not a wire/1 method name'')
                     else (case (case map_of kvs ''params'' of None \<Rightarrow> JDict [] | Some p \<Rightarrow> p) of
                         JDict ps \<Rightarrow>
                           if fst ` set kvs \<subseteq> set [''jsonrpc'', ''id'', ''method'', ''params''] then Inr (i, m, ps)
                           else Inl (invalid_request ''Request carries unknown members'')
                       | _ \<Rightarrow> Inl (invalid_request ''params must be an object''))
                 | _ \<Rightarrow> Inl (invalid_request ''method is not a wire/1 method name''))
           | None \<Rightarrow> Inl (invalid_request ''id must be a string or number''))
     | _ \<Rightarrow> Inl (invalid_request ''Request must be a JSON object''))"

definition encode_result :: "json \<Rightarrow> json \<Rightarrow> json" where
  "encode_result i r = JDict [(''jsonrpc'', JStr ''2.0''), (''id'', i), (''result'', r)]"

definition encode_error :: "json \<Rightarrow> wire_error \<Rightarrow> json" where
  "encode_error i e = JDict [(''jsonrpc'', JStr ''2.0''), (''id'', i), (''error'', error_body e)]"

end
