(* ===== verification/Wire_Cursor.thy ===== *)
theory Wire_Cursor
  imports Wire_Protocol
begin

text \<open>
  The opaque session cursors of \<open>wire/envelope.py\<close>: a payload that names a generation, a session
  and a position, and the first twelve bytes of its HMAC in URL-safe base64. The library functions
  the codec uses are written out: HMAC over the parameter \<open>sha\<close>, base64 as \<open>binascii\<close> reads it
  (characters outside the alphabet are skipped, reading stops at a complete padding), \<open>str.split\<close>
  with a limit, and \<open>int\<close> of a text.
\<close>

section \<open>Bytes\<close>

unbundle bit_operations_syntax

definition utf8 :: "string \<Rightarrow> string" where
  "utf8 s = concat (map (\<lambda>c. if code_of c < 128 then [c]
     else [char_of (192 + code_of c div 64), char_of (128 + code_of c mod 64)]) s)"

definition xor_pad :: "nat \<Rightarrow> string \<Rightarrow> string" where
  "xor_pad n bs = map (\<lambda>c. char_of (code_of c XOR n)) bs"

text \<open>\<open>hmac.new(key, text, sha256).digest()\<close> for a key of at most one block.\<close>

definition hmac :: "(string \<Rightarrow> string) \<Rightarrow> string \<Rightarrow> string \<Rightarrow> string" where
  "hmac sha key text =
    (let block = key @ replicate (64 - length key) (char_of (0 :: nat)) in
     sha (xor_pad 92 block @ sha (xor_pad 54 block @ text)))"

section \<open>Base64\<close>

definition b64_char :: "nat \<Rightarrow> char" where
  "b64_char n =
    (if n < 26 then char_of (65 + n) else if n < 52 then char_of (71 + n) else if n < 62 then char_of (n - 4)
     else if n = 62 then CHR ''-'' else CHR ''_'')"

text \<open>\<open>urlsafe_b64encode(bytes).rstrip("=")\<close>\<close>

fun b64_encode :: "string \<Rightarrow> string" where
  "b64_encode (a # b # c # bs) =
    (let x = code_of a; y = code_of b; z = code_of c in
     b64_char (x div 4) # b64_char (x mod 4 * 16 + y div 16) # b64_char (y mod 16 * 4 + z div 64)
       # b64_char (z mod 64) # b64_encode bs)"
| "b64_encode [a, b] =
    (let x = code_of a; y = code_of b in
     [b64_char (x div 4), b64_char (x mod 4 * 16 + y div 16), b64_char (y mod 16 * 4)])"
| "b64_encode [a] = (let x = code_of a in [b64_char (x div 4), b64_char (x mod 4 * 16)])"
| "b64_encode [] = []"

text \<open>After the translation of \<open>-_\<close> to \<open>+/\<close> both spellings stand for 62 and 63.\<close>

definition b64_value :: "char \<Rightarrow> nat option" where
  "b64_value c =
    (let n = code_of c in
     if is_upper c then Some (n - 65) else if is_lower c then Some (n - 71) else if is_digit c then Some (n + 4)
     else if c = CHR ''-'' \<or> c = CHR ''+'' then Some 62 else if c = CHR ''_'' \<or> c = CHR ''/'' then Some 63 else None)"

text \<open>
  \<open>binascii.a2b_base64\<close>: the position in the group of four, the bits left over and the number of
  padding characters seen in this group.
\<close>

fun a2b :: "nat \<Rightarrow> nat \<Rightarrow> nat \<Rightarrow> string \<Rightarrow> string option" where
  "a2b q left pads [] = (if q = 0 then Some [] else None)"
| "a2b q left pads (c # cs) =
    (if c = CHR ''='' then
       (if 2 \<le> q then (if 4 \<le> q + pads + 1 then Some [] else a2b q left (pads + 1) cs) else a2b q left pads cs)
     else (case b64_value c of
         None \<Rightarrow> a2b q left pads cs
       | Some v \<Rightarrow>
           if q = 0 then a2b 1 v 0 cs
           else if q = 1 then map_option (Cons (char_of (left * 4 + v div 16))) (a2b 2 (v mod 16) 0 cs)
           else if q = 2 then map_option (Cons (char_of (left * 16 + v div 4))) (a2b 3 (v mod 4) 0 cs)
           else map_option (Cons (char_of (left * 64 + v))) (a2b 0 0 0 cs)))"

definition b64_decode :: "string \<Rightarrow> string option" where
  "b64_decode s = (if list_all (\<lambda>c. code_of c < 128) s then a2b 0 0 0 s else None)"

text \<open>\<open>"=" * (-len(s) % 4)\<close>\<close>

definition b64_padding :: "string \<Rightarrow> string" where
  "b64_padding s = replicate ((4 - length s mod 4) mod 4) (CHR ''='')"

section \<open>int of a text\<close>

text \<open>Digits with single underscores between them.\<close>

fun int_digits :: "string \<Rightarrow> string option" where
  "int_digits [] = None"
| "int_digits [c] = (if is_digit c then Some [c] else None)"
| "int_digits (c # d # cs) =
    (if \<not> is_digit c then None
     else map_option (Cons c) (if d = CHR ''_'' then int_digits cs else int_digits (d # cs)))"

definition py_int :: "string \<Rightarrow> int option" where
  "py_int s =
    (let t = py_strip s; signed = t \<noteq> [] \<and> (hd t = CHR ''-'' \<or> hd t = CHR ''+''); body = (if signed then tl t else t) in
     case int_digits body of
       None \<Rightarrow> None
     | Some ds \<Rightarrow> if 4300 < int (length ds) then None
         else Some (if signed \<and> hd t = CHR ''-'' then - int (read_nat 0 ds) else int (read_nat 0 ds)))"

section \<open>The codec\<close>

record codec =
  co_sha :: "string \<Rightarrow> string"
  co_key :: string

definition cursor_codec :: "(string \<Rightarrow> string) \<Rightarrow> string \<Rightarrow> codec" where
  "cursor_codec sha secret = \<lparr>co_sha = sha, co_key = sha secret\<rparr>"

definition cursor_prefix :: string where "cursor_prefix = ''w1''"
definition older_cursor_prefix :: string where "older_cursor_prefix = ''w1o''"

definition signature :: "codec \<Rightarrow> string \<Rightarrow> string" where
  "signature co payload = take 12 (hmac (co_sha co) (co_key co) (utf8 payload))"

definition cursor_payload :: "string \<Rightarrow> string \<Rightarrow> string \<Rightarrow> string" where
  "cursor_payload generation session raw = generation @ '':'' @ session @ '':'' @ raw"

definition cursor_mint :: "codec \<Rightarrow> string \<Rightarrow> string \<Rightarrow> int \<Rightarrow> string" where
  "cursor_mint co generation session seq =
    (let payload = cursor_payload generation session (show_int seq) in
     payload @ '':'' @ b64_encode (signature co payload))"

definition cursor_encode :: "codec \<Rightarrow> string \<Rightarrow> int \<Rightarrow> string" where
  "cursor_encode co session seq = cursor_mint co cursor_prefix session seq"

definition cursor_encode_older :: "codec \<Rightarrow> string \<Rightarrow> int \<Rightarrow> string" where
  "cursor_encode_older co session seq = cursor_mint co older_cursor_prefix session seq"

text \<open>\<open>s.split(":", n)\<close>\<close>

fun split_colon :: "nat \<Rightarrow> string \<Rightarrow> string list" where
  "split_colon 0 s = [s]"
| "split_colon (Suc n) s =
    (if CHR '':'' \<in> set s
     then takeWhile (\<lambda>c. c \<noteq> CHR '':'') s # split_colon n (tl (dropWhile (\<lambda>c. c \<noteq> CHR '':'') s))
     else [s])"

definition cursor_read :: "codec \<Rightarrow> string \<Rightarrow> string \<Rightarrow> string option \<Rightarrow> wire_error + string \<times> int" where
  "cursor_read co cursor expected_generation expected =
    (case split_colon 3 cursor of
       [generation, session, raw, raw_signature] \<Rightarrow>
         if generation \<noteq> expected_generation then Inl (invalid_request ''cursor generation is not supported'')
         else (case b64_decode (raw_signature @ b64_padding raw_signature) of
             None \<Rightarrow> Inl (invalid_request ''cursor signature is malformed'')
           | Some provided \<Rightarrow>
               if provided \<noteq> signature co (cursor_payload generation session raw)
                 then Inl (invalid_request ''cursor signature did not verify'')
               else if expected \<noteq> None \<and> expected \<noteq> Some session
                 then Inl (invalid_request ''cursor belongs to a different session'')
               else (case py_int raw of
                   None \<Rightarrow> Inl (invalid_request ''cursor position is malformed'')
                 | Some seq \<Rightarrow>
                     if seq < 0 then Inl (invalid_request ''cursor position is malformed'') else Inr (session, seq)))
     | _ \<Rightarrow> Inl (invalid_request ''cursor is not a wire/1 cursor''))"

definition cursor_decode :: "codec \<Rightarrow> string \<Rightarrow> string option \<Rightarrow> wire_error + string \<times> int" where
  "cursor_decode co cursor expected = cursor_read co cursor cursor_prefix expected"

definition cursor_decode_older :: "codec \<Rightarrow> string \<Rightarrow> string option \<Rightarrow> wire_error + string \<times> int" where
  "cursor_decode_older co cursor expected = cursor_read co cursor older_cursor_prefix expected"

section \<open>Base64 reads back what it wrote\<close>

lemma b64_char_value:
  assumes "n < 64"
  shows "b64_value (b64_char n) = Some n" "b64_char n \<noteq> CHR ''=''" "code_of (b64_char n) < 128" "b64_char n \<noteq> CHR '':''"
proof -
  consider "n < 26" | "26 \<le> n" "n < 52" | "52 \<le> n" "n < 62" | "n = 62" | "n = 63" using assms by linarith
  then have "b64_value (b64_char n) = Some n \<and> code_of (b64_char n) < 128 \<and> code_of (b64_char n) \<notin> {58, 61}"
    by cases (auto simp: b64_char_def b64_value_def Let_def is_upper_def is_lower_def is_digit_def code_of_def)
  then show "b64_value (b64_char n) = Some n" "b64_char n \<noteq> CHR ''=''" "code_of (b64_char n) < 128"
    "b64_char n \<noteq> CHR '':''"
    by (auto simp: code_of_def)
qed

lemma a2b_step:
  assumes "n < 64"
  shows "a2b 0 l p (b64_char n # cs) = a2b 1 n 0 cs"
    "a2b 1 l p (b64_char n # cs) = map_option (Cons (char_of (l * 4 + n div 16))) (a2b 2 (n mod 16) 0 cs)"
    "a2b 2 l p (b64_char n # cs) = map_option (Cons (char_of (l * 16 + n div 4))) (a2b 3 (n mod 4) 0 cs)"
    "a2b 3 l p (b64_char n # cs) = map_option (Cons (char_of (l * 64 + n))) (a2b 0 0 0 cs)"
  using b64_char_value [OF assms] by simp_all

lemma a2b_pad: "a2b 2 l 0 ''=='' = Some []" "a2b 3 l 0 ''='' = Some []" "a2b 0 l p [] = Some []"
  by simp_all

lemma byte_split:
  "code_of a div 4 < 64" "code_of a mod 4 * 16 + code_of b div 16 < 64" "code_of b mod 16 * 4 + code_of c div 64 < 64"
  "code_of c mod 64 < 64" "code_of a mod 4 * 16 < 64" "code_of b mod 16 * 4 < 64"
  using code_of_less [of a] code_of_less [of b] code_of_less [of c] by auto

lemma char_code: "char_of (code_of c) = c"
  by (simp add: code_of_def)

lemma sextets:
  fixes x y z :: nat
  assumes "y < 256" "z < 256"
  shows "x div 4 * 4 + (x mod 4 * 16 + y div 16) div 16 = x"
    "(x mod 4 * 16 + y div 16) mod 16 * 16 + (y mod 16 * 4 + z div 64) div 4 = y"
    "(y mod 16 * 4 + z div 64) mod 4 * 64 + z mod 64 = z"
    "x div 4 * 4 + (x mod 4 * 16) div 16 = x" "(x mod 4 * 16 + y div 16) mod 16 * 16 + (y mod 16 * 4) div 4 = y"
proof -
  have "y div 16 < 16" "z div 64 < 4" using assms by auto
  then show "x div 4 * 4 + (x mod 4 * 16 + y div 16) div 16 = x"
    "(x mod 4 * 16 + y div 16) mod 16 * 16 + (y mod 16 * 4 + z div 64) div 4 = y"
    "(y mod 16 * 4 + z div 64) mod 4 * 64 + z mod 64 = z"
    "x div 4 * 4 + (x mod 4 * 16) div 16 = x" "(x mod 4 * 16 + y div 16) mod 16 * 16 + (y mod 16 * 4) div 4 = y"
    by simp_all
qed

lemma b64_padding_Cons4: "b64_padding (a # b # c # d # s) = b64_padding s"
  by (simp add: b64_padding_def)

lemma b64_padding_rest: "b64_padding [a, b] = ''==''" "b64_padding [a, b, c] = ''=''" "b64_padding [] = []"
  by (simp_all add: b64_padding_def numeral_2_eq_2)

lemmas b64_steps = b64_encode.simps Let_def append_Cons append_Nil b64_padding_Cons4 b64_padding_rest a2b_step [OF byte_split(1)]
  a2b_step [OF byte_split(2)] a2b_step [OF byte_split(3)] a2b_step [OF byte_split(4)] a2b_step [OF byte_split(5)]
  a2b_step [OF byte_split(6)] a2b_pad sextets [OF code_of_less code_of_less] char_code option.map

lemma a2b_encode: "a2b 0 l p (b64_encode bs @ b64_padding (b64_encode bs)) = Some bs"
proof (induction bs arbitrary: l p rule: b64_encode.induct)
  case (1 a b c bs)
  then show ?case by (simp only: b64_steps)
qed (simp_all only: b64_steps)

lemma b64_ascii: "list_all (\<lambda>c. code_of c < 128 \<and> c \<noteq> CHR '':'') (b64_encode bs)"
  by (induction bs rule: b64_encode.induct) (simp_all add: Let_def b64_char_value byte_split)

lemma b64_padding_ascii: "list_all (\<lambda>c. code_of c < 128) (b64_padding s)"
  by (simp add: b64_padding_def list_all_length code_of_def)

lemma b64_round_trip: "b64_decode (b64_encode bs @ b64_padding (b64_encode bs)) = Some bs"
proof -
  have "list_all (\<lambda>c. code_of c < 128) (b64_encode bs)"
    using b64_ascii [of bs] by (rule list.pred_mono_strong) simp
  then show ?thesis by (simp add: b64_decode_def b64_padding_ascii a2b_encode)
qed

section \<open>A position reads back\<close>

lemma int_digits_all: "list_all is_digit s \<Longrightarrow> s \<noteq> [] \<Longrightarrow> int_digits s = Some s"
  by (induction s rule: int_digits.induct) (auto simp: is_digit_def code_of_def)

lemma digit_facts: "is_digit c \<Longrightarrow> \<not> py_space c \<and> c \<noteq> CHR ''-'' \<and> c \<noteq> CHR ''+'' \<and> c \<noteq> CHR '':''"
  by (auto simp: is_digit_def py_space_def Let_def code_of_def)

lemma strip_digits: "list_all is_digit s \<Longrightarrow> py_strip s = s"
proof -
  assume "list_all is_digit s"
  then have "c \<in> set s \<Longrightarrow> \<not> py_space c" for c by (simp add: list_all_iff digit_facts)
  then have keep: "dropWhile py_space t = t" if "set t \<subseteq> set s" for t using that by (cases t) auto
  show ?thesis by (simp add: py_strip_def keep)
qed

lemma py_int_show:
  assumes "length (show_nat n) \<le> 4300"
  shows "py_int (show_nat n) = Some (int n)"
proof -
  have "list_all is_digit (show_nat n)" by (simp add: list_all_iff show_nat_digits)
  moreover from this have "hd (show_nat n) \<noteq> CHR ''-''" "hd (show_nat n) \<noteq> CHR ''+''"
    using digit_facts [OF show_nat_hd] by auto
  ultimately show ?thesis using assms by (simp add: py_int_def strip_digits int_digits_all read_show_nat Let_def)
qed

lemma show_nat_length: "n < 10 ^ k \<Longrightarrow> 0 < k \<Longrightarrow> length (show_nat n) \<le> k"
proof (induction k arbitrary: n)
  case (Suc k)
  show ?case
  proof (cases "n < 10")
    case True
    then show ?thesis by (subst show_nat.simps) simp
  next
    case False
    with Suc.prems have "n div 10 < 10 ^ k" by (simp add: less_mult_imp_div_less)
    moreover from False this have "0 < k" by (cases k) auto
    ultimately have "length (show_nat (n div 10)) \<le> k" by (rule Suc.IH)
    with False show ?thesis by (subst show_nat.simps) simp
  qed
qed simp

section \<open>What a cursor that is accepted is\<close>

lemma split_colon_0: "split_colon n s = [s]" if "CHR '':'' \<notin> set s"
  using that by (cases n) auto

lemma split_colon_app: "CHR '':'' \<notin> set a \<Longrightarrow> split_colon (Suc n) (a @ '':'' @ s) = a # split_colon n s"
  by (simp add: takeWhile_append dropWhile_append)

lemma split_colon_four:
  "split_colon 3 c = [p, s, r, g] \<longleftrightarrow>
     c = p @ '':'' @ s @ '':'' @ r @ '':'' @ g \<and> CHR '':'' \<notin> set p \<and> CHR '':'' \<notin> set s \<and> CHR '':'' \<notin> set r"
proof
  assume split: "split_colon 3 c = [p, s, r, g]"
  have step: "\<exists>z. x = y @ '':'' @ z \<and> CHR '':'' \<notin> set y \<and> split_colon n z = ys"
    if eq: "split_colon (Suc n) x = y # ys" and ne: "ys \<noteq> []" for n x y ys
  proof -
    have "CHR '':'' \<in> set x" using eq ne by (auto split: if_splits)
    then obtain a z where x: "x = a @ CHR '':'' # z" "CHR '':'' \<notin> set a" using split_list_first by metis
    then have "split_colon (Suc n) x = a # split_colon n z" using split_colon_app [of a n z] by simp
    with x eq show ?thesis by auto
  qed
  from split have "split_colon (Suc 2) c = p # [s, r, g]" by (simp add: numeral_3_eq_3 numeral_2_eq_2)
  from step [OF this] obtain z where z: "c = p @ '':'' @ z" "CHR '':'' \<notin> set p" "split_colon (Suc 1) z = s # [r, g]"
    by (auto simp: numeral_2_eq_2)
  from step [OF z(3)] obtain y where y: "z = s @ '':'' @ y" "CHR '':'' \<notin> set s" "split_colon (Suc 0) y = r # [g]" by auto
  from step [OF y(3)] y z show "c = p @ '':'' @ s @ '':'' @ r @ '':'' @ g \<and> CHR '':'' \<notin> set p \<and> CHR '':'' \<notin> set s \<and> CHR '':'' \<notin> set r"
    by auto
next
  assume "c = p @ '':'' @ s @ '':'' @ r @ '':'' @ g \<and> CHR '':'' \<notin> set p \<and> CHR '':'' \<notin> set s \<and> CHR '':'' \<notin> set r"
  then show "split_colon 3 c = [p, s, r, g]"
    using split_colon_app [of p 2 "s @ '':'' @ r @ '':'' @ g"] split_colon_app [of s 1 "r @ '':'' @ g"] split_colon_app [of r 0 g]
    by (simp add: numeral_3_eq_3 numeral_2_eq_2)
qed

lemma cursor_read_Inr:
  "cursor_read co c gen expected = Inr (s, n) \<longleftrightarrow>
     (\<exists>raw sig. c = cursor_payload gen s raw @ '':'' @ sig \<and>
        CHR '':'' \<notin> set gen \<and> CHR '':'' \<notin> set s \<and> CHR '':'' \<notin> set raw \<and>
        b64_decode (sig @ b64_padding sig) = Some (signature co (cursor_payload gen s raw)) \<and>
        (expected = None \<or> expected = Some s) \<and> py_int raw = Some n \<and> 0 \<le> n)"
  (is "?l \<longleftrightarrow> ?r")
proof
  assume ?l
  then obtain p raw sig where parts: "split_colon 3 c = [p, s, raw, sig]" and "p = gen"
    "b64_decode (sig @ b64_padding sig) = Some (signature co (cursor_payload gen s raw))"
    "expected = None \<or> expected = Some s" "py_int raw = Some n" "0 \<le> n"
    by (auto simp: cursor_read_def split: list.splits if_splits option.splits)
  then show ?r unfolding split_colon_four cursor_payload_def by fastforce
next
  assume ?r
  then obtain raw sig where c: "c = cursor_payload gen s raw @ '':'' @ sig" "CHR '':'' \<notin> set gen" "CHR '':'' \<notin> set s"
    "CHR '':'' \<notin> set raw" "b64_decode (sig @ b64_padding sig) = Some (signature co (cursor_payload gen s raw))"
    "expected = None \<or> expected = Some s" "py_int raw = Some n" "0 \<le> n" by blast
  then have "split_colon 3 c = [gen, s, raw, sig]" unfolding split_colon_four cursor_payload_def by simp
  with c show ?l by (auto simp: cursor_read_def)
qed

lemma cursor_read_mint:
  assumes "CHR '':'' \<notin> set gen" "CHR '':'' \<notin> set s" "0 \<le> n" "n < 2 ^ 63" "expected = None \<or> expected = Some s"
  shows "cursor_read co (cursor_mint co gen s n) gen expected = Inr (s, n)"
proof -
  from assms(3,4) have "nat n < 10 ^ 19" by (simp add: nat_less_iff)
  then have "length (show_nat (nat n)) \<le> 19" by (rule show_nat_length) simp
  then have "py_int (show_int n) = Some n" using assms(3) by (simp add: show_int_def py_int_show)
  moreover have "CHR '':'' \<notin> set (show_int n)"
    using assms(3) digit_facts [OF show_nat_digits] by (auto simp: show_int_def)
  ultimately show ?thesis
    unfolding cursor_read_Inr cursor_mint_def Let_def using assms b64_round_trip by blast
qed

end
