(* ===== verification/Wire_Projection.thy ===== *)
theory Wire_Projection
  imports Wire_Cursor Subagents
begin

text \<open>
  The projection of records and stored events onto the vocabulary of the wire protocol
  (\<open>wire/projection.py\<close>). A row is the dict of its columns; an event of the log is the record
  of its table, whose data column is the value it holds.
\<close>

section \<open>Python values\<close>

definition truthy :: "json \<Rightarrow> bool" where
  "truthy v \<longleftrightarrow> v \<notin> set [JNull, JBool False, JInt 0, JStr [], JList [], JDict []]"

text \<open>\<open>a or b or c\<close>\<close>

fun first_truthy :: "json list \<Rightarrow> json" where
  "first_truthy [] = JNull"
| "first_truthy [v] = v"
| "first_truthy (v # w # vs) = (if truthy v then v else first_truthy (w # vs))"

text \<open>\<open>int(v)\<close>\<close>

definition json_int :: "json \<Rightarrow> exn + int" where
  "json_int v =
    (case v of
       JInt n \<Rightarrow> Inr n
     | JBool b \<Rightarrow> Inr (if b then 1 else 0)
     | JStr s \<Rightarrow> (case py_int s of
           None \<Rightarrow> Inl (err ValueError (''invalid literal for int() with base 10: '' @ py_repr s)) | Some n \<Rightarrow> Inr n)
     | _ \<Rightarrow> Inl (err TypeError ''int() argument must be a string or a number''))"

definition get_json :: "(string \<times> json) list \<Rightarrow> string \<Rightarrow> json" where
  "get_json kvs k = json_or_null (map_of kvs k)"

definition field_json :: "(string \<times> json) list \<Rightarrow> string \<Rightarrow> exn + json" where
  "field_json kvs k = (case map_of kvs k of None \<Rightarrow> Inl (err KeyError (py_repr k)) | Some v \<Rightarrow> Inr v)"

text \<open>\<open>dict(v)\<close> of a decoded value: an object, or a list of pairs with text keys.\<close>

definition pair_of :: "json \<Rightarrow> (string \<times> json) option" where
  "pair_of v = (case v of JList [JStr k, x] \<Rightarrow> Some (k, x) | JStr [a, b] \<Rightarrow> Some ([a], JStr [b]) | _ \<Rightarrow> None)"

definition dict_of :: "json \<Rightarrow> exn + (string \<times> json) list" where
  "dict_of v =
    (case v of
       JDict kvs \<Rightarrow> Inr kvs
     | JStr [] \<Rightarrow> Inr []
     | JList xs \<Rightarrow> (if list_all (\<lambda>x. pair_of x \<noteq> None) xs then Inr (members_dict (List.map_filter pair_of xs))
         else Inl (err TypeError ''cannot convert dictionary update sequence element to a sequence''))
     | _ \<Rightarrow> Inl (err TypeError ''object is not iterable''))"

definition mapping_or_empty :: "json \<Rightarrow> (string \<times> json) list" where
  "mapping_or_empty v = (case v of JDict kvs \<Rightarrow> kvs | _ \<Rightarrow> [])"

section \<open>Records\<close>

definition environment_json :: "json \<Rightarrow> json \<Rightarrow> json \<Rightarrow> json" where
  "environment_json kind host user = JDict [(''kind'', kind), (''host'', host), (''user'', user)]"

definition accessibility_for :: "(string \<times> json) list \<Rightarrow> json" where
  "accessibility_for row =
    (let verified = get_json row ''connection_state'' = JStr ''verified'' in
     JDict [(''readable'', JBool verified), (''writable'', JBool verified), (''executableForRole'', JNull),
       (''reasons'', JList (if verified then [] else [JStr ''connection_state_unverified'']))])"

definition row_version :: "(string \<times> json) list \<Rightarrow> exn + int" where
  "row_version row = json_int (first_truthy [get_json row ''version'', JInt 1])"

definition workspace_record :: "(string \<times> json) list \<Rightarrow> exn + json" where
  "workspace_record row =
    rbind (field_json row ''id'') (\<lambda>i.
    rbind (row_version row) (\<lambda>version.
    rbind (if truthy (get_json row ''normalized_path'') then Inr (get_json row ''normalized_path'')
           else field_json row ''remote_path'') (\<lambda>path.
    rbind (field_json row ''created_at'') (\<lambda>created.
    rbind (field_json row ''updated_at'') (\<lambda>updated.
    Inr (JDict
      [(''id'', i), (''version'', JInt version),
       (''displayName'', first_truthy [get_json row ''display_name'', get_json row ''remote_path'', i]),
       (''normalizedPath'', path),
       (''environment'', environment_json (first_truthy [get_json row ''env_kind'', JStr ''wsl''])
          (get_json row ''env_host'') (get_json row ''remote_user'')),
       (''accessibility'', accessibility_for row),
       (''connection'', JDict [(''state'', JStr (if get_json row ''connection_state'' = JStr ''verified''
          then ''connected'' else ''connecting''))]),
       (''archivedAt'', get_json row ''archived_at''), (''createdAt'', created), (''updatedAt'', updated)]))))))"

definition tri_state :: "(string \<times> json) list \<Rightarrow> string \<Rightarrow> json" where
  "tri_state row column = (case map_of row column of None \<Rightarrow> JNull | Some v \<Rightarrow> JBool (truthy v))"

definition loads_text :: "json \<Rightarrow> exn + json" where
  "loads_text v =
    (case v of
       JStr t \<Rightarrow> (case json_loads t of None \<Rightarrow> Inl (err ValueError ''Expecting value'') | Some j \<Rightarrow> Inr j)
     | _ \<Rightarrow> Inl (err TypeError ''the JSON object must be str, bytes or bytearray''))"

definition profile_record :: "(string \<times> json) list \<Rightarrow> exn + (string \<times> json) list" where
  "profile_record row =
    rbind (field_json row ''id'') (\<lambda>i.
    rbind (row_version row) (\<lambda>version.
    rbind (field_json row ''harness_type'') (\<lambda>harness.
    rbind (if truthy (get_json row ''permission_rules_json'') then loads_text (get_json row ''permission_rules_json'')
           else Inr (JList [])) (\<lambda>rules.
    rbind (field_json row ''created_at'') (\<lambda>created.
    rbind (field_json row ''updated_at'') (\<lambda>updated.
    Inr
      [(''id'', i), (''version'', JInt version),
       (''displayName'', first_truthy [get_json row ''display_name'', get_json row ''name'', i]), (''harness'', harness),
       (''accountId'', get_json row ''account_id''), (''permissionPreset'', get_json row ''permission_preset''),
       (''permissionRules'', rules), (''originProfileId'', get_json row ''origin_profile_id''),
       (''archivedAt'', get_json row ''archived_at''), (''recoveryPending'', tri_state row ''recovery_pending''),
       (''createdAt'', created), (''updatedAt'', updated)]))))))"

text \<open>A text that does not parse is an unknown fact; a value that is not a text cannot be loaded.\<close>

definition session_usage :: "(string \<times> json) list \<Rightarrow> exn + json" where
  "session_usage row =
    (let raw = get_json row ''latest_usage'' in
     if \<not> truthy raw then Inr JNull
     else (case loads_text raw of Inl e \<Rightarrow> if exn_cls e = ValueError then Inr JNull else Inl e | Inr v \<Rightarrow> Inr v))"

definition session_record :: "(string \<times> json) list \<Rightarrow> exn + json" where
  "session_record row =
    rbind (field_json row ''id'') (\<lambda>i.
    rbind (row_version row) (\<lambda>version.
    rbind (field_json row ''workspace_id'') (\<lambda>workspace.
    rbind (session_usage row) (\<lambda>usage.
    rbind (field_json row ''created_at'') (\<lambda>created.
    rbind (field_json row ''updated_at'') (\<lambda>updated.
    Inr (JDict
      [(''id'', i), (''version'', JInt version), (''workspaceId'', workspace), (''profileId'', get_json row ''profile_id''),
       (''displayName'', first_truthy [get_json row ''display_name'', i]),
       (''pinned'', JBool (truthy (get_json row ''pinned''))), (''archivedAt'', get_json row ''archived_at''),
       (''latestUsage'', usage), (''createdAt'', created), (''updatedAt'', updated)])))))))"

text \<open>A row of \<open>SELECT rowid AS catalog_rowid,* FROM server_sessions\<close>.\<close>

definition session_columns :: "nat \<Rightarrow> session_row \<Rightarrow> (string \<times> json) list" where
  "session_columns rowid r =
    [(''catalog_rowid'', JInt (int rowid)), (''id'', JStr (se_id r)), (''workspace_id'', JStr (se_workspace r)),
     (''profile_id'', JStr (se_profile r)), (''checkpoint_object_digest'', str_or_null (se_checkpoint r)),
     (''checkpoint_native_id'', str_or_null (se_native r)), (''native_platform'', str_or_null (se_platform r)),
     (''home_locator'', str_or_null (se_home r)), (''latest_usage'', str_or_null (map_option rules_text (se_usage r))),
     (''status'', JStr (se_status r)), (''display_name'', str_or_null (se_name r)), (''pinned'', JInt (se_pinned r)),
     (''version'', JInt (se_version r)), (''archived_at'', time_or_null (se_archived r)),
     (''created_at'', time_json (se_created r)), (''updated_at'', time_json (se_updated r))]"

section \<open>Executions\<close>

definition execution_state_map :: "(string \<times> string) list" where
  "execution_state_map =
    [(''accepted'', ''queued''), (''dispatching'', ''dispatched''), (''running'', ''running''), (''capturing'', ''running''),
     (''completed'', ''completed''), (''failed'', ''failed''), (''cancelled'', ''stopped''), (''unknown'', ''unknown'')]"

definition wire_state :: "string \<Rightarrow> string" where
  "wire_state st = (case map_of execution_state_map st of None \<Rightarrow> ''unknown'' | Some s \<Rightarrow> s)"

definition live_execution_states :: "string list" where
  "live_execution_states = [''queued'', ''dispatched'', ''running'']"

definition execution_state :: "(string \<times> json) list \<Rightarrow> json" where
  "execution_state row =
    (let mapped = wire_state (py_str (get_json row ''state''));
         st = (if truthy (get_json row ''stop_requested_at'') \<and> mapped = ''running'' then ''stopping'' else mapped);
         reason = first_truthy [get_json row ''terminal_reason'', get_json row ''error_code''] in
     JDict ([(''state'', JStr st)] @ (if truthy reason then [(''reason'', JStr (py_str reason))] else [])))"

section \<open>Events\<close>

definition event_kind_map :: "(string \<times> string) list" where
  "event_kind_map =
    [(''turn.accepted'', ''execution.state''), (''turn.state'', ''execution.state''), (''message.delta'', ''message.delta''),
     (''message.final'', ''message.final''), (''usage.updated'', ''usage.updated''), (''thought.delta'', ''thought.delta''),
     (''plan.updated'', ''plan.updated''), (''mode.updated'', ''mode.updated''), (''tool.update'', ''tool.update''),
     (''approval.requested'', ''approval.requested''), (''approval.settled'', ''approval.settled''),
     (''config.changed'', ''config.changed''), (''queue.updated'', ''queue.updated''),
     (''workspace.connection'', ''workspace.connection'')]"

definition state_body :: "session_event \<Rightarrow> (string \<times> json) list \<Rightarrow> json" where
  "state_body e data =
    (let mapped = wire_state (py_str (get_json data ''state''));
         st = (if truthy (get_json data ''cancel_requested'') \<and> mapped \<in> set live_execution_states then ''stopping'' else mapped);
         reason = get_json data ''error_code'' in
     JDict ([(''kind'', JStr ''execution.state''), (''sessionId'', JStr (sv_session e)),
       (''executionId'', str_or_null (sv_turn e)), (''state'', JStr st)]
       @ (if truthy reason then [(''reason'', JStr (py_str reason))] else [])))"

definition text_of :: "(string \<times> json) list \<Rightarrow> string \<Rightarrow> string \<Rightarrow> string" where
  "text_of data k absent = (case map_of data k of None \<Rightarrow> absent | Some v \<Rightarrow> py_str v)"

text \<open>\<open>str(data.get(k) or ...)\<close>\<close>

definition text_or :: "json list \<Rightarrow> json" where
  "text_or vs = JStr (py_str (first_truthy vs))"

definition message_body :: "string \<Rightarrow> session_event \<Rightarrow> (string \<times> json) list \<Rightarrow> json" where
  "message_body kind e data = JDict (
    [(''kind'', JStr kind), (''sessionId'', JStr (sv_session e)),
     (''messageId'', text_or [get_json data ''message_id'', str_or_null (sv_turn e), JStr ''message'']),
     (''text'', JStr (text_of data ''text'' []))]
    @ (if kind = ''message.delta'' then [(''role'', JStr ''assistant'')]
       else [(''role'', text_or [get_json data ''role'', JStr ''assistant'']),
             (''displayKind'', text_or [get_json data ''display_kind'', JStr ''visible''])]))"

definition usage_body :: "session_event \<Rightarrow> (string \<times> json) list \<Rightarrow> json" where
  "usage_body e data = JDict
    [(''kind'', JStr ''usage.updated''), (''sessionId'', JStr (sv_session e)),
     (''turnId'', text_or [get_json data ''turn_id'', str_or_null (sv_turn e), JStr ''turn'']),
     (''usage'', JDict (filter (\<lambda>(k, v). case v of JInt n \<Rightarrow> True | _ \<Rightarrow> False)
        (sort_key fst (mapping_or_empty (get_json data ''usage'')))))]"

definition plan_body :: "session_event \<Rightarrow> (string \<times> json) list \<Rightarrow> json" where
  "plan_body e data = JDict
    [(''kind'', JStr ''plan.updated''), (''sessionId'', JStr (sv_session e)),
     (''entries'', JList (case get_json data ''entries'' of
        JList xs \<Rightarrow> map (\<lambda>x. JDict (mapping_or_empty x)) xs | _ \<Rightarrow> []))]"

definition tool_body :: "session_event \<Rightarrow> (string \<times> json) list \<Rightarrow> json" where
  "tool_body e data = JDict (
    [(''kind'', JStr ''tool.update''), (''sessionId'', JStr (sv_session e)),
     (''toolCallId'', JStr (text_of data ''tool_call_id'' ''tool'')), (''messageId'', get_json data ''message_id''),
     (''tool'', get_json data ''tool''), (''state'', JStr (text_of data ''state'' ''requested''))]
    @ (if get_json data ''summary'' = JNull then [] else [(''summary'', JStr (py_str (get_json data ''summary'')))])
    @ (if get_json data ''result_excerpt'' = JNull then []
       else [(''resultExcerpt'', JStr (py_str (get_json data ''result_excerpt'')))]))"

definition scalar :: "json \<Rightarrow> bool" where
  "scalar v \<longleftrightarrow> (case v of JStr s \<Rightarrow> True | JInt n \<Rightarrow> True | JBool b \<Rightarrow> True | _ \<Rightarrow> False)"

text \<open>The operation of a request that names none.\<close>

definition derived_operation :: "(string \<times> json) list \<Rightarrow> (string \<times> json) list" where
  "derived_operation request =
    (let call = mapping_or_empty (get_json request ''toolCall'');
         tool = first_truthy [get_json request ''tool'', get_json call ''name'', get_json call ''kind''];
         detail = filter (\<lambda>(k, v). k \<notin> set [''requestId'', ''operation'', ''expiresAt'', ''toolCall'', ''options'', ''tool'', ''title'']
            \<and> scalar v) (sort_key fst request) in
     [(''title'', text_or [get_json request ''title'', tool, JStr ''Approval required'']),
      (''detail'', JList (map (\<lambda>(k, v). JDict [(''label'', JStr k), (''value'', JStr (py_str v))]) detail)),
      (''tool'', if tool = JNull then JNull else JStr (py_str tool))])"

definition approval_requested_body :: "session_event \<Rightarrow> (string \<times> json) list \<Rightarrow> exn + json" where
  "approval_requested_body e data =
    (let request = mapping_or_empty (get_json data ''request'');
         operation = (case get_json request ''operation'' of JDict o' \<Rightarrow> o' | _ \<Rightarrow> derived_operation request) in
     rbind (json_int (first_truthy [get_json data ''version'', JInt 1])) (\<lambda>version.
     Inr (JDict
       [(''kind'', JStr ''approval.requested''), (''sessionId'', JStr (sv_session e)),
        (''approval'', JDict
          [(''approvalId'', JStr (py_str (get_json data ''approval_id''))), (''sessionId'', JStr (sv_session e)),
           (''executionId'', str_or_null (sv_turn e)), (''version'', JInt version), (''operation'', JDict operation),
           (''expiresAt'', get_json request ''expiresAt'')])])))"

definition settled_outcomes :: "(string \<times> string) list" where
  "settled_outcomes =
    [(''allow'', ''allowed''), (''deny'', ''denied''), (''expired'', ''expired''), (''invalidated'', ''invalidated'')]"

definition approval_settled_body :: "session_event \<Rightarrow> (string \<times> json) list \<Rightarrow> json" where
  "approval_settled_body e data = JDict
    [(''kind'', JStr ''approval.settled''), (''sessionId'', JStr (sv_session e)),
     (''approvalId'', JStr (py_str (get_json data ''approval_id''))),
     (''outcome'', JStr (case map_of settled_outcomes (py_str (get_json data ''decision'')) of
        None \<Rightarrow> ''invalidated'' | Some o' \<Rightarrow> o'))]"

definition queue_body :: "session_event \<Rightarrow> (string \<times> json) list \<Rightarrow> exn + json" where
  "queue_body e data =
    rbind (field_json data ''item'') (\<lambda>item.
    rbind (dict_of item) (\<lambda>kvs.
    Inr (JDict [(''kind'', JStr ''queue.updated''), (''sessionId'', JStr (sv_session e)), (''item'', JDict kvs)])))"

definition event_body :: "string \<Rightarrow> session_event \<Rightarrow> (string \<times> json) list \<Rightarrow> exn + json" where
  "event_body kind e data =
    (if kind = ''execution.state'' then Inr (state_body e data)
     else if kind = ''message.delta'' \<or> kind = ''message.final'' then Inr (message_body kind e data)
     else if kind = ''usage.updated'' then Inr (usage_body e data)
     else if kind = ''thought.delta'' then
       Inr (JDict [(''kind'', JStr kind), (''sessionId'', JStr (sv_session e)), (''text'', text_or [get_json data ''text'', JStr []])])
     else if kind = ''plan.updated'' then Inr (plan_body e data)
     else if kind = ''mode.updated'' then
       Inr (JDict [(''kind'', JStr kind), (''sessionId'', JStr (sv_session e)),
         (''currentModeId'', text_or [get_json data ''currentModeId'', JStr []])])
     else if kind = ''tool.update'' then Inr (tool_body e data)
     else if kind = ''approval.requested'' then approval_requested_body e data
     else if kind = ''approval.settled'' then Inr (approval_settled_body e data)
     else if kind = ''config.changed'' then
       Inr (JDict [(''kind'', JStr kind), (''sessionId'', JStr (sv_session e)),
         (''effectiveFor'', text_or [get_json data ''effective_for'', JStr ''next_send''])])
     else if kind = ''queue.updated'' then queue_body e data
     else if kind = ''workspace.connection'' then
       Inr (JDict [(''kind'', JStr kind), (''workspaceId'', JStr (text_of data ''workspace_id'' [])),
         (''connection'', first_truthy [get_json data ''connection'', JDict [(''state'', JStr ''connecting'')]])])
     else Inl (err (OtherException ''WireError'') (''event kind '' @ kind @ '' has no projection'')))"

text \<open>An event whose stored data are not an object raises at the first access to them.\<close>

definition event_data :: "string \<Rightarrow> json \<Rightarrow> exn + (string \<times> json) list" where
  "event_data kind v =
    (case v of
       JDict kvs \<Rightarrow> Inr kvs
     | _ \<Rightarrow> Inl (if kind = ''queue.updated'' then err TypeError ''indices must be integers or slices, not str''
         else err AttributeError ''object has no attribute get''))"

definition event_frame :: "codec \<Rightarrow> session_event \<Rightarrow> exn + json option" where
  "event_frame co e =
    (case map_of event_kind_map (sv_kind e) of
       None \<Rightarrow> Inr None
     | Some kind \<Rightarrow>
         rbind (event_data kind (sv_data e)) (\<lambda>data.
         rbind (event_body kind e data) (\<lambda>body.
         Inr (Some (JDict
           [(''eventId'', JStr (sv_id e)), (''sessionId'', JStr (sv_session e)),
            (''seq'', JInt (case sv_wire e of None \<Rightarrow> sv_seq e | Some n \<Rightarrow> if n = 0 then sv_seq e else n)),
            (''cursor'', JStr (cursor_encode co (sv_session e) (sv_seq e))), (''emittedAt'', time_json (sv_at e)),
            (''event'', body)])))))"

end
