(* ===== verification/Model_Facts.thy ===== *)
theory Model_Facts
  imports Wire_Projection
begin

text \<open>
  The canonical protocol vocabulary and the facts of a model entry
  (\<open>model_configs/provider_protocols.py\<close>, \<open>execution/protocols.py\<close>). Numbers are integers. The
  discipline of endpoint URLs, which the module takes from the probe, is the parameter \<open>check\<close>: it
  answers with the base URL or with the text of the refusal.
\<close>

section \<open>Protocols\<close>

definition canonical_protocols :: "string list" where
  "canonical_protocols = [''openai-chat'', ''openai-responses'', ''anthropic-messages'', ''gemini-generate'']"

definition protocol_dialects :: "(string \<times> string) list" where
  "protocol_dialects =
    [(''openai-chat'', ''openai-chat''), (''chat'', ''openai-chat''), (''chat_completions'', ''openai-chat''),
     (''openai-completions'', ''openai-chat''), (''openai-responses'', ''openai-responses''),
     (''responses'', ''openai-responses''), (''anthropic-messages'', ''anthropic-messages''),
     (''anthropic'', ''anthropic-messages''), (''anthropic_messages'', ''anthropic-messages''),
     (''messages'', ''anthropic-messages''), (''claude'', ''anthropic-messages''),
     (''gemini-generate'', ''gemini-generate''), (''gemini'', ''gemini-generate''),
     (''generatecontent'', ''gemini-generate'')]"

definition texts_repr :: "string list \<Rightarrow> string" where
  "texts_repr xs = json_repr (JList (map JStr xs))"

definition protocol_unknown :: "json \<Rightarrow> exn" where
  "protocol_unknown v = server_error ''PROTOCOL_UNKNOWN''
    (''Unknown protocol: '' @ json_repr v @ '' is not one of '' @ texts_repr canonical_protocols @
     '' or a recognized dialect'') 422"

definition normalize_protocol :: "json \<Rightarrow> exn + string" where
  "normalize_protocol v =
    (case v of
       JStr s \<Rightarrow> (case map_of protocol_dialects (map lower_char (py_strip s)) of
           None \<Rightarrow> Inl (protocol_unknown v) | Some p \<Rightarrow> Inr p)
     | _ \<Rightarrow> Inl (protocol_unknown v))"

definition normalize_protocols :: "json \<Rightarrow> exn + string list" where
  "normalize_protocols v =
    (case v of
       JList xs \<Rightarrow> map_sum id (\<lambda>ps. filter (\<lambda>p. p \<in> set ps) canonical_protocols) (map_exn normalize_protocol xs)
     | _ \<Rightarrow> Inl (server_error ''PROTOCOL_UNKNOWN'' ''protocols must be a list of strings'' 422))"

definition normalize_wire_api :: "json \<Rightarrow> exn + json" where
  "normalize_wire_api v = (if v = JNull then Inr JNull else map_sum id JStr (normalize_protocol v))"

section \<open>Endpoints\<close>

definition configuration_invalid :: "string \<Rightarrow> exn" where
  "configuration_invalid message = server_error ''PROFILE_CONFIGURATION_INVALID'' message 422"

definition validate_endpoint :: "(string \<Rightarrow> string + string) \<Rightarrow> string list \<Rightarrow> string \<times> json \<Rightarrow> exn + string \<times> string" where
  "validate_endpoint check allowed kv =
    rbind (normalize_protocol (JStr (fst kv))) (\<lambda>p.
    if p \<notin> set allowed then Inl (configuration_invalid (''endpoint key '' @ py_repr (fst kv) @ '' is not among the declared protocols''))
    else (case snd kv of
        JStr (c # cs) \<Rightarrow> (case check (c # cs) of
            Inl why \<Rightarrow> Inl (configuration_invalid (''endpoint '' @ py_repr (fst kv) @ '': '' @ why))
          | Inr base \<Rightarrow> Inr (p, base))
      | _ \<Rightarrow> Inl (configuration_invalid ''endpoint URLs must be non-empty strings'')))"

text \<open>The last of several keys that mean one protocol stays; the result is in canonical order.\<close>

definition validate_endpoints :: "(string \<Rightarrow> string + string) \<Rightarrow> json \<Rightarrow> string list \<Rightarrow> exn + (string \<times> json) list" where
  "validate_endpoints check endpoints declared =
    (case endpoints of
       JNull \<Rightarrow> Inr []
     | JDict kvs \<Rightarrow> map_sum id
         (\<lambda>ps. List.map_filter (\<lambda>p. map_option (\<lambda>base. (p, JStr base)) (map_of (rev ps) p)) canonical_protocols)
         (map_exn (validate_endpoint check declared) kvs)
     | _ \<Rightarrow> Inl (configuration_invalid ''endpoints must be an object''))"

section \<open>Capabilities\<close>

definition invalid_model :: "string \<Rightarrow> exn" where
  "invalid_model message = server_error ''PROVIDER_MODEL_INVALID'' message 422"

definition stray_keys :: "string list \<Rightarrow> (string \<times> json) list \<Rightarrow> string list" where
  "stray_keys known kvs = sort (remdups (filter (\<lambda>k. k \<notin> set known) (map fst kvs)))"

definition all_texts :: "json \<Rightarrow> bool" where
  "all_texts v \<longleftrightarrow> (case v of JList xs \<Rightarrow> list_all (\<lambda>x. case x of JStr s \<Rightarrow> True | _ \<Rightarrow> False) xs | _ \<Rightarrow> False)"

text \<open>The members of an object that are present, in the order of \<open>keys\<close>, each after its check.\<close>

definition checked_members :: "(string \<Rightarrow> json \<Rightarrow> exn + json) \<Rightarrow> string list \<Rightarrow> (string \<times> json) list \<Rightarrow> exn + (string \<times> json) list" where
  "checked_members check keys kvs =
    map_exn (\<lambda>(k, v). map_sum id (\<lambda>x. (k, x)) (check k v))
      (List.map_filter (\<lambda>k. map_option (\<lambda>v. (k, v)) (map_of kvs k)) keys)"

definition reasoning_option :: "json \<Rightarrow> exn + json" where
  "reasoning_option v =
    (case v of
       JDict kvs \<Rightarrow> (case map_of kvs ''type'' of
           Some (JStr t) \<Rightarrow>
             if stray_keys [''type'', ''values''] kvs \<noteq> []
               then Inl (invalid_model (''unknown reasoning option keys: '' @ texts_repr (stray_keys [''type'', ''values''] kvs)))
             else (case map_of kvs ''values'' of
                 None \<Rightarrow> Inr (JDict [(''type'', JStr t)])
               | Some vs \<Rightarrow> if all_texts vs then Inr (JDict [(''type'', JStr t), (''values'', vs)])
                   else Inl (invalid_model (''reasoning option '' @ py_repr ''values'' @ '' must be a list of strings'')))
         | _ \<Rightarrow> Inl (invalid_model (''reasoning options need a string '' @ py_repr ''type'')))
     | _ \<Rightarrow> Inl (invalid_model (''reasoning options need a string '' @ py_repr ''type'')))"

definition validate_reasoning_options :: "json \<Rightarrow> exn + json" where
  "validate_reasoning_options v =
    (case v of
       JList xs \<Rightarrow> map_sum id JList (map_exn reasoning_option xs)
     | _ \<Rightarrow> Inl (invalid_model ''capabilities.reasoningOptions must be a list''))"

text \<open>The three objects with two or three known keys.\<close>

definition validate_members :: "string \<Rightarrow> string \<Rightarrow> string list \<Rightarrow> (string \<Rightarrow> json \<Rightarrow> exn + json) \<Rightarrow> json \<Rightarrow> exn + json" where
  "validate_members name singular keys check v =
    (case v of
       JDict kvs \<Rightarrow>
         if stray_keys keys kvs \<noteq> [] then Inl (invalid_model (''unknown '' @ singular @ '' keys: '' @ texts_repr (stray_keys keys kvs)))
         else map_sum id JDict (checked_members check keys kvs)
     | _ \<Rightarrow> Inl (invalid_model (''capabilities.'' @ name @ '' must be an object'')))"

definition modality_list :: "string \<Rightarrow> json \<Rightarrow> exn + json" where
  "modality_list k v =
    (if all_texts v then Inr v else Inl (invalid_model (''modalities.'' @ k @ '' must be a list of strings'')))"

definition limit_number :: "string \<Rightarrow> json \<Rightarrow> exn + json" where
  "limit_number k v =
    (case v of
       JInt n \<Rightarrow> if n < 0 then Inl (invalid_model (''limits.'' @ k @ '' must be a non-negative integer'')) else Inr v
     | _ \<Rightarrow> Inl (invalid_model (''limits.'' @ k @ '' must be a non-negative integer'')))"

definition cost_number :: "string \<Rightarrow> json \<Rightarrow> exn + json" where
  "cost_number k v =
    (case v of
       JInt n \<Rightarrow> if n < 0 then Inl (invalid_model (''cost.'' @ k @ '' must be a non-negative number'')) else Inr v
     | _ \<Rightarrow> Inl (invalid_model (''cost.'' @ k @ '' must be a non-negative number'')))"

definition flag_member :: "string \<Rightarrow> json \<Rightarrow> exn + json" where
  "flag_member k v =
    (case v of JBool b \<Rightarrow> Inr v | _ \<Rightarrow> Inl (invalid_model (''capabilities.'' @ k @ '' must be a boolean'')))"

definition capability_member :: "string \<Rightarrow> json \<Rightarrow> exn + json" where
  "capability_member k v =
    (if k = ''reasoningOptions'' then validate_reasoning_options v
     else if k = ''modalities'' then validate_members k ''modality'' [''input'', ''output''] modality_list v
     else if k = ''limits'' then validate_members k ''limit'' [''context'', ''output''] limit_number v
     else if k = ''cost'' then validate_members k ''cost'' [''input'', ''output'', ''cacheRead''] cost_number v
     else flag_member k v)"

definition capability_keys :: "string list" where
  "capability_keys = [''toolCall'', ''reasoning'', ''reasoningOptions'', ''modalities'', ''limits'', ''cost'']"

definition validate_capabilities :: "json \<Rightarrow> exn + json option" where
  "validate_capabilities v =
    (case v of
       JNull \<Rightarrow> Inr None
     | JDict kvs \<Rightarrow>
         rbind (checked_members capability_member capability_keys kvs) (\<lambda>out.
         if stray_keys capability_keys kvs \<noteq> []
           then Inl (invalid_model (''unknown capability keys: '' @ texts_repr (stray_keys capability_keys kvs)))
         else Inr (Some (JDict out)))
     | _ \<Rightarrow> Inl (invalid_model ''capabilities must be an object''))"

definition normalize_model_facts :: "(string \<times> json) list \<Rightarrow> exn + (string \<times> json) list" where
  "normalize_model_facts model =
    rbind (if get_json model ''protocols'' = JNull then Inr model
           else map_sum id (\<lambda>ps. dict_put ''protocols'' (JList (map JStr ps)) model)
             (normalize_protocols (get_json model ''protocols''))) (\<lambda>out.
    rbind (validate_capabilities (get_json model ''capabilities'')) (\<lambda>capabilities.
    Inr (case capabilities of
        Some c \<Rightarrow> dict_put ''capabilities'' c out
      | None \<Rightarrow> filter (\<lambda>(k, v). k \<noteq> ''capabilities'') out)))"

section \<open>What normalization keeps\<close>

lemma normalize_protocol_canonical: "normalize_protocol v = Inr p \<Longrightarrow> p \<in> set canonical_protocols"
proof -
  assume "normalize_protocol v = Inr p"
  then obtain s where "map_of protocol_dialects s = Some p"
    by (auto simp: normalize_protocol_def split: json.splits option.splits)
  then have "p \<in> set (map snd protocol_dialects)" by (force dest: map_of_SomeD)
  then show ?thesis by (simp add: protocol_dialects_def canonical_protocols_def)
qed

lemma normalize_protocol_again:
  assumes "p \<in> set canonical_protocols"
  shows "normalize_protocol (JStr p) = Inr p"
proof -
  have "list_all (\<lambda>p. map_of protocol_dialects (map lower_char (py_strip p)) = Some p) canonical_protocols"
    by code_simp
  with assms show ?thesis by (simp add: list_all_iff normalize_protocol_def)
qed

end
