(* ===== verification/Model_Configs.thy ===== *)
theory Model_Configs
  imports Model_Facts
begin

text \<open>
  Provider/Model configurations: the records (\<open>model_configs/repository.py\<close>) and the use cases over
  them (\<open>model_configs/service.py\<close>), of which the freezing of a Profile's model reference at
  acceptance is the one the sessions depend on. Objects are read and published through functions,
  as in the session use cases; a credential is looked up by id and kind and answers with its locator.
  The two probes of an endpoint are network calls and are not modelled.
\<close>

section \<open>Statements\<close>

definition find_model :: "ledger \<Rightarrow> string \<Rightarrow> model_row option" where
  "find_model d i = find (\<lambda>r. pm_id r = i) (l_models d)"

definition insert_model :: "model_row \<Rightarrow> ledger \<Rightarrow> exn + unit \<times> ledger" where
  "insert_model r d =
    (if find_model d (pm_id r) \<noteq> None then Inl (unique_failed ''server_provider_models.id'')
     else Inr ((), d\<lparr>l_models := l_models d @ [r]\<rparr>))"

definition update_models :: "(model_row \<Rightarrow> bool) \<Rightarrow> (model_row \<Rightarrow> model_row) \<Rightarrow> ledger \<Rightarrow> exn + nat \<times> ledger" where
  "update_models p f d = Inr (count_where p (l_models d), d\<lparr>l_models := update_where p f (l_models d)\<rparr>)"

section \<open>Records\<close>

definition model_missing :: exn where
  "model_missing = server_error ''PROVIDER_MODEL_NOT_FOUND'' ''Provider/Model config was not found'' 404"

definition model_columns :: "model_row \<Rightarrow> (string \<times> json) list" where
  "model_columns r =
    [(''id'', JStr (pm_id r)), (''version'', JInt (pm_version r)), (''display_name'', JStr (pm_name r)),
     (''harness_type'', str_or_null (pm_harness r)), (''provider_type'', JStr (pm_provider r)),
     (''credential_id'', str_or_null (pm_credential r)), (''config_object_digest'', JStr (pm_config r)),
     (''models_object_digest'', JStr (pm_models r)), (''base_url'', str_or_null (pm_base r)),
     (''auth_style'', str_or_null (pm_auth r)), (''wire_api'', str_or_null (pm_wire r)),
     (''fields_source'', str_or_null (pm_source r)), (''archived_at'', time_or_null (pm_archived r)),
     (''created_at'', time_json (pm_created r)), (''updated_at'', time_json (pm_updated r))]"

definition get_model :: "string \<Rightarrow> model_row ledger_prog" where
  "get_model i = fetch_row (\<lambda>d. find_model d i) model_missing"

definition model_order :: "model_row \<Rightarrow> (int \<times> bool \<times> int) \<times> string" where
  "model_order r = (iso_key (pm_created r), pm_id r)"

definition list_models :: "bool \<Rightarrow> model_row list ledger_prog" where
  "list_models include_archived =
    read_store (\<lambda>d. sort_key model_order (filter (\<lambda>r. include_archived \<or> pm_archived r = None) (l_models d)))"

definition require_known :: "(string \<Rightarrow> bool) \<Rightarrow> string option \<Rightarrow> unit ledger_prog" where
  "require_known known credential =
    raise_if (case credential of None \<Rightarrow> False | Some c \<Rightarrow> \<not> known c)
      (server_error ''CREDENTIAL_NOT_FOUND'' ''Credential was not found'' 404)"

text \<open>The four provenance columns. One named \<open>KEEP\<close> (None here) is left out of the assignments of an update; a
  named null clears it.\<close>

record provenance =
  pv_base :: "string option option"
  pv_auth :: "string option option"
  pv_wire :: "string option option"
  pv_source :: "string option option"

definition kept :: "string option option \<Rightarrow> string option \<Rightarrow> string option" where
  "kept v old = (case v of None \<Rightarrow> old | Some new \<Rightarrow> new)"

definition create_model ::
  "(string \<Rightarrow> bool) \<Rightarrow> string \<Rightarrow> string \<Rightarrow> string \<Rightarrow> string option \<Rightarrow> string \<Rightarrow> string option \<Rightarrow> string \<Rightarrow> string \<Rightarrow>
     provenance \<Rightarrow> (int \<times> json) ledger_prog" where
  "create_model known key dg name harness provider credential config models pv =
    once ''providerModels.create'' key dg preturn
    (pseq (require_known known credential)
    (pbind now_utc (\<lambda>t.
     pbind (fresh_id ''provider'') (\<lambda>i.
     (let body = JDict [(''providerModelId'', JStr i)] in
      pseq (exec_sql (insert_model
        \<lparr>pm_id = i, pm_version = 1, pm_name = name, pm_harness = harness, pm_provider = provider,
         pm_credential = credential, pm_config = config, pm_models = models, pm_base = kept (pv_base pv) None,
         pm_auth = kept (pv_auth pv) None, pm_wire = kept (pv_wire pv) None, pm_source = kept (pv_source pv) None, pm_archived = None,
         pm_created = t, pm_updated = t\<rparr>))
      (pseq (idempotency_insert ''providerModels.create'' key dg 201 body)
        (preturn (201, body))))))))"

definition model_version_error :: "model_row \<Rightarrow> exn" where
  "model_version_error r =
    version_error ''Provider/Model config changed before the update'' (JDict (model_columns r))"

definition update_model ::
  "(string \<Rightarrow> bool) \<Rightarrow> string \<Rightarrow> int \<Rightarrow> string \<Rightarrow> string \<Rightarrow> string \<Rightarrow> string option \<Rightarrow> string \<Rightarrow> string \<Rightarrow> provenance \<Rightarrow>
     (int \<times> json) ledger_prog" where
  "update_model known i expected key dg name credential config models pv =
    (let scope = ''providerModels.update:'' @ i in
    once scope key dg preturn
    (pbind (fetch_row (\<lambda>d. find_model d i) model_missing) (\<lambda>row.
     pseq (raise_if (pm_version row \<noteq> expected) (model_version_error row))
     (pseq (require_known known credential)
     (pbind now_utc (\<lambda>t.
      pseq (exec_sql (update_models (\<lambda>r. pm_id r = i) (\<lambda>r. r\<lparr>pm_name := name, pm_credential := credential,
          pm_config := config, pm_models := models, pm_base := kept (pv_base pv) (pm_base r),
          pm_auth := kept (pv_auth pv) (pm_auth r), pm_wire := kept (pv_wire pv) (pm_wire r),
          pm_source := kept (pv_source pv) (pm_source r), pm_version := pm_version r + 1, pm_updated := t\<rparr>)))
      (let body = JDict [(''providerModelId'', JStr i)] in
       pseq (idempotency_insert scope key dg 200 body) (preturn (200, body)))))))))"

definition archive_model :: "string \<Rightarrow> int \<Rightarrow> string \<Rightarrow> string \<Rightarrow> (int \<times> json) ledger_prog" where
  "archive_model i expected key dg =
    (let scope = ''providerModels.archive:'' @ i in
    once scope key dg preturn
    (pbind (fetch_row (\<lambda>d. find_model d i) model_missing) (\<lambda>row.
     pseq (raise_if (pm_version row \<noteq> expected) (model_version_error row))
     (pbind now_utc (\<lambda>t. pbind now_utc (\<lambda>u.
      pseq (exec_sql (update_models (\<lambda>r. pm_id r = i) (\<lambda>r. r\<lparr>pm_archived := or_else (pm_archived r) (Some t),
          pm_version := pm_version r + 1, pm_updated := u\<rparr>)))
      (let body = JDict [(''providerModelId'', JStr i)] in
       pseq (idempotency_insert scope key dg 200 body) (preturn (200, body)))))))))"

section \<open>Use cases\<close>

record model_service =
  mo_harnesses :: harnesses
  mo_credential :: "string \<Rightarrow> string \<Rightarrow> exn + string option"
  mo_known :: "string \<Rightarrow> bool"
  mo_read :: "string \<Rightarrow> exn + json"
  mo_publish :: "string \<Rightarrow> exn + string"
  mo_check :: "string \<Rightarrow> string + string"
  mo_secret :: "(string \<Rightarrow> exn + string) option"
  mo_hash :: "string \<Rightarrow> string"

text \<open>\<open>json.loads(objects.read(digest)).get(key)\<close>\<close>

definition object_member :: "json \<Rightarrow> string \<Rightarrow> exn + json" where
  "object_member v k =
    (case v of JDict kvs \<Rightarrow> Inr (get_json kvs k) | _ \<Rightarrow> Inl (err AttributeError ''object has no attribute get''))"

definition read_member :: "model_service \<Rightarrow> string \<Rightarrow> string \<Rightarrow> exn + json" where
  "read_member mo object k = rbind (mo_read mo object) (\<lambda>v. object_member v k)"

text \<open>\<open>list(v or [])\<close> and \<open>dict(v or {})\<close>\<close>

definition list_or_empty :: "json \<Rightarrow> exn + json list" where
  "list_or_empty v =
    (if \<not> truthy v then Inr []
     else (case v of
         JList xs \<Rightarrow> Inr xs
       | JStr s \<Rightarrow> Inr (map (\<lambda>c. JStr [c]) s)
       | JDict kvs \<Rightarrow> Inr (map (\<lambda>kv. JStr (fst kv)) kvs)
       | _ \<Rightarrow> Inl (err TypeError ''object is not iterable'')))"

definition dict_or_empty :: "json \<Rightarrow> exn + (string \<times> json) list" where
  "dict_or_empty v = (if truthy v then dict_of v else Inr [])"

definition models_of :: "model_service \<Rightarrow> model_row \<Rightarrow> exn + json list" where
  "models_of mo r = rbind (read_member mo (pm_models r) ''models'') list_or_empty"

definition item_member :: "json \<Rightarrow> string \<Rightarrow> exn + json" where
  "item_member v k =
    (case v of JDict kvs \<Rightarrow> field_json kvs k | _ \<Rightarrow> Inl (err TypeError ''indices must be integers or slices, not str''))"

text \<open>\<open>next((m for m in models if m["modelId"] == wanted), None)\<close>\<close>

fun find_entry :: "string \<Rightarrow> json list \<Rightarrow> exn + json option" where
  "find_entry wanted [] = Inr None"
| "find_entry wanted (m # ms) =
    rbind (item_member m ''modelId'') (\<lambda>i. if i = JStr wanted then Inr (Some m) else find_entry wanted ms)"

definition seat_protocols :: "model_service \<Rightarrow> string \<Rightarrow> string list" where
  "seat_protocols mo harness = map fst (harness_protocols (mo_harnesses mo) harness)"

definition derive_compatibility :: "model_service \<Rightarrow> json \<Rightarrow> json" where
  "derive_compatibility mo declared =
    JList (concat (map (\<lambda>h. map (\<lambda>p. JDict [(''harness'', JStr h), (''protocol'', JStr p)])
        (sort (remdups (filter (\<lambda>p. case declared of JList ds \<Rightarrow> JStr p \<in> set ds | _ \<Rightarrow> False) (seat_protocols mo h)))))
      (registered_harnesses (mo_harnesses mo))))"

definition control_items :: "(string \<times> json) list \<Rightarrow> json" where
  "control_items kvs = JList (map (\<lambda>(k, v). JDict [(''controlId'', JStr k), (''value'', v)]) (sort_key fst kvs))"

definition provenance_json :: "model_row \<Rightarrow> json" where
  "provenance_json r =
    (if list_ex truthy (map str_or_null [pm_base r, pm_auth r, pm_wire r, pm_source r])
     then JDict [(''baseUrl'', str_or_null (pm_base r)), (''authStyle'', str_or_null (pm_auth r)),
       (''wireApi'', str_or_null (pm_wire r)), (''fieldsSource'', str_or_null (pm_source r))]
     else JNull)"

definition project_model :: "model_service \<Rightarrow> model_row \<Rightarrow> exn + (string \<times> json) list" where
  "project_model mo r =
    rbind (mo_read mo (pm_config r)) (\<lambda>config.
    rbind (object_member config ''protocols'') (\<lambda>declared.
    rbind (object_member config ''endpoints'') (\<lambda>endpoints.
    rbind (object_member config ''configuration'') (\<lambda>configuration.
    rbind (dict_or_empty configuration) (\<lambda>controls.
    rbind (models_of mo r) (\<lambda>models.
    rbind (if declared = JNull then Inr JNull else map_sum id JList (list_or_empty declared)) (\<lambda>protocols.
    rbind (if truthy endpoints then map_sum id JDict (dict_of endpoints) else Inr JNull) (\<lambda>urls.
    Inr
      [(''id'', JStr (pm_id r)), (''version'', JInt (pm_version r)), (''displayName'', JStr (pm_name r)),
       (''harness'', str_or_null (pm_harness r)), (''provider'', JStr (pm_provider r)),
       (''credentialId'', str_or_null (pm_credential r)), (''configuration'', control_items controls),
       (''models'', JList models), (''archivedAt'', time_or_null (pm_archived r)), (''protocols'', protocols),
       (''endpoints'', urls), (''protocolsDeclared'', JBool (declared \<noteq> JNull)),
       (''compatibility'', derive_compatibility mo declared), (''provenance'', provenance_json r),
       (''createdAt'', time_json (pm_created r)), (''updatedAt'', time_json (pm_updated r))]))))))))"

definition list_model_configs :: "model_service \<Rightarrow> bool \<Rightarrow> json list ledger_prog" where
  "list_model_configs mo include_archived =
    pbind (list_models include_archived) (\<lambda>rows. plift (map_exn (\<lambda>r. map_sum id JDict (project_model mo r)) rows))"

subsection \<open>Validation\<close>

definition model_entry_ok :: "json \<Rightarrow> exn + (string \<times> json) list" where
  "model_entry_ok v =
    (case v of
       JDict kvs \<Rightarrow>
         rbind (field_json kvs ''availability'') (\<lambda>availability.
         if availability = JStr ''unavailable'' \<and> \<not> truthy (get_json kvs ''unavailableReason'')
           then Inl (configuration_invalid ''Unavailable models require a reason'')
         else Inr kvs)
     | _ \<Rightarrow> Inl (err TypeError ''indices must be integers or slices, not str''))"

record validated =
  va_protocols :: "string list option"
  va_endpoints :: "(string \<times> json) list"
  va_models :: "json list"

text \<open>\<open>_validate\<close>: the body has the fields the wire put there, with their types.\<close>

definition validate_model ::
  "model_service \<Rightarrow> string option \<Rightarrow> json \<Rightarrow> string option \<Rightarrow> json list \<Rightarrow> json \<Rightarrow> json \<Rightarrow> exn + validated" where
  "validate_model mo harness configuration credential models protocols endpoints =
    rbind (case harness of
        None \<Rightarrow> Inr None
      | Some h \<Rightarrow> (case map_of (mo_harnesses mo) h of
            None \<Rightarrow> Inl (unavailable ''HARNESS_UNAVAILABLE'' ''Requested Harness is not configured'')
          | Some seat \<Rightarrow> Inr (Some seat))) (\<lambda>seat.
    rbind (reject_sensitive_keys configuration) (\<lambda>_.
    rbind (case (credential, seat) of
        (Some c, Some h) \<Rightarrow> (case hs_credential h of
            None \<Rightarrow> Inl (configuration_invalid ''Harness does not accept credentials'')
          | Some kind \<Rightarrow> map_sum id (\<lambda>_. ()) (mo_credential mo c kind))
      | _ \<Rightarrow> Inr ()) (\<lambda>_.
    rbind (map_exn (\<lambda>m. item_member m ''modelId'') models) (\<lambda>ids.
    if models = [] \<or> \<not> distinct ids then Inl (configuration_invalid ''Models must be non-empty and unique'')
    else
    rbind (map_exn model_entry_ok models) (\<lambda>entries.
    rbind (if protocols = JNull then Inr None else map_sum id Some (normalize_protocols protocols)) (\<lambda>declared.
    rbind (validate_endpoints (mo_check mo) endpoints (case declared of None \<Rightarrow> [] | Some ps \<Rightarrow> ps)) (\<lambda>urls.
    rbind (map_exn normalize_model_facts entries) (\<lambda>facts.
    Inr \<lparr>va_protocols = declared, va_endpoints = urls, va_models = map JDict facts\<rparr>))))))))"

definition assignment_of :: "json \<Rightarrow> exn + string \<times> json" where
  "assignment_of v =
    rbind (item_member v ''controlId'') (\<lambda>k. rbind (item_member v ''value'') (\<lambda>x. Inr (py_str k, x)))"

definition config_payload :: "json list \<Rightarrow> validated \<Rightarrow> exn + json" where
  "config_payload configuration norm =
    rbind (map_exn assignment_of configuration) (\<lambda>kvs.
    Inr (JDict ([(''schema_version'', JInt 1), (''configuration'', assignment_dict kvs)]
      @ (case va_protocols norm of None \<Rightarrow> [] | Some ps \<Rightarrow> [(''protocols'', JList (map JStr ps))])
      @ (if va_endpoints norm = [] then [] else [(''endpoints'', JDict (va_endpoints norm))]))))"

definition publish_config :: "model_service \<Rightarrow> json list \<Rightarrow> validated \<Rightarrow> (string \<times> string) ledger_prog" where
  "publish_config mo configuration norm =
    pbind (plift (config_payload configuration norm)) (\<lambda>payload.
    pbind (plift (rbind (canonical payload) (mo_publish mo))) (\<lambda>config.
    pbind (plift (rbind (canonical (JDict [(''schema_version'', JInt 1), (''models'', JList (va_models norm))])) (mo_publish mo)))
      (\<lambda>models. preturn (config, models))))"

definition reply_model :: "model_service \<Rightarrow> int \<times> json \<Rightarrow> (string \<times> json) list ledger_prog" where
  "reply_model mo r =
    pbind (plift (body_field (snd r) ''providerModelId'')) (\<lambda>i.
    pbind (get_model (py_str i)) (\<lambda>row. plift (project_model mo row)))"

text \<open>The request of a create or an update, as the wire shaped it; absent provenance fields are None.\<close>

record model_request =
  mr_name :: string
  mr_credential :: "string option"
  mr_configuration :: "json list"
  mr_models :: "json list"
  mr_provenance :: provenance

definition provenance_items :: "provenance \<Rightarrow> (string \<times> json) list" where
  "provenance_items pv = List.map_filter (\<lambda>(k, v). map_option (\<lambda>x. (k, str_or_null x)) v)
    [(''baseUrl'', pv_base pv), (''authStyle'', pv_auth pv), (''wireApi'', pv_wire pv), (''fieldsSource'', pv_source pv)]"

definition request_items :: "model_request \<Rightarrow> (string \<times> string) option \<Rightarrow> json" where
  "request_items q seat = JDict (
    [(''displayName'', JStr (mr_name q)), (''credentialId'', str_or_null (mr_credential q)),
     (''configuration'', JList (mr_configuration q)), (''models'', JList (mr_models q))]
    @ (case seat of None \<Rightarrow> [] | Some (h, p) \<Rightarrow> [(''harness'', JStr h), (''provider'', JStr p)])
    @ provenance_items (mr_provenance q))"

definition create_model_config :: "model_service \<Rightarrow> string \<Rightarrow> model_request \<Rightarrow> string \<Rightarrow> string \<Rightarrow> (string \<times> json) list ledger_prog" where
  "create_model_config mo key q harness provider =
    pbind (plift (validate_model mo (Some harness) (JList (mr_configuration q)) (mr_credential q) (mr_models q) JNull JNull)) (\<lambda>norm.
    pbind (publish_config mo (mr_configuration q) norm) (\<lambda>(config, models).
    pbind (plift (digest (mo_hash mo) (request_items q (Some (harness, provider))))) (\<lambda>dg.
    pbind (create_model (mo_known mo) key dg (mr_name q) (Some harness) provider (mr_credential q) config models
      (mr_provenance q)) (reply_model mo))))"

text \<open>The stored record is the base of an update: its protocols and endpoints are carried over.\<close>

definition update_model_config :: "model_service \<Rightarrow> string \<Rightarrow> int \<Rightarrow> string \<Rightarrow> model_request \<Rightarrow> (string \<times> json) list ledger_prog" where
  "update_model_config mo i expected key q =
    pbind (get_model i) (\<lambda>current.
    pbind (plift (project_model mo current)) (\<lambda>base.
    pbind (plift (validate_model mo (pm_harness current) (JList (mr_configuration q)) (mr_credential q) (mr_models q)
      (get_json base ''protocols'') (get_json base ''endpoints''))) (\<lambda>norm.
    pbind (publish_config mo (mr_configuration q) norm) (\<lambda>(config, models).
    pbind (plift (digest (mo_hash mo) (request_items q None))) (\<lambda>dg.
    pbind (update_model (mo_known mo) i expected key dg (mr_name q) (mr_credential q) config models (mr_provenance q))
      (reply_model mo))))))"

subsection \<open>References\<close>

text \<open>\<open>_model_references\<close>, in document order.\<close>

fun model_references :: "json \<Rightarrow> (string \<times> string) list"
  and references_in :: "json list \<Rightarrow> (string \<times> string) list"
  and references_under :: "(string \<times> json) list \<Rightarrow> (string \<times> string) list" where
  "model_references (JDict kvs) =
    (case (map_of kvs ''providerId'', map_of kvs ''modelId'') of
       (Some p, Some m) \<Rightarrow> [(py_str p, py_str m)] | _ \<Rightarrow> []) @ references_under kvs"
| "model_references (JList xs) = references_in xs"
| "model_references _ = []"
| "references_in [] = []"
| "references_in (x # xs) = model_references x @ references_in xs"
| "references_under [] = []"
| "references_under ((k, v) # kvs) = model_references v @ references_under kvs"

definition profile_references :: "model_service \<Rightarrow> string \<Rightarrow> string list ledger_prog" where
  "profile_references mo i =
    pbind (list_profiles False) (\<lambda>profiles.
    plift (map_sum id (\<lambda>found. map (pf_id \<circ> fst) (filter (\<lambda>(p, v). i \<in> fst ` set (model_references v)) found))
      (map_exn (\<lambda>p. map_sum id (\<lambda>v. (p, v)) (mo_read mo (pf_config p))) profiles)))"

datatype archive_outcome = Referenced "string list" | Archived "(string \<times> json) list"

text \<open>\<open>Referenced\<close> is the \<open>REFERENCE_CONFLICT\<close> with the profiles it names.\<close>

definition archive_model_config :: "model_service \<Rightarrow> string \<Rightarrow> int \<Rightarrow> string \<Rightarrow> archive_outcome ledger_prog" where
  "archive_model_config mo i expected key =
    pbind (profile_references mo i) (\<lambda>references.
    if references \<noteq> [] then preturn (Referenced references)
    else
      pbind (plift (digest (mo_hash mo) (JDict [(''providerModelId'', JStr i), (''expectedVersion'', JInt expected)]))) (\<lambda>dg.
      pbind (archive_model i expected key dg) (\<lambda>r.
      pbind (reply_model mo r) (\<lambda>record. preturn (Archived record)))))"

definition usable_by :: "model_row \<Rightarrow> string \<Rightarrow> bool" where
  "usable_by r harness \<longleftrightarrow> pm_archived r = None \<and> (case pm_harness r of None \<Rightarrow> True | Some h \<Rightarrow> h = harness)"

definition validate_reference :: "model_service \<Rightarrow> string \<Rightarrow> string \<times> string \<Rightarrow> unit ledger_prog" where
  "validate_reference mo harness reference =
    pbind (get_model (fst reference)) (\<lambda>row.
    pseq (raise_if (\<not> usable_by row harness)
      (configuration_invalid ''Provider/Model reference is archived or for a different Harness''))
    (pbind (plift (rbind (models_of mo row) (map_exn (\<lambda>m. item_member m ''modelId'')))) (\<lambda>ids.
     raise_if (JStr (snd reference) \<notin> set ids) (configuration_invalid ''Referenced model was not found''))))"

definition validate_references :: "model_service \<Rightarrow> string \<Rightarrow> (string \<times> json) list \<Rightarrow> unit ledger_prog" where
  "validate_references mo harness values =
    for_each (\<lambda>(k, v). for_each (validate_reference mo harness) (model_references v)) values"

definition reference_view :: "model_service \<Rightarrow> string \<Rightarrow> string \<Rightarrow> json ledger_prog" where
  "reference_view mo provider model =
    pbind (get_model provider) (\<lambda>row.
    pbind (plift (rbind (models_of mo row) (find_entry model))) (\<lambda>found.
    case found of
      None \<Rightarrow> praise (server_error ''PROVIDER_MODEL_NOT_FOUND'' ''Referenced model was not found'' 404)
    | Some m \<Rightarrow> pbind (plift (item_member m ''availability'')) (\<lambda>availability.
        preturn (JDict [(''providerId'', JStr provider), (''modelId'', JStr model), (''availability'', availability),
          (''unavailableReason'', json_or_null (body_get m ''unavailableReason''))]))))"

section \<open>Freezing\<close>

definition nonempty_text :: "json \<Rightarrow> string option" where
  "nonempty_text v = (case v of JStr (c # cs) \<Rightarrow> Some (c # cs) | _ \<Rightarrow> None)"

text \<open>The protocols both sides declare, when there is none in common.\<close>

definition protocol_clash :: "model_service \<Rightarrow> string \<Rightarrow> json list \<Rightarrow> bool" where
  "protocol_clash mo harness declared \<longleftrightarrow>
    declared \<noteq> [] \<and> seat_protocols mo harness \<noteq> [] \<and> set declared \<inter> JStr ` set (seat_protocols mo harness) = {}"

definition protocol_error :: "model_service \<Rightarrow> string \<Rightarrow> json list \<Rightarrow> exn" where
  "protocol_error mo harness declared = server_error ''PROTOCOL_INCOMPATIBLE''
    (''Provider declares '' @ texts_repr (sort (remdups (map py_str declared))) @ '' but Harness '' @ py_repr harness @
     '' declares '' @ texts_repr (sort (remdups (seat_protocols mo harness))) @ ''; no protocol in common'') 422"

definition frozen_model :: "model_service \<Rightarrow> harness \<Rightarrow> string \<Rightarrow> string \<Rightarrow> model_row \<Rightarrow> exn + json" where
  "frozen_model mo seat harness model row =
    (if \<not> usable_by row harness
       then Inl (configuration_invalid ''Provider/Model reference is archived or for a different Harness'')
     else
       rbind (rbind (models_of mo row) (find_entry model)) (\<lambda>found.
       case found of
         None \<Rightarrow> Inl (configuration_invalid ''Referenced model was not found'')
       | Some m \<Rightarrow>
           if body_get m ''availability'' = Some (JStr ''unavailable'')
             then Inl (configuration_invalid ''Referenced model is unavailable'')
           else
             rbind (case (hs_credential seat, pm_credential row) of
                 (Some kind, Some c) \<Rightarrow> map_sum id (\<lambda>_. ()) (mo_credential mo c kind)
               | _ \<Rightarrow> Inr ()) (\<lambda>_.
             rbind (mo_read mo (pm_config row)) (\<lambda>stored.
             rbind (rbind (object_member stored ''protocols'') list_or_empty) (\<lambda>declared.
             if protocol_clash mo harness declared then Inl (protocol_error mo harness declared)
             else
               rbind (rbind (object_member stored ''configuration'') dict_or_empty) (\<lambda>configuration.
               rbind (rbind (object_member stored ''endpoints'') dict_or_empty) (\<lambda>endpoints.
               Inr (JDict (
                 [(''providerModelId'', JStr (pm_id row)), (''providerModelVersion'', JInt (pm_version row)),
                  (''provider'', JStr (pm_provider row)), (''model'', JStr model),
                  (''credentialId'', str_or_null (pm_credential row)), (''configuration'', JDict configuration)]
                 @ (if declared = [] then [] else [(''protocols'', JList declared)])
                 @ (if endpoints = [] then [] else [(''endpoints'', JDict endpoints)]))))))))))"

definition freeze_execution_configuration ::
  "model_service \<Rightarrow> string \<Rightarrow> (string \<times> json) list \<Rightarrow> json option ledger_prog" where
  "freeze_execution_configuration mo harness configuration =
    pbind (plift (get_harness (mo_harnesses mo) harness)) (\<lambda>seat.
    case hs_model_control seat of
      None \<Rightarrow> preturn None
    | Some control \<Rightarrow>
        (case get_json configuration control of
           JDict reference \<Rightarrow>
             (case (nonempty_text (get_json reference ''providerId''), nonempty_text (get_json reference ''modelId'')) of
                (Some provider, Some model) \<Rightarrow>
                  pbind (get_model provider) (\<lambda>row.
                  pbind (plift (frozen_model mo seat harness model row)) (\<lambda>frozen. preturn (Some frozen)))
              | _ \<Rightarrow> praise (configuration_invalid ''Provider/Model reference is invalid''))
         | _ \<Rightarrow> praise (configuration_invalid
             (''Control '' @ control @ '' must select a Provider/Model configuration''))))"

end
