(* ===== verification/Sendability.thy ===== *)
theory Sendability
  imports Model_Configs
begin

text \<open>
  The \<open>sendability\<close> of a Profile (\<open>WireService._profile_bindings\<close>, \<open>_sendability\<close>, \<open>_profile\<close> in
  \<open>wire/handlers.py\<close>): what a client is told, before it sends, of the chain the acceptance of a
  turn walks. The per-call reader memoises pure reads and is not visible in the result. Every read
  that fails is reported as unknown.
\<close>

section \<open>Bindings\<close>

text \<open>The bindings, and whether something could not be read.\<close>

type_synonym bindings = "(string \<times> json) list list \<times> bool"

definition blocked :: "string \<Rightarrow> string \<Rightarrow> (string \<times> json) list \<Rightarrow> (string \<times> json) list" where
  "blocked reason detail b =
    dict_put ''detail'' (JStr detail) (dict_put ''reason'' (JStr reason) (dict_put ''state'' (JStr ''blocked'') b))"

definition unset_binding :: "string \<Rightarrow> (string \<times> json) list" where
  "unset_binding detail =
    [(''providerModelId'', JNull), (''modelId'', JNull), (''state'', JStr ''blocked''),
     (''reason'', JStr ''PROFILE_CONFIGURATION_INVALID''), (''detail'', JStr detail)]"

text \<open>\<open>{str(item["modelId"]): item for item in models if "modelId" in item}\<close>, looked up.\<close>

definition index_models :: "json list \<Rightarrow> exn + (string \<times> json) list" where
  "index_models ms =
    map_sum id (List.map_filter id) (map_exn (\<lambda>m. case m of
        JDict kvs \<Rightarrow> Inr (map_option (\<lambda>i. (py_str i, m)) (map_of kvs ''modelId''))
      | JList xs \<Rightarrow> if JStr ''modelId'' \<in> set xs then Inl (err TypeError ''list indices must be integers or slices, not str'') else Inr None
      | JStr s \<Rightarrow> if sublist ''modelId'' s then Inl (err TypeError ''string indices must be integers'') else Inr None
      | _ \<Rightarrow> Inl (err TypeError ''argument is not iterable'')) ms)"

definition credential_binding :: "model_service \<Rightarrow> harness \<Rightarrow> string option \<Rightarrow> (string \<times> json) list \<Rightarrow> bindings" where
  "credential_binding mo seat credential b =
    (case (hs_credential seat, credential) of
       (Some kind, Some c) \<Rightarrow>
         (case mo_credential mo c kind of
            Inl e \<Rightarrow>
              if is_server_error e
                then ([blocked (code_text e) (take 200 (''this host has no credential '' @ c @ '' of kind '' @ kind)) b], False)
              else ([b], True)
          | Inr locator \<Rightarrow>
              (case mo_secret mo of
                 None \<Rightarrow> ([b], False)
               | Some read \<Rightarrow>
                   (case locator of
                      Some (l # ls) \<Rightarrow>
                        (case read (l # ls) of
                           Inl e \<Rightarrow> ([blocked ''CREDENTIAL_NOT_RESOLVABLE'' (take 200 (''credential '' @ c @
                             '' is registered but its secret is not readable on this host (e.g. a locator from another OS)'')) b], False)
                         | Inr secret \<Rightarrow> ([b], False))
                    | _ \<Rightarrow> ([dict_put ''detail'' (JStr (take 200 (''credential '' @ c @ '' carries no locator to resolve on this host'')))
                        (dict_put ''reason'' (JStr ''CREDENTIAL_RESOLVABILITY_UNKNOWN'')
                          (dict_put ''state'' (JStr ''unknown'') b))], False))))
     | _ \<Rightarrow> ([b], False))"

definition model_binding :: "model_service \<Rightarrow> harness \<Rightarrow> json \<Rightarrow> model_row \<Rightarrow> string \<Rightarrow> (string \<times> json) list \<Rightarrow> bindings" where
  "model_binding mo seat harness_type row model b =
    (if pm_archived row \<noteq> None \<or> str_or_null (pm_harness row) \<noteq> harness_type
       then ([blocked ''PROVIDER_MODEL_UNUSABLE'' (if pm_archived row \<noteq> None then ''archived''
           else ''the provider record belongs to a different harness'') b], False)
     else (case rbind (models_of mo row) index_models of
         Inl e \<Rightarrow> ([b], True)
       | Inr index \<Rightarrow>
           (case map_of (rev index) model of
              None \<Rightarrow> ([blocked ''PROVIDER_MODEL_REFERENCE_MISSING'' ''the referenced model is not on that provider record'' b], False)
            | Some m \<Rightarrow>
                if body_get m ''availability'' = Some (JStr ''unavailable'')
                  then ([blocked ''MODEL_UNAVAILABLE'' (take 200 (py_str (first_truthy
                    [json_or_null (body_get m ''unavailableReason''), JStr []]))) b], False)
                else credential_binding mo seat (pm_credential row)
                  (dict_put ''credentialId'' (str_or_null (pm_credential row)) b))))"

text \<open>The reference in the stored configuration: a provider text and a model text that is not empty.\<close>

definition reference_of :: "json \<Rightarrow> (string \<times> string) option" where
  "reference_of v =
    (case v of
       JDict kvs \<Rightarrow> (case (map_of kvs ''providerId'', nonempty_text (get_json kvs ''modelId'')) of
           (Some (JStr p), Some m) \<Rightarrow> Some (p, m) | _ \<Rightarrow> None)
     | _ \<Rightarrow> None)"

definition configured_control :: "json \<Rightarrow> string \<Rightarrow> exn + json" where
  "configured_control document control =
    rbind (object_member document ''configuration'') (\<lambda>c.
    if truthy c then object_member c control else Inr JNull)"

definition ready_binding :: "string \<Rightarrow> string \<Rightarrow> string \<Rightarrow> (string \<times> json) list" where
  "ready_binding control provider model =
    [(''providerModelId'', JStr provider), (''modelId'', JStr model), (''controlId'', JStr control),
     (''state'', JStr ''ready''), (''reason'', JNull), (''detail'', JNull)]"

definition reference_binding ::
  "model_service \<Rightarrow> harness \<Rightarrow> string \<Rightarrow> json \<Rightarrow> json \<Rightarrow> bindings ledger_prog" where
  "reference_binding mo seat control harness_type v =
    (case reference_of v of
       None \<Rightarrow> preturn ([unset_binding (''control '' @ control @ '' must select a Provider/Model configuration'')], False)
     | Some (provider, model) \<Rightarrow>
         (let b = ready_binding control provider model in
          pbind (read_store (\<lambda>d. find_model d provider)) (\<lambda>found.
          case found of
            None \<Rightarrow> preturn ([blocked ''PROVIDER_MODEL_NOT_FOUND'' (take 200 (exn_msg model_missing)) b], False)
          | Some r \<Rightarrow> preturn (model_binding mo seat harness_type r model b))))"

definition profile_bindings :: "harnesses \<Rightarrow> model_service option \<Rightarrow> (string \<times> json) list \<Rightarrow> bindings ledger_prog" where
  "profile_bindings hs models row =
    pbind (plift (field_json row ''harness_type'')) (\<lambda>harness_type.
    case map_of hs (py_str harness_type) of
      None \<Rightarrow> preturn ([], True)
    | Some seat \<Rightarrow>
        (case (hs_model_control seat, models) of
           (None, _) \<Rightarrow> preturn ([], False)
         | (Some control, None) \<Rightarrow> preturn ([], True)
         | (Some control, Some mo) \<Rightarrow>
             if \<not> truthy (get_json row ''config_object_digest'')
               then preturn ([unset_binding (''control '' @ control @ '' selects no Provider/Model configuration'')], False)
             else (case mo_read mo (py_str (get_json row ''config_object_digest'')) of
                 Inl e \<Rightarrow> preturn ([], True)
               | Inr document \<Rightarrow>
                   pbind (plift (configured_control document control)) (reference_binding mo seat control harness_type))))"

section \<open>Sendability\<close>

definition binding_actions :: "(string \<times> string list) list" where
  "binding_actions =
    [(''CREDENTIAL_NOT_FOUND'', [''provision_the_credential_on_this_host'', ''point_the_model_at_an_available_credential'']),
     (''CREDENTIAL_NOT_RESOLVABLE'', [''provision_the_credential_on_this_host'', ''point_the_model_at_an_available_credential'']),
     (''CREDENTIAL_RESOLVABILITY_UNKNOWN'', [''provision_the_credential_on_this_host'']),
     (''PROVIDER_MODEL_NOT_FOUND'', [''choose_an_available_model'']), (''PROVIDER_MODEL_UNUSABLE'', [''choose_an_available_model'']),
     (''PROVIDER_MODEL_REFERENCE_MISSING'', [''choose_an_available_model'']), (''MODEL_UNAVAILABLE'', [''choose_an_available_model'']),
     (''PROFILE_CONFIGURATION_INVALID'', [''choose_a_model''])]"

record check =
  ck_key :: string
  ck_state :: string
  ck_reason :: json
  ck_message :: json
  ck_actions :: "string list"
  ck_credential :: "json option"

definition check_json :: "check \<Rightarrow> json" where
  "check_json c = JDict (
    [(''key'', JStr (ck_key c)), (''state'', JStr (ck_state c)), (''reason'', ck_reason c), (''message'', ck_message c),
     (''actions'', JList (map JStr (ck_actions c)))]
    @ (case ck_credential c of None \<Rightarrow> [] | Some v \<Rightarrow> [(''credentialId'', v)]))"

definition recovery_check :: "json \<Rightarrow> check" where
  "recovery_check recovery =
    (let plain = (\<lambda>st reason message. \<lparr>ck_key = ''recovery'', ck_state = st, ck_reason = reason, ck_message = message,
        ck_actions = [], ck_credential = None\<rparr>) in
     if recovery = JBool True then plain ''blocked'' (JStr ''PROFILE_RECOVERY_REQUIRED'')
       (JStr ''this Profile is waiting on a recovery the Server has not completed'')
     else if recovery = JBool False then plain ''ready'' JNull JNull
     else plain ''unknown'' (JStr ''RECOVERY_STATE_UNREADABLE'') (JStr ''this Server could not read the recovery state''))"

definition binding_check :: "(string \<times> json) list \<Rightarrow> check" where
  "binding_check b =
    \<lparr>ck_key = ''model:'' @ py_str (first_truthy [get_json b ''providerModelId'', get_json b ''controlId'', JStr ''unset'']),
     ck_state = py_str (get_json b ''state''), ck_reason = get_json b ''reason'', ck_message = get_json b ''detail'',
     ck_actions = (case map_of binding_actions (py_str (first_truthy [get_json b ''reason'', JStr []])) of None \<Rightarrow> [] | Some as \<Rightarrow> as),
     ck_credential = Some (get_json b ''credentialId'')\<rparr>"

definition unreadable_check :: check where
  "unreadable_check = \<lparr>ck_key = ''model'', ck_state = ''unknown'', ck_reason = JStr ''CONFIGURATION_UNREADABLE'',
     ck_message = JStr (''this Server could not read the Profile'' @ [CHR 0x27] @ ''s configuration''), ck_actions = [], ck_credential = None\<rparr>"

definition in_state :: "string \<Rightarrow> check \<Rightarrow> bool" where
  "in_state st c \<longleftrightarrow> ck_state c = st"

definition sendability_of :: "check list \<Rightarrow> string \<times> json" where
  "sendability_of checks =
    (let report = (\<lambda>st reason message actions. JDict
        [(''state'', JStr st), (''reason'', reason), (''message'', message), (''actions'', JList (map JStr actions)),
         (''checks'', JList (map check_json checks))]);
         actions = sort (remdups (concat (map ck_actions checks))) in
     case find (in_state ''blocked'') checks of
       Some c \<Rightarrow> (''blocked'', report ''blocked'' (ck_reason c) (ck_message c) actions)
     | None \<Rightarrow> (case find (in_state ''unknown'') checks of
           Some c \<Rightarrow> (''unknown'', report ''unknown'' (ck_reason c) (ck_message c) actions)
         | None \<Rightarrow> (''ready'', report ''ready'' JNull JNull [])))"

definition sendability ::
  "harnesses \<Rightarrow> model_service option \<Rightarrow> (string \<times> json) list \<Rightarrow> (string \<times> json) list \<Rightarrow> (string \<times> json) ledger_prog" where
  "sendability hs models row projected =
    pbind (profile_bindings hs models row) (\<lambda>(bs, unreadable).
    preturn (sendability_of (recovery_check (get_json projected ''recoveryPending'') # map binding_check bs
      @ (if unreadable then [unreadable_check] else []))))"

definition profile_view :: "harnesses \<Rightarrow> model_service option \<Rightarrow> (string \<times> json) list \<Rightarrow> json ledger_prog" where
  "profile_view hs models row =
    pbind (plift (profile_record row)) (\<lambda>item.
    pbind (plift (field_json row ''harness_type'')) (\<lambda>harness_type.
    pbind (sendability hs models row item) (\<lambda>(st, report).
    preturn (JDict (item @ [(''capabilities'', JDict (case map_of hs (py_str harness_type) of
        None \<Rightarrow> [] | Some seat \<Rightarrow> map (\<lambda>(k, b). (k, JBool b)) (hs_claims seat))),
      (''sendability'', report)])))))"

end
