(* ===== verification/Sendability_Claims.thy ===== *)
theory Sendability_Claims
  imports Sendability Service_Examples
begin

text \<open>
  What \<open>sendability\<close> tells of a Profile against what the acceptance of a turn then does with its model
  reference (\<open>freeze_execution_configuration\<close>).
\<close>

section \<open>Bindings\<close>

lemma map_of_replace:
  "map_of (map (\<lambda>(a, b). if a = k then (a, v) else (a, b)) kvs) j =
     (if j = k \<and> k \<in> fst ` set kvs then Some v else map_of kvs j)"
proof (induction kvs)
  case (Cons p kvs)
  obtain a b where "p = (a, b)" by (cases p)
  with Cons show ?case by (cases "a = k"; cases "j = k"; cases "j = a") simp_all
qed simp

lemma map_of_dict_put: "map_of (dict_put k v kvs) j = (if j = k then Some v else map_of kvs j)"
proof (cases "k \<in> fst ` set kvs")
  case True
  then show ?thesis by (simp only: dict_put_def map_of_replace if_True simp_thms)
next
  case False
  then have "map_of kvs k = None" by (simp add: map_of_eq_None_iff)
  with False show ?thesis by (simp add: dict_put_def map_add_def split: option.split)
qed

lemma get_dict_put: "get_json (dict_put k v kvs) j = (if j = k then v else get_json kvs j)"
  by (simp add: get_json_def map_of_dict_put json_or_null_def)

lemma blocked_state: "get_json (blocked reason detail b) ''state'' = JStr ''blocked''"
  by (simp add: blocked_def get_dict_put)

lemma unset_state: "get_json (unset_binding detail) ''state'' = JStr ''blocked''"
  by (simp add: unset_binding_def get_json_def json_or_null_def)

definition ready :: "(string \<times> json) list \<Rightarrow> bool" where
  "ready b \<longleftrightarrow> get_json b ''state'' = JStr ''ready''"

lemma credential_ready:
  assumes "credential_binding mo h credential b = ([b'], False)" "ready b'"
  shows "ready b \<and> (case (hs_credential h, credential) of
      (Some kind, Some c) \<Rightarrow> \<exists>l. mo_credential mo c kind = Inr l | _ \<Rightarrow> True) \<and>
    (\<forall>k. k \<notin> {''state'', ''reason'', ''detail''} \<longrightarrow> get_json b' k = get_json b k)"
  using assms
  by (auto simp: credential_binding_def ready_def blocked_def get_dict_put
      split: option.splits sum.splits if_splits list.splits)

text \<open>What the stored objects of a record hold: distinct models with text ids, and a payload of the three parts.\<close>

definition model_key :: "json \<Rightarrow> string option" where
  "model_key m = (case m of JDict kvs \<Rightarrow> (case map_of kvs ''modelId'' of Some (JStr i) \<Rightarrow> Some i | _ \<Rightarrow> None) | _ \<Rightarrow> None)"

definition model_keys :: "json list \<Rightarrow> string option list" where
  "model_keys ms = map model_key ms"

definition well_stored :: "model_service \<Rightarrow> model_row \<Rightarrow> bool" where
  "well_stored mo r \<longleftrightarrow> pm_id r \<noteq> [] \<and>
     (case models_of mo r of Inl e \<Rightarrow> False | Inr ms \<Rightarrow> None \<notin> set (model_keys ms) \<and> distinct (model_keys ms)) \<and>
     (case mo_read mo (pm_config r) of
        Inr (JDict kvs) \<Rightarrow>
          \<not> isl (list_or_empty (get_json kvs ''protocols'')) \<and> \<not> isl (dict_or_empty (get_json kvs ''configuration'')) \<and>
          \<not> isl (dict_or_empty (get_json kvs ''endpoints''))
      | _ \<Rightarrow> False)"

lemma index_Cons:
  assumes "map_of kvs ''modelId'' = Some (JStr i)" "index_models ms = Inr index"
  shows "index_models (JDict kvs # ms) = Inr ((i, JDict kvs) # index)"
  using assms by (auto simp: index_models_def rbind_def py_str_def List.map_filter_def split: sum.splits)

lemma index_find:
  assumes "None \<notin> set (model_keys ms)" "distinct (model_keys ms)"
  shows "\<exists>index. index_models ms = Inr index \<and> map (Some \<circ> fst) index = model_keys ms \<and>
    find_entry m ms = Inr (map_of (rev index) m)"
  using assms
proof (induction ms)
  case Nil
  show ?case by (simp add: index_models_def model_keys_def List.map_filter_def)
next
  case (Cons x ms)
  have "model_key x \<noteq> None" using Cons.prems(1) by (auto simp: model_keys_def)
  then obtain kvs i where x: "x = JDict kvs" "map_of kvs ''modelId'' = Some (JStr i)"
    by (auto simp: model_key_def split: json.splits option.splits)
  from Cons obtain index where IH: "index_models ms = Inr index" "map (Some \<circ> fst) index = model_keys ms"
    "find_entry m ms = Inr (map_of (rev index) m)" by (fastforce simp: model_keys_def)
  have ids: "model_keys (x # ms) = Some i # model_keys ms" using x by (simp add: model_keys_def model_key_def)
  then have "Some i \<notin> set (map (Some \<circ> fst) index)" using Cons.prems IH(2) by simp
  then have "map_of (rev index) i = None" by (auto simp: map_of_eq_None_iff)
  then have "find_entry m (x # ms) = Inr (map_of (rev ((i, x) # index)) m)"
    using IH(3) x by (auto simp: rbind_def item_member_def field_json_def map_add_def split: option.splits)
  with index_Cons [OF x(2) IH(1)] ids IH(2) show ?case unfolding x(1) by (simp add: comp_def)
qed

lemma model_ready:
  assumes "model_binding mo h (JStr harness) r m b = ([b'], False)" "ready b'" "well_stored mo r"
  shows "ready b \<and> usable_by r harness \<and>
    (\<exists>ms found. models_of mo r = Inr ms \<and> find_entry m ms = Inr (Some found) \<and>
      body_get found ''availability'' \<noteq> Some (JStr ''unavailable'')) \<and>
    (case (hs_credential h, pm_credential r) of
      (Some kind, Some c) \<Rightarrow> \<exists>l. mo_credential mo c kind = Inr l | _ \<Rightarrow> True) \<and>
    get_json b' ''providerModelId'' = get_json b ''providerModelId'' \<and> get_json b' ''modelId'' = get_json b ''modelId''"
proof -
  from assms(3) obtain ms where ms: "models_of mo r = Inr ms" "None \<notin> set (model_keys ms)" "distinct (model_keys ms)"
    by (auto simp: well_stored_def split: sum.splits)
  obtain index where index: "index_models ms = Inr index" "find_entry m ms = Inr (map_of (rev index) m)"
    using index_find [OF ms(2,3)] by blast
  from assms(1,2) have own: "pm_archived r = None" "pm_harness r = Some harness"
    by (auto simp: model_binding_def ready_def blocked_state str_or_null_def split: if_splits option.splits)
  with assms(1,2) ms(1) index(1) obtain found where found: "map_of (rev index) m = Some found"
    "body_get found ''availability'' \<noteq> Some (JStr ''unavailable'')"
    "credential_binding mo h (pm_credential r) (dict_put ''credentialId'' (str_or_null (pm_credential r)) b) = ([b'], False)"
    by (auto simp: model_binding_def ready_def blocked_state str_or_null_def rbind_def split: if_splits option.splits)
  from credential_ready [OF found(3) assms(2)] own ms(1) index(2) found(1,2) show ?thesis
    by (auto simp: ready_def get_dict_put usable_by_def)
qed


lemma not_left: "\<not> isl x \<longleftrightarrow> (\<exists>y. x = Inr y)"
  by (cases x) auto

lemma frozen_ready:
  assumes "usable_by r harness" "models_of mo r = Inr ms" "find_entry m ms = Inr (Some found)"
    and "body_get found ''availability'' \<noteq> Some (JStr ''unavailable'')"
    and "case (hs_credential h, pm_credential r) of (Some kind, Some c) \<Rightarrow> \<exists>l. mo_credential mo c kind = Inr l | _ \<Rightarrow> True"
    and "well_stored mo r"
  shows "case frozen_model mo h harness m r of
      Inr frozen \<Rightarrow> body_get frozen ''providerModelId'' = Some (JStr (pm_id r)) \<and> body_get frozen ''model'' = Some (JStr m)
    | Inl e \<Rightarrow> exn_code e = Some ''PROTOCOL_INCOMPATIBLE''"
proof -
  from assms(6) obtain kvs ps c es where stored: "mo_read mo (pm_config r) = Inr (JDict kvs)"
    "list_or_empty (get_json kvs ''protocols'') = Inr ps" "dict_or_empty (get_json kvs ''configuration'') = Inr c"
    "dict_or_empty (get_json kvs ''endpoints'') = Inr es"
    by (auto simp: well_stored_def not_left split: sum.splits json.splits)
  have credential: "(case (hs_credential h, pm_credential r) of
      (Some kind, Some c) \<Rightarrow> map_sum id (\<lambda>_. ()) (mo_credential mo c kind) | _ \<Rightarrow> Inr ()) = Inr ()"
    using assms(5) by (auto split: option.splits)
  show ?thesis
    using assms(1-4) stored
    by (simp add: frozen_model_def rbind_def credential [simplified] object_member_def protocol_error_def server_error_def
      body_get_def split: if_splits)
qed

lemma bindings_reference:
  assumes "profile_bindings hs (Some mo) row w = (Inr ([b], False), w')" "ready b"
    and "get_json row ''harness_type'' = JStr harness"
    and "mo_read mo (py_str (get_json row ''config_object_digest'')) = Inr (JDict doc)"
    and "get_json doc ''configuration'' = JDict configuration"
  shows "\<exists>h control provider model r kvs b0. map_of hs harness = Some h \<and> hs_model_control h = Some control \<and>
    get_json configuration control = JDict kvs \<and> get_json kvs ''providerId'' = JStr provider \<and>
    nonempty_text (get_json kvs ''modelId'') = Some model \<and> find_model (store w) provider = Some r \<and>
    model_binding mo h (JStr harness) r model b0 = ([b], False) \<and>
    get_json b0 ''providerModelId'' = JStr provider \<and> get_json b0 ''modelId'' = JStr model"
proof -
  have row: "field_json row ''harness_type'' = Inr (JStr harness)"
    using assms(3) by (simp add: get_json_def field_json_def json_or_null_def split: option.splits)
  from assms(1,2) row obtain h control where seat: "map_of hs harness = Some h" "hs_model_control h = Some control"
    and digest: "truthy (get_json row ''config_object_digest'')"
    by (auto simp: profile_bindings_def pbind_Inr plift_Inr preturn_Inr py_str_def ready_def unset_state
      split: option.splits if_splits)
  have "configured_control (JDict doc) control = Inr (get_json configuration control)"
    using assms(5) by (cases "configuration = []")
      (auto simp: configured_control_def object_member_def rbind_def truthy_def get_json_def json_or_null_def)
  with assms(1) row seat digest assms(4)
  have "reference_binding mo h control (JStr harness) (get_json configuration control) w = (Inr ([b], False), w')"
    by (auto simp: profile_bindings_def pbind_Inr plift_Inr py_str_def)
  with assms(2) obtain provider model r where reference: "reference_of (get_json configuration control) = Some (provider, model)"
    and found: "find_model (store w) provider = Some r"
    and binding: "model_binding mo h (JStr harness) r model (ready_binding control provider model) = ([b], False)"
    by (auto simp: reference_binding_def pbind_Inr preturn_Inr read_store_Inr Let_def ready_def unset_state blocked_state
      split: option.splits)
  from reference obtain kvs where "get_json configuration control = JDict kvs" "get_json kvs ''providerId'' = JStr provider"
    "nonempty_text (get_json kvs ''modelId'') = Some model"
    by (auto simp: reference_of_def get_json_def json_or_null_def split: json.splits option.splits)
  with seat found binding show ?thesis
    by (intro exI [of _ h] exI [of _ control] exI [of _ provider] exI [of _ model] exI [of _ r] exI [of _ kvs]
      exI [of _ "ready_binding control provider model"]) (simp add: ready_binding_def get_json_def json_or_null_def)
qed

lemma find_model_id: "find_model d i = Some r \<Longrightarrow> r \<in> set (l_models d) \<and> pm_id r = i"
  by (auto simp: find_model_def find_Some_iff)



section \<open>A Provider record on a ledger\<close>

definition demo_seat_harness :: harness where
  "demo_seat_harness = demo_harness\<lparr>hs_model_control := Some ''model''\<rparr>"

definition demo_objects :: "string \<Rightarrow> exn + json" where
  "demo_objects d =
    (if d = ''chosen'' then Inr (JDict [(''configuration'', JDict
        [(''model'', JDict [(''providerId'', JStr ''p1''), (''modelId'', JStr ''m1'')])])])
     else if d = ''models'' then Inr (JDict [(''models'', JList [JDict [(''modelId'', JStr ''m1''), (''availability'', JStr ''available'')]])])
     else Inr (JDict []))"

definition demo_models :: model_service where
  "demo_models = \<lparr>mo_harnesses = [(''opencode'', demo_seat_harness)], mo_credential = (\<lambda>c k. Inr None), mo_known = (\<lambda>c. True),
     mo_read = demo_objects, mo_publish = demo_publish, mo_check = Inr, mo_secret = None, mo_hash = (\<lambda>t. t)\<rparr>"

definition demo_model :: "string option \<Rightarrow> model_row" where
  "demo_model harness = \<lparr>pm_id = ''p1'', pm_version = 1, pm_name = ''P'', pm_harness = harness, pm_provider = ''openai'',
     pm_credential = None, pm_config = ''payload'', pm_models = ''models'', pm_base = None, pm_auth = None,
     pm_wire = None, pm_source = None, pm_archived = None, pm_created = demo_stamp, pm_updated = demo_stamp\<rparr>"

definition demo_catalog :: "string option \<Rightarrow> ledger world" where
  "demo_catalog harness = demo_ledger_world ((demo_ledger [] [] [])\<lparr>l_models := [demo_model harness]\<rparr>)"

definition demo_row :: "(string \<times> json) list" where
  "demo_row = [(''harness_type'', JStr ''opencode''), (''config_object_digest'', JStr ''chosen'')]"

definition demo_chosen :: "(string \<times> json) list" where
  "demo_chosen = [(''model'', JDict [(''providerId'', JStr ''p1''), (''modelId'', JStr ''m1'')])]"

lemma demo_ready:
  "profile_bindings (mo_harnesses demo_models) (Some demo_models) demo_row (demo_catalog (Some ''opencode'')) =
    (Inr ([dict_put ''credentialId'' JNull (ready_binding ''model'' ''p1'' ''m1'')], False), demo_catalog (Some ''opencode''))"
  by (simp add: profile_bindings_def demo_row_def demo_models_def demo_objects_def demo_seat_harness_def demo_harness_def
    demo_catalog_def demo_model_def ledger_demo ledger_progs field_json_def get_json_def json_or_null_def truthy_def py_str_def
    configured_control_def object_member_def rbind_def reference_binding_def reference_of_def nonempty_text_def
    find_model_def model_binding_def models_of_def read_member_def list_or_empty_def index_models_def List.map_filter_def
    str_or_null_def body_get_def credential_binding_def Let_def)

lemma demo_well_stored: "well_stored demo_models (demo_model harness)"
  by (simp add: well_stored_def demo_models_def demo_objects_def demo_model_def models_of_def read_member_def rbind_def
    object_member_def list_or_empty_def dict_or_empty_def get_json_def json_or_null_def truthy_def model_keys_def model_key_def)


section \<open>Shared records\<close>




text \<open>The one refusal that is left does happen: a Profile reported ready whose turn is refused.\<close>

definition demo_clash :: model_service where
  "demo_clash = demo_models\<lparr>mo_harnesses := [(''opencode'', demo_seat_harness\<lparr>hs_protocols := [(''responses'', ''r'')]\<rparr>)],
     mo_read := (\<lambda>d. if d = ''payload'' then Inr (JDict [(''protocols'', JList [JStr ''chat_completions''])]) else demo_objects d)\<rparr>"

lemma ready_yet_refused:
  "profile_bindings (mo_harnesses demo_clash) (Some demo_clash) demo_row (demo_catalog (Some ''opencode'')) =
     (Inr ([dict_put ''credentialId'' JNull (ready_binding ''model'' ''p1'' ''m1'')], False), demo_catalog (Some ''opencode''))"
  "\<exists>e. fst (freeze_execution_configuration demo_clash ''opencode'' demo_chosen (demo_catalog (Some ''opencode''))) = Inl e \<and>
     exn_code e = Some ''PROTOCOL_INCOMPATIBLE''"
  by (simp_all add: profile_bindings_def demo_row_def demo_clash_def demo_models_def demo_objects_def demo_seat_harness_def
    demo_harness_def demo_catalog_def demo_model_def ledger_demo ledger_progs field_json_def get_json_def json_or_null_def
    truthy_def py_str_def configured_control_def object_member_def rbind_def reference_binding_def reference_of_def
    nonempty_text_def find_model_def model_binding_def models_of_def read_member_def list_or_empty_def index_models_def
    List.map_filter_def str_or_null_def body_get_def credential_binding_def Let_def freeze_execution_configuration_def
    demo_chosen_def get_harness_def get_model_def frozen_model_def usable_by_def item_member_def protocol_clash_def
    seat_protocols_def harness_protocols_def protocol_error_def server_error_def)

end
