(* ===== verification/Workspace_Records.thy ===== *)
theory Workspace_Records
  imports Wire_Projection
begin

text \<open>
  The Workspace records (\<open>workspaces/repository.py\<close>) and the use cases over them
  (\<open>workspaces/service.py\<close>). A connector is the record of the functions the service calls on it; the
  provider of local locations, which reads the file system, is one too. The module defines \<open>get\<close>
  twice with the same body.
\<close>

section \<open>Statements\<close>

definition insert_workspace :: "workspace_row \<Rightarrow> ledger \<Rightarrow> exn + unit \<times> ledger" where
  "insert_workspace r d =
    (if find_workspace d (ws_id r) \<noteq> None then Inl (unique_failed ''server_workspaces.id'')
     else if list_ex (\<lambda>x. ws_connection x = ws_connection r) (l_workspaces d)
       then Inl (unique_failed ''server_workspaces.connection_id'')
     else Inr ((), d\<lparr>l_workspaces := l_workspaces d @ [r]\<rparr>))"

definition update_workspaces ::
  "(workspace_row \<Rightarrow> bool) \<Rightarrow> (workspace_row \<Rightarrow> workspace_row) \<Rightarrow> ledger \<Rightarrow> exn + nat \<times> ledger" where
  "update_workspaces p f d =
    Inr (count_where p (l_workspaces d), d\<lparr>l_workspaces := update_where p f (l_workspaces d)\<rparr>)"

section \<open>Records\<close>

definition workspace_columns :: "workspace_row \<Rightarrow> (string \<times> json) list" where
  "workspace_columns r =
    [(''id'', JStr (ws_id r)), (''connection_id'', JStr (ws_connection r)), (''distribution'', JStr (ws_distribution r)),
     (''remote_user'', str_or_null (ws_user r)), (''remote_path'', JStr (ws_path r)), (''connection_state'', JStr (ws_state r)),
     (''display_name'', str_or_null (ws_name r)), (''version'', JInt (ws_version r)), (''archived_at'', time_or_null (ws_archived r)),
     (''env_kind'', JStr (ws_env r)), (''env_host'', str_or_null (ws_host r)), (''normalized_path'', str_or_null (ws_normalized r)),
     (''created_at'', time_json (ws_created r)), (''updated_at'', time_json (ws_updated r))]"

text \<open>The columns an insert leaves out have their defaults.\<close>

definition create_workspace ::
  "string \<Rightarrow> string \<Rightarrow> string \<Rightarrow> string option \<Rightarrow> string \<Rightarrow> string \<Rightarrow> (int \<times> json) ledger_prog" where
  "create_workspace key dg distribution user path connection =
    once ''POST:/workspaces'' key dg preturn
    (pbind now_utc (\<lambda>t.
     pbind (fresh_id ''ws'') (\<lambda>i.
     (let body = JDict [(''workspace_id'', JStr i), (''connection_id'', JStr connection), (''distribution'', JStr distribution),
            (''user'', str_or_null user), (''path'', JStr path), (''connection_state'', JStr ''verified'')] in
      pseq (exec_sql (insert_workspace
        \<lparr>ws_id = i, ws_connection = connection, ws_distribution = distribution, ws_user = user, ws_path = path,
         ws_state = ''verified'', ws_name = None, ws_version = 1, ws_archived = None, ws_env = ''wsl'', ws_host = None,
         ws_normalized = None, ws_created = t, ws_updated = t\<rparr>))
      (pseq (idempotency_insert ''POST:/workspaces'' key dg 201 body)
        (preturn (201, body)))))))"

definition workspace_order :: "workspace_row \<Rightarrow> (int \<times> bool \<times> int) \<times> string" where
  "workspace_order r = (iso_key (ws_created r), ws_id r)"

definition workspace_summary :: "workspace_row \<Rightarrow> json" where
  "workspace_summary r = JDict
    [(''workspace_id'', JStr (ws_id r)), (''connection_id'', JStr (ws_connection r)),
     (''distribution'', JStr (ws_distribution r)), (''user'', str_or_null (ws_user r)), (''path'', JStr (ws_path r)),
     (''connection_state'', JStr (ws_state r))]"

definition list_workspaces :: "json list ledger_prog" where
  "list_workspaces = read_store (\<lambda>d. map workspace_summary (sort_key workspace_order (l_workspaces d)))"

definition mark_all_unverified :: "unit ledger_prog" where
  "mark_all_unverified =
    transaction (pbind now_utc (\<lambda>t.
      pseq (exec_sql (update_workspaces (\<lambda>r. ws_state r \<noteq> ''unverified'')
        (\<lambda>r. r\<lparr>ws_state := ''unverified'', ws_updated := t\<rparr>))) (preturn ())))"

definition get_workspace :: "string \<Rightarrow> workspace_row ledger_prog" where
  "get_workspace i = fetch_row (\<lambda>d. find_workspace d i) workspace_missing"

text \<open>\<open>COALESCE(a,'') = COALESCE(b,'')\<close>\<close>

definition coalesced :: "string option \<Rightarrow> string" where
  "coalesced v = (case v of None \<Rightarrow> [] | Some s \<Rightarrow> s)"

definition same_location :: "string \<Rightarrow> string option \<Rightarrow> string option \<Rightarrow> string \<Rightarrow> workspace_row \<Rightarrow> bool" where
  "same_location kind host user path r \<longleftrightarrow>
    ws_env r = kind \<and> coalesced (ws_host r) = coalesced host \<and> coalesced (ws_user r) = coalesced user \<and>
    ws_normalized r = Some path"

text \<open>\<open>path.rsplit("/", 1)[-1] or path\<close>\<close>

definition last_segment :: "string \<Rightarrow> string" where
  "last_segment path = (let s = last (split_at_char (CHR ''/'') path) in if s = [] then path else s)"

definition upsert_by_location ::
  "string \<Rightarrow> string option \<Rightarrow> string option \<Rightarrow> string \<Rightarrow> (bool \<times> workspace_row) ledger_prog" where
  "upsert_by_location kind host user path =
    transaction
    (pbind (read_store (\<lambda>d. find (same_location kind host user path) (l_workspaces d))) (\<lambda>row.
     case row of
       Some r \<Rightarrow> preturn (False, r)
     | None \<Rightarrow>
         pbind now_utc (\<lambda>t.
         pbind (fresh_id ''ws'') (\<lambda>i.
         pbind (fresh_id ''conn'') (\<lambda>connection.
         pseq (exec_sql (insert_workspace
           \<lparr>ws_id = i, ws_connection = connection, ws_distribution = (case host of None \<Rightarrow> ''local'' | Some h \<Rightarrow> if h = [] then ''local'' else h),
            ws_user = user, ws_path = path, ws_state = ''verified'', ws_name = Some (last_segment path), ws_version = 1,
            ws_archived = None, ws_env = kind, ws_host = host, ws_normalized = Some path, ws_created = t, ws_updated = t\<rparr>))
         (pbind (fetch_row (\<lambda>d. find_workspace d i) none_error) (\<lambda>r. preturn (True, r))))))))"

definition archive_workspace :: "string \<Rightarrow> int \<Rightarrow> workspace_row ledger_prog" where
  "archive_workspace i expected =
    transaction
    (pbind (fetch_row (\<lambda>d. find_workspace d i) workspace_missing) (\<lambda>row.
     pseq (raise_if (ws_version row \<noteq> expected) (current_error
         (server_error ''RECORD_VERSION_CONFLICT'' ''Workspace changed before archiving'' 409)
         (JDict (workspace_columns row))))
     (pseq (if ws_archived row \<noteq> None then preturn ()
       else pbind now_utc (\<lambda>t. pbind now_utc (\<lambda>u.
         pseq (exec_sql (update_workspaces (\<lambda>r. ws_id r = i)
           (\<lambda>r. r\<lparr>ws_archived := Some t, ws_version := ws_version r + 1, ws_updated := u\<rparr>))) (preturn ()))))
      (fetch_row (\<lambda>d. find_workspace d i) none_error))))"

definition list_active_workspaces :: "bool \<Rightarrow> workspace_row list ledger_prog" where
  "list_active_workspaces include_archived =
    read_store (\<lambda>d. sort_key workspace_order (filter (\<lambda>r. include_archived \<or> ws_archived r = None) (l_workspaces d)))"

definition mark_verified :: "string \<Rightarrow> unit ledger_prog" where
  "mark_verified i =
    transaction (pbind now_utc (\<lambda>t.
      pseq (exec_sql (update_workspaces (\<lambda>r. ws_id r = i) (\<lambda>r. r\<lparr>ws_state := ''verified'', ws_updated := t\<rparr>)))
        (preturn ())))"

definition workspace_exists :: "string \<Rightarrow> bool ledger_prog" where
  "workspace_exists i = read_store (\<lambda>d. find_workspace d i \<noteq> None)"

section \<open>Use cases\<close>

record located =
  lo_distribution :: string
  lo_host :: string
  lo_user :: "string option"
  lo_path :: string
  lo_connection :: string

type_synonym placement = "string option \<times> string option \<times> string \<times> string"

record connector =
  cn_distributions :: "exn + json"
  cn_probe :: "string \<Rightarrow> string option \<Rightarrow> exn + (string \<times> json) list"
  cn_browse :: "json \<Rightarrow> string \<Rightarrow> exn + (string \<times> json) list"
  cn_open :: "json \<Rightarrow> string \<Rightarrow> exn + located"
  cn_read :: "(placement \<Rightarrow> string \<Rightarrow> exn + string \<times> string) option"

record local_provider =
  lp_blockers :: "string list"
  lp_browse :: "string \<Rightarrow> exn + json"
  lp_open :: "string \<Rightarrow> exn + string"
  lp_read :: "string option \<Rightarrow> string \<Rightarrow> exn + string \<times> string"

record workspace_service =
  wk_connector :: "connector option"
  wk_ssh :: "connector option"
  wk_local :: local_provider
  wk_hash :: "string \<Rightarrow> string"

definition readiness_blockers :: "workspace_service \<Rightarrow> string list" where
  "readiness_blockers wk =
    (if wk_connector wk \<noteq> None \<or> wk_ssh wk \<noteq> None then [] else lp_blockers (wk_local wk))"

text \<open>\<open>_connector_call\<close> and \<open>_ssh_call\<close>: a failure that is not a \<open>ServerError\<close> becomes one with the code of
  the exception. \<open>message\<close> is an attribute of the exceptions the connectors raise with a code.\<close>

definition code_or :: "string \<Rightarrow> exn \<Rightarrow> string" where
  "code_or absent e = (case exn_code e of None \<Rightarrow> absent | Some c \<Rightarrow> c)"

definition message_or :: "string \<Rightarrow> exn \<Rightarrow> string" where
  "message_or absent e = (case exn_code e of None \<Rightarrow> absent | Some c \<Rightarrow> exn_msg e)"

definition connector_error :: "exn \<Rightarrow> exn" where
  "connector_error e =
    (if is_server_error e then e
     else (let code = code_or ''WSL_OPERATION_FAILED'' e in
       Exn (ServerError (if code = ''PROBE_EXPIRED'' then 409 else if code = ''WSL_DISTRIBUTION_UNKNOWN'' then 404 else 422) False None)
         (message_or ''WSL operation failed'' e) (Some code) (Some e)))"

definition ssh_error :: "exn \<Rightarrow> exn" where
  "ssh_error e =
    (if is_server_error e then e
     else (let code = code_or ''SSH_OPERATION_FAILED'' e in
       Exn (ServerError (if code = ''PROBE_EXPIRED'' then 409
           else if code \<in> set [''SSH_TARGET_INVALID'', ''SSH_IDENTITY_INVALID''] then 422 else 503) False None)
         (message_or ''SSH operation failed'' e) (Some code) (Some e)))"

definition connector_call :: "exn + 'a \<Rightarrow> exn + 'a" where
  "connector_call r = map_sum connector_error id r"

definition ssh_call :: "exn + 'a \<Rightarrow> exn + 'a" where
  "ssh_call r = map_sum ssh_error id r"

definition no_wsl :: exn where
  "no_wsl = unavailable ''WSL_CONNECTOR_UNAVAILABLE'' ''WSL connector is not configured''"

definition no_ssh :: exn where
  "no_ssh = unavailable ''SSH_CONNECTOR_UNAVAILABLE'' ''SSH connector is not configured''"

definition environment_invalid :: "string \<Rightarrow> exn" where
  "environment_invalid message = server_error ''ENVIRONMENT_INVALID'' message 422"

definition text_or_none :: "json \<Rightarrow> (string option) option" where
  "text_or_none v = (case v of JNull \<Rightarrow> Some None | JStr s \<Rightarrow> Some (Some s) | _ \<Rightarrow> None)"

definition validate_environment :: "json \<Rightarrow> exn + string \<times> string option \<times> string option" where
  "validate_environment v =
    (case v of
       JDict kvs \<Rightarrow>
         if fst ` set kvs \<noteq> set [''kind'', ''host'', ''user''] then Inl (environment_invalid ''environment shape is invalid'')
         else (case get_json kvs ''kind'' of
             JStr kind \<Rightarrow>
               if kind \<notin> set [''local'', ''wsl'', ''ssh''] then Inl (environment_invalid ''environment.kind is not supported'')
               else (case (text_or_none (get_json kvs ''host''), text_or_none (get_json kvs ''user'')) of
                   (Some host, Some user) \<Rightarrow> Inr (kind, host, user)
                 | _ \<Rightarrow> Inl (environment_invalid ''environment identity is invalid''))
           | JList xs \<Rightarrow> Inl (err TypeError (''unhashable type: '' @ py_repr ''list''))
           | JDict xs \<Rightarrow> Inl (err TypeError (''unhashable type: '' @ py_repr ''dict''))
           | _ \<Rightarrow> Inl (environment_invalid ''environment.kind is not supported''))
     | _ \<Rightarrow> Inl (environment_invalid ''environment must be an object''))"

definition wsl_probe :: "workspace_service \<Rightarrow> string option \<Rightarrow> string option \<Rightarrow> exn + connector \<times> json" where
  "wsl_probe wk host user =
    (case wk_connector wk of
       None \<Rightarrow> Inl no_wsl
     | Some c \<Rightarrow> (case host of
           Some (h # hs) \<Rightarrow> rbind (connector_call (cn_probe c (h # hs) user)) (\<lambda>p. map_sum id (\<lambda>i. (c, i)) (field_json p ''probe_id''))
         | _ \<Rightarrow> Inl (environment_invalid ''wsl environment needs a host'')))"

definition ssh_probe :: "workspace_service \<Rightarrow> string option \<Rightarrow> string option \<Rightarrow> exn + connector \<times> json" where
  "ssh_probe wk host user =
    (case wk_ssh wk of
       None \<Rightarrow> Inl no_ssh
     | Some c \<Rightarrow> (case host of
           Some (h # hs) \<Rightarrow> rbind (ssh_call (cn_probe c (h # hs) user)) (\<lambda>p. map_sum id (\<lambda>i. (c, i)) (field_json p ''probe_id''))
         | _ \<Rightarrow> Inl (environment_invalid ''ssh environment needs a host'')))"

text \<open>The names of a listing: a text, or the \<open>name\<close> of an object.\<close>

definition entry_name :: "json \<Rightarrow> exn + string" where
  "entry_name v =
    (case v of
       JStr s \<Rightarrow> Inr s
     | JDict kvs \<Rightarrow> Inr (text_of kvs ''name'' [])
     | _ \<Rightarrow> Inl (err AttributeError ''object has no attribute get''))"

text \<open>The elements a \<open>for\<close> goes through.\<close>

definition iterated :: "json \<Rightarrow> exn + json list" where
  "iterated v =
    (case v of
       JList xs \<Rightarrow> Inr xs
     | JStr s \<Rightarrow> Inr (map (\<lambda>c. JStr [c]) s)
     | JDict kvs \<Rightarrow> Inr (map (\<lambda>kv. JStr (fst kv)) kvs)
     | _ \<Rightarrow> Inl (err TypeError ''object is not iterable''))"

definition listed_names :: "(string \<times> json) list \<Rightarrow> string \<Rightarrow> exn + string list" where
  "listed_names found k = rbind (iterated (get_or found k (JList []))) (map_exn entry_name)"

definition listing_entry :: "bool \<Rightarrow> string \<Rightarrow> json" where
  "listing_entry directory name = JDict
    [(''name'', JStr name), (''kind'', JStr (if directory then ''directory'' else ''file'')), (''canOpen'', JBool directory),
     (''canWrite'', JBool directory), (''reason'', if directory then JNull else JStr ''not_a_directory'')]"

definition browse_environment :: "workspace_service \<Rightarrow> json \<Rightarrow> string \<Rightarrow> exn + json" where
  "browse_environment wk environment path =
    rbind (validate_environment environment) (\<lambda>(kind, host, user).
    if kind = ''local'' then lp_browse (wk_local wk) path
    else rbind (if kind = ''ssh''
        then rbind (ssh_probe wk host user) (\<lambda>(c, p). ssh_call (cn_browse c p path))
        else rbind (wsl_probe wk host user) (\<lambda>(c, p). connector_call (cn_browse c p path))) (\<lambda>found.
      rbind (listed_names found ''directories'') (\<lambda>directories.
      rbind (listed_names found ''files'') (\<lambda>files.
      Inr (JDict [(''path'', get_or found ''path'' (JStr path)),
        (''entries'', JList (map (listing_entry True) directories @ map (listing_entry False) files))])))))"

definition or_text :: "string option \<Rightarrow> string option \<Rightarrow> string option" where
  "or_text a b = (case a of Some (c # cs) \<Rightarrow> a | _ \<Rightarrow> b)"

definition open_environment :: "workspace_service \<Rightarrow> json \<Rightarrow> string \<Rightarrow> (bool \<times> workspace_row) ledger_prog" where
  "open_environment wk environment path =
    pbind (plift (validate_environment environment)) (\<lambda>(kind, host, user).
    if kind = ''local'' then
      pbind (plift (lp_open (wk_local wk) path)) (\<lambda>verified. upsert_by_location ''local'' None None verified)
    else if kind = ''ssh'' then
      pbind (plift (rbind (ssh_probe wk host user) (\<lambda>(c, p). ssh_call (cn_open c p path)))) (\<lambda>verified.
        upsert_by_location ''ssh'' (Some (lo_host verified)) (or_text (lo_user verified) user) (lo_path verified))
    else
      pbind (plift (rbind (wsl_probe wk host user) (\<lambda>(c, p). connector_call (cn_open c p path)))) (\<lambda>verified.
        upsert_by_location kind host (or_text (lo_user verified) user) (lo_path verified)))"

definition read_workspace_file :: "workspace_service \<Rightarrow> workspace_row \<Rightarrow> string \<Rightarrow> exn + string \<times> string" where
  "read_workspace_file wk r relative =
    (if ws_env r = ''local'' then lp_read (wk_local wk) (ws_normalized r) relative
     else if ws_env r = ''ssh'' then
       (case wk_ssh wk of
          None \<Rightarrow> Inl no_ssh
        | Some c \<Rightarrow> (case cn_read c of
              None \<Rightarrow> Inl (err AttributeError ''object has no attribute read_workspace_file'')
            | Some read \<Rightarrow> ssh_call (read (ws_host r, ws_user r, ws_connection r, ws_path r) relative)))
     else
       (case wk_connector wk of
          None \<Rightarrow> Inl no_wsl
        | Some c \<Rightarrow> (case cn_read c of
              None \<Rightarrow> Inl (unavailable ''WSL_CONNECTOR_UNAVAILABLE'' ''workspace attachment reading is unavailable'')
            | Some read \<Rightarrow> connector_call (read (Some (ws_distribution r), ws_user r, ws_connection r, ws_path r) relative))))"

definition create_workspace_use :: "workspace_service \<Rightarrow> string \<Rightarrow> string \<Rightarrow> string \<Rightarrow> (int \<times> json) ledger_prog" where
  "create_workspace_use wk key probe path =
    (case wk_connector wk of
       None \<Rightarrow> praise no_wsl
     | Some c \<Rightarrow>
         pbind (plift (digest (wk_hash wk) (JDict [(''probe_id'', JStr probe), (''path'', JStr path)]))) (\<lambda>dg.
         prior_or ''POST:/workspaces'' key dg
           (pbind (plift (connector_call (cn_open c (JStr probe) path))) (\<lambda>verified.
             create_workspace key dg (lo_distribution verified) (lo_user verified) (lo_path verified)
               (lo_connection verified)))))"

definition list_distributions :: "workspace_service \<Rightarrow> exn + json" where
  "list_distributions wk = (case wk_connector wk of None \<Rightarrow> Inl no_wsl | Some c \<Rightarrow> cn_distributions c)"

definition probe_connection :: "workspace_service \<Rightarrow> string \<Rightarrow> string \<Rightarrow> string option \<Rightarrow> (int \<times> json) ledger_prog" where
  "probe_connection wk key distribution user =
    (case wk_connector wk of
       None \<Rightarrow> praise no_wsl
     | Some c \<Rightarrow>
         pbind (plift (digest (wk_hash wk) (JDict
           [(''kind'', JStr ''wsl''), (''distribution'', JStr distribution), (''user'', str_or_null user)]))) (\<lambda>dg.
         prior_or ''POST:/connections/probe'' key dg
           (pbind (plift (connector_call (cn_probe c distribution user))) (\<lambda>result.
             idempotency_save ''POST:/connections/probe'' key dg 201 (JDict result)))))"

definition browse_connection :: "workspace_service \<Rightarrow> string \<Rightarrow> string \<Rightarrow> string \<Rightarrow> (int \<times> json) ledger_prog" where
  "browse_connection wk key probe path =
    (case wk_connector wk of
       None \<Rightarrow> praise no_wsl
     | Some c \<Rightarrow>
         pbind (plift (digest (wk_hash wk) (JDict [(''probe_id'', JStr probe), (''path'', JStr path)]))) (\<lambda>dg.
         prior_or ''POST:/connections/browse'' key dg
           (pbind (plift (connector_call (cn_browse c (JStr probe) path))) (\<lambda>result.
             idempotency_save ''POST:/connections/browse'' key dg 200 (JDict result)))))"

end
