(* ===== verification/Wire_Requests.thy ===== *)
theory Wire_Requests
  imports Workspace_Records Sendability Delegation
begin

text \<open>
  What the handlers of the wire protocol share (\<open>wire/handlers.py\<close>): a handler answers with a value
  or a \<open>WireError\<close>; the shapes of the parameters; the checks of single fields; the message of a
  send. The MIME type guessed from a name is a function.
\<close>

section \<open>Handlers\<close>

type_synonym 'a handler = "(wire_error + 'a) ledger_prog"

definition wfail :: "wire_error \<Rightarrow> 'a handler" where
  "wfail e = preturn (Inl e)"

definition wok :: "'a \<Rightarrow> 'a handler" where
  "wok x = preturn (Inr x)"

definition wbind :: "'a handler \<Rightarrow> ('a \<Rightarrow> 'b handler) \<Rightarrow> 'b handler" where
  "wbind m k = pbind m (\<lambda>r. case r of Inl e \<Rightarrow> wfail e | Inr x \<Rightarrow> k x)"

text \<open>A program that raises no \<open>WireError\<close>, and the result of a check.\<close>

definition wrun :: "'a ledger_prog \<Rightarrow> 'a handler" where
  "wrun m = pbind m wok"

definition wtry :: "exn + 'a \<Rightarrow> 'a handler" where
  "wtry r = wrun (plift r)"

definition wcheck :: "wire_error + 'a \<Rightarrow> 'a handler" where
  "wcheck r = preturn r"

definition wguard :: "bool \<Rightarrow> string \<Rightarrow> unit handler" where
  "wguard c message = (if c then wfail (invalid_request message) else wok ())"

text \<open>\<open>except ServerError as exc: raise f(exc) from exc\<close>\<close>

definition wcatch :: "'a handler \<Rightarrow> (exn \<Rightarrow> 'a handler) \<Rightarrow> 'a handler" where
  "wcatch m f = try_catch m (\<lambda>e. if is_server_error e then f e else praise e)"

type_synonym wire_params = "(string \<times> json) list"

text \<open>\<open>params[k]\<close>\<close>

definition param :: "wire_params \<Rightarrow> string \<Rightarrow> json handler" where
  "param ps k = wtry (field_json ps k)"

section \<open>Methods\<close>

text \<open>\<open>_PARAM_SHAPES\<close>: the required and the optional parameters of a method.\<close>

definition param_shapes :: "(string \<times> string list \<times> string list) list" where
  "param_shapes =
    [(''server.hello'', [''clientVersions'', ''clientPresentationSupports''], []),
     (''workspaces.open'', [''requestId'', ''environment'', ''path''], [''expectedVersion'']),
     (''workspaces.list'', [''includeArchived''], []),
     (''workspaces.browse'', [''requestId'', ''environment'', ''path''], []),
     (''workspaces.archive'', [''requestId'', ''workspaceId'', ''expectedVersion''], []),
     (''workspaces.gitStatus'', [''requestId'', ''workspaceId''], []),
     (''executions.list'', [''requestId''], [''limit'']),
     (''executions.get'', [''requestId'', ''executionId''], []),
     (''acp.channel.open'', [''harnessId'', ''projectId''], [''requestId'']),
     (''acp.channel.release'', [''connectionId''], [''requestId'']),
     (''profiles.list'', [''includeArchived''], []),
     (''profiles.create'', [''requestId'', ''displayName'', ''harness''], [''credentialId'']),
     (''profiles.update'', [''requestId'', ''profileId'', ''expectedVersion'', ''displayName''], []),
     (''profiles.updateConfig'', [''requestId'', ''profileId'', ''expectedVersion'', ''values''], []),
     (''profiles.archive'', [''requestId'', ''profileId'', ''expectedVersion''], []),
     (''profiles.clone'', [''requestId'', ''profileId'', ''displayName''], [''harness'']),
     (''profiles.memory'', [''requestId'', ''profileId''], []),
     (''profiles.subagentGrants'', [''profileId''], []),
     (''profiles.grantSubagent'', [''requestId'', ''profileId'', ''childProfileId''], []),
     (''profiles.revokeSubagent'', [''requestId'', ''profileId'', ''childProfileId''], []),
     (''profiles.setPermissions'', [''requestId'', ''profileId'', ''expectedVersion'', ''preset'', ''rules''], []),
     (''providerModels.list'', [''includeArchived''], []),
     (''providerModels.create'', [''requestId'', ''displayName'', ''harness'', ''provider'', ''credentialId'', ''configuration'', ''models''], [''provenance'']),
     (''providerModels.update'', [''requestId'', ''providerModelId'', ''expectedVersion'', ''displayName'', ''credentialId'', ''configuration'', ''models''], [''provenance'']),
     (''providerModels.archive'', [''requestId'', ''providerModelId'', ''expectedVersion''], []),
     (''assets.list'', [], []),
     (''assets.publishSkill'', [''requestId'', ''assetId'', ''revision'', ''sourcePath''], []),
     (''assets.publishMcp'', [''requestId'', ''assetId'', ''revision'', ''definition''], []),
     (''assets.publishPlugin'', [''requestId'', ''assetId'', ''revision'', ''sourcePath''], []),
     (''assets.bind'', [''requestId'', ''profileId'', ''assetId''], [''revision'', ''enabled'']),
     (''assets.unbind'', [''requestId'', ''profileId'', ''assetId''], []),
     (''assets.bindings'', [''profileId''], []),
     (''assets.syncCatalog'', [''requestId'', ''sourceId'', ''sourcePath''], []),
     (''assets.catalog'', [''sourceId''], []),
     (''assets.installFromCatalog'', [''requestId'', ''sourceId'', ''entryName'', ''revision''], []),
     (''assets.probe'', [''definition''], []),
     (''hooks.list'', [''requestId''], [''family'']),
     (''hooks.create'', [''requestId'', ''family'', ''name'', ''model''], [''source'']),
     (''hooks.update'', [''requestId'', ''hookId'', ''model''], []),
     (''hooks.setEnabled'', [''requestId'', ''hookId'', ''enabled''], []),
     (''hooks.delete'', [''requestId'', ''hookId''], []),
     (''hooks.triggers'', [''requestId''], [''hookId'', ''limit'']),
     (''accounts.list'', [], []),
     (''accounts.create'', [''requestId'', ''harness'', ''accountIdentifier''], []),
     (''accounts.bind'', [''requestId'', ''profileId'', ''expectedVersion'', ''accountId''], []),
     (''accounts.importAsset'', [''requestId'', ''accountId'', ''sourcePath''], []),
     (''providerModels.probeModels'', [''requestId'', ''baseUrl''], [''credentialId'', ''provenance'']),
     (''providerModels.probeConnection'', [''requestId'', ''baseUrl''], [''credentialId'']),
     (''providerArtifacts.list'', [''harness''], []),
     (''providerArtifacts.install'', [''requestId'', ''harness'', ''version'', ''sourceToken'', ''digest''], []),
     (''providerArtifacts.rollback'', [''requestId'', ''harness'', ''version''], []),
     (''usage.aggregate'', [''sessions''], [''since'', ''until'']),
     (''usage.export'', [''sessions''], [''format'']),
     (''config.describe'', [''profileId'', ''workspaceId''], []),
     (''config.resolve'', [''profileId'', ''workspaceId'', ''overrides''], []),
     (''sessions.list'', [''includeArchived''], [''workspaceId'', ''page'']),
     (''sessions.update'', [''requestId'', ''sessionId'', ''expectedVersion''], [''displayName'', ''pinned'', ''workspaceId'']),
     (''sessions.archive'', [''requestId'', ''sessionId'', ''expectedVersion''], []),
     (''sessions.switchProfile'', [''requestId'', ''sessionId'', ''profileId'', ''expectedVersion''], []),
     (''sessions.createAndSend'', [''requestId'', ''workspaceId'', ''profileId'', ''overrides'', ''message''], []),
     (''sessions.send'', [''requestId'', ''sessionId'', ''overrides'', ''message''], []),
     (''sendOutcome.query'', [''requestId''], []),
     (''queue.get'', [''sessionId''], []),
     (''queue.withdraw'', [''requestId'', ''sessionId'', ''itemId'', ''expectedVersion''], []),
     (''runs.stop'', [''requestId'', ''sessionId'', ''executionId''], []),
     (''approvals.decide'', [''requestId'', ''approvalId'', ''expectedVersion'', ''decision'', ''scope''], []),
     (''history.snapshot'', [''sessionId''], [''cursor'', ''page''])]"

text \<open>The keys of \<open>_handlers\<close>, in their order.\<close>

definition method_names :: "string list" where
  "method_names =
    [''server.hello'', ''workspaces.browse'', ''workspaces.open'', ''workspaces.list'',
     ''workspaces.archive'', ''workspaces.gitStatus'', ''executions.list'', ''executions.get'',
     ''acp.channel.open'', ''acp.channel.release'', ''profiles.list'', ''profiles.create'',
     ''profiles.update'', ''profiles.updateConfig'', ''profiles.archive'', ''profiles.clone'',
     ''profiles.setPermissions'', ''profiles.memory'', ''profiles.subagentGrants'',
     ''profiles.grantSubagent'', ''profiles.revokeSubagent'', ''providerModels.list'',
     ''providerModels.create'', ''providerModels.update'', ''providerModels.archive'',
     ''providerModels.probeModels'', ''assets.list'', ''assets.publishSkill'', ''assets.publishMcp'',
     ''assets.publishPlugin'', ''assets.bind'', ''assets.unbind'', ''assets.bindings'',
     ''assets.syncCatalog'', ''assets.catalog'', ''assets.installFromCatalog'', ''assets.probe'',
     ''hooks.list'', ''hooks.create'', ''hooks.update'', ''hooks.setEnabled'', ''hooks.delete'',
     ''hooks.triggers'', ''accounts.list'', ''accounts.create'', ''accounts.bind'',
     ''accounts.importAsset'', ''providerModels.probeConnection'', ''providerArtifacts.list'',
     ''providerArtifacts.install'', ''providerArtifacts.rollback'', ''usage.aggregate'',
     ''usage.export'', ''config.describe'', ''config.resolve'', ''sessions.list'', ''sessions.update'',
     ''sessions.archive'', ''sessions.createAndSend'', ''sessions.send'', ''sessions.switchProfile'',
     ''sendOutcome.query'', ''queue.get'', ''queue.withdraw'', ''runs.stop'', ''approvals.decide'',
     ''history.snapshot'']"

section \<open>Fields\<close>

definition require_params :: "wire_params \<Rightarrow> string list \<Rightarrow> unit handler" where
  "require_params ps names =
    (let missing = filter (\<lambda>n. n \<notin> fst ` set ps) names in
     wguard (missing \<noteq> []) (''params is missing '' @ join_comma missing))"

definition bounded :: "string \<Rightarrow> int \<Rightarrow> json \<Rightarrow> wire_error + string" where
  "bounded name limit v =
    (case v of
       JStr (c # cs) \<Rightarrow> if int (length (c # cs)) \<le> limit then Inr (c # cs) else Inl (invalid_request (name @ '' must be a bounded string''))
     | _ \<Rightarrow> Inl (invalid_request (name @ '' must be a bounded string'')))"

definition default_limit :: int where "default_limit = 4096"

definition bounded_param :: "wire_params \<Rightarrow> string \<Rightarrow> string handler" where
  "bounded_param ps k = wbind (param ps k) (\<lambda>v. wcheck (bounded k default_limit v))"

definition limited_param :: "wire_params \<Rightarrow> string \<Rightarrow> int \<Rightarrow> string handler" where
  "limited_param ps k limit = wbind (param ps k) (\<lambda>v. wcheck (bounded k limit v))"

definition request_id :: "json \<Rightarrow> wire_error + string" where
  "request_id v = rbind (bounded ''requestId'' default_limit v) (\<lambda>s.
    if length s < 8 then Inl (invalid_request ''requestId must contain at least 8 characters'') else Inr s)"

definition request_id_param :: "wire_params \<Rightarrow> string handler" where
  "request_id_param ps = wbind (param ps ''requestId'') (\<lambda>v. wcheck (request_id v))"

definition safe_integer :: int where "safe_integer = 9007199254740991"

definition wire_version :: "json \<Rightarrow> wire_error + int" where
  "wire_version v =
    (case v of
       JInt n \<Rightarrow> if 0 \<le> n \<and> n \<le> safe_integer then Inr n
         else Inl (invalid_request ''expectedVersion must be a non-negative safe integer'')
     | _ \<Rightarrow> Inl (invalid_request ''expectedVersion must be a non-negative safe integer''))"

definition version_param :: "wire_params \<Rightarrow> int handler" where
  "version_param ps = wbind (param ps ''expectedVersion'') (\<lambda>v. wcheck (wire_version v))"

definition bool_field :: "string \<Rightarrow> json \<Rightarrow> wire_error + bool" where
  "bool_field name v = (case v of JBool b \<Rightarrow> Inr b | _ \<Rightarrow> Inl (invalid_request (name @ '' must be a boolean'')))"

text \<open>An item is an object with exactly the two keys and a text id.\<close>

definition assignment_shape :: "json \<Rightarrow> (string \<times> json) option" where
  "assignment_shape v =
    (case v of
       JDict kvs \<Rightarrow>
         if fst ` set kvs = set [''controlId'', ''value''] then
           (case get_json kvs ''controlId'' of JStr k \<Rightarrow> Some (k, get_json kvs ''value'') | _ \<Rightarrow> None)
         else None
     | _ \<Rightarrow> None)"

definition reject_assignments :: "json list \<Rightarrow> exn + unit" where
  "reject_assignments xs =
    rbind (reject_sensitive_keys (JList xs)) (\<lambda>_.
    reject_sensitive_keys (assignment_dict (List.map_filter assignment_shape xs)))"

definition overrides_param :: "wire_params \<Rightarrow> json list option handler" where
  "overrides_param ps =
    (case get_json ps ''overrides'' of
       JNull \<Rightarrow> wok None
     | JList xs \<Rightarrow>
         if list_all (\<lambda>x. assignment_shape x \<noteq> None) xs
           then wbind (wtry (reject_assignments xs)) (\<lambda>_. wok (Some xs))
         else wfail (invalid_request ''each override needs controlId and value'')
     | _ \<Rightarrow> wfail (invalid_request ''overrides must be a list of control assignments''))"

definition assignments :: "string \<Rightarrow> json \<Rightarrow> json list handler" where
  "assignments name v =
    (case v of
       JList xs \<Rightarrow>
         if list_all (\<lambda>x. case assignment_shape x of Some (c # cs, y) \<Rightarrow> True | _ \<Rightarrow> False) xs
           then wbind (wtry (reject_assignments xs)) (\<lambda>_. wok xs)
         else wfail (invalid_request (''each '' @ name @ '' item needs controlId and value''))
     | _ \<Rightarrow> wfail (invalid_request (name @ '' must be a list of control assignments'')))"

text \<open>\<open>v in {...}\<close> raises for a list or an object.\<close>

definition unhashable :: "json \<Rightarrow> bool" where
  "unhashable v \<longleftrightarrow> (case v of JList xs \<Rightarrow> True | JDict kvs \<Rightarrow> True | _ \<Rightarrow> False)"

definition member_of :: "json \<Rightarrow> string list \<Rightarrow> bool handler" where
  "member_of v names =
    (if unhashable v then wrun (praise (err TypeError ''unhashable type'')) else wok (v \<in> JStr ` set names))"

definition model_item :: "json \<Rightarrow> json handler" where
  "model_item v =
    (case v of
       JDict kvs \<Rightarrow>
         if fst ` set kvs \<noteq> set [''modelId'', ''displayName'', ''availability'', ''unavailableReason'']
           then wfail (invalid_request ''each model has an invalid shape'')
         else wbind (member_of (get_json kvs ''availability'') [''unknown'', ''available'', ''unavailable'']) (\<lambda>ok.
           if \<not> ok then wfail (invalid_request ''model availability is invalid'')
           else (case text_or_none (get_json kvs ''unavailableReason'') of
               None \<Rightarrow> wfail (invalid_request ''unavailableReason must be a string or null'')
             | Some reason \<Rightarrow>
                 wbind (wcheck (bounded ''modelId'' 256 (get_json kvs ''modelId''))) (\<lambda>i.
                 wbind (wcheck (bounded ''displayName'' 256 (get_json kvs ''displayName''))) (\<lambda>name.
                 wok (JDict [(''modelId'', JStr i), (''displayName'', JStr name),
                   (''availability'', get_json kvs ''availability''), (''unavailableReason'', str_or_null reason)])))))
     | _ \<Rightarrow> wfail (invalid_request ''each model has an invalid shape''))"

fun weach :: "('a \<Rightarrow> 'b handler) \<Rightarrow> 'a list \<Rightarrow> 'b list handler" where
  "weach f [] = wok []"
| "weach f (x # xs) = wbind (f x) (\<lambda>y. wbind (weach f xs) (\<lambda>ys. wok (y # ys)))"

definition wire_models :: "json \<Rightarrow> json list handler" where
  "wire_models v =
    (case v of JList xs \<Rightarrow> weach model_item xs | _ \<Rightarrow> wfail (invalid_request ''models must be a list''))"

section \<open>Messages\<close>

text \<open>\<open>PurePosixPath(ref)\<close>: empty and dot segments disappear; an absolute path keeps its root.\<close>

definition posix_parts :: "string \<Rightarrow> string list" where
  "posix_parts ref = filter (\<lambda>p. p \<noteq> [] \<and> p \<noteq> ''.'') (split_at_char (CHR ''/'') ref)"

fun join_slash :: "string list \<Rightarrow> string" where
  "join_slash [] = []"
| "join_slash [p] = p"
| "join_slash (p # q # ps) = p @ ''/'' @ join_slash (q # ps)"

definition normalized_ref :: "string \<Rightarrow> bool" where
  "normalized_ref ref \<longleftrightarrow>
    \<not> (ref \<noteq> [] \<and> hd ref = CHR ''/'') \<and> posix_parts ref \<noteq> [] \<and> ''..'' \<notin> set (posix_parts ref) \<and>
    join_slash (posix_parts ref) = ref"

definition attachment_total :: int where "attachment_total = 8388608"

record media =
  md_publish :: "string \<Rightarrow> exn + string"
  md_mime :: "string \<Rightarrow> string option"
  md_read :: "workspace_row \<Rightarrow> string \<Rightarrow> exn + string \<times> string"

definition attachment_shape :: "json \<Rightarrow> ((string \<times> json) list \<times> string \<times> string \<times> json) handler" where
  "attachment_shape v =
    (case v of
       JDict kvs \<Rightarrow>
         if fst ` set kvs \<noteq> set [''ref'', ''displayName'', ''mediaKind''] then wfail (invalid_request ''attachment shape is invalid'')
         else (case (get_json kvs ''ref'', get_json kvs ''displayName'') of
             (JStr ref, JStr name) \<Rightarrow>
               if 4096 < int (length ref) \<or> 512 < int (length name) then wfail (invalid_request ''attachment names are invalid'')
               else wbind (member_of (get_json kvs ''mediaKind'') [''file'', ''image'', ''other'']) (\<lambda>ok.
                 if \<not> ok then wfail (invalid_request ''attachment mediaKind is invalid'')
                 else if \<not> normalized_ref ref then wfail (invalid_request ''attachment ref must be a normalized workspace path'')
                 else wok (kvs, ref, name, get_json kvs ''mediaKind''))
           | _ \<Rightarrow> wfail (invalid_request ''attachment names are invalid''))
     | _ \<Rightarrow> wfail (invalid_request ''attachment shape is invalid''))"

definition resolved_item :: "media \<Rightarrow> (string \<times> json) list \<Rightarrow> string \<Rightarrow> json \<Rightarrow> string \<Rightarrow> string \<Rightarrow> json" where
  "resolved_item md kvs name kind object content = JDict (kvs @
    [(''_contentDigest'', JStr object), (''_size'', JInt (int (length content))),
     (''_mime'', JStr (case md_mime md name of
        Some (c # cs) \<Rightarrow> c # cs
      | _ \<Rightarrow> if kind = JStr ''image'' then ''image/png'' else ''application/octet-stream''))])"

text \<open>The attachments from the left, with the bytes counted so far.\<close>

fun resolve_attachments :: "media \<Rightarrow> workspace_row \<Rightarrow> int \<Rightarrow> json list \<Rightarrow> json list handler" where
  "resolve_attachments md ws seen [] = wok []"
| "resolve_attachments md ws seen (v # vs) =
    wbind (attachment_shape v) (\<lambda>(kvs, ref, name, kind).
    case md_read md ws ref of
      Inl e \<Rightarrow> wfail (invalid_request ''attachment is outside the authorized workspace or unreadable'')
    | Inr (content, content_digest) \<Rightarrow>
        wbind (wguard (attachment_total < seen + int (length content)) ''attachments exceed the bounded message size'') (\<lambda>_.
        wbind (wtry (md_publish md content)) (\<lambda>object.
        if object \<noteq> content_digest then wfail (new_wire_error ''OUTCOME_UNKNOWN'' ''attachment changed during capture'' [])
        else
          wbind (resolve_attachments md ws (seen + int (length content)) vs) (\<lambda>rest.
          wok (resolved_item md kvs name kind object content # rest)))))"

definition resolve_message :: "media \<Rightarrow> workspace_row \<Rightarrow> json \<Rightarrow> json handler" where
  "resolve_message md ws v =
    (case v of
       JDict kvs \<Rightarrow>
         (case (map_of kvs ''text'', map_of kvs ''attachments'') of
            (Some text, Some attachments) \<Rightarrow>
              (case text of
                 JStr t \<Rightarrow>
                   if \<not> (1 \<le> length t \<and> int (length t) \<le> 4096)
                     then wfail (invalid_request ''message.text must be between 1 and 4096 characters'')
                   else (case attachments of
                       JList xs \<Rightarrow>
                         if 32 < length xs then wfail (invalid_request ''message has too many attachments'')
                         else wbind (resolve_attachments md ws 0 xs) (\<lambda>items.
                           wok (JDict [(''text'', JStr t), (''attachments'', JList items)]))
                     | _ \<Rightarrow> wfail (invalid_request ''message.attachments must be a list''))
               | _ \<Rightarrow> wfail (invalid_request ''message.text must be between 1 and 4096 characters''))
          | _ \<Rightarrow> wfail (invalid_request ''message needs text and attachments''))
     | _ \<Rightarrow> wfail (invalid_request ''message needs text and attachments''))"

text \<open>The three public keys of an attachment.\<close>

definition public_attachment :: "json \<Rightarrow> exn + json" where
  "public_attachment v =
    map_sum id JDict (map_exn (\<lambda>k. map_sum id (\<lambda>x. (k, x)) (item_member v k)) [''ref'', ''displayName'', ''mediaKind''])"

definition public_attachments :: "json \<Rightarrow> exn + json" where
  "public_attachments message =
    rbind (object_member message ''attachments'') (\<lambda>v.
    rbind (iterated (if body_get message ''attachments'' = None then JList [] else v)) (\<lambda>items.
    map_sum id JList (map_exn public_attachment items)))"

definition public_message :: "json \<Rightarrow> exn + json" where
  "public_message message =
    rbind (public_attachments message) (\<lambda>items.
    Inr (JDict [(''text'', JStr (case body_get message ''text'' of None \<Rightarrow> [] | Some t \<Rightarrow> py_str t)), (''attachments'', items)]))"

definition stored_message :: "(string \<Rightarrow> exn + json) \<Rightarrow> string \<Rightarrow> exn + json" where
  "stored_message read object =
    rbind (read object) (\<lambda>stored.
    rbind (object_member stored ''message'') (\<lambda>inner.
    rbind (dict_of (if truthy inner then inner else stored)) (\<lambda>message.
    rbind (public_attachments (JDict message)) (\<lambda>items.
    Inr (JDict (dict_put ''attachments'' items message))))))"

text \<open>\<open>" ".join(text.split())\<close>\<close>

fun words_of :: "string \<Rightarrow> string \<Rightarrow> string list" where
  "words_of word [] = (if word = [] then [] else [word])"
| "words_of word (c # cs) =
    (if py_space c then (if word = [] then words_of [] cs else word # words_of [] cs) else words_of (word @ [c]) cs)"

fun join_space :: "string list \<Rightarrow> string" where
  "join_space [] = []"
| "join_space [p] = p"
| "join_space (p # q # ps) = p @ '' '' @ join_space (q # ps)"

definition title_of :: "string \<Rightarrow> string" where
  "title_of text = take 72 (join_space (words_of [] text))"

end
