(* ===== verification/Wire_Handlers.thy ===== *)
theory Wire_Handlers
  imports Wire_Requests
begin

text \<open>
  The handlers of \<open>WireService\<close> (\<open>wire/handlers.py\<close>) over the modelled records and use cases, the
  event stream, and \<open>dispatch\<close>. A composition is a record of its collaborators. The methods whose
  collaborators are not modelled are the function \<open>wr_rest\<close>, which may do anything a handler can:
  answer, raise a \<open>WireError\<close> (family, message, details, current) or raise any exception.
\<close>

section \<open>Collaborators\<close>

type_synonym raw_refusal = "string \<times> string \<times> (string \<times> json) list \<times> json option"

record wire_service =
  wr_id :: string
  wr_sessions :: session_service
  wr_workspaces :: workspace_service
  wr_profiles :: profile_service
  wr_models :: "model_service option"
  wr_queue :: objects
  wr_decide :: "(string \<Rightarrow> string \<Rightarrow> json \<Rightarrow> unit ledger_prog) option"
  wr_codec :: codec
  wr_token :: bool
  wr_native :: "(exn + json) option"
  wr_mime :: "string \<Rightarrow> string option"
  wr_depth :: nat
  wr_rest :: "string \<Rightarrow> wire_params \<Rightarrow> (raw_refusal + json) ledger_prog"

definition wr_harnesses :: "wire_service \<Rightarrow> harnesses" where
  "wr_harnesses wr = sv_harnesses (wr_sessions wr)"

definition wr_digest :: "wire_service \<Rightarrow> json \<Rightarrow> string handler" where
  "wr_digest wr v = wtry (digest (sv_hash (wr_sessions wr)) v)"

definition wr_media :: "wire_service \<Rightarrow> media" where
  "wr_media wr = \<lparr>md_publish = sv_publish (wr_sessions wr), md_mime = wr_mime wr,
     md_read = read_workspace_file (wr_workspaces wr)\<rparr>"

definition publish_message :: "wire_service \<Rightarrow> json \<Rightarrow> string handler" where
  "publish_message wr message =
    wtry (rbind (canonical (JDict [(''schema_version'', JInt 1), (''message'', message)])) (sv_publish (wr_sessions wr)))"

text \<open>\<open>_dispatch\<close>: no failure of the port escapes, not even the absence of a port.\<close>

definition dispatch_execution_wire :: "wire_service \<Rightarrow> string \<Rightarrow> unit ledger_prog" where
  "dispatch_execution_wire wr i =
    try_catch (case sv_execution (wr_sessions wr) of
        None \<Rightarrow> praise (err AttributeError ''object has no attribute accept'')
      | Some port \<Rightarrow> ep_accept port i) (\<lambda>_. preturn ())"

section \<open>Discovery\<close>

definition capability_of :: "wire_service \<Rightarrow> string \<Rightarrow> bool \<times> string" where
  "capability_of wr i =
    (if take 11 i = ''workspaces.'' then
       (case readiness_blockers (wr_workspaces wr) of [] \<Rightarrow> (True, []) | b # _ \<Rightarrow> (False, b))
     else if take 9 i = ''sessions.'' \<or> i = ''sendOutcome.query'' then
       (if Option.is_none (sv_execution (wr_sessions wr)) then (False, ''EXECUTION_CAPABILITY_UNAVAILABLE'') else (True, []))
     else (True, []))"

definition capability_json :: "wire_service \<Rightarrow> string \<Rightarrow> json" where
  "capability_json wr i =
    (let (supported, reason) = capability_of wr i in
     JDict ([(''id'', JStr i), (''supported'', JBool supported)] @ (if supported then [] else [(''reason'', JStr reason)])))"

definition harness_json :: "harnesses \<Rightarrow> string \<Rightarrow> json" where
  "harness_json hs i = JDict ([(''id'', JStr i)]
    @ (case map_of hs i of
         None \<Rightarrow> []
       | Some h \<Rightarrow> (case hs_credential h of None \<Rightarrow> [] | Some k \<Rightarrow> [(''credentialKind'', JStr k)])
           @ (case hs_model_control h of None \<Rightarrow> [] | Some c \<Rightarrow> [(''modelControlId'', JStr c)])))"

definition native_ok :: "wire_service \<Rightarrow> json \<Rightarrow> bool" where
  "native_ok wr v \<longleftrightarrow>
    (case v of
       JDict kvs \<Rightarrow> get_json kvs ''mode'' = JStr ''native'' \<and>
         get_json kvs ''harness'' \<in> JStr ` set (registered_harnesses (wr_harnesses wr)) \<and>
         nonempty_text (get_json kvs ''profileId'') \<noteq> None
     | _ \<Rightarrow> False)"

definition hello :: "wire_service \<Rightarrow> wire_params \<Rightarrow> json handler" where
  "hello wr ps =
    wbind (require_params ps [''clientVersions'', ''clientPresentationSupports'']) (\<lambda>_.
    wbind (param ps ''clientVersions'') (\<lambda>versions.
    wbind (param ps ''clientPresentationSupports'') (\<lambda>presentations.
    wbind (wguard (\<not> all_texts versions \<or> versions = JList [] \<or> \<not> all_texts presentations)
      ''clientVersions must be a non-empty list'') (\<lambda>_.
    (let result = [(''serverId'', JStr (wr_id wr)), (''protocolVersion'', JStr ''wire/1''),
           (''capabilities'', JList (map (capability_json wr) method_names)),
           (''auth'', if wr_token wr then JDict [(''required'', JBool True), (''schemes'', JList [JStr ''session_token''])]
              else JDict [(''required'', JBool False)]),
           (''harnesses'', JList (map (harness_json (wr_harnesses wr)) (registered_harnesses (wr_harnesses wr))))] in
     case wr_native wr of
       None \<Rightarrow> wok (JDict result)
     | Some provider \<Rightarrow>
         wbind (wtry provider) (\<lambda>native.
         if \<not> native_ok wr native then wfail (new_wire_error ''SERVER_NATIVE_IDENTITY_INVALID'' ''native execution identity is unavailable'' [])
         else wok (JDict (result @ [(''nativeExecution'', native)]))))))))"

section \<open>Workspaces\<close>

definition include_archived :: "json \<Rightarrow> bool handler" where
  "include_archived v = wcheck (bool_field ''includeArchived'' v)"

definition workspace_view :: "workspace_row \<Rightarrow> json handler" where
  "workspace_view r = wtry (workspace_record (workspace_columns r))"

definition workspaces_browse :: "wire_service \<Rightarrow> wire_params \<Rightarrow> json handler" where
  "workspaces_browse wr ps =
    wbind (require_params ps [''requestId'', ''environment'', ''path'']) (\<lambda>_.
    wbind (param ps ''environment'') (\<lambda>environment.
    wbind (bounded_param ps ''path'') (\<lambda>path.
    wtry (browse_environment (wr_workspaces wr) environment path))))"

definition workspaces_open :: "wire_service \<Rightarrow> wire_params \<Rightarrow> json handler" where
  "workspaces_open wr ps =
    wbind (require_params ps [''requestId'', ''environment'', ''path'']) (\<lambda>_.
    wbind (if get_json ps ''expectedVersion'' = JNull then wok 0 else wcheck (wire_version (get_json ps ''expectedVersion''))) (\<lambda>_.
    wbind (param ps ''environment'') (\<lambda>environment.
    wbind (bounded_param ps ''path'') (\<lambda>path.
    wbind (wrun (open_environment (wr_workspaces wr) environment path)) (\<lambda>(created, row).
    wbind (workspace_view row) (\<lambda>view.
    wok (JDict [(''created'', JBool created), (''workspace'', view)])))))))"

definition workspaces_list :: "wire_service \<Rightarrow> wire_params \<Rightarrow> json handler" where
  "workspaces_list wr ps =
    wbind (include_archived (get_or ps ''includeArchived'' (JBool False))) (\<lambda>include.
    wbind (wrun (list_active_workspaces include)) (\<lambda>rows.
    wbind (weach workspace_view rows) (\<lambda>items.
    wok (JDict [(''items'', JList items), (''nextCursor'', JNull)]))))"

text \<open>The refusal of a stale version carries the projection of the record as it is.\<close>

definition with_current :: "(json \<Rightarrow> json handler) \<Rightarrow> exn \<Rightarrow> 'a handler" where
  "with_current project e =
    (let error = from_server_error e in
     case we_current error of
       None \<Rightarrow> wfail error
     | Some c \<Rightarrow> wbind (project c) (\<lambda>v. wfail (error\<lparr>we_current := Some v\<rparr>)))"

definition workspaces_archive :: "wire_service \<Rightarrow> wire_params \<Rightarrow> json handler" where
  "workspaces_archive wr ps =
    wbind (require_params ps [''requestId'', ''workspaceId'', ''expectedVersion'']) (\<lambda>_.
    wbind (wcatch
        (wbind (bounded_param ps ''workspaceId'') (\<lambda>i.
         wbind (version_param ps) (\<lambda>expected. wrun (archive_workspace i expected))))
        (with_current (\<lambda>c. wtry (workspace_record (mapping_or_empty c))))) (\<lambda>row.
    wbind (workspace_view row) (\<lambda>view. wok (JDict [(''workspace'', view)]))))"

section \<open>Profiles\<close>

definition profile_of :: "wire_service \<Rightarrow> json \<Rightarrow> json handler" where
  "profile_of wr row = wrun (profile_view (wr_harnesses wr) (wr_models wr) (mapping_or_empty row))"

definition profile_reply :: "wire_service \<Rightarrow> json \<Rightarrow> json handler" where
  "profile_reply wr row = wbind (profile_of wr row) (\<lambda>view. wok (JDict [(''profile'', view)]))"

text \<open>\<open>except ServerError as exc: raise self._profile_error(exc)\<close>\<close>

definition profile_catch :: "wire_service \<Rightarrow> 'a handler \<Rightarrow> 'a handler" where
  "profile_catch wr m = wcatch m (with_current (profile_of wr))"

definition profiles_list :: "wire_service \<Rightarrow> wire_params \<Rightarrow> json handler" where
  "profiles_list wr ps =
    wbind (include_archived (get_or ps ''includeArchived'' (JBool False))) (\<lambda>include.
    wbind (wrun (list_profiles include)) (\<lambda>rows.
    wbind (weach (\<lambda>r. profile_of wr (profile_dict r)) rows) (\<lambda>items.
    wok (JDict [(''items'', JList items), (''nextCursor'', JNull)]))))"

definition profiles_create :: "wire_service \<Rightarrow> wire_params \<Rightarrow> json handler" where
  "profiles_create wr ps =
    wbind (if get_json ps ''credentialId'' = JNull then wok None
           else wbind (wcheck (bounded ''credentialId'' default_limit (get_json ps ''credentialId''))) (\<lambda>c. wok (Some c))) (\<lambda>credential.
    wbind (request_id_param ps) (\<lambda>key.
    wbind (limited_param ps ''displayName'' 128) (\<lambda>name.
    wbind (limited_param ps ''harness'' 64) (\<lambda>harness.
    wbind (wrun (create_wire (wr_profiles wr) key name harness credential)) (\<lambda>row.
    profile_reply wr (profile_dict row))))))"

definition profiles_subagent_grants :: "wire_service \<Rightarrow> wire_params \<Rightarrow> json handler" where
  "profiles_subagent_grants wr ps =
    wbind (bounded_param ps ''profileId'') (\<lambda>p.
    wbind (wrun (get_profile p)) (\<lambda>_.
    wbind (wrun (subagent_grants (Some p))) (\<lambda>grants.
    wbind (wrun (read_store (\<lambda>d. sort (map sg_parent (filter (\<lambda>g. sg_child g = p) (l_grants d)))))) (\<lambda>callers.
    wok (JDict
      [(''subagentGrants'', JList (map (\<lambda>g. JDict [(''childProfileId'', JStr (sg_child g))]) grants)),
       (''callableBy'', JList (map (\<lambda>c. JDict [(''parentProfileId'', JStr c)]) callers))])))))"

definition profiles_grant_subagent :: "wire_service \<Rightarrow> wire_params \<Rightarrow> json handler" where
  "profiles_grant_subagent wr ps =
    wbind (profile_catch wr
      (wbind (bounded_param ps ''profileId'') (\<lambda>parent.
       wbind (bounded_param ps ''childProfileId'') (\<lambda>child. wrun (grant_subagent parent child))))) (\<lambda>grant.
    wok (JDict [(''grant'', grant)]))"

definition profiles_revoke_subagent :: "wire_service \<Rightarrow> wire_params \<Rightarrow> json handler" where
  "profiles_revoke_subagent wr ps =
    wbind (profile_catch wr
      (wbind (bounded_param ps ''profileId'') (\<lambda>parent.
       wbind (bounded_param ps ''childProfileId'') (\<lambda>child. wrun (revoke_subagent parent child))))) (\<lambda>_.
    wok (JDict [(''revoked'', JBool True)]))"

text \<open>The digest of the request leaves the expected version out.\<close>

definition profiles_set_permissions :: "wire_service \<Rightarrow> wire_params \<Rightarrow> json handler" where
  "profiles_set_permissions wr ps =
    wbind (param ps ''rules'') (\<lambda>rules.
    wbind (wguard (case rules of JList xs \<Rightarrow> False | _ \<Rightarrow> True) ''rules must be a list'') (\<lambda>_.
    wbind (profile_catch wr
      (wbind (bounded_param ps ''profileId'') (\<lambda>p.
       wbind (limited_param ps ''preset'' 32) (\<lambda>preset.
       wbind (version_param ps) (\<lambda>expected.
       wbind (request_id_param ps) (\<lambda>key.
       wbind (wr_digest wr (JDict [(''profileId'', JStr p), (''preset'', JStr preset), (''rules'', rules)])) (\<lambda>dg.
       wrun (set_permissions p preset rules expected key dg)))))))) (\<lambda>(status, body).
    wbind (wtry (body_field body ''profile'')) (profile_reply wr))))"

definition profiles_update :: "wire_service \<Rightarrow> wire_params \<Rightarrow> json handler" where
  "profiles_update wr ps =
    wbind (profile_catch wr
      (wbind (request_id_param ps) (\<lambda>key.
       wbind (bounded_param ps ''profileId'') (\<lambda>p.
       wbind (version_param ps) (\<lambda>expected.
       wbind (limited_param ps ''displayName'' 128) (\<lambda>name.
       wrun (update_display_name_use (wr_profiles wr) key p expected name)))))))
      (profile_reply wr)"

definition profiles_update_config :: "wire_service \<Rightarrow> wire_params \<Rightarrow> json handler" where
  "profiles_update_config wr ps =
    wbind (assignments ''values'' (get_json ps ''values'')) (\<lambda>items.
    wbind (profile_catch wr
      (wbind (request_id_param ps) (\<lambda>key.
       wbind (bounded_param ps ''profileId'') (\<lambda>p.
       wbind (version_param ps) (\<lambda>expected.
       wrun (update_configuration_use (wr_profiles wr) key p expected (List.map_filter assignment_shape items))))))) (\<lambda>row.
    wbind (profile_of wr row) (\<lambda>view.
    wbind (wtry (rbind (item_member row ''config_revision'') json_int)) (\<lambda>revision.
    wok (JDict [(''profile'', view), (''configVersion'', JInt revision), (''effectiveFor'', JStr ''next_send'')])))))"

definition profiles_archive :: "wire_service \<Rightarrow> wire_params \<Rightarrow> json handler" where
  "profiles_archive wr ps =
    wbind (profile_catch wr
      (wbind (request_id_param ps) (\<lambda>key.
       wbind (bounded_param ps ''profileId'') (\<lambda>p.
       wbind (version_param ps) (\<lambda>expected.
       wrun (archive_profile_use (wr_profiles wr) key p expected)))))
      ) (profile_reply wr)"

section \<open>Provider/Model configurations\<close>

definition require_models :: "wire_service \<Rightarrow> model_service handler" where
  "require_models wr =
    (case wr_models wr of
       None \<Rightarrow> wfail (new_wire_error ''UNAVAILABLE'' ''Provider/Model configuration storage is unavailable'' [])
     | Some mo \<Rightarrow> wok mo)"

definition provider_models_list :: "wire_service \<Rightarrow> wire_params \<Rightarrow> json handler" where
  "provider_models_list wr ps =
    wbind (require_models wr) (\<lambda>mo.
    wbind (param ps ''includeArchived'') (\<lambda>v.
    wbind (include_archived v) (\<lambda>include.
    wbind (wrun (list_model_configs mo include)) (\<lambda>items.
    wok (JDict [(''items'', JList items), (''nextCursor'', JNull)])))))"

text \<open>\<open>_provenance\<close>: a field that is not named keeps its value, one named null is cleared.\<close>

definition provenance_field :: "(string \<times> json) list \<Rightarrow> string \<Rightarrow> string list \<Rightarrow> string option option handler" where
  "provenance_field raw field allowed =
    (case map_of raw field of
       None \<Rightarrow> wok None
     | Some JNull \<Rightarrow> wok (Some None)
     | Some v \<Rightarrow>
         wbind (wcheck (bounded (''provenance.'' @ field) 512 (JStr (py_str v)))) (\<lambda>s.
         wbind (wguard (allowed \<noteq> [] \<and> s \<notin> set allowed) (''provenance.'' @ field @ '' is not a known value'')) (\<lambda>_.
         wok (Some (Some s)))))"

definition nothing_named :: provenance where
  "nothing_named = \<lparr>pv_base = None, pv_auth = None, pv_wire = None, pv_source = None\<rparr>"

definition provenance_param :: "wire_params \<Rightarrow> provenance handler" where
  "provenance_param ps =
    (case get_json ps ''provenance'' of
       JNull \<Rightarrow> wok nothing_named
     | JDict raw \<Rightarrow>
         if \<not> fst ` set raw \<subseteq> set [''baseUrl'', ''authStyle'', ''wireApi'', ''fieldsSource'']
           then wfail (invalid_request ''provenance carries unknown fields'')
         else
           wbind (provenance_field raw ''baseUrl'' []) (\<lambda>base.
           wbind (provenance_field raw ''authStyle'' [''api_key'', ''oauth'', ''none'']) (\<lambda>auth.
           wbind (provenance_field raw ''wireApi'' [''chat_completions'', ''responses'']) (\<lambda>wire.
           wbind (provenance_field raw ''fieldsSource'' [''preset'', ''pulled'', ''manual'']) (\<lambda>source.
           wok \<lparr>pv_base = base, pv_auth = auth, pv_wire = wire, pv_source = source\<rparr>))))
     | _ \<Rightarrow> wfail (invalid_request ''provenance carries unknown fields''))"

definition model_request_param :: "wire_params \<Rightarrow> model_request handler" where
  "model_request_param ps =
    wbind (limited_param ps ''displayName'' 128) (\<lambda>name.
    wbind (param ps ''credentialId'') (\<lambda>c.
    wbind (wbind (param ps ''configuration'') (assignments ''configuration'')) (\<lambda>configuration.
    wbind (wbind (param ps ''models'') wire_models) (\<lambda>models.
    wbind (if c = JNull then wok None else wbind (wcheck (bounded ''credentialId'' default_limit c)) (\<lambda>s. wok (Some s))) (\<lambda>credential.
    wok \<lparr>mr_name = name, mr_credential = credential, mr_configuration = configuration, mr_models = models,
      mr_provenance = nothing_named\<rparr>)))))"

definition provider_models_create :: "wire_service \<Rightarrow> wire_params \<Rightarrow> json handler" where
  "provider_models_create wr ps =
    wbind (require_models wr) (\<lambda>mo.
    wbind (model_request_param ps) (\<lambda>q.
    wbind (limited_param ps ''harness'' 64) (\<lambda>harness.
    wbind (limited_param ps ''provider'' 128) (\<lambda>provider.
    wbind (provenance_param ps) (\<lambda>pv.
    wbind (request_id_param ps) (\<lambda>key.
    wbind (wrun (create_model_config mo key (q\<lparr>mr_provenance := pv\<rparr>) harness provider)) (\<lambda>record.
    wok (JDict [(''providerModel'', JDict record)]))))))))"

text \<open>The row a version conflict carries is projected again from the stored record.\<close>

definition model_of_columns :: "json \<Rightarrow> model_row ledger_prog" where
  "model_of_columns c =
    pbind (plift (body_field c ''id'')) (\<lambda>i. fetch_row (\<lambda>d. find_model d (py_str i)) none_error)"

definition provider_models_update :: "wire_service \<Rightarrow> wire_params \<Rightarrow> json handler" where
  "provider_models_update wr ps =
    wbind (require_models wr) (\<lambda>mo.
    wbind (bounded_param ps ''providerModelId'') (\<lambda>i.
    wbind (wcatch
      (wbind (model_request_param ps) (\<lambda>q.
       wbind (provenance_param ps) (\<lambda>pv.
       wbind (version_param ps) (\<lambda>expected.
       wbind (request_id_param ps) (\<lambda>key.
       wrun (update_model_config mo i expected key (q\<lparr>mr_provenance := pv\<rparr>)))))))
      (with_current (\<lambda>c. wrun (pbind (model_of_columns c) (\<lambda>r. plift (map_sum id JDict (project_model mo r)))))))
      (\<lambda>record. wok (JDict [(''providerModel'', JDict record)]))))"

definition reference_conflict :: exn where
  "reference_conflict =
    server_error ''REFERENCE_CONFLICT'' ''Provider/Model config is referenced by active Profiles'' 409"

definition provider_models_archive :: "wire_service \<Rightarrow> wire_params \<Rightarrow> json handler" where
  "provider_models_archive wr ps =
    wbind (require_models wr) (\<lambda>mo.
    wbind (wcatch
      (wbind (bounded_param ps ''providerModelId'') (\<lambda>i.
       wbind (version_param ps) (\<lambda>expected.
       wbind (request_id_param ps) (\<lambda>key.
       wrun (archive_model_config mo i expected key)))))
      (\<lambda>e. wfail (from_server_error e))) (\<lambda>outcome.
    case outcome of
      Referenced ids \<Rightarrow>
        (let error = from_server_error reference_conflict in
         wfail (error\<lparr>we_details := we_details error @ [(''referenceIds'', JList (map JStr ids))]\<rparr>))
    | Archived record \<Rightarrow> wok (JDict [(''providerModel'', JDict record)])))"

end
