(* ===== verification/Wire_Config.thy ===== *)
theory Wire_Config
  imports Wire_Handlers
begin

text \<open>
  The configuration methods (\<open>config.describe\<close>, \<open>config.resolve\<close> in \<open>wire/handlers.py\<close>): the controls
  of a Profile, the model slots, and what a turn would run with.
\<close>

section \<open>References\<close>

text \<open>\<open>_model_reference_list\<close>: unlike \<open>_model_references\<close> of the service, both ids must be texts.\<close>

fun model_reference_list :: "json \<Rightarrow> (string \<times> string) list"
  and reference_lists :: "json list \<Rightarrow> (string \<times> string) list"
  and reference_lists_under :: "(string \<times> json) list \<Rightarrow> (string \<times> string) list" where
  "model_reference_list (JDict kvs) =
    (case (get_json kvs ''providerId'', get_json kvs ''modelId'') of
       (JStr p, JStr m) \<Rightarrow> [(p, m)] | _ \<Rightarrow> []) @ reference_lists_under kvs"
| "model_reference_list (JList xs) = reference_lists xs"
| "model_reference_list _ = []"
| "reference_lists [] = []"
| "reference_lists (x # xs) = model_reference_list x @ reference_lists xs"
| "reference_lists_under [] = []"
| "reference_lists_under ((k, v) # kvs) = model_reference_list v @ reference_lists_under kvs"

section \<open>Controls\<close>

definition configuration_of :: "wire_service \<Rightarrow> profile_row \<Rightarrow> (string \<times> json) list handler" where
  "configuration_of wr profile =
    wtry (rbind (sv_read (wr_sessions wr) (pf_config profile)) stored_configuration)"

definition harness_of :: "wire_service \<Rightarrow> profile_row \<Rightarrow> harness option" where
  "harness_of wr profile = map_of (wr_harnesses wr) (pf_harness profile)"

definition locked_controls :: "wire_service \<Rightarrow> profile_row \<Rightarrow> string list" where
  "locked_controls wr profile = (case harness_of wr profile of None \<Rightarrow> [] | Some h \<Rightarrow> hs_locked h)"

definition table_slot :: "model_service \<Rightarrow> string \<Rightarrow> nat \<Rightarrow> string \<times> string \<Rightarrow> json handler" where
  "table_slot mo control index reference =
    wbind (wrun (reference_view mo (fst reference) (snd reference))) (\<lambda>model.
    wok (JDict [(''name'', JStr (control @ ''['' @ show_nat index @ '']'')), (''slotIndex'', JInt (int index)),
      (''table'', JStr ''providerModels''), (''providerId'', JStr (fst reference)),
      (''modelId'', JStr (snd reference)), (''model'', model)]))"

definition slot_entries :: "model_service option \<Rightarrow> string \<Rightarrow> (string \<times> string) list \<Rightarrow> json \<Rightarrow> json list handler" where
  "slot_entries models control references current =
    (case models of
       None \<Rightarrow> wok [JDict [(''name'', JStr control), (''model'', JNull)]]
     | Some mo \<Rightarrow>
         (case current of
            JList xs \<Rightarrow> weach (\<lambda>(i, r). table_slot mo control i r) (zip [0..<length references] references)
          | _ \<Rightarrow>
              wbind (case references of
                  [] \<Rightarrow> wok JNull
                | r # rs \<Rightarrow> wrun (reference_view mo (fst r) (snd r))) (\<lambda>model.
              wok [JDict [(''name'', JStr control), (''model'', model)]])))"

definition declared_control ::
  "wire_service \<Rightarrow> harness \<Rightarrow> (string \<times> json) list \<Rightarrow> string \<times> json list \<Rightarrow> json handler" where
  "declared_control wr h configured control =
    (let i = fst control; values = snd control; current = get_json configured i;
         references = model_reference_list current in
     if wr_models wr \<noteq> None \<and> (hs_model_control h = Some i \<and> values = [] \<or> references \<noteq> []) then
       wbind (slot_entries (wr_models wr) i references current) (\<lambda>slots.
       wok (JDict [(''kind'', JStr ''model_slot''), (''controlId'', JStr i), (''editable'', JBool True),
         (''slots'', JList slots)]))
     else wok (JDict ([(''kind'', JStr ''enum''), (''controlId'', JStr i), (''values'', JList values),
         (''editable'', JBool True)]
       @ (case current of JStr s \<Rightarrow> [(''currentValue'', current)] | _ \<Rightarrow> []))))"

definition stored_control :: "string \<times> json \<Rightarrow> json" where
  "stored_control item =
    (let flag = (case snd item of JBool b \<Rightarrow> True | _ \<Rightarrow> False) in
     JDict ([(''kind'', JStr (if flag then ''boolean'' else ''string'')), (''controlId'', JStr (fst item)),
       (''editable'', JBool True), (''currentValue'', snd item)]
       @ (if flag then [] else [(''multiline'', JBool False)])))"

text \<open>The ids of the controls, and the controls.\<close>

definition declared_options :: "wire_service \<Rightarrow> profile_row \<Rightarrow> (string \<times> json list) list" where
  "declared_options wr profile =
    (case harness_of wr profile of None \<Rightarrow> [] | Some h \<Rightarrow> sort_key fst (hs_options h))"

definition controls_of :: "wire_service \<Rightarrow> profile_row \<Rightarrow> (string list \<times> json list) handler" where
  "controls_of wr profile =
    wbind (configuration_of wr profile) (\<lambda>configured.
    let options = declared_options wr profile;
        rest = filter (\<lambda>(k, v). k \<notin> fst ` set options) (sort_key fst configured) in
    wbind (case harness_of wr profile of
        None \<Rightarrow> wok []
      | Some h \<Rightarrow> weach (declared_control wr h configured) options) (\<lambda>declared.
    wok (map fst options @ map fst rest, declared @ map stored_control rest)))"

definition config_describe :: "wire_service \<Rightarrow> wire_params \<Rightarrow> json handler" where
  "config_describe wr ps =
    wbind (require_params ps [''profileId'', ''workspaceId'']) (\<lambda>_.
    wbind (bounded_param ps ''profileId'') (\<lambda>p.
    wbind (wrun (get_profile p)) (\<lambda>profile.
    wbind (controls_of wr profile) (\<lambda>(ids, controls).
    wbind (param ps ''workspaceId'') (\<lambda>workspace.
    wok (JDict [(''descriptor'', JDict
      [(''profileId'', JStr (pf_id profile)), (''workspaceId'', workspace), (''controls'', JList controls),
       (''securityLockedIds'', JList (map JStr (locked_controls wr profile))),
       (''effectTiming'', JStr ''next_send'')])]))))))"

section \<open>Resolution\<close>

text \<open>The first declared value of a control, then the Profile, then the overrides; a locked control
  that the Profile configures keeps the configured value.\<close>

definition discovered_values :: "(string \<times> json list) list \<Rightarrow> (string \<times> json) list" where
  "discovered_values options =
    List.map_filter (\<lambda>(k, vs). case vs of [] \<Rightarrow> None | v # _ \<Rightarrow> Some (k, v)) options"

definition lock_values :: "string list \<Rightarrow> (string \<times> json) list \<Rightarrow> (string \<times> json) list \<Rightarrow> (string \<times> json) list" where
  "lock_values locked configured effective =
    assign_all (List.map_filter (\<lambda>k. map_option (\<lambda>v. (k, v)) (map_of configured k)) locked) effective"

definition effective_values ::
  "wire_service \<Rightarrow> profile_row \<Rightarrow> (string \<times> json) list \<Rightarrow> (string \<times> json) list handler" where
  "effective_values wr profile overrides =
    wbind (configuration_of wr profile) (\<lambda>configured.
    (let options = (case harness_of wr profile of None \<Rightarrow> [] | Some h \<Rightarrow> hs_options h);
         start = assign_all configured (assign_all (discovered_values options) []) in
     wok (lock_values (locked_controls wr profile) configured (assign_all overrides start))))"

definition invalid_control :: "string \<Rightarrow> string \<Rightarrow> json" where
  "invalid_control why k = JDict [(''controlId'', JStr k), (''reason'', JStr why)]"

definition config_resolve :: "wire_service \<Rightarrow> wire_params \<Rightarrow> json handler" where
  "config_resolve wr ps =
    wbind (require_params ps [''profileId'', ''workspaceId'', ''overrides'']) (\<lambda>_.
    wbind (bounded_param ps ''profileId'') (\<lambda>p.
    wbind (wrun (get_profile p)) (\<lambda>profile.
    wbind (overrides_param ps) (\<lambda>given.
    let overrides = (case given of None \<Rightarrow> [] | Some xs \<Rightarrow> List.map_filter assignment_shape xs) in
    wbind (controls_of wr profile) (\<lambda>(ids, controls).
    let invalid = map (invalid_control ''unknown_control'') (filter (\<lambda>k. k \<notin> set ids) (map fst overrides))
          @ map (invalid_control ''security_locked'') (filter (\<lambda>k. k \<in> set (locked_controls wr profile)) (map fst overrides)) in
    if invalid \<noteq> [] then wok (JDict [(''outcome'', JStr ''rejected''), (''invalidControls'', JList invalid)])
    else
      wbind (effective_values wr profile overrides) (\<lambda>effective.
      wok (JDict [(''outcome'', JStr ''resolved''),
        (''effective'', JList (map (\<lambda>(k, v). JDict [(''controlId'', JStr k), (''value'', v)]) effective))])))))))"

end
