(* ===== verification/Wire_Sessions.thy ===== *)
theory Wire_Sessions
  imports Wire_Config
begin

text \<open>
  The session, queue, run, approval and history methods of \<open>WireService\<close> and the batches of the event
  stream (\<open>wire/handlers.py\<close>). Reading a page of sessions or of history answers with signed cursors.
\<close>

section \<open>Pages\<close>

text \<open>\<open>params.get("page") or {}\<close>, with at most the keys \<open>cursor\<close> and \<open>limit\<close>\<close>

definition page_param :: "wire_params \<Rightarrow> wire_params handler" where
  "page_param ps =
    (let v = get_json ps ''page'' in
     if \<not> truthy v then wok []
     else (case v of
         JDict kvs \<Rightarrow> if fst ` set kvs \<subseteq> set [''cursor'', ''limit''] then wok kvs
           else wfail (invalid_request ''page shape is invalid'')
       | _ \<Rightarrow> wfail (invalid_request ''page shape is invalid'')))"

definition page_bounds :: wire_error where
  "page_bounds = invalid_request ''page.limit must be between 1 and 500''"

definition page_limit :: "wire_error \<Rightarrow> wire_params \<Rightarrow> nat handler" where
  "page_limit not_an_integer page =
    (case map_of page ''limit'' of
       None \<Rightarrow> wok 200
     | Some (JInt n) \<Rightarrow> if 1 \<le> n \<and> n \<le> 500 then wok (nat n) else wfail page_bounds
     | _ \<Rightarrow> wfail not_an_integer)"

definition cursor_position :: "wire_error + string \<times> int \<Rightarrow> int handler" where
  "cursor_position r = wbind (wcheck r) (\<lambda>(session, seq). wok seq)"

section \<open>Sessions\<close>

text \<open>\<open>"sessions_" + digest(...).split(":", 1)[1][:24]\<close>\<close>

definition catalog_scope :: "wire_service \<Rightarrow> string option \<Rightarrow> bool \<Rightarrow> string handler" where
  "catalog_scope wr workspace include =
    wbind (wr_digest wr (JDict [(''workspaceId'', str_or_null workspace), (''includeArchived'', JBool include)])) (\<lambda>dg.
    case split_colon 1 dg of
      [a, b] \<Rightarrow> wok (''sessions_'' @ take 24 b)
    | _ \<Rightarrow> wtry (Inl (err (OtherException ''IndexError'') ''list index out of range'')))"

definition sessions_list :: "wire_service \<Rightarrow> wire_params \<Rightarrow> json handler" where
  "sessions_list wr ps =
    wbind (require_params ps [''includeArchived'']) (\<lambda>_.
    wbind (wbind (param ps ''includeArchived'') include_archived) (\<lambda>include.
    wbind (if get_json ps ''workspaceId'' = JNull then wok None
      else wbind (wcheck (bounded ''workspaceId'' default_limit (get_json ps ''workspaceId''))) (\<lambda>w. wok (Some w))) (\<lambda>workspace.
    wbind (page_param ps) (\<lambda>page.
    wbind (page_limit page_bounds page) (\<lambda>limit.
    wbind (catalog_scope wr workspace include) (\<lambda>scope.
    wbind (if get_json page ''cursor'' = JNull then wok 0
      else cursor_position (cursor_decode (wr_codec wr) (py_str (get_json page ''cursor'')) (Some scope))) (\<lambda>after.
    wbind (wrun (list_sessions workspace include (nat after) (limit + 1))) (\<lambda>rows.
    let visible = take limit rows;
        next = (if limit < length rows \<and> visible \<noteq> []
          then JStr (cursor_encode (wr_codec wr) scope (int (fst (last visible)))) else JNull) in
    wbind (wtry (map_exn (\<lambda>(k, r). session_record (session_columns k r)) visible)) (\<lambda>items.
    wok (JDict [(''items'', JList items), (''nextCursor'', next)]))))))))))"

definition given_param :: "wire_params \<Rightarrow> string \<Rightarrow> (json \<Rightarrow> wire_error + 'a) \<Rightarrow> 'a option handler" where
  "given_param ps k f =
    (case map_of ps k of None \<Rightarrow> wok None | Some v \<Rightarrow> wbind (wcheck (f v)) (\<lambda>x. wok (Some x)))"

definition given_item :: "string \<Rightarrow> ('a \<Rightarrow> json) \<Rightarrow> 'a option \<Rightarrow> (string \<times> json) list" where
  "given_item k f v = (case v of None \<Rightarrow> [] | Some x \<Rightarrow> [(k, f x)])"

definition sessions_update :: "wire_service \<Rightarrow> wire_params \<Rightarrow> json handler" where
  "sessions_update wr ps =
    wbind (require_params ps [''requestId'', ''sessionId'', ''expectedVersion'']) (\<lambda>_.
    wbind (wguard (\<not> list_ex (\<lambda>k. k \<in> fst ` set ps) [''displayName'', ''pinned'', ''workspaceId''])
      ''a Session update must change at least one field'') (\<lambda>_.
    wbind (given_param ps ''displayName'' (bounded ''displayName'' 512)) (\<lambda>name.
    wbind (given_param ps ''pinned'' (bool_field ''pinned'')) (\<lambda>pinned.
    wbind (given_param ps ''workspaceId'' (bounded ''workspaceId'' default_limit)) (\<lambda>workspace.
    wbind (bounded_param ps ''sessionId'') (\<lambda>s.
    wbind (version_param ps) (\<lambda>expected.
    wbind (bounded_param ps ''requestId'') (\<lambda>request.
    wbind (wr_digest wr (JDict ([(''sessionId'', JStr s), (''expectedVersion'', JInt expected)]
      @ given_item ''displayName'' JStr name @ given_item ''pinned'' JBool pinned
      @ given_item ''workspaceId'' JStr workspace))) (\<lambda>dg.
    wbind (wrun (update_session s expected request dg name pinned workspace)) (\<lambda>updated.
    wok (JDict [(''session'', updated)])))))))))))"

definition sessions_archive :: "wire_service \<Rightarrow> wire_params \<Rightarrow> json handler" where
  "sessions_archive wr ps =
    wbind (require_params ps [''requestId'', ''sessionId'', ''expectedVersion'']) (\<lambda>_.
    wbind (bounded_param ps ''sessionId'') (\<lambda>s.
    wbind (version_param ps) (\<lambda>expected.
    wbind (bounded_param ps ''requestId'') (\<lambda>request.
    wbind (wr_digest wr (JDict [(''sessionId'', JStr s), (''expectedVersion'', JInt expected)])) (\<lambda>dg.
    wbind (wrun (archive_session s expected request dg)) (\<lambda>archived.
    wok (JDict [(''session'', archived)])))))))"

text \<open>An accepted turn has its Core records filed and is then dispatched.\<close>

definition start_accepted :: "wire_service \<Rightarrow> string \<Rightarrow> json \<Rightarrow> unit handler" where
  "start_accepted wr outcome body =
    (let i = json_or_null (body_get body ''executionId'') in
     if outcome = ''accepted'' \<and> truthy i then
       wrun (pseq (file_core_records (sv_config (wr_sessions wr)) (py_str i)) (dispatch_execution_wire wr (py_str i)))
     else wok ())"

text \<open>The Session as \<open>get_session\<close> gives it, projected.\<close>

definition session_reply_record :: "json \<Rightarrow> exn + json" where
  "session_reply_record session =
    rbind (body_field session ''session_id'') (\<lambda>i.
    rbind (body_field session ''version'') (\<lambda>version.
    rbind (body_field session ''workspace_id'') (\<lambda>workspace.
    rbind (body_field session ''profile_id'') (\<lambda>profile.
    rbind (body_field session ''created_at'') (\<lambda>created.
    rbind (body_field session ''updated_at'') (\<lambda>updated.
    session_record
      [(''id'', i), (''version'', version), (''workspace_id'', workspace), (''profile_id'', profile),
       (''display_name'', first_truthy [json_or_null (body_get session ''display_name''), i]),
       (''pinned'', case body_get session ''pinned'' of None \<Rightarrow> JBool False | Some v \<Rightarrow> v),
       (''archived_at'', json_or_null (body_get session ''archived_at'')),
       (''created_at'', created), (''updated_at'', updated)]))))))"

definition created_reply :: "string \<Rightarrow> json \<Rightarrow> json ledger_prog" where
  "created_reply outcome body =
    (if outcome \<in> set [''accepted'', ''replay''] then
       pbind (plift (body_field body ''sessionId'')) (\<lambda>s.
       pbind (get_session (py_str s) 200) (\<lambda>session.
       pbind (plift (session_reply_record session)) (\<lambda>record.
       pbind (plift (body_field body ''executionId'')) (\<lambda>execution.
       pbind (plift (body_field body ''configVersion'')) (\<lambda>config.
       preturn (JDict [(''outcome'', JStr ''accepted''), (''session'', record), (''executionId'', execution),
         (''configVersion'', config)]))))))
     else preturn (JDict
       [(''outcome'', JStr ''rejected_before_accept''),
        (''reason'', case body_get body ''reason'' of None \<Rightarrow> JStr ''rejected'' | Some v \<Rightarrow> v),
        (''invalidControls'', json_or_null (body_get body ''invalidControls''))]))"

definition overrides_or_empty :: "wire_params \<Rightarrow> json list handler" where
  "overrides_or_empty ps =
    wbind (overrides_param ps) (\<lambda>v. wok (case v of None \<Rightarrow> [] | Some xs \<Rightarrow> xs))"

definition fallback_title :: "wire_service \<Rightarrow> json \<Rightarrow> string option" where
  "fallback_title wr public =
    (if sv_native (wr_sessions wr) = None then None
     else Some (title_of (case body_get public ''text'' of Some (JStr t) \<Rightarrow> t | _ \<Rightarrow> [])))"

definition sessions_create_and_send :: "wire_service \<Rightarrow> wire_params \<Rightarrow> json handler" where
  "sessions_create_and_send wr ps =
    wbind (require_params ps [''requestId'', ''workspaceId'', ''profileId'', ''message'', ''overrides'']) (\<lambda>_.
    wbind (bounded_param ps ''workspaceId'') (\<lambda>w.
    wbind (wrun (get_workspace w)) (\<lambda>workspace.
    wbind (wbind (param ps ''message'') (resolve_message (wr_media wr) workspace)) (\<lambda>message.
    wbind (overrides_or_empty ps) (\<lambda>overrides.
    wbind (bounded_param ps ''requestId'') (\<lambda>request.
    wbind (param ps ''profileId'') (\<lambda>profile.
    wbind (wr_digest wr (JDict [(''workspaceId'', JStr w), (''profileId'', profile), (''message'', message),
      (''overrides'', JList overrides)])) (\<lambda>dg.
    wbind (wtry (public_message message)) (\<lambda>public.
    wbind (bounded_param ps ''profileId'') (\<lambda>p.
    wbind (publish_message wr message) (\<lambda>object.
    wbind (wrun (accept_intent_use (wr_sessions wr) None (Some w) p request dg object public
      (fallback_title wr public) overrides)) (\<lambda>(outcome, body).
    wbind (start_accepted wr outcome body) (\<lambda>_.
    wrun (created_reply outcome body))))))))))))))"

definition sent_reply :: "json \<Rightarrow> json" where
  "sent_reply body = JDict ((''outcome'', JStr ''accepted'')
    # map (\<lambda>k. (k, json_or_null (body_get body k))) [''executionId'', ''configVersion'', ''queueItemId''])"

definition sessions_send :: "wire_service \<Rightarrow> wire_params \<Rightarrow> json handler" where
  "sessions_send wr ps =
    wbind (require_params ps [''requestId'', ''sessionId'', ''message'', ''overrides'']) (\<lambda>_.
    wbind (overrides_or_empty ps) (\<lambda>overrides.
    wbind (bounded_param ps ''requestId'') (\<lambda>request.
    wbind (bounded_param ps ''sessionId'') (\<lambda>s.
    wbind (wrun (get_session s 200)) (\<lambda>session.
    wbind (wtry (body_field session ''workspace_id'')) (\<lambda>w.
    wbind (wrun (get_workspace (py_str w))) (\<lambda>workspace.
    wbind (wbind (param ps ''message'') (resolve_message (wr_media wr) workspace)) (\<lambda>message.
    wbind (wr_digest wr (JDict [(''sessionId'', JStr s), (''message'', message), (''overrides'', JList overrides)])) (\<lambda>dg.
    wbind (wtry (public_message message)) (\<lambda>public.
    wbind (wtry (body_field session ''profile_id'')) (\<lambda>p.
    wbind (publish_message wr message) (\<lambda>object.
    wbind (wrun (accept_intent_use (wr_sessions wr) (Some s) None (py_str p) request dg object public None overrides))
      (\<lambda>(outcome, body).
    wbind (start_accepted wr outcome body) (\<lambda>_. wok (sent_reply body)))))))))))))))"

definition sessions_switch_profile :: "wire_service \<Rightarrow> wire_params \<Rightarrow> json handler" where
  "sessions_switch_profile wr ps =
    wbind (require_params ps [''requestId'', ''sessionId'', ''profileId'', ''expectedVersion'']) (\<lambda>_.
    wbind (bounded_param ps ''requestId'') (\<lambda>request.
    wbind (bounded_param ps ''sessionId'') (\<lambda>s.
    wbind (bounded_param ps ''profileId'') (\<lambda>p.
    wbind (version_param ps) (\<lambda>expected.
    wbind (wr_digest wr (JDict [(''sessionId'', JStr s), (''profileId'', JStr p), (''expectedVersion'', JInt expected)])) (\<lambda>dg.
    wbind (wrun (switch_profile (sv_config (wr_sessions wr)) s p expected request dg)) (\<lambda>(outcome, body). wok body)))))))"

definition send_outcome_query :: "wire_service \<Rightarrow> wire_params \<Rightarrow> json handler" where
  "send_outcome_query wr ps =
    wbind (require_params ps [''requestId'']) (\<lambda>_.
    wbind (bounded_param ps ''requestId'') (\<lambda>request. wrun (intent_outcome request)))"

section \<open>The queue\<close>

definition wire_item :: "wire_service \<Rightarrow> json \<Rightarrow> exn + json" where
  "wire_item wr item =
    rbind (case json_or_null (body_get item ''message'') of
        JDict kvs \<Rightarrow> Inr (JDict kvs)
      | _ \<Rightarrow> rbind (body_field item ''messageText'') (\<lambda>t. stored_message (sv_read (wr_sessions wr)) (py_str t))) (\<lambda>body.
    rbind (body_field item ''itemId'') (\<lambda>i.
    rbind (body_field item ''version'') (\<lambda>version.
    rbind (body_field item ''submittedAt'') (\<lambda>submitted.
    rbind (body_field item ''profileId'') (\<lambda>p.
    rbind (body_field item ''configVersion'') (\<lambda>config.
    rbind (body_field item ''state'') (\<lambda>st.
    Inr (JDict [(''itemId'', i), (''version'', version), (''submittedAt'', submitted), (''message'', body),
      (''profileId'', p), (''configVersion'', config), (''state'', st)]))))))))"

definition queue_get :: "wire_service \<Rightarrow> wire_params \<Rightarrow> json handler" where
  "queue_get wr ps =
    wbind (require_params ps [''sessionId'']) (\<lambda>_.
    wbind (bounded_param ps ''sessionId'') (\<lambda>s.
    wbind (wrun (list_queue (wr_queue wr) s)) (\<lambda>items.
    wbind (wtry (map_exn (\<lambda>i. wire_item wr (item_json i)) items)) (\<lambda>views.
    wok (JDict [(''items'', JList views)])))))"

definition withdrawn_reply :: "wire_service \<Rightarrow> json \<Rightarrow> exn + json" where
  "withdrawn_reply wr body =
    (if body_get body ''outcome'' = Some (JStr ''withdrawn'') then
       rbind (body_field body ''item'') (\<lambda>item.
       rbind (wire_item wr item) (\<lambda>view. Inr (JDict [(''outcome'', JStr ''withdrawn''), (''item'', view)])))
     else
       (let item = json_or_null (body_get body ''item'') in
        rbind (if truthy item then wire_item wr item else Inr JNull) (\<lambda>view.
        Inr (JDict [(''outcome'', JStr ''too_late''),
          (''reason'', case body_get body ''reason'' of None \<Rightarrow> JStr ''too_late'' | Some v \<Rightarrow> v), (''item'', view)]))))"

definition queue_withdraw :: "wire_service \<Rightarrow> wire_params \<Rightarrow> json handler" where
  "queue_withdraw wr ps =
    wbind (require_params ps [''requestId'', ''sessionId'', ''itemId'', ''expectedVersion'']) (\<lambda>_.
    wbind (bounded_param ps ''requestId'') (\<lambda>request.
    wbind (bounded_param ps ''sessionId'') (\<lambda>s.
    wbind (bounded_param ps ''itemId'') (\<lambda>i.
    wbind (version_param ps) (\<lambda>expected.
    wbind (wr_digest wr (JDict [(''sessionId'', JStr s), (''itemId'', JStr i), (''expectedVersion'', JInt expected)])) (\<lambda>dg.
    wbind (wrun (withdraw (wr_queue wr) s i expected request dg)) (\<lambda>(status, body).
    wtry (withdrawn_reply wr body))))))))"

section \<open>Runs and approvals\<close>

definition stop_reply :: "(string \<times> string) list \<Rightarrow> json" where
  "stop_reply kvs = JDict (map (\<lambda>(k, v). (k, JStr v)) kvs)"

definition finished_reason :: "turn_row \<Rightarrow> string" where
  "finished_reason turn = (case tn_error turn of Some (c # cs) \<Rightarrow> c # cs | _ \<Rightarrow> tn_state turn)"

definition runs_stop :: "wire_service \<Rightarrow> wire_params \<Rightarrow> json handler" where
  "runs_stop wr ps =
    wbind (require_params ps [''requestId'', ''sessionId'', ''executionId'']) (\<lambda>_.
    wbind (bounded_param ps ''sessionId'') (\<lambda>s.
    wbind (bounded_param ps ''executionId'') (\<lambda>x.
    wbind (wrun (get_turn_context x)) (\<lambda>(turn, session, profile, workspace).
    if tn_session turn \<noteq> s then wfail (new_wire_error ''NOT_FOUND'' ''Execution does not belong to this Session'' [])
    else if tn_state turn \<in> set terminal_states then
      wok (stop_reply [(''outcome'', ''already_finished''), (''executionId'', x), (''reason'', finished_reason turn)])
    else (case sv_execution (wr_sessions wr) of
        None \<Rightarrow> wok (stop_reply [(''outcome'', ''unconfirmed''), (''reason'', ''EXECUTION_CAPABILITY_UNAVAILABLE'')])
      | Some port \<Rightarrow>
          wbind (wrun (record_cancel_request x)) (\<lambda>_.
          wbind (wrun (ep_cancel port x)) (\<lambda>outcome.
          wbind (wrun (cancel_descendants port (wr_depth wr) x)) (\<lambda>_.
          wok (if outcome = Confirmed_stopped then stop_reply [(''outcome'', ''stop_requested''), (''executionId'', x)]
            else stop_reply [(''outcome'', ''unconfirmed''), (''reason'', ''STOP_NOT_CONFIRMED'')])))))))))"

definition scope_param :: "json \<Rightarrow> json handler" where
  "scope_param v =
    (case v of
       JDict kvs \<Rightarrow>
         wbind (member_of (get_json kvs ''kind'') [''once'', ''bounded'']) (\<lambda>known.
         wbind (wguard (\<not> known) ''scope must be once or a bounded grant'') (\<lambda>_.
         wbind (wguard (get_json kvs ''kind'' = JStr ''once'' \<and> fst ` set kvs \<noteq> {''kind''}) ''once scope has unexpected fields'') (\<lambda>_.
         wbind (wguard (get_json kvs ''kind'' = JStr ''bounded'' \<and>
             (fst ` set kvs \<noteq> set [''kind'', ''until'', ''environmentId''] \<or> get_json kvs ''until'' \<noteq> JStr ''session_end'' \<or>
              \<not> (get_json kvs ''environmentId'' = JNull \<or> nonempty_text (get_json kvs ''environmentId'') \<noteq> None)))
           ''bounded scope is invalid'') (\<lambda>_.
         wok v))))
     | _ \<Rightarrow> wfail (invalid_request ''scope must be once or a bounded grant''))"

text \<open>The decision is committed before the port hears of it.\<close>

definition tell_port :: "wire_service \<Rightarrow> string \<Rightarrow> string \<Rightarrow> json \<Rightarrow> json \<Rightarrow> unit ledger_prog" where
  "tell_port wr i decision scope body =
    (case wr_decide wr of
       None \<Rightarrow> preturn ()
     | Some port \<Rightarrow> if body_get body ''outcome'' = Some (JStr ''recorded'') then port i decision scope else preturn ())"

definition decision_param :: "wire_params \<Rightarrow> string handler" where
  "decision_param ps =
    wbind (param ps ''decision'') (\<lambda>v.
    wbind (member_of v [''allow'', ''deny'']) (\<lambda>known.
    wbind (wguard (\<not> known) ''decision must be allow or deny'') (\<lambda>_. wok (py_str v))))"

text \<open>The checks and the committed decision: the approval, the decision, its scope and the answer.\<close>

definition decide_recorded :: "wire_params \<Rightarrow> (string \<times> string \<times> json \<times> json) handler" where
  "decide_recorded ps =
    wbind (require_params ps [''requestId'', ''approvalId'', ''decision'', ''scope'', ''expectedVersion'']) (\<lambda>_.
    wbind (decision_param ps) (\<lambda>decision.
    wbind (wbind (param ps ''scope'') scope_param) (\<lambda>scope.
    wbind (bounded_param ps ''requestId'') (\<lambda>request.
    wbind (bounded_param ps ''approvalId'') (\<lambda>i.
    wbind (version_param ps) (\<lambda>expected.
    wbind (wrun (decide i decision scope expected request)) (\<lambda>(status, body).
    wok (i, decision, scope, body))))))))"

definition approvals_decide :: "wire_service \<Rightarrow> wire_params \<Rightarrow> json handler" where
  "approvals_decide wr ps =
    wbind (decide_recorded ps) (\<lambda>(i, decision, scope, body).
    wbind (wrun (tell_port wr i decision scope body)) (\<lambda>_. wok body))"

section \<open>History\<close>

definition frames_of :: "codec \<Rightarrow> session_event list \<Rightarrow> exn + json list" where
  "frames_of co rows = map_sum id (List.map_filter id) (map_exn (event_frame co) rows)"

definition cursor_ahead :: "exn \<Rightarrow> bool" where
  "cursor_ahead e \<longleftrightarrow> is_server_error e \<and> exn_code e = Some ''EVENT_CURSOR_AHEAD''"

definition resync_reply :: json where
  "resync_reply = stop_reply [(''outcome'', ''resync_required''), (''reason'', ''cursor_beyond_history'')]"

definition resume_position :: "int option \<Rightarrow> int \<Rightarrow> session_event list \<Rightarrow> int" where
  "resume_position after head rows =
    (case after of None \<Rightarrow> head | Some a \<Rightarrow> if rows = [] then a else sv_seq (last rows))"

definition snapshot_reply :: "codec \<Rightarrow> string \<Rightarrow> int option \<Rightarrow> session_event list \<times> int \<times> bool \<Rightarrow> exn + json" where
  "snapshot_reply co s after page =
    (case page of (rows, head, older) \<Rightarrow>
     rbind (frames_of co rows) (\<lambda>frames.
     Inr (JDict [(''outcome'', JStr ''snapshot''), (''frames'', JList frames),
       (''resumeCursor'', JStr (cursor_encode co s (resume_position after head rows))),
       (''olderCursor'', if older \<and> rows \<noteq> [] then JStr (cursor_encode_older co s (sv_seq (hd rows))) else JNull)])))"

definition optional_cursor :: "(string \<Rightarrow> wire_error + string \<times> int) \<Rightarrow> json \<Rightarrow> int option handler" where
  "optional_cursor decode v =
    (if v = JNull then wok None else wbind (cursor_position (decode (py_str v))) (\<lambda>n. wok (Some n)))"

definition history_snapshot :: "wire_service \<Rightarrow> wire_params \<Rightarrow> json handler" where
  "history_snapshot wr ps =
    wbind (require_params ps [''sessionId'']) (\<lambda>_.
    wbind (bounded_param ps ''sessionId'') (\<lambda>s.
    wbind (page_param ps) (\<lambda>page.
    wbind (page_limit (invalid_request ''page.limit must be an integer'') page) (\<lambda>limit.
    wbind (wguard (get_json ps ''cursor'' \<noteq> JNull \<and> get_json page ''cursor'' \<noteq> JNull)
      ''live resume and backward page cursors are mutually exclusive'') (\<lambda>_.
    wbind (optional_cursor (\<lambda>c. cursor_decode (wr_codec wr) c (Some s)) (get_json ps ''cursor'')) (\<lambda>after.
    wbind (optional_cursor (\<lambda>c. cursor_decode_older (wr_codec wr) c (Some s)) (get_json page ''cursor'')) (\<lambda>before.
    wbind (wrun (try_catch (pbind (history_page s after before limit) (\<lambda>p. preturn (Some p)))
        (\<lambda>e. if cursor_ahead e then preturn None else praise e))) (\<lambda>found.
    case found of
      None \<Rightarrow> wok resync_reply
    | Some p \<Rightarrow> wtry (snapshot_reply (wr_codec wr) s after p)))))))))"

text \<open>A batch of the live channel: the frames and the cursor after them.\<close>

definition stream_position :: "session_event list \<Rightarrow> int \<Rightarrow> int" where
  "stream_position rows after = (if rows = [] then after else sv_seq (last rows))"

definition event_stream_batch :: "wire_service \<Rightarrow> string \<Rightarrow> string option \<Rightarrow> nat \<Rightarrow> (json list \<times> string) handler" where
  "event_stream_batch wr s cursor limit =
    wbind (case cursor of
        Some (c # cs) \<Rightarrow> cursor_position (cursor_decode (wr_codec wr) (c # cs) (Some s))
      | _ \<Rightarrow> wok 0) (\<lambda>after.
    wbind (try_catch (wrun (raw_events s after limit))
      (\<lambda>e. if cursor_ahead e then wfail (invalid_request ''event cursor is beyond current history'') else praise e)) (\<lambda>rows.
    wbind (wtry (frames_of (wr_codec wr) rows)) (\<lambda>frames.
    wok (frames, cursor_encode (wr_codec wr) s (stream_position rows after)))))"

end
