(* ===== verification/Wire_Dispatch.thy ===== *)
theory Wire_Dispatch
  imports Wire_Sessions
begin

text \<open>
  \<open>WireService.dispatch\<close>: the table of handlers, the shape of the parameters, and the wall that turns
  whatever escapes a handler into an error of the protocol. Every handler built from the combinators
  refuses with an error of the closed set of families (\<open>typed\<close>).
\<close>

section \<open>The table\<close>

definition handlers :: "wire_service \<Rightarrow> (string \<times> (wire_params \<Rightarrow> json handler)) list" where
  "handlers wr =
    [(''server.hello'', hello wr), (''workspaces.browse'', workspaces_browse wr),
     (''workspaces.open'', workspaces_open wr), (''workspaces.list'', workspaces_list wr),
     (''workspaces.archive'', workspaces_archive wr), (''profiles.list'', profiles_list wr),
     (''profiles.create'', profiles_create wr), (''profiles.update'', profiles_update wr),
     (''profiles.updateConfig'', profiles_update_config wr), (''profiles.archive'', profiles_archive wr),
     (''profiles.setPermissions'', profiles_set_permissions wr),
     (''profiles.subagentGrants'', profiles_subagent_grants wr),
     (''profiles.grantSubagent'', profiles_grant_subagent wr),
     (''profiles.revokeSubagent'', profiles_revoke_subagent wr),
     (''providerModels.list'', provider_models_list wr), (''providerModels.create'', provider_models_create wr),
     (''providerModels.update'', provider_models_update wr), (''providerModels.archive'', provider_models_archive wr),
     (''config.describe'', config_describe wr), (''config.resolve'', config_resolve wr),
     (''sessions.list'', sessions_list wr), (''sessions.update'', sessions_update wr),
     (''sessions.archive'', sessions_archive wr), (''sessions.createAndSend'', sessions_create_and_send wr),
     (''sessions.send'', sessions_send wr), (''sessions.switchProfile'', sessions_switch_profile wr),
     (''sendOutcome.query'', send_outcome_query wr), (''queue.get'', queue_get wr),
     (''queue.withdraw'', queue_withdraw wr), (''runs.stop'', runs_stop wr),
     (''approvals.decide'', approvals_decide wr), (''history.snapshot'', history_snapshot wr)]"

text \<open>A method that is not modelled answers or refuses through its constructor \<open>WireError(...)\<close>.\<close>

definition refusal_of :: "raw_refusal \<Rightarrow> wire_error" where
  "refusal_of r = (case r of (family, message, details, current) \<Rightarrow>
    (new_wire_error family message details)\<lparr>we_current := current\<rparr>)"

definition other_handler :: "wire_service \<Rightarrow> string \<Rightarrow> wire_params \<Rightarrow> json handler" where
  "other_handler wr method ps = pbind (wr_rest wr method ps) (\<lambda>r. preturn (map_sum refusal_of id r))"

definition handle :: "wire_service \<Rightarrow> string \<Rightarrow> wire_params \<Rightarrow> json handler" where
  "handle wr method ps =
    (case map_of (handlers wr) method of Some h \<Rightarrow> h ps | None \<Rightarrow> other_handler wr method ps)"

section \<open>Dispatch\<close>

definition shape_error :: "wire_params \<Rightarrow> string list \<Rightarrow> string list \<Rightarrow> wire_error option" where
  "shape_error ps required optional =
    (let given = map fst ps;
         missing = filter (\<lambda>k. k \<notin> set given) required;
         extra = filter (\<lambda>k. k \<notin> set required \<and> k \<notin> set optional) given in
     if missing \<noteq> [] then
       Some (invalid_request (''params shape is invalid: missing '' @ join_comma (sort missing)))
     else if extra \<noteq> [] then
       Some (invalid_request (''params shape is invalid: unexpected '' @ join_comma (sort (remdups extra))))
     else None)"

definition wall :: "exn \<Rightarrow> wire_error" where
  "wall e =
    (if is_server_error e then from_server_error e
     else new_wire_error ''UNAVAILABLE'' ''this Server could not answer the request''
       [(''internalCode'', JStr (class_name (exn_cls e))), (''retryable'', JBool True)])"

definition dispatch :: "wire_service \<Rightarrow> string \<Rightarrow> wire_params \<Rightarrow> json handler" where
  "dispatch wr method ps =
    (if method \<notin> set method_names then wfail (invalid_request (method @ '' is not a wire/1 method''))
     else (case map_of param_shapes method of
         None \<Rightarrow> praise (err KeyError (py_repr method))
       | Some (required, optional) \<Rightarrow>
           (case shape_error ps required optional of
              Some e \<Rightarrow> wfail e
            | None \<Rightarrow>
                wbind (if ''requestId'' \<in> fst ` set ps then wcheck (request_id (get_json ps ''requestId'')) else wok []) (\<lambda>_.
                try_catch (handle wr method ps) (\<lambda>e. wfail (wall e))))))"

end
