(* ===== verification/Wire_Laws.thy ===== *)
theory Wire_Laws
  imports Wire_Dispatch
begin

text \<open>
  The refusals of the handlers. \<open>typed\<close> says that a handler refuses only with an error of the closed
  set of families; the rules follow the combinators, so each handler is typed by its shape.
\<close>

named_theorems typed_rules "the combinators of handlers keep their refusals typed"

section \<open>Errors\<close>

lemma family_table_closed: "list_all (\<lambda>p. snd p \<in> set families) family_table"
  by (simp add: family_table_def families_def)

lemma family_for_closed: "family_for code \<in> set families"
  using family_table_closed
  by (auto simp: family_for_def list_all_iff dest!: map_of_SomeD split: option.split) (simp add: families_def)

lemma new_wire_error_family: "we_family (new_wire_error f m ds) = family_for f"
  by (simp add: new_wire_error_def converge_family_def Let_def)

lemma from_server_error_closed: "we_family (from_server_error e) \<in> set families"
  by (simp add: from_server_error_def Let_def new_wire_error_family family_for_closed split: exn_class.split)

definition closed :: "wire_error \<Rightarrow> bool" where
  "closed e \<longleftrightarrow> we_family e \<in> set families"

lemma closed_new [typed_rules]: "closed (new_wire_error f m ds)"
  by (simp add: closed_def new_wire_error_family family_for_closed)

lemma closed_invalid [typed_rules]: "closed (invalid_request m)"
  by (simp add: invalid_request_def closed_new)

lemma closed_server [typed_rules]: "closed (from_server_error e)"
  by (simp add: closed_def from_server_error_closed)

lemma closed_current [typed_rules]: "closed e \<Longrightarrow> closed (e\<lparr>we_current := c\<rparr>)"
  by (simp add: closed_def)

lemma closed_details [typed_rules]: "closed e \<Longrightarrow> closed (e\<lparr>we_details := ds\<rparr>)"
  by (simp add: closed_def)

lemma closed_wall [typed_rules]: "closed (wall e)"
  by (simp add: wall_def closed_new closed_server)

lemma closed_refusal: "closed (refusal_of r)"
  by (cases r) (simp add: refusal_of_def closed_new closed_current)

section \<open>Combinators\<close>

definition typed :: "'a handler \<Rightarrow> bool" where
  "typed h \<longleftrightarrow> (\<forall>w e w'. h w = (Inr (Inl e), w') \<longrightarrow> closed e)"

text \<open>The result of a check that refuses only with a closed error.\<close>

definition checked :: "wire_error + 'a \<Rightarrow> bool" where
  "checked r \<longleftrightarrow> (\<forall>e. r = Inl e \<longrightarrow> closed e)"

lemma checked_Inr [typed_rules]: "checked (Inr x)" by (simp add: checked_def)

lemma checked_Inl [typed_rules]: "closed e \<Longrightarrow> checked (Inl e)" by (simp add: checked_def)

lemma checked_rbind [typed_rules]: "checked r \<Longrightarrow> (\<And>x. checked (k x)) \<Longrightarrow> checked (rbind r k)"
  by (cases r) (auto simp: checked_def rbind_def)

lemma typed_wok [typed_rules]: "typed (wok x)" by (simp add: typed_def wok_def preturn_def)

lemma typed_wfail [typed_rules]: "closed e \<Longrightarrow> typed (wfail e)" by (simp add: typed_def wfail_def preturn_def)

lemma typed_wcheck [typed_rules]: "checked r \<Longrightarrow> typed (wcheck r)"
  by (simp add: typed_def checked_def wcheck_def preturn_def)

lemma typed_wrun [typed_rules]: "typed (wrun m)"
  by (simp add: typed_def wrun_def wok_def pbind_def preturn_def split: prod.split sum.split)

lemma typed_wtry [typed_rules]: "typed (wtry r)" by (simp add: wtry_def typed_wrun)

lemma typed_praise [typed_rules]: "typed (praise e)" by (simp add: typed_def praise_def)

lemma typed_wguard [typed_rules]: "typed (wguard c m)"
  by (simp add: wguard_def typed_wok typed_wfail closed_invalid)

lemma typed_wbind [typed_rules]: "typed m \<Longrightarrow> (\<And>x. typed (k x)) \<Longrightarrow> typed (wbind m k)"
  by (auto simp: typed_def wbind_def wfail_def pbind_def preturn_def split: prod.splits sum.splits)

lemma typed_try_catch [typed_rules]: "typed m \<Longrightarrow> (\<And>e. typed (f e)) \<Longrightarrow> typed (try_catch m f)"
  unfolding typed_def try_catch_def by (fastforce split: prod.splits sum.splits)

lemma typed_wcatch [typed_rules]: "typed m \<Longrightarrow> (\<And>e. typed (f e)) \<Longrightarrow> typed (wcatch m f)"
  unfolding wcatch_def by (rule typed_try_catch) (auto intro: typed_praise)

lemma typed_Let [typed_rules]: "(\<And>x. typed (f x)) \<Longrightarrow> typed (Let v f)"
  by (simp add: Let_def)

lemma typed_if [typed_rules]: "typed a \<Longrightarrow> typed b \<Longrightarrow> typed (if c then a else b)"
  by simp

lemma typed_prod [typed_rules]: "(\<And>a b. typed (f a b)) \<Longrightarrow> typed (case p of (a, b) \<Rightarrow> f a b)"
  by (simp split: prod.split)

lemma typed_option [typed_rules]: "typed a \<Longrightarrow> (\<And>x. typed (f x)) \<Longrightarrow> typed (case v of None \<Rightarrow> a | Some x \<Rightarrow> f x)"
  by (simp split: option.split)

lemma typed_list [typed_rules]: "typed a \<Longrightarrow> (\<And>x xs. typed (f x xs)) \<Longrightarrow> typed (case v of [] \<Rightarrow> a | x # xs \<Rightarrow> f x xs)"
  by (simp split: list.split)

lemma typed_sum [typed_rules]: "(\<And>x. typed (f x)) \<Longrightarrow> (\<And>y. typed (g y)) \<Longrightarrow> typed (case v of Inl x \<Rightarrow> f x | Inr y \<Rightarrow> g y)"
  by (simp split: sum.split)

lemma typed_json [typed_rules]:
  "typed a \<Longrightarrow> (\<And>b. typed (f b)) \<Longrightarrow> (\<And>n. typed (g n)) \<Longrightarrow> (\<And>s. typed (h s)) \<Longrightarrow> (\<And>xs. typed (i xs)) \<Longrightarrow>
     (\<And>kvs. typed (j kvs)) \<Longrightarrow> typed (case_json a f g h i j v)"
  by (simp split: json.split)

lemma checked_if [typed_rules]: "checked a \<Longrightarrow> checked b \<Longrightarrow> checked (if c then a else b)" by simp

lemma checked_option [typed_rules]:
  "checked a \<Longrightarrow> (\<And>x. checked (f x)) \<Longrightarrow> checked (case v of None \<Rightarrow> a | Some x \<Rightarrow> f x)"
  by (simp split: option.split)

lemma checked_list [typed_rules]:
  "checked a \<Longrightarrow> (\<And>x xs. checked (f x xs)) \<Longrightarrow> checked (case v of [] \<Rightarrow> a | x # xs \<Rightarrow> f x xs)"
  by (simp split: list.split)

lemma checked_json [typed_rules]:
  "checked a \<Longrightarrow> (\<And>b. checked (f b)) \<Longrightarrow> (\<And>n. checked (g n)) \<Longrightarrow> (\<And>s. checked (h s)) \<Longrightarrow> (\<And>xs. checked (i xs)) \<Longrightarrow>
     (\<And>kvs. checked (j kvs)) \<Longrightarrow> checked (case_json a f g h i j v)"
  by (simp split: json.split)

section \<open>Checks of fields\<close>

lemma checked_bounded [typed_rules]: "checked (bounded name limit v)"
  unfolding bounded_def by (intro typed_rules)

lemma checked_request_id [typed_rules]: "checked (request_id v)"
  unfolding request_id_def by (intro typed_rules)

lemma checked_version [typed_rules]: "checked (wire_version v)"
  unfolding wire_version_def by (intro typed_rules)

lemma checked_bool_field [typed_rules]: "checked (bool_field name v)"
  unfolding bool_field_def by (intro typed_rules)

lemma checked_cursor [typed_rules]: "checked (cursor_read co c g s)"
  unfolding cursor_read_def by (intro typed_rules)

lemma checked_decode [typed_rules]: "checked (cursor_decode co c s)" "checked (cursor_decode_older co c s)"
  unfolding cursor_decode_def cursor_decode_older_def by (rule checked_cursor)+

lemma typed_param [typed_rules]: "typed (param ps k)"
  unfolding param_def by (rule typed_wtry)

lemma typed_require [typed_rules]: "typed (require_params ps names)"
  unfolding require_params_def Let_def by (rule typed_wguard)

lemma typed_params [typed_rules]:
  "typed (bounded_param ps k)" "typed (limited_param ps k n)" "typed (request_id_param ps)" "typed (version_param ps)"
  unfolding bounded_param_def limited_param_def request_id_param_def version_param_def by (intro typed_rules)+

lemma typed_overrides [typed_rules]: "typed (overrides_param ps)"
  unfolding overrides_param_def by (intro typed_rules)

lemma typed_assignments [typed_rules]: "typed (assignments name v)"
  unfolding assignments_def by (intro typed_rules)

lemma typed_member [typed_rules]: "typed (member_of v names)"
  unfolding member_of_def by (intro typed_rules)

lemma typed_weach [typed_rules]: "(\<And>x. typed (f x)) \<Longrightarrow> typed (weach f xs)"
  by (induction xs) (simp_all add: typed_wok typed_wbind)

lemma typed_models [typed_rules]: "typed (wire_models v)"
  unfolding wire_models_def model_item_def by (intro typed_rules)

lemma typed_digest [typed_rules]: "typed (wr_digest wr v)" "typed (publish_message wr v)"
  unfolding wr_digest_def publish_message_def by (rule typed_wtry)+

lemma typed_include [typed_rules]: "typed (include_archived v)"
  unfolding include_archived_def by (intro typed_rules)

lemma typed_attachment [typed_rules]: "typed (attachment_shape v)"
  unfolding attachment_shape_def by (intro typed_rules)

lemma typed_attachments [typed_rules]: "typed (resolve_attachments md ws n vs)"
proof (induction vs arbitrary: n)
  case Nil
  show ?case by (simp add: typed_wok)
next
  case (Cons v vs)
  show ?case unfolding resolve_attachments.simps by (intro typed_rules Cons)
qed

lemma typed_message [typed_rules]: "typed (resolve_message md ws v)"
  unfolding resolve_message_def by (intro typed_rules)

section \<open>Handlers\<close>

lemma typed_hello: "typed (hello wr ps)"
  unfolding hello_def Let_def by (intro typed_rules)

lemma typed_current [typed_rules]: "(\<And>v. typed (f v)) \<Longrightarrow> typed (with_current f e)"
  unfolding with_current_def Let_def by (intro typed_rules; assumption?)

lemma typed_workspace_view [typed_rules]: "typed (workspace_view r)"
  unfolding workspace_view_def by (rule typed_wtry)

lemma typed_profile_of [typed_rules]: "typed (profile_of wr row)"
  unfolding profile_of_def by (rule typed_wrun)

lemma typed_profile_reply [typed_rules]: "typed (profile_reply wr row)"
  unfolding profile_reply_def by (intro typed_rules)

lemma typed_profile_catch [typed_rules]: "typed m \<Longrightarrow> typed (profile_catch wr m)"
  unfolding profile_catch_def by (intro typed_rules)

lemmas typed_workspaces =
  workspaces_browse_def workspaces_open_def workspaces_list_def workspaces_archive_def

lemma typed_workspace_methods:
  "typed (workspaces_browse wr ps)" "typed (workspaces_open wr ps)" "typed (workspaces_list wr ps)"
  "typed (workspaces_archive wr ps)"
  unfolding typed_workspaces by (intro typed_rules)+

lemma typed_profile_methods:
  "typed (profiles_list wr ps)" "typed (profiles_create wr ps)" "typed (profiles_update wr ps)"
  "typed (profiles_update_config wr ps)" "typed (profiles_archive wr ps)" "typed (profiles_set_permissions wr ps)"
  "typed (profiles_subagent_grants wr ps)" "typed (profiles_grant_subagent wr ps)"
  "typed (profiles_revoke_subagent wr ps)"
  unfolding profiles_list_def profiles_create_def profiles_update_def profiles_update_config_def profiles_archive_def
    profiles_set_permissions_def profiles_subagent_grants_def profiles_grant_subagent_def profiles_revoke_subagent_def
  by (intro typed_rules)+

lemma typed_model_params [typed_rules]:
  "typed (require_models wr)" "typed (provenance_field raw f allowed)" "typed (provenance_param ps)"
  "typed (model_request_param ps)"
  unfolding require_models_def provenance_field_def provenance_param_def model_request_param_def
  by (intro typed_rules)+

lemma typed_archive_outcome [typed_rules]:
  "(\<And>x. typed (f x)) \<Longrightarrow> (\<And>y. typed (g y)) \<Longrightarrow> typed (case v of Referenced x \<Rightarrow> f x | Archived y \<Rightarrow> g y)"
  by (simp split: archive_outcome.split)

lemma typed_model_methods:
  "typed (provider_models_list wr ps)" "typed (provider_models_create wr ps)"
  "typed (provider_models_update wr ps)" "typed (provider_models_archive wr ps)"
  unfolding provider_models_list_def provider_models_create_def provider_models_update_def provider_models_archive_def Let_def
  by (intro typed_rules)+

lemma typed_config [typed_rules]:
  "typed (configuration_of wr p)" "typed (table_slot mo c i r)" "typed (effective_values wr p kvs)"
  unfolding configuration_of_def table_slot_def effective_values_def by (intro typed_rules)+

lemma typed_slots [typed_rules]: "typed (slot_entries models c rs v)"
  unfolding slot_entries_def by (intro typed_rules)

lemma typed_declared [typed_rules]: "typed (declared_control wr h kvs c)"
  unfolding declared_control_def by (intro typed_rules)

lemma typed_controls [typed_rules]: "typed (controls_of wr p)"
  unfolding controls_of_def by (intro typed_rules)

lemma typed_config_methods: "typed (config_describe wr ps)" "typed (config_resolve wr ps)"
  unfolding config_describe_def config_resolve_def by (intro typed_rules)+

lemma typed_pages [typed_rules]:
  "typed (page_param ps)" "closed e \<Longrightarrow> typed (page_limit e ps)" "checked r \<Longrightarrow> typed (cursor_position r)"
  "typed (catalog_scope wr ws b)" "(\<And>v. checked (f v)) \<Longrightarrow> typed (given_param ps k f)"
  "typed (start_accepted wr s body)" "typed (overrides_or_empty ps)" "typed (scope_param v)" "typed (decision_param ps)"
  "closed page_bounds"
  unfolding page_param_def page_limit_def cursor_position_def catalog_scope_def given_param_def page_bounds_def
    start_accepted_def overrides_or_empty_def scope_param_def decision_param_def
  by (intro typed_rules; assumption?)+

lemma typed_cursor [typed_rules]: "(\<And>c. checked (f c)) \<Longrightarrow> typed (optional_cursor f v)"
  unfolding optional_cursor_def by (intro typed_rules; assumption)

lemma typed_session_methods:
  "typed (sessions_list wr ps)" "typed (sessions_update wr ps)" "typed (sessions_archive wr ps)"
  "typed (sessions_create_and_send wr ps)" "typed (sessions_send wr ps)" "typed (sessions_switch_profile wr ps)"
  "typed (send_outcome_query wr ps)" "typed (queue_get wr ps)" "typed (queue_withdraw wr ps)"
  unfolding sessions_list_def sessions_update_def sessions_archive_def sessions_create_and_send_def
    sessions_send_def sessions_switch_profile_def send_outcome_query_def queue_get_def queue_withdraw_def
  by (intro typed_rules)+

lemma typed_run_methods:
  "typed (runs_stop wr ps)" "typed (approvals_decide wr ps)" "typed (history_snapshot wr ps)"
  unfolding runs_stop_def approvals_decide_def decide_recorded_def history_snapshot_def by (intro typed_rules)+

lemmas typed_methods = typed_hello typed_workspace_methods typed_profile_methods typed_model_methods
  typed_config_methods typed_session_methods typed_run_methods

lemma typed_other: "typed (other_handler wr m ps)"
  by (auto simp: typed_def other_handler_def pbind_def preturn_def closed_refusal map_sum_def split: prod.splits sum.splits)

lemma typed_handlers: "list_all (\<lambda>p. \<forall>ps. typed (snd p ps)) (handlers wr)"
  by (simp add: handlers_def typed_methods)

lemma typed_handle [typed_rules]: "typed (handle wr m ps)"
  using typed_handlers [of wr]
  by (auto simp: handle_def typed_other list_all_iff split: option.split dest!: map_of_SomeD)

lemma closed_shape: "shape_error ps a b = Some e \<Longrightarrow> closed e"
  by (auto simp: shape_error_def Let_def closed_invalid split: if_splits)

lemma typed_dispatch: "typed (dispatch wr m ps)"
  unfolding dispatch_def
  by (auto simp: split: option.split intro!: typed_rules closed_shape)

end
