(* ===== verification/Wire_Paging.thy ===== *)
theory Wire_Paging
  imports Wire_Laws Ledger_Runs
begin

text \<open>
  Reading a log page by page. The locale \<open>paged\<close> is the contract of a reader that returns the rows
  after a position, at most so many; a client that asks again from the place of the last row it got
  reads every row once, in order. The event log (forwards and backwards) and the catalogue of Sessions
  are its interpretations.
\<close>

section \<open>The client\<close>

text \<open>Where a page ends: at its last row, or where it started when it is empty.\<close>

definition page_end :: "('a \<Rightarrow> int) \<Rightarrow> 'a list \<Rightarrow> int \<Rightarrow> int" where
  "page_end place page p = (if page = [] then p else place (last page))"

fun follow_pages :: "(int \<Rightarrow> nat \<Rightarrow> 'a list) \<Rightarrow> ('a \<Rightarrow> int) \<Rightarrow> nat \<Rightarrow> nat \<Rightarrow> int \<Rightarrow> 'a list \<times> int" where
  "follow_pages read place k 0 p = ([], p)"
| "follow_pages read place k (Suc n) p =
    (let page = read p k; (rest, q) = follow_pages read place k n (page_end place page p) in (page @ rest, q))"

lemma place_le_last: "sorted_wrt (<) (map f xs) \<Longrightarrow> x \<in> set xs \<Longrightarrow> f x \<le> (f (last xs) :: int)"
  by (induction xs rule: rev_induct) (auto simp: sorted_wrt_append)

section \<open>The contract\<close>

locale paged =
  fixes readable :: "'s \<Rightarrow> bool"
    and rows :: "'s \<Rightarrow> 'a list"
    and place :: "'a \<Rightarrow> int"
    and read :: "'s \<Rightarrow> int \<Rightarrow> nat \<Rightarrow> 'a list"
    and origin :: "'s \<Rightarrow> int"
  assumes reads: "readable s \<Longrightarrow> read s p k = take k (filter (\<lambda>x. p < place x) (rows s))"
    and ordered: "readable s \<Longrightarrow> sorted_wrt (<) (map place (rows s))"
    and below: "readable s \<Longrightarrow> x \<in> set (rows s) \<Longrightarrow> origin s < place x"
begin

text \<open>The position after the first \<open>m\<close> rows.\<close>

definition position :: "'s \<Rightarrow> nat \<Rightarrow> int" where
  "position s m = page_end place (take m (rows s)) (origin s)"

lemma after_position:
  assumes "readable s"
  shows "filter (\<lambda>x. position s m < place x) (rows s) = drop m (rows s)"
proof (cases "take m (rows s) = []")
  case True
  then have "position s m = origin s" "drop m (rows s) = rows s" by (auto simp: position_def page_end_def)
  then show ?thesis using below [OF assms] by (simp add: filter_id_conv)
next
  case False
  let ?a = "take m (rows s)" and ?b = "drop m (rows s)"
  have pos: "position s m = place (last ?a)" using False by (simp add: position_def page_end_def)
  have sorted: "sorted_wrt (<) (map place (?a @ ?b))" using ordered [OF assms] by simp
  have ahead: "position s m < place y" if "y \<in> set ?b" for y
    using sorted that last_in_set [OF False] unfolding pos map_append sorted_wrt_append by auto
  have "place x \<le> position s m" if "x \<in> set ?a" for x
    using sorted that unfolding pos map_append sorted_wrt_append by (auto intro: place_le_last)
  then have "filter (\<lambda>x. position s m < place x) ?a = []" by (force simp: filter_empty_conv)
  moreover have "filter (\<lambda>x. position s m < place x) ?b = ?b" using ahead by (simp add: filter_id_conv)
  ultimately show ?thesis by (metis append_Nil append_take_drop_id filter_append)
qed

lemma read_position: "readable s \<Longrightarrow> read s (position s m) k = take k (drop m (rows s))"
  by (simp add: reads after_position)

lemma next_position:
  assumes "readable s"
  shows "page_end place (read s (position s m) k) (position s m) = position s (m + k)"
proof -
  have "take (m + k) (rows s) = take m (rows s) @ take k (drop m (rows s))" by (simp add: take_add)
  then show ?thesis unfolding read_position [OF assms] by (simp add: position_def page_end_def)
qed

lemma follow_from:
  assumes "readable s"
  shows "follow_pages (read s) place k n (position s m) =
    (take (n * k) (drop m (rows s)), position s (m + n * k))"
proof (induction n arbitrary: m)
  case 0
  show ?case by simp
next
  case (Suc n)
  have "take (Suc n * k) (drop m (rows s)) = take k (drop m (rows s)) @ take (n * k) (drop (m + k) (rows s))"
    by (simp add: take_add add.commute)
  then show ?case
    using Suc [of "m + k"] next_position [OF assms, of m k] read_position [OF assms, of m k]
    by (simp add: Let_def add.assoc)
qed

lemma position_0 [simp]: "position s 0 = origin s"
  by (simp add: position_def page_end_def)

text \<open>Enough pages read everything, once and in order, and then nothing.\<close>

lemma follow_all:
  assumes "readable s" "length (rows s) \<le> n * k"
  shows "follow_pages (read s) place k n (origin s) = (rows s, position s (length (rows s)))"
    and "read s (position s (length (rows s))) j = []"
proof -
  have "take (n * k) (rows s) = rows s" using assms(2) by simp
  then have "position s (n * k) = position s (length (rows s))" unfolding position_def by simp
  with \<open>take (n * k) (rows s) = rows s\<close> show "follow_pages (read s) place k n (origin s) = (rows s, position s (length (rows s)))"
    using follow_from [OF assms(1), of k n 0] by (simp only: drop_0 add_0 position_0)
  show "read s (position s (length (rows s))) j = []" by (simp add: read_position [OF assms(1)])
qed

end

section \<open>The event log\<close>

definition event_log :: "ledger \<times> string \<Rightarrow> session_event list" where
  "event_log x = session_events (fst x) (snd x)"

definition numbered :: "ledger \<times> string \<Rightarrow> bool" where
  "numbered x \<longleftrightarrow> log_numbered (event_log x)"

lemma numbered_places: "numbered x \<Longrightarrow> map sv_seq (event_log x) = [1..int (length (event_log x))]"
  by (simp add: numbered_def log_numbered_def)

lemma numbered_sorted: "numbered x \<Longrightarrow> sorted_wrt (<) (map sv_seq (event_log x))"
  by (simp add: numbered_places)

lemma numbered_bounds:
  assumes "numbered x" "e \<in> set (event_log x)"
  shows "0 < sv_seq e \<and> sv_seq e < int (length (event_log x)) + 1"
proof -
  have "sv_seq e \<in> set (map sv_seq (event_log x))" using assms(2) by simp
  then show ?thesis unfolding numbered_places [OF assms(1)] by auto
qed

lemma in_order: "sorted_wrt (<) (map f xs) \<Longrightarrow> sort_key f (filter p xs) = filter p (xs :: 'a list)" for f :: "'a \<Rightarrow> int"
  by (rule sort_key_id_if_sorted, rule sorted_filter) (simp add: strict_sorted_imp_sorted)

interpretation forwards: paged numbered event_log sv_seq "\<lambda>x p k. events_after (snd x) p k (fst x)" "\<lambda>x. 0"
proof (unfold_locales, goal_cases)
  case (1 x p k)
  with in_order [OF numbered_sorted [OF 1]] show ?case by (simp add: events_after_def event_log_def)
next
  case (2 x)
  then show ?case by (rule numbered_sorted)
next
  case (3 x e)
  with numbered_bounds show ?case by blast
qed

text \<open>The older pages of the history: the rows before a position, the newest first.\<close>

definition events_before :: "ledger \<times> string \<Rightarrow> int \<Rightarrow> nat \<Rightarrow> session_event list" where
  "events_before x boundary k =
    take k (rev (sort_key sv_seq (filter (\<lambda>e. sv_seq e < boundary) (session_events (fst x) (snd x)))))"

interpretation backwards: paged numbered "\<lambda>x. rev (event_log x)" "\<lambda>e. - sv_seq e"
  "\<lambda>x p k. events_before x (- p) k" "\<lambda>x. - (int (length (event_log x)) + 1)"
proof (unfold_locales, goal_cases)
  case (1 x p k)
  have "sort_key sv_seq (filter (\<lambda>e. sv_seq e < - p) (event_log x)) = filter (\<lambda>e. sv_seq e < - p) (event_log x)"
    by (rule in_order [OF numbered_sorted [OF 1]])
  then show ?case by (simp add: events_before_def event_log_def rev_filter less_minus_iff [of p])
next
  case (2 x)
  have "sorted_wrt (\<lambda>a b. - b < - a) (map sv_seq (event_log x))" using numbered_sorted [OF 2] by simp
  then show ?case by (simp add: sorted_wrt_rev sorted_wrt_map rev_map [symmetric])
next
  case (3 x e)
  then have "e \<in> set (event_log x)" by simp
  from numbered_bounds [OF 3(1) this] show ?case by simp
qed

section \<open>The catalogue of Sessions\<close>

definition catalogue :: "ledger \<times> string option \<times> bool \<Rightarrow> (nat \<times> session_row) list" where
  "catalogue x = (case x of (d, workspace, archived) \<Rightarrow>
    filter (\<lambda>(i, r). (case workspace of None \<Rightarrow> True | Some w \<Rightarrow> se_workspace r = w) \<and>
        (archived \<or> se_archived r = None))
      (zip [1..<Suc (length (l_sessions d))] (l_sessions d)))"

definition catalogue_page :: "ledger \<times> string option \<times> bool \<Rightarrow> int \<Rightarrow> nat \<Rightarrow> (nat \<times> session_row) list" where
  "catalogue_page x p k = (case x of (d, workspace, archived) \<Rightarrow>
    take k (filter (\<lambda>(i, r). nat p < i \<and> (case workspace of None \<Rightarrow> True | Some w \<Rightarrow> se_workspace r = w) \<and>
        (archived \<or> se_archived r = None))
      (zip [1..<Suc (length (l_sessions d))] (l_sessions d))))"

lemma list_sessions_page:
  "list_sessions workspace archived after k =
    pseq (case workspace of None \<Rightarrow> preturn ()
        | Some w \<Rightarrow> pseq (fetch_row (\<lambda>d. find_workspace d w) workspace_missing) (preturn ()))
      (read_store (\<lambda>d. catalogue_page (d, workspace, archived) (int after) k))"
  by (simp add: list_sessions_def catalogue_page_def)

lemma rowids_sorted: "sorted_wrt (<) (map (int \<circ> fst) (filter p (zip [1..<Suc (length xs)] xs)))"
proof -
  have "sorted_wrt (<) (map fst (zip [1..<Suc (length xs)] xs))" by (simp add: map_fst_zip_take del: upt_Suc)
  then have "sorted_wrt (<) (map (int \<circ> fst) (zip [1..<Suc (length xs)] xs))" by (simp add: sorted_wrt_map)
  then show ?thesis by (simp add: sorted_wrt_map sorted_wrt_filter)
qed

interpretation catalog: paged "\<lambda>x. True" catalogue "int \<circ> fst" catalogue_page "\<lambda>x. 0"
proof (unfold_locales, goal_cases)
  case (1 x p k)
  have after: "(nat p < i) = (p < int i)" if "(i, r) \<in> set (zip [1..<Suc n] rs)" for i n and r :: session_row and rs
    using set_zip_leftD [OF that] by auto
  show ?case
    by (cases x) (auto simp: catalogue_page_def catalogue_def after simp del: upt_Suc
      intro!: arg_cong [where f = "take k"] filter_cong)
next
  case (2 x)
  show ?case by (cases x) (simp only: catalogue_def prod.case rowids_sorted)
next
  case (3 x e)
  then show ?case by (cases x) (auto simp: catalogue_def dest!: set_zip_leftD)
qed

end
