(* ===== verification/Wire_Examples.thy ===== *)
theory Wire_Examples
  imports Wire_Paging Service_Examples
begin

text \<open>
  A composition of the wire service and a ledger with a log, on which the properties of the protocol
  are witnessed. The hash keeps the first bytes of its input.
\<close>

definition demo_codec :: codec where
  "demo_codec = cursor_codec (take 12) ''key''"

definition demo_workspaces :: workspace_service where
  "demo_workspaces = \<lparr>wk_connector = None, wk_ssh = None,
     wk_local = \<lparr>lp_blockers = [], lp_browse = (\<lambda>p. Inr (JDict [])), lp_open = Inr, lp_read = (\<lambda>r p. Inr (p, p))\<rparr>,
     wk_hash = (\<lambda>t. t)\<rparr>"

definition demo_profiles :: profile_service where
  "demo_profiles = \<lparr>ps_harnesses = [(''opencode'', demo_harness)], ps_credential = (\<lambda>c k. Inr ()), ps_known = (\<lambda>c. True),
     ps_references = None, ps_publish = demo_publish, ps_hash = (\<lambda>t. t)\<rparr>"

definition demo_wire :: wire_service where
  "demo_wire = \<lparr>wr_id = ''server'', wr_sessions = demo_service, wr_workspaces = demo_workspaces, wr_profiles = demo_profiles,
     wr_models = None, wr_queue = None, wr_decide = Some (\<lambda>i d s. preturn ()), wr_codec = demo_codec, wr_token = True,
     wr_native = None, wr_mime = (\<lambda>n. None), wr_depth = 5,
     wr_rest = (\<lambda>m ps. praise (err RuntimeError ''not modelled''))\<rparr>"

definition demo_event :: "int \<Rightarrow> int option \<Rightarrow> string \<Rightarrow> json \<Rightarrow> session_event" where
  "demo_event n wire kind data = \<lparr>sv_session = ''s1'', sv_seq = n, sv_wire = wire, sv_id = ''e'' @ show_int n,
     sv_turn = Some ''t1'', sv_kind = kind, sv_data = data, sv_at = demo_stamp\<rparr>"

definition demo_log :: "session_event list" where
  "demo_log =
    [demo_event 1 (Some 1) ''turn.accepted'' (JDict [(''state'', JStr ''accepted'')]),
     demo_event 2 None ''turn.capture'' JNull,
     demo_event 3 (Some 2) ''message.delta'' (JDict [(''text'', JStr ''hi'')])]"

definition demo_stream :: "ledger world" where
  "demo_stream = demo_ledger_world ((demo_ledger [demo_turn ''t1'' ''s1'' ''running''] [] [])\<lparr>l_events := demo_log\<rparr>)"

lemma demo_stream_sound: "sound (store demo_stream)"
  by (simp add: demo_stream_def demo_log_def demo_event_def sound_def keys_ok_def log_numbered_def ledger_demo ledger_rows
    upto.simps)

lemma demo_stream_log: "session_events (store demo_stream) ''s1'' = demo_log"
  by (simp add: demo_stream_def demo_log_def demo_event_def ledger_demo session_events_def)

lemma demo_stream_session: "find_session (store demo_stream) ''s1'' \<noteq> None"
  by (simp add: demo_stream_def ledger_demo find_session_def)

lemma demo_frames: "\<exists>fs. frames_of demo_codec demo_log = Inr fs \<and> length fs = 2"
  by (simp add: frames_of_def demo_log_def demo_event_def event_frame_def event_kind_map_def event_data_def event_body_def
    rbind_def List.map_filter_def)

definition open_approval :: approval_row where
  "open_approval = \<lparr>ap_id = ''a1'', ap_session = ''s1'', ap_exec = ''t1'', ap_version = 1,
     ap_state = ''open'', ap_decision = None, ap_scope = None, ap_request = [], ap_created = demo_stamp, ap_settled = None\<rparr>"

definition demo_waiting :: "ledger world" where
  "demo_waiting = demo_ledger_world (demo_ledger [demo_turn ''t1'' ''s1'' ''running''] [] [open_approval])"

definition demo_decision :: wire_params where
  "demo_decision = [(''requestId'', JStr ''request-1''), (''approvalId'', JStr ''a1''), (''expectedVersion'', JInt 1),
     (''decision'', JStr ''allow''), (''scope'', JDict [(''kind'', JStr ''once'')])]"

lemma demo_decided:
  "case fst (approvals_decide (demo_wire\<lparr>wr_decide := None\<rparr>) demo_decision demo_waiting) of
     Inr (Inr body) \<Rightarrow> body_get body ''outcome'' = Some (JStr ''recorded'') | _ \<Rightarrow> False"
  by code_simp

end
