(* ===== verification/Wire_Claims.thy ===== *)
theory Wire_Claims
  imports Wire_Examples Ledger_Claims Sendability_Claims
begin

text \<open>
  The properties of the wire protocol: cursors, the answers of \<open>dispatch\<close>, the event stream and the
  snapshot it continues, and the decision of an approval that reaches the back end.
\<close>

lemmas wire_eval = wok_def wfail_def wbind_def wcheck_def wrun_def wtry_def

lemma wbind_Inr: "m w = (Inr (Inr x), v) \<Longrightarrow> wbind m k w = k x v"
  by (simp add: wbind_def pbind_def)

lemma wbind_Inr_iff:
  "wbind m k w = (Inr (Inr y), w') \<longleftrightarrow> (\<exists>x v. m w = (Inr (Inr x), v) \<and> k x v = (Inr (Inr y), w'))"
  by (auto simp: wbind_def pbind_def wfail_def preturn_def split: prod.splits sum.splits)

lemma wok_run: "wok x w = (Inr (Inr x), w)" by (simp add: wok_def preturn_def)

lemma wrun_run: "m w = (Inr x, v) \<Longrightarrow> wrun m w = (Inr (Inr x), v)"
  by (simp add: wrun_def pbind_def wok_run)

lemma wtry_run: "wtry (Inr x) w = (Inr (Inr x), w)" by (simp add: wtry_def wrun_run plift_def)

lemma wcheck_run: "wcheck (Inr x) w = (Inr (Inr x), w)" by (simp add: wcheck_def preturn_def)

named_theorems wire_iffs "when a handler answers"

declare wbind_Inr_iff [wire_iffs]

lemma wok_iff [wire_iffs]: "wok x w = (Inr (Inr y), w') \<longleftrightarrow> y = x \<and> w' = w"
  by (auto simp: wok_def preturn_def)

lemma wfail_iff [wire_iffs]: "\<not> wfail e w = (Inr (Inr y), w')"
  by (simp add: wfail_def preturn_def)

lemma wcheck_iff [wire_iffs]: "wcheck r w = (Inr (Inr y), w') \<longleftrightarrow> r = Inr y \<and> w' = w"
  by (auto simp: wcheck_def preturn_def)

lemma wrun_iff [wire_iffs]: "wrun m w = (Inr (Inr y), w') \<longleftrightarrow> m w = (Inr y, w')"
  by (auto simp: wrun_def pbind_def wok_def preturn_def split: prod.splits sum.splits)

lemma wtry_iff [wire_iffs]: "wtry r w = (Inr (Inr y), w') \<longleftrightarrow> r = Inr y \<and> w' = w"
  by (auto simp: wtry_def wrun_iff plift_def)

lemma wguard_iff [wire_iffs]: "wguard c m w = (Inr (Inr y), w') \<longleftrightarrow> \<not> c \<and> w' = w"
  by (simp add: wguard_def wok_iff wfail_iff)

lemma require_iff [wire_iffs]:
  "require_params ps names w = (Inr (Inr y), w') \<longleftrightarrow> set names \<subseteq> fst ` set ps \<and> w' = w"
  by (auto simp: require_params_def Let_def wguard_iff filter_empty_conv)

lemma bounded_iff [wire_iffs]:
  "bounded name limit v = Inr y \<longleftrightarrow> v = JStr y \<and> y \<noteq> [] \<and> int (length y) \<le> limit"
  by (auto simp: bounded_def split: json.splits list.splits if_splits)

lemma param_iff [wire_iffs]: "param ps k w = (Inr (Inr y), w') \<longleftrightarrow> map_of ps k = Some y \<and> w' = w"
  by (auto simp: param_def wtry_iff field_json_def split: option.splits)

lemma bounded_param_iff [wire_iffs]:
  "bounded_param ps k w = (Inr (Inr y), w') \<longleftrightarrow>
     map_of ps k = Some (JStr y) \<and> y \<noteq> [] \<and> int (length y) \<le> default_limit \<and> w' = w"
  by (auto simp: bounded_param_def wire_iffs)

section \<open>The live channel\<close>

text \<open>The loop of the channel: a batch, its frames, and the next batch from the cursor it gave.\<close>

fun live_frames :: "wire_service \<Rightarrow> string \<Rightarrow> nat \<Rightarrow> nat \<Rightarrow> string option \<Rightarrow> (json list \<times> string option) handler" where
  "live_frames wr s limit 0 cursor = wok ([], cursor)"
| "live_frames wr s limit (Suc n) cursor =
    wbind (event_stream_batch wr s cursor limit) (\<lambda>(frames, next).
    wbind (live_frames wr s limit n (Some next)) (\<lambda>(rest, final). wok (frames @ rest, final)))"

lemma map_exn_append: "map_exn f (xs @ ys) = rbind (map_exn f xs) (\<lambda>a. rbind (map_exn f ys) (\<lambda>b. Inr (a @ b)))"
  by (induction xs) (auto simp: rbind_def split: sum.splits)

lemma frames_of_append:
  "frames_of co (xs @ ys) = Inr fs \<longleftrightarrow> (\<exists>a b. frames_of co xs = Inr a \<and> frames_of co ys = Inr b \<and> fs = a @ b)"
  unfolding frames_of_def map_exn_append
  by (cases "map_exn (event_frame co) xs"; cases "map_exn (event_frame co) ys")
    (auto simp: rbind_def List.map_filter_def)

lemma prefix_colon: "CHR '':'' \<notin> set cursor_prefix" "CHR '':'' \<notin> set older_cursor_prefix"
  by (simp_all add: cursor_prefix_def older_cursor_prefix_def)

lemma generations: "older_cursor_prefix \<noteq> cursor_prefix" "cursor_prefix \<noteq> older_cursor_prefix"
  by (simp_all add: cursor_prefix_def older_cursor_prefix_def)

lemma cursor_back:
  "CHR '':'' \<notin> set s \<Longrightarrow> 0 \<le> n \<Longrightarrow> n < 2 ^ 63 \<Longrightarrow> cursor_decode co (cursor_encode co s n) (Some s) = Inr (s, n)"
  unfolding cursor_decode_def cursor_encode_def by (rule cursor_read_mint) (simp_all add: prefix_colon)

lemma cursor_Cons: "\<exists>c cs. cursor_encode co s n = c # cs"
  by (simp add: cursor_encode_def cursor_mint_def cursor_payload_def cursor_prefix_def Let_def)

definition at_cursor :: "codec \<Rightarrow> string \<Rightarrow> int \<Rightarrow> string option \<Rightarrow> bool" where
  "at_cursor co s p cursor \<longleftrightarrow> cursor = Some (cursor_encode co s p) \<or> cursor = None \<and> p = 0"

lemma max_seq_numbered: "log_numbered (session_events d s) \<Longrightarrow> max_seq d s = int (length (session_events d s))"
  by (simp add: max_seq_def log_numbered_def sql_max_upto)

lemma batch_run:
  assumes "log_numbered (session_events (store w) s)" "find_session (store w) s \<noteq> None" "CHR '':'' \<notin> set s"
    and "0 \<le> p" "p \<le> int (length (session_events (store w) s))" "p < 2 ^ 63" "at_cursor (wr_codec wr) s p cursor"
    and frames: "frames_of (wr_codec wr) (events_after s p k (store w)) = Inr fs"
  shows "event_stream_batch wr s cursor k w =
    (Inr (Inr (fs, cursor_encode (wr_codec wr) s (page_end sv_seq (events_after s p k (store w)) p))), w)"
proof -
  let ?co = "wr_codec wr"
  let ?first = "case cursor of Some (c # cs) \<Rightarrow> cursor_position (cursor_decode ?co (c # cs) (Some s)) | _ \<Rightarrow> wok 0"
  have start: "?first w = (Inr (Inr p), w)"
    using assms(7) cursor_Cons [of ?co s p] cursor_back [OF assms(3,4,6), of ?co]
    by (auto simp: at_cursor_def cursor_position_def wbind_def wcheck_def pbind_def preturn_def wok_run)
  have read: "raw_events s p k w = (Inr (events_after s p k (store w)), w)"
    using assms(2,5) max_seq_numbered [OF assms(1)]
    by (auto simp: raw_events_def require_session_def pseq_def pbind_def read_store_def raise_if_def)
  show ?thesis
    unfolding event_stream_batch_def wbind_Inr [where m = ?first and w = w, OF start]
    by (simp add: wbind_def pbind_def try_catch_def wrun_run [where m = "raw_events s p k" and w = w, OF read] frames wtry_run wok_run
      stream_position_def page_end_def)
qed

lemma take_drop_frames:
  assumes "frames_of co es = Inr fs"
  shows "\<exists>a b c. frames_of co (take m es) = Inr a \<and> frames_of co (take k (drop m es)) = Inr b \<and>
    frames_of co (drop (m + k) es) = Inr c \<and> fs = a @ b @ c"
proof -
  have "es = take m es @ take k (drop m es) @ drop (m + k) es" by (metis add.commute append_take_drop_id drop_drop)
  with assms have "frames_of co (take m es @ take k (drop m es) @ drop (m + k) es) = Inr fs" by simp
  then show ?thesis unfolding frames_of_append by blast
qed

lemma position_number:
  assumes "numbered x"
  shows "forwards.position x m = int (min m (length (event_log x)))"
proof (cases "take m (event_log x) = []")
  case True
  then show ?thesis by (auto simp: forwards.position_def page_end_def)
next
  case False
  let ?k = "min m (length (event_log x))"
  have "sv_seq (last (take m (event_log x))) = map sv_seq (event_log x) ! (?k - 1)"
    using False by (simp add: last_conv_nth min_def nth_take)
  also have "\<dots> = int ?k"
  proof -
    have "1 \<le> ?k" using False by (simp add: Suc_le_eq)
    then show ?thesis unfolding numbered_places [OF assms] by (subst nth_upto) auto
  qed
  finally show ?thesis using False by (simp add: forwards.position_def page_end_def)
qed

lemma live_run:
  assumes "sound (store w)" "find_session (store w) s \<noteq> None" "CHR '':'' \<notin> set s"
    and long: "int (length (session_events (store w) s)) < 2 ^ 63"
    and frames: "frames_of (wr_codec wr) (session_events (store w) s) = Inr fs"
    and cursor: "at_cursor (wr_codec wr) s (int (min m (length (session_events (store w) s)))) cursor"
    and rest: "frames_of (wr_codec wr) (take (n * k) (drop m (session_events (store w) s))) = Inr gs"
  shows "\<exists>final. live_frames wr s k n cursor w = (Inr (Inr (gs, final)), w) \<and>
    at_cursor (wr_codec wr) s (int (min (m + n * k) (length (session_events (store w) s)))) final"
  using cursor rest
proof (induction n arbitrary: m cursor gs)
  case 0
  then show ?case by (simp add: wok_run frames_of_def List.map_filter_def)
next
  case (Suc n)
  let ?co = "wr_codec wr" and ?d = "store w" and ?x = "(store w, s)"
  let ?es = "session_events ?d s"
  have num: "numbered ?x" using assms(1) by (simp add: numbered_def event_log_def sound_def)
  have log: "event_log ?x = ?es" by (simp add: event_log_def)
  have pos: "forwards.position ?x j = int (min j (length ?es))" for j
    using position_number [OF num] by (simp add: log)
  let ?p = "int (min m (length ?es))"
  have page: "events_after s ?p k ?d = take k (drop m ?es)"
    using forwards.read_position [OF num, of m k] by (simp add: pos log)
  have ends: "page_end sv_seq (events_after s ?p k ?d) ?p = int (min (m + k) (length ?es))"
    using forwards.next_position [OF num, of m k] by (simp add: pos)
  have "take (Suc n * k) (drop m ?es) = take k (drop m ?es) @ take (n * k) (drop (m + k) ?es)"
    by (simp add: take_add add.commute)
  with Suc.prems(2) obtain a b where parts: "frames_of ?co (take k (drop m ?es)) = Inr a"
    "frames_of ?co (take (n * k) (drop (m + k) ?es)) = Inr b" "gs = a @ b"
    by (auto simp: frames_of_append)
  have batch: "event_stream_batch wr s cursor k w =
      (Inr (Inr (a, cursor_encode ?co s (int (min (m + k) (length ?es))))), w)"
    using batch_run [of w s ?p wr cursor k a] assms(1-3) long Suc.prems(1) parts(1)
    by (simp add: page ends [unfolded page] sound_def)
  from Suc.IH [of "m + k" "Some (cursor_encode ?co s (int (min (m + k) (length ?es))))" b] parts(2)
  obtain final where "live_frames wr s k n (Some (cursor_encode ?co s (int (min (m + k) (length ?es))))) w
      = (Inr (Inr (b, final)), w)" "at_cursor ?co s (int (min (m + k + n * k) (length ?es))) final"
    by (auto simp: at_cursor_def)
  with parts(3) show ?case by (simp add: wbind_def pbind_def batch wok_run add.assoc)
qed


definition frame_seq :: "json \<Rightarrow> json" where
  "frame_seq f = json_or_null (body_get f ''seq'')"

lemma frame_kinds: "map_of event_kind_map k = None \<longleftrightarrow> k \<notin> set wire_visible_kinds"
proof -
  have "fst ` set event_kind_map = set wire_visible_kinds"
    by (auto simp: event_kind_map_def wire_visible_kinds_def)
  then show ?thesis by (simp add: map_of_eq_None_iff)
qed

lemma event_frame_number:
  assumes "event_frame co e = Inr r" "(sv_wire e \<noteq> None) = (sv_kind e \<in> set wire_visible_kinds)" "sv_wire e \<noteq> Some 0"
  shows "map_option frame_seq r = map_option JInt (sv_wire e)"
proof (cases "map_of event_kind_map (sv_kind e)")
  case None
  with assms(1,2) frame_kinds show ?thesis by (auto simp: event_frame_def)
next
  case (Some kind)
  with frame_kinds [of "sv_kind e"] assms(2) obtain n where "sv_wire e = Some n" by fastforce
  with Some assms(1,3) show ?thesis
    by (auto simp: event_frame_def rbind_def frame_seq_def body_get_def json_or_null_def split: sum.splits)
qed

lemma frames_numbered:
  assumes "frames_of co es = Inr fs" "list_all (\<lambda>e. (sv_wire e \<noteq> None) = (sv_kind e \<in> set wire_visible_kinds)) es"
    and "0 \<notin> set (List.map_filter sv_wire es)"
  shows "map frame_seq fs = map JInt (List.map_filter sv_wire es)"
  using assms
proof (induction es arbitrary: fs)
  case Nil
  then show ?case by (simp add: frames_of_def List.map_filter_def)
next
  case (Cons e es)
  have "frames_of co ([e] @ es) = Inr fs" using Cons.prems(1) by simp
  then obtain a b where parts: "frames_of co [e] = Inr a" "frames_of co es = Inr b" "fs = a @ b"
    unfolding frames_of_append by blast
  then obtain r where r: "event_frame co e = Inr r" "a = (case r of None \<Rightarrow> [] | Some f \<Rightarrow> [f])"
    by (auto simp: frames_of_def rbind_def List.map_filter_def split: sum.splits option.splits)
  have "map_option frame_seq r = map_option JInt (sv_wire e)"
    using Cons.prems by (intro event_frame_number [OF r(1)]) (auto simp: List.map_filter_def)
  moreover have "map frame_seq b = map JInt (List.map_filter sv_wire es)"
    using Cons.prems by (intro Cons.IH [OF parts(2)]) (auto simp: List.map_filter_def split: if_splits)
  ultimately show ?case using parts(3) r(2)
    by (cases r; cases "sv_wire e") (auto simp: List.map_filter_def)
qed

lemma live_final: "live_frames wr s k n (Some c) w = (Inr (Inr (gs, final)), w') \<Longrightarrow> final \<noteq> None"
proof (induction n arbitrary: c w gs)
  case 0
  then show ?case by (auto simp: wok_run)
next
  case (Suc n)
  then show ?case by (auto simp: wbind_Inr_iff wok_run)
qed

text \<open>
  C7: A client of the live channel that starts without a cursor and reads enough batches receives the
  frame of every event of the session that has one, in the order of the log and each exactly once; the
  frames are numbered 1, 2, 3, \<dots> without a gap; the cursor it ends with gives nothing more.
\<close>

theorem stream_catches_up:
  assumes "sound (store w)" "find_session (store w) s \<noteq> None" "CHR '':'' \<notin> set s"
    and "int (length (session_events (store w) s)) < 2 ^ 63"
    and "frames_of (wr_codec wr) (session_events (store w) s) = Inr fs"
    and "length (session_events (store w) s) \<le> Suc n * k"
  shows "\<exists>c. live_frames wr s k (Suc n) None w = (Inr (Inr (fs, Some c)), w) \<and>
    event_stream_batch wr s (Some c) k w = (Inr (Inr ([], c)), w) \<and>
    map frame_seq fs = map JInt [1..int (length fs)]"
proof -
  let ?es = "session_events (store w) s" and ?co = "wr_codec wr"
  have log: "log_numbered ?es" using assms(1) by (simp add: sound_def)
  have all: "take (Suc n * k) (drop 0 ?es) = ?es" using assms(6) by (simp add: take_all)
  have start: "at_cursor ?co s (int (min 0 (length ?es))) None" by (simp add: at_cursor_def)
  have last: "min (0 + Suc n * k) (length ?es) = length ?es" using assms(6) by simp
  obtain final where run: "live_frames wr s k (Suc n) None w = (Inr (Inr (fs, final)), w)"
    and final: "at_cursor ?co s (int (length ?es)) final"
    using live_run [OF assms(1-5) start, of "Suc n" k fs] assms(5) unfolding all last by blast
  from run have "final \<noteq> None" by (auto simp: wbind_Inr_iff wok_run dest: live_final)
  with final have c: "final = Some (cursor_encode ?co s (int (length ?es)))" by (auto simp: at_cursor_def)
  have num: "numbered (store w, s)" using log by (simp add: numbered_def event_log_def)
  have none: "events_after s (int (length ?es)) k (store w) = []"
    using forwards.read_position [OF num, of "length ?es" k] position_number [OF num, of "length ?es"]
    by (simp add: event_log_def)
  have "event_stream_batch wr s final k w = (Inr (Inr ([], cursor_encode ?co s (int (length ?es)))), w)"
    using batch_run [OF log assms(2,3), of "int (length ?es)" wr final k "[]"] assms(4) final
    by (simp add: none frames_of_def List.map_filter_def page_end_def)
  moreover have "map frame_seq fs = map JInt [1..int (length fs)]"
  proof -
    let ?m = "length (filter (\<lambda>e. sv_kind e \<in> set wire_visible_kinds) ?es)"
    have wire: "List.map_filter sv_wire ?es = [1..int ?m]" using log by (simp add: log_numbered_def)
    then have "map frame_seq fs = map JInt (List.map_filter sv_wire ?es)"
      using log by (intro frames_numbered [OF assms(5)]) (auto simp: log_numbered_def)
    with wire have "map frame_seq fs = map JInt [1..int ?m]" by simp
    moreover from this have "length fs = ?m" by (metis length_map length_upto nat_int diff_add_cancel)
    ultimately show ?thesis by simp
  qed
  ultimately show ?thesis using run c by blast
qed


theorem stream_catches_up_witness:
  "\<exists>fs c. live_frames demo_wire ''s1'' 2 2 None demo_stream = (Inr (Inr (fs, Some c)), demo_stream) \<and>
    map frame_seq fs = [JInt 1, JInt 2]"
proof -
  obtain fs where fs: "frames_of demo_codec demo_log = Inr fs" "length fs = 2" using demo_frames by blast
  have "wr_codec demo_wire = demo_codec" by (simp add: demo_wire_def)
  moreover have "length demo_log = 3" by (simp add: demo_log_def)
  ultimately have "\<exists>c. live_frames demo_wire ''s1'' 2 (Suc 1) None demo_stream = (Inr (Inr (fs, Some c)), demo_stream) \<and>
    event_stream_batch demo_wire ''s1'' (Some c) 2 demo_stream = (Inr (Inr ([], c)), demo_stream) \<and>
    map frame_seq fs = map JInt [1..int (length fs)]"
    using fs(1) by (intro stream_catches_up demo_stream_sound demo_stream_session) (simp_all add: demo_stream_log)
  then obtain c where run: "live_frames demo_wire ''s1'' 2 (Suc 1) None demo_stream = (Inr (Inr (fs, Some c)), demo_stream)"
    and seqs: "map frame_seq fs = map JInt [1..int (length fs)]" by blast
  have two: "Suc 1 = 2" by simp
  have "map JInt [1..int (length fs)] = [JInt 1, JInt 2]" by (simp add: fs(2) upto.simps)
  with run [unfolded two] seqs show ?thesis by metis
qed

section \<open>The snapshot\<close>

lemma page_rows:
  assumes "history_page s None None k w = (Inr (rows, head, older), v)" "log_numbered (session_events (store w) s)"
  shows "rows = drop (length (session_events (store w) s) - k) (session_events (store w) s) \<and>
    head = int (length (session_events (store w) s)) \<and> v = w"
proof -
  let ?es = "session_events (store w) s"
  have num: "numbered (store w, s)" using assms(2) by (simp add: numbered_def event_log_def)
  have "rows = rev (take k (rev (sort_key sv_seq (filter (\<lambda>e. sv_seq e < max_seq (store w) s + 1) ?es))))"
    and rest: "head = max_seq (store w) s" "v = w"
    using assms(1) by (auto simp: history_page_def require_session_def run_iffs Let_def)
  moreover have "filter (\<lambda>e. sv_seq e < max_seq (store w) s + 1) ?es = ?es"
    using numbered_bounds [OF num] max_seq_numbered [OF assms(2)] by (simp add: filter_id_conv event_log_def)
  moreover have "sort_key sv_seq ?es = ?es"
    using in_order [OF numbered_sorted [OF num], of "\<lambda>e. True"] by (simp add: event_log_def)
  ultimately show ?thesis using max_seq_numbered [OF assms(2)] by (simp add: take_rev)
qed

lemma snapshot_run:
  assumes "history_snapshot wr [(''sessionId'', JStr s)] w = (Inr (Inr reply), v)" "log_numbered (session_events (store w) s)"
    and "body_get reply ''outcome'' = Some (JStr ''snapshot'')"
  shows "\<exists>rows older. rows = drop (length (session_events (store w) s) - 200) (session_events (store w) s) \<and>
    snapshot_reply (wr_codec wr) s None (rows, int (length (session_events (store w) s)), older) = Inr reply"
proof -
  let ?ps = "[(''sessionId'', JStr s)]"
  let ?read = "try_catch (pbind (history_page s None None 200) (\<lambda>p. preturn (Some p)))
        (\<lambda>e. if cursor_ahead e then preturn None else praise e)"
  have "page_param ?ps = wok []" "get_json ?ps ''cursor'' = JNull" "get_json [] ''cursor'' = JNull"
    by (simp_all add: page_param_def get_json_def json_or_null_def truthy_def)
  then obtain x where tried: "?read w = (Inr x, v)"
    and reply: "case x of None \<Rightarrow> reply = resync_reply | Some p \<Rightarrow> snapshot_reply (wr_codec wr) s None p = Inr reply"
    using assms(1)
    by (auto simp: history_snapshot_def page_limit_def optional_cursor_def wire_iffs split: option.splits)
  show ?thesis
  proof (cases x)
    case None
    with reply assms(3) show ?thesis by (simp add: resync_reply_def stop_reply_def body_get_def)
  next
    case (Some p)
    obtain rows head older where p: "p = (rows, head, older)" by (cases p) auto
    have "history_page s None None 200 w = (Inr (rows, head, older), v)"
      using tried unfolding Some p
      by (auto simp: try_catch_def pbind_def preturn_def praise_def split: prod.splits sum.splits if_splits)
    from page_rows [OF this assms(2)] reply show ?thesis unfolding Some p by auto
  qed
qed


lemma snapshot_cursor:
  assumes "snapshot_reply co s None (rows, head, older) = Inr reply"
  shows "\<exists>fs. frames_of co rows = Inr fs \<and> body_get reply ''frames'' = Some (JList fs) \<and>
    body_get reply ''resumeCursor'' = Some (JStr (cursor_encode co s head)) \<and>
    body_get reply ''outcome'' = Some (JStr ''snapshot'')"
  using assms by (auto simp: snapshot_reply_def rbind_def body_get_def resume_position_def split: sum.splits)

lemma snapshot_answers:
  assumes "find_session (store w) s \<noteq> None" "log_numbered (session_events (store w) s)" "s \<noteq> []" "int (length s) \<le> default_limit"
    and "\<exists>fs. frames_of (wr_codec wr) (drop (length (session_events (store w) s) - 200) (session_events (store w) s)) = Inr fs"
  shows "\<exists>reply. history_snapshot wr [(''sessionId'', JStr s)] w = (Inr (Inr reply), w) \<and>
    body_get reply ''outcome'' = Some (JStr ''snapshot'')"
proof -
  let ?ps = "[(''sessionId'', JStr s)]"
  have plain: "page_param ?ps = wok []" "get_json ?ps ''cursor'' = JNull" "get_json [] ''cursor'' = JNull"
    by (simp_all add: page_param_def get_json_def json_or_null_def truthy_def)
  have "\<exists>rows head older. history_page s None None 200 w = (Inr (rows, head, older), w)"
    using assms(1) by (auto simp: history_page_def require_session_def run_iffs Let_def)
  then obtain rows head older where page: "history_page s None None 200 w = (Inr (rows, head, older), w)" by blast
  from page_rows [OF page assms(2)] assms(5) obtain fs where "frames_of (wr_codec wr) rows = Inr fs" by blast
  then obtain reply where reply: "snapshot_reply (wr_codec wr) s None (rows, head, older) = Inr reply"
    by (simp add: snapshot_reply_def rbind_def)
  have read: "try_catch (pbind (history_page s None None 200) (\<lambda>p. preturn (Some p)))
      (\<lambda>e. if cursor_ahead e then preturn None else praise e) w = (Inr (Some (rows, head, older)), w)"
    using page by (simp add: try_catch_def pbind_def preturn_def)
  have "history_snapshot wr ?ps w = (Inr (Inr reply), w)"
    using assms(3,4) reply
    by (simp add: history_snapshot_def page_limit_def optional_cursor_def wire_iffs plain read)
  moreover have "body_get reply ''outcome'' = Some (JStr ''snapshot'')" using snapshot_cursor [OF reply] by blast
  ultimately show ?thesis by blast
qed

lemma events_prefix: "prefix (l_events d) (l_events d') \<Longrightarrow> prefix (session_events d s) (session_events d' s)"
  by (auto simp: prefix_def session_events_def)



section \<open>Dispatch\<close>

lemma shapes_cover: "list_all (\<lambda>m. m \<in> set (map fst param_shapes)) method_names"
  by code_simp

lemma shapes_known: "list_all (\<lambda>m. map_of param_shapes m \<noteq> None) method_names"
  using shapes_cover by (auto simp: list_all_iff map_of_eq_None_iff)

lemma handled_returns: "\<exists>r v. try_catch m (\<lambda>e. wfail (f e)) w = (Inr r, v)"
  by (simp add: try_catch_def wfail_def preturn_def split: prod.split sum.split)

lemma dispatch_returns: "\<exists>r v. dispatch wr m ps w = (Inr r, v)"
proof (cases "m \<in> set method_names")
  case False
  then show ?thesis by (simp add: dispatch_def wfail_def preturn_def)
next
  case True
  with shapes_known obtain shape where "map_of param_shapes m = Some shape" by (auto simp: list_all_iff)
  with True show ?thesis
    by (cases shape) (auto simp: dispatch_def wbind_def pbind_def wfail_def wok_def wcheck_def preturn_def
      handled_returns [unfolded wfail_def] split: option.split sum.split)
qed

text \<open>
  C11: \<open>dispatch\<close> never raises, whatever method, parameters and composition: every request is answered,
  with a result or with an error whose family is one of the twelve the protocol knows.
\<close>

theorem dispatch_answers_typed:
  "case dispatch wr m ps w of
     (Inl e, v) \<Rightarrow> False
   | (Inr (Inl refusal), v) \<Rightarrow> we_family refusal \<in> set families
   | (Inr (Inr result), v) \<Rightarrow> True"
proof -
  obtain r v where "dispatch wr m ps w = (Inr r, v)" using dispatch_returns by blast
  with typed_dispatch [of wr m ps] show ?thesis
    by (cases r) (auto simp: typed_def closed_def)
qed

section \<open>Cursors\<close>

lemma colon_split: "CHR '':'' \<notin> set a \<Longrightarrow> CHR '':'' \<notin> set b \<Longrightarrow> a @ CHR '':'' # x = b @ CHR '':'' # y \<Longrightarrow> a = b \<and> x = y"
  by (induction a arbitrary: b) (auto simp: Cons_eq_append_conv)

lemma cursor_generation: "gen \<noteq> gen' \<Longrightarrow> CHR '':'' \<notin> set gen' \<Longrightarrow> \<exists>e. cursor_read co (cursor_mint co gen' s n) gen x = Inl e"
proof (cases "cursor_read co (cursor_mint co gen' s n) gen x")
  case (Inr r)
  assume gens: "gen \<noteq> gen'" "CHR '':'' \<notin> set gen'"
  obtain t m where "r = (t, m)" by (cases r)
  with Inr have "cursor_read co (cursor_mint co gen' s n) gen x = Inr (t, m)" by simp
  from this [unfolded cursor_read_Inr]
  obtain raw sig where "cursor_mint co gen' s n = cursor_payload gen t raw @ '':'' @ sig" "CHR '':'' \<notin> set gen"
    by (elim exE conjE)
  moreover obtain z where "cursor_mint co gen' s n = gen' @ CHR '':'' # z" by (simp add: cursor_mint_def cursor_payload_def Let_def)
  ultimately have "gen' @ CHR '':'' # z = gen @ CHR '':'' # (t @ '':'' @ raw @ '':'' @ sig)" "CHR '':'' \<notin> set gen"
    by (simp_all add: cursor_payload_def)
  with gens colon_split show ?thesis by metis
qed simp

lemma cursor_names:
  assumes "cursor_read co (cursor_mint co gen s n) gen (Some t) = Inr (u, m)" "CHR '':'' \<notin> set gen" "CHR '':'' \<notin> set s"
  shows "t = s \<and> u = s"
proof -
  from assms(1) [unfolded cursor_read_Inr]
  obtain raw sig where eq: "cursor_mint co gen s n = cursor_payload gen u raw @ '':'' @ sig"
    and u: "CHR '':'' \<notin> set u" "Some t = None \<or> Some t = Some u" by (elim exE conjE)
  obtain z where "cursor_mint co gen s n = gen @ CHR '':'' # s @ CHR '':'' # z"
    by (simp add: cursor_mint_def cursor_payload_def Let_def)
  with eq have "s @ CHR '':'' # z = u @ CHR '':'' # (raw @ '':'' @ sig)" by (simp add: cursor_payload_def)
  from colon_split [OF assms(3) u(1) this] u(2) show ?thesis by simp
qed




text \<open>
  C23: A cursor is accepted for a session only when it carries the signature, under the key of this
  Server, of a payload that names that session and that position; so no client can make up a position.
\<close>

theorem cursor_accepted_is_signed:
  assumes "cursor_decode co c (Some t) = Inr (s, n)"
  shows "s = t \<and> 0 \<le> n \<and> (\<exists>raw sig. c = cursor_payload cursor_prefix t raw @ '':'' @ sig \<and> py_int raw = Some n \<and>
    b64_decode (sig @ b64_padding sig) = Some (take 12 (hmac (co_sha co) (co_key co) (utf8 (cursor_payload cursor_prefix t raw)))))"
  using assms [unfolded cursor_decode_def cursor_read_Inr] unfolding signature_def by auto

theorem cursor_accepted_is_signed_witness:
  "\<exists>raw sig. cursor_encode demo_codec ''s1'' 7 = cursor_payload cursor_prefix ''s1'' raw @ '':'' @ sig \<and> py_int raw = Some 7"
proof -
  have "cursor_decode demo_codec (cursor_encode demo_codec ''s1'' 7) (Some ''s1'') = Inr (''s1'', 7)"
    by (rule cursor_back) simp_all
  from cursor_accepted_is_signed [OF this] show ?thesis by blast
qed

section \<open>Decisions\<close>

lemma find_map_key: "(\<And>r. k (g r) = k r) \<Longrightarrow> find (\<lambda>r. k r = a) (map g xs) = map_option g (find (\<lambda>r. k r = a) xs)"
  by (induction xs) auto

lemma settled_row:
  assumes "update_approvals (\<lambda>r. ap_id r = i \<and> ap_state r = ''open'' \<and> ap_version r = v) f d = Inr (n, d')"
    and "find_approval d i = Some x" "ap_state x = ''open''" "ap_version x = v" "\<And>r. ap_id (f r) = ap_id r"
  shows "find_approval d' i = Some (f x)"
proof -
  let ?g = "\<lambda>r. if ap_id r = i \<and> ap_state r = ''open'' \<and> ap_version r = v then f r else r"
  have "find_approval d' i = map_option ?g (find_approval d i)"
    using assms(1,5) find_map_key [of ap_id ?g i "l_approvals d"]
    by (auto simp: update_approvals_def update_where_def find_approval_def)
  moreover have "ap_id x = i" using assms(2) by (auto simp: find_approval_def find_Some_iff)
  ultimately show ?thesis using assms(2-4) by simp
qed

lemma event_keeps_approvals:
  "append_session_event s t k data w = (Inr e, w') \<Longrightarrow> find_approval (store w') i = find_approval (store w) i"
  by (auto simp: append_session_event_def insert_session_event_def find_approval_def run_iffs Let_def split: if_splits)

lemma decided_settled:
  assumes "decide i dec sc v rq w = (Inr (st, body), w')" "body_get body ''outcome'' = Some (JStr ''recorded'')"
  shows "\<exists>a. find_approval (store w') i = Some a \<and> ap_state a = ''settled'' \<and> ap_decision a = Some dec"
  using assms
  by (auto simp: decide_def Let_def run_iffs decision_body_def body_get_def event_keeps_approvals split: if_splits
      dest!: settled_row)

lemma decision_given:
  "decision_param ps w = (Inr (Inr y), w') \<Longrightarrow> map_of ps ''decision'' = Some (JStr y) \<and> w' = w"
  by (auto simp: decision_param_def member_of_def wire_iffs praise_def py_str_def split: if_splits)

lemma scope_given: "scope_param v w = (Inr (Inr y), w') \<Longrightarrow> y = v \<and> w' = w"
  by (auto simp: scope_param_def member_of_def wire_iffs praise_def split: json.splits if_splits)

lemma wire_version_iff [wire_iffs]: "wire_version v = Inr y \<longleftrightarrow> v = JInt y \<and> 0 \<le> y \<and> y \<le> safe_integer"
  by (auto simp: wire_version_def split: json.splits if_splits)

lemma version_iff [wire_iffs]:
  "version_param ps w = (Inr (Inr y), w') \<longleftrightarrow> map_of ps ''expectedVersion'' = Some (JInt y) \<and> 0 \<le> y \<and> y \<le> safe_integer \<and> w' = w"
  by (auto simp: version_param_def wire_iffs)

definition without_port :: "wire_service \<Rightarrow> wire_service" where
  "without_port wr = wr\<lparr>wr_decide := None\<rparr>"





section \<open>Configuration\<close>

text \<open>The copy of \<open>_model_references\<close> in the handlers misses references whose ids are not texts.\<close>

lemma reference_copies_differ:
  "model_reference_list (JDict [(''providerId'', JStr ''p''), (''modelId'', JInt 1)]) = []"
  "model_references (JDict [(''providerId'', JStr ''p''), (''modelId'', JInt 1)]) = [(''p'', ''1'')]"
  by code_simp+

lemma map_of_assign_all: "map_of (assign_all ups m) k = (case map_of (rev ups) k of None \<Rightarrow> map_of m k | Some v \<Rightarrow> Some v)"
proof (induction ups arbitrary: m)
  case Nil
  show ?case by (simp add: assign_all_def)
next
  case (Cons u ups)
  have "assign_all (u # ups) m = assign_all ups (dict_put (fst u) (snd u) m)" by (simp add: assign_all_def split_beta)
  then show ?case
    by (simp add: Cons map_of_dict_put map_add_def split: option.split)
qed

lemma locked_value:
  assumes "k \<in> set locked" "map_of configured k = Some v"
  shows "map_of (lock_values locked configured effective) k = Some v"
proof -
  let ?f = "\<lambda>k. map_option (\<lambda>v. (k, v)) (map_of configured k)"
  have absent: "map_of (rev (List.map_filter ?f js)) k = None" if "k \<notin> set js" for js
    using that
  proof (induction js)
    case (Cons j js)
    then show ?case by (cases "map_of configured j") (auto simp: List.map_filter_def map_add_def)
  qed (simp add: List.map_filter_def)
  have "map_of (rev (List.map_filter ?f locked)) k = Some v" using assms(1)
  proof (induction locked)
    case (Cons j js)
    then show ?case
      using absent [of js] assms(2)
      by (cases "k \<in> set js"; cases "map_of configured j") (auto simp: List.map_filter_def map_add_def)
  qed simp
  then show ?thesis by (simp add: lock_values_def map_of_assign_all)
qed

text \<open>
  C27: A security-locked control is never overridden: when a configuration resolves, no override names a
  locked control, and every locked control the Profile configures has the configured value in the result.
\<close>

theorem locked_controls_hold:
  assumes "config_resolve wr ps w = (Inr (Inr reply), w')" "body_get reply ''outcome'' = Some (JStr ''resolved'')"
    and "map_of ps ''profileId'' = Some (JStr p)" "find_profile (store w) p = Some profile"
    and "sv_read (wr_sessions wr) (pf_config profile) = Inr stored" "stored_configuration stored = Inr configured"
    and "k \<in> set (locked_controls wr profile)"
  shows "(\<forall>v. map_of ps ''overrides'' = Some v \<longrightarrow> (case v of JList xs \<Rightarrow> k \<notin> fst ` set (List.map_filter assignment_shape xs) | _ \<Rightarrow> v = JNull)) \<and>
    (\<exists>effective. body_get reply ''effective'' =
        Some (JList (map (\<lambda>(k, v). JDict [(''controlId'', JStr k), (''value'', v)]) effective)) \<and>
      (\<forall>v. map_of configured k = Some v \<longrightarrow> map_of effective k = Some v))"
proof -
  have read: "configuration_of wr profile = wok configured"
    using assms(5,6) by (intro ext) (simp add: configuration_of_def wtry_def wrun_def pbind_def plift_def rbind_def wok_def preturn_def)
  from assms(1) obtain given ids controls w1 w2 w3 where
    given: "overrides_param ps w1 = (Inr (Inr given), w2)"
    and result: "(let overrides = (case given of None \<Rightarrow> [] | Some xs \<Rightarrow> List.map_filter assignment_shape xs);
        invalid = map (invalid_control ''unknown_control'') (filter (\<lambda>k. k \<notin> set ids) (map fst overrides))
          @ map (invalid_control ''security_locked'') (filter (\<lambda>k. k \<in> set (locked_controls wr profile)) (map fst overrides)) in
    if invalid \<noteq> [] then wok (JDict [(''outcome'', JStr ''rejected''), (''invalidControls'', JList invalid)])
    else
      wbind (effective_values wr profile overrides) (\<lambda>effective.
      wok (JDict [(''outcome'', JStr ''resolved''),
        (''effective'', JList (map (\<lambda>(k, v). JDict [(''controlId'', JStr k), (''value'', v)]) effective))]))) w3
      = (Inr (Inr reply), w')"
    using assms(3,4)
    by (auto simp: config_resolve_def wire_iffs get_profile_def fetch_row_Inr Let_def)
  let ?overrides = "case given of None \<Rightarrow> [] | Some xs \<Rightarrow> List.map_filter assignment_shape xs"
  let ?invalid = "map (invalid_control ''unknown_control'') (filter (\<lambda>k. k \<notin> set ids) (map fst ?overrides))
      @ map (invalid_control ''security_locked'') (filter (\<lambda>k. k \<in> set (locked_controls wr profile)) (map fst ?overrides))"
  have clean: "?invalid = []"
  proof (rule ccontr)
    assume "?invalid \<noteq> []"
    with result have "reply = JDict [(''outcome'', JStr ''rejected''), (''invalidControls'', JList ?invalid)]"
      by (simp only: Let_def not_False_eq_True if_True wok_iff)
    with assms(2) show False by (simp add: body_get_def)
  qed
  then have "\<forall>j \<in> set (map fst ?overrides). j \<notin> set (locked_controls wr profile)"
    unfolding append_is_Nil_conv map_is_Nil_conv filter_empty_conv by (rule conjunct2)
  then have none: "k \<notin> fst ` set ?overrides" using assms(7) by (metis list.set_map)
  have "wbind (effective_values wr profile ?overrides) (\<lambda>effective.
      wok (JDict [(''outcome'', JStr ''resolved''),
        (''effective'', JList (map (\<lambda>(k, v). JDict [(''controlId'', JStr k), (''value'', v)]) effective))])) w3
      = (Inr (Inr reply), w')"
    using result clean by (simp only: Let_def not_True_eq_False if_False simp_thms)
  then have "\<exists>effective. effective = lock_values (locked_controls wr profile) configured (assign_all ?overrides
        (assign_all configured (assign_all (discovered_values (case harness_of wr profile of None \<Rightarrow> [] | Some h \<Rightarrow> hs_options h)) []))) \<and>
      body_get reply ''effective'' = Some (JList (map (\<lambda>(k, v). JDict [(''controlId'', JStr k), (''value'', v)]) effective))"
    by (auto simp: Let_def wire_iffs effective_values_def read body_get_def)
  then obtain effective where effective: "body_get reply ''effective'' =
      Some (JList (map (\<lambda>(k, v). JDict [(''controlId'', JStr k), (''value'', v)]) effective))"
    and locked: "\<forall>v. map_of configured k = Some v \<longrightarrow> map_of effective k = Some v"
    using locked_value [OF assms(7)] by blast
  have "case v of JList xs \<Rightarrow> k \<notin> fst ` set (List.map_filter assignment_shape xs) | _ \<Rightarrow> v = JNull"
    if "map_of ps ''overrides'' = Some v" for v
    using given that none
    by (auto simp: overrides_param_def get_json_def json_or_null_def wire_iffs split: json.splits if_splits)
  with effective locked show ?thesis by blast
qed


definition locked_wire :: wire_service where
  "locked_wire = demo_wire\<lparr>wr_sessions := demo_service\<lparr>
     sv_harnesses := [(''opencode'', demo_harness\<lparr>hs_locked := [''sandbox''], hs_options := [(''sandbox'', [JStr ''on'', JStr ''off''])]\<rparr>)],
     sv_read := (\<lambda>d. Inr (JDict [(''configuration'', JDict [(''sandbox'', JStr ''on'')])]))\<rparr>\<rparr>"

definition locked_request :: wire_params where
  "locked_request = [(''profileId'', JStr ''profile_1''), (''workspaceId'', JStr ''ws_1''), (''overrides'', JNull)]"

lemma locked_resolved:
  "case fst (config_resolve locked_wire locked_request demo_stream) of
     Inr (Inr reply) \<Rightarrow> body_get reply ''outcome'' = Some (JStr ''resolved'') | _ \<Rightarrow> False"
  by code_simp

theorem locked_controls_hold_witness:
  "\<exists>reply effective. fst (config_resolve locked_wire locked_request demo_stream) = Inr (Inr reply) \<and>
    body_get reply ''effective'' = Some (JList (map (\<lambda>(k, v). JDict [(''controlId'', JStr k), (''value'', v)]) effective)) \<and>
    map_of effective ''sandbox'' = Some (JStr ''on'')"
proof -
  obtain reply w' where run: "config_resolve locked_wire locked_request demo_stream = (Inr (Inr reply), w')"
    "body_get reply ''outcome'' = Some (JStr ''resolved'')"
    using locked_resolved by (cases "config_resolve locked_wire locked_request demo_stream") (auto split: sum.splits)
  obtain profile where profile: "find_profile (store demo_stream) ''profile_1'' = Some profile" "pf_harness profile = ''opencode''"
    by (simp add: demo_stream_def ledger_demo find_profile_def)
  have "map_of locked_request ''profileId'' = Some (JStr ''profile_1'')" by (simp add: locked_request_def)
  moreover have "sv_read (wr_sessions locked_wire) (pf_config profile) = Inr (JDict [(''configuration'', JDict [(''sandbox'', JStr ''on'')])])"
    by (simp add: locked_wire_def demo_wire_def)
  moreover have "stored_configuration (JDict [(''configuration'', JDict [(''sandbox'', JStr ''on'')])]) = Inr [(''sandbox'', JStr ''on'')]"
    by (simp add: stored_configuration_def dict_get_def)
  moreover have "''sandbox'' \<in> set (locked_controls locked_wire profile)"
    using profile(2) by (simp add: locked_controls_def harness_of_def wr_harnesses_def locked_wire_def demo_wire_def)
  ultimately show ?thesis using locked_controls_hold [OF run _ profile(1)] run(1) by fastforce
qed

end
