(* ===== verification/Backend_State.thy ===== *)
theory Backend_State
  imports Core_Safety Capability_Selection Turn_Records Workspace_Records Model_Configs
begin

text \<open>
  What the execution back end works on (\<open>execution/sidecar_backend.py\<close> and
  \<open>pacthold/execution/first_run_lock.py\<close>): programs on one part of a larger store; the three parts
  of the back end's world, the Work Core, the session ledger and its own tables; ports; the first-run
  gate; and the decisions that depend on values only: the capability gate, the published code of a
  failure, the reason a run stopped, the attachments of a message.

  A port is what a port factory returned: the attributes the back end reads and what its methods
  answer. Methods that are called several times answer by the number of the call.
\<close>

section \<open>Programs on a part of the store\<close>

definition with_store :: "'d world \<Rightarrow> 'e \<Rightarrow> 'e world" where
  "with_store w x = \<lparr>store = x, uuid_src = uuid_src w, uuid_pos = uuid_pos w, clock_src = clock_src w,
     clock_pos = clock_pos w, tz_offset = tz_offset w\<rparr>"

definition zoom :: "('s \<Rightarrow> 'd) \<Rightarrow> ('d \<Rightarrow> 's \<Rightarrow> 's) \<Rightarrow> ('d, 'a) prog \<Rightarrow> ('s, 'a) prog" where
  "zoom get put m w =
    (case m (with_store w (get (store w))) of (r, v) \<Rightarrow> (r, with_store v (put (store v) (store w))))"

lemma store_with_store [simp]: "store (with_store w x) = x"
  by (simp add: with_store_def)

lemma with_store_with_store [simp]: "with_store (with_store w x) y = with_store w y"
  by (simp add: with_store_def)

lemma with_store_store [simp]: "with_store w (store w) = w"
  by (simp add: with_store_def)

text \<open>A part of a store, read and replaced.\<close>

locale part =
  fixes get :: "'s \<Rightarrow> 'd" and put :: "'d \<Rightarrow> 's \<Rightarrow> 's"
  assumes get_put: "get (put x s) = x"
    and put_get: "put (get s) s = s"
    and put_put: "put x (put y s) = put x s"
begin

lemma zoom_run:
  "zoom get put m w = (r, w') \<longleftrightarrow>
    (\<exists>v. m (with_store w (get (store w))) = (r, v) \<and> w' = with_store v (put (store v) (store w)))"
  by (auto simp: zoom_def split: prod.splits)

lemma zoom_part: "zoom get put m w = (r, w') \<Longrightarrow>
    m (with_store w (get (store w))) = (r, with_store w' (get (store w')))"
  by (auto simp: zoom_run get_put)

lemma within_zoom: "within R m \<Longrightarrow> within (\<lambda>a b. R (get a) (get b)) (zoom get put m)"
  unfolding within_def zoom_def
  by (auto simp: get_put split: prod.splits) (metis snd_conv store_with_store)

lemma zoom_elsewhere: "(\<And>x s. f (put x s) = f s) \<Longrightarrow> within (\<lambda>a b. f b = f a) (zoom get put m)"
  by (auto simp: within_def zoom_def split: prod.splits)

lemma zoom_preturn: "zoom get put (preturn x) = preturn x"
  by (rule ext) (simp add: zoom_def preturn_def put_get)

lemma zoom_pbind: "zoom get put (pbind m k) = pbind (zoom get put m) (\<lambda>x. zoom get put (k x))"
  by (rule ext) (auto simp: zoom_def pbind_def get_put put_put split: prod.splits sum.splits)

end

section \<open>try and finally\<close>

text \<open>\<open>attempt\<close> gives the exception as a value; \<open>swallow\<close> is \<open>try: m except BaseException: pass\<close>;
  \<open>finally_do m c\<close> is \<open>try: m finally: c\<close>.\<close>

definition attempt :: "('d, 'a) prog \<Rightarrow> ('d, exn + 'a) prog" where
  "attempt m w = (case m w of (r, w') \<Rightarrow> (Inr r, w'))"

definition swallow :: "('d, 'a) prog \<Rightarrow> ('d, unit) prog" where
  "swallow m = pbind (attempt m) (\<lambda>_. preturn ())"

definition raised :: "('d, 'a) prog \<Rightarrow> ('d, bool) prog" where
  "raised m = pbind (attempt m) (\<lambda>r. preturn (case r of Inl e \<Rightarrow> True | Inr x \<Rightarrow> False))"

definition finally_do :: "('d, 'a) prog \<Rightarrow> ('d, unit) prog \<Rightarrow> ('d, 'a) prog" where
  "finally_do m c = pbind (attempt m) (\<lambda>r. pseq c (plift r))"

lemma attempt_run: "attempt m w = (x, w') \<longleftrightarrow> (\<exists>r. m w = (r, w') \<and> x = Inr r)"
  by (auto simp: attempt_def split: prod.splits)

lemma finally_run:
  "finally_do m c w = (r, w') \<longleftrightarrow>
    (\<exists>q v. m w = (q, v) \<and> (c v = (Inr (), w') \<and> r = q \<or> (\<exists>e. c v = (Inl e, w') \<and> r = Inl e)))"
  by (auto simp: finally_do_def pbind_def pseq_def attempt_def plift_def split: prod.splits sum.splits)

lemma swallow_run: "swallow m w = (r, w') \<longleftrightarrow> r = Inr () \<and> w' = snd (m w)"
  by (auto simp: swallow_def pbind_def attempt_def preturn_def split: prod.splits)

lemma raised_run: "raised m w = (r, w') \<longleftrightarrow> w' = snd (m w) \<and> r = Inr (case fst (m w) of Inl e \<Rightarrow> True | Inr x \<Rightarrow> False)"
  by (auto simp: raised_def pbind_def attempt_def preturn_def split: prod.splits)

context evolution
begin

lemma within_attempt: "within R m \<Longrightarrow> within R (attempt m)"
  by (auto simp: within_def attempt_def split: prod.splits) (metis snd_conv)

lemma within_swallow: "within R m \<Longrightarrow> within R (swallow m)"
  by (auto simp: within_def swallow_run [unfolded prod_eq_iff] swallow_def pbind_def attempt_def preturn_def split: prod.splits)
    (metis snd_conv)

lemma within_raised: "within R m \<Longrightarrow> within R (raised m)"
  by (auto simp: within_def raised_def pbind_def attempt_def preturn_def split: prod.splits) (metis snd_conv)

end

section \<open>Ports\<close>

text \<open>What the audit of a home answers.\<close>

record audit =
  au_platform :: "string option"
  au_home :: "string option"
  au_audited :: json
  au_truncated :: json
  au_files :: "json list"

text \<open>The attributes that only the native gate reads are one flag: isolated material is attached.\<close>

record port =
  pt_id :: nat
  pt_native :: bool
  pt_directory :: string
  pt_launcher :: "string option"
  pt_isolated :: bool
  pt_documents :: "declaration_document list"
  pt_grants :: "grant list"
  pt_authorized :: "string list"
  pt_binding :: "string option"
  pt_executables :: "string list"
  pt_projections :: "string list"
  pt_artifacts :: "string list"
  pt_state_target :: "string option"
  pt_whole_db :: bool
  pt_platform :: string
  pt_profile :: string
  pt_shared :: bool
  pt_capabilities :: "exn + json"
  pt_open :: "nat \<Rightarrow> exn + string"
  pt_prompt :: "nat \<Rightarrow> string \<Rightarrow> json list \<Rightarrow> exn + json"
  pt_reclose :: "nat \<Rightarrow> exn + unit"
  pt_close :: "exn + unit"
  pt_capture :: "exn + audit \<times> bool"
  pt_usage :: "string option"
  pt_read_usage :: "exn + (string \<times> json) list option"
  pt_changes :: "exn + json option"
  pt_leak :: "string option"

text \<open>A started run. The result is what the prompt worker leaves in it.\<close>

record run =
  rn_turn :: string
  rn_work :: string
  rn_exec :: string
  rn_dispatch :: string
  rn_port :: port
  rn_native :: string
  rn_result :: "exn + json"
  rn_hold :: "string option"

section \<open>The tables of the back end\<close>

type_synonym turn_ctx = "turn_row \<times> session_row \<times> profile_row \<times> workspace_row"

text \<open>The gate has one flag per key: False while the first run holds it, True once it is ready.\<close>

record memory =
  mm_turns :: "(string \<times> string) list"
  mm_contexts :: "(string \<times> turn_ctx) list"
  mm_parts :: "(string \<times> string list) list"
  mm_active :: "(string \<times> run) list"
  mm_receipts :: "(string \<times> string) list"
  mm_handles :: "(string \<times> run) list"
  mm_approvals :: "(string \<times> port) list"
  mm_native :: "(string \<times> port) list"
  mm_values :: "((string \<times> string) \<times> pyvalue) list"
  mm_gate :: "(string \<times> bool) list"
  mm_workers :: "string list"

record backend =
  bk_core :: core_db
  bk_ledger :: ledger
  bk_memory :: memory

type_synonym 'a memory_prog = "(memory, 'a) prog"
type_synonym 'a backend_prog = "(backend, 'a) prog"

definition in_core :: "'a core_prog \<Rightarrow> 'a backend_prog" where
  "in_core = zoom bk_core (\<lambda>x s. s\<lparr>bk_core := x\<rparr>)"

definition in_ledger :: "'a ledger_prog \<Rightarrow> 'a backend_prog" where
  "in_ledger = zoom bk_ledger (\<lambda>x s. s\<lparr>bk_ledger := x\<rparr>)"

definition in_memory :: "'a memory_prog \<Rightarrow> 'a backend_prog" where
  "in_memory = zoom bk_memory (\<lambda>x s. s\<lparr>bk_memory := x\<rparr>)"

interpretation core_part: part bk_core "\<lambda>x s. s\<lparr>bk_core := x\<rparr>" by unfold_locales simp_all
interpretation ledger_part: part bk_ledger "\<lambda>x s. s\<lparr>bk_ledger := x\<rparr>" by unfold_locales simp_all
interpretation memory_part: part bk_memory "\<lambda>x s. s\<lparr>bk_memory := x\<rparr>" by unfold_locales simp_all

text \<open>What the composition gives: SHA-256, the session configuration, the queue, the objects, the port
  factory, the local path check, and whether a wait for a first run that is under way ends in time.\<close>

record backend_env =
  be_hash :: "string \<Rightarrow> string"
  be_config :: session_config
  be_queue :: queue
  be_read :: "string \<Rightarrow> exn + json"
  be_bytes :: "string \<Rightarrow> exn + string"
  be_publish :: "json \<Rightarrow> exn + string"
  be_factory :: "turn_ctx \<Rightarrow> exn + port"
  be_validate :: "string \<Rightarrow> exn + string"
  be_time :: int
  be_waited :: "string \<Rightarrow> bool"

section \<open>The first-run gate\<close>

definition gate_timeout :: "string \<Rightarrow> exn" where
  "gate_timeout key = Exn (OtherException ''FirstRunLockTimeout'')
    (''another first run on '' @ key @ '' did not finish within 300s'') (Some ''FIRST_RUN_LOCK_TIMEOUT'') None"

text \<open>The key when the caller holds it, None when it may pass through.\<close>

definition gate_acquire :: "(string \<Rightarrow> bool) \<Rightarrow> string \<Rightarrow> string option memory_prog" where
  "gate_acquire waited key =
    pbind (read_store (\<lambda>m. map_of (mm_gate m) key)) (\<lambda>seen.
    case seen of
      None \<Rightarrow> pseq (write_store (\<lambda>m. m\<lparr>mm_gate := AList.update key False (mm_gate m)\<rparr>)) (preturn (Some key))
    | Some ready \<Rightarrow> if ready \<or> waited key then preturn None else praise (gate_timeout key))"

definition gate_release :: "string option \<Rightarrow> unit memory_prog" where
  "gate_release hold =
    (case hold of None \<Rightarrow> preturn ()
     | Some key \<Rightarrow> write_store (\<lambda>m. m\<lparr>mm_gate := AList.update key True (mm_gate m)\<rparr>))"

section \<open>Refusals before the start\<close>

definition sidecar_error :: "string \<Rightarrow> string \<Rightarrow> string \<Rightarrow> exn" where
  "sidecar_error cls code message = Exn (OtherException cls) (code @ '': '' @ message) (Some code) None"

definition gate_refusal :: "string \<Rightarrow> exn" where
  "gate_refusal reason = sidecar_error ''CapabilityGateRefusal'' ''CAPABILITY_REQUIREMENT_UNSATISFIED'' reason"

text \<open>The message keeps the code of the base class; only the attribute is replaced.\<close>

definition project_refusal :: "string \<Rightarrow> exn" where
  "project_refusal code = Exn (OtherException ''NativeProjectRefusal'')
    (''CAPABILITY_REQUIREMENT_UNSATISFIED: selected project is unavailable for native execution'') (Some code) None"

definition session_unavailable :: exn where
  "session_unavailable = Exn (OtherException ''NativeSessionUnavailable'')
    (''CAPABILITY_REQUIREMENT_UNSATISFIED: native session is no longer available; start a new session'')
    (Some ''NATIVE_SESSION_UNAVAILABLE'') None"

definition pre_start_refusal :: "exn \<Rightarrow> bool" where
  "pre_start_refusal e \<longleftrightarrow> exn_cls e \<in> OtherException `
    {''CapabilityGateRefusal'', ''NativeProjectRefusal'', ''NativeSessionUnavailable'', ''PlacementUnsupported'',
     ''SandboxPortUnavailable''}"

definition rejection_of :: "exn \<Rightarrow> exn" where
  "rejection_of e = (if pre_start_refusal e then Exn ExecutionStartRejected (exn_msg e) (exn_code e) (Some e) else e)"

section \<open>The capability gate\<close>

definition native_gate :: "backend_env \<Rightarrow> port \<Rightarrow> exn + unit" where
  "native_gate env port =
    (case pt_launcher port of
       None \<Rightarrow> Inl (gate_refusal ''native mode requires the native launcher'')
     | Some cwd \<Rightarrow>
         if pt_isolated port then Inl (gate_refusal ''native mode received isolated material'')
         else (case be_validate env (pt_directory port) of
             Inl e \<Rightarrow> Inl (if is_server_error e then project_refusal (case exn_code e of None \<Rightarrow> [] | Some c \<Rightarrow> c) else e)
           | Inr normalized \<Rightarrow>
               if normalized \<noteq> pt_directory port \<or> normalized \<noteq> cwd then Inl (project_refusal ''NATIVE_PROJECT_CHANGED'')
               else Inr ()))"

definition port_demands :: "port \<Rightarrow> requirement list" where
  "port_demands port =
    sidecar_requirements (pt_executables port) (pt_projections port) (pt_artifacts port) (pt_state_target port)"

definition gate_reason :: "selection_record \<Rightarrow> string" where
  "gate_reason record =
    (case sr_rejected record of
       (provider, revision, reason) # _ \<Rightarrow> reason
     | [] \<Rightarrow> (case sr_outcome record of
         Some oc \<Rightarrow> (case mo_refusals oc of r # _ \<Rightarrow> rf_reason r
           | [] \<Rightarrow> ''no authorized candidate satisfied the requirements'')
       | None \<Rightarrow> ''no authorized candidate satisfied the requirements''))"

definition isolated_gate :: "backend_env \<Rightarrow> port \<Rightarrow> string \<Rightarrow> exn + unit" where
  "isolated_gate env port turn =
    (case pt_binding port of
       None \<Rightarrow> Inl (gate_refusal ''capability material incomplete for this execution: binding/documents/authorized required'')
     | Some binding \<Rightarrow>
         if pt_documents port = [] \<or> pt_authorized port = []
           then Inl (gate_refusal ''capability material incomplete for this execution: binding/documents/authorized required'')
         else (case select_declaration (be_hash env) (port_demands port) (pt_grants port) [] (pt_documents port)
               \<lparr>mc_binding = binding, mc_now = be_time env\<rparr> (''turn:'' @ turn) None None (Some (pt_authorized port)) of
             Inl e \<Rightarrow> Inl e
           | Inr record \<Rightarrow>
               if sr_selected record \<noteq> None \<and> (case sr_outcome record of None \<Rightarrow> False | Some oc \<Rightarrow> mo_satisfied oc)
                 then Inr ()
               else Inl (gate_refusal (''capability requirements unsatisfied for this execution: '' @ gate_reason record))))"

definition capability_gate :: "backend_env \<Rightarrow> port \<Rightarrow> string \<Rightarrow> exn + unit" where
  "capability_gate env port turn = (if pt_native port then native_gate env port else isolated_gate env port turn)"

section \<open>Published codes\<close>

text \<open>\<open>str.upper\<close>. Of the letters outside ASCII only the sharp s becomes ASCII letters.\<close>

definition upper_char :: "char \<Rightarrow> string" where
  "upper_char c = (if is_lower c then [char_of (code_of c - 32)] else if code_of c = 223 then ''SS'' else [c])"

definition py_upper :: "string \<Rightarrow> string" where
  "py_upper s = concat (map upper_char s)"

definition pre_start_codes :: "string list" where
  "pre_start_codes =
    [''CAPABILITY_REQUIREMENT_UNSATISFIED'', ''NATIVE_PROJECT_CHANGED'', ''LOCAL_PATH_INVALID'', ''LOCAL_PATH_MISSING'',
     ''LOCAL_PATH_NOT_READABLE'', ''LOCAL_PATH_NOT_DIRECTORY'', ''LOCAL_PATH_UNAVAILABLE'', ''LOCAL_PATH_FORBIDDEN'']"

text \<open>The code of the first start rejection on the cause chain that carries one.\<close>

fun rejection_code :: "exn \<Rightarrow> string option" where
  "rejection_code (Exn c m code cause) =
    (if c = ExecutionStartRejected \<and> (case code of None \<Rightarrow> False | Some k \<Rightarrow> typed_code_ok k) then code
     else (case cause of None \<Rightarrow> None | Some e \<Rightarrow> rejection_code e))"

definition own_code :: "exn \<Rightarrow> string" where
  "own_code e = py_upper (py_strip (case exn_code e of Some (c # cs) \<Rightarrow> c # cs | _ \<Rightarrow> exn_msg e))"

definition safe_code :: "exn \<Rightarrow> string" where
  "safe_code e =
    (case rejection_code e of
       Some k \<Rightarrow> k
     | None \<Rightarrow>
         if exn_cls e = DispatchAmbiguous \<and> (case exn_code e of None \<Rightarrow> False | Some k \<Rightarrow> k \<in> set pre_start_codes)
           then ''EXECUTION_FAILED''
         else if typed_code_ok (own_code e) then own_code e
         else ''EXECUTION_FAILED'')"

section \<open>Why a run stopped\<close>

definition py_lower :: "string \<Rightarrow> string" where
  "py_lower s = map (\<lambda>c. if is_upper c then char_of (code_of c + 32) else c) s"

definition terminal_reason :: "json \<Rightarrow> string option" where
  "terminal_reason result =
    (case result of
       JDict kvs \<Rightarrow>
         (case first_truthy [get_json kvs ''stopReason'', get_json kvs ''stop_reason''] of
            JStr stop \<Rightarrow> if py_lower (py_strip stop) \<in> set [''end_turn'', []] then None else Some stop
          | _ \<Rightarrow> None)
     | _ \<Rightarrow> None)"

section \<open>Attachments\<close>

definition base64 :: "string \<Rightarrow> string" where
  "base64 s = (let e = b64_encode s in
    map (\<lambda>c. if c = CHR ''-'' then CHR ''+'' else if c = CHR ''_'' then CHR ''/'' else c) e @ b64_padding e)"

definition object_items :: "json \<Rightarrow> exn + (string \<times> json) list" where
  "object_items v = (case v of JDict kvs \<Rightarrow> Inr kvs | _ \<Rightarrow> Inl (err AttributeError ''object has no attribute get''))"

definition projected_attachment :: "backend_env \<Rightarrow> json \<Rightarrow> exn + json option \<times> string option" where
  "projected_attachment env item =
    rbind (object_items item) (\<lambda>kvs.
    if \<not> truthy (get_json kvs ''_contentDigest'') then Inr (None, None)
    else if get_json kvs ''mediaKind'' = JStr ''image'' then
      map_sum id (\<lambda>content. (Some (JDict
        [(''mime'', first_truthy [get_json kvs ''_mime'', JStr ''application/octet-stream'']),
         (''filename'', first_truthy [get_json kvs ''displayName'', get_json kvs ''ref'']),
         (''data'', JStr (base64 content))]), None)) (be_bytes env (py_str (get_json kvs ''_contentDigest'')))
    else Inr (None, Some (py_str (get_json kvs ''ref''))))"

text \<open>\<open>(stored.get("message") or stored).get("attachments", ())\<close>\<close>

definition message_of :: "json \<Rightarrow> exn + (string \<times> json) list" where
  "message_of stored =
    rbind (object_items stored) (\<lambda>kvs.
    if truthy (get_json kvs ''message'') then object_items (get_json kvs ''message'') else Inr kvs)"

definition sidecar_attachments :: "backend_env \<Rightarrow> json \<Rightarrow> exn + json list \<times> string list" where
  "sidecar_attachments env stored =
    rbind (message_of stored) (\<lambda>kvs.
    rbind (iterated (case map_of kvs ''attachments'' of None \<Rightarrow> JList [] | Some v \<Rightarrow> v)) (\<lambda>items.
    rbind (map_exn (projected_attachment env) items) (\<lambda>ps.
    Inr (List.map_filter fst ps, List.map_filter snd ps))))"

text \<open>The effective \<open>attach\<close> capability in a capability view.\<close>

fun attach_entry :: "json list \<Rightarrow> exn + bool" where
  "attach_entry [] = Inr False"
| "attach_entry (v # vs) =
    rbind (object_items v) (\<lambda>kvs.
    if get_json kvs ''id'' = JStr ''attach'' then Inr (truthy (get_json kvs ''supported'')) else attach_entry vs)"

definition attachment_support :: "json \<Rightarrow> exn + bool" where
  "attachment_support view =
    rbind (object_items view) (\<lambda>kvs.
    rbind (iterated (case map_of kvs ''capabilities'' of None \<Rightarrow> JList [] | Some v \<Rightarrow> v)) attach_entry)"

section \<open>The prompt\<close>

definition rebuild_limit :: nat where "rebuild_limit = 2"

definition rebuild_failure :: "exn \<Rightarrow> exn" where
  "rebuild_failure e = sidecar_error ''SidecarRunRecoveryFailure'' ''SIDECAR_REBUILD_FAILED''
    (''sidecar stayed closed after 2 rebuild attempt(s); last: '' @ exn_msg e)"

definition closed_sidecar :: "exn \<Rightarrow> bool" where
  "closed_sidecar e \<longleftrightarrow> exn_cls e \<in> OtherException ` {''SidecarError'', ''CapabilityGateRefusal'', ''NativeProjectRefusal'',
      ''NativeSessionUnavailable'', ''SidecarRunRecoveryFailure''} \<and> exn_code e = Some ''SIDECAR_CLOSED''"

text \<open>The attempts from the \<open>n\<close>-th prompt on, \<open>left\<close> rebuilds before the limit. The waits between
  them change nothing.\<close>

fun prompt_attempts :: "port \<Rightarrow> string \<Rightarrow> json list \<Rightarrow> nat \<Rightarrow> nat \<Rightarrow> exn + json" where
  "prompt_attempts p content attachments n left =
    (case pt_prompt p n content attachments of
       Inr r \<Rightarrow> Inr r
     | Inl e \<Rightarrow>
         if \<not> closed_sidecar e then Inl e
         else (case left of
             0 \<Rightarrow> Inl (rebuild_failure e)
           | Suc k \<Rightarrow> rbind (pt_reclose p n) (\<lambda>_. rbind (pt_open p (Suc n)) (\<lambda>_.
               prompt_attempts p content attachments (Suc n) k))))"

definition prompt_with_rebuild :: "port \<Rightarrow> string \<Rightarrow> json list \<Rightarrow> exn + json" where
  "prompt_with_rebuild p content attachments = prompt_attempts p content attachments 0 rebuild_limit"

section \<open>The home\<close>

definition disposition :: "exn \<Rightarrow> port \<Rightarrow> string" where
  "disposition e p =
    (if exn_code e \<noteq> Some ''SIDECAR_STATE_CONTAINS_SECRET'' then ''none''
     else if pt_shared p then ''keep-shared'' else ''delete'')"

text \<open>The file whose deletion the audit asks the port for.\<close>

definition deleted_file :: "port \<Rightarrow> string option" where
  "deleted_file p =
    (case pt_capture p of
       Inl e \<Rightarrow> if disposition e p = ''delete'' then pt_leak p else None
     | Inr a \<Rightarrow> None)"

text \<open>\<open>run.usage_fact\<close> and \<open>run.usage_source\<close> after the audit; a read that fails leaves both unknown.\<close>

definition usage_fact :: "port \<Rightarrow> (string \<times> json) list option \<times> string option" where
  "usage_fact p =
    (case pt_usage p of
       None \<Rightarrow> (None, None)
     | Some source \<Rightarrow> (case pt_read_usage p of Inl e \<Rightarrow> (None, None) | Inr given \<Rightarrow> (given, Some source)))"

definition resumable :: "port \<Rightarrow> bool \<Rightarrow> audit \<Rightarrow> bool" where
  "resumable p supported a \<longleftrightarrow> supported \<and> (pt_native p \<or> au_files a \<noteq> [])"

definition manifest :: "run \<Rightarrow> string \<Rightarrow> audit \<Rightarrow> bool \<Rightarrow> json" where
  "manifest run harness_type a supported = JDict
    [(''schema_version'', JInt 3), (''nativeSessionId'', JStr (rn_native run)), (''harnessType'', JStr harness_type),
     (''nativePlatform'', str_or_null (au_platform a)), (''homeLocator'', str_or_null (au_home a)),
     (''resumable'', JBool (resumable (rn_port run) supported a)), (''sourceExecutionId'', JStr (rn_exec run)),
     (''audited'', au_audited a), (''truncated'', au_truncated a), (''files'', JList (au_files a))]"

end
