(* ===== verification/Turn_Backend.thy ===== *)
theory Turn_Backend
  imports Backend_State
begin

text \<open>
  The execution back end (\<open>execution/sidecar_backend.py\<close>): accepting a filed turn into a Dispatch of
  the Work Core, starting its run on a port, recording native events, and completing the run into the
  Work Core and the session ledger. The threads of the code are the callers of these programs: one
  prompt worker per run, whose result is part of the run, and one completion worker.
\<close>

section \<open>Frozen inputs\<close>

definition contract_class :: "string \<Rightarrow> nat \<Rightarrow> string \<Rightarrow> pytype" where
  "contract_class name uid contract = \<lparr>t_name = name, t_uid = uid, t_contract = Some contract, t_frozen = True\<rparr>"

definition workspace_id :: string where "workspace_id = ''agent-box.workspace@1''"
definition prompt_id :: string where "prompt_id = ''agent-box.prompt-fragment@1''"
definition profile_contract :: string where "profile_contract = ''agent-box.profile@1''"

definition workspace_class :: pytype where "workspace_class = contract_class ''WorkspaceV1'' 1 workspace_id"
definition prompt_class :: pytype where "prompt_class = contract_class ''PromptFragmentV1'' 2 prompt_id"
definition profile_class :: pytype where "profile_class = contract_class ''AgentBoxProfileV1'' 3 profile_contract"

text \<open>\<open>CONTRACT_TYPES\<close>\<close>

definition contract_types :: "(string \<times> pytype) list" where
  "contract_types =
    [(workspace_id, workspace_class), (prompt_id, prompt_class), (profile_contract, profile_class),
     (''agent-box.credential@1'', contract_class ''CredentialRefV1'' 4 ''agent-box.credential@1''),
     (''agent-box.skill@1'', contract_class ''AgentSkillV1'' 5 ''agent-box.skill@1'')]"

definition workspace_value :: "string \<Rightarrow> exn + pyvalue" where
  "workspace_value path =
    (if path = [] \<or> hd path \<noteq> CHR ''/'' then Inl (err ValueError ''workspace path must be absolute'')
     else Inr \<lparr>v_types = [workspace_class], v_data = path\<rparr>)"

definition prompt_value :: "string \<Rightarrow> string \<Rightarrow> exn + pyvalue" where
  "prompt_value content object =
    (if blank content then Inl (err ValueError ''prompt fragment content is required'')
     else if blank object then Inl (err ValueError ''prompt fragment digest is required'')
     else Inr \<lparr>v_types = [prompt_class], v_data = content\<rparr>)"

definition profile_value :: "string \<Rightarrow> string \<Rightarrow> string option \<Rightarrow> int \<Rightarrow> exn + pyvalue" where
  "profile_value name harness_type effective revision =
    (if blank name then Inl (err ValueError ''Agent-Box profile name is required'')
     else if blank harness_type then Inl (err ValueError ''Agent-Box profile agent_type is required'')
     else (case effective of
         None \<Rightarrow> Inl (err ValueError ''Agent-Box profile digest is required'')
       | Some d \<Rightarrow>
           if blank d then Inl (err ValueError ''Agent-Box profile digest is required'')
           else if revision < 1 then Inl (err ValueError ''Agent-Box profile revision must be positive'')
           else Inr \<lparr>v_types = [profile_class], v_data = d\<rparr>))"

definition bind_value :: "string \<Rightarrow> string \<Rightarrow> pyvalue \<Rightarrow> ref memory_prog" where
  "bind_value contract native v =
    pseq (write_store (\<lambda>m. m\<lparr>mm_values := AList.update (contract, native) v (mm_values m)\<rparr>))
      (plift (mk_ref (if contract = workspace_id then Workspace_ref else Artifact_ref) ''server-sidecar-input'' native None []))"

definition bound_input :: "string \<Rightarrow> string \<Rightarrow> exn + pyvalue \<Rightarrow> pyobj memory_prog" where
  "bound_input contract native r =
    pbind (plift r) (\<lambda>v. pbind (bind_value contract native v) (\<lambda>ref.
      preturn (Py_tuple [Py_str contract, Py_ref ref])))"

definition resolve_bound :: "memory \<Rightarrow> string \<Rightarrow> ref \<Rightarrow> exn + pyvalue" where
  "resolve_bound m contract r =
    (case map_of (mm_values m) (contract, r_native r) of None \<Rightarrow> Inl (err KeyError contract) | Some v \<Rightarrow> Inr v)"

definition release_values :: "string \<Rightarrow> unit memory_prog" where
  "release_values turn =
    write_store (\<lambda>m. m\<lparr>mm_values := filter (\<lambda>(k, v). \<not> suffix turn (snd k)) (mm_values m)\<rparr>)"

definition bound_resources :: "memory \<Rightarrow> resource_provider" where
  "bound_resources m =
    \<lparr>rp_descriptor = Has_descriptor \<lparr>d_id = ''server-sidecar-input'', d_display = ''Server frozen sidecar inputs'', d_version = ''1''\<rparr>,
     rp_supported = Some [workspace_id, prompt_id, profile_contract],
     rp_resolve = (\<lambda>contract r ctx. resolve_bound m contract r)\<rparr>"

section \<open>Starting a run\<close>

definition checkpoint_resumable :: "backend_env \<Rightarrow> string \<Rightarrow> exn + bool" where
  "checkpoint_resumable env object =
    (case be_read env object of
       Inl e \<Rightarrow> if exn_cls e \<in> {ValueError, KeyError, TypeError} then Inr False else Inl e
     | Inr (JDict kvs) \<Rightarrow> Inr (map_of kvs ''resumable'' = Some (JBool True))
     | Inr _ \<Rightarrow> Inr False)"

definition given_text :: "string option \<Rightarrow> bool" where
  "given_text v \<longleftrightarrow> (case v of Some (c # cs) \<Rightarrow> True | _ \<Rightarrow> False)"

text \<open>The live port of a native session, or a new one; the flag says that it was reused.\<close>

definition port_for :: "backend_env \<Rightarrow> string \<Rightarrow> turn_ctx \<Rightarrow> (port \<times> bool) memory_prog" where
  "port_for env session ctx =
    (case ctx of (t, s, p, ws) \<Rightarrow>
     pbind (read_store (\<lambda>m. map_of (mm_native m) session)) (\<lambda>live.
     case live of
       Some port \<Rightarrow>
         if pt_native port \<and> ws_normalized ws \<noteq> Some (pt_directory port) then praise (project_refusal ''NATIVE_PROJECT_CHANGED'')
         else preturn (port, True)
     | None \<Rightarrow>
         pbind (plift (be_factory env ctx)) (\<lambda>port.
         if pt_native port \<and> given_text (se_checkpoint s) \<and> given_text (se_native s) then
           pbind (plift (checkpoint_resumable env (case se_checkpoint s of None \<Rightarrow> [] | Some c \<Rightarrow> c))) (\<lambda>ok.
           if ok then preturn (port, False) else praise session_unavailable)
         else preturn (port, False))))"

definition attach_unsupported :: exn where
  "attach_unsupported = sidecar_error ''SidecarError'' ''ATTACHMENT_UNSUPPORTED''
    (''this execution has no effective '' @ py_repr ''attach'' @ '' capability'')"

text \<open>\<open>open_execution\<close> and the refusal of attachments the port cannot take.\<close>

definition open_port :: "string \<Rightarrow> port \<Rightarrow> bool \<Rightarrow> bool \<Rightarrow> string memory_prog" where
  "open_port session port reusing attaching =
    pbind (plift (pt_open port 0)) (\<lambda>native.
    pseq (if pt_native port then write_store (\<lambda>m. m\<lparr>mm_native := AList.update session port (mm_native m)\<rparr>) else preturn ())
    (pbind (if attaching then plift (rbind (pt_capabilities port) attachment_support) else preturn True) (\<lambda>ok.
     if ok then preturn native
     else pseq (if pt_native port \<and> \<not> reusing then write_store (\<lambda>m. m\<lparr>mm_native := AList.delete session (mm_native m)\<rparr>) else preturn ())
       (praise attach_unsupported))))"

definition newline :: string where "newline = [char_of (10 :: nat)]"

definition prompt_text :: "string \<Rightarrow> string list \<Rightarrow> string" where
  "prompt_text content files =
    (if files = [] then content
     else content @ newline @ newline @ ''Workspace attachments (validated):'' @ concat (map (\<lambda>r. newline @ ''- '' @ r) files))"

definition session_key :: "turn_ctx \<Rightarrow> string \<Rightarrow> string" where
  "session_key ctx turn = (case ctx of (t, s, p, ws) \<Rightarrow> if tn_session t = [] then ''execution:'' @ turn else tn_session t)"

definition start_run :: "backend_env \<Rightarrow> string \<Rightarrow> string \<Rightarrow> string \<Rightarrow> run memory_prog" where
  "start_run env x did content =
    pbind (fetch_row (\<lambda>m. map_of (mm_turns m) x) (err KeyError (py_repr x))) (\<lambda>turn.
    pbind (fetch_row (\<lambda>m. map_of (mm_contexts m) turn) (err KeyError (py_repr turn))) (\<lambda>ctx.
    pbind (port_for env (session_key ctx turn) ctx) (\<lambda>(port, reusing).
    pbind (plift (be_read env (tn_input (fst ctx)))) (\<lambda>stored.
    pbind (plift (sidecar_attachments env stored)) (\<lambda>(attachments, files).
    pseq (plift (capability_gate env port turn))
    (pbind (if pt_whole_db port
        then gate_acquire (be_waited env) ((if pt_platform port = [] then ''local'' else pt_platform port) @ '':'' @ pt_profile port)
        else preturn None) (\<lambda>hold.
    pbind (try_catch (open_port (session_key ctx turn) port reusing (attachments \<noteq> []))
        (\<lambda>e. pseq (gate_release hold) (praise e))) (\<lambda>native.
     preturn \<lparr>rn_turn = turn, rn_work = [], rn_exec = x, rn_dispatch = did, rn_port = port, rn_native = native,
       rn_result = prompt_with_rebuild port (prompt_text content files) attachments, rn_hold = hold\<rparr>))))))))"

section \<open>The provider of the Work Core\<close>

definition provider_name :: string where "provider_name = ''harness-sidecar''"

definition input_value :: "start_request \<Rightarrow> string \<Rightarrow> exn + string" where
  "input_value q contract =
    (case map_of (rev (map (\<lambda>i. (ri_contract i, v_data (ri_value i))) (sq_resolved q))) contract of
       None \<Rightarrow> Inl (err KeyError (py_repr contract)) | Some v \<Rightarrow> Inr v)"

definition prompt_content :: "start_request \<Rightarrow> exn + string" where
  "prompt_content q =
    rbind (input_value q workspace_id) (\<lambda>_.
    rbind (input_value q prompt_id) (\<lambda>content.
    rbind (input_value q profile_contract) (\<lambda>_. Inr content)))"

definition sidecar_start :: "backend_env \<Rightarrow> memory world \<Rightarrow> start_request \<Rightarrow> exn + start_result" where
  "sidecar_start env w q =
    rbind (prompt_content q) (\<lambda>content.
    case fst (start_run env (sq_exec q) (sq_dispatch q) content w) of
      Inl e \<Rightarrow> Inl (rejection_of e)
    | Inr run \<Rightarrow>
        map_sum id (\<lambda>r. Receipt (start_receipt.make (sq_exec q) (sq_dispatch q) (sq_digest q) (Some No_recovery) (Some r)))
          (mk_ref Session_ref provider_name (rn_native run) None []))"

definition sidecar_provider :: "backend_env \<Rightarrow> memory world \<Rightarrow> exec_provider" where
  "sidecar_provider env w =
    \<lparr>ep_descriptor = \<lparr>d_id = provider_name, d_display = ''Harness sidecar execution'', d_version = ''1''\<rparr>,
     ep_capabilities = [(''streaming'', ''supported''), (''cancel'', ''supported''), (''approvals'', ''supported'')],
     ep_limits = Some [(workspace_id, 1, Some 1), (prompt_id, 1, Some 1), (profile_contract, 1, Some 1)],
     ep_preflight_decl = Preflight_absent, ep_preflight = None, ep_effect = None,
     ep_start = sidecar_start env w\<rparr>"

definition backend_registry :: "backend_env \<Rightarrow> memory world \<Rightarrow> exn + registry" where
  "backend_registry env w =
    rbind (register_resource_provider (Some ''server-sidecar-input'') (bound_resources (store w)) (new_registry contract_types))
      (register_execution_provider (sidecar_provider env w))"

text \<open>What a start leaves in the tables: what \<open>_start_run\<close> changed, and the handle of the run.\<close>

definition note_start :: "backend_env \<Rightarrow> string \<Rightarrow> string \<Rightarrow> string \<Rightarrow> unit memory_prog" where
  "note_start env x did content =
    pbind (attempt (start_run env x did content)) (\<lambda>r.
    case r of
      Inl e \<Rightarrow> preturn ()
    | Inr run \<Rightarrow> write_store (\<lambda>m. m\<lparr>mm_handles := AList.update did run (mm_handles m)\<rparr>))"

text \<open>
  \<open>dispatch_execution\<close> with this provider. The provider is called when the call requests a new
  Dispatch: the inputs were bound just before, so they always resolve.
\<close>

definition dispatch_turn :: "backend_env \<Rightarrow> string \<Rightarrow> pyobj list \<Rightarrow> string \<Rightarrow> string \<Rightarrow> dispatch_receipt backend_prog" where
  "dispatch_turn env x inputs key content =
    pbind (\<lambda>w. (Inr (with_store w (bk_memory (store w))), w)) (\<lambda>seen.
    pbind (plift (backend_registry env seen)) (\<lambda>g.
    pbind (in_core (get_dispatch_by_key key)) (\<lambda>before.
    pbind (attempt (in_core (dispatch_execution (be_hash env) g x inputs key))) (\<lambda>r.
    pbind (in_core (get_dispatch_by_key key)) (\<lambda>after.
    pseq (case (before, after) of
        (None, Some row) \<Rightarrow> in_memory (note_start env x (dp_id row) content)
      | _ \<Rightarrow> preturn ())
      (plift r))))))"

section \<open>Accepting a turn\<close>

definition no_identity :: exn where
  "no_identity = server_error ''IDEMPOTENCY_CONFLICT'' ''the accepted Turn carries no pre-created execution identity'' 409"

definition filed_identity :: "turn_row \<Rightarrow> exn + string \<times> string \<times> string" where
  "filed_identity t =
    (case (tn_key t, tn_work t, tn_exec t) of
       (Some key, Some work, Some x) \<Rightarrow> if blank key \<or> blank work \<or> blank x then Inl no_identity else Inr (key, work, x)
     | _ \<Rightarrow> Inl no_identity)"

definition turn_inputs :: "turn_ctx \<Rightarrow> exn + string \<Rightarrow> pyobj list memory_prog" where
  "turn_inputs ctx text =
    (case ctx of (t, s, p, ws) \<Rightarrow>
     pbind (bound_input workspace_id (''workspace-'' @ tn_id t) (workspace_value (ws_path ws))) (\<lambda>a.
     pbind (bound_input prompt_id (''prompt-'' @ tn_id t) (rbind text (\<lambda>content. prompt_value content (tn_input t)))) (\<lambda>b.
     pbind (bound_input profile_contract (''profile-'' @ tn_id t)
       (profile_value (tn_profile t) (pf_harness p) (tn_config t) (tn_revision t))) (\<lambda>c.
     preturn [a, b, c]))))"

definition register_turn :: "string \<Rightarrow> string \<Rightarrow> turn_ctx \<Rightarrow> unit memory_prog" where
  "register_turn x turn ctx =
    write_store (\<lambda>m. m\<lparr>mm_turns := AList.update x turn (mm_turns m), mm_contexts := AList.update turn ctx (mm_contexts m),
      mm_parts := AList.update turn [] (mm_parts m)\<rparr>)"

definition activate_run :: "string \<Rightarrow> run \<Rightarrow> unit memory_prog" where
  "activate_run turn run =
    write_store (\<lambda>m. m\<lparr>mm_active := AList.update turn run (mm_active m),
      mm_receipts := AList.delete turn (mm_receipts m), mm_workers := List.insert turn (mm_workers m)\<rparr>)"

text \<open>The body of the \<open>try\<close>: dispatch, record, activate.\<close>

definition run_turn :: "backend_env \<Rightarrow> string \<Rightarrow> pyobj list \<Rightarrow> string \<times> string \<times> string \<Rightarrow> string \<Rightarrow> unit backend_prog" where
  "run_turn env turn inputs identity content =
    (case identity of (key, work, x) \<Rightarrow>
     pbind (dispatch_turn env x inputs key content) (\<lambda>receipt.
     pbind (in_memory (fetch_row (\<lambda>m. map_of (mm_handles m) (dr_dispatch receipt)) (err KeyError (py_repr (dr_dispatch receipt))))) (\<lambda>handle.
     let run = handle\<lparr>rn_work := work\<rparr> in
     pseq (in_memory (write_store (\<lambda>m. m\<lparr>mm_handles := AList.update (dr_dispatch receipt) run (mm_handles m)\<rparr>)))
     (pseq (in_ledger (set_turn_dispatch turn work x (dr_dispatch receipt) ''running''))
       (in_memory (activate_run turn run))))))"

definition accept :: "backend_env \<Rightarrow> string \<Rightarrow> unit backend_prog" where
  "accept env turn =
    pbind (in_ledger (get_turn_context turn)) (\<lambda>ctx.
    pbind (plift (be_read env (tn_input (fst ctx)))) (\<lambda>stored.
    pbind (plift (message_of stored)) (\<lambda>message.
    pbind (plift (filed_identity (fst ctx))) (\<lambda>identity.
    let text = map_sum id py_str (field_json message ''text'') in
    pbind (in_memory (turn_inputs ctx text)) (\<lambda>inputs.
    pseq (in_memory (register_turn (snd (snd identity)) turn ctx))
    (try_catch (run_turn env turn inputs identity (case text of Inl e \<Rightarrow> [] | Inr c \<Rightarrow> c))
      (\<lambda>e. pseq (in_ledger (fail_turn (be_queue env) turn (safe_code e) ''failed''))
        (pseq (in_memory (release_values turn)) (praise e)))))))))"

section \<open>Native events\<close>

definition delta_text :: "(string \<times> json) list \<Rightarrow> string" where
  "delta_text data = (case map_of data ''text'' of None \<Rightarrow> [] | Some v \<Rightarrow> py_str v)"

definition add_part :: "string \<Rightarrow> string \<Rightarrow> unit memory_prog" where
  "add_part turn text = write_store (\<lambda>m. m\<lparr>mm_parts := AList.update turn
    ((case map_of (mm_parts m) turn of None \<Rightarrow> [] | Some ps \<Rightarrow> ps) @ [text]) (mm_parts m)\<rparr>)"

definition record_event :: "string \<Rightarrow> string \<Rightarrow> json \<Rightarrow> unit backend_prog" where
  "record_event turn kind data = pseq (in_ledger (append_turn_event turn kind data)) (preturn ())"

text \<open>\<open>register_approval\<close> of the port and the entry of \<open>_approval_ports\<close>.\<close>

definition approval_event :: "string \<Rightarrow> (string \<times> json) list \<Rightarrow> port \<Rightarrow> unit backend_prog" where
  "approval_event turn data port =
    pbind (in_ledger (get_turn_context turn)) (\<lambda>(t, s, p, ws).
    pbind (plift (dict_of (first_truthy [get_json data ''request'', JDict []]))) (\<lambda>raw.
    pbind (in_ledger (request_approval (tn_session t) turn raw)) (\<lambda>approval.
    pbind (plift (body_field approval ''approvalId'')) (\<lambda>i.
    pseq (case tn_parent t of
        Some (c # cs) \<Rightarrow> record_event (c # cs) ''approval.requested'' (JDict
          [(''approval_id'', i), (''version'', JInt 1), (''request'', JDict raw),
           (''from_subagent'', JDict [(''turnId'', JStr turn), (''sessionId'', JStr (tn_session t))])])
      | _ \<Rightarrow> preturn ())
    (if truthy (get_json raw ''requestId'')
       then in_memory (write_store (\<lambda>m. m\<lparr>mm_approvals := AList.update (py_str i) port (mm_approvals m)\<rparr>))
     else preturn ())))))"

definition bounded_member :: "(string \<times> json) list \<Rightarrow> string \<Rightarrow> nat \<Rightarrow> (string \<times> json) list" where
  "bounded_member data k limit =
    (if truthy (get_json data k) then [(k, JStr (take limit (py_str (get_json data k))))] else [])"

definition tool_event :: "(string \<times> json) list \<Rightarrow> json" where
  "tool_event data = JDict (
    [(''tool_call_id'', JStr (py_str (first_truthy [get_json data ''tool_call_id'', JStr ''tool'']))),
     (''tool'', get_json data ''tool''),
     (''state'', JStr (py_str (first_truthy [get_json data ''state'', JStr ''requested''])))]
    @ bounded_member data ''summary'' 512 @ bounded_member data ''result_excerpt'' 4096)"

definition native_event :: "string \<Rightarrow> string \<Rightarrow> (string \<times> json) list \<Rightarrow> port \<Rightarrow> unit backend_prog" where
  "native_event turn kind data port =
    (if kind = ''message.delta'' then
       (if delta_text data = [] then preturn ()
        else pseq (record_event turn kind (JDict [(''text'', JStr (delta_text data))])) (in_memory (add_part turn (delta_text data))))
     else if kind = ''approval.requested'' then approval_event turn data port
     else if kind = ''failed'' then
       record_event turn ''tool.update'' (JDict [(''state'', JStr ''failed''), (''tool_call_id'', JStr ''harness''), (''tool'', JNull),
         (''summary'', JStr (py_str (first_truthy [get_json data ''code'', JStr ''HARNESS_FAILED''])))])
     else if kind = ''thought.delta'' then
       (let text = py_str (first_truthy [get_json data ''text'', JStr []]) in
        if text = [] then preturn () else record_event turn ''thought.delta'' (JDict [(''text'', JStr text)]))
     else if kind = ''tool.update'' then record_event turn ''tool.update'' (tool_event data)
     else if kind = ''plan.updated'' then
       record_event turn ''plan.updated'' (JDict [(''entries'', (case get_json data ''entries'' of JList xs \<Rightarrow> JList xs | _ \<Rightarrow> JList []))])
     else if kind = ''mode.updated'' then
       record_event turn ''mode.updated''
         (JDict [(''currentModeId'', JStr (py_str (first_truthy [get_json data ''currentModeId'', JStr []])))])
     else preturn ())"

section \<open>Completing a run\<close>

definition finalize_run :: "backend_env \<Rightarrow> run \<Rightarrow> string \<Rightarrow> outcome \<Rightarrow> bool \<Rightarrow> ref list \<Rightarrow> unit core_prog" where
  "finalize_run env run key outcome resume native =
    pbind now_utc (\<lambda>t.
    pbind (plift (mk_projection Phase_terminal (Some outcome) (Some resume) Observed t)) (\<lambda>p.
    pbind (plift (mk_fin_request \<lparr>q_exec = rn_exec run, q_key = key @ rn_turn run, q_projection = p, q_native = native,
      q_output = [], q_observations = []\<rparr>)) (\<lambda>q.
    pseq (apply_finalization (be_hash env) q) (preturn ()))))"

definition harness_name :: "string \<Rightarrow> string memory_prog" where
  "harness_name turn =
    pbind (fetch_row (\<lambda>m. map_of (mm_contexts m) turn) (err KeyError (py_repr turn))) (\<lambda>(t, s, p, ws).
      preturn (pf_harness p))"

definition audited_manifest :: "backend_env \<Rightarrow> run \<Rightarrow> (audit \<times> bool \<times> string) backend_prog" where
  "audited_manifest env run =
    pbind (plift (pt_capture (rn_port run))) (\<lambda>(a, supported).
    pbind (in_memory (harness_name (rn_turn run))) (\<lambda>harness_type.
    pbind (plift (be_publish env (manifest run harness_type a supported))) (\<lambda>checkpoint.
    preturn (a, resumable (rn_port run) supported a, checkpoint))))"

definition is_cancelled :: "run \<Rightarrow> bool \<Rightarrow> bool" where
  "is_cancelled run confirmed \<longleftrightarrow>
    confirmed \<or> (case rn_result run of Inr r \<Rightarrow> terminal_reason r = Some ''cancelled'' | Inl e \<Rightarrow> False)"

definition finish_stopped :: "backend_env \<Rightarrow> run \<Rightarrow> unit backend_prog" where
  "finish_stopped env run =
    pseq (in_core (finalize_run env run ''turn-terminal:'' outcome.Cancelled False []))
    (pbind (attempt (audited_manifest env run)) (\<lambda>r.
     pseq (in_ledger (case r of
         Inl e \<Rightarrow> finish_cancelled (be_queue env) (rn_turn run) None None None None None
       | Inr (a, resume, checkpoint) \<Rightarrow> finish_cancelled (be_queue env) (rn_turn run) None (Some checkpoint)
           (Some (rn_native run)) (au_platform a) (au_home a)))
     (pseq (in_core (complete_work (rn_work run) ''Turn cancelled through Harness sidecar'')) (preturn ()))))"

definition run_failed :: exn where
  "run_failed = sidecar_error ''SidecarError'' ''HARNESS_RUN_FAILED'' ''native agent reported an error''"

definition result_json :: "string \<Rightarrow> json \<Rightarrow> json" where
  "result_json text result = JDict [(''schema_version'', JInt 1), (''text'', JStr text),
    (''nativeResult'', first_truthy [result, JDict []])]"

definition change_set_digest :: "backend_env \<Rightarrow> run \<Rightarrow> exn + string option" where
  "change_set_digest env run =
    (case pt_changes (rn_port run) of
       Inr (Some changes) \<Rightarrow> map_sum id Some (be_publish env (JDict [(''schema_version'', JInt 1), (''changeSet'', changes)]))
     | _ \<Rightarrow> Inr None)"

text \<open>The answer of a run that was not stopped: its successor in the queue.\<close>

definition finish_answered :: "backend_env \<Rightarrow> run \<Rightarrow> string option backend_prog" where
  "finish_answered env run =
    pbind (plift (rn_result run)) (\<lambda>result.
    if terminal_reason result = Some ''error'' then praise run_failed
    else
      pbind (in_memory (read_store (\<lambda>m. concat (case map_of (mm_parts m) (rn_turn run) of None \<Rightarrow> [] | Some ps \<Rightarrow> ps)))) (\<lambda>text.
      pbind (audited_manifest env run) (\<lambda>(a, resume, checkpoint).
      pbind (plift (be_publish env (result_json text result))) (\<lambda>object.
      pseq (in_ledger (append_turn_event (rn_turn run) ''message.final'' (JDict [(''text'', JStr text)])))
      (pbind (plift (mk_ref Session_ref provider_name (rn_native run) None [])) (\<lambda>native.
       pseq (in_core (finalize_run env run ''turn-finalize:'' outcome.Succeeded resume [native]))
       (pbind (plift (change_set_digest env run)) (\<lambda>changes.
        pbind (in_ledger (complete_turn (be_config env) (be_queue env) (rn_turn run) checkpoint (rn_native run) object
          (au_platform a) (au_home a) (fst (usage_fact (rn_port run))) (snd (usage_fact (rn_port run))) changes
          (terminal_reason result))) (\<lambda>(row, event, next). preturn next)))))))))"

definition record_failure :: "backend_env \<Rightarrow> run \<Rightarrow> exn \<Rightarrow> unit backend_prog" where
  "record_failure env run e =
    pseq (in_ledger (if safe_code e = ''TURN_CANCELLED''
        then finish_cancelled (be_queue env) (rn_turn run) None None None None None
        else fail_turn (be_queue env) (rn_turn run) (safe_code e) ''failed''))
      (preturn ())"

text \<open>The \<open>try\<close> and the \<open>except\<close>: the successor stays known when only the Work could not be completed.\<close>

definition finish_run :: "backend_env \<Rightarrow> run \<Rightarrow> bool \<Rightarrow> string option backend_prog" where
  "finish_run env run confirmed =
    (if is_cancelled run confirmed then
       pbind (attempt (finish_stopped env run)) (\<lambda>r.
       case r of Inl e \<Rightarrow> pseq (record_failure env run e) (preturn None) | Inr u \<Rightarrow> preturn None)
     else
       pbind (attempt (finish_answered env run)) (\<lambda>r.
       case r of
         Inl e \<Rightarrow> pseq (record_failure env run e) (preturn None)
       | Inr next \<Rightarrow>
           pbind (attempt (in_core (complete_work (rn_work run) ''Turn completed through Harness sidecar''))) (\<lambda>q.
           case q of Inl e \<Rightarrow> pseq (record_failure env run e) (preturn next) | Inr u \<Rightarrow> preturn next)))"

definition retire_run :: "run \<Rightarrow> unit memory_prog" where
  "retire_run run =
    pseq (write_store (\<lambda>m. m\<lparr>mm_active := AList.delete (rn_turn run) (mm_active m),
      mm_contexts := AList.delete (rn_turn run) (mm_contexts m), mm_parts := AList.delete (rn_turn run) (mm_parts m),
      mm_turns := AList.delete (rn_exec run) (mm_turns m),
      mm_approvals := filter (\<lambda>(k, p). pt_id p \<noteq> pt_id (rn_port run)) (mm_approvals m)\<rparr>))
    (pseq (release_values (rn_turn run))
      (write_store (\<lambda>m. m\<lparr>mm_handles := AList.delete (rn_dispatch run) (mm_handles m)\<rparr>)))"

text \<open>The \<open>finally\<close>.\<close>

definition clean_up :: "backend_env \<Rightarrow> run \<Rightarrow> unit backend_prog" where
  "clean_up env run =
    pbind (raised (in_ledger (invalidate_for_execution (rn_turn run) ''execution_terminal''))) (\<lambda>stale.
    pbind (raised (plift (pt_close (rn_port run)))) (\<lambda>unclosed.
    pbind (raised (in_ledger (mark_turn_cleanup (rn_turn run) (if stale \<or> unclosed then ''failed'' else ''cleaned'')))) (\<lambda>unmarked.
    pseq (if unmarked then swallow (in_ledger (mark_turn_cleanup (rn_turn run) ''failed'')) else preturn ())
      (in_memory (retire_run run)))))"

definition settle_run :: "backend_env \<Rightarrow> run \<Rightarrow> bool \<Rightarrow> string option backend_prog" where
  "settle_run env run confirmed = finally_do (finish_run env run confirmed) (clean_up env run)"

definition complete_run :: "backend_env \<Rightarrow> run \<Rightarrow> bool \<Rightarrow> unit backend_prog" where
  "complete_run env run confirmed =
    pbind (settle_run env run confirmed) (\<lambda>next.
    case next of None \<Rightarrow> preturn () | Some turn \<Rightarrow> swallow (accept env turn))"

definition complete_then_retire :: "backend_env \<Rightarrow> run \<Rightarrow> bool \<Rightarrow> unit backend_prog" where
  "complete_then_retire env run confirmed =
    finally_do (complete_run env run confirmed)
      (in_memory (pseq (gate_release (rn_hold run))
        (write_store (\<lambda>m. m\<lparr>mm_workers := removeAll (rn_turn run) (mm_workers m)\<rparr>))))"

end
