(* ===== verification/Backend_Laws.thy ===== *)
theory Backend_Laws
  imports Turn_Backend Ledger_Runs Core_Laws
begin

text \<open>
  What the programs of the back end leave alone. A turn becomes completed by \<open>complete_turn\<close> only, and
  \<open>complete_turn\<close> runs after a finalization of the Core Execution that returned: the invariant \<open>settling\<close>
  says that the Execution is either not finalized yet, with the turn not completed, or it succeeded.
\<close>

section \<open>Completed turns\<close>

definition turn_in :: "string set \<Rightarrow> string \<Rightarrow> ledger \<Rightarrow> bool" where
  "turn_in states i d \<longleftrightarrow> (case find_turn d i of None \<Rightarrow> False | Some t \<Rightarrow> tn_state t \<in> states)"

definition completed_turn :: "ledger \<Rightarrow> string \<Rightarrow> bool" where
  "completed_turn d i \<longleftrightarrow> turn_in {''completed''} i d"

definition ended_turn :: "string \<Rightarrow> ledger \<Rightarrow> bool" where
  "ended_turn i d \<longleftrightarrow> turn_in (set terminal_states) i d"

lemma update_turns_find:
  assumes "update_turns (\<lambda>r. tn_id r = x) f d = Inr (u, d')" "\<And>r. tn_id (f r) = tn_id r"
  shows "find_turn d' i = map_option (\<lambda>r. if tn_id r = x then f r else r) (find_turn d i)"
  using assms by (auto simp: update_turns_def find_turn_def find_update_where split: if_splits)

definition no_completion :: "string \<Rightarrow> ledger \<Rightarrow> ledger \<Rightarrow> bool" where
  "no_completion i d d' \<longleftrightarrow> (completed_turn d' i \<longrightarrow> completed_turn d i)"

interpretation no_completion: evolution "no_completion i" for i
  by unfold_locales (auto simp: no_completion_def)

lemma same_no_completion: "within (\<lambda>d d'. l_turns d' = l_turns d) m \<Longrightarrow> within (no_completion i) m"
  by (simp add: within_def no_completion_def completed_turn_def turn_in_def find_turn_def)

lemma queue_same:
  "within (\<lambda>d d'. l_turns d' = l_turns d) (exec_sql (update_items p f))"
  "within (\<lambda>d d'. l_turns d' = l_turns d) (exec_sql (update_approvals pa fa))"
  by (rule turns_same.within_exec_sql; auto simp: update_items_def update_approvals_def split: if_splits)+

lemma updated_same: "within (\<lambda>d d'. l_turns d' = l_turns d) (append_updated i)"
  unfolding append_updated_def by (intro turns_same.within_intros append_event_same)

lemma settle_queue_same: "within (\<lambda>d d'. l_turns d' = l_turns d) (settle_queue q row st why)"
  unfolding settle_queue_def mark_terminal_def pause_pending_def pause_item_def read_item_def
  by (intro turns_same.within_intros turns_same.within_branch queue_same updated_same)

lemma invalidate_same: "within (\<lambda>d d'. l_turns d' = l_turns d) (invalidate p)"
  unfolding invalidate_def by (intro turns_same.within_intros queue_same)

lemmas completion_same = append_event_same(1) settle_same settle_queue_same invalidate_same

lemma update_turn_no_completion:
  assumes "\<And>r. tn_id (f r) = tn_id r" "\<And>r. tn_state (f r) = ''completed'' \<Longrightarrow> tn_state r = ''completed''"
  shows "within (no_completion i) (update_turn x f)"
proof -
  have "within (no_completion i) (exec_sql (update_turns (\<lambda>r. tn_id r = x) f))"
  proof (rule no_completion.within_exec_sql)
    fix d u d' assume "update_turns (\<lambda>r. tn_id r = x) f d = Inr (u, d')"
    from update_turns_find [OF this assms(1), of i] show "no_completion i d d'"
      by (auto simp: no_completion_def completed_turn_def turn_in_def assms(2) split: option.splits if_splits dest: assms(2))
  qed
  then show ?thesis
    unfolding update_turn_def by (intro no_completion.within_pseq no_completion.within_preturn)
qed

lemmas completion_intros = no_completion.within_intros no_completion.within_branch
  completion_same [THEN same_no_completion]

lemma no_completion_ends:
  "within (no_completion i) (append_turn_event x kind data)"
  "within (no_completion i) (mark_turn_cleanup x st)"
  "within (no_completion i) (finish_cancelled q x reason cp nt pl hm)"
  "within (no_completion i) (fail_turn q x code cap)"
  "within (no_completion i) (invalidate_for_execution x why)"
  unfolding append_turn_event_def mark_turn_cleanup_def finish_cancelled_def fail_turn_def
    invalidate_for_execution_def invalidate_one_def Let_def
  by (intro completion_intros update_turn_no_completion; simp split: if_splits)+

section \<open>Programs on one part\<close>

lemma other_parts:
  "within (\<lambda>a b. bk_ledger b = bk_ledger a \<and> bk_memory b = bk_memory a) (in_core m)"
  "within (\<lambda>a b. bk_core b = bk_core a \<and> bk_memory b = bk_memory a) (in_ledger m')"
  "within (\<lambda>a b. bk_core b = bk_core a \<and> bk_ledger b = bk_ledger a) (in_memory m'')"
  by (auto simp: within_def in_core_def in_ledger_def in_memory_def zoom_def split: prod.splits)

lemma in_core_run: "in_core m w = (r, w') \<Longrightarrow>
    m (with_store w (bk_core (store w))) = (r, with_store w' (bk_core (store w'))) \<and>
    bk_ledger (store w') = bk_ledger (store w) \<and> bk_memory (store w') = bk_memory (store w)"
  using core_part.zoom_part [of m w r w'] withinD [OF other_parts(1), of m w r w'] by (simp add: in_core_def)

lemma in_ledger_run: "in_ledger m w = (r, w') \<Longrightarrow>
    m (with_store w (bk_ledger (store w))) = (r, with_store w' (bk_ledger (store w'))) \<and>
    bk_core (store w') = bk_core (store w) \<and> bk_memory (store w') = bk_memory (store w)"
  using ledger_part.zoom_part [of m w r w'] withinD [OF other_parts(2), of m w r w'] by (simp add: in_ledger_def)

lemma in_memory_run: "in_memory m w = (r, w') \<Longrightarrow>
    m (with_store w (bk_memory (store w))) = (r, with_store w' (bk_memory (store w'))) \<and>
    bk_core (store w') = bk_core (store w) \<and> bk_ledger (store w') = bk_ledger (store w)"
  using memory_part.zoom_part [of m w r w'] withinD [OF other_parts(3), of m w r w'] by (simp add: in_memory_def)

section \<open>The invariant of a completion\<close>

definition core_succeeded :: "core_db \<Rightarrow> string \<Rightarrow> bool" where
  "core_succeeded d x \<longleftrightarrow> (case find_exec d x of None \<Rightarrow> False
     | Some e \<Rightarrow> terminal (x_projection e) \<and> p_outcome (x_projection e) = Some outcome.Succeeded)"

definition settled :: "run \<Rightarrow> backend \<Rightarrow> bool" where
  "settled run b \<longleftrightarrow> db_ok (bk_core b) \<and> core_succeeded (bk_core b) (rn_exec run)"

definition settling :: "run \<Rightarrow> backend \<Rightarrow> bool" where
  "settling run b \<longleftrightarrow> settled run b \<or> db_ok (bk_core b) \<and>
     finalization_of_exec (bk_core b) (rn_exec run) = None \<and> \<not> completed_turn (bk_ledger b) (rn_turn run)"

lemma succeeded_steps: "steps d d' \<Longrightarrow> db_ok d \<Longrightarrow> core_succeeded d x \<Longrightarrow> core_succeeded d' x"
  by (auto simp: core_succeeded_def steps_def exec_evolves_def split: option.splits dest!: exec_persists)

lemma keeps_settled:
  "within steps m \<Longrightarrow> within (keeps (settled run)) (in_core m)"
  "within (keeps (settled run)) (in_ledger m')"
  "within (keeps (settled run)) (in_memory m'')"
  by (rule withinI; auto simp: keeps_def settled_def dest!: in_core_run in_ledger_run in_memory_run withinD
      intro: succeeded_steps; fastforce simp: steps_def)+

lemma keeps_settling:
  "within (no_completion (rn_turn run)) m' \<Longrightarrow> within (keeps (settling run)) (in_ledger m')"
  "within (keeps (settling run)) (in_memory m'')"
  by (rule withinI; auto simp: keeps_def settling_def settled_def no_completion_def
      dest!: in_ledger_run in_memory_run withinD)+

lemma settled_settling: "settled run b \<Longrightarrow> settling run b"
  by (simp add: settling_def)

lemma keeps_pseq_reached:
  assumes m: "within (keeps I) m" "\<And>w x w'. I (store w) \<Longrightarrow> m w = (Inr x, w') \<Longrightarrow> S (store w')"
    and k: "within (keeps S) k" "\<And>d. S d \<Longrightarrow> I d"
  shows "within (keeps I) (pseq m k)"
proof (rule withinI)
  fix w r w' assume run: "pseq m k w = (r, w')"
  obtain q v where mw: "m w = (q, v)" by fastforce
  show "keeps I (store w) (store w')"
  proof (cases q)
    case (Inl e)
    with run mw withinD [OF m(1) mw] show ?thesis by (auto simp: pseq_def pbind_def)
  next
    case (Inr x)
    with run mw have kx: "k v = (r, w')" by (simp add: pseq_def pbind_def)
    from withinD [OF k(1) kx] m(2) mw Inr k(2) show ?thesis by (auto simp: keeps_def)
  qed
qed

text \<open>The request of a run, when it could be built.\<close>

lemma finalize_run_reached:
  assumes "finalize_run env run key out resume native w = (r, w')"
  obtains (unbuilt) e where "r = Inl e" "store w' = store w"
  | (applied) t v r' where "store v = store w"
    "apply_finalization (be_hash env) \<lparr>q_exec = rn_exec run, q_key = key @ rn_turn run,
       q_projection = \<lparr>p_phase = Phase_terminal, p_outcome = Some out, p_resumable = Some resume, p_freshness = Observed,
         p_observed_at = t\<rparr>, q_native = native, q_output = [], q_observations = []\<rparr> v = (r', w')"
    "r = map_sum id (\<lambda>_. ()) r'"
proof -
  obtain t v where t: "now_utc w = (Inr t, v)" "store v = store w" by (auto simp: now_utc_def)
  let ?p = "\<lparr>p_phase = Phase_terminal, p_outcome = Some out, p_resumable = Some resume, p_freshness = Observed,
      p_observed_at = t\<rparr>"
  let ?q = "\<lparr>q_exec = rn_exec run, q_key = key @ rn_turn run, q_projection = ?p, q_native = native, q_output = [],
      q_observations = []\<rparr>"
  obtain r' u where ap: "apply_finalization (be_hash env) ?q v = (r', u)" by fastforce
  show thesis
  proof (cases "mk_fin_request ?q")
    case (Inl e)
    with assms t show thesis
      by (intro unbuilt [of e]) (auto simp: finalize_run_def pbind_def mk_projection_def plift_def)
  next
    case (Inr q)
    then have "q = ?q" by (auto simp: mk_fin_request_def split: if_splits)
    with assms t ap Inr show thesis
      by (intro applied [of v t r'])
        (auto simp: finalize_run_def pbind_def pseq_def preturn_def mk_projection_def plift_def split: sum.splits)
  qed
qed

lemma steps_finalize_run: "within steps (finalize_run env run key out resume native)"
proof (rule withinI)
  fix w r w' assume "finalize_run env run key out resume native w = (r, w')"
  then show "steps (store w) (store w')"
  proof (cases rule: finalize_run_reached)
    case unbuilt
    then show ?thesis by (simp add: core.R_refl)
  next
    case (applied t v r')
    from withinD [OF steps_apply_finalization applied(2)] applied(1) show ?thesis
      by (simp add: terminal_def projection_ok_def)
  qed
qed

lemma finalize_run_succeeds:
  assumes ok: "db_ok (store w)" and fresh: "finalization_of_exec (store w) (rn_exec run) = None"
    and run: "finalize_run env run key outcome.Succeeded resume native w = (r, w')"
  shows "case r of Inl e \<Rightarrow> store w' = store w | Inr u \<Rightarrow> core_succeeded (store w') (rn_exec run)"
  using run
proof (cases rule: finalize_run_reached)
  case unbuilt
  then show ?thesis by simp
next
  case (applied t v r')
  show ?thesis
  proof (cases r')
    case (Inl e)
    with applied raises_cleanD [OF clean_apply_finalization _ applied(2) [unfolded Inl]] ok show ?thesis by simp
  next
    case (Inr rc)
    with applied apply_finalization_first [OF _ _ applied(2) [unfolded Inr]] ok fresh show ?thesis
      by (auto simp: finalized_def core_succeeded_def terminal_def)
  qed
qed

lemma finalize_settles:
  assumes "settling run (store w)" "in_core (finalize_run env run key outcome.Succeeded resume native) w = (r, w')"
  shows "settling run (store w')" and "r = Inr u \<Longrightarrow> settled run (store w')"
proof -
  from in_core_run [OF assms(2)] have run: "finalize_run env run key outcome.Succeeded resume native
      (with_store w (bk_core (store w))) = (r, with_store w' (bk_core (store w')))"
    and same: "bk_ledger (store w') = bk_ledger (store w)" by simp_all
  have st: "steps (bk_core (store w)) (bk_core (store w'))"
    using withinD [OF steps_finalize_run run] by simp
  have "settling run (store w') \<and> (r = Inr u \<longrightarrow> settled run (store w'))"
  proof (cases "settled run (store w)")
    case True
    with st have "settled run (store w')" by (auto simp: settled_def steps_def intro: succeeded_steps [OF st])
    then show ?thesis by (simp add: settled_settling)
  next
    case False
    with assms(1) have pre: "db_ok (bk_core (store w))" "finalization_of_exec (bk_core (store w)) (rn_exec run) = None"
      "\<not> completed_turn (bk_ledger (store w)) (rn_turn run)" by (auto simp: settling_def)
    from finalize_run_succeeds [OF _ _ run] pre have
      "case r of Inl e \<Rightarrow> bk_core (store w') = bk_core (store w) | Inr u \<Rightarrow> core_succeeded (bk_core (store w')) (rn_exec run)"
      by (cases r) simp_all
    with pre st same show ?thesis by (cases r) (auto simp: settling_def settled_def steps_def)
  qed
  then show "settling run (store w')" and "r = Inr u \<Longrightarrow> settled run (store w')" by auto
qed

lemmas keeping_intros = keeping.within_basic keeping.within_pbind keeping.within_pseq keeping.within_branch
  keeping.within_attempt keeping.within_swallow keeping.within_raised

lemma finalize_run_settling:
  "within (keeps (settling run)) (in_core (finalize_run env run key outcome.Succeeded resume native))"
  by (rule withinI) (auto simp: keeps_def dest: finalize_settles(1))

lemma settled_then_complete: "within (keeps (settled run)) k \<Longrightarrow>
    within (keeps (settling run)) (pseq (in_core (finalize_run env run key outcome.Succeeded resume native)) k)"
  by (rule keeps_pseq_reached [where S = "settled run"])
    (auto intro: finalize_run_settling settled_settling finalize_settles(2))

lemma audited_manifest_settling: "within (keeps (settling run)) (audited_manifest env run')"
  unfolding audited_manifest_def by (intro keeping_intros keeps_settling)

lemma finish_answered_settling: "within (keeps (settling run)) (finish_answered env run)"
  unfolding finish_answered_def
  by (intro keeping.within_basic keeping.within_pbind keeping.within_branch audited_manifest_settling
      keeping.within_pseq [of "settling run" "in_ledger m" for m] settled_then_complete keeps_settling keeps_settled
      no_completion_ends)

lemma core_settling:
  assumes "within steps m" "within unsealing m"
  shows "within (keeps (settling run)) (in_core m)"
proof (rule withinI)
  fix w r w' assume "in_core m w = (r, w')"
  then have c: "m (with_store w (bk_core (store w))) = (r, with_store w' (bk_core (store w')))"
    and same: "bk_ledger (store w') = bk_ledger (store w)" by (auto dest: in_core_run)
  have "steps (bk_core (store w)) (bk_core (store w'))" "unsealing (bk_core (store w)) (bk_core (store w'))"
    using withinD [OF assms(1) c] withinD [OF assms(2) c] by simp_all
  with same show "keeps (settling run) (store w) (store w')"
    by (auto simp: keeps_def settling_def settled_def unsealing_def finalization_of_exec_def steps_def
        intro: succeeded_steps)
qed

lemma complete_work_settling: "within (keeps (settling run)) (in_core (complete_work i why))"
  by (rule core_settling [OF steps_complete_work unsealing_service(2)])

lemma record_failure_settling: "within (keeps (settling run)) (record_failure env run e)"
  unfolding record_failure_def
  by (intro keeping_intros keeps_settling no_completion.within_if no_completion_ends)

lemma finish_run_settling: "\<not> is_cancelled run confirmed \<Longrightarrow> within (keeps (settling run)) (finish_run env run confirmed)"
  unfolding finish_run_def
  by (simp, intro keeping_intros finish_answered_settling complete_work_settling record_failure_settling)

definition uncompleted :: "run \<Rightarrow> backend \<Rightarrow> bool" where
  "uncompleted run b \<longleftrightarrow> \<not> completed_turn (bk_ledger b) (rn_turn run)"

lemma keeps_uncompleted:
  "within (keeps (uncompleted run)) (in_core m)"
  "within (no_completion (rn_turn run)) m' \<Longrightarrow> within (keeps (uncompleted run)) (in_ledger m')"
  "within (keeps (uncompleted run)) (in_memory m'')"
  by (rule withinI; auto simp: keeps_def uncompleted_def no_completion_def
      dest!: in_core_run in_ledger_run in_memory_run withinD)+

lemma finish_run_stopped: "is_cancelled run confirmed \<Longrightarrow> within (keeps (uncompleted run)) (finish_run env run confirmed)"
  unfolding finish_run_def finish_stopped_def audited_manifest_def record_failure_def
  by (simp, intro keeping_intros keeps_uncompleted no_completion.within_branch no_completion_ends)

lemmas clean_up_parts = clean_up_def retire_run_def release_values_def

lemma clean_up_keeps:
  "within (keeps (settling run)) (clean_up env run)" "within (keeps (uncompleted run)) (clean_up env run)"
  unfolding clean_up_def
  by (intro keeping_intros keeps_settling keeps_uncompleted no_completion_ends)+

lemma settle_run_keeps:
  "\<not> is_cancelled run confirmed \<Longrightarrow> within (keeps (settling run)) (settle_run env run confirmed)"
  "is_cancelled run confirmed \<Longrightarrow> within (keeps (uncompleted run)) (settle_run env run confirmed)"
  unfolding settle_run_def finally_do_def
  by (intro keeping_intros finish_run_settling finish_run_stopped clean_up_keeps; assumption)+

text \<open>Adopting the successor keeps what holds of the run that completed.\<close>

lemma set_dispatch_no_completion:
  "st \<noteq> ''completed'' \<Longrightarrow> within (no_completion i) (set_turn_dispatch x work exec dispatch st)"
  unfolding set_turn_dispatch_def by (intro completion_intros update_turn_no_completion; simp)


lemma get_by_key_settling: "within (keeps (settling run)) (in_core (get_dispatch_by_key key))"
  by (rule core_settling) (auto intro: core.within_read_only unsealing.within_read_only reads)

lemma dispatch_turn_keeps:
  "within (keeps (settling run)) (dispatch_turn env x inputs key content)"
  "within (keeps (uncompleted run)) (dispatch_turn env x inputs key content)"
proof -
  have look: "within (keeps I) (\<lambda>w. (Inr (with_store w (bk_memory (store w))), w))" for I
    by (simp add: within_def keeps_def)
  show "within (keeps (settling run)) (dispatch_turn env x inputs key content)"
    unfolding dispatch_turn_def
    by (intro keeping_intros look get_by_key_settling core_settling [OF steps_dispatch_execution unsealing_dispatch]
        keeps_settling)
  show "within (keeps (uncompleted run)) (dispatch_turn env x inputs key content)"
    unfolding dispatch_turn_def by (intro keeping_intros look keeps_uncompleted)
qed

lemma accept_ledger_steps:
  "within (no_completion i) (get_turn_context turn)"
  "within (no_completion i) (set_turn_dispatch turn work exec dispatch ''running'')"
  unfolding get_turn_context_def
  by (intro no_completion.within_basic, rule set_dispatch_no_completion) simp

lemma accept_keeps:
  "within (keeps (settling run)) (accept env turn)" "within (keeps (uncompleted run)) (accept env turn)"
  unfolding accept_def run_turn_def Let_def
  by (intro keeping_intros keeping.within_try_catch dispatch_turn_keeps keeps_settling keeps_uncompleted
      no_completion_ends accept_ledger_steps)+

lemma complete_then_retire_keeps:
  "\<not> is_cancelled run confirmed \<Longrightarrow> within (keeps (settling run)) (complete_then_retire env run confirmed)"
  "is_cancelled run confirmed \<Longrightarrow> within (keeps (uncompleted run)) (complete_then_retire env run confirmed)"
  unfolding complete_then_retire_def complete_run_def finally_do_def
  by (intro keeping_intros settle_run_keeps accept_keeps keeps_settling keeps_uncompleted; assumption)+

section \<open>The end of a turn\<close>

lemma same_turn_in: "within (\<lambda>d d'. l_turns d' = l_turns d) m \<Longrightarrow> within (keeps (turn_in S i)) m"
  by (simp add: within_def keeps_def turn_in_def find_turn_def)

lemma update_turn_Inr:
  assumes "update_turn x f w = (Inr u, w')" "\<And>r. tn_id (f r) = tn_id r"
  shows "find_turn (store w') i = map_option (\<lambda>r. if tn_id r = x then f r else r) (find_turn (store w) i)"
  using assms(1) update_turns_find [of x f "store w" _ _ i] assms(2) by (auto simp: update_turn_def run_iffs)

lemmas ended_intros = keeping.within_intros keeping.within_branch completion_same [THEN same_turn_in]

lemma cleanup_turn_in:
  "within (keeps (turn_in S i)) (mark_turn_cleanup x st)"
  "within (keeps (turn_in S i)) (invalidate_for_execution x why)"
proof -
  have "within (keeps (turn_in S i)) (exec_sql (update_turns (\<lambda>r. tn_id r = x) (\<lambda>r. r\<lparr>tn_cleanup := st, tn_updated := t\<rparr>)))"
    for t
  proof (rule keeping.within_exec_sql)
    fix d u d' assume "update_turns (\<lambda>r. tn_id r = x) (\<lambda>r. r\<lparr>tn_cleanup := st, tn_updated := t\<rparr>) d = Inr (u, d')"
    from update_turns_find [OF this, of i] show "keeps (turn_in S i) d d'"
      by (auto simp: keeps_def turn_in_def split: option.splits if_splits)
  qed
  then show "within (keeps (turn_in S i)) (mark_turn_cleanup x st)"
    unfolding mark_turn_cleanup_def update_turn_def by (intro ended_intros)
  show "within (keeps (turn_in S i)) (invalidate_for_execution x why)"
    unfolding invalidate_for_execution_def invalidate_one_def by (intro ended_intros)
qed

text \<open>A program that found the turn, wrote an end into it and then left the turns alone.\<close>

lemma update_then_ended:
  assumes "find_turn (store w) i = Some row" "pseq (update_turn i f) k w = (Inr x, w')"
    and "within (keeps (turn_in (set terminal_states) i)) k" "\<And>r. tn_id (f r) = tn_id r" "tn_state (f row) \<in> set terminal_states"
  shows "ended_turn i (store w')"
proof -
  from assms(2) obtain v where u: "update_turn i f w = (Inr (), v)" and k: "k v = (Inr x, w')"
    by (auto simp: run_iffs)
  from assms(1) have "tn_id row = i" by (auto simp: find_turn_def find_Some_iff)
  with update_turn_Inr [OF u assms(4), of i] assms(1,5) have "ended_turn i (store v)"
    by (simp add: ended_turn_def turn_in_def)
  with withinD [OF assms(3) k] show ?thesis by (simp add: keeps_def ended_turn_def)
qed

lemma fail_turn_ended:
  assumes "fail_turn q i code cap w = (Inr x, w')"
  shows "ended_turn i (store w')"
proof -
  from assms obtain row where row: "find_turn (store w) i = Some row"
    by (auto simp: fail_turn_def run_iffs)
  show ?thesis
  proof (cases "tn_state row \<in> set terminal_states")
    case True
    with assms row show ?thesis by (auto simp: fail_turn_def run_iffs ended_turn_def turn_in_def)
  next
    case False
    with assms row show ?thesis
      unfolding fail_turn_def Let_def
      by (auto simp: run_iffs(1-12) pbind_Inr fetch_row_Inr now_utc_Inr transaction_Inr simp del: pseq_Inr
          elim!: update_then_ended [rotated] intro!: ended_intros simp: terminal_states_def)
  qed
qed

lemma finish_cancelled_ended:
  assumes "finish_cancelled q i reason cp nt pl hm w = (Inr x, w')"
  shows "ended_turn i (store w')"
proof -
  from assms obtain row where row: "find_turn (store w) i = Some row"
    by (auto simp: finish_cancelled_def run_iffs)
  show ?thesis
  proof (cases "tn_state row \<in> set terminal_states")
    case True
    with assms row show ?thesis by (auto simp: finish_cancelled_def run_iffs ended_turn_def turn_in_def)
  next
    case False
    with assms row show ?thesis
      unfolding finish_cancelled_def
      by (auto simp: pbind_Inr fetch_row_Inr now_utc_Inr transaction_Inr simp del: pseq_Inr
          elim!: update_then_ended [rotated] intro!: ended_intros simp: terminal_states_def)
  qed
qed

lemma record_failure_ends:
  assumes "record_failure env run e w = (Inr u, w')"
  shows "ended_turn (rn_turn run) (bk_ledger (store w'))"
proof -
  from assms obtain y where "in_ledger (if safe_code e = ''TURN_CANCELLED''
      then finish_cancelled (be_queue env) (rn_turn run) None None None None None
      else fail_turn (be_queue env) (rn_turn run) (safe_code e) ''failed'') w = (Inr y, w')"
    by (auto simp: record_failure_def run_iffs)
  from in_ledger_run [OF this] show ?thesis
    by (auto dest: fail_turn_ended finish_cancelled_ended split: if_splits)
qed

lemma record_failure_core: "record_failure env run e w = (r, w') \<Longrightarrow> bk_core (store w') = bk_core (store w)"
  by (auto simp: record_failure_def pseq_def pbind_def preturn_def split: prod.splits sum.splits dest!: in_ledger_run)

text \<open>Closing a run ends nothing and writes nothing into the Work Core.\<close>

definition core_and_turn :: "string set \<Rightarrow> string \<Rightarrow> backend \<Rightarrow> backend \<Rightarrow> bool" where
  "core_and_turn S i b b' \<longleftrightarrow> bk_core b' = bk_core b \<and> keeps (turn_in S i) (bk_ledger b) (bk_ledger b')"

interpretation core_and_turn: evolution "core_and_turn S i" for S i
  by unfold_locales (auto simp: core_and_turn_def keeps_def)

lemma core_and_turn_parts:
  "within (keeps (turn_in S i)) m \<Longrightarrow> within (core_and_turn S i) (in_ledger m)"
  "within (core_and_turn S i) (in_memory m')"
  by (rule withinI; auto simp: core_and_turn_def keeps_def dest!: in_ledger_run in_memory_run withinD)+

lemma clean_up_turn: "within (core_and_turn S i) (clean_up env run)"
  unfolding clean_up_def
  by (intro core_and_turn.within_basic core_and_turn.within_pbind core_and_turn.within_pseq core_and_turn.within_branch
      core_and_turn.within_raised core_and_turn.within_swallow core_and_turn_parts cleanup_turn_in)

section \<open>What a completion leaves in the tables\<close>

definition memory_same :: "backend \<Rightarrow> backend \<Rightarrow> bool" where
  "memory_same b b' \<longleftrightarrow> bk_memory b' = bk_memory b"

interpretation memory_same: evolution memory_same
  by unfold_locales (auto simp: memory_same_def)

lemma memory_same_parts:
  "within memory_same (in_core m)" "within memory_same (in_ledger m')"
  "read_only m'' \<Longrightarrow> within memory_same (in_memory m'')"
  by (rule withinI; auto simp: memory_same_def dest!: in_core_run in_ledger_run in_memory_run read_only_store)+

lemma finish_run_memory: "within memory_same (finish_run env run confirmed)"
  unfolding finish_run_def finish_stopped_def finish_answered_def audited_manifest_def record_failure_def harness_name_def
  by (intro memory_same.within_basic memory_same.within_pbind memory_same.within_pseq memory_same.within_branch
      memory_same.within_attempt memory_same_parts read_only_basic same_store.within_intros same_store.within_branch | simp add: read_only_def)+

definition forgets :: "run \<Rightarrow> memory \<Rightarrow> bool" where
  "forgets run m \<longleftrightarrow> map_of (mm_active m) (rn_turn run) = None \<and> map_of (mm_contexts m) (rn_turn run) = None \<and>
     map_of (mm_parts m) (rn_turn run) = None \<and> map_of (mm_turns m) (rn_exec run) = None \<and>
     map_of (mm_handles m) (rn_dispatch run) = None \<and>
     list_all (\<lambda>(k, p). pt_id p \<noteq> pt_id (rn_port run)) (mm_approvals m) \<and>
     list_all (\<lambda>(k, v). \<not> suffix (rn_turn run) (snd k)) (mm_values m)"

definition others_kept :: "run \<Rightarrow> memory \<Rightarrow> memory \<Rightarrow> bool" where
  "others_kept run m m' \<longleftrightarrow>
     (\<forall>t. t = rn_turn run \<or> map_of (mm_active m') t = map_of (mm_active m) t \<and>
        map_of (mm_contexts m') t = map_of (mm_contexts m) t \<and> map_of (mm_parts m') t = map_of (mm_parts m) t) \<and>
     (\<forall>x. x = rn_exec run \<or> map_of (mm_turns m') x = map_of (mm_turns m) x) \<and>
     (\<forall>d. d = rn_dispatch run \<or> map_of (mm_handles m') d = map_of (mm_handles m) d) \<and>
     mm_native m' = mm_native m \<and> mm_gate m' = mm_gate m \<and> mm_workers m' = mm_workers m"

lemma retire_run_run:
  "retire_run run w = (r, w') \<Longrightarrow> r = Inr () \<and> forgets run (store w') \<and> others_kept run (store w) (store w')"
  by (auto simp: retire_run_def release_values_def write_store_def pseq_def pbind_def forgets_def others_kept_def
      delete_conv' list_all_iff split: if_splits)

text \<open>What is tried, is over: its outcome is a value, and the tables are as they were.\<close>

lemma raised_value:
  assumes "within memory_same m"
  obtains b v where "raised m w = (Inr b, v)" "bk_memory (store v) = bk_memory (store w)"
proof -
  obtain q v where m: "m w = (q, v)" by fastforce
  with withinD [OF assms m] show thesis by (intro that [of "case q of Inl e \<Rightarrow> True | Inr x \<Rightarrow> False" v])
    (auto simp: raised_run memory_same_def)
qed

lemma swallow_value:
  assumes "within memory_same m"
  obtains v where "swallow m w = (Inr (), v)" "bk_memory (store v) = bk_memory (store w)"
proof -
  obtain q v where m: "m w = (q, v)" by fastforce
  with withinD [OF assms m] show thesis by (intro that [of v]) (auto simp: swallow_run memory_same_def)
qed

lemma clean_up_run:
  assumes "clean_up env run w = (r, w')"
  shows "r = Inr () \<and> forgets run (bk_memory (store w')) \<and> others_kept run (bk_memory (store w)) (bk_memory (store w'))"
proof -
  obtain a u where a: "raised (in_ledger (invalidate_for_execution (rn_turn run) ''execution_terminal'')) w = (Inr a, u)"
    "bk_memory (store u) = bk_memory (store w)"
    by (rule raised_value [OF memory_same_parts(2)])
  obtain b v where b: "raised (plift (pt_close (rn_port run)) :: unit backend_prog) u = (Inr b, v)"
    "bk_memory (store v) = bk_memory (store u)"
    by (rule raised_value [OF memory_same.within_plift])
  obtain c x where c: "raised (in_ledger (mark_turn_cleanup (rn_turn run) (if a \<or> b then ''failed'' else ''cleaned''))) v = (Inr c, x)"
    "bk_memory (store x) = bk_memory (store v)"
    by (rule raised_value [OF memory_same_parts(2)])
  obtain y where y: "swallow (in_ledger (mark_turn_cleanup (rn_turn run) ''failed'')) x = (Inr (), y)"
    "bk_memory (store y) = bk_memory (store x)"
    by (rule swallow_value [OF memory_same_parts(2)])
  from assms a b c y obtain z where z: "bk_memory (store z) = bk_memory (store w)" "in_memory (retire_run run) z = (r, w')"
    by (cases c) (auto simp: clean_up_def pbind_def pseq_def preturn_def)
  from in_memory_run [OF z(2)] have
    "retire_run run (with_store z (bk_memory (store z))) = (r, with_store w' (bk_memory (store w')))" by simp
  from retire_run_run [OF this] z(1) show ?thesis by simp
qed

lemma settle_run_forgets:
  assumes "settle_run env run confirmed w = (r, w')"
  shows "r = fst (finish_run env run confirmed w)" "forgets run (bk_memory (store w'))"
    "others_kept run (bk_memory (store w)) (bk_memory (store w'))"
proof -
  from assms obtain v where f: "finish_run env run confirmed w = (r, v)" and c: "clean_up env run v = (Inr (), w')"
    unfolding settle_run_def finally_run by (auto dest: clean_up_run)
  from withinD [OF finish_run_memory f] clean_up_run [OF c] f show
    "r = fst (finish_run env run confirmed w)" "forgets run (bk_memory (store w'))"
    "others_kept run (bk_memory (store w)) (bk_memory (store w'))" by (simp_all add: memory_same_def)
qed

lemma worker_end:
  "pseq (gate_release hold) (write_store (\<lambda>m. m\<lparr>mm_workers := removeAll turn (mm_workers m)\<rparr>)) w = (r, w') \<Longrightarrow>
     turn \<notin> set (mm_workers (store w')) \<and> (case hold of None \<Rightarrow> True | Some key \<Rightarrow> map_of (mm_gate (store w')) key = Some True)"
  by (auto simp: gate_release_def write_store_def pseq_def pbind_def preturn_def update_conv' split: option.splits)

lemma completed_worker:
  assumes "complete_then_retire env run confirmed w = (r, w')"
  shows "rn_turn run \<notin> set (mm_workers (bk_memory (store w'))) \<and>
    (case rn_hold run of None \<Rightarrow> True | Some key \<Rightarrow> map_of (mm_gate (bk_memory (store w'))) key = Some True)"
proof -
  from assms obtain v q where "in_memory (pseq (gate_release (rn_hold run))
      (write_store (\<lambda>m. m\<lparr>mm_workers := removeAll (rn_turn run) (mm_workers m)\<rparr>))) v = (q, w')"
    unfolding complete_then_retire_def finally_run by blast
  from worker_end [OF conjunct1 [OF in_memory_run [OF this]]] show ?thesis by (cases "rn_hold run") simp_all
qed

end
