(* ===== verification/Backend_Spec.thy ===== *)
theory Backend_Spec
  imports Backend_Laws
begin

text \<open>
  What the decisions of the back end amount to, without the order of their checks: the ports a run may start
  on, by the specification of the capability matcher; the shape of a published code; the prompts of a run.
\<close>

section \<open>Which ports a run starts on\<close>

definition native_ready :: "backend_env \<Rightarrow> port \<Rightarrow> bool" where
  "native_ready env p \<longleftrightarrow> pt_launcher p = Some (pt_directory p) \<and> \<not> pt_isolated p \<and>
     be_validate env (pt_directory p) = Inr (pt_directory p)"

definition isolated_ready :: "backend_env \<Rightarrow> port \<Rightarrow> bool" where
  "isolated_ready env p \<longleftrightarrow> (case pt_binding p of None \<Rightarrow> False
     | Some binding \<Rightarrow> distinct (map doc_provider (pt_documents p)) \<and>
         list_ex (\<lambda>d. doc_provider d \<in> set (pt_authorized p) \<and>
           meets (port_demands p) (pt_grants p) [] \<lparr>mc_binding = binding, mc_now = be_time env\<rparr> d) (pt_documents p))"

definition admitted :: "backend_env \<Rightarrow> port \<Rightarrow> bool" where
  "admitted env p \<longleftrightarrow> (if pt_native p then native_ready env p else isolated_ready env p)"

lemma native_gate_exact: "native_gate env p = Inr () \<longleftrightarrow> native_ready env p"
  by (auto simp: native_gate_def native_ready_def split: option.splits sum.splits)

lemma selected_meets:
  assumes "distinct (map doc_provider ds)"
  shows "\<exists>r. select_declaration H qs gs fs ds ctx b None None (Some au) = Inr r \<and>
    ((sr_selected r \<noteq> None \<and> (case sr_outcome r of None \<Rightarrow> False | Some oc \<Rightarrow> mo_satisfied oc)) \<longleftrightarrow>
      list_ex (\<lambda>d. doc_provider d \<in> set au \<and> meets qs gs fs ctx d) ds)"
proof -
  let ?P = "\<lambda>d. eligible_for None None (Some au) d \<and> satisfies qs gs fs ctx d"
  let ?st = "sort_key (\<lambda>d. (doc_provider d, doc_revision d)) (filter (allowed_by (Some au)) ds)"
  from select_chosen [OF assms] obtain rs where
    sel: "select_declaration H qs gs fs ds ctx b None None (Some au) = Inr (finish_selection (requirement_set_digest H qs) b ds rs
      (map_option (\<lambda>d. (d, outcome_of qs gs d fs ctx)) (find ?P ?st)))" by blast
  show ?thesis
  proof (cases "find ?P ?st")
    case None
    then have "\<not> (\<exists>d \<in> set ds. doc_provider d \<in> set au \<and> meets qs gs fs ctx d)"
      by (auto simp: find_None_iff eligible_for_def allowed_by_def outcome_meets)
    with None sel show ?thesis by (simp add: finish_selection_def list_ex_iff)
  next
    case (Some d)
    then have "d \<in> set ?st" "?P d" by (metis (lifting) find_Some_iff nth_mem)+
    then have "d \<in> set ds \<and> doc_provider d \<in> set au \<and> meets qs gs fs ctx d"
      by (auto simp: eligible_for_def allowed_by_def outcome_meets)
    with Some sel show ?thesis by (auto simp: finish_selection_def list_ex_iff outcome_meets)
  qed
qed

lemma duplicate_refused:
  "\<not> distinct (map doc_provider ds) \<Longrightarrow>
     \<exists>r. select_declaration H qs gs fs ds ctx b inc pin au = Inr r \<and> sr_selected r = None"
  by (simp add: select_declaration_def Let_def finish_selection_def)

lemma isolated_gate_exact: "isolated_gate env p turn = Inr () \<longleftrightarrow> isolated_ready env p"
proof (cases "pt_binding p")
  case None
  then show ?thesis by (simp add: isolated_gate_def isolated_ready_def)
next
  case (Some b)
  let ?ctx = "\<lparr>mc_binding = b, mc_now = be_time env\<rparr>"
  let ?sel = "select_declaration (be_hash env) (port_demands p) (pt_grants p) [] (pt_documents p) ?ctx (''turn:'' @ turn)
    None None (Some (pt_authorized p))"
  show ?thesis
  proof (cases "distinct (map doc_provider (pt_documents p))")
    case True
    from selected_meets [OF True, of "be_hash env" "port_demands p" "pt_grants p" "[]" ?ctx "''turn:'' @ turn" "pt_authorized p"]
    obtain r where "?sel = Inr r" "(sr_selected r \<noteq> None \<and> (case sr_outcome r of None \<Rightarrow> False | Some oc \<Rightarrow> mo_satisfied oc)) =
      list_ex (\<lambda>d. doc_provider d \<in> set (pt_authorized p) \<and> meets (port_demands p) (pt_grants p) [] ?ctx d) (pt_documents p)"
      by blast
    with Some True show ?thesis
      by (auto simp: isolated_gate_def isolated_ready_def list_ex_iff)
  next
    case False
    from duplicate_refused [OF False] obtain r where "?sel = Inr r" "sr_selected r = None" by blast
    with Some False show ?thesis by (simp add: isolated_gate_def isolated_ready_def)
  qed
qed

lemma capability_gate_exact: "capability_gate env p turn = Inr () \<longleftrightarrow> admitted env p"
  by (simp add: capability_gate_def admitted_def native_gate_exact isolated_gate_exact)

section \<open>Published codes\<close>

lemma rejection_code_typed: "rejection_code e = Some k \<Longrightarrow> typed_code_ok k"
  by (induction e rule: rejection_code.induct) (auto split: if_splits option.splits)

lemma safe_code_typed: "typed_code_ok (safe_code e)"
proof -
  have "typed_code_ok ''EXECUTION_FAILED''" by code_simp
  then show ?thesis by (auto simp: safe_code_def rejection_code_typed split: option.splits)
qed

lemma typed_code_short: "typed_code_ok s \<Longrightarrow> take 128 s = s"
  by (auto simp: typed_code_ok_def split: list.splits)

section \<open>The prompts of a run\<close>

text \<open>The answer is that of a prompt after which every earlier one found the sidecar closed and was rebuilt.\<close>

lemma prompt_attempts_Inr:
  "prompt_attempts p c a n left = Inr r \<longleftrightarrow> (\<exists>m \<le> left. pt_prompt p (n + m) c a = Inr r \<and>
     (\<forall>k < m. (\<exists>e. pt_prompt p (n + k) c a = Inl e \<and> closed_sidecar e) \<and> pt_reclose p (n + k) = Inr () \<and>
        (\<exists>s. pt_open p (Suc (n + k)) = Inr s)))"
proof (induction left arbitrary: n)
  case 0
  then show ?case by (auto split: sum.splits)
next
  case (Suc l)
  show ?case (is "_ = (\<exists>m \<le> Suc l. ?at m \<and> (\<forall>k < m. ?again k))")
  proof (cases "pt_prompt p n c a")
    case (Inr x)
    then show ?thesis by (auto intro: exI [of _ 0]) (metis Inl_not_Inr add_0_right gr0I Inr_inject)+
  next
    case (Inl e)
    show ?thesis
    proof (cases "?again 0")
      case False
      then have "\<not> (\<exists>m \<le> Suc l. ?at m \<and> (\<forall>k < m. ?again k))"
        using Inl by (metis Inl_Inr_False add_0_right gr0I)
      with False Inl show ?thesis by (auto simp: rbind_def split: sum.splits)
    next
      case True
      with Inl have "prompt_attempts p c a n (Suc l) = prompt_attempts p c a (Suc n) l"
        by (auto simp: rbind_def)
      moreover have "(\<exists>m \<le> Suc l. ?at m \<and> (\<forall>k < m. ?again k)) \<longleftrightarrow>
          (\<exists>m \<le> l. ?at (Suc m) \<and> (\<forall>k < m. ?again (Suc k)))"
      proof
        assume "\<exists>m \<le> Suc l. ?at m \<and> (\<forall>k < m. ?again k)"
        then obtain m where m: "m \<le> Suc l" "?at m" "\<forall>k < m. ?again k" by blast
        with Inl obtain j where "m = Suc j" by (cases m) auto
        with m show "\<exists>m \<le> l. ?at (Suc m) \<and> (\<forall>k < m. ?again (Suc k))" by (intro exI [of _ j]) auto
      next
        assume "\<exists>m \<le> l. ?at (Suc m) \<and> (\<forall>k < m. ?again (Suc k))"
        then obtain m where m: "m \<le> l" "?at (Suc m)" "\<forall>k < m. ?again (Suc k)" by blast
        have "?again k" if "k < Suc m" for k using that m(3) True by (cases k) auto
        with m show "\<exists>m \<le> Suc l. ?at m \<and> (\<forall>k < m. ?again k)" by (intro exI [of _ "Suc m"]) auto
      qed
      ultimately show ?thesis using Suc.IH [of "Suc n"] by simp
    qed
  qed
qed


section \<open>A run that started\<close>

lemma start_run_Inr:
  assumes "start_run env x did content w = (Inr run, w')"
  shows "admitted env (rn_port run)" and "rn_exec run = x" and "rn_dispatch run = did"
proof -
  from assms have "capability_gate env (rn_port run) (rn_turn run) = Inr ()"
    by (auto simp: start_run_def run_iffs split: prod.splits)
  then show "admitted env (rn_port run)" by (simp add: capability_gate_exact)
  from assms show "rn_exec run = x" "rn_dispatch run = did" by (auto simp: start_run_def run_iffs split: prod.splits)
qed

end
