(* ===== verification/Backend_Examples.thy ===== *)
theory Backend_Examples
  imports Backend_Spec Capability_Claims Core_Examples Ledger_Examples
begin

text \<open>
  A running turn of the example ledger, filed under the Execution of the example database, on a port whose
  sidecar is closed at the first prompt; and the completion of its run, evaluated.
\<close>

section \<open>The example\<close>

text \<open>A document that supports what the plan demands without a condition.\<close>

definition demo_room :: declaration_document where
  "demo_room = (demo_document ''bwrap'')\<lparr>doc_declarations := [\<lparr>dc_capability = ''filesystem.readonly@1'',
     dc_state = ''supported'', dc_condition = None, dc_parameters = Some (mk_parameters [''/bin'', ''/usr'']),
     dc_evidence = [demo_evidence], dc_provider = ''bwrap''\<rparr>]\<rparr>"

definition demo_port :: port where
  "demo_port = \<lparr>pt_id = 1, pt_native = False, pt_directory = [], pt_launcher = None, pt_isolated = False,
     pt_documents = [demo_room], pt_grants = [demo_grant], pt_authorized = [''bwrap''],
     pt_binding = Some ''env-1'', pt_executables = [''/bin''], pt_projections = [], pt_artifacts = [],
     pt_state_target = None, pt_whole_db = True, pt_platform = ''linux'', pt_profile = ''p'', pt_shared = False,
     pt_capabilities = Inr (JDict []), pt_open = (\<lambda>n. Inr ''n1''),
     pt_prompt = (\<lambda>n c a. if n = 0 then Inl (sidecar_error ''SidecarError'' ''SIDECAR_CLOSED'' ''closed'') else Inr (JDict [])),
     pt_reclose = (\<lambda>n. Inr ()), pt_close = Inr (),
     pt_capture = Inr (\<lparr>au_platform = Some ''linux'', au_home = Some ''h'', au_audited = JBool True, au_truncated = JBool False,
       au_files = []\<rparr>, True),
     pt_usage = None, pt_read_usage = Inr None, pt_changes = Inr None, pt_leak = None\<rparr>"

definition demo_run :: run where
  "demo_run = \<lparr>rn_turn = ''t1'', rn_work = ''work_0'', rn_exec = ''exec_2'', rn_dispatch = ''d1'', rn_port = demo_port,
     rn_native = ''n1'', rn_result = Inr (JDict []), rn_hold = Some ''linux:p''\<rparr>"

definition demo_env :: backend_env where
  "demo_env = \<lparr>be_hash = demo_hash, be_config = demo_config, be_queue = None, be_read = (\<lambda>d. Inr (JDict [])),
     be_bytes = (\<lambda>d. Inr []), be_publish = (\<lambda>v. Inr ''digest''), be_factory = (\<lambda>c. Inr demo_port),
     be_validate = (\<lambda>p. Inr p), be_time = 15, be_waited = (\<lambda>k. False)\<rparr>"

definition demo_context_of :: "ledger \<Rightarrow> turn_ctx" where
  "demo_context_of d = (demo_turn ''t1'' ''s1'' ''running'', demo_session ''s1'', hd (l_profiles d), hd (l_workspaces d))"

definition demo_backend :: backend where
  "demo_backend = (let d = demo_ledger [demo_turn ''t1'' ''s1'' ''running''] [] [] in
     \<lparr>bk_core = demo_db, bk_ledger = d, bk_memory = \<lparr>mm_turns = [(''exec_2'', ''t1'')],
        mm_contexts = [(''t1'', demo_context_of d)], mm_parts = [(''t1'', [''he'', ''llo''])], mm_active = [(''t1'', demo_run)],
        mm_receipts = [], mm_handles = [(''d1'', demo_run)], mm_approvals = [], mm_native = [], mm_values = [],
        mm_gate = [(''linux:p'', False)], mm_workers = [''t1'']\<rparr>\<rparr>)"

section \<open>Evaluation\<close>

lemma zoom_eval: "in_core m w = (case m (with_store w (bk_core (store w))) of (r, v) \<Rightarrow> (r, with_store v ((store w)\<lparr>bk_core := store v\<rparr>)))"
 "in_ledger m' w = (case m' (with_store w (bk_ledger (store w))) of (r, v) \<Rightarrow> (r, with_store v ((store w)\<lparr>bk_ledger := store v\<rparr>)))"
 "in_memory m'' w = (case m'' (with_store w (bk_memory (store w))) of (r, v) \<Rightarrow> (r, with_store v ((store w)\<lparr>bk_memory := store v\<rparr>)))"
  by (simp_all add: in_core_def in_ledger_def in_memory_def zoom_def)

definition demo_at :: "nat \<Rightarrow> nat \<Rightarrow> 'd \<Rightarrow> 'd world" where
  "demo_at n k d = \<lparr>store = d, uuid_src = demo_hex, uuid_pos = n, clock_src = (\<lambda>n. 10 + int n), clock_pos = k, tz_offset = (\<lambda>_. 0)\<rparr>"

lemma demo_at_simps: "store (demo_at n k d) = d" "with_store (demo_at n k d) e = demo_at n k e"
  by (simp_all add: demo_at_def with_store_def)

lemma demo_at_eq: "demo_at n k d = demo_at n k e \<longleftrightarrow> d = e"
  by (simp add: demo_at_def)

lemma demo_given: "\<not> blank ''turn-finalize:t1''" "\<not> blank ''exec_2''" "\<not> blank ''work_0''" "\<not> blank ''o''"
  by code_simp+

definition demo_native :: ref where
  "demo_native = \<lparr>r_type = Session_ref, r_provider = provider_name, r_native = ''n1'', r_uri = None, r_meta = []\<rparr>"

lemma demo_native_made: "mk_ref Session_ref provider_name ''n1'' None [] = Inr demo_native"
  by (simp add: demo_native_def mk_ref_def provider_name_def bounded_metadata_def dump_def)

lemma demo_steps: "preturn x w = (Inr x, w)" "plift r w = (r, w)"
  "now_utc (demo_at n k d) = (Inr (utc_time (10 + int k)), demo_at n (Suc k) d)"
  "fresh_id p (demo_at n k d) = (Inr (p @ ''_'' @ demo_hex n), demo_at (Suc n) k d)"
  "read_store rd (demo_at n k d) = (Inr (rd d), demo_at n k d)"
  "fetch_row f e (demo_at n k d) = (case f d of None \<Rightarrow> (Inl e, demo_at n k d) | Some r \<Rightarrow> (Inr r, demo_at n k d))"
  "exec_sql g (demo_at n k d) = (case g d of Inl e \<Rightarrow> (Inl e, demo_at n k d) | Inr (y, d') \<Rightarrow> (Inr y, demo_at n k d'))"
  "write_store h (demo_at n k d) = (Inr (), demo_at n k (h d))"
  by (simp_all add: ledger_progs demo_at_def write_store_def split: sum.splits prod.splits option.splits)


lemma demo_hex_eq: "demo_hex a = demo_hex b \<longleftrightarrow> a = b"
  by (simp add: demo_hex_def)

lemma demo_core_calls:
  "\<exists>d e u. finalize_run demo_env demo_run ''turn-finalize:'' outcome.Succeeded False [demo_native]
       (demo_at (Suc 0) (Suc 0) demo_db) = (Inr (), demo_at 4 3 d) \<and>
     complete_work ''work_0'' ''Turn completed through Harness sidecar'' (demo_at 6 6 d) = (Inr u, demo_at 7 7 e)"
  by (simp add: finalize_run_def apply_finalization_def demo_digest demo_env_def demo_run_def mk_fin_request_def
      prog_eval row_eval repo_eval demo_eval demo_given attach_final_ref_def insert_ref_stmt_def insert_ref_def
      demo_native_def dump_ref_def ref_key_def demo_hex_def demo_at_def complete_work_def get_work_def mk_work_def
      update_work_def update_works_def numeral_eq_Suc)

lemma demo_run_simps: "rn_turn demo_run = ''t1''" "rn_work demo_run = ''work_0''" "rn_exec demo_run = ''exec_2''"
  "rn_dispatch demo_run = ''d1''" "rn_port demo_run = demo_port" "rn_native demo_run = ''n1''" "rn_result demo_run = Inr (JDict [])"
  "rn_hold demo_run = Some ''linux:p''"
  by (simp_all add: demo_run_def)

lemma demo_env_simps: "be_queue demo_env = None" "be_publish demo_env v = Inr ''digest''" "be_config demo_env = demo_config"
  by (simp_all add: demo_env_def)

lemma demo_no_reason: "terminal_reason (JDict []) = None"
  by code_simp

lemmas demo_completing = finish_answered_def audited_manifest_def harness_name_def append_turn_event_def resumable_def
  complete_turn_def complete_commit_def update_turn_def session_set_def profile_set_def settle_profile_after_turn_def
  latest_usage_def usage_given_def complete_row_def usage_fact_def change_set_digest_def

lemmas demo_backend_rows = demo_port_def demo_backend_def demo_stamp_def demo_turn_def demo_session_def demo_ledger_def
  new_turn_def demo_context_of_def ledger_rows

lemma demo_answered:
  "\<exists>d l u e. finish_answered demo_env demo_run (demo_at 0 0 demo_backend) =
       (Inr None, demo_at 6 6 (demo_backend\<lparr>bk_core := d, bk_ledger := l\<rparr>)) \<and> completed_turn l ''t1'' \<and>
     complete_work ''work_0'' ''Turn completed through Harness sidecar'' (demo_at 6 6 d) = (Inr u, demo_at 7 7 e)"
proof -
  from demo_core_calls obtain d e u where
    f: "finalize_run demo_env demo_run ''turn-finalize:'' outcome.Succeeded False [demo_native]
      (demo_at (Suc 0) (Suc 0) demo_db) = (Inr (), demo_at 4 3 d)"
    and c: "complete_work ''work_0'' ''Turn completed through Harness sidecar'' (demo_at 6 6 d) = (Inr u, demo_at 7 7 e)"
    by blast
  show ?thesis
    by (rule exI [of _ d]) (simp add: c f demo_completing demo_backend_rows zoom_eval demo_at_simps demo_run_simps
        demo_env_simps demo_native_made demo_no_reason get_json_def Let_def demo_steps pbind_def pseq_def
        transaction_def demo_hex_eq demo_at_eq completed_turn_def turn_in_def)
qed

lemma demo_completes:
  "completed_turn (bk_ledger (store (snd (complete_then_retire demo_env demo_run False (demo_at 0 0 demo_backend))))) ''t1''"
proof -
  from demo_answered obtain d l u e where
    a: "finish_answered demo_env demo_run (demo_at 0 0 demo_backend) =
       (Inr None, demo_at 6 6 (demo_backend\<lparr>bk_core := d, bk_ledger := l\<rparr>))" "completed_turn l ''t1''"
    "complete_work ''work_0'' ''Turn completed through Harness sidecar'' (demo_at 6 6 d) = (Inr u, demo_at 7 7 e)" by blast
  let ?b = "demo_backend\<lparr>bk_ledger := l, bk_core := e\<rparr>"
  obtain r v where c: "clean_up demo_env demo_run (demo_at 7 7 ?b) = (r, v)" by fastforce
  from withinD [OF clean_up_turn c, of "{''completed''}" "''t1''"] a(2) have still: "completed_turn (bk_ledger (store v)) ''t1''"
    by (simp add: core_and_turn_def keeps_def completed_turn_def demo_at_simps)
  have "\<not> is_cancelled demo_run False" by (simp add: is_cancelled_def demo_run_simps demo_no_reason)
  with a have "finish_run demo_env demo_run False (demo_at 0 0 demo_backend) = (Inr None, demo_at 7 7 ?b)"
    by (simp add: finish_run_def attempt_def pbind_def demo_run_simps zoom_eval demo_at_simps demo_steps)
  with c clean_up_run [OF c] have "settle_run demo_env demo_run False (demo_at 0 0 demo_backend) = (Inr None, v)"
    by (simp add: settle_run_def finally_run)
  then have "complete_run demo_env demo_run False (demo_at 0 0 demo_backend) = (Inr (), v)"
    by (simp add: complete_run_def pbind_def preturn_def)
  with still show ?thesis
    by (auto simp: complete_then_retire_def finally_do_def attempt_def pbind_def pseq_def plift_def dest!: in_memory_run
        split: prod.splits sum.splits)
qed

section \<open>A start\<close>

definition demo_tables :: memory where
  "demo_tables = (bk_memory demo_backend)\<lparr>mm_gate := []\<rparr>"

lemma demo_port_ready: "isolated_ready demo_env demo_port"
proof -
  have "meets [demo_demand] [demo_grant] [] \<lparr>mc_binding = ''env-1'', mc_now = 15\<rparr> demo_room"
    by (auto simp: meets_def demand_met_def demo_room_def demo_capability registered_rule_def rule_registry_def
        authorised_def targets_superset_def evidence_valid_def usable_def)
  moreover have "port_demands demo_port = [demo_demand]"
    by (simp add: port_demands_def demo_port_def sidecar_requirements_def demo_demand_def claim_targets.simps
        Let_def unique_in_order_def)
  ultimately show ?thesis
    by (simp add: isolated_ready_def demo_port_def demo_room_def demo_document_def demo_env_def)
qed

lemma demo_run_starts:
  "\<exists>run w'. start_run demo_env ''exec_2'' ''d1'' ''hi'' (demo_at 0 0 demo_tables) = (Inr run, w')"
proof -
  have port: "pt_native demo_port = False" "pt_whole_db demo_port = True" "pt_open demo_port n = Inr ''n1''" for n
    by (simp_all add: demo_port_def)
  have env: "be_factory demo_env c = Inr demo_port" "be_read demo_env k = Inr (JDict [])" for c k
    by (simp_all add: demo_env_def)
  have tables: "map_of (mm_turns demo_tables) ''exec_2'' = Some ''t1''" "mm_native demo_tables = []" "mm_gate demo_tables = []"
    "\<exists>ctx. map_of (mm_contexts demo_tables) ''t1'' = Some ctx"
    by (simp_all add: demo_tables_def demo_backend_def demo_context_of_def Let_def)
  have plain: "sidecar_attachments demo_env (JDict []) = Inr ([], [])"
    by (simp add: sidecar_attachments_def message_of_def object_items_def rbind_def iterated_def get_json_def json_or_null_def truthy_def List.map_filter_def)
  have gate: "capability_gate demo_env demo_port t = Inr ()" for t
    using demo_port_ready by (simp add: capability_gate_exact admitted_def port)
  from tables(4) obtain t s p ws where ctx: "map_of (mm_contexts demo_tables) ''t1'' = Some (t, s, p, ws)"
    by (metis prod.collapse)
  have "port_for demo_env k (t, s, p, ws) (demo_at 0 0 demo_tables) = (Inr (demo_port, False), demo_at 0 0 demo_tables)" for k
    by (simp add: port_for_def pbind_def demo_steps tables port env)
  then show ?thesis
    by (simp add: start_run_def pbind_def pseq_def demo_steps tables ctx env plain gate port gate_acquire_def open_port_def
        try_catch_def)
qed

end
