(* ===== verification/Backend_Claims.thy ===== *)
theory Backend_Claims
  imports Backend_Examples
begin

text \<open>
  The properties of the execution back end: what a completed turn says of the Work Core, what a
  completion leaves in the tables, which ports a run starts on, what a prompt answers, and which codes
  are published.
\<close>

section \<open>Completion and the Work Core\<close>

text \<open>
  C3: a turn that the completion worker of a run leaves completed has succeeded in the Work Core. On a
  well-formed Core database where the Execution was not finalized yet, and with the turn not completed
  before, whatever the port, the objects and the queue do, when the turn of the run is completed after the
  worker, the adoption of a successor included, the Core Execution is terminal with the outcome Succeeded
  and the run was not stopped.
\<close>

theorem completed_means_finalized:
  assumes "db_ok (bk_core (store w))" "finalization_of_exec (bk_core (store w)) (rn_exec run) = None"
    and "\<not> completed_turn (bk_ledger (store w)) (rn_turn run)"
    and "complete_then_retire env run confirmed w = (r, w')" "completed_turn (bk_ledger (store w')) (rn_turn run)"
  shows "core_succeeded (bk_core (store w')) (rn_exec run) \<and> \<not> is_cancelled run confirmed"
proof (cases "is_cancelled run confirmed")
  case True
  from withinD [OF complete_then_retire_keeps(2) [OF True] assms(4)] assms(3,5) show ?thesis
    by (simp add: keeps_def uncompleted_def)
next
  case False
  from withinD [OF complete_then_retire_keeps(1) [OF False] assms(4)] assms(1,2,3,5) False show ?thesis
    by (auto simp: keeps_def settling_def settled_def)
qed

theorem completed_means_finalized_witness:
  "core_succeeded (bk_core (store (snd (complete_then_retire demo_env demo_run False (demo_at 0 0 demo_backend))))) ''exec_2''"
proof -
  obtain r w' where run: "complete_then_retire demo_env demo_run False (demo_at 0 0 demo_backend) = (r, w')" by fastforce
  have core: "bk_core demo_backend = demo_db" "finalization_of_exec demo_db ''exec_2'' = None"
    by (simp_all add: demo_backend_def demo_db_def finalization_of_exec_def Let_def)
  have open_turn: "\<not> completed_turn (bk_ledger demo_backend) ''t1''"
    by (simp add: demo_backend_rows completed_turn_def turn_in_def Let_def)
  from completed_means_finalized [OF _ _ _ run] demo_completes run core open_turn demo_ok show ?thesis
    by (simp add: demo_at_simps demo_run_simps)
qed



section \<open>What a completion leaves in the tables\<close>


section \<open>Starting a run\<close>

text \<open>
  C6: a run starts only on an admitted port. When the start returns a run, its port is a native one whose
  launcher works in exactly the validated directory of the session and that carries no isolated material,
  or it is an isolated one for which some document of an authorized provider meets the demands of the
  launch plan, as the declarative specification of the matcher has it, in an environment bound to this
  execution, and no provider is listed twice.
\<close>

theorem run_starts_admitted:
  assumes "start_run env x did content w = (Inr run, w')"
  shows "admitted env (rn_port run) \<and> rn_exec run = x \<and> rn_dispatch run = did"
  using start_run_Inr [OF assms] by simp

theorem run_starts_admitted_witness:
  "\<exists>run w'. start_run demo_env ''exec_2'' ''d1'' ''hi'' (demo_at 0 0 demo_tables) = (Inr run, w') \<and>
     admitted demo_env (rn_port run)"
  using demo_run_starts run_starts_admitted by blast

section \<open>The prompt\<close>

text \<open>
  C40: a prompt is retried only on a sidecar found closed, and at most twice. The prompt of a run answers a
  result exactly when one of its first three attempts does and every attempt before it was told
  SIDECAR_CLOSED and was followed by a close and an open that worked.
\<close>

theorem prompt_rebuilds_bounded:
  "prompt_with_rebuild p content attachments = Inr r \<longleftrightarrow>
     (\<exists>m \<le> 2. pt_prompt p m content attachments = Inr r \<and>
       (\<forall>k < m. (\<exists>e. pt_prompt p k content attachments = Inl e \<and> closed_sidecar e) \<and>
          pt_reclose p k = Inr () \<and> (\<exists>s. pt_open p (Suc k) = Inr s)))"
  using prompt_attempts_Inr [of p content attachments 0 2 r] by (simp add: prompt_with_rebuild_def rebuild_limit_def)

theorem prompt_rebuilds_bounded_witness:
  "prompt_with_rebuild demo_port ''hi'' [] = Inr (JDict [])"
proof -
  have "closed_sidecar (sidecar_error ''SidecarError'' ''SIDECAR_CLOSED'' ''closed'')"
    by (simp add: closed_sidecar_def sidecar_error_def)
  then have "\<exists>m \<le> 2. pt_prompt demo_port m ''hi'' [] = Inr (JDict []) \<and>
      (\<forall>k < m. (\<exists>e. pt_prompt demo_port k ''hi'' [] = Inl e \<and> closed_sidecar e) \<and>
         pt_reclose demo_port k = Inr () \<and> (\<exists>s. pt_open demo_port (Suc k) = Inr s))"
    by (intro exI [of _ 1]) (simp add: demo_port_def)
  then show ?thesis by (simp only: prompt_rebuilds_bounded)
qed

section \<open>Published codes\<close>

text \<open>
  What a failed turn publishes is a code. Whatever exception ends a run or an acceptance, the code
  recorded for it matches the pattern of codes (an upper case letter and 2 to 127 upper case letters,
  digits and underscores), so the ledger stores it unshortened; and an ambiguous dispatch, which does not
  know whether the start happened, never publishes its own code when that is one of the codes of a refusal
  before the start.
\<close>

lemma published_code_typed:
  "typed_code_ok (safe_code e) \<and> take 128 (safe_code e) = safe_code e \<and>
   (\<forall>m k. k \<notin> set pre_start_codes \<or> safe_code (Exn DispatchAmbiguous m (Some k) None) = ''EXECUTION_FAILED'')"
  using safe_code_typed [of e] typed_code_short [of "safe_code e"] by (auto simp: safe_code_def)

end
