(* ===== verification/Spec2Isabelle.thy ===== *)
theory Spec2Isabelle
  imports Core_Claims Dispatch_Claims Capability_Claims Ledger_Claims Run_Claims Delegation_Claims
    Service_Claims Cancel_Claims Sendability_Claims Wire_Claims Backend_Claims
begin

text \<open>
  A verification development for the agent-box repository (Python).

  The program. \<open>packages/pacthold\<close> holds the core. The Work Core
  (\<open>work_core\<close>) is a SQLite ledger of Works, Executions, References, Dispatches, observations
  and finalizations with the services that write it: a host creates a Work, creates Executions
  on it, dispatches each Execution once to an execution provider with a frozen, resolved set of
  inputs, observes its projection, and finalizes it with one terminal bundle; providers come
  from an extension registry; every fact is an event in an append-only ledger; every write is
  one transaction. The capability package (\<open>extensions/capability\<close>) decides which sandbox may
  run a launch plan: the demands of the plan are matched against the grants of the deployment
  document, the declarations of a sandbox document and the facts of the environment, and one
  provider is selected. The session records (\<open>service/sessions\<close>), with the idempotency
  receipts and approvals of \<open>apps/server\<close>, are the product's ledger: sessions, their turns,
  the queue behind a running turn, approvals, and the event log a client reads. The queue and
  the approvals append their events through the session records; a turn is filed in the Work
  Core by a collaborator after the transaction that accepts it. The run tracker
  (\<open>execution/lifecycle.py\<close>) owns the runs of the process: it starts each key once and records
  one cancel receipt per key, from several threads. Over these records stand the profiles with
  their permission rules (\<open>ordessa_server/profiles\<close>), the session use cases
  (\<open>service/sessions/service.py\<close>) that accept, refuse and cancel turns, and delegation
  (\<open>ordessa_server/execution/delegation.py\<close>), by which a running turn starts child turns
  under its own frozen posture. Workspaces and model configurations are two more record stores
  with their use cases. The clients reach all of it through the wire protocol
  (\<open>ordessa_server/wire\<close>): \<open>WireService.dispatch\<close> checks the shape of a request, calls the
  handler of its method and projects every exception onto twelve error families; session events
  leave as frames, in snapshots and on a live channel, joined by signed cursors.

  The theories.

  \<^item> \<open>Prelude\<close>: exceptions as values; programs over a durable store with the two ambient
    effects of the code (uuid4 and the clock); the transaction scope; the locale
    \<open>evolution\<close> (a reflexive and transitive relation between stores is kept by every
    program built from statements that keep it) with its interpretations. \<open>Sql_Tables\<close>: UPDATE
    and the constraint errors, on lists of rows.
  \<^item> \<open>Json_Text\<close>, \<open>Json_Parse\<close>, \<open>Iso_Time\<close>: \<open>json.dumps\<close>,
    \<open>json.loads\<close> and \<open>isoformat\<close> as the code uses them; the encoder is injective and
    what it writes is read back.
  \<^item> \<open>Core_Models\<close>: \<open>models.py\<close>, \<open>projection.py\<close>, \<open>events.py\<close>,
    \<open>finalization.py\<close>, \<open>resource_observations.py\<close>; constructors that validate.
  \<^item> \<open>Core_Registry\<close>: \<open>registry.py\<close>, its invariant and its growth.
  \<^item> \<open>Core_Tables\<close>, \<open>Core_Repository\<close>: the tables with their constraints and the
    methods of \<open>repository.py\<close>, statement by statement.
  \<^item> \<open>Core_Service\<close>: \<open>services.py\<close>.
  \<^item> \<open>Core_Effects\<close>: what each method that returns has done to the tables, and that a
    method that raises has done nothing. \<open>Core_Invariants\<close>: the invariant \<open>db_ok\<close>, the
    relation \<open>evolves\<close> (sealed history), and that every method keeps both.
    \<open>Core_Safety\<close>: the same for the services, and the reachable databases.
    \<open>Core_Inputs\<close>: canonical inputs, their digest, the start request. \<open>Core_Results\<close>,
    \<open>Core_Laws\<close>, \<open>Core_Dispatch\<close>: the outcomes of whole calls.
  \<^item> \<open>Core_Examples\<close>, \<open>Core_Claims\<close>, \<open>Dispatch_Claims\<close>: the properties of the
    Work Core with their witnesses.
  \<^item> \<open>Capability_Model\<close>: \<open>ids.py\<close>, \<open>slots.py\<close>, \<open>documents.py\<close>,
    \<open>requirements.py\<close>. \<open>Capability_Match\<close>: \<open>match.py\<close>. \<open>Capability_Selection\<close>:
    \<open>selection.py\<close>. \<open>Capability_Spec\<close>: what a demand that is met is, without an order of
    checks, the locale of the coverage orders of the match rules, and that the matcher decides
    the specification. \<open>Capability_Claims\<close>: the properties.
  \<^item> \<open>Ledger_Tables\<close>: the product tables of \<open>storage/database.py\<close>. \<open>Ledger_Records\<close>:
    \<open>idempotency.py\<close>, the event log, \<open>queue.py\<close>, \<open>approvals/records.py\<close>.
    \<open>Session_Records\<close>, \<open>Turn_Records\<close>: \<open>sessions/repository.py\<close>.
  \<^item> \<open>Ledger_Laws\<close>: well-formed ledgers and the locale \<open>ledger_law\<close> of the relations
    that every kind of write keeps. \<open>Ledger_Steps\<close>, \<open>Ledger_Runs\<close>: every operation, and
    every sequence of operations (\<open>ledger_steps\<close>), keeps any such relation.
    \<open>Ledger_Examples\<close>, \<open>Ledger_Claims\<close>: its interpretations and the properties.
  \<^item> \<open>Run_Tracker\<close>: \<open>lifecycle.py\<close> and \<open>contracts.py\<close>. The state holds the heap of
    run objects, the two dictionaries and the lock of each run; a thread is at one point of one
    call, and a step is one locked block or one call of the port, so that every interleaving of
    \<open>submit\<close>, \<open>cancel\<close>, native events and \<open>retire\<close> is a sequence of steps.
    \<open>Run_Invariants\<close>: what every reachable tracker satisfies. \<open>Run_Claims\<close>: the
    properties.
  \<^item> \<open>Tool_Permissions\<close>: \<open>profiles/permissions.py\<close>, with \<open>fnmatch\<close> for the patterns
    that validation accepts. \<open>Product_Records\<close>: \<open>records.py\<close> and the Harness registry of
    \<open>execution/__init__.py\<close>. \<open>Profile_Records\<close>: \<open>profiles/repository.py\<close>,
    \<open>service.py\<close>, \<open>clone.py\<close>.
  \<^item> \<open>Session_Service\<close>: \<open>service/sessions/service.py\<close>. \<open>Subagents\<close>,
    \<open>Delegation\<close>: \<open>profiles/subagents.py\<close>, \<open>execution/delegation.py\<close>.
    \<open>Service_Laws\<close>: the locale \<open>service_law\<close> extends \<open>ledger_law\<close> by the two
    further tables; every use case, and every sequence of use cases, delegated runs and ledger
    operations (\<open>service_steps\<close>), keeps any such relation. \<open>Delegation_Laws\<close>: what a
    delegated run that started has checked and written. \<open>Service_Examples\<close>: a ledger with a
    parent turn, a granted child and an older child session. \<open>Delegation_Claims\<close>,
    \<open>Service_Claims\<close>, \<open>Cancel_Claims\<close>: the properties.
  \<^item> \<open>Workspace_Records\<close>: \<open>workspaces/repository.py\<close> and \<open>service.py\<close>.
    \<open>Model_Facts\<close>: \<open>model_configs/provider_protocols.py\<close>, with the idempotence of the
    normalization; \<open>Model_Configs\<close>: \<open>model_configs/repository.py\<close> and \<open>service.py\<close>,
    up to the configuration a turn is frozen with. \<open>Sendability\<close>: what a profile is said to be
    able to send (\<open>_profile_bindings\<close>, \<open>_sendability\<close>); \<open>Sendability_Claims\<close> compares it
    with the freeze.
  \<^item> \<open>Wire_Protocol\<close>: \<open>wire/errors.py\<close> and the envelope; \<open>Wire_Cursor\<close>: the cursors of
    \<open>wire/envelope.py\<close>, with HMAC and base64 written out; \<open>Wire_Projection\<close>:
    \<open>wire/projection.py\<close>. \<open>Wire_Requests\<close>, \<open>Wire_Handlers\<close>, \<open>Wire_Config\<close>,
    \<open>Wire_Sessions\<close>, \<open>Wire_Dispatch\<close>: \<open>wire/handlers.py\<close>. A handler is a ledger program
    that answers a value or a \<open>WireError\<close>; every other exception is raised in the program.
    The handlers that are not modelled are one parameter of the service record.
  \<^item> \<open>Wire_Laws\<close>: every refusal of every handler is of a known family. \<open>Wire_Paging\<close>: the
    locale \<open>paged\<close> of a numbered log read in pages (following the pages from any position gives
    the rest of the log), interpreted on the events forwards and backwards and on the catalogue of
    sessions. \<open>Wire_Examples\<close>, \<open>Wire_Claims\<close>: the live channel (\<open>live_frames\<close> is the loop of
    \<open>transport/http/app.py\<close>, its argument the number of batches) and the properties.
  \<^item> \<open>Backend_State\<close>: the world of the execution back end (the Work Core, the session ledger
    and the tables of the process; the locale \<open>part\<close> carries a program on one of them to the
    whole), ports and runs, the capability gate, \<open>first_run_lock.py\<close>, and the values
    \<open>execution/sidecar_backend.py\<close> computes. \<open>Turn_Backend\<close>: the operations of that file,
    from \<open>accept\<close> to \<open>_complete_then_retire\<close>. \<open>Backend_Laws\<close>: what these programs
    leave alone, the invariant \<open>settling\<close> that ties a completed turn to its Execution, and what a completion
    leaves in the tables. \<open>Backend_Spec\<close>: the ports a run may start on (by the specification of
    the matcher), the prompts of a run, the published codes. \<open>Backend_Examples\<close>,
    \<open>Backend_Claims\<close>: a completion evaluated, and the properties.

  Conventions. A string is a list of characters below 256. A dict is the list of its items in
  insertion order; a JSON column is the list sorted by key. A table is the list of its rows;
  statements check primary keys, UNIQUE columns and foreign keys and raise
  \<open>IntegrityError\<close>. SHA-256 is a parameter \<open>H\<close>; where a property needs it to be free of
  collisions that is a hypothesis. The clock and uuid4 are arbitrary sequences. Time stamps are
  aware. \<open>isinstance\<close> checks of annotated parameters are discharged by typing; untyped
  arguments are values of \<open>pyobj\<close>. The execution port, the object store and the
  model and credential registries are functions. The port writes the ledger, if at all, through
  the session records (\<open>port_by_records\<close>); the objects are content addressed, so what was
  published is read again under its digest (\<open>object_store\<close>). While a delegated run waits
  for its child, other threads act: \<open>polls\<close> is the list of their programs, one per poll, and
  its length is the number of polls before the time limit. Three definitions take fuel:
  \<open>json_loads\<close>, whose fuel is proved enough for every text the encoder writes;
  \<open>ancestry\<close>, which gets one more than the number of turns, enough because a walk visits a
  turn once; and \<open>cancel_descendants\<close>, whose depth stands for Python's recursion limit and for
  which one more than the number of turns is proved enough.

  Not modelled: interleaving of statements of two calls on the database (calls hold the write
  lock; only the run tracker, which holds none across its port calls, is interleaved), a provider
  that calls back into the Core during its own call, the session use cases that only list or read
  rows, floating point numbers in JSON, the threads of the execution back end (its prompt worker
  is the result of the run, its completion worker one program) and its \<open>stop\<close>,
  and the parts of the repository listed in the manifest as not modelled.
\<close>

end
